(* ===== verification/Prelude.thy ===== *)
theory Prelude
  imports Main
begin

text \<open>
  Shared ground of the development: the fragment of the JavaScript string library the
  sources use, decimal rendering of numbers, the application errors of
  \<^verbatim>\<open>src/src/utils/errors.ts\<close>, database transactions as functions from a database state to
  either an error or a result with the new state, and the list and option lemmas every
  component uses.

  A JavaScript string is modelled as a \<^typ>\<open>string\<close>: one \<^typ>\<open>char\<close> per UTF-16 code unit,
  identified by its position in Windows-1252 (the repertoire of the German and English
  texts the program handles, with the em dash at 151 and the ellipsis at 133). White
  space and lower-casing below are those of ECMAScript on that repertoire.
\<close>

named_theorems tx_simps \<open>unfolding of the transaction combinators\<close>
named_theorems js_defs \<open>definitions of the JavaScript string operations\<close>

section \<open>Strings\<close>

definition is_ws :: "char \<Rightarrow> bool" where
  "is_ws c \<longleftrightarrow> (let n = (of_char c :: nat) in (9 \<le> n \<and> n \<le> 13) \<or> n = 32 \<or> n = 160)"

definition lower_char :: "char \<Rightarrow> char" where
  "lower_char c =
     (let n = (of_char c :: nat) in
      if (65 \<le> n \<and> n \<le> 90) \<or> (192 \<le> n \<and> n \<le> 222 \<and> n \<noteq> 215) then char_of (n + 32)
      else if n = 138 \<or> n = 140 \<or> n = 142 then char_of (n + 16)
      else if n = 159 then char_of (255 :: nat)
      else c)"

definition js_lower :: "string \<Rightarrow> string" where
  "js_lower = map lower_char"

definition js_trim :: "string \<Rightarrow> string" where
  "js_trim s = rev (dropWhile is_ws (rev (dropWhile is_ws s)))"

definition starts_with :: "string \<Rightarrow> string \<Rightarrow> bool" where
  "starts_with p s \<longleftrightarrow> take (length p) s = p"

fun js_includes :: "string \<Rightarrow> string \<Rightarrow> bool" where
  "js_includes p [] \<longleftrightarrow> p = []"
| "js_includes p (c # cs) \<longleftrightarrow> starts_with p (c # cs) \<or> js_includes p cs"

text \<open>\<^verbatim>\<open>s.replace(/P+/g, ' ')\<close> for a character class \<open>P\<close>: every maximal run becomes one
  space. The flag says whether the previous character belonged to a run.\<close>

fun squeeze :: "(char \<Rightarrow> bool) \<Rightarrow> bool \<Rightarrow> string \<Rightarrow> string" where
  "squeeze P run [] = []"
| "squeeze P run (c # cs) =
     (if P c then (if run then squeeze P True cs else CHR '' '' # squeeze P True cs)
      else c # squeeze P False cs)"

definition collapse_ws :: "string \<Rightarrow> string" where
  "collapse_ws = squeeze is_ws False"

fun js_join :: "string \<Rightarrow> string list \<Rightarrow> string" where
  "js_join sep [] = []"
| "js_join sep [x] = x"
| "js_join sep (x # y # ys) = x @ sep @ js_join sep (y # ys)"

text \<open>\<^verbatim>\<open>s.split(p).join(r)\<close>: left-to-right replacement of the non-overlapping occurrences of
  a non-empty pattern.\<close>

function js_replace_all :: "string \<Rightarrow> string \<Rightarrow> string \<Rightarrow> string" where
  "js_replace_all p r [] = []"
| "js_replace_all p r (c # cs) =
     (if p \<noteq> [] \<and> starts_with p (c # cs) then r @ js_replace_all p r (drop (length p) (c # cs))
      else c # js_replace_all p r cs)"
  by pat_completeness auto
termination
  by (relation "measure (\<lambda>(p, r, s). length s)") (auto simp: neq_Nil_conv)

lemmas [js_defs] = is_ws_def lower_char_def js_lower_def js_trim_def starts_with_def
  collapse_ws_def

section \<open>Numbers as text\<close>

definition digit_char :: "nat \<Rightarrow> char" where
  "digit_char n = char_of (48 + n)"

fun show_nat :: "nat \<Rightarrow> string" where
  "show_nat n = (if n < 10 then [digit_char n] else show_nat (n div 10) @ [digit_char (n mod 10)])"

declare show_nat.simps [simp del]

definition show_int :: "int \<Rightarrow> string" where
  "show_int i = (if i < 0 then CHR ''-'' # show_nat (nat (- i)) else show_nat (nat i))"

text \<open>\<^verbatim>\<open>String(n).padStart(w, '0')\<close> for a non-negative number.\<close>

definition pad_num :: "nat \<Rightarrow> int \<Rightarrow> string" where
  "pad_num w i = (let s = show_int i in replicate (w - length s) CHR ''0'' @ s)"

definition show_bool :: "bool \<Rightarrow> string" where
  "show_bool b = (if b then ''true'' else ''false'')"

section \<open>JSON values\<close>

text \<open>A number that is not an integer is given by its text (\<open>JLit\<close>).\<close>

datatype json =
    JNull
  | JBool bool
  | JNum int
  | JLit string
  | JStr string
  | JArr "json list"
  | JObj "(string \<times> json) list"

definition jopt :: "string option \<Rightarrow> json" where
  "jopt x = (case x of None \<Rightarrow> JNull | Some s \<Rightarrow> JStr s)"

section \<open>Application errors\<close>

text \<open>The typed errors of \<^verbatim>\<open>utils/errors.ts\<close> that the modelled code throws, plain
  \<^verbatim>\<open>Error\<close>s, the \<^verbatim>\<open>RangeError\<close> of the internationalisation library for an unknown time zone,
  and the constraint violations raised by the database (named by the constraint).\<close>

datatype app_error =
    AppError string string
  | InvalidStateTransitionError string string
  | InvalidOutreachTransitionError string string
  | OutboundDisabledError string string
  | PlainError string
  | RangeError string
  | UniqueViolation string
  | ForeignKeyViolation string
  | CheckViolation string

section \<open>Transactions\<close>

text \<open>A unit of work: it either throws, and then the caller keeps the old state (the
  transaction is rolled back), or returns a result together with the committed state.\<close>

type_synonym ('s, 'a) tx = "'s \<Rightarrow> app_error + ('a \<times> 's)"

definition return_tx :: "'a \<Rightarrow> ('s, 'a) tx" where
  "return_tx x = (\<lambda>s. Inr (x, s))"

definition throw_tx :: "app_error \<Rightarrow> ('s, 'a) tx" where
  "throw_tx e = (\<lambda>s. Inl e)"

definition get_tx :: "('s \<Rightarrow> 'a) \<Rightarrow> ('s, 'a) tx" where
  "get_tx f = (\<lambda>s. Inr (f s, s))"

definition modify_tx :: "('s \<Rightarrow> 's) \<Rightarrow> ('s, unit) tx" where
  "modify_tx f = (\<lambda>s. Inr ((), f s))"

definition bind_tx :: "('s, 'a) tx \<Rightarrow> ('a \<Rightarrow> ('s, 'b) tx) \<Rightarrow> ('s, 'b) tx" where
  "bind_tx m f = (\<lambda>s. case m s of Inl e \<Rightarrow> Inl e | Inr (x, s') \<Rightarrow> f x s')"

definition then_tx :: "('s, 'a) tx \<Rightarrow> ('s, 'b) tx \<Rightarrow> ('s, 'b) tx" where
  "then_tx m n = bind_tx m (\<lambda>_. n)"

definition lift_tx :: "app_error + 'a \<Rightarrow> ('s, 'a) tx" where
  "lift_tx r = (\<lambda>s. case r of Inl e \<Rightarrow> Inl e | Inr x \<Rightarrow> Inr (x, s))"

definition when_tx :: "bool \<Rightarrow> ('s, unit) tx \<Rightarrow> ('s, unit) tx" where
  "when_tx b m = (if b then m else return_tx ())"

text \<open>A \<^verbatim>\<open>for\<close> loop whose body writes through the transaction.\<close>

fun for_tx :: "'a list \<Rightarrow> ('a \<Rightarrow> ('s, unit) tx) \<Rightarrow> ('s, unit) tx" where
  "for_tx [] body = return_tx ()"
| "for_tx (x # xs) body = then_tx (body x) (for_tx xs body)"

text \<open>Committing a unit of work: an error leaves the state as it was.\<close>

definition run_tx :: "('s, 'a) tx \<Rightarrow> 's \<Rightarrow> (app_error + 'a) \<times> 's" where
  "run_tx m s = (case m s of Inl e \<Rightarrow> (Inl e, s) | Inr (x, s') \<Rightarrow> (Inr x, s'))"

text \<open>For evaluation the combinators unfold to case distinctions, so that a bound computation is
  evaluated before what follows it.\<close>

declare return_tx_def [code_unfold] throw_tx_def [code_unfold] get_tx_def [code_unfold]
  bind_tx_def [code_unfold] then_tx_def [code_unfold] lift_tx_def [code_unfold]
  when_tx_def [code_unfold]

lemma return_tx_apply [simp]: "return_tx x s = Inr (x, s)"
  by (simp add: return_tx_def)

lemma throw_tx_apply [simp]: "throw_tx e s = Inl e"
  by (simp add: throw_tx_def)

lemma get_tx_apply [simp]: "get_tx f s = Inr (f s, s)"
  by (simp add: get_tx_def)

lemma modify_tx_apply [simp]: "modify_tx f s = Inr ((), f s)"
  by (simp add: modify_tx_def)

lemma lift_tx_Inr [simp]: "lift_tx (Inr x) s = Inr (x, s)"
  by (simp add: lift_tx_def)

lemma lift_tx_Inl [simp]: "lift_tx (Inl e) s = Inl e"
  by (simp add: lift_tx_def)

lemma bind_tx_Inr [simp]: "m s = Inr (x, s') \<Longrightarrow> bind_tx m f s = f x s'"
  by (simp add: bind_tx_def)

lemma bind_tx_Inl [simp]: "m s = Inl e \<Longrightarrow> bind_tx m f s = Inl e"
  by (simp add: bind_tx_def)

lemma then_tx_Inr [simp]: "m s = Inr (x, s') \<Longrightarrow> then_tx m n s = n s'"
  by (simp add: then_tx_def)

lemma then_tx_Inl [simp]: "m s = Inl e \<Longrightarrow> then_tx m n s = Inl e"
  by (simp add: then_tx_def)

lemma bind_tx_eq_Inr [tx_simps]:
  "bind_tx m f s = Inr (y, s'') \<longleftrightarrow> (\<exists>x s'. m s = Inr (x, s') \<and> f x s' = Inr (y, s''))"
  by (auto simp: bind_tx_def split: sum.splits prod.splits)

lemma then_tx_eq_Inr [tx_simps]:
  "then_tx m n s = Inr (y, s'') \<longleftrightarrow> (\<exists>x s'. m s = Inr (x, s') \<and> n s' = Inr (y, s''))"
  by (auto simp: then_tx_def tx_simps)

lemma lift_tx_eq_Inr [tx_simps]: "lift_tx r s = Inr (x, s') \<longleftrightarrow> r = Inr x \<and> s' = s"
  by (auto simp: lift_tx_def split: sum.splits)

lemma when_tx_eq_Inr [tx_simps]:
  "when_tx b m s = Inr (u, s') \<longleftrightarrow> (if b then m s = Inr (u, s') else s' = s)"
  by (auto simp: when_tx_def)

text \<open>A relation between states that every statement keeps is kept by sequencing and by
  loops: the induction behind every frame and invariant lemma of the services.\<close>

lemma for_tx_induct:
  assumes "for_tx xs body s = Inr (u, s')"
    and "R s s"
    and "\<And>x s1 s2 v. x \<in> set xs \<Longrightarrow> R s s1 \<Longrightarrow> body x s1 = Inr (v, s2) \<Longrightarrow> R s s2"
  shows "R s s'"
proof -
  have "\<lbrakk>for_tx ys body s1 = Inr (u, s'); R s s1; set ys \<subseteq> set xs\<rbrakk> \<Longrightarrow> R s s'" for ys s1
  proof (induction ys arbitrary: s1)
    case Nil
    then show ?case by simp
  next
    case (Cons y ys)
    from Cons.prems(1) obtain v s2
      where step: "body y s1 = Inr (v, s2)" and rest: "for_tx ys body s2 = Inr (u, s')"
      by (auto simp: tx_simps)
    have "R s s2"
      using assms(3) [OF _ Cons.prems(2) step] Cons.prems(3) by simp
    then show ?case
      using Cons.IH [OF rest] Cons.prems(3) by simp
  qed
  then show ?thesis
    using assms(1,2) by blast
qed

section \<open>Lists as tables\<close>

text \<open>Updating the rows selected by a \<^verbatim>\<open>WHERE\<close> clause.\<close>

definition update_where :: "('r \<Rightarrow> bool) \<Rightarrow> ('r \<Rightarrow> 'r) \<Rightarrow> 'r list \<Rightarrow> 'r list" where
  "update_where P f = map (\<lambda>r. if P r then f r else r)"

lemma update_where_Nil [simp]: "update_where P f [] = []"
  by (simp add: update_where_def)

lemma update_where_Cons [simp]:
  "update_where P f (r # rs) = (if P r then f r else r) # update_where P f rs"
  by (simp add: update_where_def)

lemma length_update_where [simp]: "length (update_where P f rs) = length rs"
  by (simp add: update_where_def)

lemma update_where_append [simp]:
  "update_where P f (rs @ ts) = update_where P f rs @ update_where P f ts"
  by (simp add: update_where_def)

lemma set_update_where:
  "set (update_where P f rs) = (\<lambda>r. if P r then f r else r) ` set rs"
  by (simp add: update_where_def)

lemma in_update_whereE:
  assumes "r \<in> set (update_where P f rs)"
  obtains "r \<in> set rs" "\<not> P r" | q where "q \<in> set rs" "P q" "r = f q"
  using assms by (auto simp: set_update_where split: if_splits)

lemma map_update_where_same:
  assumes "\<And>r. P r \<Longrightarrow> g (f r) = g r"
  shows "map g (update_where P f rs) = map g rs"
  using assms by (induction rs) auto

lemma find_update_where_keep:
  assumes "\<And>r. P r \<Longrightarrow> Q (f r) = Q r"
  shows "find Q (update_where P f rs) =
    map_option (\<lambda>r. if P r then f r else r) (find Q rs)"
  using assms by (induction rs) auto

lemma update_where_none: "(\<And>r. r \<in> set rs \<Longrightarrow> \<not> P r) \<Longrightarrow> update_where P f rs = rs"
  by (induction rs) auto

lemma find_append: "find P (xs @ ys) = (case find P xs of None \<Rightarrow> find P ys | Some x \<Rightarrow> Some x)"
  by (induction xs) auto

lemma find_SomeD: "find P xs = Some x \<Longrightarrow> x \<in> set xs \<and> P x"
  by (auto simp: find_Some_iff)

lemma find_NoneD: "find P xs = None \<Longrightarrow> x \<in> set xs \<Longrightarrow> \<not> P x"
  by (auto simp: find_None_iff)

lemma filter_empty_iff: "filter P xs = [] \<longleftrightarrow> (\<forall>x \<in> set xs. \<not> P x)"
  by (induction xs) auto

text \<open>In a table whose keys are distinct, the row found by its key is the row.\<close>

lemma find_key_unique:
  assumes "distinct (map key rs)" and "r \<in> set rs"
  shows "find (\<lambda>q. key q = key r) rs = Some r"
  using assms
proof (induction rs)
  case Nil
  then show ?case by simp
next
  case (Cons q rs)
  show ?case
  proof (cases "key q = key r")
    case True
    then have "r \<notin> set rs"
      using Cons.prems(1) by force
    then show ?thesis
      using Cons.prems(2) True by auto
  next
    case False
    then show ?thesis
      using Cons by auto
  qed
qed

section \<open>Facts on the string operations\<close>

lemma js_trim_Nil [simp]: "js_trim [] = []"
  by (simp add: js_trim_def)

lemma dropWhile_all: "dropWhile P xs = [] \<longleftrightarrow> (\<forall>x \<in> set xs. P x)"
  by (induction xs) auto

lemma dropWhile_idem [simp]: "dropWhile P (dropWhile P xs) = dropWhile P xs"
  by (induction xs) auto

lemma hd_dropWhile_not: "dropWhile P xs \<noteq> [] \<Longrightarrow> \<not> P (hd (dropWhile P xs))"
  by (induction xs) auto

lemma dropWhile_fix: "xs = [] \<or> \<not> P (hd xs) \<Longrightarrow> dropWhile P xs = xs"
  by (cases xs) auto

lemma last_rev_dropWhile: "xs \<noteq> [] \<Longrightarrow> \<not> P (last xs) \<Longrightarrow> dropWhile P (rev xs) = rev xs"
  by (rule dropWhile_fix) (simp add: hd_rev)

lemma hd_rev_dropWhile_rev:
  assumes "xs = [] \<or> \<not> P (hd xs)" and "ys = rev (dropWhile P (rev xs))"
  shows "ys = [] \<or> \<not> P (hd ys)"
proof (cases xs)
  case Nil
  with assms(2) show ?thesis by simp
next
  case (Cons x xs')
  with assms(1) have "\<not> P x" by simp
  then have "dropWhile P (rev xs' @ [x]) = dropWhile P (rev xs') @ [x]"
    by (induction "rev xs'" rule: rev_induct)
      (auto simp: dropWhile_append dropWhile_append3)
  with Cons assms(2) \<open>\<not> P x\<close> show ?thesis by simp
qed

lemma js_trim_idem [simp]: "js_trim (js_trim s) = js_trim s"
proof -
  let ?a = "dropWhile is_ws s"
  let ?b = "rev (dropWhile is_ws (rev ?a))"
  have "?a = [] \<or> \<not> is_ws (hd ?a)"
    using hd_dropWhile_not by blast
  then have "?b = [] \<or> \<not> is_ws (hd ?b)"
    by (rule hd_rev_dropWhile_rev) simp
  then have "dropWhile is_ws ?b = ?b"
    by (rule dropWhile_fix)
  then show ?thesis
    by (simp add: js_trim_def)
qed

lemma lower_char_idem [simp]: "lower_char (lower_char c) = lower_char c"
proof -
  have "(of_char c :: nat) < 256" by simp
  then show ?thesis
    by (auto simp: lower_char_def Let_def)
qed

lemma js_lower_idem [simp]: "js_lower (js_lower s) = js_lower s"
  by (simp add: js_lower_def)

lemma is_ws_lower [simp]: "is_ws (lower_char c) = is_ws c"
proof -
  have "(of_char c :: nat) < 256" by simp
  then show ?thesis
    by (auto simp: lower_char_def is_ws_def Let_def)
qed

lemma js_trim_lower: "js_trim (js_lower s) = js_lower (js_trim s)"
  by (simp add: js_trim_def js_lower_def dropWhile_map comp_def rev_map)

lemma js_lower_trim_idem [simp]:
  "js_lower (js_trim (js_lower (js_trim s))) = js_lower (js_trim s)"
  by (simp add: js_trim_lower)

lemma show_nat_nonempty [simp]: "show_nat n \<noteq> []"
  by (subst show_nat.simps) simp

end
