(* ===== verification/Lifecycle.thy ===== *)
theory Lifecycle
  imports Prelude
begin

text \<open>
  Lifecycles given by a table of allowed next states, the interface both state machines of
  the program (\<^verbatim>\<open>leads/state-machine.ts\<close> and \<^verbatim>\<open>outreach/state-machine.ts\<close>) offer to their
  services. A run is a list of states each of which the table allows after the one before.
  The locales state what a table may promise (states without exits, a signal that can
  always be recorded, milestones passed in increasing order, states reached through a gate
  only) and prove what follows for every run; the two machine theories interpret them.
\<close>

fun legal_run :: "('s \<Rightarrow> 's list) \<Rightarrow> 's \<Rightarrow> 's list \<Rightarrow> bool" where
  "legal_run allowed s [] \<longleftrightarrow> True"
| "legal_run allowed s (t # ts) \<longleftrightarrow> t \<in> set (allowed s) \<and> legal_run allowed t ts"

lemma legal_run_append:
  "legal_run allowed s (xs @ ys) \<longleftrightarrow>
     legal_run allowed s xs \<and> legal_run allowed (last (s # xs)) ys"
  by (induction xs arbitrary: s) auto

locale lifecycle =
  fixes allowed :: "'s \<Rightarrow> 's list"
    and absorbing :: "'s \<Rightarrow> bool"
  assumes absorbing_no_exit: "absorbing s \<Longrightarrow> allowed s = []"
begin

lemma absorbing_run: "absorbing s \<Longrightarrow> legal_run allowed s ts \<longleftrightarrow> ts = []"
  using absorbing_no_exit by (cases ts) auto

lemma absorbing_last:
  "legal_run allowed s (xs @ t # ys) \<Longrightarrow> absorbing t \<Longrightarrow> ys = []"
  by (simp add: legal_run_append absorbing_run)

end

locale suppressible_lifecycle = lifecycle allowed absorbing
  for allowed :: "'s \<Rightarrow> 's list" and absorbing :: "'s \<Rightarrow> bool" +
  fixes active :: "'s \<Rightarrow> bool"
    and suppressed :: 's
  assumes active_suppress: "active s \<Longrightarrow> suppressed \<in> set (allowed s)"
    and suppressed_absorbing: "absorbing suppressed"
begin

lemma suppress_any_time:
  assumes "legal_run allowed s ts" and "active (last (s # ts))"
  shows "legal_run allowed s (ts @ [suppressed])"
  using assms active_suppress by (simp add: legal_run_append)

lemma suppressed_final:
  "legal_run allowed s (xs @ suppressed # ys) \<Longrightarrow> ys = []"
  using suppressed_absorbing by (rule absorbing_last [rotated])

end

text \<open>Milestones: states of strictly growing rank, never revisited.\<close>

locale milestone_lifecycle =
  fixes allowed :: "'s \<Rightarrow> 's list"
    and rank :: "'s \<Rightarrow> nat"
    and milestone :: "'s \<Rightarrow> bool"
  assumes rank_mono: "t \<in> set (allowed s) \<Longrightarrow> rank s \<le> rank t"
    and rank_step: "t \<in> set (allowed s) \<Longrightarrow> milestone t \<Longrightarrow> rank t = Suc (rank s)"
begin

lemma rank_run: "legal_run allowed s ts \<Longrightarrow> t \<in> set ts \<Longrightarrow> rank s \<le> rank t"
proof (induction ts arbitrary: s)
  case Nil
  then show ?case by simp
next
  case (Cons u ts)
  then show ?case
    using rank_mono [of u s] by fastforce
qed

lemma rank_run_milestone:
  "legal_run allowed s ts \<Longrightarrow> t \<in> set ts \<Longrightarrow> milestone t \<Longrightarrow> rank s < rank t"
proof (induction ts arbitrary: s)
  case Nil
  then show ?case by simp
next
  case (Cons u ts)
  then show ?case
    using rank_mono [of u s] rank_step [of u s] by fastforce
qed

lemma milestones_increasing:
  "legal_run allowed s ts \<Longrightarrow> sorted_wrt (<) (map rank (filter milestone ts))"
  by (induction ts arbitrary: s) (auto intro: rank_run_milestone)

lemma milestones_distinct: "legal_run allowed s ts \<Longrightarrow> distinct (filter milestone ts)"
  using milestones_increasing [of s ts]
  by (auto simp: strict_sorted_iff distinct_map)

text \<open>No milestone is skipped: between two milestones that follow each other the rank grows
  by one, so the \<open>k\<close>-th milestone of a run from \<open>s\<close> has rank at least \<open>rank s + k\<close>.\<close>

lemma milestone_nth_rank:
  "legal_run allowed s ts \<Longrightarrow> k < length (filter milestone ts) \<Longrightarrow>
   rank s + k < rank (filter milestone ts ! k)"
proof (induction ts arbitrary: s k)
  case Nil
  then show ?case by simp
next
  case (Cons u ts)
  have step: "u \<in> set (allowed s)" and run: "legal_run allowed u ts"
    using Cons.prems(1) by simp_all
  show ?case
  proof (cases "milestone u")
    case True
    show ?thesis
    proof (cases k)
      case 0
      then show ?thesis using True rank_step [OF step True] by simp
    next
      case (Suc j)
      then have "rank u + j < rank (filter milestone ts ! j)"
        using Cons.IH [OF run] Cons.prems(2) True by simp
      then show ?thesis
        using True Suc rank_step [OF step True] by simp
    qed
  next
    case False
    then have "rank u + k < rank (filter milestone ts ! k)"
      using Cons.IH [OF run] Cons.prems(2) by simp
    then show ?thesis
      using False rank_mono [OF step] by simp
  qed
qed

lemma milestone_count:
  assumes "legal_run allowed s ts" and "\<And>t. milestone t \<Longrightarrow> rank t \<le> n"
  shows "rank s + length (filter milestone ts) \<le> max n (rank s)"
proof (cases "filter milestone ts = []")
  case True
  then show ?thesis by simp
next
  case False
  let ?k = "length (filter milestone ts) - 1"
  have k: "?k < length (filter milestone ts)"
    using False by simp
  have "filter milestone ts ! ?k \<in> set (filter milestone ts)"
    using k by (rule nth_mem)
  then have "rank (filter milestone ts ! ?k) \<le> n"
    using assms(2) by auto
  moreover have "rank s + ?k < rank (filter milestone ts ! ?k)"
    by (rule milestone_nth_rank [OF assms(1) k])
  ultimately show ?thesis
    using k by linarith
qed

end

text \<open>A gate: the states of \<open>inner\<close> are entered from the gate only.\<close>

locale gated_lifecycle =
  fixes allowed :: "'s \<Rightarrow> 's list"
    and inner :: "'s \<Rightarrow> bool"
    and gate :: 's
  assumes enter_gate: "t \<in> set (allowed s) \<Longrightarrow> inner t \<Longrightarrow> inner s \<or> s = gate"
begin

lemma gate_before_inner:
  "legal_run allowed s (xs @ t # ys) \<Longrightarrow> inner t \<Longrightarrow> \<not> inner s \<Longrightarrow> gate \<in> set (s # xs)"
proof (induction xs arbitrary: s)
  case Nil
  then show ?case using enter_gate by auto
next
  case (Cons u xs)
  then show ?case using enter_gate [of u s] by (cases "inner u") auto
qed

end

end
