(* ===== verification/Outreach_Machine.thy ===== *)
theory Outreach_Machine
  imports Lifecycle
begin

text \<open>
  The outreach lifecycle of \<^verbatim>\<open>src/src/domain/outreach/status.ts\<close>, \<^verbatim>\<open>state-machine.ts\<close> and
  \<^verbatim>\<open>sequence.ts\<close>: the statuses of one (lead, campaign, contact) participation, the happy
  path with the interrupts layered on top, and the mapping of the four-email sequence onto
  the statuses.
\<close>

section \<open>Statuses\<close>

datatype outreach_status =
    DRAFT_READY | AWAITING_APPROVAL | APPROVED_TO_SEND | INITIAL_SENT
  | FOLLOW_UP_1_DUE | FOLLOW_UP_1_SENT | FOLLOW_UP_2_DUE | FOLLOW_UP_2_SENT
  | FOLLOW_UP_3_DUE | FOLLOW_UP_3_SENT
  | REPLIED_POSITIVE | REPLIED_NEUTRAL | REPLIED_NEGATIVE
  | BOUNCED | UNSUBSCRIBED | DO_NOT_CONTACT | MEETING_BOOKED | CLOSED_WON | CLOSED_LOST

fun outreach_status_str :: "outreach_status \<Rightarrow> string" where
  "outreach_status_str DRAFT_READY = ''DRAFT_READY''"
| "outreach_status_str AWAITING_APPROVAL = ''AWAITING_APPROVAL''"
| "outreach_status_str APPROVED_TO_SEND = ''APPROVED_TO_SEND''"
| "outreach_status_str INITIAL_SENT = ''INITIAL_SENT''"
| "outreach_status_str FOLLOW_UP_1_DUE = ''FOLLOW_UP_1_DUE''"
| "outreach_status_str FOLLOW_UP_1_SENT = ''FOLLOW_UP_1_SENT''"
| "outreach_status_str FOLLOW_UP_2_DUE = ''FOLLOW_UP_2_DUE''"
| "outreach_status_str FOLLOW_UP_2_SENT = ''FOLLOW_UP_2_SENT''"
| "outreach_status_str FOLLOW_UP_3_DUE = ''FOLLOW_UP_3_DUE''"
| "outreach_status_str FOLLOW_UP_3_SENT = ''FOLLOW_UP_3_SENT''"
| "outreach_status_str REPLIED_POSITIVE = ''REPLIED_POSITIVE''"
| "outreach_status_str REPLIED_NEUTRAL = ''REPLIED_NEUTRAL''"
| "outreach_status_str REPLIED_NEGATIVE = ''REPLIED_NEGATIVE''"
| "outreach_status_str BOUNCED = ''BOUNCED''"
| "outreach_status_str UNSUBSCRIBED = ''UNSUBSCRIBED''"
| "outreach_status_str DO_NOT_CONTACT = ''DO_NOT_CONTACT''"
| "outreach_status_str MEETING_BOOKED = ''MEETING_BOOKED''"
| "outreach_status_str CLOSED_WON = ''CLOSED_WON''"
| "outreach_status_str CLOSED_LOST = ''CLOSED_LOST''"

definition OUTREACH_STATUSES :: "outreach_status list" where
  "OUTREACH_STATUSES =
     [DRAFT_READY, AWAITING_APPROVAL, APPROVED_TO_SEND, INITIAL_SENT, FOLLOW_UP_1_DUE,
      FOLLOW_UP_1_SENT, FOLLOW_UP_2_DUE, FOLLOW_UP_2_SENT, FOLLOW_UP_3_DUE, FOLLOW_UP_3_SENT,
      REPLIED_POSITIVE, REPLIED_NEUTRAL, REPLIED_NEGATIVE, BOUNCED, UNSUBSCRIBED,
      DO_NOT_CONTACT, MEETING_BOOKED, CLOSED_WON, CLOSED_LOST]"

definition OUTREACH_TERMINAL :: "outreach_status list" where
  "OUTREACH_TERMINAL = [UNSUBSCRIBED, DO_NOT_CONTACT, CLOSED_WON, CLOSED_LOST]"

definition OUTREACH_REPLY_STATUSES :: "outreach_status list" where
  "OUTREACH_REPLY_STATUSES = [REPLIED_POSITIVE, REPLIED_NEUTRAL, REPLIED_NEGATIVE]"

definition OUTREACH_SEND_BLOCKED :: "outreach_status list" where
  "OUTREACH_SEND_BLOCKED = [BOUNCED, UNSUBSCRIBED, DO_NOT_CONTACT, CLOSED_WON, CLOSED_LOST]"

definition OUTREACH_NO_FOLLOWUP :: "outreach_status list" where
  "OUTREACH_NO_FOLLOWUP =
     OUTREACH_REPLY_STATUSES @
     [BOUNCED, UNSUBSCRIBED, DO_NOT_CONTACT, MEETING_BOOKED, CLOSED_WON, CLOSED_LOST]"

definition isOutreachStatus :: "string \<Rightarrow> bool" where
  "isOutreachStatus value \<longleftrightarrow> value \<in> set (map outreach_status_str OUTREACH_STATUSES)"

lemmas outreach_sets = OUTREACH_TERMINAL_def OUTREACH_REPLY_STATUSES_def
  OUTREACH_SEND_BLOCKED_def OUTREACH_NO_FOLLOWUP_def

section \<open>Transitions\<close>

fun HAPPY_PATH :: "outreach_status \<Rightarrow> outreach_status list" where
  "HAPPY_PATH DRAFT_READY = [AWAITING_APPROVAL]"
| "HAPPY_PATH AWAITING_APPROVAL = [APPROVED_TO_SEND, DRAFT_READY]"
| "HAPPY_PATH APPROVED_TO_SEND = [INITIAL_SENT]"
| "HAPPY_PATH INITIAL_SENT = [FOLLOW_UP_1_DUE, MEETING_BOOKED, CLOSED_LOST]"
| "HAPPY_PATH FOLLOW_UP_1_DUE = [FOLLOW_UP_1_SENT, MEETING_BOOKED, CLOSED_LOST]"
| "HAPPY_PATH FOLLOW_UP_1_SENT = [FOLLOW_UP_2_DUE, MEETING_BOOKED, CLOSED_LOST]"
| "HAPPY_PATH FOLLOW_UP_2_DUE = [FOLLOW_UP_2_SENT, MEETING_BOOKED, CLOSED_LOST]"
| "HAPPY_PATH FOLLOW_UP_2_SENT = [FOLLOW_UP_3_DUE, MEETING_BOOKED, CLOSED_LOST]"
| "HAPPY_PATH FOLLOW_UP_3_DUE = [FOLLOW_UP_3_SENT, MEETING_BOOKED, CLOSED_LOST]"
| "HAPPY_PATH FOLLOW_UP_3_SENT = [MEETING_BOOKED, CLOSED_LOST]"
| "HAPPY_PATH REPLIED_POSITIVE = [MEETING_BOOKED, CLOSED_WON, CLOSED_LOST]"
| "HAPPY_PATH REPLIED_NEUTRAL = [MEETING_BOOKED, CLOSED_WON, CLOSED_LOST]"
| "HAPPY_PATH REPLIED_NEGATIVE = [CLOSED_LOST]"
| "HAPPY_PATH BOUNCED = []"
| "HAPPY_PATH MEETING_BOOKED = [CLOSED_WON, CLOSED_LOST]"
| "HAPPY_PATH UNSUBSCRIBED = []"
| "HAPPY_PATH DO_NOT_CONTACT = []"
| "HAPPY_PATH CLOSED_WON = []"
| "HAPPY_PATH CLOSED_LOST = []"

definition INTERRUPTS :: "outreach_status list" where
  "INTERRUPTS = [REPLIED_POSITIVE, REPLIED_NEUTRAL, REPLIED_NEGATIVE, BOUNCED, UNSUBSCRIBED,
     DO_NOT_CONTACT]"

definition isOutreachTerminal :: "outreach_status \<Rightarrow> bool" where
  "isOutreachTerminal status \<longleftrightarrow> status \<in> set OUTREACH_TERMINAL"

text \<open>The loop that appends the interrupts not already present.\<close>

fun push_interrupts ::
  "outreach_status \<Rightarrow> outreach_status list \<Rightarrow> outreach_status list \<Rightarrow> outreach_status list" where
  "push_interrupts s [] out = out"
| "push_interrupts s (i # is) out =
     push_interrupts s is (if i \<noteq> s \<and> i \<notin> set out then out @ [i] else out)"

definition allowedOutreachTransitions :: "outreach_status \<Rightarrow> outreach_status list" where
  "allowedOutreachTransitions s =
     (let base = HAPPY_PATH s in
      if isOutreachTerminal s then base else push_interrupts s INTERRUPTS base)"

definition canOutreachTransition :: "outreach_status \<Rightarrow> outreach_status \<Rightarrow> bool" where
  "canOutreachTransition s t \<longleftrightarrow> t \<in> set (allowedOutreachTransitions s)"

definition assertOutreachTransition :: "outreach_status \<Rightarrow> outreach_status \<Rightarrow> app_error + unit" where
  "assertOutreachTransition s t =
     (if canOutreachTransition s t then Inr ()
      else Inl (InvalidOutreachTransitionError (outreach_status_str s) (outreach_status_str t)))"

definition cancelsFollowups :: "outreach_status \<Rightarrow> bool" where
  "cancelsFollowups status \<longleftrightarrow> status \<in> set OUTREACH_NO_FOLLOWUP"

section \<open>The sequence\<close>

datatype followup_step = Step1 | Step2 | Step3

fun step_num :: "followup_step \<Rightarrow> int" where
  "step_num Step1 = 1"
| "step_num Step2 = 2"
| "step_num Step3 = 3"

definition FINAL_FOLLOWUP_STEP :: followup_step where
  "FINAL_FOLLOWUP_STEP = Step3"

definition FOLLOWUP_STEPS :: "followup_step list" where
  "FOLLOWUP_STEPS = [Step1, Step2, Step3]"

text \<open>The type guard \<^verbatim>\<open>isFollowupStep\<close>: the step a number denotes, if it is one.\<close>

definition to_followup_step :: "int \<Rightarrow> followup_step option" where
  "to_followup_step n =
     (if n = 1 then Some Step1 else if n = 2 then Some Step2 else if n = 3 then Some Step3 else None)"

definition isFollowupStep :: "int \<Rightarrow> bool" where
  "isFollowupStep n \<longleftrightarrow> n = 1 \<or> n = 2 \<or> n = 3"

definition isSequenceStep :: "int \<Rightarrow> bool" where
  "isSequenceStep n \<longleftrightarrow> n = 0 \<or> isFollowupStep n"

definition lessonEmailNumber :: "int \<Rightarrow> int" where
  "lessonEmailNumber step = step + 1"

definition lessonEmailLabel :: "int \<Rightarrow> string" where
  "lessonEmailLabel step =
     (if step = 0 then ''Outreach #1'' else ''Follow-up #'' @ show_int (lessonEmailNumber step))"

fun followupDueStatus :: "followup_step \<Rightarrow> outreach_status" where
  "followupDueStatus Step1 = FOLLOW_UP_1_DUE"
| "followupDueStatus Step2 = FOLLOW_UP_2_DUE"
| "followupDueStatus Step3 = FOLLOW_UP_3_DUE"

fun followupSentStatus :: "followup_step \<Rightarrow> outreach_status" where
  "followupSentStatus Step1 = FOLLOW_UP_1_SENT"
| "followupSentStatus Step2 = FOLLOW_UP_2_SENT"
| "followupSentStatus Step3 = FOLLOW_UP_3_SENT"

definition pendingFollowupStep :: "outreach_status \<Rightarrow> followup_step option" where
  "pendingFollowupStep status =
     (case status of FOLLOW_UP_1_DUE \<Rightarrow> Some Step1 | FOLLOW_UP_2_DUE \<Rightarrow> Some Step2
      | FOLLOW_UP_3_DUE \<Rightarrow> Some Step3 | _ \<Rightarrow> None)"

definition nextFollowupStep :: "followup_step \<Rightarrow> followup_step option" where
  "nextFollowupStep step =
     (if step_num step \<ge> step_num FINAL_FOLLOWUP_STEP then None
      else to_followup_step (step_num step + 1))"

fun statusBeforeFollowupDue :: "followup_step \<Rightarrow> outreach_status" where
  "statusBeforeFollowupDue Step1 = INITIAL_SENT"
| "statusBeforeFollowupDue Step2 = followupSentStatus Step1"
| "statusBeforeFollowupDue Step3 = followupSentStatus Step2"

section \<open>The table as a lifecycle\<close>

lemma set_push_interrupts:
  "set (push_interrupts s is out) = set out \<union> (set is - {s})"
  by (induction s "is" out rule: push_interrupts.induct) auto

lemma set_allowedOutreachTransitions:
  "set (allowedOutreachTransitions s) =
     set (HAPPY_PATH s) \<union> (if isOutreachTerminal s then {} else set INTERRUPTS - {s})"
  by (simp add: allowedOutreachTransitions_def set_push_interrupts)

lemma canOutreachTransition_iff:
  "canOutreachTransition s t \<longleftrightarrow>
     t \<in> set (HAPPY_PATH s) \<or> (\<not> isOutreachTerminal s \<and> t \<noteq> s \<and> t \<in> set INTERRUPTS)"
  by (auto simp: canOutreachTransition_def set_allowedOutreachTransitions)

lemma assertOutreachTransition_Inr [simp]:
  "assertOutreachTransition s t = Inr u \<longleftrightarrow> canOutreachTransition s t"
  by (simp add: assertOutreachTransition_def)

lemma to_followup_step_num [simp]: "to_followup_step (step_num st) = Some st"
  by (cases st) (simp_all add: to_followup_step_def)

lemma to_followup_step_SomeD: "to_followup_step n = Some st \<Longrightarrow> n = step_num st"
  by (auto simp: to_followup_step_def split: if_splits)

lemma step_num_inject [simp]: "step_num a = step_num b \<longleftrightarrow> a = b"
  by (cases a; cases b) simp_all

lemma pendingFollowupStep_iff:
  "pendingFollowupStep status = Some st \<longleftrightarrow> status = followupDueStatus st"
  by (cases status; cases st) (simp_all add: pendingFollowupStep_def)

interpretation outreach: suppressible_lifecycle allowedOutreachTransitions isOutreachTerminal
  "\<lambda>s. \<not> isOutreachTerminal s" DO_NOT_CONTACT
proof
  fix s
  show "isOutreachTerminal s \<Longrightarrow> allowedOutreachTransitions s = []"
    by (cases s) (simp_all add: allowedOutreachTransitions_def isOutreachTerminal_def outreach_sets)
  show "\<not> isOutreachTerminal s \<Longrightarrow> DO_NOT_CONTACT \<in> set (allowedOutreachTransitions s)"
    by (cases s)
      (simp_all add: set_allowedOutreachTransitions isOutreachTerminal_def outreach_sets INTERRUPTS_def)
  show "isOutreachTerminal DO_NOT_CONTACT"
    by (simp add: isOutreachTerminal_def outreach_sets)
qed

text \<open>The number of sequence emails a status says have gone out.\<close>

fun emails_out :: "outreach_status \<Rightarrow> nat" where
  "emails_out INITIAL_SENT = 1"
| "emails_out FOLLOW_UP_1_DUE = 1"
| "emails_out FOLLOW_UP_1_SENT = 2"
| "emails_out FOLLOW_UP_2_DUE = 2"
| "emails_out FOLLOW_UP_2_SENT = 3"
| "emails_out FOLLOW_UP_3_DUE = 3"
| "emails_out DRAFT_READY = 0"
| "emails_out AWAITING_APPROVAL = 0"
| "emails_out APPROVED_TO_SEND = 0"
| "emails_out _ = 4"

definition sent_status :: "outreach_status \<Rightarrow> bool" where
  "sent_status s \<longleftrightarrow> s \<in> {INITIAL_SENT, FOLLOW_UP_1_SENT, FOLLOW_UP_2_SENT, FOLLOW_UP_3_SENT}"

interpretation sequence: milestone_lifecycle allowedOutreachTransitions emails_out sent_status
proof
  fix s t
  show "t \<in> set (allowedOutreachTransitions s) \<Longrightarrow> emails_out s \<le> emails_out t"
    by (cases s) (auto simp: set_allowedOutreachTransitions INTERRUPTS_def split: if_splits)
  show "t \<in> set (allowedOutreachTransitions s) \<Longrightarrow> sent_status t \<Longrightarrow>
      emails_out t = Suc (emails_out s)"
    by (cases s)
      (auto simp: set_allowedOutreachTransitions INTERRUPTS_def sent_status_def split: if_splits)
qed

lemma sent_status_rank: "sent_status t \<Longrightarrow> emails_out t \<le> 4"
  by (auto simp: sent_status_def)

lemma no_followup_closed:
  assumes "canOutreachTransition s t" and "s \<in> set OUTREACH_NO_FOLLOWUP"
  shows "t \<in> set OUTREACH_NO_FOLLOWUP"
  using assms
  by (cases s) (auto simp: canOutreachTransition_iff outreach_sets INTERRUPTS_def)

lemma followup_hops:
  shows "canOutreachTransition (statusBeforeFollowupDue st) (followupDueStatus st)"
    and "canOutreachTransition (followupDueStatus st) (followupSentStatus st)"
  by (cases st; simp add: canOutreachTransition_iff)+

end
