(* ===== verification/Calendar.thy ===== *)
theory Calendar
  imports Prelude
begin

text \<open>
  Civil dates over the time values of ECMAScript (milliseconds since the epoch, here
  unbounded integers) and the time-zone helpers of \<^verbatim>\<open>src/src/domain/schedule/timezone.ts\<close>.
  The formulas for the day number of a year and the getters are those of the language
  standard; the zone database consulted through \<^verbatim>\<open>Intl.DateTimeFormat\<close> is a parameter.
  The lemmas show that dates and day numbers correspond one to one, that \<^verbatim>\<open>Date.UTC\<close>
  inverts the getters, and when a wall-clock time is resolved exactly.
\<close>

section \<open>Years, months and days\<close>

definition day_from_year :: "int \<Rightarrow> int" where
  "day_from_year y =
     365 * (y - 1970) + (y - 1969) div 4 - (y - 1901) div 100 + (y - 1601) div 400"

definition leap_year :: "int \<Rightarrow> bool" where
  "leap_year y \<longleftrightarrow> y mod 4 = 0 \<and> (y mod 100 \<noteq> 0 \<or> y mod 400 = 0)"

definition year_from_day :: "int \<Rightarrow> int" where
  "year_from_day n =
     (let e = 1970 + (400 * n) div 146097
      in if n < day_from_year e then e - 1
         else if day_from_year (e + 1) \<le> n then e + 1 else e)"

text \<open>Days before month \<open>m\<close> (0 = January) within a year.\<close>

definition month_start :: "bool \<Rightarrow> int \<Rightarrow> int" where
  "month_start lp m =
     (let x = (if lp then 1 else 0) in
      if m \<le> 0 then 0 else if m = 1 then 31 else if m = 2 then 59 + x
      else if m = 3 then 90 + x else if m = 4 then 120 + x else if m = 5 then 151 + x
      else if m = 6 then 181 + x else if m = 7 then 212 + x else if m = 8 then 243 + x
      else if m = 9 then 273 + x else if m = 10 then 304 + x else if m = 11 then 334 + x
      else 365 + x)"

definition month_of_day :: "bool \<Rightarrow> int \<Rightarrow> int" where
  "month_of_day lp d =
     (let x = (if lp then 1 else 0) in
      if d < 31 then 0 else if d < 59 + x then 1 else if d < 90 + x then 2
      else if d < 120 + x then 3 else if d < 151 + x then 4 else if d < 181 + x then 5
      else if d < 212 + x then 6 else if d < 243 + x then 7 else if d < 273 + x then 8
      else if d < 304 + x then 9 else if d < 334 + x then 10 else 11)"

record local_parts =
  lp_year :: int
  lp_month :: int
  lp_day :: int
  lp_hour :: int
  lp_minute :: int
  lp_second :: int

text \<open>\<^verbatim>\<open>Date.UTC\<close>: years 0 to 99 mean 1900 to 1999, months and days may overflow.\<close>

definition date_utc :: "int \<Rightarrow> int \<Rightarrow> int \<Rightarrow> int \<Rightarrow> int \<Rightarrow> int \<Rightarrow> int" where
  "date_utc y m0 d h mi s =
     (let y' = (if 0 \<le> y \<and> y \<le> 99 then 1900 + y else y);
          ym = y' + m0 div 12;
          dn = day_from_year ym + month_start (leap_year ym) (m0 mod 12) + (d - 1)
      in dn * 86400000 + h * 3600000 + mi * 60000 + s * 1000)"

definition day_of :: "int \<Rightarrow> int" where
  "day_of t = t div 86400000"

definition getUTCFullYear :: "int \<Rightarrow> int" where
  "getUTCFullYear t = year_from_day (day_of t)"

definition getUTCMonth :: "int \<Rightarrow> int" where
  "getUTCMonth t =
     (let y = getUTCFullYear t in month_of_day (leap_year y) (day_of t - day_from_year y))"

definition getUTCDate :: "int \<Rightarrow> int" where
  "getUTCDate t =
     (let y = getUTCFullYear t
      in day_of t - day_from_year y - month_start (leap_year y) (getUTCMonth t) + 1)"

definition getUTCDay :: "int \<Rightarrow> int" where
  "getUTCDay t = (day_of t + 4) mod 7"

definition utc_parts :: "int \<Rightarrow> local_parts" where
  "utc_parts t =
     \<lparr>lp_year = getUTCFullYear t, lp_month = getUTCMonth t + 1, lp_day = getUTCDate t,
      lp_hour = (t div 3600000) mod 24, lp_minute = (t div 60000) mod 60,
      lp_second = (t div 1000) mod 60\<rparr>"

text \<open>\<^verbatim>\<open>toISOString\<close>.\<close>

definition iso_year :: "int \<Rightarrow> string" where
  "iso_year y =
     (if 0 \<le> y \<and> y \<le> 9999 then pad_num 4 y
      else if y < 0 then CHR ''-'' # pad_num 6 (- y) else CHR ''+'' # pad_num 6 y)"

definition toISOString :: "int \<Rightarrow> string" where
  "toISOString t =
     (let p = utc_parts t
      in iso_year (lp_year p) @ ''-'' @ pad_num 2 (lp_month p) @ ''-'' @ pad_num 2 (lp_day p)
         @ ''T'' @ pad_num 2 (lp_hour p) @ '':'' @ pad_num 2 (lp_minute p) @ '':''
         @ pad_num 2 (lp_second p) @ ''.'' @ pad_num 3 (t mod 1000) @ ''Z'')"

section \<open>The correspondence of dates and day numbers\<close>

lemma div_bounds:
  assumes "0 < (k :: int)"
  shows "k * (a div k) \<le> a" "a < k * (a div k) + k"
  using assms pos_mod_sign [of k a] pos_mod_bound [of k a] mult_div_mod_eq [of k a]
  by linarith+

lemma div_bounds_year:
  fixes y :: int
  shows "4 * ((y - 1969) div 4) \<le> y - 1969" "y - 1969 < 4 * ((y - 1969) div 4) + 4"
    "100 * ((y - 1901) div 100) \<le> y - 1901" "y - 1901 < 100 * ((y - 1901) div 100) + 100"
    "400 * ((y - 1601) div 400) \<le> y - 1601" "y - 1601 < 400 * ((y - 1601) div 400) + 400"
  by (rule div_bounds, simp)+

lemma day_from_year_bounds:
  shows "146097 * y - 287811890 \<le> 400 * day_from_year y"
    and "400 * day_from_year y \<le> 146097 * y - 287810290"
  using div_bounds_year [of y] unfolding day_from_year_def by simp_all

lemma succ_div:
  assumes "0 < (k :: int)"
  shows "(a + 1) div k = a div k + (if (a + 1) mod k = 0 then 1 else 0)"
proof (cases "(a + 1) mod k = 0")
  case True
  then obtain q where q: "a + 1 = k * q"
    by (auto elim: dvdE simp: mod_eq_0_iff_dvd)
  then have "a = k * (q - 1) + (k - 1)"
    by (simp add: algebra_simps)
  then have "a div k = q - 1"
    using assms by (intro int_div_pos_eq [of a k "q - 1" "k - 1"]) auto
  with q True assms show ?thesis by simp
next
  case False
  define q r where "q = (a + 1) div k" and "r = (a + 1) mod k"
  have "0 \<le> r" "r < k" "a + 1 = k * q + r"
    using assms by (simp_all add: q_def r_def)
  moreover have "r \<noteq> 0"
    using False by (simp add: r_def)
  ultimately have "a div k = q"
    by (intro int_div_pos_eq [of a k q "r - 1"]) auto
  with False show ?thesis by (simp add: q_def)
qed

lemma mod_shift:
  fixes y :: int
  shows "(y - 1969 + 1) mod 4 = y mod 4" "(y - 1901 + 1) mod 100 = y mod 100"
    "(y - 1601 + 1) mod 400 = y mod 400"
  using mod_mult_self1 [of y "-492" 4] mod_mult_self1 [of y "-19" 100]
    mod_mult_self1 [of y "-4" 400] by simp_all

lemma mod_weaken:
  fixes y :: int
  shows "y mod 400 = 0 \<Longrightarrow> y mod 100 = 0" "y mod 100 = 0 \<Longrightarrow> y mod 4 = 0"
  using dvd_trans [of 100 400 y] dvd_trans [of 4 100 y] by (auto simp: mod_eq_0_iff_dvd)

lemma leap_arith:
  fixes y a b c :: int
  assumes "r \<Longrightarrow> q" and "q \<Longrightarrow> p"
  shows "365 * (y + 1 - 1970) + (a + (if p then 1 else 0)) - (b + (if q then 1 else 0))
    + (c + (if r then 1 else 0)) - (365 * (y - 1970) + a - b + c)
    = (if p \<and> (\<not> q \<or> r) then 366 else 365)"
  using assms by (cases p; cases q; cases r) simp_all

lemma days_in_year:
  "day_from_year (y + 1) - day_from_year y = (if leap_year y then 366 else 365)"
proof -
  have s: "y + 1 - 1969 = y - 1969 + 1" "y + 1 - 1901 = y - 1901 + 1"
    "y + 1 - 1601 = y - 1601 + 1" by simp_all
  have d: "(y + 1 - 1969) div 4 = (y - 1969) div 4 + (if y mod 4 = 0 then 1 else 0)"
    "(y + 1 - 1901) div 100 = (y - 1901) div 100 + (if y mod 100 = 0 then 1 else 0)"
    "(y + 1 - 1601) div 400 = (y - 1601) div 400 + (if y mod 400 = 0 then 1 else 0)"
    unfolding s by (subst succ_div, simp, simp only: mod_shift)+
  show ?thesis
    unfolding day_from_year_def leap_year_def d
    by (rule leap_arith) (simp_all only: mod_weaken)
qed

lemma day_from_year_strict: "day_from_year y < day_from_year (y + 1)"
  using days_in_year [of y] by (auto split: if_splits)

lemma year_from_day_bounds:
  "day_from_year (year_from_day n) \<le> n \<and> n < day_from_year (year_from_day n + 1)"
proof -
  define q where "q = (400 * n) div 146097"
  define e where "e = 1970 + q"
  have q: "146097 * q \<le> 400 * n" "400 * n < 146097 * q + 146097"
    unfolding q_def by (rule div_bounds, simp)+
  have e: "146097 * e = 287811090 + 146097 * q"
    by (simp add: e_def)
  have lo: "day_from_year (e - 1) \<le> n"
    using day_from_year_bounds(2) [of "e - 1"] e q by (simp add: algebra_simps)
  have hi: "n < day_from_year (e + 1 + 1)"
    using day_from_year_bounds(1) [of "e + 1 + 1"] e q by (simp add: algebra_simps)
  show ?thesis
    using lo hi unfolding year_from_day_def Let_def q_def [symmetric] e_def [symmetric] by auto
qed

lemma day_from_year_mono: "y \<le> z \<Longrightarrow> day_from_year y \<le> day_from_year z"
  using day_from_year_bounds(2) [of y] day_from_year_bounds(1) [of z] by (cases "y = z") auto

lemma year_from_day_unique:
  assumes "day_from_year y \<le> n" and "n < day_from_year (y + 1)"
  shows "year_from_day n = y"
proof (rule ccontr)
  assume neq: "year_from_day n \<noteq> y"
  then consider "year_from_day n + 1 \<le> y" | "y + 1 \<le> year_from_day n" by linarith
  then show False
    using year_from_day_bounds [of n] assms
      day_from_year_mono [of "year_from_day n + 1" y]
      day_from_year_mono [of "y + 1" "year_from_day n"]
    by cases linarith+
qed

lemma month_of_day_bounds:
  assumes "0 \<le> d" and "d < (if lp then 366 else 365)"
  shows "0 \<le> month_of_day lp d" "month_of_day lp d \<le> 11"
    "month_start lp (month_of_day lp d) \<le> d" "d < month_start lp (month_of_day lp d + 1)"
  using assms unfolding month_of_day_def month_start_def Let_def by (auto split: if_splits)

lemma month_int_cases:
  assumes "0 \<le> m" and "m \<le> (11 :: int)"
  obtains "m = 0" | "m = 1" | "m = 2" | "m = 3" | "m = 4" | "m = 5" | "m = 6" | "m = 7"
    | "m = 8" | "m = 9" | "m = 10" | "m = 11"
proof -
  have "m = 0 \<or> m = 1 \<or> m = 2 \<or> m = 3 \<or> m = 4 \<or> m = 5 \<or> m = 6 \<or> m = 7
      \<or> m = 8 \<or> m = 9 \<or> m = 10 \<or> m = 11"
    using assms by arith
  with that show thesis by blast
qed

lemma month_of_day_unique:
  assumes "0 \<le> m" "m \<le> 11" "month_start lp m \<le> d" "d < month_start lp (m + 1)"
  shows "month_of_day lp d = m"
  using assms by (cases m rule: month_int_cases)
    (auto simp: month_of_day_def month_start_def Let_def split: if_splits)

lemma month_start_range:
  assumes "0 \<le> m" "m \<le> 11"
  shows "0 \<le> month_start lp m" "month_start lp (m + 1) \<le> (if lp then 366 else 365)"
  using assms by (cases m rule: month_int_cases; simp add: month_start_def Let_def)+

text \<open>A civil date: month 1 to 12 and a day that the month has.\<close>

definition valid_date :: "int \<Rightarrow> int \<Rightarrow> int \<Rightarrow> bool" where
  "valid_date y m d \<longleftrightarrow>
     1 \<le> m \<and> m \<le> 12 \<and> 1 \<le> d \<and>
     d \<le> month_start (leap_year y) m - month_start (leap_year y) (m - 1)"

definition day_number :: "int \<Rightarrow> int \<Rightarrow> int \<Rightarrow> int" where
  "day_number y m d = day_from_year y + month_start (leap_year y) (m - 1) + (d - 1)"

lemma getUTC_of_day_number:
  assumes v: "valid_date y m d" and dn: "day_of t = day_number y m d"
  shows "getUTCFullYear t = y" "getUTCMonth t = m - 1" "getUTCDate t = d"
proof -
  let ?l = "leap_year y"
  have m: "0 \<le> m - 1" "m - 1 \<le> 11"
    and d: "1 \<le> d" "d \<le> month_start ?l (m - 1 + 1) - month_start ?l (m - 1)"
    using v by (auto simp: valid_date_def)
  note r = month_start_range [OF m, of ?l]
  show y: "getUTCFullYear t = y"
    unfolding getUTCFullYear_def dn
  proof (rule year_from_day_unique)
    show "day_from_year y \<le> day_number y m d"
      using r(1) d(1) by (simp add: day_number_def)
    show "day_number y m d < day_from_year (y + 1)"
      using r(2) d days_in_year [of y] by (auto simp: day_number_def split: if_splits)
  qed
  show mo: "getUTCMonth t = m - 1"
    unfolding getUTCMonth_def y Let_def dn
    by (rule month_of_day_unique [OF m]) (use d in \<open>auto simp: day_number_def\<close>)
  show "getUTCDate t = d"
    unfolding getUTCDate_def mo y Let_def dn by (simp add: day_number_def)
qed

lemma day_number_of_getUTC:
  "valid_date (getUTCFullYear t) (getUTCMonth t + 1) (getUTCDate t)"
  "day_number (getUTCFullYear t) (getUTCMonth t + 1) (getUTCDate t) = day_of t"
proof -
  let ?y = "getUTCFullYear t" and ?l = "leap_year (getUTCFullYear t)"
  let ?d = "day_of t - day_from_year ?y"
  have b: "0 \<le> ?d" "?d < (if ?l then 366 else 365)"
    using year_from_day_bounds [of "day_of t"] days_in_year [of ?y]
    by (auto simp: getUTCFullYear_def)
  have mo: "getUTCMonth t = month_of_day ?l ?d"
    by (simp add: getUTCMonth_def Let_def)
  note mb = month_of_day_bounds [OF b, folded mo]
  show "valid_date ?y (getUTCMonth t + 1) (getUTCDate t)"
    using mb by (auto simp: valid_date_def getUTCDate_def Let_def)
  show "day_number ?y (getUTCMonth t + 1) (getUTCDate t) = day_of t"
    by (simp add: day_number_def getUTCDate_def Let_def)
qed

lemma date_utc_eq:
  assumes "1 \<le> m" "m \<le> 12" and "\<not> (0 \<le> y \<and> y \<le> 99)"
  shows "date_utc y (m - 1) d h mi s =
    day_number y m d * 86400000 + h * 3600000 + mi * 60000 + s * 1000"
proof -
  have "(m - 1) div 12 = 0" "(m - 1) mod 12 = m - 1"
    using assms(1,2) by auto
  with assms(3) show ?thesis
    by (auto simp: date_utc_def Let_def day_number_def)
qed

lemma div_clock:
  fixes t :: int
  shows "t div 60000 = t div 1000 div 60" "t div 3600000 = t div 1000 div 60 div 60"
    "t div 86400000 = t div 1000 div 60 div 60 div 24"
  by (simp_all add: zdiv_zmult2_eq [symmetric])

text \<open>A wall-clock time of day.\<close>

definition valid_time :: "int \<Rightarrow> int \<Rightarrow> int \<Rightarrow> bool" where
  "valid_time h mi s \<longleftrightarrow> 0 \<le> h \<and> h \<le> 23 \<and> 0 \<le> mi \<and> mi \<le> 59 \<and> 0 \<le> s \<and> s \<le> 59"

lemma utc_parts_date_utc:
  assumes "valid_date y m d" "valid_time h mi s" "\<not> (0 \<le> y \<and> y \<le> 99)"
  shows "utc_parts (date_utc y (m - 1) d h mi s) =
    \<lparr>lp_year = y, lp_month = m, lp_day = d, lp_hour = h, lp_minute = mi, lp_second = s\<rparr>"
proof -
  let ?t = "date_utc y (m - 1) d h mi s"
  have t: "?t = day_number y m d * 86400000 + h * 3600000 + mi * 60000 + s * 1000"
    using assms by (intro date_utc_eq) (auto simp: valid_date_def)
  have tm: "0 \<le> h" "h \<le> 23" "0 \<le> mi" "mi \<le> 59" "0 \<le> s" "s \<le> 59"
    using assms(2) by (auto simp: valid_time_def)
  have "day_of ?t = day_number y m d"
    unfolding day_of_def t using tm by (intro int_div_pos_eq [where r = "h * 3600000 + mi * 60000 + s * 1000"]) auto
  note g = getUTC_of_day_number [OF assms(1) this]
  define dn where "dn = day_number y m d"
  have a: "?t div 1000 = ((dn * 24 + h) * 60 + mi) * 60 + s"
    unfolding t dn_def by simp
  have b: "?t div 60000 = (dn * 24 + h) * 60 + mi" "?t div 3600000 = dn * 24 + h"
    unfolding div_clock a using tm by simp_all
  have "(?t div 3600000) mod 24 = h" "(?t div 60000) mod 60 = mi" "(?t div 1000) mod 60 = s"
    unfolding a b using tm by (simp_all only: mod_mult_self3) simp_all
  then show ?thesis
    by (simp add: utc_parts_def g)
qed

lemma clock_sum:
  fixes t :: int
  shows "t div 86400000 * 86400000 + ((t div 3600000) mod 24) * 3600000
    + ((t div 60000) mod 60) * 60000 + ((t div 1000) mod 60) * 1000 = t - t mod 1000"
proof -
  define a where "a = t div 1000"
  have "t - t mod 1000 = a * 1000"
    unfolding a_def by (simp add: minus_mod_eq_div_mult)
  moreover have "a div 60 div 60 div 24 * 24 + a div 60 div 60 mod 24 = a div 60 div 60"
    "a div 60 div 60 * 60 + a div 60 mod 60 = a div 60" "a div 60 * 60 + a mod 60 = a"
    by simp_all
  ultimately show ?thesis
    unfolding div_clock a_def [symmetric] by linarith
qed

lemma date_utc_utc_parts:
  assumes "\<not> (0 \<le> lp_year (utc_parts t) \<and> lp_year (utc_parts t) \<le> 99)"
  shows "date_utc (lp_year (utc_parts t)) (lp_month (utc_parts t) - 1) (lp_day (utc_parts t))
    (lp_hour (utc_parts t)) (lp_minute (utc_parts t)) (lp_second (utc_parts t)) = t - t mod 1000"
proof -
  have v: "1 \<le> getUTCMonth t + 1" "getUTCMonth t + 1 \<le> 12"
    using day_number_of_getUTC(1) [of t] by (auto simp: valid_date_def)
  have "date_utc (getUTCFullYear t) (getUTCMonth t + 1 - 1) (getUTCDate t)
      ((t div 3600000) mod 24) ((t div 60000) mod 60) ((t div 1000) mod 60)
    = day_of t * 86400000 + ((t div 3600000) mod 24) * 3600000 + ((t div 60000) mod 60) * 60000
      + ((t div 1000) mod 60) * 1000"
    using assms v by (subst date_utc_eq) (simp_all add: utc_parts_def day_number_of_getUTC(2))
  also have "\<dots> = t - t mod 1000"
    unfolding day_of_def by (rule clock_sum)
  finally show ?thesis
    unfolding utc_parts_def local_parts.select_convs .
qed

end
