(* ===== verification/Timezone.thy ===== *)
theory Timezone
  imports Calendar
begin

text \<open>
  \<^verbatim>\<open>src/src/domain/schedule/timezone.ts\<close>. The IANA database behind
  \<^verbatim>\<open>Intl.DateTimeFormat\<close> is the parameter \<open>intl\<close>: for a zone name it recognises, the fields
  \<^verbatim>\<open>formatToParts\<close> yields for each instant (with \<^verbatim>\<open>hour12: false\<close> midnight may be printed as
  hour 24); \<^const>\<open>None\<close> where the constructor throws a \<^verbatim>\<open>RangeError\<close>. What the code relies on
  is that these fields are the civil fields of the instant moved by the zone's offset
  (\<open>zone_offset\<close>).
\<close>

type_synonym intl = "string \<Rightarrow> (int \<Rightarrow> local_parts) option"

type_synonym 'a res = "app_error + 'a"

definition bind_res :: "'a res \<Rightarrow> ('a \<Rightarrow> 'b res) \<Rightarrow> 'b res" where
  "bind_res r f = (case r of Inl e \<Rightarrow> Inl e | Inr x \<Rightarrow> f x)"

declare bind_res_def [code_unfold]

lemma bind_res_Inr [simp]: "bind_res (Inr x) f = f x"
  by (simp add: bind_res_def)

lemma bind_res_Inl [simp]: "bind_res (Inl e) f = Inl e"
  by (simp add: bind_res_def)

lemma bind_res_eq_Inr [tx_simps]:
  "bind_res r f = Inr y \<longleftrightarrow> (\<exists>x. r = Inr x \<and> f x = Inr y)"
  by (cases r) auto

definition isValidTimeZone :: "intl \<Rightarrow> string \<Rightarrow> bool" where
  "isValidTimeZone intl tz \<longleftrightarrow> js_trim tz \<noteq> [] \<and> intl tz \<noteq> None"

definition partsOf :: "intl \<Rightarrow> string \<Rightarrow> int \<Rightarrow> local_parts res" where
  "partsOf intl tz t =
     (case intl tz of None \<Rightarrow> Inl (RangeError tz)
      | Some f \<Rightarrow> Inr ((f t)\<lparr>lp_hour := lp_hour (f t) mod 24\<rparr>))"

definition date_of_parts :: "local_parts \<Rightarrow> int" where
  "date_of_parts p =
     date_utc (lp_year p) (lp_month p - 1) (lp_day p) (lp_hour p) (lp_minute p) (lp_second p)"

definition tzOffsetMs :: "intl \<Rightarrow> string \<Rightarrow> int \<Rightarrow> int res" where
  "tzOffsetMs intl tz t = bind_res (partsOf intl tz t) (\<lambda>p. Inr (date_of_parts p - t))"

definition iso_weekday :: "int \<Rightarrow> int" where
  "iso_weekday t = (if getUTCDay t = 0 then 7 else getUTCDay t)"

definition utcToLocal :: "intl \<Rightarrow> string \<Rightarrow> int \<Rightarrow> (local_parts \<times> int) res" where
  "utcToLocal intl tz t =
     bind_res (partsOf intl tz t)
       (\<lambda>p. Inr (p, iso_weekday (date_utc (lp_year p) (lp_month p - 1) (lp_day p) 0 0 0)))"

definition zonedWallClockToUtc ::
  "intl \<Rightarrow> string \<Rightarrow> int \<Rightarrow> int \<Rightarrow> int \<Rightarrow> int \<Rightarrow> int \<Rightarrow> int res" where
  "zonedWallClockToUtc intl tz y m d h mi =
     (let naive = date_utc y (m - 1) d h mi 0
      in bind_res (tzOffsetMs intl tz naive) (\<lambda>o1.
         bind_res (tzOffsetMs intl tz (naive - o1)) (\<lambda>o2.
         Inr (if o2 \<noteq> o1 then naive - o2 else naive - o1))))"

definition formatLocal :: "intl \<Rightarrow> string \<Rightarrow> int \<Rightarrow> string res" where
  "formatLocal intl tz t =
     bind_res (utcToLocal intl tz t) (\<lambda>(p, _).
       Inr (show_int (lp_year p) @ ''-'' @ pad_num 2 (lp_month p) @ ''-'' @ pad_num 2 (lp_day p)
            @ '' '' @ pad_num 2 (lp_hour p) @ '':'' @ pad_num 2 (lp_minute p)
            @ '' ('' @ tz @ '')''))"

section \<open>Zones given by an offset\<close>

text \<open>The documented behaviour of the platform for a recognised zone: local fields are the
  civil fields of the instant plus an offset of whole seconds.\<close>

definition zone_offset :: "intl \<Rightarrow> string \<Rightarrow> (int \<Rightarrow> int) \<Rightarrow> bool" where
  "zone_offset intl tz off \<longleftrightarrow>
     (\<exists>f. intl tz = Some f \<and>
       (\<forall>t. (f t)\<lparr>lp_hour := lp_hour (f t) mod 24\<rparr> = utc_parts (t + off t)
            \<and> off t mod 1000 = 0))"

lemma partsOf_zone: "zone_offset intl tz off \<Longrightarrow> partsOf intl tz t = Inr (utc_parts (t + off t))"
  by (auto simp: zone_offset_def partsOf_def)

text \<open>The century after the epoch of the calendar proper: years \<^verbatim>\<open>Date.UTC\<close> does not shift.\<close>

definition plain_year :: "int \<Rightarrow> bool" where
  "plain_year y \<longleftrightarrow> \<not> (0 \<le> y \<and> y \<le> 99)"

lemma tzOffsetMs_zone:
  assumes "zone_offset intl tz off" and "plain_year (getUTCFullYear (t + off t))"
    and "t mod 1000 = 0"
  shows "tzOffsetMs intl tz t = Inr (off t)"
proof -
  have "(t + off t) mod 1000 = 0"
    using assms(1,3) by (auto simp: zone_offset_def mod_add_eq [symmetric, of t])
  moreover have "lp_year (utc_parts (t + off t)) = getUTCFullYear (t + off t)"
    by (simp add: utc_parts_def)
  ultimately have "date_of_parts (utc_parts (t + off t)) = t + off t"
    using date_utc_utc_parts [of "t + off t"] assms(2)
    by (simp add: date_of_parts_def plain_year_def)
  then show ?thesis
    by (simp add: tzOffsetMs_def partsOf_zone [OF assms(1)])
qed

text \<open>The two offset readings of the conversion: at the naive instant, and at the first guess.\<close>

lemma zonedWallClockToUtc_zone:
  assumes z: "zone_offset intl tz off"
    and naive: "naive = date_utc y (m - 1) d h mi 0"
    and p1: "plain_year (getUTCFullYear (naive + off naive))"
    and p2: "plain_year (getUTCFullYear (naive - off naive + off (naive - off naive)))"
  shows "zonedWallClockToUtc intl tz y m d h mi = Inr (naive - off (naive - off naive))"
proof -
  have n: "naive mod 1000 = 0"
  proof -
    have "naive = 1000 * ((day_from_year ((if 0 \<le> y \<and> y \<le> 99 then 1900 + y else y) + (m - 1) div 12)
      + month_start (leap_year ((if 0 \<le> y \<and> y \<le> 99 then 1900 + y else y) + (m - 1) div 12))
          ((m - 1) mod 12) + (d - 1)) * 86400 + h * 3600 + mi * 60)"
      by (simp add: naive date_utc_def Let_def)
    then show ?thesis by simp
  qed
  have o: "off naive mod 1000 = 0"
    using z by (auto simp: zone_offset_def)
  have n': "(naive - off naive) mod 1000 = 0"
    using n o mod_diff_eq [of naive 1000 "off naive"] by simp
  show ?thesis
    unfolding zonedWallClockToUtc_def Let_def naive [symmetric]
      tzOffsetMs_zone [OF z p1 n] bind_res_Inr tzOffsetMs_zone [OF z p2 n']
    by simp
qed

text \<open>Reading the clock at the resolved instant gives back the requested wall clock exactly
  when the second offset reading is the offset in force there.\<close>

lemma utcToLocal_zonedWallClock:
  assumes z: "zone_offset intl tz off"
    and naive: "naive = date_utc y (m - 1) d h mi 0"
    and v: "valid_date y m d" "valid_time h mi 0" "plain_year y"
    and hit: "off (naive - o2) = o2"
  shows "utcToLocal intl tz (naive - o2) =
    Inr (\<lparr>lp_year = y, lp_month = m, lp_day = d, lp_hour = h, lp_minute = mi, lp_second = 0\<rparr>,
         iso_weekday (date_utc y (m - 1) d 0 0 0))"
proof -
  have "partsOf intl tz (naive - o2) = Inr (utc_parts naive)"
    using partsOf_zone [OF z, of "naive - o2"] hit by simp
  moreover have "utc_parts naive =
    \<lparr>lp_year = y, lp_month = m, lp_day = d, lp_hour = h, lp_minute = mi, lp_second = 0\<rparr>"
    unfolding naive using v by (intro utc_parts_date_utc) (auto simp: plain_year_def)
  ultimately show ?thesis
    by (simp add: utcToLocal_def)
qed

section \<open>Zones with one change of offset\<close>

definition step_offset :: "int \<Rightarrow> int \<Rightarrow> int \<Rightarrow> int \<Rightarrow> int" where
  "step_offset T a b t = (if t < T then a else b)"

text \<open>A spring-forward gap: the wall-clock readings between the old and the new local time of
  the transition never occur.\<close>

definition in_gap :: "int \<Rightarrow> int \<Rightarrow> int \<Rightarrow> int \<Rightarrow> bool" where
  "in_gap T a b naive \<longleftrightarrow> T + a \<le> naive \<and> naive < T + b"

lemma gap_resolution:
  assumes "a < b" and "in_gap T a b naive"
  shows "naive - step_offset T a b (naive - step_offset T a b naive) =
    (if naive < T then naive - b else naive - a)"
  using assms by (auto simp: step_offset_def in_gap_def)

text \<open>Outside the gap of a forward change every wall-clock time is hit exactly.\<close>

lemma no_gap_fix:
  assumes "a \<le> b" and "\<not> in_gap T a b naive"
  shows "step_offset T a b (naive - step_offset T a b (naive - step_offset T a b naive)) =
    step_offset T a b (naive - step_offset T a b naive)"
  using assms by (auto simp: step_offset_def in_gap_def)

text \<open>A database with a single zone, for concrete instances.\<close>

definition one_zone :: "string \<Rightarrow> (int \<Rightarrow> int) \<Rightarrow> intl" where
  "one_zone name off = (\<lambda>tz. if tz = name then Some (\<lambda>t. utc_parts (t + off t)) else None)"

lemma lp_hour_utc_parts: "(utc_parts t)\<lparr>lp_hour := lp_hour (utc_parts t) mod 24\<rparr> = utc_parts t"
  by (simp add: utc_parts_def)

lemma one_zone_offset:
  assumes "\<And>t. off t mod 1000 = 0"
  shows "zone_offset (one_zone name off) name off"
  using assms by (simp add: zone_offset_def one_zone_def lp_hour_utc_parts)

section \<open>From the epoch on\<close>

lemma day_number_ge:
  assumes "valid_date y m d" and "1970 \<le> y"
  shows "0 \<le> day_number y m d"
proof -
  have "0 \<le> day_from_year y"
  proof (cases "y = 1970")
    case True
    then show ?thesis by (simp add: day_from_year_def)
  next
    case False
    then show ?thesis
      using day_from_year_bounds(1) [of y] assms(2) by linarith
  qed
  moreover have "0 \<le> month_start (leap_year y) (m - 1)"
    by (simp add: month_start_def Let_def)
  ultimately show ?thesis
    using assms(1) by (simp add: day_number_def valid_date_def)
qed

lemma plain_year_from_1900:
  assumes "- 2208988800000 \<le> t"
  shows "plain_year (getUTCFullYear t)"
proof -
  have d: "- 25567 \<le> day_of t"
    using assms by (simp add: day_of_def)
  have "100 \<le> getUTCFullYear t"
  proof (rule ccontr)
    assume "\<not> 100 \<le> getUTCFullYear t"
    then have "146097 * (getUTCFullYear t + 1) \<le> 146097 * 100"
      by simp
    then have "day_from_year (getUTCFullYear t + 1) < - 25567"
      using day_from_year_bounds(2) [of "getUTCFullYear t + 1"] by simp
    moreover have "day_of t < day_from_year (getUTCFullYear t + 1)"
      using year_from_day_bounds [of "day_of t"] by (simp add: getUTCFullYear_def)
    ultimately show False using d by simp
  qed
  then show ?thesis by (simp add: plain_year_def)
qed

lemma naive_from_1970:
  assumes "valid_date y m d" "valid_time h mi 0" "1970 \<le> y"
  shows "0 \<le> date_utc y (m - 1) d h mi 0"
proof -
  have "1 \<le> m" "m \<le> 12" "\<not> (0 \<le> y \<and> y \<le> 99)"
    using assms(1,3) by (simp_all add: valid_date_def)
  then have "date_utc y (m - 1) d h mi 0 = day_number y m d * 86400000 + h * 3600000 + mi * 60000 + 0 * 1000"
    by (rule date_utc_eq)
  moreover have "0 \<le> h" "0 \<le> mi"
    using assms(2) by (simp_all add: valid_time_def)
  ultimately show ?thesis
    using day_number_ge [OF assms(1,3)] by linarith
qed

text \<open>A zone in which every wall-clock time exists: what the clock shows at the resolved instant is
  what was asked for.\<close>

definition exact_clock :: "intl \<Rightarrow> string \<Rightarrow> bool" where
  "exact_clock intl tz \<longleftrightarrow> (\<forall>y m d h mi t. valid_date y m d \<longrightarrow> valid_time h mi 0 \<longrightarrow> 1970 \<le> y \<longrightarrow>
     zonedWallClockToUtc intl tz y m d h mi = Inr t \<longrightarrow>
     utcToLocal intl tz t =
       Inr (\<lparr>lp_year = y, lp_month = m, lp_day = d, lp_hour = h, lp_minute = mi, lp_second = 0\<rparr>,
            iso_weekday (date_utc y (m - 1) d 0 0 0)))"

lemma exact_clock_fixed:
  assumes z: "zone_offset intl tz (\<lambda>_. c)" and c: "\<bar>c\<bar> \<le> 86400000"
  shows "exact_clock intl tz"
  unfolding exact_clock_def
proof (intro allI impI)
  fix y m d h mi t
  assume v: "valid_date y m d" "valid_time h mi 0" "1970 \<le> y"
    and t: "zonedWallClockToUtc intl tz y m d h mi = Inr t"
  let ?naive = "date_utc y (m - 1) d h mi 0"
  have n: "0 \<le> ?naive" by (rule naive_from_1970 [OF v])
  have "zonedWallClockToUtc intl tz y m d h mi = Inr (?naive - c)"
    using n c by (intro zonedWallClockToUtc_zone [OF z refl] plain_year_from_1900) linarith+
  moreover have "plain_year y" using v(3) by (simp add: plain_year_def)
  ultimately show "utcToLocal intl tz t =
       Inr (\<lparr>lp_year = y, lp_month = m, lp_day = d, lp_hour = h, lp_minute = mi, lp_second = 0\<rparr>,
            iso_weekday (date_utc y (m - 1) d 0 0 0))"
    using utcToLocal_zonedWallClock [OF z refl v(1,2), of c] t by simp
qed

end
