(* ===== verification/Followups.thy ===== *)
theory Followups
  imports Outreach_Machine Timezone
begin

text \<open>
  The pure decisions about follow-ups: due dates and blocking reasons
  (\<^verbatim>\<open>src/src/domain/outreach/followups.ts\<close>), the suppression re-check before a send
  (\<^verbatim>\<open>followup-send-gate.ts\<close>) and the decision to promote a record to \<open>FOLLOW_UP_n_DUE\<close>
  (\<^verbatim>\<open>followup-due-promotion.ts\<close>, \<^verbatim>\<open>decideFollowupPromotion\<close>).
\<close>

section \<open>Due dates\<close>

record sequence_policy =
  step1DelayDays :: int
  step2DelayDays :: int
  step3DelayDays :: int
  dueHourLocal :: int

definition DEFAULT_SEQUENCE_POLICY :: sequence_policy where
  "DEFAULT_SEQUENCE_POLICY =
     \<lparr>step1DelayDays = 2, step2DelayDays = 2, step3DelayDays = 3, dueHourLocal = 9\<rparr>"

fun stepDelayDays :: "followup_step \<Rightarrow> sequence_policy \<Rightarrow> int" where
  "stepDelayDays Step1 policy = step1DelayDays policy"
| "stepDelayDays Step2 policy = step2DelayDays policy"
| "stepDelayDays Step3 policy = step3DelayDays policy"

definition computeFollowupDueUtc ::
  "intl \<Rightarrow> int \<Rightarrow> followup_step \<Rightarrow> string \<Rightarrow> sequence_policy \<Rightarrow> int res" where
  "computeFollowupDueUtc intl previousSentAtMs step timezone policy =
     (let delayDays = stepDelayDays step policy
      in bind_res (utcToLocal intl timezone previousSentAtMs) (\<lambda>(loc, _).
         let advanced = date_utc (lp_year loc) (lp_month loc - 1) (lp_day loc + delayDays) 0 0 0
         in zonedWallClockToUtc intl timezone (getUTCFullYear advanced) (getUTCMonth advanced + 1)
              (getUTCDate advanced) (dueHourLocal policy) 0))"

definition overdueDays :: "int \<Rightarrow> int \<Rightarrow> int" where
  "overdueDays dueAtMs nowMs = (if nowMs \<le> dueAtMs then 0 else (nowMs - dueAtMs) div 86400000)"

definition isDue :: "int \<Rightarrow> int \<Rightarrow> bool" where
  "isDue dueAtMs nowMs \<longleftrightarrow> nowMs \<ge> dueAtMs"

definition followupAllowedForStatus :: "outreach_status \<Rightarrow> bool" where
  "followupAllowedForStatus status \<longleftrightarrow> status \<notin> set OUTREACH_NO_FOLLOWUP"

datatype blocked_reason =
  R_REPLY_DETECTED | R_BOUNCED | R_UNSUBSCRIBED | R_DO_NOT_CONTACT | R_MEETING_BOOKED | R_CLOSED

fun blocked_reason_str :: "blocked_reason \<Rightarrow> string" where
  "blocked_reason_str R_REPLY_DETECTED = ''REPLY_DETECTED''"
| "blocked_reason_str R_BOUNCED = ''BOUNCED''"
| "blocked_reason_str R_UNSUBSCRIBED = ''UNSUBSCRIBED''"
| "blocked_reason_str R_DO_NOT_CONTACT = ''DO_NOT_CONTACT''"
| "blocked_reason_str R_MEETING_BOOKED = ''MEETING_BOOKED''"
| "blocked_reason_str R_CLOSED = ''CLOSED''"

definition followupBlockedReason :: "outreach_status \<Rightarrow> blocked_reason option" where
  "followupBlockedReason status =
     (case status of
        REPLIED_POSITIVE \<Rightarrow> Some R_REPLY_DETECTED
      | REPLIED_NEUTRAL \<Rightarrow> Some R_REPLY_DETECTED
      | REPLIED_NEGATIVE \<Rightarrow> Some R_REPLY_DETECTED
      | BOUNCED \<Rightarrow> Some R_BOUNCED
      | UNSUBSCRIBED \<Rightarrow> Some R_UNSUBSCRIBED
      | DO_NOT_CONTACT \<Rightarrow> Some R_DO_NOT_CONTACT
      | MEETING_BOOKED \<Rightarrow> Some R_MEETING_BOOKED
      | CLOSED_WON \<Rightarrow> Some R_CLOSED
      | CLOSED_LOST \<Rightarrow> Some R_CLOSED
      | _ \<Rightarrow> None)"

section \<open>The gate before a send\<close>

datatype send_block_reason =
    Blocked blocked_reason
  | NOT_AWAITING_FOLLOWUP
  | STEP_MISMATCH
  | NO_OUTREACH_RECORD

fun send_block_str :: "send_block_reason \<Rightarrow> string" where
  "send_block_str (Blocked b) = blocked_reason_str b"
| "send_block_str NOT_AWAITING_FOLLOWUP = ''NOT_AWAITING_FOLLOWUP''"
| "send_block_str STEP_MISMATCH = ''STEP_MISMATCH''"
| "send_block_str NO_OUTREACH_RECORD = ''NO_OUTREACH_RECORD''"

datatype followup_send_decision =
    SendAllowed followup_step
  | SendDenied send_block_reason string

record followup_send_snapshot =
  snap_status :: "outreach_status option"
  snap_doNotContact :: bool
  preparedStep :: followup_step

definition checkFollowupSendAllowed :: "followup_send_snapshot \<Rightarrow> followup_send_decision" where
  "checkFollowupSendAllowed snap =
     (case snap_status snap of
        None \<Rightarrow> SendDenied NO_OUTREACH_RECORD ''no outreach record for this send''
      | Some status \<Rightarrow>
          if snap_doNotContact snap
          then SendDenied (Blocked R_DO_NOT_CONTACT) ''contact is marked do-not-contact''
          else case followupBlockedReason status of
            Some blocked \<Rightarrow>
              SendDenied (Blocked blocked) (''outreach record is '' @ outreach_status_str status)
          | None \<Rightarrow>
              (case pendingFollowupStep status of
                 None \<Rightarrow> SendDenied NOT_AWAITING_FOLLOWUP
                   (''outreach record is '' @ outreach_status_str status
                    @ '' and is not awaiting a follow-up'')
               | Some step \<Rightarrow>
                   if step \<noteq> preparedStep snap
                   then SendDenied STEP_MISMATCH
                     (''prepared follow-up is step '' @ show_int (step_num (preparedStep snap))
                      @ '' but the record awaits step '' @ show_int (step_num step))
                   else SendAllowed step))"

section \<open>The promotion decision\<close>

datatype followup_status = DUE | CANCELLED | POSTPONED | F_SENT

fun followup_status_str :: "followup_status \<Rightarrow> string" where
  "followup_status_str DUE = ''DUE''"
| "followup_status_str CANCELLED = ''CANCELLED''"
| "followup_status_str POSTPONED = ''POSTPONED''"
| "followup_status_str F_SENT = ''SENT''"

record promotion_candidate =
  pc_followupId :: string
  pc_outreachRecordId :: string
  pc_leadId :: string
  pc_step :: int
  pc_followupStatus :: followup_status
  pc_dueAtMs :: int
  pc_recordStatus :: "outreach_status option"
  pc_doNotContact :: bool

datatype promotion_skip_reason =
  UNKNOWN_STEP | FOLLOWUP_NOT_ACTIVE | NOT_YET_DUE | SKIP_NO_OUTREACH_RECORD | STATUS_MISMATCH

fun skip_reason_str :: "promotion_skip_reason \<Rightarrow> string" where
  "skip_reason_str UNKNOWN_STEP = ''UNKNOWN_STEP''"
| "skip_reason_str FOLLOWUP_NOT_ACTIVE = ''FOLLOWUP_NOT_ACTIVE''"
| "skip_reason_str NOT_YET_DUE = ''NOT_YET_DUE''"
| "skip_reason_str SKIP_NO_OUTREACH_RECORD = ''NO_OUTREACH_RECORD''"
| "skip_reason_str STATUS_MISMATCH = ''STATUS_MISMATCH''"

datatype promotion_action =
    PROMOTE followup_step outreach_status outreach_status
  | ALREADY_DUE string
  | SKIP promotion_skip_reason string
  | BLOCKED blocked_reason string

definition decideFollowupPromotion :: "promotion_candidate \<Rightarrow> int \<Rightarrow> promotion_action" where
  "decideFollowupPromotion c nowMs =
     (case to_followup_step (pc_step c) of
        None \<Rightarrow> SKIP UNKNOWN_STEP (''step '' @ show_int (pc_step c) @ '' is not a follow-up step'')
      | Some st \<Rightarrow>
          if pc_followupStatus c \<noteq> DUE
          then SKIP FOLLOWUP_NOT_ACTIVE
            (''follow-up row is '' @ followup_status_str (pc_followupStatus c) @ '', not DUE'')
          else if pc_dueAtMs c > nowMs
          then SKIP NOT_YET_DUE
            (''due at '' @ toISOString (pc_dueAtMs c) @ '', now '' @ toISOString nowMs)
          else case pc_recordStatus c of
            None \<Rightarrow> SKIP SKIP_NO_OUTREACH_RECORD ''no outreach record for this follow-up''
          | Some recordStatus \<Rightarrow>
              if pc_doNotContact c
              then BLOCKED R_DO_NOT_CONTACT ''contact is marked do-not-contact''
              else case followupBlockedReason recordStatus of
                Some blocked \<Rightarrow>
                  BLOCKED blocked (''outreach record is '' @ outreach_status_str recordStatus)
              | None \<Rightarrow>
                  if recordStatus = followupDueStatus st
                  then ALREADY_DUE
                    (''outreach record is already '' @ outreach_status_str (followupDueStatus st))
                  else if recordStatus \<noteq> statusBeforeFollowupDue st
                  then SKIP STATUS_MISMATCH
                    (''step '' @ show_int (pc_step c) @ '' requires the record to be ''
                     @ outreach_status_str (statusBeforeFollowupDue st) @ '', but it is ''
                     @ outreach_status_str recordStatus)
                  else PROMOTE st (statusBeforeFollowupDue st) (followupDueStatus st))"

section \<open>Lemmas\<close>

lemma followupBlockedReason_None:
  "followupBlockedReason status = None \<longleftrightarrow> followupAllowedForStatus status"
  by (cases status)
    (simp_all add: followupBlockedReason_def followupAllowedForStatus_def outreach_sets)

lemma followupBlockedReason_due [simp]:
  "followupBlockedReason (followupDueStatus st) = None"
  "followupBlockedReason (statusBeforeFollowupDue st) = None"
  by (cases st; simp add: followupBlockedReason_def)+

lemma before_due_not_due [simp]: "statusBeforeFollowupDue st \<noteq> followupDueStatus st'"
  by (cases st; cases st') simp_all

lemma followupDueStatus_inject [simp]: "followupDueStatus a = followupDueStatus b \<longleftrightarrow> a = b"
  by (cases a; cases b) simp_all

lemma pendingFollowupStep_due [simp]: "pendingFollowupStep (followupDueStatus st) = Some st"
  by (simp add: pendingFollowupStep_iff)

lemma checkFollowupSendAllowed_iff:
  "checkFollowupSendAllowed snap = SendAllowed st \<longleftrightarrow>
     snap_status snap = Some (followupDueStatus st) \<and> \<not> snap_doNotContact snap
     \<and> preparedStep snap = st"
  by (auto simp: checkFollowupSendAllowed_def pendingFollowupStep_iff simp del: append.simps
      split: option.splits if_splits)

lemma to_followup_step_cases:
  obtains (step) st where "to_followup_step n = Some st" "n = step_num st"
  | (none) "to_followup_step n = None" "\<And>st. n \<noteq> step_num st"
proof (cases "to_followup_step n")
  case None
  then have "n \<noteq> step_num st" for st
    by (cases st) (auto simp: to_followup_step_def split: if_splits)
  with None show ?thesis by (rule none)
next
  case (Some st)
  then show ?thesis by (intro step to_followup_step_SomeD)
qed

lemma decideFollowupPromotion_PROMOTE:
  "decideFollowupPromotion c nowMs = PROMOTE st s t \<longleftrightarrow>
     pc_step c = step_num st \<and> pc_followupStatus c = DUE \<and> pc_dueAtMs c \<le> nowMs
     \<and> pc_recordStatus c = Some s \<and> \<not> pc_doNotContact c
     \<and> s = statusBeforeFollowupDue st \<and> t = followupDueStatus st"
proof (cases "pc_step c" rule: to_followup_step_cases)
  case (step st')
  show ?thesis
    unfolding decideFollowupPromotion_def step
    by (auto simp del: append.simps split: option.splits)
next
  case none
  then show ?thesis
    unfolding decideFollowupPromotion_def by (simp del: append.simps)
qed

end
