(* ===== verification/Unit_of_Work.thy ===== *)
theory Unit_of_Work
  imports Prelude
begin

text \<open>
  What the services rely on of the unit of work and of the event logs behind it
  (\<^verbatim>\<open>OutreachUnitOfWork\<close>, \<^verbatim>\<open>LeadUnitOfWork\<close> and their \<^verbatim>\<open>appendEvent\<close> ports), as locales:
  a relation between states that statements keep and that therefore every transaction
  built from them keeps (\<open>frame\<close>), a log whose entries are numbered per owner
  (\<open>event_log\<close>), and a system of commands run one after the other, each in its own
  transaction (\<open>command_system\<close>).
\<close>

named_theorems frame_intros \<open>statements and combinators that keep the framed relations\<close>

text \<open>Every successful run of a transaction relates its initial and its final state.\<close>

definition ensures :: "('s \<Rightarrow> 's \<Rightarrow> bool) \<Rightarrow> ('s, 'a) tx \<Rightarrow> bool" where
  "ensures R m \<longleftrightarrow> (\<forall>s x s'. m s = Inr (x, s') \<longrightarrow> R s s')"

lemma ensuresI: "(\<And>s x s'. m s = Inr (x, s') \<Longrightarrow> R s s') \<Longrightarrow> ensures R m"
  by (simp add: ensures_def)

lemma ensuresD: "ensures R m \<Longrightarrow> m s = Inr (x, s') \<Longrightarrow> R s s'"
  by (simp add: ensures_def)

lemma ensures_conj: "ensures R m \<Longrightarrow> ensures Q m \<Longrightarrow> ensures (\<lambda>s s'. R s s' \<and> Q s s') m"
  by (simp add: ensures_def)

lemma ensures_weaken: "ensures R m \<Longrightarrow> (\<And>s s'. R s s' \<Longrightarrow> Q s s') \<Longrightarrow> ensures Q m"
  by (auto simp: ensures_def)

locale frame =
  fixes R :: "'s \<Rightarrow> 's \<Rightarrow> bool"
  assumes frame_refl: "R s s"
    and frame_trans: "R s t \<Longrightarrow> R t u \<Longrightarrow> R s u"
begin

lemma ensures_return [frame_intros]: "ensures R (return_tx x)"
  by (rule ensuresI) (simp add: frame_refl)

lemma ensures_throw [frame_intros]: "ensures R (throw_tx e)"
  by (rule ensuresI) simp

lemma ensures_get [frame_intros]: "ensures R (get_tx f)"
  by (rule ensuresI) (simp add: frame_refl)

lemma ensures_lift [frame_intros]: "ensures R (lift_tx r)"
  by (rule ensuresI) (auto simp: tx_simps frame_refl)

lemma ensures_bind [frame_intros]:
  "ensures R m \<Longrightarrow> (\<And>x. ensures R (f x)) \<Longrightarrow> ensures R (bind_tx m f)"
  unfolding ensures_def tx_simps using frame_trans by blast

lemma ensures_then [frame_intros]:
  "ensures R m \<Longrightarrow> ensures R n \<Longrightarrow> ensures R (then_tx m n)"
  unfolding ensures_def tx_simps using frame_trans by blast

lemma ensures_when [frame_intros]: "(b \<Longrightarrow> ensures R m) \<Longrightarrow> ensures R (when_tx b m)"
  by (simp add: when_tx_def ensures_return)

lemma ensures_if [frame_intros]:
  "(b \<Longrightarrow> ensures R m) \<Longrightarrow> (\<not> b \<Longrightarrow> ensures R n) \<Longrightarrow> ensures R (if b then m else n)"
  by simp

lemma ensures_option [frame_intros]:
  "ensures R m \<Longrightarrow> (\<And>y. x = Some y \<Longrightarrow> ensures R (f y)) \<Longrightarrow>
   ensures R (case x of None \<Rightarrow> m | Some y \<Rightarrow> f y)"
  by (cases x) simp_all

lemma ensures_prod [frame_intros]:
  "(\<And>a b. x = (a, b) \<Longrightarrow> ensures R (f a b)) \<Longrightarrow> ensures R (case x of (a, b) \<Rightarrow> f a b)"
  by (cases x) simp

lemma ensures_for [frame_intros]:
  assumes "\<And>x. x \<in> set xs \<Longrightarrow> ensures R (body x)"
  shows "ensures R (for_tx xs body)"
proof (rule ensuresI)
  fix s u s'
  assume "for_tx xs body s = Inr (u, s')"
  then show "R s s'"
  proof (rule for_tx_induct)
    show "R s s" by (rule frame_refl)
    show "R s s2" if "x \<in> set xs" "R s s1" "body x s1 = Inr (v, s2)" for x s1 s2 v
      using frame_trans [OF that(2) ensuresD [OF assms [OF that(1)] that(3)]] .
  qed
qed

lemma ensures_sequel:
  assumes "ensures R m" and "m s = Inr (x, s')" and "R s0 s"
  shows "R s0 s'"
  using assms frame_trans by (blast dest: ensuresD)

end

text \<open>An invariant is a frame: the relation that carries it forward.\<close>

lemma frame_invariant: "frame (\<lambda>s s'. I s \<longrightarrow> I s')"
  by unfold_locales auto

section \<open>Event logs\<close>

definition numbered :: "(int \<times> 'e) list \<Rightarrow> bool" where
  "numbered xs \<longleftrightarrow> map fst xs = map int [1..<Suc (length xs)]"

lemma numbered_Nil [simp]: "numbered []"
  by (simp add: numbered_def)

lemma numbered_snoc: "numbered xs \<Longrightarrow> numbered (xs @ [(int (Suc (length xs)), e)])"
  by (simp add: numbered_def)

lemma numbered_nth: "numbered xs \<Longrightarrow> i < length xs \<Longrightarrow> fst (xs ! i) = int i + 1"
proof -
  assume n: "numbered xs" and i: "i < length xs"
  have "fst (xs ! i) = map fst xs ! i"
    using i by simp
  also have "\<dots> = map int [1..<Suc (length xs)] ! i"
    using n by (simp only: numbered_def)
  also have "\<dots> = int i + 1"
    using i by (simp add: nth_upt del: upt_Suc)
  finally show ?thesis .
qed

lemma numbered_distinct:
  assumes "numbered xs"
  shows "distinct (map fst xs)"
proof -
  have "inj_on int {1..<Suc (length xs)}" by (simp add: inj_on_def)
  then show ?thesis
    using assms unfolding numbered_def by (simp add: distinct_map)
qed

lemma numbered_sorted: "numbered xs \<Longrightarrow> sorted_wrt (<) (map fst xs)"
  unfolding numbered_def by (simp add: sorted_wrt_map del: upt_Suc)

text \<open>A log with one numbered timeline per owner, and an append that returns the number it
  gave.\<close>

locale event_log =
  fixes append :: "'e \<Rightarrow> ('s, int) tx"
    and owner :: "'e \<Rightarrow> 'k"
    and log :: "'s \<Rightarrow> 'k \<Rightarrow> (int \<times> 'e) list"
  assumes append_own:
      "append e s = Inr (n, s') \<Longrightarrow> numbered (log s (owner e)) \<Longrightarrow>
       n = int (Suc (length (log s (owner e)))) \<and> log s' (owner e) = log s (owner e) @ [(n, e)]"
    and append_other: "append e s = Inr (n, s') \<Longrightarrow> k \<noteq> owner e \<Longrightarrow> log s' k = log s k"
begin

lemma append_numbered:
  assumes "append e s = Inr (n, s')" and "\<And>k. numbered (log s k)"
  shows "numbered (log s' k)"
proof (cases "k = owner e")
  case True
  then show ?thesis
    using append_own [OF assms] numbered_snoc [OF assms(2)] by simp
next
  case False
  then show ?thesis
    using append_other [OF assms(1)] assms(2) by simp
qed

lemma append_ensures_numbered:
  "ensures (\<lambda>s s'. (\<forall>k. numbered (log s k)) \<longrightarrow> (\<forall>k. numbered (log s' k))) (append e)"
  by (rule ensuresI) (blast intro: append_numbered)

lemma append_for:
  assumes "for_tx es (\<lambda>e. then_tx (append e) (return_tx ())) s = Inr (u, s')"
    and "\<And>e. e \<in> set es \<Longrightarrow> owner e = k" and "\<And>k. numbered (log s k)"
  shows "map snd (log s' k) = map snd (log s k) @ es"
  using assms
proof (induction es arbitrary: s)
  case Nil
  then show ?case by simp
next
  case (Cons e es)
  from Cons.prems(1) obtain n s1 where app: "append e s = Inr (n, s1)"
    and rest: "for_tx es (\<lambda>e. then_tx (append e) (return_tx ())) s1 = Inr (u, s')"
    unfolding for_tx.simps tx_simps return_tx_def by auto
  have "map snd (log s1 k) = map snd (log s k) @ [e]"
    using append_own [OF app Cons.prems(3)] Cons.prems(2) by simp
  then show ?case
    using Cons.IH [OF rest] Cons.prems(2) append_numbered [OF app Cons.prems(3)] by simp
qed

end

section \<open>Commands\<close>

text \<open>The states a system of commands can reach from a start state: each command is run in a
  transaction of its own, and one that throws leaves the state alone.\<close>

inductive reachable :: "('c \<Rightarrow> ('s, 'a) tx) \<Rightarrow> ('s \<Rightarrow> bool) \<Rightarrow> 's \<Rightarrow> bool"
  for exec :: "'c \<Rightarrow> ('s, 'a) tx" and init :: "'s \<Rightarrow> bool" where
  reach_init: "init s \<Longrightarrow> reachable exec init s"
| reach_step: "reachable exec init s \<Longrightarrow> snd (run_tx (exec c) s) = s' \<Longrightarrow> reachable exec init s'"

fun run_cmds :: "('c \<Rightarrow> ('s, 'a) tx) \<Rightarrow> 'c list \<Rightarrow> 's \<Rightarrow> 's" where
  "run_cmds exec [] s = s"
| "run_cmds exec (c # cs) s = run_cmds exec cs (snd (run_tx (exec c) s))"

lemma reachable_run_cmds: "reachable exec init s \<Longrightarrow> reachable exec init (run_cmds exec cs s)"
  by (induction cs arbitrary: s) (auto intro: reach_step)

lemma run_tx_cases:
  obtains (ok) x s' where "m s = Inr (x, s')" "run_tx m s = (Inr x, s')"
  | (err) e where "m s = Inl e" "run_tx m s = (Inl e, s)"
  by (cases "m s") (auto simp: run_tx_def)

locale command_system =
  fixes exec :: "'c \<Rightarrow> ('s, 'a) tx"
    and init :: "'s \<Rightarrow> bool"
    and Inv :: "'s \<Rightarrow> bool"
  assumes init_inv: "init s \<Longrightarrow> Inv s"
    and exec_inv: "exec c s = Inr (x, s') \<Longrightarrow> Inv s \<Longrightarrow> Inv s'"
begin

lemma run_inv: "Inv s \<Longrightarrow> Inv (snd (run_tx (exec c) s))"
  by (cases rule: run_tx_cases [of "exec c" s]) (auto intro: exec_inv)

lemma reachable_inv: "reachable exec init s \<Longrightarrow> Inv s"
  by (induction rule: reachable.induct) (auto intro: init_inv run_inv)

lemma run_cmds_inv: "Inv s \<Longrightarrow> Inv (run_cmds exec cs s)"
  by (induction cs arbitrary: s) (auto intro: run_inv)

end

text \<open>Commands that keep a framed relation keep it along every run.\<close>

locale framed_commands = frame R for R :: "'s \<Rightarrow> 's \<Rightarrow> bool" +
  fixes exec :: "'c \<Rightarrow> ('s, 'a) tx"
  assumes exec_frame: "exec c s = Inr (x, s') \<Longrightarrow> R s s'"
begin

lemma run_frame: "R s (snd (run_tx (exec c) s))"
  by (cases rule: run_tx_cases [of "exec c" s]) (auto intro: exec_frame frame_refl)

lemma run_cmds_frame: "R s (run_cmds exec cs s)"
  by (induction cs arbitrary: s) (auto intro: frame_refl frame_trans [OF run_frame])

end

end
