(* ===== verification/Outreach_Store.thy ===== *)
theory Outreach_Store
  imports Followups Unit_of_Work "HOL-Library.Sublist"
begin

text \<open>
  The outreach tables and the transaction-scoped repository
  \<^verbatim>\<open>OutreachTxRepository\<close> (\<^verbatim>\<open>src/src/persistence/repositories/outreach.repo.ts\<close>) over them, with
  the row types of \<^verbatim>\<open>outreach/records.ts\<close> and \<^verbatim>\<open>events.ts\<close> and the constraints of
  \<^verbatim>\<open>src/src/persistence/schema.ts\<close>. A table is the list of its rows in insertion order; a
  statement that would break a constraint throws, as the database does. Columns the database
  fills with a default clock value and never reads back are left out. The tables other
  components own appear as the lists of identifiers the foreign keys refer to.
\<close>

section \<open>Rows\<close>

record outreach_record =
  or_id :: string
  or_campaignId :: string
  or_leadId :: string
  or_contactEmail :: string
  or_status :: outreach_status
  or_sequenceStep :: int
  or_owner :: "string option"
  or_timezone :: string
  or_lastSentAt :: "int option"
  or_nextFollowupAt :: "int option"
  or_lastReplyAt :: "int option"
  or_replyCategory :: "string option"
  or_doNotContact :: bool
  or_outcome :: "string option"
  or_notes :: "string option"
  or_createdAt :: int
  or_updatedAt :: int

datatype message_type = INITIAL | FOLLOW_UP

fun message_type_str :: "message_type \<Rightarrow> string" where
  "message_type_str INITIAL = ''INITIAL''"
| "message_type_str FOLLOW_UP = ''FOLLOW_UP''"

record outreach_message =
  om_id :: string
  om_recordId :: string
  om_messageType :: message_type
  om_sequenceStep :: int
  om_subject :: string
  om_body :: string
  om_contentHash :: string
  om_emailDraftId :: "string option"
  om_finalizedEmailId :: "string option"
  om_gmailMessageId :: "string option"
  om_gmailThreadId :: "string option"
  om_approvedAt :: "int option"
  om_sentAt :: "int option"
  om_createdAt :: int

record outreach_reply =
  rp_id :: string
  rp_recordId :: string
  rp_gmailThreadId :: string
  rp_gmailMessageId :: string
  rp_fromEmail :: string
  rp_receivedAt :: int
  rp_classification :: string
  rp_preview :: string

record outreach_followup =
  of_id :: string
  of_recordId :: string
  of_step :: int
  of_dueAt :: int
  of_timezone :: string
  of_status :: followup_status
  of_blockedReason :: "string option"
  of_cancelledReason :: "string option"
  of_createdAt :: int
  of_updatedAt :: int

datatype outreach_event_type =
    RECORD_CREATED | STATE_TRANSITION | INVALID_TRANSITION | MESSAGE_RECORDED
  | FOLLOWUP_SCHEDULED | FOLLOWUP_CANCELLED | FOLLOWUP_POSTPONED | REPLY_DETECTED
  | DO_NOT_CONTACT_SET | SHEET_SYNCED | BOUNCE_DETECTED | FOLLOWUPS_CANCELLED
  | DELIVERY_UNKNOWN | DELIVERY_RECONCILIATION_CORRECTED | NOTE

text \<open>The insertion times of event and reply rows are database defaults no modelled code
  reads. An event before it is stored is a \<^verbatim>\<open>NewOutreachEvent\<close>.\<close>

record new_outreach_event =
  ne_recordId :: string
  ne_type :: outreach_event_type
  ne_fromStatus :: "outreach_status option"
  ne_toStatus :: "outreach_status option"
  ne_message :: string
  ne_data :: json

record outreach_event =
  oe_id :: string
  oe_seq :: int
  oe_new :: new_outreach_event

datatype delivery_status = D_DELIVERED | D_BOUNCED | D_DELIVERY_UNKNOWN

datatype delivery_permanence = PERMANENT | TEMPORARY | PERMANENCE_UNKNOWN

record delivery_event =
  de_id :: string
  de_recordId :: string
  de_messageId :: "string option"
  de_deliveryStatus :: delivery_status
  de_permanence :: delivery_permanence
  de_rejectionCode :: "string option"
  de_diagnosticText :: "string option"
  de_dsnStatus :: "string option"
  de_dsnAction :: "string option"
  de_finalRecipient :: "string option"
  de_originalRecipient :: "string option"
  de_bounceAt :: "int option"
  de_originalGmailMessageId :: "string option"
  de_originalGmailThreadId :: "string option"
  de_dsnGmailMessageId :: string
  de_dsnGmailThreadId :: "string option"
  de_preview :: string
  de_supersededAt :: "int option"
  de_supersededReason :: "string option"
  de_supersededBy :: "string option"
  de_createdAt :: int

section \<open>Database\<close>

text \<open>\<open>uuids\<close> is the platform's identifier generator as the sequence of values it will
  return, \<open>drawn\<close> how many have been drawn.\<close>

record outreach_db =
  t_records :: "outreach_record list"
  t_messages :: "outreach_message list"
  t_replies :: "outreach_reply list"
  t_followups :: "outreach_followup list"
  t_events :: "outreach_event list"
  t_deliveries :: "delivery_event list"
  fk_campaigns :: "string list"
  fk_leads :: "string list"
  fk_drafts :: "string list"
  fk_finalizations :: "string list"
  uuids :: "nat \<Rightarrow> string"
  drawn :: nat

type_synonym 'a otx = "(outreach_db, 'a) tx"

definition randomUUID :: "string otx" where
  "randomUUID = (\<lambda>s. Inr (uuids s (drawn s), s\<lparr>drawn := Suc (drawn s)\<rparr>))"

definition or_active :: "outreach_record \<Rightarrow> bool" where
  "or_active r \<longleftrightarrow> \<not> isOutreachTerminal (or_status r)"

definition or_key :: "outreach_record \<Rightarrow> string \<times> string \<times> string" where
  "or_key r = (or_campaignId r, or_leadId r, or_contactEmail r)"

text \<open>The unique indexes and checks of the tables.\<close>

definition records_ok :: "outreach_record list \<Rightarrow> bool" where
  "records_ok rs \<longleftrightarrow> distinct (map or_id rs) \<and> distinct (map or_key (filter or_active rs))"

definition messages_ok :: "outreach_message list \<Rightarrow> bool" where
  "messages_ok ms \<longleftrightarrow>
     distinct (map om_id ms) \<and> distinct (filter (\<lambda>g. g \<noteq> None) (map om_gmailMessageId ms))"

definition replies_ok :: "outreach_reply list \<Rightarrow> bool" where
  "replies_ok rs \<longleftrightarrow> distinct (map rp_id rs) \<and> distinct (map rp_gmailMessageId rs)"

definition followups_ok :: "outreach_followup list \<Rightarrow> bool" where
  "followups_ok fs \<longleftrightarrow>
     distinct (map of_id fs)
     \<and> distinct (map (\<lambda>f. (of_recordId f, of_step f)) (filter (\<lambda>f. of_status f = DUE) fs))"

definition events_ok :: "outreach_event list \<Rightarrow> bool" where
  "events_ok es \<longleftrightarrow>
     distinct (map oe_id es) \<and> distinct (map (\<lambda>e. (ne_recordId (oe_new e), oe_seq e)) es)"

definition deliveries_ok :: "delivery_event list \<Rightarrow> bool" where
  "deliveries_ok ds \<longleftrightarrow> distinct (map de_id ds) \<and> distinct (map de_dsnGmailMessageId ds)"

definition record_exists :: "outreach_db \<Rightarrow> string \<Rightarrow> bool" where
  "record_exists s rid \<longleftrightarrow> rid \<in> set (map or_id (t_records s))"

definition fk_opt :: "string list \<Rightarrow> string option \<Rightarrow> bool" where
  "fk_opt ids x \<longleftrightarrow> (case x of None \<Rightarrow> True | Some i \<Rightarrow> i \<in> set ids)"

text \<open>A statement: check the constraints on the table it would produce, then commit it.\<close>

definition stmt :: "bool \<Rightarrow> app_error \<Rightarrow> bool \<Rightarrow> app_error \<Rightarrow> 's \<Rightarrow> app_error + (unit \<times> 's)" where
  "stmt ok err fk fkerr s' = (if \<not> ok then Inl err else if \<not> fk then Inl fkerr else Inr ((), s'))"

section \<open>Record patches\<close>

text \<open>\<^verbatim>\<open>Partial<OutreachRecord>\<close>: \<^const>\<open>None\<close> is an absent key.\<close>

record record_patch =
  p_status :: "outreach_status option"
  p_sequenceStep :: "int option"
  p_owner :: "string option option"
  p_lastSentAt :: "int option option"
  p_nextFollowupAt :: "int option option"
  p_lastReplyAt :: "int option option"
  p_replyCategory :: "string option option"
  p_doNotContact :: "bool option"
  p_outcome :: "string option option"
  p_notes :: "string option option"

definition empty_patch :: record_patch where
  "empty_patch = \<lparr>p_status = None, p_sequenceStep = None, p_owner = None, p_lastSentAt = None,
     p_nextFollowupAt = None, p_lastReplyAt = None, p_replyCategory = None, p_doNotContact = None,
     p_outcome = None, p_notes = None\<rparr>"

definition patched :: "'a option \<Rightarrow> 'a \<Rightarrow> 'a" where
  "patched p old = (case p of None \<Rightarrow> old | Some v \<Rightarrow> v)"

lemma patched_simps [simp]: "patched None x = x" "patched (Some v) x = v"
  by (simp_all add: patched_def)

definition recordPatchToSet :: "record_patch \<Rightarrow> int \<Rightarrow> outreach_record \<Rightarrow> outreach_record" where
  "recordPatchToSet p now r = r
     \<lparr>or_status := patched (p_status p) (or_status r),
      or_sequenceStep := patched (p_sequenceStep p) (or_sequenceStep r),
      or_owner := patched (p_owner p) (or_owner r),
      or_lastSentAt := patched (p_lastSentAt p) (or_lastSentAt r),
      or_nextFollowupAt := patched (p_nextFollowupAt p) (or_nextFollowupAt r),
      or_lastReplyAt := patched (p_lastReplyAt p) (or_lastReplyAt r),
      or_replyCategory := patched (p_replyCategory p) (or_replyCategory r),
      or_doNotContact := patched (p_doNotContact p) (or_doNotContact r),
      or_outcome := patched (p_outcome p) (or_outcome r),
      or_notes := patched (p_notes p) (or_notes r),
      or_updatedAt := now\<rparr>"

section \<open>The repository\<close>

definition getRecord :: "string \<Rightarrow> outreach_record option otx" where
  "getRecord rid = get_tx (\<lambda>s. find (\<lambda>r. or_id r = rid) (t_records s))"

definition findActiveRecord :: "string \<Rightarrow> string \<Rightarrow> string \<Rightarrow> outreach_record option otx" where
  "findActiveRecord campaignId leadId contactEmail =
     get_tx (\<lambda>s. find (\<lambda>r. or_campaignId r = campaignId \<and> or_leadId r = leadId
       \<and> or_contactEmail r = contactEmail
       \<and> or_status r \<notin> {UNSUBSCRIBED, DO_NOT_CONTACT, CLOSED_WON, CLOSED_LOST}) (t_records s))"

definition hasDoNotContact :: "string \<Rightarrow> bool otx" where
  "hasDoNotContact contactEmail =
     get_tx (\<lambda>s. filter (\<lambda>r. or_contactEmail r = contactEmail
       \<and> (or_doNotContact r \<or> or_status r \<in> {DO_NOT_CONTACT, UNSUBSCRIBED})) (t_records s) \<noteq> [])"

definition insertRecord :: "outreach_record \<Rightarrow> unit otx" where
  "insertRecord r = (\<lambda>s.
     let rs = t_records s @ [r] in
     stmt (records_ok rs) (UniqueViolation ''outreach_records'')
       (or_campaignId r \<in> set (fk_campaigns s) \<and> or_leadId r \<in> set (fk_leads s))
       (ForeignKeyViolation ''outreach_records'')
       (s\<lparr>t_records := rs\<rparr>))"

definition updateRecord :: "string \<Rightarrow> record_patch \<Rightarrow> int \<Rightarrow> unit otx" where
  "updateRecord rid patch now = (\<lambda>s.
     let rs = update_where (\<lambda>r. or_id r = rid) (recordPatchToSet patch now) (t_records s) in
     stmt (records_ok rs) (UniqueViolation ''outreach_records'') True (PlainError '''')
       (s\<lparr>t_records := rs\<rparr>))"

definition updateRecordIfStatus ::
  "string \<Rightarrow> outreach_status \<Rightarrow> record_patch \<Rightarrow> int \<Rightarrow> bool otx" where
  "updateRecordIfStatus rid expectedStatus patch now = (\<lambda>s.
     let P = (\<lambda>r. or_id r = rid \<and> or_status r = expectedStatus);
         rs = update_where P (recordPatchToSet patch now) (t_records s) in
     if \<not> records_ok rs then Inl (UniqueViolation ''outreach_records'')
     else Inr (filter P (t_records s) \<noteq> [], s\<lparr>t_records := rs\<rparr>))"

definition insertMessage :: "outreach_message \<Rightarrow> unit otx" where
  "insertMessage m = (\<lambda>s.
     let ms = t_messages s @ [m] in
     stmt (messages_ok ms) (UniqueViolation ''outreach_messages'')
       (record_exists s (om_recordId m) \<and> fk_opt (fk_drafts s) (om_emailDraftId m)
        \<and> fk_opt (fk_finalizations s) (om_finalizedEmailId m))
       (ForeignKeyViolation ''outreach_messages'')
       (s\<lparr>t_messages := ms\<rparr>))"

definition findMessageByGmailMessageId :: "string \<Rightarrow> outreach_message option otx" where
  "findMessageByGmailMessageId gid =
     get_tx (\<lambda>s. find (\<lambda>m. om_gmailMessageId m = Some gid) (t_messages s))"

definition insertReply :: "outreach_reply \<Rightarrow> unit otx" where
  "insertReply r = (\<lambda>s.
     let rs = t_replies s @ [r] in
     stmt (replies_ok rs) (UniqueViolation ''outreach_replies'')
       (record_exists s (rp_recordId r)) (ForeignKeyViolation ''outreach_replies'')
       (s\<lparr>t_replies := rs\<rparr>))"

definition insertFollowup :: "outreach_followup \<Rightarrow> unit otx" where
  "insertFollowup f = (\<lambda>s.
     let fs = t_followups s @ [f] in
     if \<not> isFollowupStep (of_step f) then Inl (CheckViolation ''outreach_followup_step_ck'') else
     stmt (followups_ok fs) (UniqueViolation ''outreach_followups'')
       (record_exists s (of_recordId f)) (ForeignKeyViolation ''outreach_followups'')
       (s\<lparr>t_followups := fs\<rparr>))"

definition getFollowup :: "string \<Rightarrow> outreach_followup option otx" where
  "getFollowup fid = get_tx (\<lambda>s. find (\<lambda>f. of_id f = fid) (t_followups s))"

definition set_followup ::
  "followup_status \<Rightarrow> string option \<Rightarrow> int \<Rightarrow> outreach_followup \<Rightarrow> outreach_followup" where
  "set_followup st reason now f = f\<lparr>of_status := st, of_cancelledReason := reason, of_updatedAt := now\<rparr>"

definition updateFollowupStatus ::
  "string \<Rightarrow> followup_status \<Rightarrow> string option \<Rightarrow> int \<Rightarrow> unit otx" where
  "updateFollowupStatus fid status reason now = (\<lambda>s.
     let fs = update_where (\<lambda>f. of_id f = fid) (set_followup status reason now)
           (t_followups s) in
     stmt (followups_ok fs) (UniqueViolation ''outreach_followups'') True (PlainError '''')
       (s\<lparr>t_followups := fs\<rparr>))"

definition is_pending :: "string \<Rightarrow> outreach_followup \<Rightarrow> bool" where
  "is_pending recordId f \<longleftrightarrow> of_recordId f = recordId \<and> of_status f \<in> {DUE, POSTPONED}"

definition pendingFollowups :: "string \<Rightarrow> outreach_followup list otx" where
  "pendingFollowups recordId = get_tx (\<lambda>s. filter (is_pending recordId) (t_followups s))"

text \<open>The events of one record, and the largest sequence number among them (0 if none).\<close>

definition timeline :: "outreach_db \<Rightarrow> string \<Rightarrow> outreach_event list" where
  "timeline s recordId = filter (\<lambda>e. ne_recordId (oe_new e) = recordId) (t_events s)"

definition max_seq :: "outreach_event list \<Rightarrow> int" where
  "max_seq es = fold max (map oe_seq es) 0"

definition appendEvent :: "new_outreach_event \<Rightarrow> int otx" where
  "appendEvent evt = bind_tx (get_tx (\<lambda>s. max_seq (timeline s (ne_recordId evt)) + 1)) (\<lambda>seq.
     bind_tx randomUUID (\<lambda>uid s.
       let es = t_events s @ [\<lparr>oe_id = uid, oe_seq = seq, oe_new = evt\<rparr>] in
       case stmt (events_ok es) (UniqueViolation ''outreach_events'')
              (record_exists s (ne_recordId evt)) (ForeignKeyViolation ''outreach_events'')
              (s\<lparr>t_events := es\<rparr>)
       of Inl e \<Rightarrow> Inl e | Inr (_, s') \<Rightarrow> Inr (seq, s')))"

definition deliveryEventExists :: "string \<Rightarrow> bool otx" where
  "deliveryEventExists dsn =
     get_tx (\<lambda>s. filter (\<lambda>d. de_dsnGmailMessageId d = dsn) (t_deliveries s) \<noteq> [])"

definition insertDeliveryEvent :: "delivery_event \<Rightarrow> unit otx" where
  "insertDeliveryEvent d = (\<lambda>s.
     let ds = t_deliveries s @ [d] in
     stmt (deliveries_ok ds) (UniqueViolation ''outreach_delivery_events'')
       (record_exists s (de_recordId d) \<and> fk_opt (map om_id (t_messages s)) (de_messageId d))
       (ForeignKeyViolation ''outreach_delivery_events'')
       (s\<lparr>t_deliveries := ds\<rparr>))"

definition deliveryEventsByDsnIds :: "string list \<Rightarrow> delivery_event list otx" where
  "deliveryEventsByDsnIds ids =
     get_tx (\<lambda>s. if ids = [] then []
       else filter (\<lambda>d. de_dsnGmailMessageId d \<in> set ids) (t_deliveries s))"

definition supersedeDeliveryEvent :: "string \<Rightarrow> int \<Rightarrow> string \<Rightarrow> string \<Rightarrow> unit otx" where
  "supersedeDeliveryEvent did at reason operator =
     modify_tx (\<lambda>s. s\<lparr>t_deliveries := update_where (\<lambda>d. de_id d = did \<and> de_supersededAt d = None)
       (\<lambda>d. d\<lparr>de_supersededAt := Some at, de_supersededReason := Some reason,
              de_supersededBy := Some operator\<rparr>) (t_deliveries s)\<rparr>)"

section \<open>What a successful statement did\<close>

text \<open>Each fact turns a statement that returned into the equation of the state it left.\<close>

named_theorems store_simps \<open>effect of a successful repository statement\<close>

lemma stmt_eq_Inr [store_simps]:
  "stmt ok e fk e' s' = Inr (u, t) \<longleftrightarrow> ok \<and> fk \<and> t = s'"
  by (auto simp: stmt_def)

lemma randomUUID_eq_Inr [store_simps]:
  "randomUUID s = Inr (u, s') \<longleftrightarrow> u = uuids s (drawn s) \<and> s' = s\<lparr>drawn := Suc (drawn s)\<rparr>"
  by (auto simp: randomUUID_def)

lemma getRecord_eq_Inr [store_simps]:
  "getRecord rid s = Inr (x, s') \<longleftrightarrow> s' = s \<and> x = find (\<lambda>r. or_id r = rid) (t_records s)"
  by (auto simp: getRecord_def)

lemma insertRecord_eq_Inr [store_simps]:
  "insertRecord r s = Inr (u, s') \<longleftrightarrow>
     records_ok (t_records s @ [r]) \<and> or_campaignId r \<in> set (fk_campaigns s)
     \<and> or_leadId r \<in> set (fk_leads s) \<and> s' = s\<lparr>t_records := t_records s @ [r]\<rparr>"
  by (auto simp: insertRecord_def Let_def store_simps)

lemma updateRecord_eq_Inr [store_simps]:
  "updateRecord rid p now s = Inr (u, s') \<longleftrightarrow>
     records_ok (update_where (\<lambda>r. or_id r = rid) (recordPatchToSet p now) (t_records s))
     \<and> s' = s\<lparr>t_records := update_where (\<lambda>r. or_id r = rid) (recordPatchToSet p now) (t_records s)\<rparr>"
  by (auto simp: updateRecord_def Let_def store_simps)

lemma updateRecordIfStatus_eq_Inr [store_simps]:
  "updateRecordIfStatus rid st p now s = Inr (b, s') \<longleftrightarrow>
     records_ok (update_where (\<lambda>r. or_id r = rid \<and> or_status r = st) (recordPatchToSet p now)
       (t_records s))
     \<and> b = (\<exists>r \<in> set (t_records s). or_id r = rid \<and> or_status r = st)
     \<and> s' = s\<lparr>t_records := update_where (\<lambda>r. or_id r = rid \<and> or_status r = st)
         (recordPatchToSet p now) (t_records s)\<rparr>"
  by (auto simp: updateRecordIfStatus_def Let_def filter_empty_iff)

lemma insertMessage_eq_Inr [store_simps]:
  "insertMessage m s = Inr (u, s') \<longleftrightarrow>
     messages_ok (t_messages s @ [m]) \<and> record_exists s (om_recordId m)
     \<and> fk_opt (fk_drafts s) (om_emailDraftId m)
     \<and> fk_opt (fk_finalizations s) (om_finalizedEmailId m)
     \<and> s' = s\<lparr>t_messages := t_messages s @ [m]\<rparr>"
  by (auto simp: insertMessage_def Let_def store_simps)

lemma insertReply_eq_Inr [store_simps]:
  "insertReply r s = Inr (u, s') \<longleftrightarrow>
     replies_ok (t_replies s @ [r]) \<and> record_exists s (rp_recordId r)
     \<and> s' = s\<lparr>t_replies := t_replies s @ [r]\<rparr>"
  by (auto simp: insertReply_def Let_def store_simps)

lemma insertFollowup_eq_Inr [store_simps]:
  "insertFollowup f s = Inr (u, s') \<longleftrightarrow>
     isFollowupStep (of_step f) \<and> followups_ok (t_followups s @ [f])
     \<and> record_exists s (of_recordId f) \<and> s' = s\<lparr>t_followups := t_followups s @ [f]\<rparr>"
  by (auto simp: insertFollowup_def Let_def store_simps)

lemma set_followup_simps [simp]:
  "of_id (set_followup st reason now f) = of_id f"
  "of_recordId (set_followup st reason now f) = of_recordId f"
  "of_step (set_followup st reason now f) = of_step f"
  "of_dueAt (set_followup st reason now f) = of_dueAt f"
  "of_status (set_followup st reason now f) = st"
  by (simp_all add: set_followup_def)

lemma updateFollowupStatus_eq_Inr [store_simps]:
  "updateFollowupStatus fid st reason now s = Inr (u, s') \<longleftrightarrow>
     followups_ok (update_where (\<lambda>f. of_id f = fid) (set_followup st reason now) (t_followups s))
     \<and> s' = s\<lparr>t_followups :=
         update_where (\<lambda>f. of_id f = fid) (set_followup st reason now) (t_followups s)\<rparr>"
  by (auto simp: updateFollowupStatus_def Let_def store_simps)

lemma pendingFollowups_eq_Inr [store_simps]:
  "pendingFollowups rid s = Inr (x, s') \<longleftrightarrow> s' = s \<and> x = filter (is_pending rid) (t_followups s)"
  by (auto simp: pendingFollowups_def)

lemma appendEvent_eq_Inr [store_simps]:
  "appendEvent e s = Inr (n, s') \<longleftrightarrow>
     n = max_seq (timeline s (ne_recordId e)) + 1 \<and> record_exists s (ne_recordId e)
     \<and> events_ok (t_events s @ [\<lparr>oe_id = uuids s (drawn s), oe_seq = n, oe_new = e\<rparr>])
     \<and> s' = s\<lparr>t_events := t_events s @ [\<lparr>oe_id = uuids s (drawn s), oe_seq = n, oe_new = e\<rparr>],
              drawn := Suc (drawn s)\<rparr>"
  by (auto simp: appendEvent_def Let_def store_simps tx_simps record_exists_def stmt_def
      split: if_splits)

lemma insertDeliveryEvent_eq_Inr [store_simps]:
  "insertDeliveryEvent d s = Inr (u, s') \<longleftrightarrow>
     deliveries_ok (t_deliveries s @ [d]) \<and> record_exists s (de_recordId d)
     \<and> fk_opt (map om_id (t_messages s)) (de_messageId d)
     \<and> s' = s\<lparr>t_deliveries := t_deliveries s @ [d]\<rparr>"
  by (auto simp: insertDeliveryEvent_def Let_def store_simps)

lemma recordPatchToSet_id [simp]: "or_id (recordPatchToSet p now r) = or_id r"
  and recordPatchToSet_key [simp]: "or_key (recordPatchToSet p now r) = or_key r"
  and recordPatchToSet_email [simp]:
    "or_contactEmail (recordPatchToSet p now r) = or_contactEmail r"
  and recordPatchToSet_status [simp]:
    "or_status (recordPatchToSet p now r) = patched (p_status p) (or_status r)"
  and recordPatchToSet_dnc [simp]:
    "or_doNotContact (recordPatchToSet p now r) = patched (p_doNotContact p) (or_doNotContact r)"
  and recordPatchToSet_next [simp]:
    "or_nextFollowupAt (recordPatchToSet p now r) = patched (p_nextFollowupAt p) (or_nextFollowupAt r)"
  by (simp_all add: recordPatchToSet_def or_key_def)

section \<open>Timelines\<close>

definition event_timeline :: "outreach_db \<Rightarrow> string \<Rightarrow> (int \<times> new_outreach_event) list" where
  "event_timeline s rid = map (\<lambda>e. (oe_seq e, oe_new e)) (timeline s rid)"

text \<open>What the timeline of a record says, without the numbers.\<close>

definition history :: "outreach_db \<Rightarrow> string \<Rightarrow> new_outreach_event list" where
  "history s rid = map oe_new (timeline s rid)"

lemma timeline_frame [simp]:
  "timeline (s\<lparr>t_records := x0\<rparr>) rid = timeline s rid"
  "timeline (s\<lparr>t_messages := x1\<rparr>) rid = timeline s rid"
  "timeline (s\<lparr>t_replies := x2\<rparr>) rid = timeline s rid"
  "timeline (s\<lparr>t_followups := x3\<rparr>) rid = timeline s rid"
  "timeline (s\<lparr>t_deliveries := x4\<rparr>) rid = timeline s rid"
  "timeline (s\<lparr>drawn := x5\<rparr>) rid = timeline s rid"
  by (simp_all add: timeline_def)

lemma event_timeline_frame [simp]:
  "event_timeline (s\<lparr>t_records := x0\<rparr>) rid = event_timeline s rid"
  "event_timeline (s\<lparr>t_messages := x1\<rparr>) rid = event_timeline s rid"
  "event_timeline (s\<lparr>t_replies := x2\<rparr>) rid = event_timeline s rid"
  "event_timeline (s\<lparr>t_followups := x3\<rparr>) rid = event_timeline s rid"
  "event_timeline (s\<lparr>t_deliveries := x4\<rparr>) rid = event_timeline s rid"
  "event_timeline (s\<lparr>drawn := x5\<rparr>) rid = event_timeline s rid"
  by (simp_all add: event_timeline_def)

lemma history_frame [simp]:
  "history (s\<lparr>t_records := x0\<rparr>) rid = history s rid"
  "history (s\<lparr>t_messages := x1\<rparr>) rid = history s rid"
  "history (s\<lparr>t_replies := x2\<rparr>) rid = history s rid"
  "history (s\<lparr>t_followups := x3\<rparr>) rid = history s rid"
  "history (s\<lparr>t_deliveries := x4\<rparr>) rid = history s rid"
  "history (s\<lparr>drawn := x5\<rparr>) rid = history s rid"
  by (simp_all add: history_def)

lemma history_snd: "map snd (event_timeline s rid) = history s rid"
  by (simp add: event_timeline_def history_def)

lemma fold_max_upt: "fold max (map int [1..<Suc n]) 0 = int n"
proof (induction n)
  case 0
  then show ?case by simp
next
  case (Suc n)
  have "[1..<Suc (Suc n)] = [1..<Suc n] @ [Suc n]" by simp
  then show ?case
    using Suc by (simp del: upt_Suc)
qed

lemma max_seq_numbered:
  "numbered (event_timeline s rid) \<Longrightarrow> max_seq (timeline s rid) = int (length (timeline s rid))"
proof -
  assume "numbered (event_timeline s rid)"
  then have "map oe_seq (timeline s rid) = map int [1..<Suc (length (timeline s rid))]"
    by (simp add: numbered_def event_timeline_def comp_def del: upt_Suc)
  then show ?thesis
    by (simp only: max_seq_def fold_max_upt)
qed

interpretation outreach_log: event_log appendEvent ne_recordId event_timeline
proof
  fix e s n s' k
  assume app: "appendEvent e s = Inr (n, s')"
  then have tl: "timeline s' (ne_recordId e) =
      timeline s (ne_recordId e) @ [\<lparr>oe_id = uuids s (drawn s), oe_seq = n, oe_new = e\<rparr>]"
    and n: "n = max_seq (timeline s (ne_recordId e)) + 1"
    by (auto simp: store_simps timeline_def)
  show "n = int (Suc (length (event_timeline s (ne_recordId e))))
      \<and> event_timeline s' (ne_recordId e) = event_timeline s (ne_recordId e) @ [(n, e)]"
    if "numbered (event_timeline s (ne_recordId e))"
    using tl n max_seq_numbered [OF that] by (simp add: event_timeline_def)
  show "event_timeline s' k = event_timeline s k" if "k \<noteq> ne_recordId e"
    using app that by (auto simp: store_simps event_timeline_def timeline_def)
qed

section \<open>Constraints and history\<close>

text \<open>Every row that refers to a record refers to one that exists.\<close>

definition owned :: "outreach_db \<Rightarrow> bool" where
  "owned s \<longleftrightarrow> (\<forall>m \<in> set (t_messages s). record_exists s (om_recordId m))
     \<and> (\<forall>r \<in> set (t_replies s). record_exists s (rp_recordId r))
     \<and> (\<forall>f \<in> set (t_followups s). record_exists s (of_recordId f))
     \<and> (\<forall>e \<in> set (t_events s). record_exists s (ne_recordId (oe_new e)))
     \<and> (\<forall>d \<in> set (t_deliveries s). record_exists s (de_recordId d))"

definition tables_ok :: "outreach_db \<Rightarrow> bool" where
  "tables_ok s \<longleftrightarrow> owned s \<and> records_ok (t_records s) \<and> messages_ok (t_messages s) \<and> replies_ok (t_replies s)
     \<and> followups_ok (t_followups s) \<and> events_ok (t_events s) \<and> deliveries_ok (t_deliveries s)"

definition timelines_ok :: "outreach_db \<Rightarrow> bool" where
  "timelines_ok s \<longleftrightarrow> (\<forall>rid. numbered (event_timeline s rid))"

text \<open>What a delivery event was inserted as, without the correction annotation.\<close>

definition diagnostic :: "delivery_event \<Rightarrow> delivery_event" where
  "diagnostic d = d\<lparr>de_supersededAt := None, de_supersededReason := None, de_supersededBy := None\<rparr>"

text \<open>The history only grows: messages, replies and events are never changed or removed, no
  record disappears or changes its identity, and the diagnostics of delivery events stay.\<close>

definition extends_history :: "outreach_db \<Rightarrow> outreach_db \<Rightarrow> bool" where
  "extends_history s s' \<longleftrightarrow>
     prefix (t_messages s) (t_messages s') \<and> prefix (t_replies s) (t_replies s')
     \<and> prefix (t_events s) (t_events s')
     \<and> prefix (map diagnostic (t_deliveries s)) (map diagnostic (t_deliveries s'))
     \<and> prefix (map (\<lambda>r. (or_id r, or_key r)) (t_records s))
         (map (\<lambda>r. (or_id r, or_key r)) (t_records s'))
     \<and> prefix (map (\<lambda>f. (of_id f, of_recordId f, of_step f, of_dueAt f)) (t_followups s))
         (map (\<lambda>f. (of_id f, of_recordId f, of_step f, of_dueAt f)) (t_followups s'))"

interpretation tables: frame "\<lambda>s s'. tables_ok s \<longrightarrow> tables_ok s'"
  by unfold_locales auto

interpretation timelines: frame "\<lambda>s s'. timelines_ok s \<longrightarrow> timelines_ok s'"
  by unfold_locales auto

interpretation hist: frame extends_history
  by unfold_locales (auto simp: extends_history_def intro: prefix_order.order_trans)

text \<open>Every statement keeps the three.\<close>

definition sound_stmt :: "outreach_db \<Rightarrow> outreach_db \<Rightarrow> bool" where
  "sound_stmt s s' \<longleftrightarrow> (tables_ok s \<longrightarrow> tables_ok s') \<and> (timelines_ok s \<longrightarrow> timelines_ok s')
     \<and> extends_history s s'"

interpretation sound: frame sound_stmt
proof
  show "sound_stmt s s" for s
    by (simp add: sound_stmt_def hist.frame_refl)
  show "sound_stmt s u" if "sound_stmt s t" "sound_stmt t u" for s t u
    using that hist.frame_trans by (auto simp: sound_stmt_def)
qed

lemma diagnostic_supersede: "diagnostic (d\<lparr>de_supersededAt := a, de_supersededReason := b,
    de_supersededBy := c\<rparr>) = diagnostic d"
  by (simp add: diagnostic_def)

lemma timelines_frame [simp]:
  "timelines_ok (s\<lparr>t_records := x0\<rparr>) = timelines_ok s"
  "timelines_ok (s\<lparr>t_messages := x1\<rparr>) = timelines_ok s"
  "timelines_ok (s\<lparr>t_replies := x2\<rparr>) = timelines_ok s"
  "timelines_ok (s\<lparr>t_followups := x3\<rparr>) = timelines_ok s"
  "timelines_ok (s\<lparr>t_deliveries := x4\<rparr>) = timelines_ok s"
  "timelines_ok (s\<lparr>drawn := x5\<rparr>) = timelines_ok s"
  by (simp_all add: timelines_ok_def)

lemma record_exists_frame [simp]:
  "record_exists (s\<lparr>t_messages := x1\<rparr>) rid = record_exists s rid"
  "record_exists (s\<lparr>t_replies := x2\<rparr>) rid = record_exists s rid"
  "record_exists (s\<lparr>t_followups := x3\<rparr>) rid = record_exists s rid"
  "record_exists (s\<lparr>t_events := x4\<rparr>) rid = record_exists s rid"
  "record_exists (s\<lparr>t_deliveries := x5\<rparr>) rid = record_exists s rid"
  "record_exists (s\<lparr>drawn := x6\<rparr>) rid = record_exists s rid"
  by (simp_all add: record_exists_def)

lemma record_exists_update [simp]:
  "record_exists (s\<lparr>t_records := update_where P (recordPatchToSet p now) (t_records s)\<rparr>) rid
     = record_exists s rid"
  by (simp add: record_exists_def flip: set_map add: map_update_where_same)

lemma record_exists_insert [simp]:
  "record_exists (s\<lparr>t_records := t_records s @ [r]\<rparr>) rid \<longleftrightarrow> record_exists s rid \<or> rid = or_id r"
  by (auto simp: record_exists_def)

text \<open>The rows of \<^const>\<open>owned\<close> keep their owner when their status changes.\<close>

lemma owned_update_followups:
  assumes "owned s"
  shows "owned (s\<lparr>t_followups := update_where P (set_followup st reason now) (t_followups s)\<rparr>)"
  using assms by (auto simp: owned_def elim!: in_update_whereE)

lemma owned_update_deliveries:
  assumes "owned s" and "\<And>d. de_recordId (g d) = de_recordId d"
  shows "owned (s\<lparr>t_deliveries := update_where P g (t_deliveries s)\<rparr>)"
  using assms by (auto simp: owned_def elim!: in_update_whereE)

named_theorems sound_intros \<open>statements that are sound\<close>

lemmas [sound_intros] = sound.ensures_return sound.ensures_throw sound.ensures_get
  sound.ensures_lift sound.ensures_bind sound.ensures_then sound.ensures_when sound.ensures_if
  sound.ensures_option sound.ensures_prod sound.ensures_for

lemma sound_randomUUID [sound_intros]: "ensures sound_stmt randomUUID"
  by (rule ensuresI)
    (auto simp: store_simps sound_stmt_def tables_ok_def owned_def extends_history_def)

lemma sound_reads [sound_intros]:
  "ensures sound_stmt (getRecord rid)"
  "ensures sound_stmt (findActiveRecord c l e)"
  "ensures sound_stmt (hasDoNotContact e)"
  "ensures sound_stmt (findMessageByGmailMessageId g)"
  "ensures sound_stmt (getFollowup fid)"
  "ensures sound_stmt (pendingFollowups rid)"
  "ensures sound_stmt (deliveryEventExists dsn)"
  "ensures sound_stmt (deliveryEventsByDsnIds dsns)"
  unfolding getRecord_def findActiveRecord_def hasDoNotContact_def findMessageByGmailMessageId_def
    getFollowup_def pendingFollowups_def deliveryEventExists_def deliveryEventsByDsnIds_def
  by (rule sound.ensures_get)+

lemma sound_insertRecord [sound_intros]: "ensures sound_stmt (insertRecord r)"
  by (rule ensuresI)
    (auto simp: store_simps sound_stmt_def tables_ok_def owned_def extends_history_def)

lemma sound_updateRecord [sound_intros]: "ensures sound_stmt (updateRecord rid p now)"
  by (rule ensuresI)
    (auto simp: store_simps sound_stmt_def tables_ok_def owned_def extends_history_def
      map_update_where_same)

lemma sound_updateRecordIfStatus [sound_intros]:
  "ensures sound_stmt (updateRecordIfStatus rid st p now)"
  by (rule ensuresI)
    (auto simp: store_simps sound_stmt_def tables_ok_def owned_def extends_history_def
      map_update_where_same)

lemma sound_insertMessage [sound_intros]: "ensures sound_stmt (insertMessage m)"
  by (rule ensuresI)
    (auto simp: store_simps sound_stmt_def tables_ok_def owned_def extends_history_def)

lemma sound_insertReply [sound_intros]: "ensures sound_stmt (insertReply r)"
  by (rule ensuresI)
    (auto simp: store_simps sound_stmt_def tables_ok_def owned_def extends_history_def)

lemma sound_insertFollowup [sound_intros]: "ensures sound_stmt (insertFollowup f)"
  by (rule ensuresI)
    (auto simp: store_simps sound_stmt_def tables_ok_def owned_def extends_history_def)

lemma sound_updateFollowupStatus [sound_intros]:
  "ensures sound_stmt (updateFollowupStatus fid st reason now)"
  by (rule ensuresI)
    (auto simp: store_simps sound_stmt_def tables_ok_def extends_history_def
      map_update_where_same owned_update_followups)

lemma sound_appendEvent [sound_intros]: "ensures sound_stmt (appendEvent e)"
proof (rule ensuresI)
  fix s n s'
  assume app: "appendEvent e s = Inr (n, s')"
  have "timelines_ok s \<longrightarrow> timelines_ok s'"
    using outreach_log.append_numbered [OF app] by (simp add: timelines_ok_def)
  then show "sound_stmt s s'"
    using app by (auto simp: store_simps sound_stmt_def tables_ok_def owned_def extends_history_def)
qed

lemma sound_insertDeliveryEvent [sound_intros]: "ensures sound_stmt (insertDeliveryEvent d)"
  by (rule ensuresI)
    (auto simp: store_simps sound_stmt_def tables_ok_def owned_def extends_history_def)

lemma sound_supersede [sound_intros]:
  "ensures sound_stmt (supersedeDeliveryEvent did at reason operator)"
  by (rule ensuresI)
    (auto simp: supersedeDeliveryEvent_def sound_stmt_def tables_ok_def extends_history_def
      deliveries_ok_def map_update_where_same diagnostic_supersede
      intro!: owned_update_deliveries)

end
