(* ===== verification/Replies.thy ===== *)
theory Replies
  imports Outreach_Machine
begin

text \<open>
  Deterministic reply classification: \<^verbatim>\<open>src/src/domain/outreach/reply-classification.ts\<close>,
  \<^verbatim>\<open>detectReply\<close> of \<^verbatim>\<open>reply-sync.ts\<close>, and the stable \<^verbatim>\<open>Array.prototype.sort\<close> they use. The
  collation \<^verbatim>\<open>String.prototype.localeCompare\<close> is the parameter \<open>lc\<close>; the code relies on it
  being a total preorder (\<open>collation\<close>).
\<close>

section \<open>Sorting with a comparator\<close>

fun js_insort :: "('a \<Rightarrow> 'a \<Rightarrow> int) \<Rightarrow> 'a \<Rightarrow> 'a list \<Rightarrow> 'a list" where
  "js_insort cmp x [] = [x]"
| "js_insort cmp x (y # ys) = (if cmp x y \<le> 0 then x # y # ys else y # js_insort cmp x ys)"

definition js_sort :: "('a \<Rightarrow> 'a \<Rightarrow> int) \<Rightarrow> 'a list \<Rightarrow> 'a list" where
  "js_sort cmp xs = foldr (js_insort cmp) xs []"

definition comparator :: "('a \<Rightarrow> 'a \<Rightarrow> int) \<Rightarrow> bool" where
  "comparator cmp \<longleftrightarrow> (\<forall>a b. cmp a b \<le> 0 \<or> cmp b a \<le> 0)
     \<and> (\<forall>a b c. cmp a b \<le> 0 \<longrightarrow> cmp b c \<le> 0 \<longrightarrow> cmp a c \<le> 0)"

lemma mset_js_insort [simp]: "set (js_insort cmp x ys) = insert x (set ys)"
  by (induction ys) auto

lemma set_js_sort [simp]: "set (js_sort cmp xs) = set xs"
  by (induction xs) (simp_all add: js_sort_def)

lemma length_js_insort [simp]: "length (js_insort cmp x ys) = Suc (length ys)"
  by (induction ys) auto

lemma length_js_sort [simp]: "length (js_sort cmp xs) = length xs"
  by (induction xs) (simp_all add: js_sort_def)

lemma js_insort_sorted:
  assumes "comparator cmp" and "sorted_wrt (\<lambda>a b. cmp a b \<le> 0) ys"
  shows "sorted_wrt (\<lambda>a b. cmp a b \<le> 0) (js_insort cmp x ys)"
  using assms(2)
proof (induction ys)
  case Nil
  then show ?case by simp
next
  case (Cons y ys)
  show ?case
  proof (cases "cmp x y \<le> 0")
    case True
    then show ?thesis
      using Cons.prems assms(1) unfolding comparator_def by fastforce
  next
    case False
    then have "cmp y x \<le> 0"
      using assms(1) unfolding comparator_def by blast
    then show ?thesis
      using False Cons by auto
  qed
qed

lemma js_sort_sorted:
  assumes "comparator cmp"
  shows "sorted_wrt (\<lambda>a b. cmp a b \<le> 0) (js_sort cmp xs)"
  by (induction xs) (auto simp: js_sort_def js_insort_sorted [OF assms])

lemma js_sort_hd:
  assumes "comparator cmp" and "js_sort cmp xs = x # ys"
  shows "x \<in> set xs" and "y \<in> set xs \<Longrightarrow> cmp x y \<le> 0"
proof -
  show "x \<in> set xs"
    using set_js_sort [of cmp xs] assms(2) by auto
  have "cmp x x \<le> 0"
    using assms(1) unfolding comparator_def by blast
  moreover assume "y \<in> set xs"
  then have "y \<in> set (x # ys)"
    using set_js_sort [of cmp xs] assms(2) by auto
  ultimately show "cmp x y \<le> 0"
    using js_sort_sorted [OF assms(1), of xs] assms(2) by auto
qed

section \<open>Inbound messages\<close>

datatype reply_classification = positive | neutral | negative | unsubscribe | bounce

fun reply_classification_str :: "reply_classification \<Rightarrow> string" where
  "reply_classification_str positive = ''positive''"
| "reply_classification_str neutral = ''neutral''"
| "reply_classification_str negative = ''negative''"
| "reply_classification_str unsubscribe = ''unsubscribe''"
| "reply_classification_str bounce = ''bounce''"

record inbound_headers =
  ih_fromEmail :: string
  autoSubmitted :: "string option"
  contentType :: "string option"
  hasListUnsubscribe :: "bool option"

record inbound_message =
  im_messageId :: string
  im_threadId :: string
  im_fromEmail :: string
  im_receivedAtMs :: int
  im_preview :: string
  im_headers :: inbound_headers

definition normalizeEmail :: "string \<Rightarrow> string" where
  "normalizeEmail email = js_lower (js_trim email)"

definition isSelfMessage :: "string \<Rightarrow> string list \<Rightarrow> bool" where
  "isSelfMessage fromEmail ownEmails \<longleftrightarrow>
     normalizeEmail fromEmail \<in> set (map normalizeEmail ownEmails)"

definition reply_cmp ::
  "(string \<Rightarrow> string \<Rightarrow> int) \<Rightarrow> inbound_message \<Rightarrow> inbound_message \<Rightarrow> int" where
  "reply_cmp lc a b =
     (if im_receivedAtMs a - im_receivedAtMs b \<noteq> 0 then im_receivedAtMs a - im_receivedAtMs b
      else lc (im_messageId a) (im_messageId b))"

definition genuine :: "int \<Rightarrow> string list \<Rightarrow> inbound_message \<Rightarrow> bool" where
  "genuine lastOutboundAtMs ownEmails m \<longleftrightarrow>
     im_receivedAtMs m > lastOutboundAtMs \<and> \<not> isSelfMessage (im_fromEmail m) ownEmails"

definition firstGenuineReply ::
  "(string \<Rightarrow> string \<Rightarrow> int) \<Rightarrow> inbound_message list \<Rightarrow> int \<Rightarrow> string list
   \<Rightarrow> inbound_message option" where
  "firstGenuineReply lc messages lastOutboundAtMs ownEmails =
     (case js_sort (reply_cmp lc)
         (filter (\<lambda>m. \<not> isSelfMessage (im_fromEmail m) ownEmails)
           (filter (\<lambda>m. im_receivedAtMs m > lastOutboundAtMs) messages))
      of [] \<Rightarrow> None | m # _ \<Rightarrow> Some m)"

section \<open>Classification\<close>

definition UNSUBSCRIBE_HINTS :: "string list" where
  "UNSUBSCRIBE_HINTS = [''unsubscribe'', ''remove me'', ''take me off'', ''opt out'', ''opt-out'',
     ''do not contact'', ''stop emailing'', ''stop contacting'', ''abbestellen'', ''austragen'',
     ''kein interesse mehr'']"

definition BOUNCE_HINTS :: "string list" where
  "BOUNCE_HINTS = [''mail delivery failed'', ''delivery status notification'', ''undeliverable'',
     ''address not found'', ''user unknown'', ''mailbox full'', ''recipient address rejected'',
     ''delivery has failed'']"

definition NEGATIVE_HINTS :: "string list" where
  "NEGATIVE_HINTS = [''not interested'', ''no thanks'', ''no thank you'', ''please stop'',
     ''we are not interested'', ''kein interesse'', ''nicht interessiert'', ''bitte nicht'']"

definition POSITIVE_HINTS :: "string list" where
  "POSITIVE_HINTS = [''interested'', ''sounds good'', ''happy to'', ''let us talk'',
     ''let'' @ [CHR 0x27] @ ''s talk'', ''book a call'', ''schedule a call'', ''set up a meeting'',
     ''tell me more'', ''more information'', ''when can you'', ''gerne'', ''interessiert'', ''termin'']"

definition containsAny :: "string \<Rightarrow> string list \<Rightarrow> bool" where
  "containsAny haystack needles \<longleftrightarrow> (let h = js_lower haystack in list_ex (\<lambda>n. js_includes n h) needles)"

definition classifyReply :: "inbound_message \<Rightarrow> reply_classification" where
  "classifyReply message =
     (let text = im_preview message;
          ct = js_lower (case contentType (im_headers message) of None \<Rightarrow> [] | Some c \<Rightarrow> c);
          fromLocal = normalizeEmail (im_fromEmail message);
          looksLikeDaemon = (starts_with ''mailer-daemon'' fromLocal
            \<or> starts_with ''postmaster'' fromLocal \<or> js_includes ''maildelivery'' fromLocal)
      in if js_includes ''multipart/report'' ct \<or> js_includes ''delivery-status'' ct
            \<or> looksLikeDaemon \<or> containsAny text BOUNCE_HINTS then bounce
         else if hasListUnsubscribe (im_headers message) = Some True
            \<or> containsAny text UNSUBSCRIBE_HINTS then unsubscribe
         else if containsAny text NEGATIVE_HINTS then negative
         else if containsAny text POSITIVE_HINTS then positive
         else neutral)"

fun classificationToStatus :: "reply_classification \<Rightarrow> outreach_status" where
  "classificationToStatus positive = REPLIED_POSITIVE"
| "classificationToStatus neutral = REPLIED_NEUTRAL"
| "classificationToStatus negative = REPLIED_NEGATIVE"
| "classificationToStatus bounce = BOUNCED"
| "classificationToStatus unsubscribe = UNSUBSCRIBED"

text \<open>\<^verbatim>\<open>s.slice(0, k)\<close>: a negative bound counts from the end.\<close>

definition js_slice_to :: "string \<Rightarrow> int \<Rightarrow> string" where
  "js_slice_to s k = (if k < 0 then take (length s - nat (- k)) s else take (nat k) s)"

definition safePreview :: "string \<Rightarrow> int \<Rightarrow> string" where
  "safePreview text maxChars =
     (let oneLine = js_trim (collapse_ws text)
      in if int (length oneLine) \<le> maxChars then oneLine
         else js_slice_to oneLine (maxChars - 1) @ [CHR 0x85])"

section \<open>Detection on one thread\<close>

record tracked_thread =
  tt_outreachRecordId :: string
  tt_threadId :: string
  tt_lastOutboundAtMs :: int
  tt_handledMessageIds :: "string list"

record detected_reply =
  dr_outreachRecordId :: string
  dr_threadId :: string
  dr_messageId :: string
  dr_fromEmail :: string
  dr_receivedAtMs :: int
  dr_preview :: string
  dr_classification :: reply_classification

text \<open>\<open>messages\<close> is what the thread reader returned for the thread.\<close>

definition detectReply ::
  "(string \<Rightarrow> string \<Rightarrow> int) \<Rightarrow> inbound_message list \<Rightarrow> tracked_thread \<Rightarrow> string list
   \<Rightarrow> detected_reply option" where
  "detectReply lc messages thread ownEmails =
     (case firstGenuineReply lc
         (filter (\<lambda>m. im_messageId m \<notin> set (tt_handledMessageIds thread)) messages)
         (tt_lastOutboundAtMs thread) ownEmails
      of None \<Rightarrow> None
       | Some c \<Rightarrow> Some \<lparr>dr_outreachRecordId = tt_outreachRecordId thread,
           dr_threadId = tt_threadId thread, dr_messageId = im_messageId c,
           dr_fromEmail = im_fromEmail c, dr_receivedAtMs = im_receivedAtMs c,
           dr_preview = im_preview c, dr_classification = classifyReply c\<rparr>)"

section \<open>The first genuine reply\<close>

definition collation :: "(string \<Rightarrow> string \<Rightarrow> int) \<Rightarrow> bool" where
  "collation lc \<longleftrightarrow> comparator lc"

lemma reply_cmp_le:
  "reply_cmp lc a b \<le> 0 \<longleftrightarrow> im_receivedAtMs a < im_receivedAtMs b
     \<or> (im_receivedAtMs a = im_receivedAtMs b \<and> lc (im_messageId a) (im_messageId b) \<le> 0)"
  by (auto simp: reply_cmp_def)

lemma comparator_reply_cmp:
  assumes "collation lc"
  shows "comparator (reply_cmp lc)"
proof -
  have tot: "lc a b \<le> 0 \<or> lc b a \<le> 0" for a b
    using assms by (simp add: collation_def comparator_def)
  have tr: "lc a b \<le> 0 \<Longrightarrow> lc b c \<le> 0 \<Longrightarrow> lc a c \<le> 0" for a b c
    using assms unfolding collation_def comparator_def by blast
  show ?thesis
    unfolding comparator_def reply_cmp_le
  proof (intro conjI allI impI)
    show "(im_receivedAtMs a < im_receivedAtMs b \<or> im_receivedAtMs a = im_receivedAtMs b
        \<and> lc (im_messageId a) (im_messageId b) \<le> 0)
      \<or> (im_receivedAtMs b < im_receivedAtMs a \<or> im_receivedAtMs b = im_receivedAtMs a
        \<and> lc (im_messageId b) (im_messageId a) \<le> 0)" for a b
      using tot [of "im_messageId a" "im_messageId b"] by linarith
  qed (use tr in auto)
qed

lemma firstGenuineReply_None:
  "firstGenuineReply lc ms t own = None \<longleftrightarrow> (\<forall>m \<in> set ms. \<not> genuine t own m)"
proof -
  let ?c = "filter (\<lambda>m. \<not> isSelfMessage (im_fromEmail m) own)
    (filter (\<lambda>m. im_receivedAtMs m > t) ms)"
  have "firstGenuineReply lc ms t own = None \<longleftrightarrow> js_sort (reply_cmp lc) ?c = []"
    by (simp add: firstGenuineReply_def split: list.splits)
  also have "\<dots> \<longleftrightarrow> set ?c = {}"
    using set_js_sort [of "reply_cmp lc" ?c] by (metis set_empty)
  finally show ?thesis
    by (auto simp: genuine_def filter_empty_iff)
qed

lemma firstGenuineReply_Some:
  assumes "collation lc" and "firstGenuineReply lc ms t own = Some m"
  shows "m \<in> set ms \<and> genuine t own m"
    and "m' \<in> set ms \<Longrightarrow> genuine t own m' \<Longrightarrow> reply_cmp lc m m' \<le> 0"
proof -
  let ?c = "filter (\<lambda>m. \<not> isSelfMessage (im_fromEmail m) own)
    (filter (\<lambda>m. im_receivedAtMs m > t) ms)"
  from assms(2) obtain rest where s: "js_sort (reply_cmp lc) ?c = m # rest"
    by (auto simp: firstGenuineReply_def split: list.splits)
  note hd = js_sort_hd [OF comparator_reply_cmp [OF assms(1)] s]
  show "m \<in> set ms \<and> genuine t own m"
    using hd(1) by (simp add: genuine_def)
  show "reply_cmp lc m m' \<le> 0" if "m' \<in> set ms" "genuine t own m'"
    using hd(2) [of m'] that by (simp add: genuine_def)
qed

lemma reply_cmp_time: "reply_cmp lc a b \<le> 0 \<Longrightarrow> im_receivedAtMs a \<le> im_receivedAtMs b"
  by (simp add: reply_cmp_def split: if_splits)

section \<open>Previews\<close>

lemma squeeze_ws:
  "c \<in> set (squeeze is_ws run s) \<Longrightarrow> is_ws c \<Longrightarrow> c = CHR '' ''"
  by (induction s arbitrary: run) (auto split: if_splits)

lemma set_js_trim: "set (js_trim s) \<subseteq> set s"
  by (auto simp: js_trim_def dest!: set_dropWhileD)

lemma safePreview_single_line:
  "c \<in> set (safePreview text maxChars) \<Longrightarrow> is_ws c \<Longrightarrow> c = CHR '' ''"
proof -
  assume c: "c \<in> set (safePreview text maxChars)" and ws: "is_ws c"
  have "c \<in> set (js_trim (collapse_ws text))"
    using c ws by (auto simp: safePreview_def js_slice_to_def is_ws_def Let_def
        split: if_splits dest: in_set_takeD)
  then have "c \<in> set (squeeze is_ws False text)"
    using set_js_trim [of "collapse_ws text"] by (auto simp: collapse_ws_def)
  then show ?thesis
    using ws by (rule squeeze_ws)
qed

lemma safePreview_length: "1 \<le> maxChars \<Longrightarrow> int (length (safePreview text maxChars)) \<le> maxChars"
  by (auto simp: safePreview_def Let_def js_slice_to_def)

lemma classificationToStatus_cancels: "classificationToStatus c \<in> set OUTREACH_NO_FOLLOWUP"
  by (cases c) (simp_all add: outreach_sets)

end
