(* ===== verification/Outreach_Service.thy ===== *)
theory Outreach_Service
  imports Outreach_Store Replies
begin

text \<open>
  \<^verbatim>\<open>OutreachService\<close> (\<^verbatim>\<open>src/src/domain/outreach/outreach-service.ts\<close>): every operation is a
  transaction over the outreach tables. Parameters: \<open>now\<close>, the reading of the injected clock
  (milliseconds), \<open>intl\<close>, the time zone database, and \<open>sha256\<close>, the hexadecimal digest of a
  string's UTF-8 bytes. The texts of the audit events are definitions of their own.
\<close>

section \<open>Events\<close>

definition evt ::
  "string \<Rightarrow> outreach_event_type \<Rightarrow> outreach_status option \<Rightarrow> outreach_status option \<Rightarrow> string
   \<Rightarrow> json \<Rightarrow> new_outreach_event" where
  "evt rid ty f t msg d = \<lparr>ne_recordId = rid, ne_type = ty, ne_fromStatus = f, ne_toStatus = t,
     ne_message = msg, ne_data = d\<rparr>"

lemma evt_simps [simp]:
  "ne_recordId (evt rid ty f t msg d) = rid" "ne_type (evt rid ty f t msg d) = ty"
  "ne_fromStatus (evt rid ty f t msg d) = f" "ne_toStatus (evt rid ty f t msg d) = t"
  "ne_message (evt rid ty f t msg d) = msg" "ne_data (evt rid ty f t msg d) = d"
  by (simp_all add: evt_def)

definition emit :: "new_outreach_event \<Rightarrow> unit otx" where
  "emit e = then_tx (appendEvent e) (return_tx ())"

definition hop_text :: "outreach_status \<Rightarrow> outreach_status \<Rightarrow> string" where
  "hop_text f t = outreach_status_str f @ '' -> '' @ outreach_status_str t"

definition messageContentHash :: "(string \<Rightarrow> string) \<Rightarrow> string \<Rightarrow> string \<Rightarrow> string" where
  "messageContentHash sha256 subject body = sha256 (''subject:'' @ subject @ [CHR 0x00] @ ''body:'' @ body)"

definition require :: "string \<Rightarrow> outreach_record otx" where
  "require rid = bind_tx (getRecord rid) (\<lambda>r.
     case r of
       None \<Rightarrow> throw_tx (AppError ''OUTREACH_RECORD_NOT_FOUND'' (''Outreach record not found: '' @ rid))
     | Some rec \<Rightarrow> return_tx rec)"

definition cancelled_event :: "string \<Rightarrow> string \<Rightarrow> outreach_followup \<Rightarrow> new_outreach_event" where
  "cancelled_event rid reason f = evt rid FOLLOWUP_CANCELLED None None
     (''Follow-up '' @ show_int (of_step f) @ '' cancelled ('' @ reason @ '')'')
     (JObj [(''followupId'', JStr (of_id f)), (''reason'', JStr reason)])"

definition cancelPending :: "string \<Rightarrow> string \<Rightarrow> int \<Rightarrow> unit otx" where
  "cancelPending rid reason now = bind_tx (pendingFollowups rid) (\<lambda>pending.
     for_tx pending (\<lambda>f.
       then_tx (updateFollowupStatus (of_id f) CANCELLED (Some reason) now)
         (emit (cancelled_event rid reason f))))"

section \<open>Tracking\<close>

record track_input =
  ti_campaignId :: string
  ti_leadId :: string
  ti_contactEmail :: string
  ti_timezone :: string
  ti_owner :: "string option"

datatype track_outcome = CREATED | DUPLICATE_ACTIVE | BLOCKED_DO_NOT_CONTACT

definition new_record :: "string \<Rightarrow> track_input \<Rightarrow> string \<Rightarrow> int \<Rightarrow> outreach_record" where
  "new_record uid input email now =
     \<lparr>or_id = uid, or_campaignId = ti_campaignId input, or_leadId = ti_leadId input,
      or_contactEmail = email, or_status = DRAFT_READY, or_sequenceStep = 0,
      or_owner = ti_owner input, or_timezone = ti_timezone input, or_lastSentAt = None,
      or_nextFollowupAt = None, or_lastReplyAt = None, or_replyCategory = None,
      or_doNotContact = False, or_outcome = None, or_notes = None, or_createdAt = now,
      or_updatedAt = now\<rparr>"

definition created_event :: "string \<Rightarrow> track_input \<Rightarrow> string \<Rightarrow> new_outreach_event" where
  "created_event rid input email = evt rid RECORD_CREATED None (Some DRAFT_READY)
     (''Outreach created for '' @ email)
     (JObj [(''campaignId'', JStr (ti_campaignId input)), (''leadId'', JStr (ti_leadId input))])"

definition track :: "int \<Rightarrow> track_input \<Rightarrow> (track_outcome \<times> outreach_record option) otx" where
  "track now input =
     (let contactEmail = js_lower (js_trim (ti_contactEmail input)) in
      bind_tx (hasDoNotContact contactEmail) (\<lambda>dnc.
      if dnc then return_tx (BLOCKED_DO_NOT_CONTACT, None)
      else bind_tx (findActiveRecord (ti_campaignId input) (ti_leadId input) contactEmail) (\<lambda>existing.
        case existing of
          Some r \<Rightarrow> return_tx (DUPLICATE_ACTIVE, Some r)
        | None \<Rightarrow>
            bind_tx randomUUID (\<lambda>uid.
            let rec = new_record uid input contactEmail now in
            then_tx (insertRecord rec)
              (then_tx (emit (created_event uid input contactEmail))
                (return_tx (CREATED, Some rec)))))))"

section \<open>Transitions\<close>

definition suppresses :: "outreach_status \<Rightarrow> bool" where
  "suppresses t \<longleftrightarrow> t = DO_NOT_CONTACT \<or> t = UNSUBSCRIBED"

definition given :: "string option \<Rightarrow> string option" where
  "given r = (case r of None \<Rightarrow> None | Some s \<Rightarrow> if s = [] then None else Some s)"

definition transition_patch :: "outreach_status \<Rightarrow> bool \<Rightarrow> record_patch" where
  "transition_patch t setOutcome = empty_patch
     \<lparr>p_status := Some t,
      p_doNotContact := (if suppresses t then Some True else None),
      p_outcome := (if setOutcome \<and> (t = MEETING_BOOKED \<or> t = CLOSED_WON \<or> t = CLOSED_LOST)
                    then Some (Some (outreach_status_str t)) else None),
      p_nextFollowupAt := (if cancelsFollowups t then Some None else None)\<rparr>"

definition transition_event ::
  "string \<Rightarrow> outreach_status \<Rightarrow> outreach_status \<Rightarrow> string option \<Rightarrow> new_outreach_event" where
  "transition_event rid f t reason = evt rid STATE_TRANSITION (Some f) (Some t)
     (hop_text f t @ (case given reason of None \<Rightarrow> '''' | Some r \<Rightarrow> '' ('' @ r @ '')''))
     (case given reason of None \<Rightarrow> JNull | Some r \<Rightarrow> JObj [(''reason'', JStr r)])"

definition cancel_reason :: "outreach_status \<Rightarrow> string" where
  "cancel_reason t = (case followupBlockedReason t of None \<Rightarrow> ''CANCELLED''
     | Some r \<Rightarrow> blocked_reason_str r)"

definition outreach_transition ::
  "int \<Rightarrow> string \<Rightarrow> outreach_status \<Rightarrow> string option \<Rightarrow> bool \<Rightarrow> outreach_record otx" where
  "outreach_transition now rid t reason setOutcome =
     bind_tx (require rid) (\<lambda>rec.
     let f = or_status rec; patch = transition_patch t setOutcome in
     then_tx (lift_tx (assertOutreachTransition f t))
       (then_tx (updateRecord rid patch now)
         (then_tx (emit (transition_event rid f t reason))
           (then_tx (when_tx (cancelsFollowups t) (cancelPending rid (cancel_reason t) now))
             (return_tx (recordPatchToSet patch now rec))))))"

section \<open>Messages\<close>

record record_message_input =
  mi_recordId :: string
  mi_messageType :: message_type
  mi_sequenceStep :: int
  mi_subject :: string
  mi_body :: string
  mi_emailDraftId :: "string option"
  mi_finalizedEmailId :: "string option"
  mi_gmailMessageId :: "string option"
  mi_gmailThreadId :: "string option"
  mi_approvedAt :: "int option"
  mi_sentAt :: "int option"

definition recorded_event :: "outreach_message \<Rightarrow> new_outreach_event" where
  "recorded_event m = evt (om_recordId m) MESSAGE_RECORDED None None
     (message_type_str (om_messageType m) @ '' step '' @ show_int (om_sequenceStep m) @ '' recorded'')
     (JObj [(''contentHash'', JStr (om_contentHash m)), (''gmailMessageId'', jopt (om_gmailMessageId m))])"

definition recordMessage ::
  "(string \<Rightarrow> string) \<Rightarrow> int \<Rightarrow> record_message_input \<Rightarrow> outreach_message otx" where
  "recordMessage sha256 now input =
     then_tx (require (mi_recordId input))
     (bind_tx randomUUID (\<lambda>uid.
      let msg = \<lparr>om_id = uid, om_recordId = mi_recordId input,
            om_messageType = mi_messageType input, om_sequenceStep = mi_sequenceStep input,
            om_subject = mi_subject input, om_body = mi_body input,
            om_contentHash = messageContentHash sha256 (mi_subject input) (mi_body input),
            om_emailDraftId = mi_emailDraftId input, om_finalizedEmailId = mi_finalizedEmailId input,
            om_gmailMessageId = mi_gmailMessageId input, om_gmailThreadId = mi_gmailThreadId input,
            om_approvedAt = mi_approvedAt input, om_sentAt = mi_sentAt input, om_createdAt = now\<rparr>
      in then_tx (insertMessage msg)
        (then_tx (when_tx (om_sentAt msg \<noteq> None)
            (updateRecord (mi_recordId input)
              (empty_patch\<lparr>p_lastSentAt := Some (om_sentAt msg),
                 p_sequenceStep := Some (mi_sequenceStep input)\<rparr>) now))
          (then_tx (emit (recorded_event msg)) (return_tx msg)))))"

section \<open>Enrolling confirmed sends\<close>

record enroll_input =
  ei_recordId :: string
  ei_subject :: string
  ei_body :: string
  ei_gmailMessageId :: string
  ei_gmailThreadId :: string
  ei_sentAt :: int
  ei_emailDraftId :: "string option"
  ei_finalizedEmailId :: "string option"
  ei_sendAttemptId :: string
  ei_policy :: sequence_policy

datatype enroll_outcome =
  ENROLLED | ALREADY_ENROLLED | RECORD_NOT_ENROLLABLE | ENROLL_STEP_MISMATCH

record enroll_result =
  er_outcome :: enroll_outcome
  er_record :: outreach_record
  er_message :: "outreach_message option"
  er_followup :: "outreach_followup option"

definition ENROLL_PATH :: "outreach_status list" where
  "ENROLL_PATH = [DRAFT_READY, AWAITING_APPROVAL, APPROVED_TO_SEND, INITIAL_SENT]"

fun index_of :: "'a \<Rightarrow> 'a list \<Rightarrow> nat option" where
  "index_of x [] = None"
| "index_of x (y # ys) = (if x = y then Some 0 else map_option Suc (index_of x ys))"

text \<open>The message both bridges store: type, step and the confirmed send's content.\<close>

definition enrolled_message ::
  "(string \<Rightarrow> string) \<Rightarrow> string \<Rightarrow> message_type \<Rightarrow> int \<Rightarrow> enroll_input \<Rightarrow> string \<Rightarrow> int
   \<Rightarrow> outreach_message" where
  "enrolled_message sha256 uid ty stp input rid now =
     \<lparr>om_id = uid, om_recordId = rid, om_messageType = ty, om_sequenceStep = stp,
      om_subject = ei_subject input, om_body = ei_body input,
      om_contentHash = messageContentHash sha256 (ei_subject input) (ei_body input),
      om_emailDraftId = ei_emailDraftId input, om_finalizedEmailId = ei_finalizedEmailId input,
      om_gmailMessageId = Some (ei_gmailMessageId input),
      om_gmailThreadId = Some (ei_gmailThreadId input), om_approvedAt = Some now,
      om_sentAt = Some (ei_sentAt input), om_createdAt = now\<rparr>"

definition enrolled_event :: "outreach_message \<Rightarrow> enroll_input \<Rightarrow> new_outreach_event" where
  "enrolled_event m input = evt (om_recordId m) MESSAGE_RECORDED None None
     ''INITIAL step 0 enrolled from confirmed production send''
     (JObj [(''contentHash'', JStr (om_contentHash m)),
            (''gmailMessageId'', JStr (ei_gmailMessageId input)),
            (''gmailThreadId'', JStr (ei_gmailThreadId input)),
            (''sendAttemptId'', JStr (ei_sendAttemptId input))])"

definition enroll_hop_event ::
  "string \<Rightarrow> outreach_status \<Rightarrow> outreach_status \<Rightarrow> string \<Rightarrow> new_outreach_event" where
  "enroll_hop_event rid f t attempt = evt rid STATE_TRANSITION (Some f) (Some t)
     (hop_text f t @ '' (enroll confirmed send)'') (JObj [(''sendAttemptId'', JStr attempt)])"

text \<open>The loop over the rest of the path; \<open>f\<close> is the loop variable \<^verbatim>\<open>from\<close>.\<close>

fun enroll_walk :: "string \<Rightarrow> string \<Rightarrow> outreach_status \<Rightarrow> outreach_status list \<Rightarrow> unit otx" where
  "enroll_walk rid attempt f [] = return_tx ()"
| "enroll_walk rid attempt f (t # ts) =
     then_tx (lift_tx (assertOutreachTransition f t))
       (then_tx (emit (enroll_hop_event rid f t attempt)) (enroll_walk rid attempt t ts))"

definition new_followup :: "string \<Rightarrow> outreach_record \<Rightarrow> followup_step \<Rightarrow> int \<Rightarrow> int \<Rightarrow> outreach_followup" where
  "new_followup uid rec st dueAt now =
     \<lparr>of_id = uid, of_recordId = or_id rec, of_step = step_num st, of_dueAt = dueAt,
      of_timezone = or_timezone rec, of_status = DUE, of_blockedReason = None,
      of_cancelledReason = None, of_createdAt = now, of_updatedAt = now\<rparr>"

definition scheduled_event :: "string \<Rightarrow> followup_step \<Rightarrow> int \<Rightarrow> new_outreach_event" where
  "scheduled_event rid st dueAt = evt rid FOLLOWUP_SCHEDULED None None
     (''Follow-up '' @ show_int (step_num st) @ '' due '' @ toISOString dueAt)
     (JObj [(''step'', JNum (step_num st)), (''dueAt'', JStr (toISOString dueAt))])"

definition sent_patch :: "outreach_status \<Rightarrow> int \<Rightarrow> int \<Rightarrow> int option \<Rightarrow> record_patch" where
  "sent_patch t sentAt stp nextDue = empty_patch
     \<lparr>p_status := Some t, p_lastSentAt := Some (Some sentAt), p_sequenceStep := Some stp,
      p_nextFollowupAt := Some nextDue\<rparr>"

definition enrollConfirmedSend ::
  "intl \<Rightarrow> (string \<Rightarrow> string) \<Rightarrow> int \<Rightarrow> enroll_input \<Rightarrow> enroll_result otx" where
  "enrollConfirmedSend intl sha256 now input =
     bind_tx (require (ei_recordId input)) (\<lambda>rec.
     bind_tx (findMessageByGmailMessageId (ei_gmailMessageId input)) (\<lambda>existing.
     case existing of
       Some m \<Rightarrow> return_tx \<lparr>er_outcome = ALREADY_ENROLLED, er_record = rec, er_message = Some m,
                   er_followup = None\<rparr>
     | None \<Rightarrow>
       (case index_of (or_status rec) ENROLL_PATH of
          None \<Rightarrow> return_tx \<lparr>er_outcome = RECORD_NOT_ENROLLABLE, er_record = rec, er_message = None,
                    er_followup = None\<rparr>
        | Some startIdx \<Rightarrow>
          if or_status rec = INITIAL_SENT
          then return_tx \<lparr>er_outcome = RECORD_NOT_ENROLLABLE, er_record = rec, er_message = None,
                 er_followup = None\<rparr>
          else
            bind_tx randomUUID (\<lambda>uid.
            let message = enrolled_message sha256 uid INITIAL 0 input (or_id rec) now in
            then_tx (insertMessage message)
            (then_tx (emit (enrolled_event message input))
            (then_tx (enroll_walk (or_id rec) (ei_sendAttemptId input) (or_status rec)
                       (drop (Suc startIdx) ENROLL_PATH))
            (bind_tx (lift_tx (computeFollowupDueUtc intl (ei_sentAt input) Step1 (or_timezone rec)
                       (ei_policy input))) (\<lambda>dueAt.
            bind_tx randomUUID (\<lambda>fuid.
            let followup = new_followup fuid rec Step1 dueAt now;
                patch = sent_patch INITIAL_SENT (ei_sentAt input) 0 (Some dueAt) in
            then_tx (insertFollowup followup)
            (then_tx (updateRecord (or_id rec) patch now)
            (then_tx (emit (scheduled_event (or_id rec) Step1 dueAt))
            (return_tx \<lparr>er_outcome = ENROLLED, er_record = recordPatchToSet patch now rec,
               er_message = Some message, er_followup = Some followup\<rparr>))))))))))))"

record enroll_followup_result =
  ef_outcome :: enroll_outcome
  ef_record :: outreach_record
  ef_message :: "outreach_message option"
  ef_sentFollowup :: "outreach_followup option"
  ef_nextFollowup :: "outreach_followup option"
  ef_reason :: "string option"

definition enroll_nothing :: "enroll_outcome \<Rightarrow> outreach_record \<Rightarrow> string \<Rightarrow> enroll_followup_result" where
  "enroll_nothing outcome rec reason =
     \<lparr>ef_outcome = outcome, ef_record = rec, ef_message = None, ef_sentFollowup = None,
      ef_nextFollowup = None, ef_reason = Some reason\<rparr>"

definition not_awaiting_text :: "outreach_status \<Rightarrow> string" where
  "not_awaiting_text st =
     ''record status '' @ outreach_status_str st @ '' is not awaiting a follow-up''"

definition step_mismatch_text :: "followup_step \<Rightarrow> followup_step \<Rightarrow> string" where
  "step_mismatch_text expected actual =
     ''provenance says step '' @ show_int (step_num expected) @ '' but the record awaits step ''
     @ show_int (step_num actual)"

definition followup_enrolled_event ::
  "outreach_message \<Rightarrow> enroll_input \<Rightarrow> new_outreach_event" where
  "followup_enrolled_event m input = evt (om_recordId m) MESSAGE_RECORDED None None
     (''FOLLOW_UP step '' @ show_int (om_sequenceStep m) @ '' enrolled from confirmed production send'')
     (JObj [(''contentHash'', JStr (om_contentHash m)),
            (''gmailMessageId'', JStr (ei_gmailMessageId input)),
            (''gmailThreadId'', JStr (ei_gmailThreadId input)),
            (''sendAttemptId'', JStr (ei_sendAttemptId input)),
            (''sequenceStep'', JNum (om_sequenceStep m))])"

definition followup_hop_event :: "string \<Rightarrow> followup_step \<Rightarrow> string \<Rightarrow> new_outreach_event" where
  "followup_hop_event rid st attempt =
     evt rid STATE_TRANSITION (Some (followupDueStatus st)) (Some (followupSentStatus st))
       (hop_text (followupDueStatus st) (followupSentStatus st) @ '' (enroll confirmed follow-up)'')
       (JObj [(''sendAttemptId'', JStr attempt), (''sequenceStep'', JNum (step_num st))])"

definition sequence_complete_event :: "string \<Rightarrow> followup_step \<Rightarrow> new_outreach_event" where
  "sequence_complete_event rid st = evt rid NOTE None None
     ''Sequence complete: the final follow-up was sent; no further email is scheduled.''
     (JObj [(''finalStep'', JNum (step_num st))])"

text \<open>Step 6 of the follow-up bridge: the next row, if there is a next step.\<close>

definition insert_next_followup ::
  "intl \<Rightarrow> int \<Rightarrow> enroll_input \<Rightarrow> outreach_record \<Rightarrow> followup_step option
   \<Rightarrow> outreach_followup option otx" where
  "insert_next_followup intl now input rec nxt =
     (case nxt of
        None \<Rightarrow> return_tx None
      | Some st \<Rightarrow>
          bind_tx (lift_tx (computeFollowupDueUtc intl (ei_sentAt input) st (or_timezone rec)
            (ei_policy input))) (\<lambda>dueAt.
          bind_tx randomUUID (\<lambda>uid.
          let f = new_followup uid rec st dueAt now in
          then_tx (insertFollowup f) (return_tx (Some f)))))"

text \<open>Step 4: the pending row of the step, if there is one, is marked sent.\<close>

definition mark_sent :: "outreach_followup option \<Rightarrow> int \<Rightarrow> unit otx" where
  "mark_sent sentFollowup now =
     (case sentFollowup of None \<Rightarrow> return_tx ()
      | Some f \<Rightarrow> updateFollowupStatus (of_id f) F_SENT None now)"

definition enroll_closing_event ::
  "string \<Rightarrow> followup_step \<Rightarrow> outreach_followup option \<Rightarrow> new_outreach_event" where
  "enroll_closing_event rid st nextFollowup =
     (case (nextFollowupStep st, nextFollowup) of
        (Some nst, Some f) \<Rightarrow> scheduled_event rid nst (of_dueAt f)
      | _ \<Rightarrow> sequence_complete_event rid st)"

definition enrollConfirmedFollowup ::
  "intl \<Rightarrow> (string \<Rightarrow> string) \<Rightarrow> int \<Rightarrow> enroll_input \<Rightarrow> followup_step \<Rightarrow> enroll_followup_result otx" where
  "enrollConfirmedFollowup intl sha256 now input expectedStep =
     bind_tx (require (ei_recordId input)) (\<lambda>rec.
     bind_tx (findMessageByGmailMessageId (ei_gmailMessageId input)) (\<lambda>existing.
     case existing of
       Some m \<Rightarrow> return_tx \<lparr>ef_outcome = ALREADY_ENROLLED, ef_record = rec, ef_message = Some m,
                   ef_sentFollowup = None, ef_nextFollowup = None, ef_reason = None\<rparr>
     | None \<Rightarrow>
       (case pendingFollowupStep (or_status rec) of
          None \<Rightarrow> return_tx (enroll_nothing RECORD_NOT_ENROLLABLE rec
                    (not_awaiting_text (or_status rec)))
        | Some st \<Rightarrow>
          if st \<noteq> expectedStep
          then return_tx (enroll_nothing ENROLL_STEP_MISMATCH rec (step_mismatch_text expectedStep st))
          else
            bind_tx randomUUID (\<lambda>uid.
            let message = enrolled_message sha256 uid FOLLOW_UP (step_num st) input (or_id rec) now;
                src = followupDueStatus st; dst = followupSentStatus st in
            then_tx (insertMessage message)
            (then_tx (emit (followup_enrolled_event message input))
            (bind_tx (pendingFollowups (or_id rec)) (\<lambda>pending.
            let sentFollowup = find (\<lambda>f. of_step f = step_num st) pending in
            then_tx (mark_sent sentFollowup now)
            (then_tx (lift_tx (assertOutreachTransition src dst))
            (then_tx (emit (followup_hop_event (or_id rec) st (ei_sendAttemptId input)))
            (bind_tx (insert_next_followup intl now input rec (nextFollowupStep st)) (\<lambda>nextFollowup.
            let patch = sent_patch dst (ei_sentAt input) (step_num st)
                  (map_option of_dueAt nextFollowup) in
            then_tx (updateRecord (or_id rec) patch now)
            (then_tx (emit (enroll_closing_event (or_id rec) st nextFollowup))
            (return_tx \<lparr>ef_outcome = ENROLLED, ef_record = recordPatchToSet patch now rec,
               ef_message = Some message, ef_sentFollowup = sentFollowup,
               ef_nextFollowup = nextFollowup, ef_reason = None\<rparr>)))))))))))))"

section \<open>Follow-ups\<close>

datatype schedule_result = SCHEDULED_FOLLOWUP outreach_followup | SCHEDULE_BLOCKED string

definition scheduleFollowup ::
  "intl \<Rightarrow> int \<Rightarrow> string \<Rightarrow> followup_step \<Rightarrow> sequence_policy \<Rightarrow> schedule_result otx" where
  "scheduleFollowup intl now rid st policy =
     bind_tx (require rid) (\<lambda>rec.
     case followupBlockedReason (or_status rec) of
       Some b \<Rightarrow> return_tx (SCHEDULE_BLOCKED (blocked_reason_str b))
     | None \<Rightarrow>
       (case or_lastSentAt rec of
          None \<Rightarrow> return_tx (SCHEDULE_BLOCKED ''NO_PRIOR_SEND'')
        | Some sent \<Rightarrow>
          bind_tx (lift_tx (computeFollowupDueUtc intl sent st (or_timezone rec) policy)) (\<lambda>dueAt.
          bind_tx randomUUID (\<lambda>uid.
          let followup = (new_followup uid rec st dueAt now)\<lparr>of_recordId := rid\<rparr> in
          then_tx (insertFollowup followup)
          (then_tx (updateRecord rid (empty_patch\<lparr>p_nextFollowupAt := Some (Some dueAt)\<rparr>) now)
          (then_tx (emit (scheduled_event rid st dueAt))
          (return_tx (SCHEDULED_FOLLOWUP followup))))))))"

record promote_input =
  pi_followupId :: string
  pi_recordId :: string
  pi_actor :: string

datatype promote_outcome = PROMOTED | PROMOTE_ALREADY_DUE | PROMOTE_BLOCKED | SKIPPED | RACE_LOST

record promote_result =
  pr_outcome :: promote_outcome
  pr_from :: "outreach_status option"
  pr_to :: "outreach_status option"
  pr_detail :: string

definition promotion_snapshot ::
  "outreach_followup \<Rightarrow> string \<Rightarrow> outreach_record option \<Rightarrow> promotion_candidate" where
  "promotion_snapshot f rid rec =
     \<lparr>pc_followupId = of_id f, pc_outreachRecordId = rid,
      pc_leadId = (case rec of None \<Rightarrow> [] | Some r \<Rightarrow> or_leadId r),
      pc_step = of_step f, pc_followupStatus = of_status f, pc_dueAtMs = of_dueAt f,
      pc_recordStatus = map_option or_status rec,
      pc_doNotContact = (case rec of None \<Rightarrow> False | Some r \<Rightarrow> or_doNotContact r)\<rparr>"

definition promoted_event ::
  "promote_input \<Rightarrow> outreach_followup \<Rightarrow> followup_step \<Rightarrow> outreach_status \<Rightarrow> outreach_status
   \<Rightarrow> new_outreach_event" where
  "promoted_event input f st src dst = evt (pi_recordId input) STATE_TRANSITION (Some src) (Some dst)
     (hop_text src dst @ '' (follow-up '' @ show_int (step_num st) @ '' came due, ''
      @ pi_actor input @ '')'')
     (JObj [(''trigger'', JStr ''FOLLOWUP_DUE''), (''automated'', JBool True),
            (''promotedBy'', JStr (pi_actor input)), (''followupId'', JStr (of_id f)),
            (''step'', JNum (step_num st)), (''dueAt'', JStr (toISOString (of_dueAt f)))])"

definition followup_not_found_text :: "promote_input \<Rightarrow> string" where
  "followup_not_found_text input = ''FOLLOWUP_NOT_FOUND: no follow-up '' @ pi_followupId input
     @ '' on record '' @ pi_recordId input"

definition race_lost_text :: "outreach_status \<Rightarrow> string" where
  "race_lost_text src = ''record left '' @ outreach_status_str src
     @ '' before the promotion could be applied; nothing written''"

text \<open>The clock is read twice: for the decision and for the write.\<close>

definition promoteFollowupDue :: "int \<Rightarrow> int \<Rightarrow> promote_input \<Rightarrow> promote_result otx" where
  "promoteFollowupDue now1 now2 input =
     bind_tx (getFollowup (pi_followupId input)) (\<lambda>fo.
     let skipped = return_tx \<lparr>pr_outcome = SKIPPED, pr_from = None, pr_to = None,
           pr_detail = followup_not_found_text input\<rparr> in
     case fo of None \<Rightarrow> skipped
     | Some f \<Rightarrow>
       if of_recordId f \<noteq> pi_recordId input then skipped
       else bind_tx (getRecord (pi_recordId input)) (\<lambda>rec.
         let st0 = map_option or_status rec in
         case decideFollowupPromotion (promotion_snapshot f (pi_recordId input) rec) now1 of
           ALREADY_DUE detail \<Rightarrow> return_tx \<lparr>pr_outcome = PROMOTE_ALREADY_DUE, pr_from = st0,
             pr_to = st0, pr_detail = detail\<rparr>
         | BLOCKED r detail \<Rightarrow> return_tx \<lparr>pr_outcome = PROMOTE_BLOCKED, pr_from = st0, pr_to = None,
             pr_detail = blocked_reason_str r @ '': '' @ detail\<rparr>
         | SKIP r detail \<Rightarrow> return_tx \<lparr>pr_outcome = SKIPPED, pr_from = st0, pr_to = None,
             pr_detail = skip_reason_str r @ '': '' @ detail\<rparr>
         | PROMOTE st src dst \<Rightarrow>
             then_tx (lift_tx (assertOutreachTransition src dst))
             (bind_tx (updateRecordIfStatus (pi_recordId input) src
                (empty_patch\<lparr>p_status := Some dst\<rparr>) now2) (\<lambda>applied.
              if \<not> applied
              then return_tx \<lparr>pr_outcome = RACE_LOST, pr_from = Some src, pr_to = None,
                     pr_detail = race_lost_text src\<rparr>
              else then_tx (emit (promoted_event input f st src dst))
                (return_tx \<lparr>pr_outcome = PROMOTED, pr_from = Some src, pr_to = Some dst,
                   pr_detail = ''promoted to '' @ outreach_status_str dst\<rparr>)))))"

definition operator_cancelled_event :: "string \<Rightarrow> string \<Rightarrow> string \<Rightarrow> new_outreach_event" where
  "operator_cancelled_event fid rid reason = evt rid FOLLOWUP_CANCELLED None None
     (''Follow-up cancelled: '' @ reason)
     (JObj [(''followupId'', JStr fid), (''reason'', JStr reason)])"

definition cancelFollowup :: "int \<Rightarrow> string \<Rightarrow> string \<Rightarrow> string \<Rightarrow> unit otx" where
  "cancelFollowup now fid rid reason =
     then_tx (updateFollowupStatus fid CANCELLED (Some reason) now)
     (then_tx (updateRecord rid (empty_patch\<lparr>p_nextFollowupAt := Some None\<rparr>) now)
     (emit (operator_cancelled_event fid rid reason)))"

definition postponed_event :: "string \<Rightarrow> string \<Rightarrow> int \<Rightarrow> string \<Rightarrow> new_outreach_event" where
  "postponed_event fid rid newDueAt reason = evt rid FOLLOWUP_POSTPONED None None
     (''Follow-up postponed to '' @ toISOString newDueAt @ '': '' @ reason)
     (JObj [(''followupId'', JStr fid), (''newDueAt'', JStr (toISOString newDueAt)),
            (''reason'', JStr reason)])"

definition postponeFollowup :: "int \<Rightarrow> string \<Rightarrow> string \<Rightarrow> int \<Rightarrow> string \<Rightarrow> unit otx" where
  "postponeFollowup now fid rid newDueAt reason =
     then_tx (updateFollowupStatus fid POSTPONED (Some reason) now)
     (then_tx (updateRecord rid (empty_patch\<lparr>p_nextFollowupAt := Some (Some newDueAt)\<rparr>) now)
     (emit (postponed_event fid rid newDueAt reason)))"

section \<open>Replies\<close>

record apply_reply_input =
  ar_recordId :: string
  ar_gmailThreadId :: string
  ar_gmailMessageId :: string
  ar_fromEmail :: string
  ar_receivedAtMs :: int
  ar_preview :: string
  ar_classification :: reply_classification

definition reply_patch :: "apply_reply_input \<Rightarrow> record_patch" where
  "reply_patch input =
     (let t = classificationToStatus (ar_classification input) in empty_patch
       \<lparr>p_status := Some t, p_lastReplyAt := Some (Some (ar_receivedAtMs input)),
        p_replyCategory := Some (Some (reply_classification_str (ar_classification input))),
        p_nextFollowupAt := Some None,
        p_doNotContact := (if t = UNSUBSCRIBED then Some True else None)\<rparr>)"

definition reply_metadata_patch :: "apply_reply_input \<Rightarrow> record_patch" where
  "reply_metadata_patch input = empty_patch
     \<lparr>p_lastReplyAt := Some (Some (ar_receivedAtMs input)),
      p_replyCategory := Some (Some (reply_classification_str (ar_classification input)))\<rparr>"

definition reply_hop_event ::
  "apply_reply_input \<Rightarrow> outreach_status \<Rightarrow> outreach_status \<Rightarrow> new_outreach_event" where
  "reply_hop_event input f t = evt (ar_recordId input) STATE_TRANSITION (Some f) (Some t)
     (hop_text f t @ '' (reply)'')
     (JObj [(''classification'', JStr (reply_classification_str (ar_classification input)))])"

definition reply_detected_event :: "apply_reply_input \<Rightarrow> new_outreach_event" where
  "reply_detected_event input = evt (ar_recordId input) REPLY_DETECTED None None
     (''Reply from '' @ ar_fromEmail input @ '' classified ''
      @ reply_classification_str (ar_classification input))
     (JObj [(''gmailMessageId'', JStr (ar_gmailMessageId input)),
            (''classification'', JStr (reply_classification_str (ar_classification input)))])"

definition reply_row :: "string \<Rightarrow> apply_reply_input \<Rightarrow> outreach_reply" where
  "reply_row uid input =
     \<lparr>rp_id = uid, rp_recordId = ar_recordId input, rp_gmailThreadId = ar_gmailThreadId input,
      rp_gmailMessageId = ar_gmailMessageId input,
      rp_fromEmail = js_lower (js_trim (ar_fromEmail input)), rp_receivedAt = ar_receivedAtMs input,
      rp_classification = reply_classification_str (ar_classification input),
      rp_preview = safePreview (ar_preview input) 280\<rparr>"

definition applyReply :: "int \<Rightarrow> apply_reply_input \<Rightarrow> outreach_record otx" where
  "applyReply now input =
     bind_tx (require (ar_recordId input)) (\<lambda>rec.
     let t = classificationToStatus (ar_classification input); f = or_status rec in
     bind_tx randomUUID (\<lambda>uid.
     then_tx (insertReply (reply_row uid input))
     (then_tx
       (if canOutreachTransition f t
        then then_tx (updateRecord (ar_recordId input) (reply_patch input) now)
               (emit (reply_hop_event input f t))
        else updateRecord (ar_recordId input) (reply_metadata_patch input) now)
     (then_tx (emit (reply_detected_event input))
     (then_tx (cancelPending (ar_recordId input) ''REPLY_DETECTED'' now)
     (return_tx (recordPatchToSet (reply_patch input) now rec)))))))"

section \<open>Delivery failures\<close>

record delivery_failure_input =
  df_recordId :: string
  df_messageId :: "string option"
  df_deliveryStatus :: delivery_status
  df_permanence :: delivery_permanence
  df_rejectionCode :: "string option"
  df_diagnosticText :: "string option"
  df_dsnStatus :: "string option"
  df_dsnAction :: "string option"
  df_finalRecipient :: "string option"
  df_originalRecipient :: "string option"
  df_bounceAtMs :: "int option"
  df_originalGmailMessageId :: "string option"
  df_originalGmailThreadId :: "string option"
  df_dsnGmailMessageId :: string
  df_dsnGmailThreadId :: "string option"
  df_preview :: string

datatype delivery_failure_outcome =
  BOUNCED_APPLIED | SKIPPED_TERMINAL | DELIVERY_UNKNOWN_RECORDED | ALREADY_RECONCILED

definition delivery_row :: "string \<Rightarrow> delivery_failure_input \<Rightarrow> int \<Rightarrow> delivery_event" where
  "delivery_row uid i now =
     \<lparr>de_id = uid, de_recordId = df_recordId i, de_messageId = df_messageId i,
      de_deliveryStatus = df_deliveryStatus i, de_permanence = df_permanence i,
      de_rejectionCode = df_rejectionCode i,
      de_diagnosticText = map_option (\<lambda>t. safePreview t 500) (given (df_diagnosticText i)),
      de_dsnStatus = df_dsnStatus i, de_dsnAction = df_dsnAction i,
      de_finalRecipient = df_finalRecipient i, de_originalRecipient = df_originalRecipient i,
      de_bounceAt = df_bounceAtMs i, de_originalGmailMessageId = df_originalGmailMessageId i,
      de_originalGmailThreadId = df_originalGmailThreadId i,
      de_dsnGmailMessageId = df_dsnGmailMessageId i, de_dsnGmailThreadId = df_dsnGmailThreadId i,
      de_preview = safePreview (df_preview i) 280, de_supersededAt = None,
      de_supersededReason = None, de_supersededBy = None, de_createdAt = now\<rparr>"

definition code_text :: "delivery_failure_input \<Rightarrow> string" where
  "code_text i = (case df_rejectionCode i of None \<Rightarrow> ''no code'' | Some c \<Rightarrow> c)"

definition delivery_unknown_event :: "delivery_failure_input \<Rightarrow> new_outreach_event" where
  "delivery_unknown_event i = evt (df_recordId i) DELIVERY_UNKNOWN None None
     (''Temporary delivery failure ('' @ code_text i @ '') '' @ [CHR 0x97]
      @ '' operator review required; no retry'')
     (JObj [(''dsnGmailMessageId'', JStr (df_dsnGmailMessageId i)), (''status'', jopt (df_dsnStatus i)),
            (''action'', jopt (df_dsnAction i))])"

definition bounce_event ::
  "delivery_failure_input \<Rightarrow> outreach_status \<Rightarrow> bool \<Rightarrow> new_outreach_event" where
  "bounce_event i f legal =
     evt (df_recordId i) BOUNCE_DETECTED (Some f) (Some (if legal then BOUNCED else f))
     (''Permanent delivery failure ('' @ code_text i @ '')''
      @ (if legal then '' '' @ [CHR 0x97] @ '' '' @ outreach_status_str f @ '' -> BOUNCED''
         else '' '' @ [CHR 0x97] @ '' record left in place (transition not legal)'')
      @ ''; no retry'')
     (JObj [(''dsnGmailMessageId'', JStr (df_dsnGmailMessageId i)),
            (''rejectionCode'', jopt (df_rejectionCode i)), (''diagnostic'', jopt (df_dsnStatus i))])"

definition followups_cancelled_event :: "string \<Rightarrow> outreach_followup list \<Rightarrow> new_outreach_event" where
  "followups_cancelled_event rid pending = evt rid FOLLOWUPS_CANCELLED None None
     (show_nat (length pending) @ '' pending follow-up(s) cancelled (BOUNCED)'')
     (JObj [(''cancelled'', JArr (map (\<lambda>f. JStr (of_id f)) pending)), (''reason'', JStr ''BOUNCED'')])"

definition bounce_patch :: "bool \<Rightarrow> record_patch" where
  "bounce_patch legal = empty_patch\<lparr>p_nextFollowupAt := Some None,
     p_status := (if legal then Some BOUNCED else None)\<rparr>"

text \<open>What follows the insertion of the delivery event: a temporary failure is recorded, a
  permanent one bounces the record and closes its pending rows.\<close>

definition settle_failure ::
  "int \<Rightarrow> delivery_failure_input \<Rightarrow> outreach_record
   \<Rightarrow> (delivery_failure_outcome \<times> outreach_record) otx" where
  "settle_failure now i rec =
     (if df_deliveryStatus i \<noteq> D_BOUNCED
      then then_tx (emit (delivery_unknown_event i)) (return_tx (DELIVERY_UNKNOWN_RECORDED, rec))
      else
        let legal = canOutreachTransition (or_status rec) BOUNCED;
            patch = bounce_patch legal in
        then_tx (updateRecord (df_recordId i) patch now)
        (then_tx (emit (bounce_event i (or_status rec) legal))
        (bind_tx (pendingFollowups (df_recordId i)) (\<lambda>pending.
        then_tx (for_tx pending (\<lambda>f. updateFollowupStatus (of_id f) CANCELLED (Some ''BOUNCED'') now))
        (then_tx (emit (followups_cancelled_event (df_recordId i) pending))
        (return_tx (BOUNCED_APPLIED, recordPatchToSet patch now rec)))))))"

definition applyDeliveryFailure ::
  "int \<Rightarrow> delivery_failure_input \<Rightarrow> (delivery_failure_outcome \<times> outreach_record) otx" where
  "applyDeliveryFailure now i =
     bind_tx (require (df_recordId i)) (\<lambda>rec.
     bind_tx (deliveryEventExists (df_dsnGmailMessageId i)) (\<lambda>seen.
     if seen then return_tx (ALREADY_RECONCILED, rec)
     else if or_status rec \<in> set OUTREACH_SEND_BLOCKED then return_tx (SKIPPED_TERMINAL, rec)
     else
       bind_tx randomUUID (\<lambda>uid.
       then_tx (insertDeliveryEvent (delivery_row uid i now)) (settle_failure now i rec))))"

section \<open>Operator correction of delivery events\<close>

record correct_input =
  ci_dsnGmailMessageIds :: "string list"
  ci_reason :: string
  ci_by :: string
  ci_dryRun :: bool

record correction_view =
  cv_dsnGmailMessageId :: string
  cv_found :: bool
  cv_outreachRecordId :: "string option"
  cv_deliveryStatus :: "delivery_status option"
  cv_alreadySuperseded :: bool

record correct_result =
  cr_dryRun :: bool
  cr_applied :: bool
  cr_events :: "correction_view list"
  cr_toSupersedeCount :: nat
  cr_alreadySupersededCount :: nat
  cr_notFound :: "string list"
  cr_recordsAnnotated :: "string list"

text \<open>\<^verbatim>\<open>[...new Set(xs)]\<close>: the first occurrences, in order.\<close>

definition js_unique :: "'a list \<Rightarrow> 'a list" where
  "js_unique xs = rev (remdups (rev xs))"

text \<open>The rows of one record, keyed in the order of first occurrence: the \<^verbatim>\<open>byRecord\<close> map.\<close>

definition by_record :: "delivery_event list \<Rightarrow> (string \<times> string list) list" where
  "by_record rows = map (\<lambda>rid. (rid, map de_dsnGmailMessageId (filter (\<lambda>d. de_recordId d = rid) rows)))
     (js_unique (map de_recordId rows))"

definition correction_event :: "correct_input \<Rightarrow> string \<Rightarrow> string list \<Rightarrow> new_outreach_event" where
  "correction_event i rid dsnIds = evt rid DELIVERY_RECONCILIATION_CORRECTED None None
     (show_nat (length dsnIds) @ '' delivery event(s) invalidated by '' @ ci_by i @ '': '' @ ci_reason i)
     (JObj [(''dsnGmailMessageIds'', JArr (map JStr dsnIds)), (''reason'', JStr (ci_reason i)),
            (''by'', JStr (ci_by i))])"

definition correction_view_of :: "delivery_event list \<Rightarrow> string \<Rightarrow> correction_view" where
  "correction_view_of rows dsn =
     (let r = find (\<lambda>d. de_dsnGmailMessageId d = dsn) (rev rows) in
      \<lparr>cv_dsnGmailMessageId = dsn, cv_found = (r \<noteq> None),
       cv_outreachRecordId = map_option de_recordId r,
       cv_deliveryStatus = map_option de_deliveryStatus r,
       cv_alreadySuperseded = (case r of None \<Rightarrow> False | Some d \<Rightarrow> de_supersededAt d \<noteq> None)\<rparr>)"

definition correctDeliveryEvents :: "int \<Rightarrow> correct_input \<Rightarrow> correct_result otx" where
  "correctDeliveryEvents now i =
     (let ids = js_unique (filter (\<lambda>s. s \<noteq> []) (map js_trim (ci_dsnGmailMessageIds i))) in
      bind_tx (deliveryEventsByDsnIds ids) (\<lambda>rows.
      let toSupersede = filter (\<lambda>d. de_supersededAt d = None) rows;
          apply_it = (\<not> ci_dryRun i \<and> toSupersede \<noteq> []);
          groups = by_record toSupersede in
      then_tx (when_tx apply_it
        (then_tx (for_tx toSupersede (\<lambda>d. supersedeDeliveryEvent (de_id d) now (ci_reason i) (ci_by i)))
          (for_tx groups (\<lambda>(rid, dsns). emit (correction_event i rid dsns)))))
      (return_tx
        \<lparr>cr_dryRun = ci_dryRun i, cr_applied = apply_it,
         cr_events = map (correction_view_of rows) ids,
         cr_toSupersedeCount = length toSupersede,
         cr_alreadySupersededCount = length rows - length toSupersede,
         cr_notFound = filter (\<lambda>dsn. dsn \<notin> set (map de_dsnGmailMessageId rows)) ids,
         cr_recordsAnnotated = (if apply_it then map fst groups else [])\<rparr>)))"

end
