(* ===== verification/Outreach_Refinement.thy ===== *)
theory Outreach_Refinement
  imports Outreach_Service
begin

text \<open>
  What \<^verbatim>\<open>OutreachService\<close> promises, as an abstract machine per record, and the proof that the
  transactions implement it. The abstract state of a record is its status, its do-not-contact
  flag, the status changes its timeline reports and the set of its pending follow-up rows; the
  abstract steps create a record, make one legal status change (which empties the pending set
  when the new status ends the sequence), schedule a follow-up where the status allows one,
  drop pending rows, or put a row back (the operator's postponement, which looks at no status).
\<close>

section \<open>Commands\<close>

datatype outreach_cmd =
    Track int track_input
  | Transition int string outreach_status "string option" bool
  | RecordMessage int record_message_input
  | EnrollSend int enroll_input
  | EnrollFollowup int enroll_input followup_step
  | ScheduleFollowup int string followup_step sequence_policy
  | PromoteDue int int promote_input
  | CancelFollowup int string string string
  | PostponeFollowup int string string int string
  | ApplyReply int apply_reply_input
  | ApplyDelivery int delivery_failure_input
  | CorrectDelivery int correct_input

definition ignore_tx :: "('s, 'a) tx \<Rightarrow> ('s, unit) tx" where
  "ignore_tx m = then_tx m (return_tx ())"

lemma ignore_tx_eq_Inr [tx_simps]:
  "ignore_tx m s = Inr (u, s') \<longleftrightarrow> (\<exists>x. m s = Inr (x, s'))"
  by (auto simp: ignore_tx_def tx_simps)

fun exec_outreach :: "intl \<Rightarrow> (string \<Rightarrow> string) \<Rightarrow> outreach_cmd \<Rightarrow> unit otx" where
  "exec_outreach intl sha256 (Track now i) = ignore_tx (track now i)"
| "exec_outreach intl sha256 (Transition now rid t r so) = ignore_tx (outreach_transition now rid t r so)"
| "exec_outreach intl sha256 (RecordMessage now i) = ignore_tx (recordMessage sha256 now i)"
| "exec_outreach intl sha256 (EnrollSend now i) = ignore_tx (enrollConfirmedSend intl sha256 now i)"
| "exec_outreach intl sha256 (EnrollFollowup now i st) =
     ignore_tx (enrollConfirmedFollowup intl sha256 now i st)"
| "exec_outreach intl sha256 (ScheduleFollowup now rid st pol) =
     ignore_tx (scheduleFollowup intl now rid st pol)"
| "exec_outreach intl sha256 (PromoteDue n1 n2 i) = ignore_tx (promoteFollowupDue n1 n2 i)"
| "exec_outreach intl sha256 (CancelFollowup now fid rid reason) = cancelFollowup now fid rid reason"
| "exec_outreach intl sha256 (PostponeFollowup now fid rid due reason) =
     postponeFollowup now fid rid due reason"
| "exec_outreach intl sha256 (ApplyReply now i) = ignore_tx (applyReply now i)"
| "exec_outreach intl sha256 (ApplyDelivery now i) = ignore_tx (applyDeliveryFailure now i)"
| "exec_outreach intl sha256 (CorrectDelivery now i) = ignore_tx (correctDeliveryEvents now i)"

section \<open>Every operation is sound\<close>

lemma sound_emit [sound_intros]: "ensures sound_stmt (emit e)"
  unfolding emit_def by (intro sound_intros)

lemma sound_require [sound_intros]: "ensures sound_stmt (require rid)"
  unfolding require_def by (intro sound_intros)

lemma sound_cancelPending [sound_intros]: "ensures sound_stmt (cancelPending rid reason now)"
  unfolding cancelPending_def by (intro sound_intros)

lemma sound_walk [sound_intros]: "ensures sound_stmt (enroll_walk rid attempt f ts)"
  by (induction ts arbitrary: f) (simp_all only: enroll_walk.simps, (intro sound_intros, assumption?)+)

lemma sound_next [sound_intros]: "ensures sound_stmt (insert_next_followup intl now i rec nxt)"
  unfolding insert_next_followup_def Let_def by (intro sound_intros)

lemma sound_mark_sent [sound_intros]: "ensures sound_stmt (mark_sent sf now)"
  unfolding mark_sent_def by (intro sound_intros)

lemma sound_let [sound_intros]: "ensures sound_stmt (f x) \<Longrightarrow> ensures sound_stmt (let y = x in f y)"
  by simp

lemma sound_track: "ensures sound_stmt (track now i)"
  unfolding track_def by (intro sound_intros)

lemma sound_transition: "ensures sound_stmt (outreach_transition now rid t r so)"
  unfolding outreach_transition_def by (intro sound_intros)

lemma sound_recordMessage: "ensures sound_stmt (recordMessage sha256 now mi)"
  unfolding recordMessage_def by (intro sound_intros)

lemma sound_enrollSend: "ensures sound_stmt (enrollConfirmedSend intl sha256 now ei)"
  unfolding enrollConfirmedSend_def by (intro sound_intros)

lemma sound_enrollFollowup: "ensures sound_stmt (enrollConfirmedFollowup intl sha256 now ei st)"
  unfolding enrollConfirmedFollowup_def by (intro sound_intros)

lemma sound_scheduleFollowup: "ensures sound_stmt (scheduleFollowup intl now rid st pol)"
  unfolding scheduleFollowup_def by (intro sound_intros)

lemma sound_promotion [sound_intros]:
  "(\<And>st s t. d = PROMOTE st s t \<Longrightarrow> ensures sound_stmt (a st s t)) \<Longrightarrow>
   (\<And>x. ensures sound_stmt (b x)) \<Longrightarrow> (\<And>r x. ensures sound_stmt (c r x)) \<Longrightarrow>
   (\<And>r x. ensures sound_stmt (e r x)) \<Longrightarrow>
   ensures sound_stmt (case d of PROMOTE st s t \<Rightarrow> a st s t | ALREADY_DUE x \<Rightarrow> b x
     | SKIP r x \<Rightarrow> c r x | BLOCKED r x \<Rightarrow> e r x)"
  by (cases d) simp_all

lemma sound_promote: "ensures sound_stmt (promoteFollowupDue n1 n2 pri)"
  unfolding promoteFollowupDue_def by (intro sound_intros)

lemma sound_cancelFollowup: "ensures sound_stmt (cancelFollowup now fid rid reason)"
  unfolding cancelFollowup_def by (intro sound_intros)

lemma sound_postponeFollowup: "ensures sound_stmt (postponeFollowup now fid rid due reason)"
  unfolding postponeFollowup_def by (intro sound_intros)

lemma sound_applyReply: "ensures sound_stmt (applyReply now ari)"
  unfolding applyReply_def by (intro sound_intros)

lemma sound_settle [sound_intros]: "ensures sound_stmt (settle_failure now dfi rec)"
  unfolding settle_failure_def by (intro sound_intros)

lemma sound_applyDelivery: "ensures sound_stmt (applyDeliveryFailure now dfi)"
  unfolding applyDeliveryFailure_def by (intro sound_intros)

lemma sound_correct: "ensures sound_stmt (correctDeliveryEvents now cri)"
  unfolding correctDeliveryEvents_def by (intro sound_intros)

lemma sound_ignore [sound_intros]: "ensures sound_stmt m \<Longrightarrow> ensures sound_stmt (ignore_tx m)"
  unfolding ignore_tx_def by (intro sound_intros)

lemma sound_exec: "ensures sound_stmt (exec_outreach intl sha256 c)"
  by (cases c)
    (simp_all add: sound_ignore sound_track sound_transition sound_recordMessage sound_enrollSend
      sound_enrollFollowup sound_scheduleFollowup sound_promote sound_cancelFollowup
      sound_postponeFollowup sound_applyReply sound_applyDelivery sound_correct)

section \<open>The abstract machine of a record\<close>

record aview =
  av_status :: outreach_status
  av_dnc :: bool
  av_hops :: "(outreach_status \<times> outreach_status) list"
  av_pending :: "string set"

inductive astep :: "bool \<Rightarrow> aview option \<Rightarrow> aview option \<Rightarrow> bool" for revive :: bool where
  a_create: "astep revive None
     (Some \<lparr>av_status = DRAFT_READY, av_dnc = False, av_hops = [], av_pending = {}\<rparr>)"
| a_hop: "canOutreachTransition (av_status v) t \<Longrightarrow> P \<subseteq> av_pending v \<Longrightarrow>
     (t \<in> set OUTREACH_NO_FOLLOWUP \<Longrightarrow> P = {}) \<Longrightarrow>
     astep revive (Some v) (Some \<lparr>av_status = t, av_dnc = (av_dnc v \<or> suppresses t),
       av_hops = av_hops v @ [(av_status v, t)], av_pending = P\<rparr>)"
| a_schedule: "av_status v \<notin> set OUTREACH_NO_FOLLOWUP \<Longrightarrow> P \<subseteq> insert f (av_pending v) \<Longrightarrow>
     astep revive (Some v) (Some (v\<lparr>av_pending := P\<rparr>))"
| a_drop: "P \<subseteq> av_pending v \<Longrightarrow> astep revive (Some v) (Some (v\<lparr>av_pending := P\<rparr>))"
| a_revive: "revive \<Longrightarrow> P \<subseteq> insert f (av_pending v) \<Longrightarrow> astep revive (Some v) (Some (v\<lparr>av_pending := P\<rparr>))"

inductive_cases astepE: "astep revive (Some v) w"

text \<open>The contract: the status changes form a legal run of the state machine that ends in the
  current status, the do-not-contact flag is set exactly in the two suppressed statuses, and a
  record whose status ends the sequence has nothing pending.\<close>

fun chained :: "outreach_status \<Rightarrow> (outreach_status \<times> outreach_status) list \<Rightarrow> outreach_status \<Rightarrow> bool" where
  "chained s [] t \<longleftrightarrow> s = t"
| "chained s ((a, b) # hs) t \<longleftrightarrow> a = s \<and> canOutreachTransition a b \<and> chained b hs t"

lemma chained_append: "chained s (xs @ ys) t \<longleftrightarrow> (\<exists>m. chained s xs m \<and> chained m ys t)"
  by (induction xs arbitrary: s) auto

lemma chained_legal: "chained s hs t \<Longrightarrow> legal_run allowedOutreachTransitions s (map snd hs)"
  by (induction s hs t rule: chained.induct) (auto simp: canOutreachTransition_def)

lemma chained_last: "chained s hs t \<Longrightarrow> t = last (s # map snd hs)"
  by (induction s hs t rule: chained.induct) auto

definition acontract :: "bool \<Rightarrow> aview option \<Rightarrow> bool" where
  "acontract revive x \<longleftrightarrow> (case x of None \<Rightarrow> True | Some v \<Rightarrow>
     chained DRAFT_READY (av_hops v) (av_status v) \<and> (av_dnc v \<longleftrightarrow> suppresses (av_status v))
     \<and> (\<not> revive \<longrightarrow> av_status v \<in> set OUTREACH_NO_FOLLOWUP \<longrightarrow> av_pending v = {}))"

lemma suppresses_terminal: "suppresses s \<Longrightarrow> \<not> canOutreachTransition s t"
  by (auto simp: suppresses_def canOutreachTransition_iff isOutreachTerminal_def outreach_sets)

lemma astep_contract:
  assumes "astep revive x y" and "acontract revive x"
  shows "acontract revive y"
  using assms
proof (induction rule: astep.induct)
  case (a_hop v t P)
  then have "\<not> suppresses (av_status v)"
    using suppresses_terminal by blast
  then show ?case
    using a_hop by (auto simp: acontract_def chained_append)
qed (auto simp: acontract_def suppresses_def)

lemma asteps_contract: "(astep revive)\<^sup>*\<^sup>* x y \<Longrightarrow> acontract revive x \<Longrightarrow> acontract revive y"
  by (induction rule: rtranclp_induct) (auto intro: astep_contract)

section \<open>Abstraction of the tables\<close>

definition hop_of :: "new_outreach_event \<Rightarrow> (outreach_status \<times> outreach_status) list" where
  "hop_of e = (case (ne_fromStatus e, ne_toStatus e) of (Some f, Some t) \<Rightarrow> [(f, t)] | _ \<Rightarrow> [])"

definition hops :: "outreach_db \<Rightarrow> string \<Rightarrow> (outreach_status \<times> outreach_status) list" where
  "hops s rid = concat (map hop_of (history s rid))"

definition pend :: "outreach_db \<Rightarrow> string \<Rightarrow> string set" where
  "pend s rid = of_id ` set (filter (is_pending rid) (t_followups s))"

definition rec_of :: "outreach_db \<Rightarrow> string \<Rightarrow> outreach_record option" where
  "rec_of s rid = find (\<lambda>r. or_id r = rid) (t_records s)"

definition abs_of :: "outreach_db \<Rightarrow> string \<Rightarrow> aview option" where
  "abs_of s rid = map_option (\<lambda>r. \<lparr>av_status = or_status r, av_dnc = or_doNotContact r,
     av_hops = hops s rid, av_pending = pend s rid\<rparr>) (rec_of s rid)"

lemma hop_of_none [simp]: "ne_fromStatus e = None \<Longrightarrow> hop_of e = []"
  by (simp add: hop_of_def)

lemma hop_of_evt [simp]: "hop_of (evt rid ty (Some f) (Some t) msg d) = [(f, t)]"
  by (simp add: hop_of_def)

lemma view_frame [simp]:
  "hops (s\<lparr>t_records := x0\<rparr>) rid = hops s rid"
  "hops (s\<lparr>t_messages := x1\<rparr>) rid = hops s rid"
  "hops (s\<lparr>t_replies := x2\<rparr>) rid = hops s rid"
  "hops (s\<lparr>t_followups := x3\<rparr>) rid = hops s rid"
  "hops (s\<lparr>t_deliveries := x4\<rparr>) rid = hops s rid"
  "hops (s\<lparr>drawn := x5\<rparr>) rid = hops s rid"
  "pend (s\<lparr>t_records := x0\<rparr>) rid = pend s rid"
  "pend (s\<lparr>t_messages := x1\<rparr>) rid = pend s rid"
  "pend (s\<lparr>t_replies := x2\<rparr>) rid = pend s rid"
  "pend (s\<lparr>t_events := x6\<rparr>) rid = pend s rid"
  "pend (s\<lparr>t_deliveries := x4\<rparr>) rid = pend s rid"
  "pend (s\<lparr>drawn := x5\<rparr>) rid = pend s rid"
  "rec_of (s\<lparr>t_messages := x1\<rparr>) rid = rec_of s rid"
  "rec_of (s\<lparr>t_replies := x2\<rparr>) rid = rec_of s rid"
  "rec_of (s\<lparr>t_followups := x3\<rparr>) rid = rec_of s rid"
  "rec_of (s\<lparr>t_events := x6\<rparr>) rid = rec_of s rid"
  "rec_of (s\<lparr>t_deliveries := x4\<rparr>) rid = rec_of s rid"
  "rec_of (s\<lparr>drawn := x5\<rparr>) rid = rec_of s rid"
  by (simp_all add: hops_def pend_def rec_of_def)

text \<open>The statements on the views: what changes, for every record.\<close>

lemma rec_of_updateRecord:
  "updateRecord rid p now s = Inr (u, s') \<Longrightarrow>
   rec_of s' = (rec_of s)(rid := map_option (recordPatchToSet p now) (rec_of s rid))"
proof
  fix k
  assume "updateRecord rid p now s = Inr (u, s')"
  then have "t_records s' = update_where (\<lambda>r. or_id r = rid) (recordPatchToSet p now) (t_records s)"
    by (simp add: store_simps)
  moreover have "find (\<lambda>r. or_id r = k) (update_where (\<lambda>r. or_id r = rid) (recordPatchToSet p now) (t_records s))
    = map_option (\<lambda>r. if or_id r = rid then recordPatchToSet p now r else r)
        (find (\<lambda>r. or_id r = k) (t_records s))"
    by (rule find_update_where_keep) simp
  ultimately show "rec_of s' k = ((rec_of s)(rid := map_option (recordPatchToSet p now) (rec_of s rid))) k"
    by (cases "find (\<lambda>r. or_id r = k) (t_records s)") (auto simp: rec_of_def dest: find_SomeD)
qed

lemma hops_emit:
  "emit e s = Inr (u, s') \<Longrightarrow>
   hops s' = (hops s)(ne_recordId e := hops s (ne_recordId e) @ hop_of e)"
  by (auto simp: emit_def tx_simps store_simps hops_def history_def timeline_def)

lemma rec_of_emit: "emit e s = Inr (u, s') \<Longrightarrow> rec_of s' = rec_of s"
  by (auto simp: emit_def tx_simps store_simps rec_of_def)

lemma pend_emit: "emit e s = Inr (u, s') \<Longrightarrow> pend s' = pend s"
  by (auto simp: emit_def tx_simps store_simps pend_def)

lemma emit_exists: "emit e s = Inr (u, s') \<Longrightarrow> record_exists s (ne_recordId e)"
  by (auto simp: emit_def tx_simps store_simps)

lemma pend_updateRecord: "updateRecord rid p now s = Inr (u, s') \<Longrightarrow> pend s' = pend s"
  by (auto simp: store_simps pend_def)

lemma hops_updateRecord: "updateRecord rid p now s = Inr (u, s') \<Longrightarrow> hops s' = hops s"
  by (auto simp: store_simps)

lemma hops_followup:
  "updateFollowupStatus fid st reason now s = Inr (u, s') \<Longrightarrow> hops s' = hops s"
  "insertFollowup f s = Inr (u, s') \<Longrightarrow> hops s' = hops s"
  by (auto simp: store_simps)

lemma rec_of_followup:
  "updateFollowupStatus fid st reason now s = Inr (u, s') \<Longrightarrow> rec_of s' = rec_of s"
  "insertFollowup f s = Inr (u, s') \<Longrightarrow> rec_of s' = rec_of s"
  by (auto simp: store_simps)

lemma in_pend_iff:
  "x \<in> pend s k \<longleftrightarrow> (\<exists>f \<in> set (t_followups s). of_id f = x \<and> is_pending k f)"
  by (auto simp: pend_def)

lemma pend_close:
  assumes "updateFollowupStatus fid st reason now s = Inr (u, s')" and "st \<notin> {DUE, POSTPONED}"
  shows "pend s' k \<subseteq> pend s k - {fid}"
proof
  fix x
  assume "x \<in> pend s' k"
  with assms(1) obtain f
    where "f \<in> set (update_where (\<lambda>f. of_id f = fid) (set_followup st reason now) (t_followups s))"
      and f: "of_id f = x" "is_pending k f"
    by (auto simp: store_simps in_pend_iff)
  then show "x \<in> pend s k - {fid}"
    by (cases rule: in_update_whereE) (use f assms(2) in \<open>auto simp: in_pend_iff is_pending_def\<close>)
qed

lemma pend_reopen:
  assumes "updateFollowupStatus fid st reason now s = Inr (u, s')"
  shows "pend s' k \<subseteq> insert fid (pend s k)"
proof
  fix x
  assume "x \<in> pend s' k"
  with assms(1) obtain f
    where "f \<in> set (update_where (\<lambda>f. of_id f = fid) (set_followup st reason now) (t_followups s))"
      and f: "of_id f = x" "is_pending k f"
    by (auto simp: store_simps in_pend_iff)
  then show "x \<in> insert fid (pend s k)"
    by (cases rule: in_update_whereE) (use f in \<open>auto simp: in_pend_iff\<close>)
qed

lemma pend_insert:
  assumes "insertFollowup f s = Inr (u, s')"
  shows "pend s' k \<subseteq> (if k = of_recordId f then insert (of_id f) (pend s k) else pend s k)"
  using assms by (auto simp: store_simps pend_def is_pending_def)

lemma require_eq_Inr [store_simps]:
  "require rid s = Inr (r, s') \<longleftrightarrow> s' = s \<and> rec_of s rid = Some r"
  by (auto simp: require_def tx_simps store_simps rec_of_def split: option.splits)

lemma rec_of_id: "rec_of s rid = Some r \<Longrightarrow> or_id r = rid"
  by (auto simp: rec_of_def dest: find_SomeD)

end
