(* ===== verification/Outreach_Simulation.thy ===== *)
theory Outreach_Simulation
  imports Outreach_Refinement
begin

text \<open>
  The simulation: every operation of \<^verbatim>\<open>OutreachService\<close> takes the abstraction of every record
  along abstract steps. The lemmas first describe each repository statement by its effect on
  the views (status and flag, status changes, pending rows), then each operation.
\<close>

section \<open>Simulation\<close>

definition simulates :: "bool \<Rightarrow> outreach_db \<Rightarrow> outreach_db \<Rightarrow> bool" where
  "simulates revive s s' \<longleftrightarrow> (\<forall>k. (astep revive)\<^sup>*\<^sup>* (abs_of s k) (abs_of s' k))"

interpretation sim: frame "simulates revive"
  by unfold_locales (auto simp: simulates_def intro: rtranclp_trans)

text \<open>The part of a record the abstract machine sees.\<close>

definition core :: "outreach_db \<Rightarrow> string \<Rightarrow> (outreach_status \<times> bool) option" where
  "core s k = map_option (\<lambda>r. (or_status r, or_doNotContact r)) (rec_of s k)"

lemma abs_of_core:
  "abs_of s k = map_option (\<lambda>(st, d). \<lparr>av_status = st, av_dnc = d, av_hops = hops s k,
     av_pending = pend s k\<rparr>) (core s k)"
  by (cases "rec_of s k") (simp_all add: abs_of_def core_def)

lemma sim_same:
  assumes "core s' = core s" and "hops s' = hops s" and "\<And>k. pend s' k \<subseteq> pend s k"
  shows "simulates revive s s'"
  unfolding simulates_def
proof
  fix k
  show "(astep revive)\<^sup>*\<^sup>* (abs_of s k) (abs_of s' k)"
  proof (cases "core s k")
    case None
    then show ?thesis using assms(1) by (simp add: abs_of_core)
  next
    case (Some p)
    obtain st d where p: "p = (st, d)" by (cases p)
    have "astep revive (abs_of s k) (abs_of s' k)"
      using a_drop [of "pend s' k" "\<lparr>av_status = st, av_dnc = d, av_hops = hops s k,
        av_pending = pend s k\<rparr>" revive] Some p assms by (simp add: abs_of_core)
    then show ?thesis by blast
  qed
qed

text \<open>A change that touches one record: the others may only lose pending rows.\<close>

lemma sim_one:
  assumes "\<And>k. k \<noteq> rid \<Longrightarrow> core s' k = core s k" and "\<And>k. k \<noteq> rid \<Longrightarrow> hops s' k = hops s k"
    and "\<And>k. k \<noteq> rid \<Longrightarrow> pend s' k \<subseteq> pend s k"
    and own: "(astep revive)\<^sup>*\<^sup>* (abs_of s rid) (abs_of s' rid)"
  shows "simulates revive s s'"
  unfolding simulates_def
proof
  fix k
  show "(astep revive)\<^sup>*\<^sup>* (abs_of s k) (abs_of s' k)"
  proof (cases "k = rid")
    case True
    then show ?thesis using own by simp
  next
    case other: False
    show ?thesis
    proof (cases "core s k")
      case None
      then show ?thesis using assms(1) [OF other] by (simp add: abs_of_core)
    next
      case (Some p)
      then obtain st d where c: "core s k = Some (st, d)" by (cases p) auto
      have "astep revive (abs_of s k) (abs_of s' k)"
        using a_drop [of "pend s' k" "\<lparr>av_status = st, av_dnc = d, av_hops = hops s k,
          av_pending = pend s k\<rparr>" revive] c other assms by (simp add: abs_of_core)
      then show ?thesis by blast
    qed
  qed
qed

lemma sim_hop:
  assumes r: "core s rid = Some (f, d)" and hop: "canOutreachTransition f t"
    and core': "core s' = (core s)(rid := Some (t, d \<or> suppresses t))"
    and hops': "hops s' = (hops s)(rid := hops s rid @ [(f, t)])"
    and pend': "\<And>k. pend s' k \<subseteq> pend s k"
    and empty: "t \<in> set OUTREACH_NO_FOLLOWUP \<Longrightarrow> pend s' rid = {}"
  shows "simulates revive s s'"
proof (rule sim_one [of rid])
  let ?v = "\<lparr>av_status = f, av_dnc = d, av_hops = hops s rid, av_pending = pend s rid\<rparr>"
  have "astep revive (Some ?v) (Some \<lparr>av_status = t, av_dnc = (av_dnc ?v \<or> suppresses t),
      av_hops = av_hops ?v @ [(av_status ?v, t)], av_pending = pend s' rid\<rparr>)"
    by (rule a_hop) (use hop pend' empty in auto)
  then show "(astep revive)\<^sup>*\<^sup>* (abs_of s rid) (abs_of s' rid)"
    using r core' hops' by (simp add: abs_of_core r_into_rtranclp)
qed (use core' hops' pend' in auto)

lemma sim_pending:
  assumes r: "core s rid = Some (f, d)" and ok: "f \<notin> set OUTREACH_NO_FOLLOWUP \<or> revive"
    and core': "core s' = core s" and hops': "hops s' = hops s"
    and other: "\<And>k. k \<noteq> rid \<Longrightarrow> pend s' k \<subseteq> pend s k"
    and pend': "pend s' rid \<subseteq> insert x (pend s rid)"
  shows "simulates revive s s'"
proof (rule sim_one [of rid])
  let ?v = "\<lparr>av_status = f, av_dnc = d, av_hops = hops s rid, av_pending = pend s rid\<rparr>"
  have "astep revive (Some ?v) (Some (?v\<lparr>av_pending := pend s' rid\<rparr>))"
    using ok
  proof
    assume "f \<notin> set OUTREACH_NO_FOLLOWUP"
    then show ?thesis using pend' by (intro a_schedule [where f = x]) simp_all
  next
    assume revive
    then show ?thesis using pend' by (intro a_revive [where f = x]) simp_all
  qed
  then show "(astep revive)\<^sup>*\<^sup>* (abs_of s rid) (abs_of s' rid)"
    using r core' hops' by (simp add: abs_of_core r_into_rtranclp)
qed (use core' hops' other in auto)

section \<open>Statements on the views\<close>

text \<open>A statement that changes no view.\<close>

definition invisible :: "outreach_db \<Rightarrow> outreach_db \<Rightarrow> bool" where
  "invisible s s' \<longleftrightarrow> core s' = core s \<and> hops s' = hops s \<and> pend s' = pend s"

lemma invisibleD:
  "invisible s s' \<Longrightarrow> core s' = core s" "invisible s s' \<Longrightarrow> hops s' = hops s"
  "invisible s s' \<Longrightarrow> pend s' = pend s"
  by (simp_all add: invisible_def)

interpretation invis: frame invisible
  by unfold_locales (auto simp: invisible_def)

lemma invisible_stmts:
  "insertMessage m s = Inr (u, s') \<Longrightarrow> invisible s s'"
  "insertReply r s = Inr (u, s') \<Longrightarrow> invisible s s'"
  "insertDeliveryEvent d s = Inr (u, s') \<Longrightarrow> invisible s s'"
  "randomUUID s = Inr (x, s') \<Longrightarrow> invisible s s'"
  "supersedeDeliveryEvent did at reason op s = Inr (u, s') \<Longrightarrow> invisible s s'"
  by (auto simp: store_simps supersedeDeliveryEvent_def invisible_def fun_eq_iff core_def)

lemma invisible_emit: "emit e s = Inr (u, s') \<Longrightarrow> hop_of e = [] \<Longrightarrow> invisible s s'"
  using hops_emit [of e s u s'] rec_of_emit [of e s u s'] pend_emit [of e s u s']
  by (simp add: invisible_def fun_eq_iff core_def)

lemma core_updateRecord:
  "updateRecord rid p now s = Inr (u, s') \<Longrightarrow>
   core s' = (core s)(rid := map_option (\<lambda>(st, d). (patched (p_status p) st, patched (p_doNotContact p) d))
     (core s rid))"
  using rec_of_updateRecord [of rid p now s u s']
  by (auto simp: core_def fun_eq_iff option.map_comp comp_def)

lemma invisible_updateRecord:
  assumes "updateRecord rid p now s = Inr (u, s')" and "p_status p = None" "p_doNotContact p = None"
  shows "invisible s s'"
  using core_updateRecord [OF assms(1)] hops_updateRecord [OF assms(1)] pend_updateRecord [OF assms(1)]
    assms(2,3)
  by (auto simp: invisible_def fun_eq_iff option.map_ident_strong)

lemma core_followup:
  "updateFollowupStatus fid st reason now s = Inr (u, s') \<Longrightarrow> core s' = core s"
  "insertFollowup f s = Inr (u, s') \<Longrightarrow> core s' = core s"
  using rec_of_followup by (simp_all add: core_def fun_eq_iff)

lemma core_emit: "emit e s = Inr (u, s') \<Longrightarrow> core s' = core s"
  using rec_of_emit [of e s u s'] by (simp add: core_def fun_eq_iff)

text \<open>A loop that closes the follow-ups it runs over.\<close>

lemma close_loop:
  assumes "for_tx xs body s = Inr (u, s')"
    and "\<And>x s s' u. body x s = Inr (u, s') \<Longrightarrow>
      core s' = core s \<and> hops s' = hops s \<and> (\<forall>k. pend s' k \<subseteq> pend s k - {g x})"
  shows "core s' = core s \<and> hops s' = hops s \<and> (\<forall>k. pend s' k \<subseteq> pend s k - g ` set xs)"
  using assms(1)
proof (induction xs arbitrary: s)
  case Nil
  then show ?case by simp
next
  case (Cons x xs)
  then obtain v s1 where "body x s = Inr (v, s1)" and rest: "for_tx xs body s1 = Inr (u, s')"
    by (auto simp: tx_simps)
  then have "core s1 = core s \<and> hops s1 = hops s \<and> (\<forall>k. pend s1 k \<subseteq> pend s k - {g x})"
    using assms(2) by blast
  then show ?case
    using Cons.IH [OF rest] by (fastforce simp: subset_iff)
qed

lemma cancelPending_views:
  assumes "cancelPending rid reason now s = Inr (u, s')"
  shows "core s' = core s" "hops s' = hops s" "pend s' k \<subseteq> pend s k" "pend s' rid = {}"
proof -
  let ?xs = "filter (is_pending rid) (t_followups s)"
  have "core s' = core s \<and> hops s' = hops s \<and> (\<forall>k. pend s' k \<subseteq> pend s k - of_id ` set ?xs)"
  proof (rule close_loop)
    show "for_tx ?xs (\<lambda>f. then_tx (updateFollowupStatus (of_id f) CANCELLED (Some reason) now)
        (emit (cancelled_event rid reason f))) s = Inr (u, s')"
      using assms by (auto simp: cancelPending_def tx_simps store_simps)
  next
    fix f s1 s2 v
    assume "then_tx (updateFollowupStatus (of_id f) CANCELLED (Some reason) now)
      (emit (cancelled_event rid reason f)) s1 = Inr (v, s2)"
    then obtain t w where a: "updateFollowupStatus (of_id f) CANCELLED (Some reason) now s1 = Inr (w, t)"
      and b: "emit (cancelled_event rid reason f) t = Inr (v, s2)"
      by (auto simp: tx_simps)
    have "invisible t s2"
      by (rule invisible_emit [OF b]) (simp add: cancelled_event_def)
    then show "core s2 = core s1 \<and> hops s2 = hops s1 \<and> (\<forall>k. pend s2 k \<subseteq> pend s1 k - {of_id f})"
      using core_followup(1) [OF a] hops_followup(1) [OF a] pend_close [OF a]
      by (simp add: invisible_def)
  qed
  then show "core s' = core s" "hops s' = hops s" "pend s' k \<subseteq> pend s k" "pend s' rid = {}"
    by (auto simp: pend_def)
qed

section \<open>Operations\<close>

lemma suppresses_no_followup: "suppresses t \<Longrightarrow> t \<in> set OUTREACH_NO_FOLLOWUP"
  by (auto simp: suppresses_def outreach_sets)

lemma core_Some: "rec_of s rid = Some r \<Longrightarrow> core s rid = Some (or_status r, or_doNotContact r)"
  by (simp add: core_def)

text \<open>The status change every operation but the send bridge makes: the record first, then the
  event.\<close>

lemma status_change_views:
  assumes "updateRecord rid p now s = Inr (u, s1)" and "emit e s1 = Inr (v, s2)"
    and "core s rid = Some (f, d)" and "p_status p = Some t"
    and "p_doNotContact p = (if suppresses t then Some True else None)"
    and "ne_recordId e = rid" and "hop_of e = [(f, t)]"
  shows "core s2 = (core s)(rid := Some (t, d \<or> suppresses t))"
    and "hops s2 = (hops s)(rid := hops s rid @ [(f, t)])" and "pend s2 = pend s"
proof -
  show "core s2 = (core s)(rid := Some (t, d \<or> suppresses t))"
    using core_emit [OF assms(2)] core_updateRecord [OF assms(1)] assms(3-5)
    by (simp add: patched_def)
  show "hops s2 = (hops s)(rid := hops s rid @ [(f, t)])"
    using hops_emit [OF assms(2)] hops_updateRecord [OF assms(1)] assms(6,7) by simp
  show "pend s2 = pend s"
    using pend_emit [OF assms(2)] pend_updateRecord [OF assms(1)] by simp
qed

lemma sim_transition:
  assumes "outreach_transition now rid t reason so s = Inr (x, s')"
  shows "simulates revive s s'"
proof -
  obtain rec s1 s2 u v w where r: "rec_of s rid = Some rec"
    and can: "canOutreachTransition (or_status rec) t"
    and upd: "updateRecord rid (transition_patch t so) now s = Inr (u, s1)"
    and ev: "emit (transition_event rid (or_status rec) t reason) s1 = Inr (v, s2)"
    and canc: "when_tx (cancelsFollowups t) (cancelPending rid (cancel_reason t) now) s2 = Inr (w, s')"
    using assms unfolding outreach_transition_def Let_def
    by (auto simp: tx_simps require_eq_Inr)
  note views = status_change_views [OF upd ev core_Some [OF r], of t,
      unfolded transition_patch_def transition_event_def empty_patch_def, simplified]
  have "core s' = core s2" "hops s' = hops s2" "pend s' k \<subseteq> pend s2 k"
    "t \<in> set OUTREACH_NO_FOLLOWUP \<Longrightarrow> pend s' rid = {}" for k
    using canc cancelPending_views [of rid "cancel_reason t" now s2 w s']
    by (auto simp: tx_simps cancelsFollowups_def split: if_splits)
  then show ?thesis
    using views by (intro sim_hop [OF core_Some [OF r] can]) simp_all
qed

lemma sim_track:
  assumes "track now i s = Inr (x, s')" and "owned s" and "records_ok (t_records s)"
  shows "simulates revive s s'"
proof (cases "s' = s")
  case True
  then show ?thesis by (simp add: sim.frame_refl)
next
  case False
  let ?email = "js_lower (js_trim (ti_contactEmail i))"
  let ?uid = "uuids s (drawn s)"
  let ?r = "new_record ?uid i ?email now"
  obtain s1 u v where ins: "insertRecord ?r (s\<lparr>drawn := Suc (drawn s)\<rparr>) = Inr (u, s1)"
    and ev: "emit (created_event ?uid i ?email) s1 = Inr (v, s')"
    using assms(1) False unfolding track_def Let_def hasDoNotContact_def findActiveRecord_def
    by (auto simp: tx_simps randomUUID_eq_Inr split: if_splits option.splits)
  have recs: "records_ok (t_records s @ [?r])" and s1: "t_records s1 = t_records s @ [?r]"
    "t_events s1 = t_events s" "t_followups s1 = t_followups s"
    using ins by (auto simp: store_simps)
  have fresh: "\<not> record_exists s ?uid"
    using recs by (simp add: records_ok_def record_exists_def new_record_def)
  have none: "rec_of s ?uid = None"
    using fresh by (auto simp: rec_of_def record_exists_def find_None_iff image_iff)
  have rec1: "rec_of s1 k = (if k = ?uid then Some ?r else rec_of s k)" for k
    using none by (auto simp: rec_of_def s1 find_append new_record_def split: option.splits)
  have hist: "history s ?uid = []"
    using assms(2) fresh
    by (auto simp: owned_def history_def timeline_def filter_empty_iff)
  have pends: "pend s ?uid = {}"
    using assms(2) fresh
    by (auto simp: owned_def pend_def is_pending_def filter_empty_iff)
  have views1: "hops s1 = hops s" "pend s1 = pend s"
    using s1 by (auto simp: hops_def history_def timeline_def pend_def)
  have "rec_of s' = rec_of s1" "hops s' = hops s" "pend s' = pend s"
    using rec_of_emit [OF ev] hops_emit [OF ev] pend_emit [OF ev] views1
    by (simp_all add: created_event_def)
  note views = this rec1
  show ?thesis
  proof (rule sim_one [of ?uid])
    have "abs_of s ?uid = None" using none by (simp add: abs_of_def)
    moreover have "abs_of s' ?uid =
      Some \<lparr>av_status = DRAFT_READY, av_dnc = False, av_hops = [], av_pending = {}\<rparr>"
      using views hist pends by (simp add: abs_of_def new_record_def hops_def)
    ultimately show "(astep revive)\<^sup>*\<^sup>* (abs_of s ?uid) (abs_of s' ?uid)"
      using a_create [of revive] by (simp add: r_into_rtranclp)
  qed (use views in \<open>simp_all add: core_def\<close>)
qed

lemma sim_recordMessage:
  assumes "recordMessage sha256 now i s = Inr (x, s')"
  shows "simulates revive s s'"
proof -
  have "ensures invisible (recordMessage sha256 now i)"
    unfolding recordMessage_def Let_def
    by (intro invis.ensures_then invis.ensures_bind invis.ensures_when invis.ensures_return ensuresI)
      (auto simp: require_eq_Inr invis.frame_refl recorded_event_def empty_patch_def
        intro: invisible_stmts invisible_updateRecord invisible_emit)
  then have "invisible s s'"
    using assms by (rule ensuresD)
  then show ?thesis
    by (intro sim_same) (simp_all add: invisible_def)
qed

text \<open>The walk of the send bridge.\<close>

lemma enroll_walk_views:
  "enroll_walk rid att f ts s = Inr (u, s') \<Longrightarrow>
     core s' = core s \<and> pend s' = pend s
     \<and> hops s' = (hops s)(rid := hops s rid @ zip (f # ts) ts)
     \<and> legal_run allowedOutreachTransitions f ts"
proof (induction ts arbitrary: f s)
  case Nil
  then show ?case by simp
next
  case (Cons t ts)
  obtain s1 v where can: "canOutreachTransition f t"
    and ev: "emit (enroll_hop_event rid f t att) s = Inr (v, s1)"
    and rest: "enroll_walk rid att t ts s1 = Inr (u, s')"
    using Cons.prems by (auto simp: tx_simps)
  show ?case
    using Cons.IH [OF rest] core_emit [OF ev] pend_emit [OF ev] hops_emit [OF ev] can
    by (auto simp: enroll_hop_event_def canOutreachTransition_def fun_eq_iff)
qed

lemma asteps_walk:
  "legal_run allowedOutreachTransitions (av_status v) ts \<Longrightarrow>
   set ts \<inter> set OUTREACH_NO_FOLLOWUP = {} \<Longrightarrow>
   (astep revive)\<^sup>*\<^sup>* (Some v) (Some (v\<lparr>av_status := last (av_status v # ts),
     av_hops := av_hops v @ zip (av_status v # ts) ts\<rparr>))"
proof (induction ts arbitrary: v)
  case Nil
  then show ?case by simp
next
  case (Cons t ts)
  let ?w = "v\<lparr>av_status := t, av_hops := av_hops v @ [(av_status v, t)]\<rparr>"
  have t: "t \<notin> set OUTREACH_NO_FOLLOWUP" "\<not> suppresses t"
    using Cons.prems(2) suppresses_no_followup by auto
  have "astep revive (Some v) (Some \<lparr>av_status = t, av_dnc = (av_dnc v \<or> suppresses t),
      av_hops = av_hops v @ [(av_status v, t)], av_pending = av_pending v\<rparr>)"
    by (rule a_hop) (use Cons.prems(1) t in \<open>auto simp: canOutreachTransition_def\<close>)
  then have "astep revive (Some v) (Some ?w)"
    using t(2) by (cases v) simp
  also have "(astep revive)\<^sup>*\<^sup>* (Some ?w) (Some (?w\<lparr>av_status := last (av_status ?w # ts),
     av_hops := av_hops ?w @ zip (av_status ?w # ts) ts\<rparr>))"
    by (rule Cons.IH) (use Cons.prems in auto)
  finally show ?case
    by simp
qed

lemma index_of_Some: "index_of x xs = Some i \<Longrightarrow> i < length xs \<and> xs ! i = x"
  by (induction xs arbitrary: i) (auto split: if_splits)

lemma enroll_path_rest:
  assumes "index_of f ENROLL_PATH = Some i" and "f \<noteq> INITIAL_SENT"
  shows "last (f # drop (Suc i) ENROLL_PATH) = INITIAL_SENT"
    "set (drop (Suc i) ENROLL_PATH) \<inter> set OUTREACH_NO_FOLLOWUP = {}"
  using assms by (auto simp: ENROLL_PATH_def outreach_sets split: if_splits)

lemma sim_enrollSend:
  assumes "enrollConfirmedSend intl sha256 now i s = Inr (x, s')"
  shows "simulates revive s s'"
proof (cases "s' = s")
  case True
  then show ?thesis by (simp add: sim.frame_refl)
next
  case False
  obtain rec idx s0 s1 s2 s3 s4 s5 s6 uid m u v w fuid f dueAt y z
    where r: "rec_of s (ei_recordId i) = Some rec"
    and idx: "index_of (or_status rec) ENROLL_PATH = Some idx" "or_status rec \<noteq> INITIAL_SENT"
    and uid: "randomUUID s = Inr (uid, s0)"
    and m: "m = enrolled_message sha256 uid INITIAL 0 i (or_id rec) now"
    and ins: "insertMessage m s0 = Inr (u, s1)"
    and ev1: "emit (enrolled_event m i) s1 = Inr (v, s2)"
    and walk: "enroll_walk (or_id rec) (ei_sendAttemptId i) (or_status rec)
      (drop (Suc idx) ENROLL_PATH) s2 = Inr (w, s3)"
    and fuid: "randomUUID s3 = Inr (fuid, s4)"
    and f: "f = new_followup fuid rec Step1 dueAt now"
    and insf: "insertFollowup f s4 = Inr (y, s5)"
    and upd: "updateRecord (or_id rec) (sent_patch INITIAL_SENT (ei_sentAt i) 0 (Some dueAt)) now s5
      = Inr (z, s6)"
    and ev2: "emit (scheduled_event (or_id rec) Step1 dueAt) s6 = Inr (z, s')"
    using assms False unfolding enrollConfirmedSend_def Let_def findMessageByGmailMessageId_def
    by (auto simp: tx_simps require_eq_Inr split: if_splits option.splits)
  let ?rid = "ei_recordId i" and ?ts = "drop (Suc idx) ENROLL_PATH" and ?st = "or_status rec"
  have rid: "or_id rec = ?rid"
    using rec_of_id [OF r] .
  have i1: "invisible s s0" "invisible s0 s1" "invisible s3 s4"
    using invisible_stmts uid ins fuid by blast+
  have i2: "invisible s1 s2" "invisible s6 s'"
    using invisible_emit [OF ev1] invisible_emit [OF ev2]
    by (simp_all add: enrolled_event_def scheduled_event_def)
  note path = enroll_path_rest [OF idx]
  note wk = enroll_walk_views [OF walk]
  have c: "core s ?rid = Some (?st, or_doNotContact rec)"
    using core_Some [OF r] .
  have s3: "core s3 = core s" "pend s3 = pend s"
    "hops s3 = (hops s)(?rid := hops s ?rid @ zip (?st # ?ts) ?ts)"
    using wk i1(1,2) i2(1) rid by (simp_all add: invisible_def)
  have s': "core s' = (core s)(?rid := Some (INITIAL_SENT, or_doNotContact rec))" "hops s' = hops s3"
    using core_updateRecord [OF upd] hops_updateRecord [OF upd]
      core_followup(2) [OF insf] hops_followup(2) [OF insf] s3(1) i1(3) i2(2) c rid
    by (simp_all add: invisible_def sent_patch_def empty_patch_def)
  have pend': "pend s' k \<subseteq> (if k = ?rid then insert fuid (pend s k) else pend s k)" for k
    using pend_insert [OF insf, of k] pend_updateRecord [OF upd] s3(2) invisibleD(3) [OF i1(3)]
      invisibleD(3) [OF i2(2)] rid
    by (simp add: f new_followup_def split: if_splits)
  let ?v = "\<lparr>av_status = ?st, av_dnc = or_doNotContact rec, av_hops = hops s ?rid,
    av_pending = pend s ?rid\<rparr>"
  let ?w = "?v\<lparr>av_status := INITIAL_SENT, av_hops := av_hops ?v @ zip (?st # ?ts) ?ts\<rparr>"
  have "(astep revive)\<^sup>*\<^sup>* (Some ?v) (Some ?w)"
    using asteps_walk [of ?v ?ts revive] wk path by simp
  also have "astep revive (Some ?w) (Some (?w\<lparr>av_pending := pend s' ?rid\<rparr>))"
    using pend' [of ?rid] by (intro a_schedule [where f = fuid]) (simp_all add: outreach_sets)
  finally have own: "(astep revive)\<^sup>*\<^sup>* (abs_of s ?rid) (abs_of s' ?rid)"
    using c s'(1,2) s3(3) by (simp add: abs_of_core)
  have "pend s' k \<subseteq> pend s k" if "k \<noteq> ?rid" for k
    using pend' [of k] that by simp
  then show ?thesis
    using s' s3 by (intro sim_one [OF _ _ _ own]) simp_all
qed

lemma mark_sent_views:
  assumes "mark_sent sf now s = Inr (u, s')"
  shows "core s' = core s" "hops s' = hops s" "pend s' k \<subseteq> pend s k"
proof -
  have "core s' = core s \<and> hops s' = hops s \<and> pend s' k \<subseteq> pend s k"
  proof (cases sf)
    case None
    then show ?thesis using assms by (simp add: mark_sent_def)
  next
    case (Some f)
    then have a: "updateFollowupStatus (of_id f) F_SENT None now s = Inr (u, s')"
      using assms by (simp add: mark_sent_def)
    show ?thesis
      using core_followup(1) [OF a] hops_followup(1) [OF a] pend_close [OF a, of k] by auto
  qed
  then show "core s' = core s" "hops s' = hops s" "pend s' k \<subseteq> pend s k" by blast+
qed

lemma next_followup_views:
  assumes "insert_next_followup intl now i rec nxt s = Inr (nf, s')"
  obtains z where "core s' = core s" "hops s' = hops s"
    "\<And>k. pend s' k \<subseteq> (if k = or_id rec then insert z (pend s k) else pend s k)"
proof (cases nxt)
  case None
  then show ?thesis
    using assms that [of undefined] by (simp add: insert_next_followup_def subset_insertI)
next
  case (Some st)
  then obtain uid s1 dueAt u where a: "randomUUID s = Inr (uid, s1)"
    and b: "insertFollowup (new_followup uid rec st dueAt now) s1 = Inr (u, s')"
    using assms by (auto simp: insert_next_followup_def Let_def tx_simps)
  have i: "invisible s s1"
    using invisible_stmts(4) [OF a] .
  show ?thesis
  proof (rule that)
    show "core s' = core s" "hops s' = hops s"
      using i core_followup(2) [OF b] hops_followup(2) [OF b] by (simp_all add: invisible_def)
    show "pend s' k \<subseteq> (if k = or_id rec then insert uid (pend s k) else pend s k)" for k
      using invisibleD(3) [OF i] pend_insert [OF b, of k]
      by (simp add: new_followup_def split: if_splits)
  qed
qed

lemma due_sent_open:
  "followupSentStatus st \<notin> set OUTREACH_NO_FOLLOWUP" "followupDueStatus st \<notin> set OUTREACH_NO_FOLLOWUP"
  "\<not> suppresses (followupSentStatus st)"
  by (cases st; simp add: outreach_sets suppresses_def)+

lemma sim_enrollFollowup:
  assumes "enrollConfirmedFollowup intl sha256 now i stp s = Inr (x, s')"
  shows "simulates revive s s'"
proof (cases "s' = s")
  case True
  then show ?thesis by (simp add: sim.frame_refl)
next
  case False
  obtain rec s0 s1 s2 s3 s4 s5 s6 uid m u v w y z q sf nf
    where r: "rec_of s (ei_recordId i) = Some rec"
    and st: "or_status rec = followupDueStatus stp"
    and uid: "randomUUID s = Inr (uid, s0)"
    and m: "m = enrolled_message sha256 uid FOLLOW_UP (step_num stp) i (or_id rec) now"
    and ins: "insertMessage m s0 = Inr (u, s1)"
    and ev1: "emit (followup_enrolled_event m i) s1 = Inr (v, s2)"
    and sent: "mark_sent sf now s2 = Inr (w, s3)"
    and can: "canOutreachTransition (followupDueStatus stp) (followupSentStatus stp)"
    and ev2: "emit (followup_hop_event (or_id rec) stp (ei_sendAttemptId i)) s3 = Inr (y, s4)"
    and nxt: "insert_next_followup intl now i rec (nextFollowupStep stp) s4 = Inr (nf, s5)"
    and upd: "updateRecord (or_id rec) (sent_patch (followupSentStatus stp) (ei_sentAt i)
      (step_num stp) (map_option of_dueAt nf)) now s5 = Inr (z, s6)"
    and ev3: "emit (enroll_closing_event (or_id rec) stp nf) s6 = Inr (q, s')"
    using assms False unfolding enrollConfirmedFollowup_def Let_def findMessageByGmailMessageId_def
    by (auto simp: tx_simps require_eq_Inr pendingFollowups_eq_Inr pendingFollowupStep_iff
        split: if_splits option.splits)
  let ?rid = "ei_recordId i" and ?t = "followupSentStatus stp"
  have rid: "or_id rec = ?rid"
    using rec_of_id [OF r] .
  have c: "core s ?rid = Some (followupDueStatus stp, or_doNotContact rec)"
    using core_Some [OF r] st by simp
  have "invisible s s0" "invisible s0 s1" "invisible s1 s2"
    using invisible_stmts uid ins invisible_emit [OF ev1]
    by (auto simp: followup_enrolled_event_def)
  then have s2: "core s2 = core s" "hops s2 = hops s" "pend s2 = pend s"
    by (simp_all add: invisible_def)
  have "hop_of (enroll_closing_event (or_id rec) stp nf) = []"
    by (simp add: enroll_closing_event_def scheduled_event_def sequence_complete_event_def
        split: option.splits)
  then have s': "core s' = core s6" "hops s' = hops s6" "pend s' = pend s6"
    using invisible_emit [OF ev3] by (simp_all add: invisible_def)
  note s3 = mark_sent_views [OF sent]
  have s4: "core s4 = core s3" "pend s4 = pend s3"
    "hops s4 = (hops s3)(?rid := hops s3 ?rid @ [(followupDueStatus stp, ?t)])"
    using core_emit [OF ev2] pend_emit [OF ev2] hops_emit [OF ev2] rid
    by (simp_all add: followup_hop_event_def)
  obtain z where s5: "core s5 = core s4" "hops s5 = hops s4"
    "\<And>k. pend s5 k \<subseteq> (if k = or_id rec then insert z (pend s4 k) else pend s4 k)"
    using next_followup_views [OF nxt] by metis
  have pend': "pend s' k \<subseteq> (if k = ?rid then insert z (pend s k) else pend s k)" for k
    using s5(3) [of k] s3(3) [of k] s2(3) s4(2) s'(3) pend_updateRecord [OF upd] rid
    by (auto split: if_splits)
  have core': "core s' = (core s)(?rid := Some (?t, or_doNotContact rec))"
    using core_updateRecord [OF upd] s5(1) s4(1) s3(1) s2(1) s'(1) c rid
    by (simp add: sent_patch_def empty_patch_def)
  have hops': "hops s' = (hops s)(?rid := hops s ?rid @ [(followupDueStatus stp, ?t)])"
    using hops_updateRecord [OF upd] s5(2) s4(3) s3(2) s2(2) s'(2) by simp
  let ?v = "\<lparr>av_status = followupDueStatus stp, av_dnc = or_doNotContact rec,
    av_hops = hops s ?rid, av_pending = pend s ?rid\<rparr>"
  let ?w = "\<lparr>av_status = ?t, av_dnc = (av_dnc ?v \<or> suppresses ?t),
    av_hops = av_hops ?v @ [(av_status ?v, ?t)], av_pending = av_pending ?v\<rparr>"
  have "astep revive (Some ?v) (Some ?w)"
    by (rule a_hop) (use can due_sent_open in auto)
  moreover have "astep revive (Some ?w) (Some (?w\<lparr>av_pending := pend s' ?rid\<rparr>))"
    using pend' [of ?rid] due_sent_open by (intro a_schedule [where f = z]) simp_all
  ultimately have "(astep revive)\<^sup>*\<^sup>* (Some ?v) (Some (?w\<lparr>av_pending := pend s' ?rid\<rparr>))"
    by (meson rtranclp.rtrancl_refl rtranclp.rtrancl_into_rtrancl)
  then have own: "(astep revive)\<^sup>*\<^sup>* (abs_of s ?rid) (abs_of s' ?rid)"
    using c core' hops' due_sent_open by (simp add: abs_of_core)
  have "pend s' k \<subseteq> pend s k" if "k \<noteq> ?rid" for k
    using pend' [of k] that by simp
  then show ?thesis
    using core' hops' by (intro sim_one [OF _ _ _ own]) simp_all
qed

lemma sim_scheduleFollowup:
  assumes "scheduleFollowup intl now rid st pol s = Inr (x, s')"
  shows "simulates revive s s'"
proof (cases "s' = s")
  case True
  then show ?thesis by (simp add: sim.frame_refl)
next
  case False
  obtain rec uid dueAt s0 s1 s2 f u v w where r: "rec_of s rid = Some rec"
    and free: "followupBlockedReason (or_status rec) = None"
    and uid: "randomUUID s = Inr (uid, s0)"
    and f: "f = (new_followup uid rec st dueAt now)\<lparr>of_recordId := rid\<rparr>"
    and ins: "insertFollowup f s0 = Inr (u, s1)"
    and upd: "updateRecord rid (empty_patch\<lparr>p_nextFollowupAt := Some (Some dueAt)\<rparr>) now s1 = Inr (v, s2)"
    and ev: "emit (scheduled_event rid st dueAt) s2 = Inr (w, s')"
    using assms False unfolding scheduleFollowup_def Let_def
    by (auto simp: tx_simps require_eq_Inr split: option.splits)
  have i: "invisible s s0" "invisible s1 s2" "invisible s2 s'"
    using invisible_stmts(4) [OF uid] invisible_updateRecord [OF upd] invisible_emit [OF ev]
    by (simp_all add: empty_patch_def scheduled_event_def)
  have open_st: "or_status rec \<notin> set OUTREACH_NO_FOLLOWUP"
    using free by (simp add: followupBlockedReason_None followupAllowedForStatus_def)
  show ?thesis
  proof (rule sim_pending [OF core_Some [OF r]])
    show "or_status rec \<notin> set OUTREACH_NO_FOLLOWUP \<or> revive" using open_st by simp
    show "core s' = core s" "hops s' = hops s"
      using i core_followup(2) [OF ins] hops_followup(2) [OF ins] by (simp_all add: invisible_def)
    show "pend s' k \<subseteq> pend s k" if "k \<noteq> rid" for k
      using i pend_insert [OF ins, of k] that by (simp add: invisible_def f)
    show "pend s' rid \<subseteq> insert (of_id f) (pend s rid)"
      using i pend_insert [OF ins, of rid] by (simp add: invisible_def f)
  qed
qed

lemma sim_promote:
  assumes "promoteFollowupDue n1 n2 i s = Inr (x, s')"
  shows "simulates revive s s'"
proof (cases "s' = s")
  case True
  then show ?thesis by (simp add: sim.frame_refl)
next
  case False
  let ?rid = "pi_recordId i"
  obtain f rec st src dst s1 b v where
    dec: "decideFollowupPromotion (promotion_snapshot f ?rid (rec_of s ?rid)) n1 = PROMOTE st src dst"
    and can: "canOutreachTransition src dst"
    and upd: "updateRecordIfStatus ?rid src (empty_patch\<lparr>p_status := Some dst\<rparr>) n2 s = Inr (b, s1)"
    and ev: "(if \<not> b then s' = s1 else emit (promoted_event i f st src dst) s1 = Inr (v, s'))"
    using assms False unfolding promoteFollowupDue_def Let_def getFollowup_def
    by (auto simp: tx_simps getRecord_eq_Inr rec_of_def
        split: option.splits if_splits promotion_action.splits)
  from dec obtain rec where r: "rec_of s ?rid = Some rec" and rs: "or_status rec = src"
    and hop: "src = statusBeforeFollowupDue st" "dst = followupDueStatus st"
    by (cases "rec_of s ?rid") (auto simp: decideFollowupPromotion_PROMOTE promotion_snapshot_def)
  have "rec \<in> set (t_records s)" "or_id rec = ?rid"
    using r by (auto simp: rec_of_def dest: find_SomeD)
  then have b: b
    using upd rs by (auto simp: store_simps)
  have s1: "s1 = s\<lparr>t_records := update_where (\<lambda>r. or_id r = ?rid \<and> or_status r = src)
      (recordPatchToSet (empty_patch\<lparr>p_status := Some dst\<rparr>) n2) (t_records s)\<rparr>"
    using upd by (simp add: store_simps)
  have rec1: "rec_of s1 k = map_option (\<lambda>r. if or_id r = ?rid \<and> or_status r = src
      then recordPatchToSet (empty_patch\<lparr>p_status := Some dst\<rparr>) n2 r else r) (rec_of s k)" for k
    by (simp add: s1 rec_of_def find_update_where_keep)
  have core1: "core s1 = (core s)(?rid := Some (dst, or_doNotContact rec))"
  proof
    fix k
    show "core s1 k = ((core s)(?rid := Some (dst, or_doNotContact rec))) k"
    proof (cases "k = ?rid")
      case True
      then show ?thesis
        using r rs rec_of_id [OF r] by (simp add: core_def rec1 empty_patch_def)
    next
      case False
      then show ?thesis
        using rec_of_id [of s k] by (cases "rec_of s k") (auto simp: core_def rec1)
    qed
  qed
  have ev': "emit (promoted_event i f st src dst) s1 = Inr (v, s')"
    using ev b by simp
  show ?thesis
  proof (rule sim_hop [OF core_Some [OF r], of dst])
    show "canOutreachTransition (or_status rec) dst" using can rs by simp
    show "core s' = (core s)(?rid := Some (dst, or_doNotContact rec \<or> suppresses dst))"
      using core_emit [OF ev'] core1 hop by (cases st) (simp_all add: suppresses_def)
    show "hops s' = (hops s)(?rid := hops s ?rid @ [(or_status rec, dst)])"
      using hops_emit [OF ev'] rs by (simp add: promoted_event_def s1 fun_eq_iff)
    show "pend s' k \<subseteq> pend s k" for k
      using pend_emit [OF ev'] by (simp add: s1)
    show "pend s' ?rid = {}" if "dst \<in> set OUTREACH_NO_FOLLOWUP"
      using that hop due_sent_open by simp
  qed
qed

lemma sim_cancelFollowup:
  assumes "cancelFollowup now fid rid reason s = Inr (x, s')"
  shows "simulates revive s s'"
proof -
  obtain s1 s2 u v where a: "updateFollowupStatus fid CANCELLED (Some reason) now s = Inr (u, s1)"
    and b: "updateRecord rid (empty_patch\<lparr>p_nextFollowupAt := Some None\<rparr>) now s1 = Inr (v, s2)"
    and ev: "emit (operator_cancelled_event fid rid reason) s2 = Inr (x, s')"
    using assms unfolding cancelFollowup_def by (auto simp: tx_simps)
  have i: "invisible s1 s2" "invisible s2 s'"
    using invisible_updateRecord [OF b] invisible_emit [OF ev]
    by (simp_all add: empty_patch_def operator_cancelled_event_def)
  show ?thesis
    using i core_followup(1) [OF a] hops_followup(1) [OF a] pend_close [OF a]
    by (intro sim_same) (auto simp: invisible_def)
qed

text \<open>An operator's postponement: harmless on a row that is still open, and what the abstract
  machine calls a revival on any other.\<close>

definition open_row :: "outreach_db \<Rightarrow> string \<Rightarrow> bool" where
  "open_row s fid \<longleftrightarrow> list_all (\<lambda>f. of_id f = fid \<longrightarrow> of_status f = DUE \<or> of_status f = POSTPONED)
     (t_followups s)"

lemma pend_reopen_open:
  assumes "updateFollowupStatus fid st reason now s = Inr (u, s')" and "open_row s fid"
  shows "pend s' k \<subseteq> pend s k"
proof
  fix x
  assume "x \<in> pend s' k"
  with assms(1) obtain f
    where "f \<in> set (update_where (\<lambda>f. of_id f = fid) (set_followup st reason now) (t_followups s))"
      and f: "of_id f = x" "is_pending k f"
    by (auto simp: store_simps in_pend_iff)
  then show "x \<in> pend s k"
    by (cases rule: in_update_whereE)
      (use f assms(2) in \<open>auto simp: in_pend_iff is_pending_def open_row_def list_all_iff\<close>)
qed

lemma sim_revive:
  assumes "core s' = core s" and "hops s' = hops s" and "\<And>k. pend s' k \<subseteq> insert x (pend s k)"
  shows "simulates True s s'"
  unfolding simulates_def
proof
  fix k
  show "(astep True)\<^sup>*\<^sup>* (abs_of s k) (abs_of s' k)"
  proof (cases "core s k")
    case None
    then show ?thesis using assms(1) by (simp add: abs_of_core)
  next
    case (Some p)
    then obtain st d where c: "core s k = Some (st, d)" by (cases p) auto
    have "astep True (abs_of s k) (abs_of s' k)"
      using a_revive [of True "pend s' k" x "\<lparr>av_status = st, av_dnc = d, av_hops = hops s k,
        av_pending = pend s k\<rparr>"] c assms by (simp add: abs_of_core)
    then show ?thesis by blast
  qed
qed

lemma sim_postponeFollowup:
  assumes "postponeFollowup now fid rid due reason s = Inr (x, s')" and "revive \<or> open_row s fid"
  shows "simulates revive s s'"
proof -
  obtain s1 s2 u v where a: "updateFollowupStatus fid POSTPONED (Some reason) now s = Inr (u, s1)"
    and b: "updateRecord rid (empty_patch\<lparr>p_nextFollowupAt := Some (Some due)\<rparr>) now s1 = Inr (v, s2)"
    and ev: "emit (postponed_event fid rid due reason) s2 = Inr (x, s')"
    using assms unfolding postponeFollowup_def by (auto simp: tx_simps)
  have i: "invisible s1 s2" "invisible s2 s'"
    using invisible_updateRecord [OF b] invisible_emit [OF ev]
    by (simp_all add: empty_patch_def postponed_event_def)
  have views: "core s' = core s" "hops s' = hops s" "pend s' = pend s1"
    using i core_followup(1) [OF a] hops_followup(1) [OF a] by (simp_all add: invisible_def)
  show ?thesis
  proof (cases "open_row s fid")
    case True
    then show ?thesis
      using views pend_reopen_open [OF a True] by (intro sim_same) simp_all
  next
    case False
    then have revive using assms(2) by simp
    then show ?thesis
      using views pend_reopen [OF a] sim_revive [of s' s fid] by simp
  qed
qed

lemma reply_patch_fields:
  "p_status (reply_patch i) = Some (classificationToStatus (ar_classification i))"
  "p_doNotContact (reply_patch i) =
     (if suppresses (classificationToStatus (ar_classification i)) then Some True else None)"
  by (cases "ar_classification i"; simp add: reply_patch_def empty_patch_def suppresses_def Let_def)+

lemma sim_applyReply:
  assumes "applyReply now i s = Inr (x, s')"
  shows "simulates revive s s'"
proof -
  let ?rid = "ar_recordId i" and ?t = "classificationToStatus (ar_classification i)"
  obtain rec uid s0 s1 s2 s3 u v w y where r: "rec_of s ?rid = Some rec"
    and uid: "randomUUID s = Inr (uid, s0)"
    and ins: "insertReply (reply_row uid i) s0 = Inr (u, s1)"
    and mid: "(if canOutreachTransition (or_status rec) ?t
        then then_tx (updateRecord ?rid (reply_patch i) now) (emit (reply_hop_event i (or_status rec) ?t))
        else updateRecord ?rid (reply_metadata_patch i) now) s1 = Inr (v, s2)"
    and ev: "emit (reply_detected_event i) s2 = Inr (w, s3)"
    and canc: "cancelPending ?rid ''REPLY_DETECTED'' now s3 = Inr (y, s')"
    using assms unfolding applyReply_def Let_def
    by (auto simp: tx_simps require_eq_Inr split del: if_split)
  have i: "invisible s s0" "invisible s0 s1" "invisible s2 s3"
    using invisible_stmts uid ins invisible_emit [OF ev] by (auto simp: reply_detected_event_def)
  have s1: "core s1 = core s" "hops s1 = hops s" "pend s1 = pend s"
    using i(1,2) by (simp_all add: invisible_def)
  note c = cancelPending_views [OF canc]
  have s': "core s' = core s2" "hops s' = hops s2" "pend s' k \<subseteq> pend s2 k" for k
    using c(1,2) c(3) [of k] i(3) by (simp_all add: invisible_def)
  show ?thesis
  proof (cases "canOutreachTransition (or_status rec) ?t")
    case True
    then obtain t a where upd: "updateRecord ?rid (reply_patch i) now s1 = Inr (a, t)"
      and ev: "emit (reply_hop_event i (or_status rec) ?t) t = Inr (v, s2)"
      using mid by (auto simp: tx_simps)
    have "core s1 ?rid = Some (or_status rec, or_doNotContact rec)"
      using s1(1) core_Some [OF r] by simp
    note views = status_change_views [OF upd ev this reply_patch_fields]
    have e: "ne_recordId (reply_hop_event i (or_status rec) ?t) = ?rid"
      "hop_of (reply_hop_event i (or_status rec) ?t) = [(or_status rec, ?t)]"
      by (simp_all add: reply_hop_event_def)
    show ?thesis
      using views [OF e] s' s1 c(4)
      by (intro sim_hop [OF core_Some [OF r] True]) simp_all
  next
    case False
    then have "invisible s1 s2"
      using mid invisible_updateRecord [of ?rid "reply_metadata_patch i" now s1 v s2]
      by (simp add: reply_metadata_patch_def empty_patch_def)
    then show ?thesis
      using s' s1 by (intro sim_same) (auto simp: invisible_def)
  qed
qed

lemma bounce_legal: "st \<notin> set OUTREACH_SEND_BLOCKED \<Longrightarrow> canOutreachTransition st BOUNCED"
  by (cases st) (simp_all add: outreach_sets canOutreachTransition_iff isOutreachTerminal_def INTERRUPTS_def)

lemma sim_applyDelivery:
  assumes "applyDeliveryFailure now i s = Inr (x, s')"
  shows "simulates revive s s'"
proof (cases "s' = s")
  case True
  then show ?thesis by (simp add: sim.frame_refl)
next
  case False
  let ?rid = "df_recordId i"
  obtain rec uid s0 s1 u where r: "rec_of s ?rid = Some rec"
    and nb: "or_status rec \<notin> set OUTREACH_SEND_BLOCKED"
    and uid: "randomUUID s = Inr (uid, s0)"
    and ins: "insertDeliveryEvent (delivery_row uid i now) s0 = Inr (u, s1)"
    and rest: "settle_failure now i rec s1 = Inr (x, s')"
    using assms False unfolding applyDeliveryFailure_def deliveryEventExists_def
    by (auto simp: tx_simps require_eq_Inr split: if_splits)
  have i: "invisible s s0" "invisible s0 s1"
    using invisible_stmts uid ins by blast+
  have s1: "core s1 = core s" "hops s1 = hops s" "pend s1 = pend s"
    using i by (simp_all add: invisible_def)
  have c: "core s1 ?rid = Some (or_status rec, or_doNotContact rec)"
    using s1(1) core_Some [OF r] by simp
  show ?thesis
  proof (cases "df_deliveryStatus i = D_BOUNCED")
    case False
    then obtain w where "emit (delivery_unknown_event i) s1 = Inr (w, s')"
      using rest by (auto simp: tx_simps settle_failure_def)
    then have "invisible s1 s'"
      by (rule invisible_emit) (simp add: delivery_unknown_event_def)
    then show ?thesis
      using s1 by (intro sim_same) (simp_all add: invisible_def)
  next
    case True
    note legal = bounce_legal [OF nb]
    let ?pending = "\<lambda>t. filter (is_pending ?rid) (t_followups t)"
    obtain a b w t1 t2 t3 where upd: "updateRecord ?rid (bounce_patch True) now s1 = Inr (a, t1)"
      and ev: "emit (bounce_event i (or_status rec) True) t1 = Inr (b, t2)"
      and loop: "for_tx (?pending t2) (\<lambda>f. updateFollowupStatus (of_id f) CANCELLED (Some ''BOUNCED'') now) t2
        = Inr (w, t3)"
      and ev2: "emit (followups_cancelled_event ?rid (?pending t2)) t3 = Inr (b, s')"
      using rest True legal by (auto simp: tx_simps pendingFollowups_eq_Inr settle_failure_def Let_def)
    have "core t3 = core t2 \<and> hops t3 = hops t2
        \<and> (\<forall>k. pend t3 k \<subseteq> pend t2 k - of_id ` set (?pending t2))"
      using loop by (rule close_loop) (use core_followup(1) hops_followup(1)
          pend_close [where st = CANCELLED] in \<open>simp; blast\<close>)
    then have t3: "core t3 = core t2" "hops t3 = hops t2" "pend t3 k \<subseteq> pend t2 k" "pend t3 ?rid = {}" for k
      by (auto simp: pend_def)
    have "invisible t3 s'"
      using ev2 by (rule invisible_emit) (simp add: followups_cancelled_event_def)
    then have s': "core s' = core t2" "hops s' = hops t2" "pend s' k \<subseteq> pend t2 k" "pend s' ?rid = {}" for k
      using t3 t3(3) [of k] by (simp_all add: invisible_def)
    have p: "p_status (bounce_patch True) = Some BOUNCED"
      "p_doNotContact (bounce_patch True) = (if suppresses BOUNCED then Some True else None)"
      by (simp_all add: bounce_patch_def empty_patch_def suppresses_def)
    have e: "ne_recordId (bounce_event i (or_status rec) True) = ?rid"
      "hop_of (bounce_event i (or_status rec) True) = [(or_status rec, BOUNCED)]"
      by (simp_all add: bounce_event_def)
    show ?thesis
      using status_change_views [OF upd ev c p e] s' s1
      by (intro sim_hop [OF core_Some [OF r] legal]) simp_all
  qed
qed

lemma sim_correct:
  assumes "correctDeliveryEvents now i s = Inr (x, s')"
  shows "simulates revive s s'"
proof -
  have "ensures invisible (supersedeDeliveryEvent did at reason op)" for did at reason op
    by (rule ensuresI) (rule invisible_stmts(5))
  moreover have "ensures invisible (emit (correction_event i rid dsns))" for rid dsns
    by (rule ensuresI) (erule invisible_emit, simp add: correction_event_def)
  ultimately have "ensures invisible (correctDeliveryEvents now i)"
    unfolding correctDeliveryEvents_def Let_def deliveryEventsByDsnIds_def
    by (intro invis.ensures_bind invis.ensures_then invis.ensures_when invis.ensures_for
        invis.ensures_return invis.ensures_get invis.ensures_prod)
  then have "invisible s s'"
    using assms by (rule ensuresD)
  then show ?thesis
    by (intro sim_same) (simp_all add: invisible_def)
qed

section \<open>The simulation\<close>

fun revives :: "outreach_db \<Rightarrow> outreach_cmd \<Rightarrow> bool" where
  "revives s (PostponeFollowup now fid rid due reason) \<longleftrightarrow> \<not> open_row s fid"
| "revives s c \<longleftrightarrow> False"

lemma exec_simulates:
  assumes "exec_outreach intl sha256 c s = Inr (u, s')" and "tables_ok s" and "revives s c \<longrightarrow> revive"
  shows "simulates revive s s'"
proof (cases c)
  case (Track now i)
  then show ?thesis
    using assms sim_track by (auto simp: tx_simps tables_ok_def)
next
  case (PostponeFollowup now fid rid due reason)
  then show ?thesis
    using assms sim_postponeFollowup by auto
next
  case (CancelFollowup now fid rid reason)
  then show ?thesis
    using assms sim_cancelFollowup by auto
qed (use assms(1) sim_transition sim_recordMessage sim_enrollSend sim_enrollFollowup
    sim_scheduleFollowup sim_promote sim_applyReply sim_applyDelivery sim_correct
    in \<open>auto simp: tx_simps\<close>)

end
