(* ===== verification/Outreach_Properties.thy ===== *)
theory Outreach_Properties
  imports Outreach_Simulation
begin

text \<open>
  What the outreach service guarantees along every sequence of its operations, whatever their
  inputs, clock readings and order: the contract of the abstract machine on every record, the
  growth of the history, idempotence of the bridges, and the suppression of contacts.
\<close>

section \<open>The service as a system of commands\<close>

lemma simulates_contract:
  assumes "simulates revive s s'" and "acontract revive (abs_of s k)"
  shows "acontract revive (abs_of s' k)"
  using assms(1) asteps_contract [OF _ assms(2)] unfolding simulates_def by blast

definition fresh_db :: "outreach_db \<Rightarrow> bool" where
  "fresh_db s \<longleftrightarrow> t_records s = [] \<and> t_messages s = [] \<and> t_replies s = [] \<and> t_followups s = []
     \<and> t_events s = [] \<and> t_deliveries s = []"

definition outreach_inv :: "outreach_db \<Rightarrow> bool" where
  "outreach_inv s \<longleftrightarrow> tables_ok s \<and> timelines_ok s \<and> (\<forall>k. acontract True (abs_of s k))"

lemma fresh_views:
  assumes "fresh_db s"
  shows "tables_ok s" "timelines_ok s" "abs_of s k = None"
  using assms by (auto simp: fresh_db_def tables_ok_def owned_def records_ok_def messages_ok_def
      replies_ok_def followups_ok_def events_ok_def deliveries_ok_def timelines_ok_def
      event_timeline_def timeline_def abs_of_def rec_of_def)

lemma exec_sound:
  assumes "exec_outreach intl sha256 c s = Inr (u, s')"
  shows "tables_ok s \<Longrightarrow> tables_ok s'" "timelines_ok s \<Longrightarrow> timelines_ok s'" "extends_history s s'"
  using ensuresD [OF sound_exec assms] by (simp_all add: sound_stmt_def)

interpretation outreach_sys: command_system "exec_outreach intl sha256" fresh_db outreach_inv
  for intl sha256
proof
  show "fresh_db s \<Longrightarrow> outreach_inv s" for s
    by (simp add: outreach_inv_def fresh_views acontract_def)
  show "outreach_inv s'" if step: "exec_outreach intl sha256 c s = Inr (x, s')" and "outreach_inv s"
    for c s x s'
  proof -
    have inv: "tables_ok s" "timelines_ok s" "acontract True (abs_of s k)" for k
      using that(2) by (simp_all add: outreach_inv_def)
    have "simulates True s s'"
      using exec_simulates [OF step inv(1)] by simp
    then have "acontract True (abs_of s' k)" for k
      using simulates_contract inv(3) by blast
    then show ?thesis
      using exec_sound [OF step] inv by (simp add: outreach_inv_def)
  qed
qed

interpretation outreach_hist: framed_commands extends_history "exec_outreach intl sha256"
  for intl sha256
  by unfold_locales (rule exec_sound(3))

lemma inv_record:
  assumes "outreach_inv s" and "r \<in> set (t_records s)"
  shows "rec_of s (or_id r) = Some r"
    and "chained DRAFT_READY (hops s (or_id r)) (or_status r)"
    and "or_doNotContact r \<longleftrightarrow> suppresses (or_status r)"
proof -
  show f: "rec_of s (or_id r) = Some r"
    using assms find_key_unique [of or_id "t_records s" r]
    by (simp add: rec_of_def outreach_inv_def tables_ok_def records_ok_def)
  have "acontract True (abs_of s (or_id r))"
    using assms(1) by (simp add: outreach_inv_def)
  then show "chained DRAFT_READY (hops s (or_id r)) (or_status r)"
    and "or_doNotContact r \<longleftrightarrow> suppresses (or_status r)"
    by (simp_all add: abs_of_def f acontract_def)
qed

lemma history_records:
  assumes "extends_history s s'" and "r \<in> set (t_records s)"
  shows "\<exists>q \<in> set (t_records s'). or_id q = or_id r \<and> or_key q = or_key r"
proof -
  have "set (map (\<lambda>r. (or_id r, or_key r)) (t_records s))
      \<subseteq> set (map (\<lambda>r. (or_id r, or_key r)) (t_records s'))"
    using assms(1) unfolding extends_history_def by (intro set_mono_prefix) blast
  moreover have "(or_id r, or_key r) \<in> set (map (\<lambda>r. (or_id r, or_key r)) (t_records s))"
    using assms(2) by simp
  ultimately have "(or_id r, or_key r) \<in> set (map (\<lambda>r. (or_id r, or_key r)) (t_records s'))"
    by (rule subsetD)
  then show ?thesis by auto
qed

lemma outreach_run_inv: "fresh_db s \<Longrightarrow> outreach_inv (run_cmds (exec_outreach intl sha256) cs s)"
  by (rule outreach_sys.run_cmds_inv) (rule outreach_sys.init_inv)

section \<open>Suppression is final\<close>

lemma astep_suppressed:
  assumes "astep revive x y" and "x = Some v" and "suppresses (av_status v)"
  shows "\<exists>w. y = Some w \<and> av_status w = av_status v"
  using assms by (cases rule: astep.cases) (auto dest: suppresses_terminal)

lemma asteps_suppressed:
  "(astep revive)\<^sup>*\<^sup>* x y \<Longrightarrow> x = Some v \<Longrightarrow> suppresses (av_status v) \<Longrightarrow>
   \<exists>w. y = Some w \<and> av_status w = av_status v"
  by (induction rule: rtranclp_induct) (auto dest: astep_suppressed)

lemma simulates_suppressed:
  assumes "simulates revive s s'" and "rec_of s k = Some r" and "suppresses (or_status r)"
  shows "\<exists>r'. rec_of s' k = Some r' \<and> or_status r' = or_status r"
proof -
  let ?v = "\<lparr>av_status = or_status r, av_dnc = or_doNotContact r, av_hops = hops s k,
    av_pending = pend s k\<rparr>"
  have "(astep revive)\<^sup>*\<^sup>* (Some ?v) (abs_of s' k)"
    using assms(1,2) by (auto simp: simulates_def abs_of_def dest: spec [of _ k])
  then obtain w where "abs_of s' k = Some w" "av_status w = or_status r"
    using asteps_suppressed [of revive "Some ?v" "abs_of s' k" ?v] assms(3) by auto
  then show ?thesis
    by (auto simp: abs_of_def)
qed

text \<open>A state in which the contact with this address is suppressed.\<close>

definition suppressed_contact :: "string \<Rightarrow> outreach_db \<Rightarrow> bool" where
  "suppressed_contact email s \<longleftrightarrow>
     (\<exists>r \<in> set (t_records s). or_contactEmail r = email \<and> suppresses (or_status r))"

lemma exec_suppressed:
  assumes step: "exec_outreach intl sha256 c s = Inr (u, s')" and inv: "outreach_inv s"
    and sup: "suppressed_contact email s"
  shows "suppressed_contact email s'"
proof -
  from sup obtain r where r: "r \<in> set (t_records s)" "or_contactEmail r = email" "suppresses (or_status r)"
    by (auto simp: suppressed_contact_def)
  have "simulates True s s'"
    using exec_simulates [OF step] inv by (simp add: outreach_inv_def)
  then obtain r' where r': "rec_of s' (or_id r) = Some r'" "or_status r' = or_status r"
    using simulates_suppressed [OF _ inv_record(1) [OF inv r(1)] r(3)] by blast
  obtain q where q: "q \<in> set (t_records s')" "or_id q = or_id r" "or_key q = or_key r"
    using history_records [OF exec_sound(3) [OF step] r(1)] by blast
  have "outreach_inv s'"
    using outreach_sys.exec_inv [OF step inv] .
  then have "rec_of s' (or_id r) = Some q"
    using inv_record(1) [of s' q] q by simp
  then show ?thesis
    using r' q r by (auto simp: suppressed_contact_def or_key_def)
qed

interpretation suppression: command_system "exec_outreach intl sha256"
  "\<lambda>s. outreach_inv s \<and> suppressed_contact email s" "\<lambda>s. outreach_inv s \<and> suppressed_contact email s"
  for intl sha256 email
  by unfold_locales (auto intro: exec_suppressed outreach_sys.exec_inv)

lemma track_suppressed:
  assumes "outreach_inv s" and "suppressed_contact (js_lower (js_trim (ti_contactEmail i))) s"
  shows "track now i s = Inr ((BLOCKED_DO_NOT_CONTACT, None), s)"
proof -
  have "filter (\<lambda>r. or_contactEmail r = js_lower (js_trim (ti_contactEmail i))
      \<and> (or_doNotContact r \<or> or_status r \<in> {DO_NOT_CONTACT, UNSUBSCRIBED})) (t_records s) \<noteq> []"
    using assms(2) by (auto simp: suppressed_contact_def suppresses_def filter_empty_iff)
  then show ?thesis
    by (simp add: track_def hasDoNotContact_def Let_def bind_tx_def)
qed

section \<open>Runs that postpone open rows only\<close>

definition quiet :: "outreach_db \<Rightarrow> bool" where
  "quiet s \<longleftrightarrow> tables_ok s \<and> (\<forall>k. acontract False (abs_of s k))"

fun careful_run :: "intl \<Rightarrow> (string \<Rightarrow> string) \<Rightarrow> outreach_cmd list \<Rightarrow> outreach_db \<Rightarrow> bool" where
  "careful_run intl sha256 [] s \<longleftrightarrow> True"
| "careful_run intl sha256 (c # cs) s \<longleftrightarrow> \<not> revives s c \<and>
     careful_run intl sha256 cs (snd (run_tx (exec_outreach intl sha256 c) s))"

lemma exec_quiet:
  assumes "exec_outreach intl sha256 c s = Inr (u, s')" and "quiet s" and "\<not> revives s c"
  shows "quiet s'"
proof -
  have "simulates False s s'"
    using exec_simulates [OF assms(1)] assms(2,3) by (simp add: quiet_def)
  then show ?thesis
    using assms(2) simulates_contract exec_sound(1) [OF assms(1)] unfolding quiet_def by blast
qed

lemma careful_quiet:
  "quiet s \<Longrightarrow> careful_run intl sha256 cs s \<Longrightarrow> quiet (run_cmds (exec_outreach intl sha256) cs s)"
proof (induction cs arbitrary: s)
  case Nil
  then show ?case by simp
next
  case (Cons c cs)
  have "quiet (snd (run_tx (exec_outreach intl sha256 c) s))"
    by (cases rule: run_tx_cases [of "exec_outreach intl sha256 c" s])
      (use Cons.prems in \<open>auto intro: exec_quiet\<close>)
  then show ?case
    using Cons by simp
qed

lemma quiet_nothing_pending:
  assumes "quiet s" and "r \<in> set (t_records s)" and "or_status r \<in> set OUTREACH_NO_FOLLOWUP"
  shows "pend s (or_id r) = {}"
proof -
  have "rec_of s (or_id r) = Some r"
    using assms(1,2) find_key_unique [of or_id "t_records s" r]
    by (simp add: rec_of_def quiet_def tables_ok_def records_ok_def)
  moreover have "acontract False (abs_of s (or_id r))"
    using assms(1) by (simp add: quiet_def)
  ultimately show ?thesis
    using assms(3) by (simp add: abs_of_def acontract_def)
qed

end
