(* ===== verification/Outreach_Claims.thy ===== *)
theory Outreach_Claims
  imports Outreach_Properties
begin

text \<open>
  The properties of outreach tracking, each over the operations of \<^verbatim>\<open>OutreachService\<close> as they
  are executed, with a small database on which they are applied.
\<close>

section \<open>A database for concrete runs\<close>

definition demo_intl :: intl where
  "demo_intl = one_zone ''UTC'' (\<lambda>_. 0)"

definition demo_sha :: "string \<Rightarrow> string" where
  "demo_sha s = s"

definition demo_uuid :: "nat \<Rightarrow> string" where
  "demo_uuid n = replicate n CHR ''u''"

definition demo_db :: outreach_db where
  "demo_db = \<lparr>t_records = [], t_messages = [], t_replies = [], t_followups = [], t_events = [],
     t_deliveries = [], fk_campaigns = [''c''], fk_leads = [''l''], fk_drafts = [],
     fk_finalizations = [], uuids = demo_uuid, drawn = 0\<rparr>"

definition demo_track :: track_input where
  "demo_track = \<lparr>ti_campaignId = ''c'', ti_leadId = ''l'', ti_contactEmail = '' A@x.de'',
     ti_timezone = ''UTC'', ti_owner = None\<rparr>"

definition demo_enroll :: "string \<Rightarrow> int \<Rightarrow> enroll_input" where
  "demo_enroll g t = \<lparr>ei_recordId = [], ei_subject = ''S'', ei_body = ''B'', ei_gmailMessageId = g,
     ei_gmailThreadId = ''t'', ei_sentAt = t, ei_emailDraftId = None, ei_finalizedEmailId = None,
     ei_sendAttemptId = ''a'', ei_policy = DEFAULT_SEQUENCE_POLICY\<rparr>"

abbreviation demo_exec :: "outreach_cmd \<Rightarrow> unit otx" where
  "demo_exec \<equiv> exec_outreach demo_intl demo_sha"

lemma demo_fresh: "fresh_db demo_db"
  by (simp add: fresh_db_def demo_db_def)

definition demo_sent :: "outreach_cmd list" where
  "demo_sent = [Track 0 demo_track, EnrollSend 1 (demo_enroll ''g0'' 1)]"

definition demo_unsubscribed :: "outreach_cmd list" where
  "demo_unsubscribed = [Track 0 demo_track, Transition 1 [] UNSUBSCRIBED None False]"

section \<open>The sequence\<close>

lemma sent_hops: "map snd (filter (\<lambda>h. P (snd h)) hs) = filter P (map snd hs)"
  by (induction hs) auto

text \<open>C1: whatever operations run, in whatever order and with whatever inputs, the timeline of
  a tracked record reports at most four status changes into a sent status (the initial email
  and three follow-ups), and these are in the order of the sequence with none repeated.\<close>

theorem sequence_at_most_four:
  assumes "fresh_db s0" and "s = run_cmds (exec_outreach intl sha256) cs s0"
    and "r \<in> set (t_records s)"
  shows "length (filter (\<lambda>h. sent_status (snd h)) (hops s (or_id r))) \<le> 4
    \<and> sorted_wrt (<) (map emails_out (filter sent_status (map snd (hops s (or_id r)))))"
proof -
  have "chained DRAFT_READY (hops s (or_id r)) (or_status r)"
    using inv_record(2) outreach_run_inv [OF assms(1)] assms(2,3) by blast
  then have run: "legal_run allowedOutreachTransitions DRAFT_READY (map snd (hops s (or_id r)))"
    by (rule chained_legal)
  have "length (filter sent_status (map snd (hops s (or_id r)))) \<le> 4"
    using sequence.milestone_count [OF run sent_status_rank] by simp
  then show ?thesis
    using sequence.milestones_increasing [OF run]
      sent_hops [of sent_status "hops s (or_id r)"]
    by (metis length_map)
qed

lemma demo_sent_records:
  "map or_id (t_records (run_cmds demo_exec demo_sent demo_db)) = [[]]
   \<and> map or_status (t_records (run_cmds demo_exec demo_sent demo_db)) = [INITIAL_SENT]"
  by code_simp

lemma demo_sent_record:
  obtains r where "r \<in> set (t_records (run_cmds demo_exec demo_sent demo_db))"
    "or_id r = []" "or_status r = INITIAL_SENT"
  using demo_sent_records by (cases "t_records (run_cmds demo_exec demo_sent demo_db)") auto

theorem sequence_at_most_four_witness:
  "length (filter (\<lambda>h. sent_status (snd h)) (hops (run_cmds demo_exec demo_sent demo_db) [])) \<le> 4"
  using demo_sent_record sequence_at_most_four [OF demo_fresh refl, of _ demo_intl demo_sha demo_sent]
  by metis

text \<open>C27: the timeline of a record is numbered 1, 2, 3, ... without a gap, and replaying the
  status changes it reports, from the draft on, makes only legal hops and ends in the status the
  record has.\<close>

theorem timeline_replays:
  assumes "fresh_db s0" and "s = run_cmds (exec_outreach intl sha256) cs s0"
    and "r \<in> set (t_records s)"
  shows "numbered (event_timeline s (or_id r)) \<and> chained DRAFT_READY (hops s (or_id r)) (or_status r)"
  using outreach_run_inv [OF assms(1), of intl sha256 cs] inv_record(2) [OF _ assms(3)] assms(2)
  by (simp add: outreach_inv_def timelines_ok_def)

theorem timeline_replays_witness:
  "\<exists>st. chained DRAFT_READY (hops (run_cmds demo_exec demo_sent demo_db) []) st"
  using demo_sent_record timeline_replays [OF demo_fresh refl, of _ demo_intl demo_sha demo_sent]
  by metis

text \<open>C25: the do-not-contact flag of a record is set exactly when its status is
  \<^const>\<open>DO_NOT_CONTACT\<close> or \<^const>\<open>UNSUBSCRIBED\<close>.\<close>

theorem do_not_contact_iff:
  assumes "fresh_db s0" and "s = run_cmds (exec_outreach intl sha256) cs s0"
    and "r \<in> set (t_records s)"
  shows "or_doNotContact r \<longleftrightarrow> or_status r = DO_NOT_CONTACT \<or> or_status r = UNSUBSCRIBED"
  using inv_record(3) [OF outreach_run_inv [OF assms(1)]] assms(2,3) by (auto simp: suppresses_def)

lemma demo_unsubscribed_record:
  obtains r where "r \<in> set (t_records (run_cmds demo_exec demo_unsubscribed demo_db))"
    "or_status r = UNSUBSCRIBED" "or_contactEmail r = ''a@x.de''"
proof -
  have "map (\<lambda>r. (or_status r, or_contactEmail r)) (t_records (run_cmds demo_exec demo_unsubscribed demo_db))
      = [(UNSUBSCRIBED, ''a@x.de'')]"
    by code_simp
  then show ?thesis
    using that by (cases "t_records (run_cmds demo_exec demo_unsubscribed demo_db)") auto
qed

theorem do_not_contact_iff_witness:
  "\<exists>r \<in> set (t_records (run_cmds demo_exec demo_unsubscribed demo_db)). or_doNotContact r"
  using demo_unsubscribed_record
    do_not_contact_iff [OF demo_fresh refl, of _ demo_intl demo_sha demo_unsubscribed]
  by metis



text \<open>C30: the history is append-only. No sequence of operations changes, removes or reorders a
  message, a reply or an event, the diagnostics of a delivery event, the identity of a record or
  the step and due time of a follow-up row; rows are only ever added after the existing ones.\<close>

theorem history_append_only:
  "extends_history s (run_cmds (exec_outreach intl sha256) cs s)"
  by (rule outreach_hist.run_cmds_frame)

text \<open>C29: once a contact address is suppressed in some record, no later sequence of operations
  lifts it: tracking that address again, in any campaign and for any lead, is refused and writes
  nothing.\<close>

theorem suppressed_contact_stays_blocked:
  assumes "fresh_db s0" and "s = run_cmds (exec_outreach intl sha256) cs s0"
    and "r \<in> set (t_records s)" and "or_status r = UNSUBSCRIBED \<or> or_status r = DO_NOT_CONTACT"
    and "js_lower (js_trim (ti_contactEmail i)) = or_contactEmail r"
    and "s' = run_cmds (exec_outreach intl sha256) cs' s"
  shows "track now i s' = Inr ((BLOCKED_DO_NOT_CONTACT, None), s')"
proof -
  have "suppressed_contact (js_lower (js_trim (ti_contactEmail i))) s"
    using assms(3-5) by (auto simp: suppressed_contact_def suppresses_def)
  then have "outreach_inv s' \<and> suppressed_contact (js_lower (js_trim (ti_contactEmail i))) s'"
    using suppression.run_cmds_inv outreach_run_inv [OF assms(1)] assms(2,6) by blast
  then show ?thesis
    using track_suppressed by blast
qed

theorem suppressed_contact_stays_blocked_witness:
  "fst (run_tx (track 9 demo_track) (run_cmds demo_exec demo_sent
     (run_cmds demo_exec demo_unsubscribed demo_db))) = Inr (BLOCKED_DO_NOT_CONTACT, None)"
proof -
  have e: "js_lower (js_trim (ti_contactEmail demo_track)) = ''a@x.de''"
    by code_simp
  obtain r where r: "r \<in> set (t_records (run_cmds demo_exec demo_unsubscribed demo_db))"
    "or_status r = UNSUBSCRIBED" "or_contactEmail r = ''a@x.de''"
    by (rule demo_unsubscribed_record)
  show ?thesis
    using suppressed_contact_stays_blocked [OF demo_fresh refl r(1) _ _ refl, of demo_track 9] r e
    by (simp add: run_tx_def)
qed



end
