(* ===== verification/Outreach_Operations.thy ===== *)
theory Outreach_Operations
  imports Outreach_Claims
begin

text \<open>
  Properties of single operations of \<^verbatim>\<open>OutreachService\<close>: what they return and leave behind on
  every branch, and that the two bridges and the bounce reconciliation are idempotent.
\<close>

section \<open>Idempotence\<close>

lemma require_later:
  assumes "rec_of s rid = Some r" and "extends_history s s'"
  shows "\<exists>r'. rec_of s' rid = Some r'"
proof -
  have "r \<in> set (t_records s)" "or_id r = rid"
    using assms(1) by (auto simp: rec_of_def dest: find_SomeD)
  then obtain q where "q \<in> set (t_records s')" "or_id q = rid"
    using history_records [OF assms(2)] by metis
  then show ?thesis
    unfolding rec_of_def by (metis (mono_tags) find_NoneD not_None_eq)
qed

lemma message_later:
  assumes "m \<in> set (t_messages s)" and "om_gmailMessageId m = Some g" and "extends_history s s'"
  shows "\<exists>m'. find (\<lambda>m. om_gmailMessageId m = Some g) (t_messages s') = Some m'"
proof -
  have "set (t_messages s) \<subseteq> set (t_messages s')"
    using assms(3) unfolding extends_history_def by (intro set_mono_prefix) blast
  then have "m \<in> set (t_messages s')"
    using assms(1) by blast
  then have "find (\<lambda>m. om_gmailMessageId m = Some g) (t_messages s') \<noteq> None"
    using assms(2) by (auto simp: find_None_iff)
  then show ?thesis by simp
qed

lemma insert_then_history:
  assumes "insertMessage m s0 = Inr (u, s1)" and "extends_history s1 s2"
  shows "m \<in> set (t_messages s2)"
proof -
  have "set (t_messages s1) \<subseteq> set (t_messages s2)"
    using assms(2) unfolding extends_history_def by (intro set_mono_prefix) blast
  then show ?thesis
    using assms(1) by (auto simp: store_simps)
qed

lemma enrolled_message_stored:
  assumes "enrollConfirmedSend intl sha256 now i s = Inr (res, s')" and "er_outcome res = ENROLLED"
  shows "\<exists>m \<in> set (t_messages s'). om_gmailMessageId m = Some (ei_gmailMessageId i)"
    and "\<exists>r. rec_of s (ei_recordId i) = Some r"
proof -
  obtain rec s0 s1 m u rest where r: "rec_of s (ei_recordId i) = Some rec"
    and m: "om_gmailMessageId m = Some (ei_gmailMessageId i)"
    and ins: "insertMessage m s0 = Inr (u, s1)"
    and rest: "rest s1 = Inr (res, s')" "ensures sound_stmt rest"
  proof -
    assume *: "\<And>rec m s0 u s1 rest. rec_of s (ei_recordId i) = Some rec \<Longrightarrow>
      om_gmailMessageId m = Some (ei_gmailMessageId i) \<Longrightarrow> insertMessage m s0 = Inr (u, s1) \<Longrightarrow>
      rest s1 = Inr (res, s') \<Longrightarrow> ensures sound_stmt rest \<Longrightarrow> thesis"
    show thesis
      using assms unfolding enrollConfirmedSend_def Let_def findMessageByGmailMessageId_def
      apply (auto simp: bind_tx_eq_Inr require_eq_Inr split: option.splits if_splits)
      apply (subst (asm) then_tx_eq_Inr)
      apply (elim exE conjE)
      apply (rule *)
          apply assumption
         prefer 2
         apply assumption
        apply (simp add: enrolled_message_def)
       apply assumption
      apply (intro sound_intros)
      done
  qed
  have "extends_history s1 s'"
    using ensuresD [OF rest(2,1)] by (simp add: sound_stmt_def)
  then show "\<exists>m \<in> set (t_messages s'). om_gmailMessageId m = Some (ei_gmailMessageId i)"
    using insert_then_history [OF ins] m by blast
  show "\<exists>r. rec_of s (ei_recordId i) = Some r"
    using r by blast
qed

lemma ALREADY_ENROLLED_later:
  assumes "rec_of s (ei_recordId i) = Some r"
    and "find (\<lambda>m. om_gmailMessageId m = Some (ei_gmailMessageId i)) (t_messages s) = Some m"
  shows "enrollConfirmedSend intl sha256 now i s =
    Inr (\<lparr>er_outcome = ALREADY_ENROLLED, er_record = r, er_message = Some m, er_followup = None\<rparr>, s)"
proof -
  have "require (ei_recordId i) s = Inr (r, s)"
    using assms(1) by (simp add: require_eq_Inr)
  then show ?thesis
    using assms(2) by (simp add: enrollConfirmedSend_def findMessageByGmailMessageId_def bind_tx_def)
qed

text \<open>The send bridge is idempotent by the Gmail message id. After a confirmed send has been
  enrolled, enrolling it again, at any later time and after any other operations, reports that it
  is already enrolled and changes nothing.\<close>

theorem enroll_send_idempotent:
  assumes "enrollConfirmedSend intl sha256 now i s = Inr (res, s1)" and "er_outcome res = ENROLLED"
    and "s2 = run_cmds (exec_outreach intl sha256) cs s1"
  shows "\<exists>res'. enrollConfirmedSend intl sha256 now' i s2 = Inr (res', s2)
    \<and> er_outcome res' = ALREADY_ENROLLED"
proof -
  have h: "extends_history s1 s2"
    using outreach_hist.run_cmds_frame assms(3) by simp
  have "extends_history s s1"
    using ensuresD [OF sound_enrollSend assms(1)] by (simp add: sound_stmt_def)
  then obtain r where "rec_of s2 (ei_recordId i) = Some r"
    using enrolled_message_stored(2) [OF assms(1,2)] require_later h hist.frame_trans by metis
  moreover obtain m where
    "find (\<lambda>m. om_gmailMessageId m = Some (ei_gmailMessageId i)) (t_messages s2) = Some m"
    using enrolled_message_stored(1) [OF assms(1,2)] message_later [OF _ _ h] by metis
  ultimately show ?thesis
    using ALREADY_ENROLLED_later by fastforce
qed

definition demo_tracked :: outreach_db where
  "demo_tracked = run_cmds demo_exec [Track 0 demo_track] demo_db"

lemma demo_enroll_ok:
  obtains res s1 where
    "enrollConfirmedSend demo_intl demo_sha 1 (demo_enroll ''g0'' 1) demo_tracked = Inr (res, s1)"
    "er_outcome res = ENROLLED"
proof -
  have "map_sum id (\<lambda>(res, s1). er_outcome res)
      (enrollConfirmedSend demo_intl demo_sha 1 (demo_enroll ''g0'' 1) demo_tracked) = Inr ENROLLED"
    by code_simp
  then show ?thesis
    using that
    by (cases "enrollConfirmedSend demo_intl demo_sha 1 (demo_enroll ''g0'' 1) demo_tracked") auto
qed

theorem enroll_send_idempotent_witness:
  "\<exists>s res'. enrollConfirmedSend demo_intl demo_sha 2 (demo_enroll ''g0'' 1) s = Inr (res', s)
     \<and> er_outcome res' = ALREADY_ENROLLED"
  using demo_enroll_ok enroll_send_idempotent [OF _ _ refl, of _ _ _ _ _ _ _ 2 "[]"] by metis

section \<open>Delivery failures\<close>

lemma dsn_later:
  assumes "extends_history s s'" and "x \<in> set (map de_dsnGmailMessageId (t_deliveries s))"
  shows "x \<in> set (map de_dsnGmailMessageId (t_deliveries s'))"
proof -
  have d: "map de_dsnGmailMessageId zs = map de_dsnGmailMessageId (map diagnostic zs)" for zs
    by (simp add: diagnostic_def)
  have "set (map diagnostic (t_deliveries s)) \<subseteq> set (map diagnostic (t_deliveries s'))"
    using assms(1) unfolding extends_history_def by (intro set_mono_prefix) blast
  then have "set (map de_dsnGmailMessageId (t_deliveries s))
      \<subseteq> set (map de_dsnGmailMessageId (t_deliveries s'))"
    unfolding d [of "t_deliveries s"] d [of "t_deliveries s'"] by (simp only: set_map image_mono)
  then show ?thesis
    using assms(2) by (rule subsetD)
qed

lemma delivery_stored:
  assumes "applyDeliveryFailure now i s = Inr ((out, rec), s')"
    and "out = BOUNCED_APPLIED \<or> out = DELIVERY_UNKNOWN_RECORDED"
  shows "df_dsnGmailMessageId i \<in> set (map de_dsnGmailMessageId (t_deliveries s'))"
    and "\<exists>r. rec_of s (df_recordId i) = Some r"
proof -
  obtain r uid s0 s1 u where r: "rec_of s (df_recordId i) = Some r"
    and ins: "insertDeliveryEvent (delivery_row uid i now) s0 = Inr (u, s1)"
    and rest: "settle_failure now i r s1 = Inr ((out, rec), s')"
    using assms unfolding applyDeliveryFailure_def deliveryEventExists_def
    by (auto simp: tx_simps require_eq_Inr split: if_splits)
  have "extends_history s1 s'"
    using ensuresD [OF sound_settle rest] by (simp add: sound_stmt_def)
  moreover have "df_dsnGmailMessageId i \<in> set (map de_dsnGmailMessageId (t_deliveries s1))"
    using ins by (simp add: store_simps delivery_row_def)
  ultimately show "df_dsnGmailMessageId i \<in> set (map de_dsnGmailMessageId (t_deliveries s'))"
    by (rule dsn_later)
  show "\<exists>r. rec_of s (df_recordId i) = Some r"
    using r by blast
qed

text \<open>Bounce reconciliation is idempotent by the notification's message id. Once a delivery
  failure has been recorded, the same notification, at any later time and after any other
  operations, is reported as already reconciled and changes nothing.\<close>

theorem delivery_failure_idempotent:
  assumes "applyDeliveryFailure now i s = Inr ((out, rec), s1)"
    and "out = BOUNCED_APPLIED \<or> out = DELIVERY_UNKNOWN_RECORDED"
    and "s2 = run_cmds (exec_outreach intl sha256) cs s1"
  shows "\<exists>r. applyDeliveryFailure now' i s2 = Inr ((ALREADY_RECONCILED, r), s2)"
proof -
  have h: "extends_history s1 s2"
    using outreach_hist.run_cmds_frame assms(3) by simp
  have "extends_history s s1"
    using ensuresD [OF sound_applyDelivery assms(1)] by (simp add: sound_stmt_def)
  then obtain r where r: "rec_of s2 (df_recordId i) = Some r"
    using delivery_stored(2) [OF assms(1,2)] require_later h hist.frame_trans by metis
  have "df_dsnGmailMessageId i \<in> set (map de_dsnGmailMessageId (t_deliveries s2))"
    using dsn_later [OF h delivery_stored(1) [OF assms(1,2)]] .
  then have "filter (\<lambda>d. de_dsnGmailMessageId d = df_dsnGmailMessageId i) (t_deliveries s2) \<noteq> []"
    unfolding filter_empty_iff set_map by (metis image_iff)
  moreover have "require (df_recordId i) s2 = Inr (r, s2)"
    using r by (simp add: require_eq_Inr)
  ultimately show ?thesis
    by (simp add: applyDeliveryFailure_def deliveryEventExists_def bind_tx_def)
qed

definition demo_bounce :: delivery_failure_input where
  "demo_bounce = \<lparr>df_recordId = [], df_messageId = None, df_deliveryStatus = D_BOUNCED,
     df_permanence = PERMANENT, df_rejectionCode = Some ''550'', df_diagnosticText = None,
     df_dsnStatus = Some ''5.1.1'', df_dsnAction = Some ''failed'', df_finalRecipient = None,
     df_originalRecipient = None, df_bounceAtMs = None, df_originalGmailMessageId = None,
     df_originalGmailThreadId = None, df_dsnGmailMessageId = ''dsn'', df_dsnGmailThreadId = None,
     df_preview = ''bounced''\<rparr>"

lemma demo_bounce_ok:
  obtains rec s1 where
    "applyDeliveryFailure 1 demo_bounce demo_tracked = Inr ((BOUNCED_APPLIED, rec), s1)"
proof -
  have "map_sum id (\<lambda>(res, s1). fst res) (applyDeliveryFailure 1 demo_bounce demo_tracked)
      = Inr BOUNCED_APPLIED"
    by code_simp
  then show ?thesis
    using that by (cases "applyDeliveryFailure 1 demo_bounce demo_tracked") auto
qed

theorem delivery_failure_idempotent_witness:
  "\<exists>s r. applyDeliveryFailure 2 demo_bounce s = Inr ((ALREADY_RECONCILED, r), s)"
  using demo_bounce_ok delivery_failure_idempotent [OF _ _ refl, of 1 demo_bounce demo_tracked
    BOUNCED_APPLIED _ _ 2 demo_intl demo_sha "[]"] by metis

section \<open>Promotion\<close>

text \<open>When the row and the record justify the promotion.\<close>

definition promotable :: "outreach_db \<Rightarrow> int \<Rightarrow> promote_input \<Rightarrow> followup_step \<Rightarrow> bool" where
  "promotable s now i st \<longleftrightarrow>
     (case (find (\<lambda>f. of_id f = pi_followupId i) (t_followups s), rec_of s (pi_recordId i)) of
        (Some f, Some rec) \<Rightarrow> of_recordId f = pi_recordId i \<and> of_step f = step_num st
          \<and> of_status f = DUE \<and> of_dueAt f \<le> now \<and> \<not> or_doNotContact rec
          \<and> or_status rec = statusBeforeFollowupDue st
      | _ \<Rightarrow> False)"

lemma promote_write:
  assumes "promoteFollowupDue n1 n2 i s = Inr (res, s')" and "promotable s n1 i st"
  obtains s1 f v where
    "pr_outcome res = PROMOTED" "pr_from res = Some (statusBeforeFollowupDue st)"
    "pr_to res = Some (followupDueStatus st)"
    "s1 = s\<lparr>t_records := update_where
       (\<lambda>r. or_id r = pi_recordId i \<and> or_status r = statusBeforeFollowupDue st)
       (recordPatchToSet (empty_patch\<lparr>p_status := Some (followupDueStatus st)\<rparr>) n2) (t_records s)\<rparr>"
    "emit (promoted_event i f st (statusBeforeFollowupDue st) (followupDueStatus st)) s1 = Inr (v, s')"
proof -
  from assms(2) obtain f rec where f: "find (\<lambda>f. of_id f = pi_followupId i) (t_followups s) = Some f"
    and r: "rec_of s (pi_recordId i) = Some rec"
    and ok: "of_recordId f = pi_recordId i" "of_step f = step_num st" "of_status f = DUE"
      "of_dueAt f \<le> n1" "\<not> or_doNotContact rec" "or_status rec = statusBeforeFollowupDue st"
    by (auto simp: promotable_def split: option.splits)
  have d: "decideFollowupPromotion (promotion_snapshot f (pi_recordId i) (Some rec)) n1 =
      PROMOTE st (statusBeforeFollowupDue st) (followupDueStatus st)"
    using ok by (simp add: decideFollowupPromotion_PROMOTE promotion_snapshot_def)
  have "rec \<in> set (t_records s)" "or_id rec = pi_recordId i"
    using r by (auto simp: rec_of_def dest: find_SomeD)
  then have here: "\<exists>r \<in> set (t_records s). or_id r = pi_recordId i \<and> or_status r = statusBeforeFollowupDue st"
    using ok(6) by blast
  show ?thesis
    using assms(1) f r ok(1) d here that
    unfolding promoteFollowupDue_def Let_def getFollowup_def
    by (auto simp: tx_simps store_simps rec_of_def simp del: append.simps split: if_splits)
qed

lemma promote_idle:
  assumes "promoteFollowupDue n1 n2 i s = Inr (res, s')" and "\<And>st. \<not> promotable s n1 i st"
  shows "pr_outcome res \<noteq> PROMOTED \<and> pr_outcome res \<noteq> RACE_LOST \<and> s' = s"
proof (cases "find (\<lambda>f. of_id f = pi_followupId i) (t_followups s)")
  case None
  then show ?thesis
    using assms(1) by (auto simp: promoteFollowupDue_def getFollowup_def Let_def bind_tx_def
        simp del: append.simps)
next
  case (Some f)
  have no: "decideFollowupPromotion (promotion_snapshot f (pi_recordId i) (rec_of s (pi_recordId i))) n1
      \<noteq> PROMOTE st src dst" if "of_recordId f = pi_recordId i" for st src dst
  proof
    assume p: "decideFollowupPromotion (promotion_snapshot f (pi_recordId i) (rec_of s (pi_recordId i))) n1
      = PROMOTE st src dst"
    then have "promotable s n1 i st"
      using that Some unfolding decideFollowupPromotion_PROMOTE
      by (cases "rec_of s (pi_recordId i)") (simp_all add: promotable_def promotion_snapshot_def)
    then show False using assms(2) by blast
  qed
  show ?thesis
    using assms(1) Some no
    by (auto simp: promoteFollowupDue_def getFollowup_def getRecord_eq_Inr rec_of_def Let_def tx_simps
        simp del: append.simps split: promotion_action.splits if_splits)
qed

text \<open>The unattended promotion. It reports a promotion exactly when the named row belongs to
  the record, is due and still active, and the record, not marked do-not-contact, has exactly the
  status before that step; then the record is in the step's due status. In every other case nothing
  is written at all, and no due date, message or follow-up row is touched in any case.\<close>

theorem promotion_exact:
  assumes "promoteFollowupDue n1 n2 i s = Inr (res, s')"
  shows "(pr_outcome res = PROMOTED \<longleftrightarrow> (\<exists>st. promotable s n1 i st))
    \<and> (\<forall>st. promotable s n1 i st \<longrightarrow>
         core s' (pi_recordId i) = Some (followupDueStatus st, False))
    \<and> (pr_outcome res \<noteq> PROMOTED \<longrightarrow> s' = s)
    \<and> t_followups s' = t_followups s \<and> t_messages s' = t_messages s
    \<and> map or_nextFollowupAt (t_records s') = map or_nextFollowupAt (t_records s)"
proof (cases "\<exists>st. promotable s n1 i st")
  case False
  then show ?thesis
    using promote_idle [OF assms] by blast
next
  case True
  then obtain st where st: "promotable s n1 i st" by blast
  obtain s1 f v where out: "pr_outcome res = PROMOTED"
    and s1: "s1 = s\<lparr>t_records := update_where
       (\<lambda>r. or_id r = pi_recordId i \<and> or_status r = statusBeforeFollowupDue st)
       (recordPatchToSet (empty_patch\<lparr>p_status := Some (followupDueStatus st)\<rparr>) n2) (t_records s)\<rparr>"
    and ev: "emit (promoted_event i f st (statusBeforeFollowupDue st) (followupDueStatus st)) s1
      = Inr (v, s')"
    using promote_write [OF assms st] by blast
  have tables: "t_followups s' = t_followups s1" "t_messages s' = t_messages s1" "t_records s' = t_records s1"
    using ev by (auto simp: emit_def tx_simps store_simps)
  obtain rec where r: "rec_of s (pi_recordId i) = Some rec" "\<not> or_doNotContact rec"
    "or_status rec = statusBeforeFollowupDue st"
    using st by (auto simp: promotable_def split: option.splits)
  have uniq: "promotable s n1 i st' \<Longrightarrow> st' = st" for st'
    using st by (auto simp: promotable_def split: option.splits)
  have "rec_of s1 (pi_recordId i) = Some (recordPatchToSet
      (empty_patch\<lparr>p_status := Some (followupDueStatus st)\<rparr>) n2 rec)"
    using r rec_of_id [OF r(1)] by (simp add: s1 rec_of_def find_update_where_keep)
  then have "core s' (pi_recordId i) = Some (followupDueStatus st, False)"
    using r core_emit [OF ev] by (simp add: core_def empty_patch_def)
  moreover have "map or_nextFollowupAt (t_records s') = map or_nextFollowupAt (t_records s)"
    unfolding tables(3) s1 by (simp add: map_update_where_same empty_patch_def)
  moreover have "t_followups s' = t_followups s" "t_messages s' = t_messages s"
    unfolding tables(1,2) s1 by simp_all
  ultimately show ?thesis
    using out True uniq by metis
qed

definition demo_promote :: promote_input where
  "demo_promote = \<lparr>pi_followupId = replicate 7 CHR ''u'', pi_recordId = [], pi_actor = ''cron''\<rparr>"

lemma demo_promote_ok:
  obtains res s' where
    "promoteFollowupDue 1000000000 1000000001 demo_promote (run_cmds demo_exec demo_sent demo_db)
       = Inr (res, s')" "pr_outcome res = PROMOTED"
proof -
  have "map_sum id (\<lambda>(res, s'). pr_outcome res)
      (promoteFollowupDue 1000000000 1000000001 demo_promote (run_cmds demo_exec demo_sent demo_db))
      = Inr PROMOTED"
    by code_simp
  then show ?thesis
    using that by (cases "promoteFollowupDue 1000000000 1000000001 demo_promote
      (run_cmds demo_exec demo_sent demo_db)") auto
qed

theorem promotion_exact_witness:
  "\<exists>s' st. core s' [] = Some (followupDueStatus st, False)"
  using demo_promote_ok promotion_exact [of 1000000000 1000000001 demo_promote]
  by (metis (no_types, lifting) demo_promote_def promote_input.select_convs(2))

section \<open>Transitions\<close>

definition same_records :: "outreach_db \<Rightarrow> outreach_db \<Rightarrow> bool" where
  "same_records s s' \<longleftrightarrow> t_records s' = t_records s"

interpretation records_kept: frame same_records
  by unfold_locales (auto simp: same_records_def)

lemma cancelPending_records:
  assumes "cancelPending rid reason now s = Inr (u, s')"
  shows "t_records s' = t_records s"
proof -
  have a: "ensures same_records (updateFollowupStatus fid st r n)" for fid st r n
    by (rule ensuresI) (simp add: store_simps same_records_def)
  have b: "ensures same_records (emit e)" for e
    by (rule ensuresI) (auto simp: emit_def tx_simps store_simps same_records_def)
  have "ensures same_records (cancelPending rid reason now)"
    unfolding cancelPending_def pendingFollowups_def
    by (intro records_kept.ensures_bind records_kept.ensures_get records_kept.ensures_for
        records_kept.ensures_then a b)
  then have "same_records s s'"
    using assms by (rule ensuresD)
  then show ?thesis
    by (simp add: same_records_def)
qed

text \<open>A requested status change. An illegal one throws the typed error and the transaction
  leaves the database as it was; one that succeeds was legal, leaves the record in the requested
  status, sets do-not-contact for the two suppressed statuses, and, when the new status ends the
  sequence, clears the next follow-up time and leaves no pending follow-up row.\<close>

theorem transition_outcome:
  assumes "rec_of s rid = Some rec"
  shows "(\<not> canOutreachTransition (or_status rec) t \<longrightarrow>
        run_tx (outreach_transition now rid t reason so) s =
          (Inl (InvalidOutreachTransitionError (outreach_status_str (or_status rec)) (outreach_status_str t)), s))
    \<and> (\<forall>x s'. outreach_transition now rid t reason so s = Inr (x, s') \<longrightarrow>
        canOutreachTransition (or_status rec) t \<and> rec_of s' rid = Some x \<and> or_status x = t
        \<and> or_doNotContact x = (or_doNotContact rec \<or> suppresses t)
        \<and> (t \<in> set OUTREACH_NO_FOLLOWUP \<longrightarrow> or_nextFollowupAt x = None \<and> pend s' rid = {}))"
proof (intro conjI impI allI)
  assume no: "\<not> canOutreachTransition (or_status rec) t"
  have "require rid s = Inr (rec, s)"
    using assms by (simp add: require_eq_Inr)
  moreover have "assertOutreachTransition (or_status rec) t =
      Inl (InvalidOutreachTransitionError (outreach_status_str (or_status rec)) (outreach_status_str t))"
    using no by (simp add: assertOutreachTransition_def)
  ultimately have "outreach_transition now rid t reason so s =
      Inl (InvalidOutreachTransitionError (outreach_status_str (or_status rec)) (outreach_status_str t))"
    by (simp add: outreach_transition_def Let_def bind_tx_def then_tx_def)
  then show "run_tx (outreach_transition now rid t reason so) s =
      (Inl (InvalidOutreachTransitionError (outreach_status_str (or_status rec)) (outreach_status_str t)), s)"
    by (simp add: run_tx_def)
next
  fix x s'
  assume run: "outreach_transition now rid t reason so s = Inr (x, s')"
  obtain s1 s2 u v w where can: "canOutreachTransition (or_status rec) t"
    and upd: "updateRecord rid (transition_patch t so) now s = Inr (u, s1)"
    and ev: "emit (transition_event rid (or_status rec) t reason) s1 = Inr (v, s2)"
    and canc: "when_tx (cancelsFollowups t) (cancelPending rid (cancel_reason t) now) s2 = Inr (w, s')"
    and x: "x = recordPatchToSet (transition_patch t so) now rec"
    using run assms unfolding outreach_transition_def Let_def
    by (auto simp: tx_simps require_eq_Inr)
  show "canOutreachTransition (or_status rec) t" by (rule can)
  have "rec_of s2 rid = Some x"
    using rec_of_updateRecord [OF upd] rec_of_emit [OF ev] assms x by simp
  moreover have "t_records s' = t_records s2"
    using canc cancelPending_records [of rid "cancel_reason t" now s2 w s']
    by (auto simp: tx_simps split: if_splits)
  ultimately show "rec_of s' rid = Some x"
    by (simp add: rec_of_def)
  show "or_status x = t" "or_doNotContact x = (or_doNotContact rec \<or> suppresses t)"
    by (simp_all add: x transition_patch_def empty_patch_def)
  show "or_nextFollowupAt x = None" if "t \<in> set OUTREACH_NO_FOLLOWUP"
    using that by (simp add: x transition_patch_def empty_patch_def cancelsFollowups_def)
  show "pend s' rid = {}" if "t \<in> set OUTREACH_NO_FOLLOWUP"
    using that canc cancelPending_views(4) by (auto simp: tx_simps cancelsFollowups_def)
qed

theorem transition_outcome_witness:
  "fst (run_tx (outreach_transition 5 [] CLOSED_WON None True) demo_tracked) =
     Inl (InvalidOutreachTransitionError ''DRAFT_READY'' ''CLOSED_WON'')"
proof -
  have "map (\<lambda>r. (or_id r, or_status r)) (t_records demo_tracked) = [([], DRAFT_READY)]"
    by code_simp
  then obtain rec where r: "rec_of demo_tracked [] = Some rec" "or_status rec = DRAFT_READY"
    by (cases "t_records demo_tracked") (auto simp: rec_of_def)
  have "\<not> canOutreachTransition (or_status rec) CLOSED_WON"
    unfolding r(2) by code_simp
  then have "run_tx (outreach_transition 5 [] CLOSED_WON None True) demo_tracked =
      (Inl (InvalidOutreachTransitionError (outreach_status_str (or_status rec))
        (outreach_status_str CLOSED_WON)), demo_tracked)"
    using transition_outcome [OF r(1)] by blast
  then show ?thesis
    unfolding r(2) by (simp only: fst_conv outreach_status_str.simps)
qed

section \<open>Refinement\<close>



end
