(* ===== verification/Lead_Machine.thy ===== *)
theory Lead_Machine
  imports Lifecycle
begin

text \<open>
  The lead lifecycle of \<^verbatim>\<open>src/src/domain/leads/status.ts\<close>, \<^verbatim>\<open>state-machine.ts\<close> and
  \<^verbatim>\<open>lead-lifecycle.ts\<close>: the statuses, the table of base transitions with the two rules
  layered on top, and the gate for contact work.
\<close>

section \<open>Statuses\<close>

datatype lead_status =
    NEW | NORMALIZED | DUPLICATE | REJECTED_AUTOMATICALLY | READY_FOR_QUALIFICATION
  | QUALIFIED | READY_FOR_ENRICHMENT | ENRICHED | NEEDS_MANUAL_REVIEW | REJECTED
  | READY_FOR_CAPTURE | CAPTURED | READY_FOR_AUDIT | AUDITED | OUTREACH_READY_DETERMINISTIC
  | OPPORTUNITY_READY | COMPETITOR_RESEARCH_READY | DEMO_DECIDED | DEMO_READY
  | EMAIL_DRAFTED | EMAIL_REVIEW_FAILED | EMAIL_APPROVED | WAITING_FOR_DEMO_URL
  | FINALIZED_EMAIL_PENDING | READY_FOR_HUMAN_APPROVAL | HUMAN_APPROVED | DRAFT_CREATED
  | SCHEDULED | SENT | REPLIED | LEAD_UNSUBSCRIBED | LEAD_BOUNCED | FAILED

definition LEAD_STATUSES :: "lead_status list" where
  "LEAD_STATUSES =
     [NEW, NORMALIZED, DUPLICATE, REJECTED_AUTOMATICALLY, READY_FOR_QUALIFICATION, QUALIFIED,
      READY_FOR_ENRICHMENT, ENRICHED, NEEDS_MANUAL_REVIEW, REJECTED, READY_FOR_CAPTURE, CAPTURED,
      READY_FOR_AUDIT, AUDITED, OUTREACH_READY_DETERMINISTIC, OPPORTUNITY_READY,
      COMPETITOR_RESEARCH_READY, DEMO_DECIDED, DEMO_READY, EMAIL_DRAFTED, EMAIL_REVIEW_FAILED,
      EMAIL_APPROVED, WAITING_FOR_DEMO_URL, FINALIZED_EMAIL_PENDING, READY_FOR_HUMAN_APPROVAL,
      HUMAN_APPROVED, DRAFT_CREATED, SCHEDULED, SENT, REPLIED, LEAD_UNSUBSCRIBED, LEAD_BOUNCED,
      FAILED]"

fun lead_status_str :: "lead_status \<Rightarrow> string" where
  "lead_status_str NEW = ''NEW''"
| "lead_status_str NORMALIZED = ''NORMALIZED''"
| "lead_status_str DUPLICATE = ''DUPLICATE''"
| "lead_status_str REJECTED_AUTOMATICALLY = ''REJECTED_AUTOMATICALLY''"
| "lead_status_str READY_FOR_QUALIFICATION = ''READY_FOR_QUALIFICATION''"
| "lead_status_str QUALIFIED = ''QUALIFIED''"
| "lead_status_str READY_FOR_ENRICHMENT = ''READY_FOR_ENRICHMENT''"
| "lead_status_str ENRICHED = ''ENRICHED''"
| "lead_status_str NEEDS_MANUAL_REVIEW = ''NEEDS_MANUAL_REVIEW''"
| "lead_status_str REJECTED = ''REJECTED''"
| "lead_status_str READY_FOR_CAPTURE = ''READY_FOR_CAPTURE''"
| "lead_status_str CAPTURED = ''CAPTURED''"
| "lead_status_str READY_FOR_AUDIT = ''READY_FOR_AUDIT''"
| "lead_status_str AUDITED = ''AUDITED''"
| "lead_status_str OUTREACH_READY_DETERMINISTIC = ''OUTREACH_READY_DETERMINISTIC''"
| "lead_status_str OPPORTUNITY_READY = ''OPPORTUNITY_READY''"
| "lead_status_str COMPETITOR_RESEARCH_READY = ''COMPETITOR_RESEARCH_READY''"
| "lead_status_str DEMO_DECIDED = ''DEMO_DECIDED''"
| "lead_status_str DEMO_READY = ''DEMO_READY''"
| "lead_status_str EMAIL_DRAFTED = ''EMAIL_DRAFTED''"
| "lead_status_str EMAIL_REVIEW_FAILED = ''EMAIL_REVIEW_FAILED''"
| "lead_status_str EMAIL_APPROVED = ''EMAIL_APPROVED''"
| "lead_status_str WAITING_FOR_DEMO_URL = ''WAITING_FOR_DEMO_URL''"
| "lead_status_str FINALIZED_EMAIL_PENDING = ''FINALIZED_EMAIL_PENDING''"
| "lead_status_str READY_FOR_HUMAN_APPROVAL = ''READY_FOR_HUMAN_APPROVAL''"
| "lead_status_str HUMAN_APPROVED = ''HUMAN_APPROVED''"
| "lead_status_str DRAFT_CREATED = ''DRAFT_CREATED''"
| "lead_status_str SCHEDULED = ''SCHEDULED''"
| "lead_status_str SENT = ''SENT''"
| "lead_status_str REPLIED = ''REPLIED''"
| "lead_status_str LEAD_UNSUBSCRIBED = ''UNSUBSCRIBED''"
| "lead_status_str LEAD_BOUNCED = ''BOUNCED''"
| "lead_status_str FAILED = ''FAILED''"

section \<open>Transitions\<close>

definition TERMINAL :: "lead_status list" where
  "TERMINAL = [DUPLICATE, REJECTED_AUTOMATICALLY, REJECTED, LEAD_UNSUBSCRIBED, FAILED, REPLIED,
     LEAD_BOUNCED]"

fun BASE_TRANSITIONS :: "lead_status \<Rightarrow> lead_status list" where
  "BASE_TRANSITIONS NEW = [NORMALIZED]"
| "BASE_TRANSITIONS NORMALIZED = [DUPLICATE, REJECTED_AUTOMATICALLY, READY_FOR_QUALIFICATION]"
| "BASE_TRANSITIONS READY_FOR_QUALIFICATION =
     [QUALIFIED, READY_FOR_ENRICHMENT, REJECTED, NEEDS_MANUAL_REVIEW]"
| "BASE_TRANSITIONS QUALIFIED = [READY_FOR_CAPTURE]"
| "BASE_TRANSITIONS READY_FOR_ENRICHMENT = [ENRICHED, NEEDS_MANUAL_REVIEW, FAILED]"
| "BASE_TRANSITIONS ENRICHED = [READY_FOR_QUALIFICATION]"
| "BASE_TRANSITIONS READY_FOR_CAPTURE = [CAPTURED, NEEDS_MANUAL_REVIEW, FAILED]"
| "BASE_TRANSITIONS CAPTURED = [READY_FOR_AUDIT]"
| "BASE_TRANSITIONS READY_FOR_AUDIT = [AUDITED, NEEDS_MANUAL_REVIEW, FAILED]"
| "BASE_TRANSITIONS AUDITED = [OPPORTUNITY_READY, NEEDS_MANUAL_REVIEW]"
| "BASE_TRANSITIONS OUTREACH_READY_DETERMINISTIC = [NEEDS_MANUAL_REVIEW, READY_FOR_HUMAN_APPROVAL]"
| "BASE_TRANSITIONS OPPORTUNITY_READY = [COMPETITOR_RESEARCH_READY, DEMO_DECIDED, EMAIL_DRAFTED]"
| "BASE_TRANSITIONS COMPETITOR_RESEARCH_READY = [DEMO_DECIDED]"
| "BASE_TRANSITIONS DEMO_DECIDED = [DEMO_READY, EMAIL_DRAFTED]"
| "BASE_TRANSITIONS DEMO_READY = [EMAIL_DRAFTED]"
| "BASE_TRANSITIONS EMAIL_DRAFTED = [EMAIL_APPROVED, EMAIL_REVIEW_FAILED]"
| "BASE_TRANSITIONS EMAIL_REVIEW_FAILED = [EMAIL_DRAFTED, NEEDS_MANUAL_REVIEW]"
| "BASE_TRANSITIONS EMAIL_APPROVED = [READY_FOR_HUMAN_APPROVAL, WAITING_FOR_DEMO_URL]"
| "BASE_TRANSITIONS WAITING_FOR_DEMO_URL =
     [READY_FOR_HUMAN_APPROVAL, FINALIZED_EMAIL_PENDING, REJECTED, NEEDS_MANUAL_REVIEW]"
| "BASE_TRANSITIONS FINALIZED_EMAIL_PENDING = [HUMAN_APPROVED, REJECTED, NEEDS_MANUAL_REVIEW]"
| "BASE_TRANSITIONS READY_FOR_HUMAN_APPROVAL = [HUMAN_APPROVED, REJECTED, SENT]"
| "BASE_TRANSITIONS HUMAN_APPROVED = [DRAFT_CREATED, NEEDS_MANUAL_REVIEW]"
| "BASE_TRANSITIONS DRAFT_CREATED = [SCHEDULED, NEEDS_MANUAL_REVIEW]"
| "BASE_TRANSITIONS SCHEDULED = [DRAFT_CREATED, SENT, NEEDS_MANUAL_REVIEW]"
| "BASE_TRANSITIONS SENT = [REPLIED, LEAD_BOUNCED, FAILED, EMAIL_DRAFTED]"
| "BASE_TRANSITIONS NEEDS_MANUAL_REVIEW =
     [READY_FOR_QUALIFICATION, READY_FOR_ENRICHMENT, READY_FOR_CAPTURE, READY_FOR_AUDIT,
      OUTREACH_READY_DETERMINISTIC, REJECTED]"
| "BASE_TRANSITIONS DUPLICATE = []"
| "BASE_TRANSITIONS REJECTED_AUTOMATICALLY = []"
| "BASE_TRANSITIONS REJECTED = [NEEDS_MANUAL_REVIEW]"
| "BASE_TRANSITIONS LEAD_UNSUBSCRIBED = []"
| "BASE_TRANSITIONS FAILED = []"
| "BASE_TRANSITIONS REPLIED = []"
| "BASE_TRANSITIONS LEAD_BOUNCED = []"

definition isTerminal :: "lead_status \<Rightarrow> bool" where
  "isTerminal status \<longleftrightarrow> status \<in> set TERMINAL"

definition allowedTransitions :: "lead_status \<Rightarrow> lead_status list" where
  "allowedTransitions s =
     (let base = BASE_TRANSITIONS s in
      if isTerminal s then base
      else if LEAD_UNSUBSCRIBED \<in> set base then base else base @ [LEAD_UNSUBSCRIBED])"

definition canTransition :: "lead_status \<Rightarrow> lead_status \<Rightarrow> bool" where
  "canTransition s t \<longleftrightarrow> t \<in> set (allowedTransitions s)"

definition assertTransition :: "lead_status \<Rightarrow> lead_status \<Rightarrow> app_error + unit" where
  "assertTransition s t =
     (if canTransition s t then Inr ()
      else Inl (InvalidStateTransitionError (lead_status_str s) (lead_status_str t)))"

definition LIFECYCLE_BLOCKED_STATUSES :: "lead_status list" where
  "LIFECYCLE_BLOCKED_STATUSES =
     [REJECTED, REJECTED_AUTOMATICALLY, DUPLICATE, LEAD_UNSUBSCRIBED, REPLIED, EMAIL_DRAFTED,
      EMAIL_REVIEW_FAILED, EMAIL_APPROVED, WAITING_FOR_DEMO_URL, FINALIZED_EMAIL_PENDING,
      READY_FOR_HUMAN_APPROVAL, HUMAN_APPROVED, DRAFT_CREATED, SCHEDULED, SENT]"

definition isLifecycleEligibleForContactWork :: "lead_status \<Rightarrow> bool" where
  "isLifecycleEligibleForContactWork status \<longleftrightarrow> status \<notin> set LIFECYCLE_BLOCKED_STATUSES"

section \<open>The table as a lifecycle\<close>

lemma allowedTransitions_eq:
  "allowedTransitions s = BASE_TRANSITIONS s @ (if isTerminal s then [] else [LEAD_UNSUBSCRIBED])"
  by (cases s) (simp_all add: allowedTransitions_def isTerminal_def TERMINAL_def)

lemma canTransition_iff:
  "canTransition s t \<longleftrightarrow>
     t \<in> set (BASE_TRANSITIONS s) \<or> (t = LEAD_UNSUBSCRIBED \<and> \<not> isTerminal s)"
  by (auto simp: canTransition_def allowedTransitions_eq)

text \<open>Every terminal status but \<^const>\<open>REJECTED\<close> (which an operator may reopen) has no exit.\<close>

definition lead_absorbing :: "lead_status \<Rightarrow> bool" where
  "lead_absorbing s \<longleftrightarrow> isTerminal s \<and> s \<noteq> REJECTED"

interpretation lead: suppressible_lifecycle allowedTransitions lead_absorbing
  "\<lambda>s. \<not> isTerminal s" LEAD_UNSUBSCRIBED
proof
  fix s
  show "lead_absorbing s \<Longrightarrow> allowedTransitions s = []"
    by (cases s) (simp_all add: lead_absorbing_def isTerminal_def TERMINAL_def allowedTransitions_eq)
  show "\<not> isTerminal s \<Longrightarrow> LEAD_UNSUBSCRIBED \<in> set (allowedTransitions s)"
    by (simp add: allowedTransitions_eq)
  show "lead_absorbing LEAD_UNSUBSCRIBED"
    by (simp add: lead_absorbing_def isTerminal_def TERMINAL_def)
qed

text \<open>The created draft and its schedule are reached through the human approval only.\<close>

definition send_side :: "lead_status \<Rightarrow> bool" where
  "send_side s \<longleftrightarrow> s = DRAFT_CREATED \<or> s = SCHEDULED"

interpretation approval: gated_lifecycle allowedTransitions send_side HUMAN_APPROVED
proof
  fix s t
  show "t \<in> set (allowedTransitions s) \<Longrightarrow> send_side t \<Longrightarrow> send_side s \<or> s = HUMAN_APPROVED"
    by (cases s) (auto simp: allowedTransitions_eq send_side_def split: if_splits)
qed

text \<open>The human approval itself is entered from the two human review queues only.\<close>

lemma human_approved_from:
  "canTransition s HUMAN_APPROVED \<longleftrightarrow> s = FINALIZED_EMAIL_PENDING \<or> s = READY_FOR_HUMAN_APPROVAL"
  by (cases s) (auto simp: canTransition_iff)

lemma sent_from:
  "canTransition s SENT \<longleftrightarrow> s = SCHEDULED \<or> s = READY_FOR_HUMAN_APPROVAL"
  by (cases s) (auto simp: canTransition_iff)

end
