(* ===== verification/Followup_Runners.thy ===== *)
theory Followup_Runners
  imports Outreach_Operations Lead_Machine
begin

text \<open>
  The unattended runs over outreach: due-state promotion
  (\<^verbatim>\<open>outreach/followup-due-promotion.ts\<close>), preparation
  (\<^verbatim>\<open>outreach/followup-preparation-runner.ts\<close>), progression
  (\<^verbatim>\<open>outreach/followup-progression-runner.ts\<close>) and reply sync (\<^verbatim>\<open>outreach/reply-sync.ts\<close>), with
  the worklist queries of \<^verbatim>\<open>followup-preparation.repo.ts\<close> and the wiring of
  \<^verbatim>\<open>cli/commands/run-followup-automation.ts\<close>. A report is the list of its entries with the list
  (the bucket) each was pushed to. Parameters: \<open>clock i j\<close>, the \<open>j\<close>-th clock reading while
  candidate \<open>i\<close> is handled; \<open>emsg\<close>, the message text of an error; and, for the stages owned by
  other services, their results.
\<close>

section \<open>The loop of a run\<close>

fun run_items :: "(nat \<Rightarrow> 'c \<Rightarrow> 's \<Rightarrow> 'e \<times> 's) \<Rightarrow> nat \<Rightarrow> 'c list \<Rightarrow> 's \<Rightarrow> 'e list \<times> 's" where
  "run_items handle k [] s = ([], s)"
| "run_items handle k (c # cs) s =
     (case handle k c s of (e, s1) \<Rightarrow>
      case run_items handle (Suc k) cs s1 of (es, s2) \<Rightarrow> (e # es, s2))"

definition in_bucket :: "'b \<Rightarrow> ('b \<times> 'e) list \<Rightarrow> 'e list" where
  "in_bucket b es = map snd (filter (\<lambda>e. fst e = b) es)"

text \<open>A run handles every candidate exactly once and carries along whatever every single
  handling keeps.\<close>

locale runner =
  fixes handle :: "nat \<Rightarrow> 'c \<Rightarrow> 's \<Rightarrow> 'e \<times> 's"
    and R :: "'s \<Rightarrow> 's \<Rightarrow> bool"
  assumes R_refl: "R s s" and R_trans: "R s t \<Longrightarrow> R t u \<Longrightarrow> R s u"
    and handle_R: "handle k c s = (e, s') \<Longrightarrow> R s s'"
begin

lemma run_length: "run_items handle k cs s = (es, s') \<Longrightarrow> length es = length cs"
  by (induction cs arbitrary: k s es) (auto split: prod.splits)

lemma run_R: "run_items handle k cs s = (es, s') \<Longrightarrow> R s s'"
proof (induction cs arbitrary: k s es)
  case Nil
  then show ?case by (simp add: R_refl)
next
  case (Cons c cs)
  obtain e s1 where h: "handle k c s = (e, s1)" by (cases "handle k c s")
  obtain es' where "run_items handle (Suc k) cs s1 = (es', s')"
    using Cons.prems h by (auto split: prod.splits)
  then show ?case
    using Cons.IH R_trans [OF handle_R [OF h]] by blast
qed

text \<open>Every entry was produced on its own candidate, in a state related to both ends.\<close>

lemma run_entry:
  "run_items handle k cs s = (es, s') \<Longrightarrow> i < length cs \<Longrightarrow>
   \<exists>t t'. R s t \<and> handle (k + i) (cs ! i) t = (es ! i, t') \<and> R t' s'"
proof (induction cs arbitrary: k s es i)
  case Nil
  then show ?case by simp
next
  case (Cons c cs)
  obtain e s1 where h: "handle k c s = (e, s1)" by (cases "handle k c s")
  obtain es' where es: "es = e # es'" and rest: "run_items handle (Suc k) cs s1 = (es', s')"
    using Cons.prems(1) h by (auto split: prod.splits)
  show ?case
  proof (cases i)
    case 0
    then show ?thesis
      using h es run_R [OF rest] R_refl by auto
  next
    case (Suc j)
    then obtain t t' where "R s1 t" "handle (Suc k + j) (cs ! j) t = (es' ! j, t')" "R t' s'"
      using Cons.IH [OF rest, of j] Cons.prems(2) by auto
    then show ?thesis
      using Suc es R_trans [OF handle_R [OF h]] by auto
  qed
qed

end

section \<open>Due rows\<close>

text \<open>Active rows whose due instant has passed, oldest first and bounded, joined with their
  records.\<close>

definition due_followups :: "outreach_db \<Rightarrow> int \<Rightarrow> int \<Rightarrow> string option \<Rightarrow> outreach_followup list" where
  "due_followups s nowMs limit recordId =
     take (nat limit) (sort_key of_dueAt
       (filter (\<lambda>f. of_status f = DUE \<and> of_dueAt f \<le> nowMs
           \<and> (case given recordId of None \<Rightarrow> True | Some rid \<Rightarrow> of_recordId f = rid)
           \<and> rec_of s (of_recordId f) \<noteq> None) (t_followups s)))"

definition dueRows :: "outreach_db \<Rightarrow> int \<Rightarrow> int \<Rightarrow> string option \<Rightarrow> (outreach_followup \<times> outreach_record) list" where
  "dueRows s nowMs limit recordId =
     map (\<lambda>f. (f, the (rec_of s (of_recordId f)))) (due_followups s nowMs limit recordId)"

definition promotionCandidates ::
  "outreach_db \<Rightarrow> int \<Rightarrow> int \<Rightarrow> string option \<Rightarrow> promotion_candidate list" where
  "promotionCandidates s nowMs limit recordId =
     (if limit \<le> 0 then [] else
      map (\<lambda>(f, r). \<lparr>pc_followupId = of_id f, pc_outreachRecordId = or_id r, pc_leadId = or_leadId r,
             pc_step = of_step f, pc_followupStatus = of_status f, pc_dueAtMs = of_dueAt f,
             pc_recordStatus = Some (or_status r), pc_doNotContact = or_doNotContact r\<rparr>)
        (dueRows s nowMs limit recordId))"

section \<open>Promotion\<close>

datatype promotion_run_outcome = PR_RAN | PR_MASTER_DISABLED | PR_TRACKING_DISABLED

datatype promo_bucket = B_promoted | B_unchanged | B_blocked | B_skipped | B_failures

record promo_entry =
  pe_followupId :: string
  pe_outreachRecordId :: string
  pe_leadId :: string
  pe_step :: int
  pe_action :: string
  pe_detail :: string

record promo_report =
  rep_outcome :: promotion_run_outcome
  rep_considered :: nat
  rep_entries :: "(promo_bucket \<times> promo_entry) list"

definition promo_entry_of :: "promotion_candidate \<Rightarrow> string \<Rightarrow> string \<Rightarrow> promo_entry" where
  "promo_entry_of c action detail =
     \<lparr>pe_followupId = pc_followupId c, pe_outreachRecordId = pc_outreachRecordId c,
      pe_leadId = pc_leadId c, pe_step = pc_step c, pe_action = action, pe_detail = detail\<rparr>"

fun promote_outcome_str :: "promote_outcome \<Rightarrow> string" where
  "promote_outcome_str PROMOTED = ''PROMOTED''"
| "promote_outcome_str PROMOTE_ALREADY_DUE = ''ALREADY_DUE''"
| "promote_outcome_str PROMOTE_BLOCKED = ''BLOCKED''"
| "promote_outcome_str SKIPPED = ''SKIPPED''"
| "promote_outcome_str RACE_LOST = ''RACE_LOST''"

text \<open>The \<^verbatim>\<open>promote\<close> effect as the command wires it: nothing in a dry run, otherwise one
  transaction of the service.\<close>

definition promote_effect ::
  "bool \<Rightarrow> string \<Rightarrow> int \<Rightarrow> int \<Rightarrow> promotion_candidate \<Rightarrow> outreach_db
   \<Rightarrow> (app_error + (bool \<times> string)) \<times> outreach_db" where
  "promote_effect dryRun actor n1 n2 c s =
     (if dryRun
      then (Inr (False, ''DRY_RUN: would promote record '' @ pc_outreachRecordId c @ '' for step ''
              @ show_int (pc_step c) @ '' '' @ [CHR 0x97] @ '' nothing written''), s)
      else case run_tx (promoteFollowupDue n1 n2
             \<lparr>pi_followupId = pc_followupId c, pi_recordId = pc_outreachRecordId c, pi_actor = actor\<rparr>) s of
        (Inl e, s') \<Rightarrow> (Inl e, s')
      | (Inr r, s') \<Rightarrow> (Inr (pr_outcome r = PROMOTED,
            promote_outcome_str (pr_outcome r) @ '': '' @ pr_detail r), s'))"

definition handle_promotion ::
  "(app_error \<Rightarrow> string) \<Rightarrow> (nat \<Rightarrow> nat \<Rightarrow> int) \<Rightarrow> bool \<Rightarrow> string \<Rightarrow> nat \<Rightarrow> promotion_candidate
   \<Rightarrow> outreach_db \<Rightarrow> (promo_bucket \<times> promo_entry) \<times> outreach_db" where
  "handle_promotion emsg clock dryRun actor k c s =
     (case decideFollowupPromotion c (clock k 0) of
        BLOCKED r d \<Rightarrow>
          ((B_blocked, promo_entry_of c ''BLOCKED'' (blocked_reason_str r @ '': '' @ d)), s)
      | SKIP r d \<Rightarrow> ((B_skipped, promo_entry_of c ''SKIP'' (skip_reason_str r @ '': '' @ d)), s)
      | ALREADY_DUE d \<Rightarrow> ((B_unchanged, promo_entry_of c ''ALREADY_DUE'' d), s)
      | PROMOTE st src dst \<Rightarrow>
          (case promote_effect dryRun actor (clock k 1) (clock k 2) c s of
             (Inl e, s') \<Rightarrow>
               ((B_failures, promo_entry_of c ''PROMOTE_FAILED'' (''promote threw: '' @ emsg e)), s')
           | (Inr (promoted, outcome), s') \<Rightarrow>
               (if promoted then (B_promoted, promo_entry_of c ''PROMOTE'' outcome)
                else (B_unchanged, promo_entry_of c ''NO_CHANGE'' outcome), s')))"

record promotion_gates =
  followupPromotionEnabled :: bool
  pg_outreachTrackingEnabled :: bool

definition runFollowupDuePromotion ::
  "(app_error \<Rightarrow> string) \<Rightarrow> (nat \<Rightarrow> nat \<Rightarrow> int) \<Rightarrow> int \<Rightarrow> promotion_gates \<Rightarrow> int \<Rightarrow> string option \<Rightarrow> bool
   \<Rightarrow> string \<Rightarrow> outreach_db \<Rightarrow> promo_report \<times> outreach_db" where
  "runFollowupDuePromotion emsg clock now g maxPerRun recordId dryRun actor s =
     (if \<not> followupPromotionEnabled g
      then (\<lparr>rep_outcome = PR_MASTER_DISABLED, rep_considered = 0, rep_entries = []\<rparr>, s)
      else if \<not> pg_outreachTrackingEnabled g
      then (\<lparr>rep_outcome = PR_TRACKING_DISABLED, rep_considered = 0, rep_entries = []\<rparr>, s)
      else
        let candidates = promotionCandidates s now maxPerRun recordId in
        case run_items (handle_promotion emsg clock dryRun actor) 0 candidates s of
          (es, s') \<Rightarrow>
            (\<lparr>rep_outcome = PR_RAN, rep_considered = length candidates, rep_entries = es\<rparr>, s'))"

section \<open>Preparation\<close>

record existing_draft =
  ed_id :: string
  ed_humanDecision :: "string option"
  ed_humanReviewedAtMs :: "int option"

record followup_candidate =
  fc_followupId :: string
  fc_outreachRecordId :: string
  fc_leadId :: string
  fc_step :: int
  fc_recordStatus :: "outreach_status option"
  fc_doNotContact :: bool
  fc_leadStatus :: string
  fc_existingDraft :: "existing_draft option"
  fc_followupCreatedAtMs :: int

datatype prepare_skip_reason =
  PS_UNKNOWN_STEP | ALREADY_PREPARED | AWAITING_HUMAN_REVIEW | LEAD_NOT_AT_SEQUENCE_REENTRY

datatype prepare_action =
    COMPOSE followup_step
  | CANCEL_REJECTED string
  | PREPARE_SKIP prepare_skip_reason string
  | PREPARE_BLOCKED send_block_reason string

definition rejection_superseded :: "followup_candidate \<Rightarrow> bool" where
  "rejection_superseded c \<longleftrightarrow>
     (case fc_existingDraft c of
        None \<Rightarrow> False
      | Some d \<Rightarrow> ed_humanDecision d = Some ''REJECTED''
          \<and> (case ed_humanReviewedAtMs d of None \<Rightarrow> False | Some t \<Rightarrow> fc_followupCreatedAtMs c > t))"

definition decideFollowupPreparation :: "followup_candidate \<Rightarrow> prepare_action" where
  "decideFollowupPreparation c =
     (case to_followup_step (fc_step c) of
        None \<Rightarrow> PREPARE_SKIP PS_UNKNOWN_STEP
          (''step '' @ show_int (fc_step c) @ '' is not a follow-up step'')
      | Some st \<Rightarrow>
        (case checkFollowupSendAllowed \<lparr>snap_status = fc_recordStatus c,
                snap_doNotContact = fc_doNotContact c, preparedStep = st\<rparr> of
           SendDenied r d \<Rightarrow> PREPARE_BLOCKED r d
         | SendAllowed _ \<Rightarrow>
           (case (if rejection_superseded c then None else fc_existingDraft c) of
              Some d \<Rightarrow>
                if ed_humanDecision d = Some ''REJECTED''
                then CANCEL_REJECTED (''follow-up copy '' @ ed_id d @ '' was rejected in human review'')
                else if ed_humanDecision d = Some ''APPROVED''
                then PREPARE_SKIP ALREADY_PREPARED (''draft '' @ ed_id d @ '' is approved and progressing'')
                else PREPARE_SKIP AWAITING_HUMAN_REVIEW
                  (''draft '' @ ed_id d @ '' is waiting for a human decision'')
            | None \<Rightarrow>
                if fc_leadStatus c \<noteq> ''SENT''
                then PREPARE_SKIP LEAD_NOT_AT_SEQUENCE_REENTRY
                  (''lead is '' @ fc_leadStatus c @ '', not SENT'')
                else COMPOSE st)))"

text \<open>The worklist: the due rows with what other tables say of them. \<open>draft_of\<close> is the most
  recent draft composed for a record and step, \<open>lead_status_of\<close> the lead's status.\<close>

definition dueCandidates ::
  "(string \<Rightarrow> int \<Rightarrow> existing_draft option) \<Rightarrow> (string \<Rightarrow> string) \<Rightarrow> outreach_db \<Rightarrow> int \<Rightarrow> int
   \<Rightarrow> string option \<Rightarrow> followup_candidate list" where
  "dueCandidates draft_of lead_status_of s nowMs limit recordId =
     (if limit \<le> 0 then [] else
      map (\<lambda>(f, r). \<lparr>fc_followupId = of_id f, fc_outreachRecordId = or_id r, fc_leadId = or_leadId r,
             fc_step = of_step f, fc_recordStatus = Some (or_status r),
             fc_doNotContact = or_doNotContact r, fc_leadStatus = lead_status_of (or_leadId r),
             fc_existingDraft = draft_of (or_id r) (of_step f),
             fc_followupCreatedAtMs = of_createdAt f\<rparr>)
        (dueRows s nowMs limit recordId))"

datatype prepare_run_outcome =
  PREP_RAN | PREP_MASTER_DISABLED | PREP_TRACKING_DISABLED | EMAIL_GENERATION_DISABLED

datatype prepare_bucket = B_prepared | B_prep_blocked | B_prep_skipped | B_cancelled | B_prep_failures

record prepare_entry =
  pp_followupId :: string
  pp_outreachRecordId :: string
  pp_leadId :: string
  pp_step :: int
  pp_action :: string
  pp_detail :: string

record prepare_report =
  prep_outcome :: prepare_run_outcome
  prep_considered :: nat
  prep_entries :: "(prepare_bucket \<times> prepare_entry) list"

definition prepare_entry_of :: "followup_candidate \<Rightarrow> string \<Rightarrow> string \<Rightarrow> prepare_entry" where
  "prepare_entry_of c action detail =
     \<lparr>pp_followupId = fc_followupId c, pp_outreachRecordId = fc_outreachRecordId c,
      pp_leadId = fc_leadId c, pp_step = fc_step c, pp_action = action, pp_detail = detail\<rparr>"

fun prepare_skip_str :: "prepare_skip_reason \<Rightarrow> string" where
  "prepare_skip_str PS_UNKNOWN_STEP = ''UNKNOWN_STEP''"
| "prepare_skip_str ALREADY_PREPARED = ''ALREADY_PREPARED''"
| "prepare_skip_str AWAITING_HUMAN_REVIEW = ''AWAITING_HUMAN_REVIEW''"
| "prepare_skip_str LEAD_NOT_AT_SEQUENCE_REENTRY = ''LEAD_NOT_AT_SEQUENCE_REENTRY''"

text \<open>\<open>compose c st\<close> is what the email writer answered: an error it threw, or whether the copy
  was prepared and the writer's outcome.\<close>

definition handle_preparation ::
  "(app_error \<Rightarrow> string) \<Rightarrow> (nat \<Rightarrow> nat \<Rightarrow> int) \<Rightarrow> bool
   \<Rightarrow> (followup_candidate \<Rightarrow> followup_step \<Rightarrow> app_error + (bool \<times> string)) \<Rightarrow> nat
   \<Rightarrow> followup_candidate \<Rightarrow> outreach_db \<Rightarrow> (prepare_bucket \<times> prepare_entry) \<times> outreach_db" where
  "handle_preparation emsg clock dryRun compose k c s =
     (case decideFollowupPreparation c of
        PREPARE_BLOCKED r d \<Rightarrow>
          ((B_prep_blocked, prepare_entry_of c ''BLOCKED'' (send_block_str r @ '': '' @ d)), s)
      | PREPARE_SKIP r d \<Rightarrow>
          ((B_prep_skipped, prepare_entry_of c ''SKIP'' (prepare_skip_str r @ '': '' @ d)), s)
      | CANCEL_REJECTED reason \<Rightarrow>
          (case (if dryRun then (Inr (), s)
                 else run_tx (cancelFollowup (clock k 0) (fc_followupId c) (fc_outreachRecordId c)
                        ''HUMAN_REJECTED_COPY'') s) of
             (Inr _, s') \<Rightarrow> ((B_cancelled, prepare_entry_of c ''CANCEL_REJECTED'' reason), s')
           | (Inl e, s') \<Rightarrow> ((B_prep_failures,
               prepare_entry_of c ''CANCEL_REJECTED'' (''cancel failed: '' @ emsg e)), s'))
      | COMPOSE st \<Rightarrow>
          (case compose c st of
             Inr (prepared, outcome) \<Rightarrow>
               ((if prepared then (B_prepared, prepare_entry_of c ''COMPOSE'' outcome)
                 else (B_prep_failures, prepare_entry_of c ''COMPOSE'' (''no approved copy: '' @ outcome))), s)
           | Inl e \<Rightarrow> ((B_prep_failures,
               prepare_entry_of c ''COMPOSE'' (''compose threw: '' @ emsg e)), s)))"

record preparation_gates =
  followupPreparationEnabled :: bool
  prg_outreachTrackingEnabled :: bool
  emailGenerationEnabled :: bool

text \<open>A preflight that throws aborts the run before any candidate is listed.\<close>

definition runFollowupPreparation ::
  "(app_error \<Rightarrow> string) \<Rightarrow> (nat \<Rightarrow> nat \<Rightarrow> int) \<Rightarrow> int \<Rightarrow> preparation_gates \<Rightarrow> app_error + unit \<Rightarrow> int
   \<Rightarrow> string option \<Rightarrow> bool \<Rightarrow> (string \<Rightarrow> int \<Rightarrow> existing_draft option) \<Rightarrow> (string \<Rightarrow> string)
   \<Rightarrow> (followup_candidate \<Rightarrow> followup_step \<Rightarrow> app_error + (bool \<times> string)) \<Rightarrow> outreach_db
   \<Rightarrow> (app_error + prepare_report) \<times> outreach_db" where
  "runFollowupPreparation emsg clock now g preflight maxPerRun recordId dryRun draft_of lead_status_of
       compose s =
     (if \<not> followupPreparationEnabled g
      then (Inr \<lparr>prep_outcome = PREP_MASTER_DISABLED, prep_considered = 0, prep_entries = []\<rparr>, s)
      else if \<not> prg_outreachTrackingEnabled g
      then (Inr \<lparr>prep_outcome = PREP_TRACKING_DISABLED, prep_considered = 0, prep_entries = []\<rparr>, s)
      else if \<not> emailGenerationEnabled g
      then (Inr \<lparr>prep_outcome = EMAIL_GENERATION_DISABLED, prep_considered = 0, prep_entries = []\<rparr>, s)
      else case preflight of
        Inl e \<Rightarrow> (Inl e, s)
      | Inr _ \<Rightarrow>
        (let candidates = dueCandidates draft_of lead_status_of s now maxPerRun recordId in
         case run_items (handle_preparation emsg clock dryRun compose) 0 candidates s of
           (es, s') \<Rightarrow>
             (Inr \<lparr>prep_outcome = PREP_RAN, prep_considered = length candidates, prep_entries = es\<rparr>, s')))"

section \<open>Progression\<close>

datatype progression_stage = FINALIZE | CREATE_GMAIL_DRAFT | SCHEDULE_STAGE

record progression_candidate =
  gc_leadId :: string
  gc_outreachRecordId :: string
  gc_emailDraftId :: string
  gc_sequenceStep :: int
  gc_leadStatus :: string
  gc_humanDecision :: "string option"
  gc_hasFinalization :: bool
  gc_hasGmailDraft :: bool
  gc_hasActiveSchedule :: bool
  gc_recordStatus :: "outreach_status option"
  gc_doNotContact :: bool

datatype progression_skip_reason = NOT_A_FOLLOWUP | NOT_HUMAN_APPROVED | UNEXPECTED_LEAD_STATE

datatype progression_action =
    ADVANCE progression_stage followup_step
  | PROGRESSION_DONE string
  | PROGRESSION_SKIP progression_skip_reason string
  | PROGRESSION_BLOCKED send_block_reason string

definition decideProgression :: "progression_candidate \<Rightarrow> progression_action" where
  "decideProgression c =
     (case to_followup_step (gc_sequenceStep c) of
        None \<Rightarrow> PROGRESSION_SKIP NOT_A_FOLLOWUP
          (''sequence step '' @ show_int (gc_sequenceStep c) @ '' is not a follow-up'')
      | Some st \<Rightarrow>
        if gc_humanDecision c \<noteq> Some ''APPROVED''
        then PROGRESSION_SKIP NOT_HUMAN_APPROVED
          (''human decision is '' @ (case gc_humanDecision c of None \<Rightarrow> ''none'' | Some h \<Rightarrow> h))
        else
          (case checkFollowupSendAllowed \<lparr>snap_status = gc_recordStatus c,
                  snap_doNotContact = gc_doNotContact c, preparedStep = st\<rparr> of
             SendDenied r d \<Rightarrow> PROGRESSION_BLOCKED r d
           | SendAllowed _ \<Rightarrow>
             if gc_leadStatus c = ''SCHEDULED'' \<or> gc_hasActiveSchedule c
             then PROGRESSION_DONE ''scheduled; run-scheduled-sends owns it from here''
             else if gc_leadStatus c = ''HUMAN_APPROVED''
             then (if \<not> gc_hasFinalization c then ADVANCE FINALIZE st
                   else if \<not> gc_hasGmailDraft c then ADVANCE CREATE_GMAIL_DRAFT st
                   else ADVANCE CREATE_GMAIL_DRAFT st)
             else if gc_leadStatus c = ''DRAFT_CREATED'' then ADVANCE SCHEDULE_STAGE st
             else PROGRESSION_SKIP UNEXPECTED_LEAD_STATE (''lead is '' @ gc_leadStatus c)))"

datatype progression_bucket = B_advanced | B_done | B_prog_blocked | B_prog_skipped | B_prog_failures

record progression_entry =
  ge_leadId :: string
  ge_outreachRecordId :: string
  ge_sequenceStep :: int
  ge_stage :: "progression_stage option"
  ge_action :: string
  ge_detail :: string

definition progression_entry_of ::
  "progression_candidate \<Rightarrow> string \<Rightarrow> progression_stage option \<Rightarrow> string \<Rightarrow> progression_entry" where
  "progression_entry_of c action stage detail =
     \<lparr>ge_leadId = gc_leadId c, ge_outreachRecordId = gc_outreachRecordId c,
      ge_sequenceStep = gc_sequenceStep c, ge_stage = stage, ge_action = action, ge_detail = detail\<rparr>"

fun progression_skip_str :: "progression_skip_reason \<Rightarrow> string" where
  "progression_skip_str NOT_A_FOLLOWUP = ''NOT_A_FOLLOWUP''"
| "progression_skip_str NOT_HUMAN_APPROVED = ''NOT_HUMAN_APPROVED''"
| "progression_skip_str UNEXPECTED_LEAD_STATE = ''UNEXPECTED_LEAD_STATE''"

text \<open>\<open>stage\<close> executes a stage for a candidate through its service, on the state \<open>'w\<close> those
  services share.\<close>

definition handle_progression ::
  "(app_error \<Rightarrow> string)
   \<Rightarrow> (progression_stage \<Rightarrow> progression_candidate \<Rightarrow> 'w \<Rightarrow> (app_error + (bool \<times> string)) \<times> 'w)
   \<Rightarrow> nat \<Rightarrow> progression_candidate \<Rightarrow> 'w \<Rightarrow> (progression_bucket \<times> progression_entry) \<times> 'w" where
  "handle_progression emsg stage k c w =
     (case decideProgression c of
        PROGRESSION_BLOCKED r d \<Rightarrow>
          ((B_prog_blocked, progression_entry_of c ''BLOCKED'' None (send_block_str r @ '': '' @ d)), w)
      | PROGRESSION_SKIP r d \<Rightarrow>
          ((B_prog_skipped, progression_entry_of c ''SKIP'' None (progression_skip_str r @ '': '' @ d)), w)
      | PROGRESSION_DONE d \<Rightarrow> ((B_done, progression_entry_of c ''DONE'' None d), w)
      | ADVANCE st _ \<Rightarrow>
          (case stage st c w of
             (Inr (ok, detail), w') \<Rightarrow>
               ((if ok then B_advanced else B_prog_failures,
                 progression_entry_of c ''ADVANCE'' (Some st) detail), w')
           | (Inl e, w') \<Rightarrow> ((B_prog_failures,
               progression_entry_of c ''ADVANCE'' (Some st) (''stage threw: '' @ emsg e)), w')))"

datatype progression_run_outcome = PROG_RAN | PROG_MASTER_DISABLED | PROG_TRACKING_DISABLED

record progression_report =
  prog_outcome :: progression_run_outcome
  prog_considered :: nat
  prog_entries :: "(progression_bucket \<times> progression_entry) list"

record progression_gates =
  followupProgressionEnabled :: bool
  prog_outreachTrackingEnabled :: bool

definition runFollowupProgression ::
  "(app_error \<Rightarrow> string) \<Rightarrow> progression_gates \<Rightarrow> progression_candidate list
   \<Rightarrow> (progression_stage \<Rightarrow> progression_candidate \<Rightarrow> 'w \<Rightarrow> (app_error + (bool \<times> string)) \<times> 'w)
   \<Rightarrow> 'w \<Rightarrow> progression_report \<times> 'w" where
  "runFollowupProgression emsg g candidates stage w =
     (if \<not> followupProgressionEnabled g
      then (\<lparr>prog_outcome = PROG_MASTER_DISABLED, prog_considered = 0, prog_entries = []\<rparr>, w)
      else if \<not> prog_outreachTrackingEnabled g
      then (\<lparr>prog_outcome = PROG_TRACKING_DISABLED, prog_considered = 0, prog_entries = []\<rparr>, w)
      else case run_items (handle_progression emsg stage) 0 candidates w of
        (es, w') \<Rightarrow>
          (\<lparr>prog_outcome = PROG_RAN, prog_considered = length candidates, prog_entries = es\<rparr>, w'))"

section \<open>Reply sync\<close>

text \<open>\<^verbatim>\<open>trackedThreads\<close>: the records with a sent message in a thread, each with the thread and
  time of its latest sent message and the message ids already stored as replies.\<close>

definition sent_in_thread :: "outreach_message \<Rightarrow> bool" where
  "sent_in_thread m \<longleftrightarrow> given (om_gmailThreadId m) \<noteq> None \<and> om_sentAt m \<noteq> None"

text \<open>The loop over the messages of one record: a later one replaces the entry.\<close>

fun latest_sent :: "outreach_message list \<Rightarrow> (string \<times> int) option \<Rightarrow> (string \<times> int) option" where
  "latest_sent [] cur = cur"
| "latest_sent (m # ms) cur =
     (let entry = (the (om_gmailThreadId m), the (om_sentAt m)) in
      latest_sent ms (case cur of None \<Rightarrow> Some entry
        | Some (t, at) \<Rightarrow> if snd entry > at then Some entry else cur))"

definition trackedThreads :: "outreach_db \<Rightarrow> string option \<Rightarrow> string option \<Rightarrow> tracked_thread list" where
  "trackedThreads s recordId campaignId =
     (let ms = filter (\<lambda>m. sent_in_thread m
          \<and> (case given recordId of None \<Rightarrow> True | Some rid \<Rightarrow> om_recordId m = rid)
          \<and> (case rec_of s (om_recordId m) of None \<Rightarrow> False
             | Some r \<Rightarrow> (case given campaignId of None \<Rightarrow> True | Some c \<Rightarrow> or_campaignId r = c)))
          (t_messages s)
      in List.map_filter (\<lambda>rid. map_option (\<lambda>(t, at).
           \<lparr>tt_outreachRecordId = rid, tt_threadId = t, tt_lastOutboundAtMs = at,
            tt_handledMessageIds = map rp_gmailMessageId (filter (\<lambda>r. rp_recordId r = rid) (t_replies s))\<rparr>)
           (latest_sent (filter (\<lambda>m. om_recordId m = rid) ms) None))
         (js_unique (map om_recordId ms)))"

definition reply_input_of :: "detected_reply \<Rightarrow> apply_reply_input" where
  "reply_input_of d =
     \<lparr>ar_recordId = dr_outreachRecordId d, ar_gmailThreadId = dr_threadId d,
      ar_gmailMessageId = dr_messageId d, ar_fromEmail = dr_fromEmail d,
      ar_receivedAtMs = dr_receivedAtMs d, ar_preview = dr_preview d,
      ar_classification = dr_classification d\<rparr>"

text \<open>The loop over the threads: \<open>reader\<close> is the thread reader, \<open>clock k\<close> the reading when thread
  \<open>k\<close> is applied. An error ends the run; what was applied before it stays.\<close>

fun sync_threads ::
  "(string \<Rightarrow> string \<Rightarrow> int) \<Rightarrow> (string \<Rightarrow> inbound_message list) \<Rightarrow> (nat \<Rightarrow> int) \<Rightarrow> string list \<Rightarrow> nat
   \<Rightarrow> tracked_thread list \<Rightarrow> outreach_db \<Rightarrow> (app_error + detected_reply list) \<times> outreach_db" where
  "sync_threads lc reader clock own k [] s = (Inr [], s)"
| "sync_threads lc reader clock own k (t # ts) s =
     (case detectReply lc (reader (tt_threadId t)) t own of
        None \<Rightarrow> sync_threads lc reader clock own (Suc k) ts s
      | Some d \<Rightarrow>
        (case run_tx (applyReply (clock k) (reply_input_of d)) s of
           (Inl e, s1) \<Rightarrow> (Inl e, s1)
         | (Inr _, s1) \<Rightarrow>
           (case sync_threads lc reader clock own (Suc k) ts s1 of
              (Inl e, s2) \<Rightarrow> (Inl e, s2)
            | (Inr ds, s2) \<Rightarrow> (Inr (d # ds), s2))))"

record reply_sync_report =
  rs_threadsChecked :: nat
  rs_repliesApplied :: "detected_reply list"

definition runReplySync ::
  "(string \<Rightarrow> string \<Rightarrow> int) \<Rightarrow> (string \<Rightarrow> inbound_message list) \<Rightarrow> (nat \<Rightarrow> int) \<Rightarrow> string list
   \<Rightarrow> tracked_thread list \<Rightarrow> outreach_db \<Rightarrow> (app_error + reply_sync_report) \<times> outreach_db" where
  "runReplySync lc reader clock own threads s =
     (case sync_threads lc reader clock own 0 threads s of
        (Inl e, s') \<Rightarrow> (Inl e, s')
      | (Inr ds, s') \<Rightarrow> (Inr \<lparr>rs_threadsChecked = length threads, rs_repliesApplied = ds\<rparr>, s'))"

section \<open>What a promotion run writes\<close>

definition promo_rel :: "outreach_db \<Rightarrow> outreach_db \<Rightarrow> bool" where
  "promo_rel s s' \<longleftrightarrow> t_followups s' = t_followups s \<and> t_messages s' = t_messages s
     \<and> t_replies s' = t_replies s \<and> t_deliveries s' = t_deliveries s
     \<and> (\<forall>k. core s' k = core s k \<or> (\<exists>st d. core s k = Some (statusBeforeFollowupDue st, d)
          \<and> core s' k = Some (followupDueStatus st, d)))"

lemma promo_rel_refl [simp]: "promo_rel s s"
  by (simp add: promo_rel_def)

lemma promo_rel_trans: "promo_rel s t \<Longrightarrow> promo_rel t u \<Longrightarrow> promo_rel s u"
  unfolding promo_rel_def by (metis before_due_not_due option.inject prod.inject)

lemma promotable_iff:
  "promotable s now i st \<longleftrightarrow>
     (\<exists>f. find (\<lambda>f. of_id f = pi_followupId i) (t_followups s) = Some f
        \<and> of_recordId f = pi_recordId i \<and> of_step f = step_num st \<and> of_status f = DUE
        \<and> of_dueAt f \<le> now \<and> core s (pi_recordId i) = Some (statusBeforeFollowupDue st, False))"
proof (cases "find (\<lambda>f. of_id f = pi_followupId i) (t_followups s)")
  case None
  then show ?thesis by (simp add: promotable_def)
next
  case (Some f)
  then show ?thesis
    by (cases "rec_of s (pi_recordId i)") (auto simp: promotable_def core_def)
qed

text \<open>A promotion moves the status of one record from before the step to due, and touches no other
  table than the records and the events.\<close>

lemma promotion_write_rel:
  assumes "s1 = s\<lparr>t_records := update_where
       (\<lambda>r. or_id r = rid \<and> or_status r = statusBeforeFollowupDue st)
       (recordPatchToSet (empty_patch\<lparr>p_status := Some (followupDueStatus st)\<rparr>) n2) (t_records s)\<rparr>"
    and "core s rid = Some (statusBeforeFollowupDue st, d)"
  shows "core s1 = (core s)(rid \<mapsto> (followupDueStatus st, d))"
proof
  fix k
  have find: "rec_of s1 k = map_option (\<lambda>r. if or_id r = rid \<and> or_status r = statusBeforeFollowupDue st
      then recordPatchToSet (empty_patch\<lparr>p_status := Some (followupDueStatus st)\<rparr>) n2 r else r) (rec_of s k)"
    by (simp add: assms(1) rec_of_def find_update_where_keep)
  show "core s1 k = ((core s)(rid \<mapsto> (followupDueStatus st, d))) k"
  proof (cases "rec_of s k")
    case None
    then show ?thesis using find assms(2) by (auto simp: core_def)
  next
    case (Some r)
    then have "or_id r = k" by (rule rec_of_id)
    then show ?thesis
      using Some find assms(2) by (auto simp: core_def empty_patch_def)
  qed
qed

lemma promote_rel:
  assumes "promoteFollowupDue n1 n2 i s = Inr (res, s')"
  shows "promo_rel s s'"
proof (cases "\<exists>st. promotable s n1 i st")
  case False
  then show ?thesis
    using promote_idle [OF assms] by simp
next
  case True
  then obtain st where st: "promotable s n1 i st" by blast
  have c: "core s (pi_recordId i) = Some (statusBeforeFollowupDue st, False)"
    using st unfolding promotable_iff by blast
  obtain s1 f v where "pr_outcome res = PROMOTED" "pr_from res = Some (statusBeforeFollowupDue st)"
    "pr_to res = Some (followupDueStatus st)"
    and s1: "s1 = s\<lparr>t_records := update_where
       (\<lambda>r. or_id r = pi_recordId i \<and> or_status r = statusBeforeFollowupDue st)
       (recordPatchToSet (empty_patch\<lparr>p_status := Some (followupDueStatus st)\<rparr>) n2) (t_records s)\<rparr>"
    and ev: "emit (promoted_event i f st (statusBeforeFollowupDue st) (followupDueStatus st)) s1
      = Inr (v, s')"
    using assms st by (rule promote_write)
  have "t_followups s' = t_followups s1" "t_messages s' = t_messages s1"
    "t_replies s' = t_replies s1" "t_deliveries s' = t_deliveries s1"
    using ev by (auto simp: emit_def tx_simps store_simps)
  then have "t_followups s' = t_followups s" "t_messages s' = t_messages s"
    "t_replies s' = t_replies s" "t_deliveries s' = t_deliveries s"
    unfolding s1 by simp_all
  then show ?thesis
    unfolding promo_rel_def core_emit [OF ev] promotion_write_rel [OF s1 c] using c by auto
qed

lemma promote_moves:
  assumes "promoteFollowupDue n1 n2 i s = Inr (res, s')" and st: "promotable s n1 i st"
  shows "pr_outcome res = PROMOTED \<and> core s' = (core s)(pi_recordId i \<mapsto> (followupDueStatus st, False))"
proof -
  have c: "core s (pi_recordId i) = Some (statusBeforeFollowupDue st, False)"
    using st unfolding promotable_iff by blast
  obtain s1 f v where out: "pr_outcome res = PROMOTED" "pr_from res = Some (statusBeforeFollowupDue st)"
    "pr_to res = Some (followupDueStatus st)"
    and s1: "s1 = s\<lparr>t_records := update_where
       (\<lambda>r. or_id r = pi_recordId i \<and> or_status r = statusBeforeFollowupDue st)
       (recordPatchToSet (empty_patch\<lparr>p_status := Some (followupDueStatus st)\<rparr>) n2) (t_records s)\<rparr>"
    and ev: "emit (promoted_event i f st (statusBeforeFollowupDue st) (followupDueStatus st)) s1
      = Inr (v, s')"
    using assms by (rule promote_write)
  show ?thesis
    using out core_emit [OF ev] promotion_write_rel [OF s1 c] by simp
qed

section \<open>Promotion runs\<close>

lemma handle_promotion_rel:
  assumes "handle_promotion emsg clock dryRun actor k c s = (e, s')"
  shows "promo_rel s s'"
proof -
  have "promo_rel s s'" if "promote_effect dryRun actor n1 n2 c s = (x, s')" for n1 n2 x
    using that promote_rel
    by (auto simp: promote_effect_def run_tx_def split: if_splits sum.splits)
  then show ?thesis
    using assms unfolding handle_promotion_def
    by (auto simp del: append.simps split: promotion_action.splits prod.splits sum.splits if_splits)
qed

interpretation promo_run: runner "handle_promotion emsg clock dryRun actor" promo_rel
  for emsg clock dryRun actor
  by unfold_locales (use promo_rel_trans handle_promotion_rel in \<open>auto intro: promo_rel_refl\<close>)

lemma handle_promotion_dry:
  "handle_promotion emsg clock True actor k c s = (e, s') \<Longrightarrow> s' = s"
  unfolding handle_promotion_def promote_effect_def
  by (auto simp del: append.simps split: promotion_action.splits)

interpretation promo_dry: runner "handle_promotion emsg clock True actor" "\<lambda>s s'. s' = s"
  for emsg clock actor
  by unfold_locales (use handle_promotion_dry in auto)

lemma due_followups_length: "int (length (due_followups s now lim rid)) \<le> max 0 lim"
  by (simp add: due_followups_def)

lemma promotionCandidates_length: "int (length (promotionCandidates s now lim rid)) \<le> max 0 lim"
  using due_followups_length [of s now lim rid]
  by (auto simp: promotionCandidates_def dueRows_def max_def)

text \<open>An unattended promotion run handles every listed candidate once and lists at most
  \<^verbatim>\<open>maxPerRun\<close> of them; all it writes are status changes from the status before a step to that
  step's due status; and a dry run, or a run behind a closed gate, writes nothing.\<close>

theorem promotion_run_writes:
  "case runFollowupDuePromotion emsg clock now g maxPerRun recordId dryRun actor s of (rep, s') \<Rightarrow>
     length (rep_entries rep) = rep_considered rep \<and> int (rep_considered rep) \<le> max 0 maxPerRun
     \<and> (if \<not> dryRun \<and> followupPromotionEnabled g \<and> pg_outreachTrackingEnabled g
        then promo_rel s s' else s' = s)"
proof -
  obtain es s' where run: "run_items (handle_promotion emsg clock dryRun actor) 0
      (promotionCandidates s now maxPerRun recordId) s = (es, s')"
    by fastforce
  show ?thesis
    using promo_run.run_length [OF run] promo_run.run_R [OF run] run
      promotionCandidates_length [of s now maxPerRun recordId] promo_dry.run_R
    by (cases dryRun) (auto simp: runFollowupDuePromotion_def Let_def)
qed

section \<open>Running a promotion again\<close>

lemma promo_rel_before:
  assumes "promo_rel s t" and "core t k = Some (statusBeforeFollowupDue st, d)"
  shows "core s k = core t k"
  using assms unfolding promo_rel_def by (metis before_due_not_due option.inject prod.inject)

lemma promo_rel_records: "promo_rel s t \<Longrightarrow> (rec_of t k = None) = (rec_of s k = None)"
proof -
  assume "promo_rel s t"
  then have "(core t k = None) = (core s k = None)"
    unfolding promo_rel_def by (metis option.distinct(1))
  then show ?thesis by (simp add: core_def)
qed

lemma promo_rel_due: "promo_rel s t \<Longrightarrow> due_followups t now lim rid = due_followups s now lim rid"
  using promo_rel_records [of s t] by (simp add: due_followups_def promo_rel_def)

lemma due_followups_sound:
  assumes "f \<in> set (due_followups s now lim rid)"
  shows "f \<in> set (t_followups s) \<and> of_status f = DUE \<and> of_dueAt f \<le> now
    \<and> rec_of s (of_recordId f) \<noteq> None"
  using assms by (auto simp: due_followups_def dest: in_set_takeD)

text \<open>The snapshot the worklist takes of a due row.\<close>

definition candidate_of :: "outreach_db \<Rightarrow> outreach_followup \<Rightarrow> promotion_candidate" where
  "candidate_of s f = promotion_snapshot f (of_recordId f) (rec_of s (of_recordId f))"

lemma promotionCandidates_map:
  "promotionCandidates s now lim rid =
     (if lim \<le> 0 then [] else map (candidate_of s) (due_followups s now lim rid))"
proof -
  have "case_prod (\<lambda>f r. \<lparr>pc_followupId = of_id f, pc_outreachRecordId = or_id r, pc_leadId = or_leadId r,
      pc_step = of_step f, pc_followupStatus = of_status f, pc_dueAtMs = of_dueAt f,
      pc_recordStatus = Some (or_status r), pc_doNotContact = or_doNotContact r\<rparr>)
      (f, the (rec_of s (of_recordId f))) = candidate_of s f"
    if f: "f \<in> set (due_followups s now lim rid)" for f
  proof -
    obtain r where "rec_of s (of_recordId f) = Some r"
      using due_followups_sound [OF f] by auto
    then show ?thesis
      using rec_of_id [of s "of_recordId f" r] by (simp add: candidate_of_def promotion_snapshot_def)
  qed
  then show ?thesis
    by (simp add: promotionCandidates_def dueRows_def comp_def)
qed

lemma candidate_PROMOTE:
  assumes "f \<in> set (due_followups s now lim rid)"
  shows "decideFollowupPromotion (candidate_of s f) t = PROMOTE st a b \<longleftrightarrow>
    of_step f = step_num st \<and> of_dueAt f \<le> t \<and> core s (of_recordId f) = Some (statusBeforeFollowupDue st, False)
    \<and> a = statusBeforeFollowupDue st \<and> b = followupDueStatus st"
proof -
  obtain r where "rec_of s (of_recordId f) = Some r"
    using due_followups_sound [OF assms] by auto
  then show ?thesis
    using due_followups_sound [OF assms]
    by (auto simp: decideFollowupPromotion_PROMOTE candidate_of_def promotion_snapshot_def core_def)
qed

lemma find_followup:
  "followups_ok fs \<Longrightarrow> f \<in> set fs \<Longrightarrow> find (\<lambda>x. of_id x = of_id f) fs = Some f"
  by (induction fs) (auto simp: followups_ok_def split: if_splits)

lemma handle_promotes:
  assumes f: "f \<in> set (due_followups s now lim rid)" and ok: "followups_ok (t_followups s)"
    and rel: "promo_rel s t" and clock: "\<And>j. now \<le> clock k j"
    and st: "of_step f = step_num st"
    and here: "core s (of_recordId f) = Some (statusBeforeFollowupDue st, False)"
      "core t (of_recordId f) = Some (statusBeforeFollowupDue st, False)"
    and run: "handle_promotion emsg clock False actor k (candidate_of s f) t = (e, t')"
  shows "fst e = B_failures \<or> core t' (of_recordId f) = Some (followupDueStatus st, False)"
proof -
  let ?i = "\<lparr>pi_followupId = of_id f, pi_recordId = of_recordId f, pi_actor = actor\<rparr>"
  have due: "f \<in> set (t_followups s)" "of_status f = DUE" "of_dueAt f \<le> clock k j" for j
    using due_followups_sound [OF f] clock [of j] by auto
  have "decideFollowupPromotion (candidate_of s f) (clock k 0) =
      PROMOTE st (statusBeforeFollowupDue st) (followupDueStatus st)"
    unfolding candidate_PROMOTE [OF f] using st here(1) due(3) by simp
  moreover have "promotable t (clock k 1) ?i st"
    using find_followup [OF ok due(1)] rel st due here(2)
    by (auto simp: promotable_iff promo_rel_def)
  moreover have "pc_followupId (candidate_of s f) = of_id f"
    "pc_outreachRecordId (candidate_of s f) = of_recordId f"
    by (simp_all add: candidate_of_def promotion_snapshot_def)
  ultimately show ?thesis
    using run promote_moves [of "clock k 1" "clock k 2" ?i t _ _ st]
    by (cases "promoteFollowupDue (clock k 1) (clock k 2) ?i t")
      (auto simp: handle_promotion_def promote_effect_def run_tx_def simp del: append.simps)
qed

lemma run_items_idle:
  assumes "\<And>k c. c \<in> set cs \<Longrightarrow> \<exists>e. handle k c s = (e, s) \<and> P e"
  shows "\<exists>es. run_items handle k cs s = (es, s) \<and> list_all P es"
  using assms
proof (induction cs arbitrary: k)
  case Nil
  then show ?case by simp
next
  case (Cons c cs)
  obtain e where "handle k c s = (e, s)" "P e"
    using Cons.prems [of c k] by auto
  moreover obtain es where "run_items handle (Suc k) cs s = (es, s)" "list_all P es"
    using Cons.IH [of "Suc k"] Cons.prems by auto
  ultimately show ?case by simp
qed

lemma promotion_settles:
  assumes run: "run_items (handle_promotion emsg clock False actor) 0
      (map (candidate_of s) (due_followups s now lim rid)) s = (es, s')"
    and good: "in_bucket B_failures es = []" and ok: "followups_ok (t_followups s)"
    and clock: "\<And>i j. now \<le> clock i j" and f: "f \<in> set (due_followups s now lim rid)"
  shows "decideFollowupPromotion (candidate_of s' f) t \<noteq> PROMOTE st a b"
proof
  have rel: "promo_rel s s'" by (rule promo_run.run_R [OF run])
  then have f': "f \<in> set (due_followups s' now lim rid)"
    using f by (simp add: promo_rel_due)
  assume "decideFollowupPromotion (candidate_of s' f) t = PROMOTE st a b"
  then have st: "of_step f = step_num st"
    and here: "core s' (of_recordId f) = Some (statusBeforeFollowupDue st, False)"
    unfolding candidate_PROMOTE [OF f'] by simp_all
  obtain i where i: "i < length (due_followups s now lim rid)" "due_followups s now lim rid ! i = f"
    using f by (metis in_set_conv_nth)
  then obtain u u' where u: "promo_rel s u" "promo_rel u' s'"
    "handle_promotion emsg clock False actor i (candidate_of s f) u = (es ! i, u')"
    using promo_run.run_entry [OF run, of i] by auto
  have at: "core u' (of_recordId f) = Some (statusBeforeFollowupDue st, False)"
    using promo_rel_before [OF u(2) here] here by simp
  then have "core u (of_recordId f) = Some (statusBeforeFollowupDue st, False)"
    using promo_rel_before [OF handle_promotion_rel [OF u(3)] at] by simp
  then have "fst (es ! i) = B_failures"
    using handle_promotes [OF f ok u(1) clock st _ _ u(3)] at
      promo_rel_before [OF rel here] here by auto
  moreover have "es ! i \<in> set es"
    using i promo_run.run_length [OF run] by (intro nth_mem) simp
  ultimately show False
    using good by (auto simp: in_bucket_def filter_empty_conv)
qed

lemma handle_no_promote:
  assumes "\<And>st a b. decideFollowupPromotion c (clock k 0) \<noteq> PROMOTE st a b"
  shows "\<exists>e. handle_promotion emsg clock dryRun actor k c s = (e, s) \<and> fst e \<noteq> B_promoted \<and> fst e \<noteq> B_failures"
  using assms unfolding handle_promotion_def
  by (auto simp del: append.simps split: promotion_action.splits)

text \<open>A promotion run that met no failure leaves nothing to promote: running it again with the
  same listing time and limit, at any later clock, promotes nothing, fails nowhere and leaves the
  database exactly as it is. Due rows stay listed (a promotion does not touch them), and the second
  run reports every one of them without acting on it.\<close>

theorem promotion_run_idempotent:
  assumes "runFollowupDuePromotion emsg clock now g lim rid False actor s = (rep, s')"
    and "in_bucket B_failures (rep_entries rep) = []"
    and "tables_ok s" and "\<And>i j. now \<le> clock i j"
  shows "\<exists>rep'. runFollowupDuePromotion emsg clock' now g lim rid False actor s' = (rep', s')
    \<and> rep_considered rep' = rep_considered rep
    \<and> in_bucket B_promoted (rep_entries rep') = [] \<and> in_bucket B_failures (rep_entries rep') = []"
proof (cases "followupPromotionEnabled g \<and> pg_outreachTrackingEnabled g \<and> lim > 0")
  case False
  then show ?thesis
    using assms(1)
    by (auto simp: runFollowupDuePromotion_def promotionCandidates_map in_bucket_def Let_def split: if_splits)
next
  case True
  let ?due = "due_followups s now lim rid"
  have run: "run_items (handle_promotion emsg clock False actor) 0 (map (candidate_of s) ?due) s
      = (rep_entries rep, s')" and n: "rep_considered rep = length ?due"
    using assms(1) True
    by (auto simp: runFollowupDuePromotion_def promotionCandidates_map Let_def split: prod.splits)
  have due: "due_followups s' now lim rid = ?due"
    by (rule promo_rel_due [OF promo_run.run_R [OF run]])
  have idle: "\<exists>e. handle_promotion emsg clock' False actor k c s' = (e, s')
      \<and> (fst e \<noteq> B_promoted \<and> fst e \<noteq> B_failures)" if "c \<in> set (map (candidate_of s') ?due)" for k c
    using that promotion_settles [OF run assms(2) _ assms(4)] assms(3) handle_no_promote
    by (fastforce simp: tables_ok_def)
  obtain es where "run_items (handle_promotion emsg clock' False actor) 0 (map (candidate_of s') ?due) s'
      = (es, s')" "list_all (\<lambda>e. fst e \<noteq> B_promoted \<and> fst e \<noteq> B_failures) es"
    using run_items_idle [of "map (candidate_of s') ?due" "handle_promotion emsg clock' False actor" s'
        "\<lambda>e. fst e \<noteq> B_promoted \<and> fst e \<noteq> B_failures" 0] idle by blast
  then show ?thesis
    using True n due
    by (auto simp: runFollowupDuePromotion_def promotionCandidates_map Let_def in_bucket_def
        filter_empty_conv list_all_iff)
qed

definition demo_gates :: promotion_gates where
  "demo_gates = \<lparr>followupPromotionEnabled = True, pg_outreachTrackingEnabled = True\<rparr>"

abbreviation demo_run :: "outreach_db \<Rightarrow> promo_report \<times> outreach_db" where
  "demo_run \<equiv> runFollowupDuePromotion (\<lambda>_. []) (\<lambda>_ _. 1000000001) 1000000000 demo_gates 5 None False ''cron''"

lemma demo_run_promotes:
  "(case demo_run (run_cmds demo_exec demo_sent demo_db) of
      (rep, s') \<Rightarrow> (map fst (rep_entries rep), map or_status (t_records s')))
   = ([B_promoted], [FOLLOW_UP_1_DUE])"
  by code_simp

theorem promotion_run_idempotent_witness:
  "case demo_run (run_cmds demo_exec demo_sent demo_db) of
     (rep, s') \<Rightarrow> length (in_bucket B_promoted (rep_entries rep)) = 1 \<and> snd (demo_run s') = s'"
proof -
  obtain rep s' where run: "demo_run (run_cmds demo_exec demo_sent demo_db) = (rep, s')"
    by fastforce
  have es: "map fst (rep_entries rep) = [B_promoted]"
    using demo_run_promotes run by simp
  then have "in_bucket B_failures (rep_entries rep) = []" "length (in_bucket B_promoted (rep_entries rep)) = 1"
    by (auto simp: in_bucket_def)
  moreover have "tables_ok (run_cmds demo_exec demo_sent demo_db)"
    using outreach_run_inv [OF demo_fresh, of demo_intl demo_sha demo_sent] by (simp add: outreach_inv_def)
  ultimately show ?thesis
    using promotion_run_idempotent [OF run, of "\<lambda>_ _. 1000000001"] by (auto simp: run)
qed

section \<open>Preparation and progression runs\<close>

text \<open>A preparation run writes at most cancellations: no record changes its status or its
  do-not-contact flag, no row becomes pending, no message or reply is touched.\<close>

definition only_cancels :: "outreach_db \<Rightarrow> outreach_db \<Rightarrow> bool" where
  "only_cancels s s' \<longleftrightarrow> core s' = core s \<and> (\<forall>k. pend s' k \<subseteq> pend s k)
     \<and> t_messages s' = t_messages s \<and> t_replies s' = t_replies s"

lemma only_cancels_refl [simp]: "only_cancels s s"
  by (simp add: only_cancels_def)

lemma only_cancels_trans: "only_cancels s t \<Longrightarrow> only_cancels t u \<Longrightarrow> only_cancels s u"
  unfolding only_cancels_def by (metis subset_trans)

lemma cancelFollowup_rel:
  assumes "cancelFollowup now fid rid reason s = Inr (x, s')"
  shows "only_cancels s s'"
proof -
  obtain s1 s2 u v where a: "updateFollowupStatus fid CANCELLED (Some reason) now s = Inr (u, s1)"
    and b: "updateRecord rid (empty_patch\<lparr>p_nextFollowupAt := Some None\<rparr>) now s1 = Inr (v, s2)"
    and ev: "emit (operator_cancelled_event fid rid reason) s2 = Inr (x, s')"
    using assms unfolding cancelFollowup_def by (auto simp: tx_simps)
  have tables: "t_messages s' = t_messages s" "t_replies s' = t_replies s"
    using a b ev by (auto simp: emit_def tx_simps store_simps)
  have "invisible s1 s2" "invisible s2 s'"
    using invisible_updateRecord [OF b] invisible_emit [OF ev]
    by (simp_all add: empty_patch_def operator_cancelled_event_def)
  then show ?thesis
    using core_followup(1) [OF a] pend_close [OF a] tables
    by (auto simp: only_cancels_def invisible_def)
qed

lemma handle_preparation_rel:
  assumes "handle_preparation emsg clock dryRun compose k c s = (e, s')"
  shows "only_cancels s s'"
proof -
  have "only_cancels s s'" if "run_tx (cancelFollowup now fid rid reason) s = (x, s')" for now fid rid reason x
    using that cancelFollowup_rel by (auto simp: run_tx_def split: sum.splits)
  then show ?thesis
    using assms unfolding handle_preparation_def
    by (auto simp del: append.simps split: prepare_action.splits prod.splits sum.splits if_splits)
qed

interpretation prep_run: runner "handle_preparation emsg clock dryRun compose" only_cancels
  for emsg clock dryRun compose
  by unfold_locales (use only_cancels_trans handle_preparation_rel in \<open>auto intro: only_cancels_refl\<close>)

lemma handle_preparation_dry:
  "handle_preparation emsg clock True compose k c s = (e, s') \<Longrightarrow> s' = s"
  unfolding handle_preparation_def
  by (auto simp del: append.simps split: prepare_action.splits prod.splits sum.splits if_splits)

interpretation prep_dry: runner "handle_preparation emsg clock True compose" "\<lambda>s s'. s' = s"
  for emsg clock compose
  by unfold_locales (use handle_preparation_dry in auto)

text \<open>An unattended preparation run changes no outreach record's status, sends nothing and
  makes no follow-up pending: all it writes itself is the cancellation of rows whose copy a human
  rejected. In a dry run, behind a closed gate or after a failed preflight it writes nothing.\<close>

theorem preparation_run_writes:
  "case runFollowupPreparation emsg clock now g preflight maxPerRun recordId dryRun draft_of lead_status_of
      compose s of (res, s') \<Rightarrow>
     if \<not> dryRun \<and> followupPreparationEnabled g \<and> prg_outreachTrackingEnabled g
       \<and> emailGenerationEnabled g \<and> \<not> isl preflight
     then only_cancels s s' else s' = s"
proof -
  obtain es s' where run: "run_items (handle_preparation emsg clock dryRun compose) 0
      (dueCandidates draft_of lead_status_of s now maxPerRun recordId) s = (es, s')"
    by fastforce
  show ?thesis
    using prep_run.run_R [OF run] run prep_dry.run_R
    by (cases dryRun; cases preflight) (auto simp: runFollowupPreparation_def Let_def)
qed

text \<open>Copy is composed for a due row exactly when it is a follow-up step, the record is in that
  step's due status and not marked do-not-contact, no draft stands in the way (none exists, or the
  one that exists was rejected before this row was created) and the lead is back at \<^verbatim>\<open>SENT\<close>.\<close>

theorem preparation_decision:
  "decideFollowupPreparation c = COMPOSE st \<longleftrightarrow>
     fc_step c = step_num st \<and> fc_recordStatus c = Some (followupDueStatus st) \<and> \<not> fc_doNotContact c
     \<and> (fc_existingDraft c = None \<or> rejection_superseded c) \<and> fc_leadStatus c = ''SENT''"
proof (cases "fc_step c" rule: to_followup_step_cases)
  case (step st')
  let ?snap = "\<lparr>snap_status = fc_recordStatus c, snap_doNotContact = fc_doNotContact c, preparedStep = st'\<rparr>"
  show ?thesis
  proof (cases "checkFollowupSendAllowed ?snap")
    case (SendAllowed s)
    then have "s = st'" "fc_recordStatus c = Some (followupDueStatus st')" "\<not> fc_doNotContact c"
      unfolding checkFollowupSendAllowed_iff by simp_all
    then show ?thesis
      unfolding decideFollowupPreparation_def step using SendAllowed
      by (auto simp: rejection_superseded_def simp del: append.simps split: option.splits if_splits)
  next
    case (SendDenied r d)
    then have "\<not> (fc_recordStatus c = Some (followupDueStatus st') \<and> \<not> fc_doNotContact c)"
      using checkFollowupSendAllowed_iff [of ?snap st'] by simp
    then show ?thesis
      unfolding decideFollowupPreparation_def step using SendDenied by (auto simp del: append.simps)
  qed
next
  case none
  then show ?thesis
    by (auto simp: decideFollowupPreparation_def simp del: append.simps)
qed

text \<open>The stages a progression run executes: those decided for some candidate.\<close>

definition decided_stage ::
  "(progression_stage \<Rightarrow> progression_candidate \<Rightarrow> 'w \<Rightarrow> (app_error + (bool \<times> string)) \<times> 'w)
   \<Rightarrow> 'w \<Rightarrow> 'w \<Rightarrow> bool" where
  "decided_stage stage w w' \<longleftrightarrow>
     (\<exists>st c step. decideProgression c = ADVANCE st step \<and> w' = snd (stage st c w))"

lemma handle_progression_stage:
  assumes "handle_progression emsg stage k c w = (e, w')"
  shows "(decided_stage stage)\<^sup>*\<^sup>* w w'"
proof (cases "decideProgression c")
  case (ADVANCE st step)
  then have "w' = snd (stage st c w)"
    using assms by (auto simp: handle_progression_def simp del: append.simps split: prod.splits sum.splits)
  then have "decided_stage stage w w'"
    unfolding decided_stage_def using ADVANCE by blast
  then show ?thesis by blast
qed (use assms in \<open>auto simp: handle_progression_def simp del: append.simps\<close>)

interpretation progression_run: runner "handle_progression emsg stage" "(decided_stage stage)\<^sup>*\<^sup>*"
  for emsg stage
  by unfold_locales (use handle_progression_stage in auto)

text \<open>An approved follow-up advances by exactly the stage its lead is at: finalising or
  drafting while \<^verbatim>\<open>HUMAN_APPROVED\<close>, scheduling while \<^verbatim>\<open>DRAFT_CREATED\<close>; and nothing advances
  unless a human approved that copy, the record still waits for exactly that step, the contact is
  not marked do-not-contact and no schedule is active.\<close>

theorem progression_decision:
  "decideProgression c = ADVANCE stage st \<longleftrightarrow>
     gc_sequenceStep c = step_num st \<and> gc_humanDecision c = Some ''APPROVED''
     \<and> gc_recordStatus c = Some (followupDueStatus st) \<and> \<not> gc_doNotContact c \<and> \<not> gc_hasActiveSchedule c
     \<and> (gc_leadStatus c = ''HUMAN_APPROVED''
          \<and> stage = (if gc_hasFinalization c then CREATE_GMAIL_DRAFT else FINALIZE)
        \<or> gc_leadStatus c = ''DRAFT_CREATED'' \<and> stage = SCHEDULE_STAGE)"
proof (cases "gc_sequenceStep c" rule: to_followup_step_cases)
  case (step st')
  let ?snap = "\<lparr>snap_status = gc_recordStatus c, snap_doNotContact = gc_doNotContact c, preparedStep = st'\<rparr>"
  show ?thesis
  proof (cases "checkFollowupSendAllowed ?snap")
    case (SendAllowed s)
    then have "s = st'" "gc_recordStatus c = Some (followupDueStatus st')" "\<not> gc_doNotContact c"
      unfolding checkFollowupSendAllowed_iff by simp_all
    then show ?thesis
      unfolding decideProgression_def step using SendAllowed by (auto simp del: append.simps)
  next
    case (SendDenied r d)
    then have "\<not> (gc_recordStatus c = Some (followupDueStatus st') \<and> \<not> gc_doNotContact c)"
      using checkFollowupSendAllowed_iff [of ?snap st'] by simp
    then show ?thesis
      unfolding decideProgression_def step using SendDenied by (auto simp del: append.simps)
  qed
next
  case none
  then show ?thesis
    by (auto simp: decideProgression_def simp del: append.simps)
qed

text \<open>Whatever the listed candidates are, a progression run changes the shared state only by
  stages that were decided, and reports every candidate once; behind a closed gate it executes no
  stage.\<close>

theorem progression_run_stages:
  "case runFollowupProgression emsg g candidates stage w of (rep, w') \<Rightarrow>
     length (prog_entries rep) = prog_considered rep
     \<and> (if followupProgressionEnabled g \<and> prog_outreachTrackingEnabled g
        then prog_considered rep = length candidates \<and> (decided_stage stage)\<^sup>*\<^sup>* w w'
        else w' = w)"
proof -
  obtain es w' where run: "run_items (handle_progression emsg stage) 0 candidates w = (es, w')"
    by fastforce
  show ?thesis
    using progression_run.run_length [OF run] progression_run.run_R [OF run] run
    by (simp add: runFollowupProgression_def)
qed

end
