(* ===== verification/Outreach_Effects.thy ===== *)
theory Outreach_Effects
  imports Outreach_Operations
begin

text \<open>
  What the follow-up bridge, the reply handling and the operator's postponement leave behind.
\<close>

section \<open>The follow-up bridge\<close>

lemma insert_next_cases:
  assumes "insert_next_followup intl now i rec nxt s = Inr (nf, s')"
  shows "(nxt = None \<longrightarrow> nf = None \<and> s' = s)
    \<and> (\<forall>st. nxt = Some st \<longrightarrow> (\<exists>f. nf = Some f \<and> of_step f = step_num st \<and> of_status f = DUE
         \<and> of_recordId f = or_id rec \<and> f \<in> set (t_followups s')
         \<and> length (t_followups s') = Suc (length (t_followups s))))"
  using assms
  by (cases nxt) (auto simp: insert_next_followup_def Let_def tx_simps store_simps new_followup_def)

lemma keeps_followups:
  "emit e s = Inr (u, s') \<Longrightarrow> t_followups s' = t_followups s"
  "updateRecord rid p now s = Inr (u, s') \<Longrightarrow> t_followups s' = t_followups s"
  "insertMessage m s = Inr (u, s') \<Longrightarrow> t_followups s' = t_followups s"
  "randomUUID s = Inr (x, s') \<Longrightarrow> t_followups s' = t_followups s"
  by (auto simp: emit_def tx_simps store_simps)

lemma mark_sent_length: "mark_sent sf now s = Inr (u, s') \<Longrightarrow> length (t_followups s') = length (t_followups s)"
  by (cases sf) (auto simp: mark_sent_def store_simps)

text \<open>Enrolling a confirmed follow-up of step \<open>st\<close> moves the record from that step's due
  status to its sent status, with the step number and the sent time recorded; if there is a next
  step its row is stored as due and is the record's next follow-up, and after the final step no row
  is added and the next follow-up time is cleared.\<close>

theorem followup_bridge_effect:
  assumes "enrollConfirmedFollowup intl sha256 now i st s = Inr (res, s')"
    and "ef_outcome res = ENROLLED"
  shows "rec_of s' (ei_recordId i) = Some (ef_record res)
    \<and> map_option or_status (rec_of s (ei_recordId i)) = Some (followupDueStatus st)
    \<and> or_status (ef_record res) = followupSentStatus st
    \<and> or_sequenceStep (ef_record res) = step_num st
    \<and> or_lastSentAt (ef_record res) = Some (ei_sentAt i)
    \<and> (case nextFollowupStep st of
         None \<Rightarrow> ef_nextFollowup res = None \<and> or_nextFollowupAt (ef_record res) = None
           \<and> length (t_followups s') = length (t_followups s)
       | Some n \<Rightarrow> (\<exists>f \<in> set (t_followups s'). ef_nextFollowup res = Some f \<and> of_step f = step_num n
           \<and> of_status f = DUE \<and> or_nextFollowupAt (ef_record res) = Some (of_dueAt f)))"
proof -
  obtain rec s0 s1 s2 s3 s4 s5 s6 uid m u v w y z q sf nf
    where r: "rec_of s (ei_recordId i) = Some rec"
    and st: "or_status rec = followupDueStatus st"
    and uid: "randomUUID s = Inr (uid, s0)"
    and ins: "insertMessage m s0 = Inr (u, s1)"
    and ev1: "emit (followup_enrolled_event m i) s1 = Inr (v, s2)"
    and sent: "mark_sent sf now s2 = Inr (w, s3)"
    and ev2: "emit (followup_hop_event (or_id rec) st (ei_sendAttemptId i)) s3 = Inr (y, s4)"
    and nxt: "insert_next_followup intl now i rec (nextFollowupStep st) s4 = Inr (nf, s5)"
    and upd: "updateRecord (or_id rec) (sent_patch (followupSentStatus st) (ei_sentAt i)
      (step_num st) (map_option of_dueAt nf)) now s5 = Inr (z, s6)"
    and ev3: "emit (enroll_closing_event (or_id rec) st nf) s6 = Inr (q, s')"
    and res: "ef_record res = recordPatchToSet (sent_patch (followupSentStatus st) (ei_sentAt i)
      (step_num st) (map_option of_dueAt nf)) now rec" "ef_nextFollowup res = nf"
    using assms unfolding enrollConfirmedFollowup_def Let_def findMessageByGmailMessageId_def
    by (auto simp: tx_simps require_eq_Inr pendingFollowups_eq_Inr pendingFollowupStep_iff
        enroll_nothing_def split: if_splits option.splits)
  have rid: "or_id rec = ei_recordId i"
    using rec_of_id [OF r] .
  have "rec_of s5 (ei_recordId i) = Some rec"
  proof -
    have "t_records s5 = t_records s4"
      using nxt by (cases "nextFollowupStep st")
        (auto simp: insert_next_followup_def Let_def tx_simps store_simps)
    moreover have "t_records s3 = t_records s2"
      using sent by (cases sf) (auto simp: mark_sent_def store_simps)
    moreover have "t_records s2 = t_records s"
      using uid ins ev1 by (auto simp: emit_def tx_simps store_simps)
    ultimately show ?thesis
      using r rec_of_emit [OF ev2] by (simp add: rec_of_def fun_eq_iff)
  qed
  then have rec': "rec_of s' (ei_recordId i) = Some (ef_record res)"
    using rec_of_updateRecord [OF upd] rec_of_emit [OF ev3] rid res by simp
  have fol: "t_followups s' = t_followups s5" "length (t_followups s4) = length (t_followups s)"
    using keeps_followups(1) [OF ev3] keeps_followups(2) [OF upd] keeps_followups(1) [OF ev2]
      mark_sent_length [OF sent] keeps_followups(1) [OF ev1] keeps_followups(3) [OF ins]
      keeps_followups(4) [OF uid] by simp_all
  have patch: "or_status (ef_record res) = followupSentStatus st"
    "or_sequenceStep (ef_record res) = step_num st"
    "or_lastSentAt (ef_record res) = Some (ei_sentAt i)"
    "or_nextFollowupAt (ef_record res) = map_option of_dueAt nf"
    by (simp_all add: res(1) sent_patch_def empty_patch_def recordPatchToSet_def)
  show ?thesis
    using rec' r st patch insert_next_cases [OF nxt] fol res(2)
    by (auto split: option.splits)
qed

definition demo_due :: "outreach_cmd list" where
  "demo_due = demo_sent @ [PromoteDue 1000000000 1000000000 demo_promote]"

lemma demo_followup_ok:
  obtains res s' where
    "enrollConfirmedFollowup demo_intl demo_sha 2 (demo_enroll ''g1'' 1000000001) Step1
       (run_cmds demo_exec demo_due demo_db) = Inr (res, s')" "ef_outcome res = ENROLLED"
proof -
  have "map_sum id (\<lambda>(res, s'). ef_outcome res)
      (enrollConfirmedFollowup demo_intl demo_sha 2 (demo_enroll ''g1'' 1000000001) Step1
       (run_cmds demo_exec demo_due demo_db)) = Inr ENROLLED"
    by code_simp
  then show ?thesis
    using that by (cases "enrollConfirmedFollowup demo_intl demo_sha 2 (demo_enroll ''g1'' 1000000001)
      Step1 (run_cmds demo_exec demo_due demo_db)") auto
qed

theorem followup_bridge_effect_witness:
  "\<exists>(res :: enroll_followup_result) s'. rec_of s' [] = Some (ef_record res) \<and> or_status (ef_record res) = FOLLOW_UP_1_SENT"
proof -
  obtain res s' where run:
    "enrollConfirmedFollowup demo_intl demo_sha 2 (demo_enroll ''g1'' 1000000001) Step1
       (run_cmds demo_exec demo_due demo_db) = Inr (res, s')" "ef_outcome res = ENROLLED"
    by (rule demo_followup_ok)
  have "ei_recordId (demo_enroll ''g1'' 1000000001) = []"
    by (simp add: demo_enroll_def)
  then have "rec_of s' [] = Some (ef_record res)" "or_status (ef_record res) = FOLLOW_UP_1_SENT"
    using followup_bridge_effect [OF run] by simp_all
  then show ?thesis by blast
qed

section \<open>Replies\<close>

definition same_replies :: "outreach_db \<Rightarrow> outreach_db \<Rightarrow> bool" where
  "same_replies s s' \<longleftrightarrow> t_replies s' = t_replies s"

interpretation replies_kept: frame same_replies
  by unfold_locales (auto simp: same_replies_def)

lemma same_replies_stmts:
  "ensures same_replies (updateFollowupStatus fid st r n)"
  "ensures same_replies (updateRecord rid p n)"
  "ensures same_replies (emit e)"
  by (rule ensuresI, auto simp: emit_def tx_simps store_simps same_replies_def)+

lemma same_replies_cancel: "ensures same_replies (cancelPending rid reason now)"
  unfolding cancelPending_def pendingFollowups_def
  by (intro replies_kept.ensures_bind replies_kept.ensures_get replies_kept.ensures_for
      replies_kept.ensures_then same_replies_stmts)

text \<open>Applying a detected reply stores exactly one reply row, whatever the status; moves the
  record to the classified status when that hop is legal and leaves its status alone otherwise; and
  in either case leaves no pending follow-up row. An unsubscribe that is applied sets
  do-not-contact.\<close>

theorem reply_effect:
  assumes "applyReply now i s = Inr (x, s')" and "rec_of s (ar_recordId i) = Some rec"
  shows "(\<exists>uid. t_replies s' = t_replies s @ [reply_row uid i]) \<and> pend s' (ar_recordId i) = {}
    \<and> core s' (ar_recordId i) =
        (let t = classificationToStatus (ar_classification i) in
         if canOutreachTransition (or_status rec) t
         then Some (t, or_doNotContact rec \<or> t = UNSUBSCRIBED)
         else Some (or_status rec, or_doNotContact rec))"
proof -
  let ?rid = "ar_recordId i" and ?t = "classificationToStatus (ar_classification i)"
  let ?mid = "if canOutreachTransition (or_status rec) ?t
        then then_tx (updateRecord ?rid (reply_patch i) now) (emit (reply_hop_event i (or_status rec) ?t))
        else updateRecord ?rid (reply_metadata_patch i) now"
  obtain uid s0 s1 s2 s3 u v w y where
    uid: "randomUUID s = Inr (uid, s0)"
    and ins: "insertReply (reply_row uid i) s0 = Inr (u, s1)"
    and mid: "?mid s1 = Inr (v, s2)"
    and ev: "emit (reply_detected_event i) s2 = Inr (w, s3)"
    and canc: "cancelPending ?rid ''REPLY_DETECTED'' now s3 = Inr (y, s')"
    using assms unfolding applyReply_def Let_def
    by (auto simp: tx_simps require_eq_Inr split del: if_split)
  have kept: "ensures same_replies ?mid"
    by (intro replies_kept.ensures_if replies_kept.ensures_then same_replies_stmts)
  have "t_replies s' = t_replies s1"
    using ensuresD [OF kept mid] ensuresD [OF same_replies_stmts(3) ev]
      ensuresD [OF same_replies_cancel canc] by (simp add: same_replies_def)
  then have replies: "t_replies s' = t_replies s @ [reply_row uid i]"
    using uid ins by (simp add: store_simps)
  have s1: "core s1 = core s"
    using invisible_stmts(2) [OF ins] invisible_stmts(4) [OF uid] by (simp add: invisible_def)
  have "core s' = core s2"
    using cancelPending_views(1) [OF canc] core_emit [OF ev] by simp
  moreover have "core s2 ?rid = (if canOutreachTransition (or_status rec) ?t
      then Some (?t, or_doNotContact rec \<or> ?t = UNSUBSCRIBED) else core s ?rid)"
  proof (cases "canOutreachTransition (or_status rec) ?t")
    case True
    then obtain t a where upd: "updateRecord ?rid (reply_patch i) now s1 = Inr (a, t)"
      and ev: "emit (reply_hop_event i (or_status rec) ?t) t = Inr (v, s2)"
      using mid by (auto simp: tx_simps)
    show ?thesis
      using core_emit [OF ev] core_updateRecord [OF upd] s1 core_Some [OF assms(2)] True
      by (cases "ar_classification i")
        (simp_all add: reply_patch_fields suppresses_def)
  next
    case False
    then show ?thesis
      using mid invisible_updateRecord [of ?rid "reply_metadata_patch i" now s1 v s2] s1
      by (simp add: reply_metadata_patch_def empty_patch_def invisible_def)
  qed
  ultimately show ?thesis
    using replies cancelPending_views(4) [OF canc] core_Some [OF assms(2)] by (auto simp: Let_def)
qed

definition demo_reply :: apply_reply_input where
  "demo_reply = \<lparr>ar_recordId = [], ar_gmailThreadId = ''t'', ar_gmailMessageId = ''r'',
     ar_fromEmail = ''A@x.de'', ar_receivedAtMs = 7, ar_preview = ''Gerne'', ar_classification = positive\<rparr>"

theorem reply_effect_witness:
  "\<exists>s'. core s' [] = Some (REPLIED_POSITIVE, False) \<and> pend s' [] = {}"
proof -
  have "map_sum id (\<lambda>(x, s'). or_status x) (applyReply 3 demo_reply demo_tracked) = Inr REPLIED_POSITIVE"
    by code_simp
  then obtain x s' where run: "applyReply 3 demo_reply demo_tracked = Inr (x, s')"
    by (cases "applyReply 3 demo_reply demo_tracked") auto
  have "map (\<lambda>r. (or_id r, or_status r, or_doNotContact r)) (t_records demo_tracked) =
      [([], DRAFT_READY, False)]"
    by code_simp
  then obtain rec where r: "rec_of demo_tracked [] = Some rec" "or_status rec = DRAFT_READY"
    "\<not> or_doNotContact rec"
    by (cases "t_records demo_tracked") (auto simp: rec_of_def)
  have can: "canOutreachTransition (or_status rec) REPLIED_POSITIVE"
    unfolding r(2) by code_simp
  have i: "ar_recordId demo_reply = []" "ar_classification demo_reply = positive"
    by (simp_all add: demo_reply_def)
  show ?thesis
    using reply_effect [OF run, of rec] r can unfolding i Let_def by auto
qed

section \<open>Postponement\<close>

text \<open>The operator's postponement looks at neither the record nor the row: whatever the
  row's status was (also cancelled or already sent) and whatever the record's status is, a
  postponement that succeeds makes the row pending.\<close>

theorem postpone_makes_pending:
  assumes "postponeFollowup now fid rid due reason s = Inr (u, s')"
    and "f \<in> set (t_followups s)" and "of_id f = fid"
  shows "fid \<in> pend s' (of_recordId f)"
proof -
  obtain s1 s2 v w where a: "updateFollowupStatus fid POSTPONED (Some reason) now s = Inr (v, s1)"
    and b: "updateRecord rid (empty_patch\<lparr>p_nextFollowupAt := Some (Some due)\<rparr>) now s1 = Inr (w, s2)"
    and ev: "emit (postponed_event fid rid due reason) s2 = Inr (u, s')"
    using assms(1) unfolding postponeFollowup_def by (auto simp: tx_simps)
  have "set_followup POSTPONED (Some reason) now f \<in> set (t_followups s1)"
    using a assms(2,3) by (auto simp: store_simps set_update_where image_iff)
  then have "fid \<in> pend s1 (of_recordId f)"
    unfolding in_pend_iff using assms(3)
    by (intro bexI [of _ "set_followup POSTPONED (Some reason) now f"])
      (auto simp: is_pending_def)
  then show ?thesis
    using pend_emit [OF ev] pend_updateRecord [OF b] by simp
qed

definition demo_ended :: outreach_db where
  "demo_ended = run_cmds demo_exec (demo_sent @ [Transition 2 [] UNSUBSCRIBED None False]) demo_db"

theorem postpone_makes_pending_witness:
  "\<exists>s' f. of_status f = CANCELLED \<and> f \<in> set (t_followups demo_ended)
     \<and> map or_status (t_records demo_ended) = [UNSUBSCRIBED] \<and> of_id f \<in> pend s' (of_recordId f)"
proof -
  let ?fid = "replicate 7 CHR ''u''"
  have "map (\<lambda>f. (of_id f, of_status f)) (t_followups demo_ended) = [(?fid, CANCELLED)]"
    by code_simp
  then obtain f where f: "f \<in> set (t_followups demo_ended)" "of_id f = ?fid" "of_status f = CANCELLED"
    by (cases "t_followups demo_ended") auto
  have "map_sum id fst (postponeFollowup 9 ?fid [] 12 ''later'' demo_ended) = Inr ()"
    by code_simp
  then obtain s' where run: "postponeFollowup 9 ?fid [] 12 ''later'' demo_ended = Inr ((), s')"
    by (cases "postponeFollowup 9 ?fid [] 12 ''later'' demo_ended") auto
  have "map or_status (t_records demo_ended) = [UNSUBSCRIBED]"
    by code_simp
  then show ?thesis
    using postpone_makes_pending [OF run f(1,2)] f by metis
qed

end
