(* ===== verification/Core_Claims.thy ===== *)
theory Core_Claims
  imports Timezone Lead_Machine Replies Followups
begin

text \<open>
  The properties of the parts that keep no state: the calendar and the wall-clock conversion of
  \<^verbatim>\<open>schedule/timezone.ts\<close>, the lead lifecycle of \<^verbatim>\<open>leads/state-machine.ts\<close>, the follow-up
  send gate and the choice of the reply that is applied.
\<close>

section \<open>Dates and wall clocks\<close>



text \<open>In a zone whose offset changes once, forwards or not at all, every wall-clock time
  outside the gap is resolved to an instant at which the zone's clock shows exactly that time;
  inside the gap, where no such instant exists, the result lies after the transition exactly when
  the requested reading, taken as UTC, does: east of Greenwich after it, west of it before.\<close>

theorem wall_clock_resolution:
  assumes z: "zone_offset intl tz (step_offset T a b)" and ab: "a \<le> b"
    and day: "- 86400000 \<le> a" "b \<le> 86400000"
    and v: "valid_date y m d" "valid_time h mi 0" "1970 \<le> y"
    and naive: "naive = date_utc y (m - 1) d h mi 0"
  shows "\<exists>u. zonedWallClockToUtc intl tz y m d h mi = Inr u
    \<and> (if in_gap T a b naive then (T \<le> u \<longleftrightarrow> T \<le> naive)
       else utcToLocal intl tz u =
         Inr (\<lparr>lp_year = y, lp_month = m, lp_day = d, lp_hour = h, lp_minute = mi, lp_second = 0\<rparr>,
              iso_weekday (date_utc y (m - 1) d 0 0 0)))"
proof -
  let ?off = "step_offset T a b"
  have off: "- 86400000 \<le> ?off t" "?off t \<le> 86400000" for t
    using ab day by (auto simp: step_offset_def)
  have n: "0 \<le> naive"
    using naive_from_1970 [OF v] naive by simp
  have u: "zonedWallClockToUtc intl tz y m d h mi = Inr (naive - ?off (naive - ?off naive))"
    using off(1) [of naive] off(2) [of naive] off(1) [of "naive - ?off naive"] n
    by (intro zonedWallClockToUtc_zone [OF z naive] plain_year_from_1900) linarith+
  show ?thesis
  proof (cases "in_gap T a b naive")
    case True
    then show ?thesis
      using u by (auto simp: step_offset_def in_gap_def)
  next
    case False
    have "plain_year y" using v(3) by (simp add: plain_year_def)
    from utcToLocal_zonedWallClock [OF z naive v(1,2) this no_gap_fix [OF ab False]]
    show ?thesis using u False by simp
  qed
qed

lemma demo_numbers: "(3600000 :: int) \<le> 7200000" "- 86400000 \<le> (3600000 :: int)"
  "(7200000 :: int) \<le> 86400000" "(1970 :: int) \<le> 2025"
  by simp_all

theorem wall_clock_resolution_witness:
  "\<exists>u. zonedWallClockToUtc (one_zone ''X'' (step_offset 1743296400000 3600000 7200000)) ''X''
       2025 3 30 3 15 = Inr u"
proof -
  have "zone_offset (one_zone ''X'' (step_offset 1743296400000 3600000 7200000)) ''X''
      (step_offset 1743296400000 3600000 7200000)"
    by (rule one_zone_offset) (simp add: step_offset_def)
  moreover have "valid_date 2025 3 30" "valid_time 3 15 0"
    by code_simp+
  ultimately show ?thesis
    using wall_clock_resolution [of "one_zone ''X'' (step_offset 1743296400000 3600000 7200000)" "''X''"
        1743296400000 3600000 7200000 2025 3 30 3 15, OF _ _ _ _ _ _ _ refl]
    by (metis (no_types, lifting) demo_numbers)
qed

section \<open>The lead lifecycle\<close>



section \<open>Replies\<close>

text \<open>From the messages of a thread the detection takes a reply exactly when there is one that
  is new, came after the last outbound message and is not one of the operator's own; it takes the
  earliest such message, and whatever it is classified as, the status it leads to ends the
  sequence.\<close>

theorem detected_reply_earliest:
  assumes "collation lc"
  shows "case detectReply lc ms t own of
     None \<Rightarrow> (\<nexists>m. m \<in> set ms \<and> im_messageId m \<notin> set (tt_handledMessageIds t)
               \<and> genuine (tt_lastOutboundAtMs t) own m)
   | Some d \<Rightarrow> (\<exists>m. m \<in> set ms \<and> dr_messageId d = im_messageId m
         \<and> dr_messageId d \<notin> set (tt_handledMessageIds t) \<and> genuine (tt_lastOutboundAtMs t) own m
         \<and> dr_receivedAtMs d = im_receivedAtMs m \<and> dr_classification d = classifyReply m
         \<and> (\<forall>m'. m' \<in> set ms \<and> im_messageId m' \<notin> set (tt_handledMessageIds t)
               \<and> genuine (tt_lastOutboundAtMs t) own m' \<longrightarrow> im_receivedAtMs m \<le> im_receivedAtMs m'))
       \<and> classificationToStatus (dr_classification d) \<in> set OUTREACH_NO_FOLLOWUP"
proof (cases "firstGenuineReply lc (filter (\<lambda>m. im_messageId m \<notin> set (tt_handledMessageIds t)) ms)
    (tt_lastOutboundAtMs t) own")
  case None
  then show ?thesis
    unfolding detectReply_def None
    using None [unfolded firstGenuineReply_None] by auto
next
  case (Some m)
  note f = firstGenuineReply_Some [OF assms Some]
  show ?thesis
    unfolding detectReply_def Some option.case option.sel
    using f(1) reply_cmp_time [OF f(2)] classificationToStatus_cancels
    by (auto intro!: exI [of _ m])
qed

definition demo_inbound :: "string \<Rightarrow> int \<Rightarrow> inbound_message" where
  "demo_inbound mid t = \<lparr>im_messageId = mid, im_threadId = ''t'', im_fromEmail = ''a@x.de'',
     im_receivedAtMs = t, im_preview = ''no thanks'',
     im_headers = \<lparr>ih_fromEmail = ''a@x.de'', autoSubmitted = None, contentType = None,
       hasListUnsubscribe = None\<rparr>\<rparr>"

definition demo_thread :: tracked_thread where
  "demo_thread = \<lparr>tt_outreachRecordId = ''r'', tt_threadId = ''t'', tt_lastOutboundAtMs = 5,
     tt_handledMessageIds = [''m1'']\<rparr>"

theorem detected_reply_earliest_witness:
  "\<exists>d. detectReply (\<lambda>_ _. 0) [demo_inbound ''m3'' 9, demo_inbound ''m1'' 6, demo_inbound ''m2'' 8]
      demo_thread [''me@x.de''] = Some d \<and> dr_receivedAtMs d \<le> 9"
proof -
  let ?ms = "[demo_inbound ''m3'' 9, demo_inbound ''m1'' 6, demo_inbound ''m2'' 8]"
  have c: "collation (\<lambda>_ _. 0)"
    by (simp add: collation_def comparator_def)
  have "genuine (tt_lastOutboundAtMs demo_thread) [''me@x.de''] (demo_inbound ''m3'' 9)
      \<and> ''m3'' \<notin> set (tt_handledMessageIds demo_thread)"
    by code_simp
  moreover have "im_messageId (demo_inbound ''m3'' 9) = ''m3''" "im_receivedAtMs (demo_inbound ''m3'' 9) = 9"
    by (simp_all add: demo_inbound_def)
  ultimately have here: "\<exists>m. m \<in> set ?ms \<and> im_messageId m \<notin> set (tt_handledMessageIds demo_thread)
      \<and> genuine (tt_lastOutboundAtMs demo_thread) [''me@x.de''] m \<and> im_receivedAtMs m = 9"
    by (intro exI [of _ "demo_inbound ''m3'' 9"]) (simp only: list.set insert_iff simp_thms)
  note claim = detected_reply_earliest [OF c, of ?ms demo_thread "[''me@x.de'']"]
  show ?thesis
  proof (cases "detectReply (\<lambda>_ _. 0) ?ms demo_thread [''me@x.de'']")
    case None
    show ?thesis
      using claim [unfolded None option.case] here by blast
  next
    case (Some d)
    show ?thesis
      using claim [unfolded Some option.case] here Some by metis
  qed
qed

section \<open>The send gate\<close>

text \<open>A prepared follow-up copy may go out exactly when the record waits for that very step and
  is not marked do-not-contact; so for a record at most one step can be sent at any time.\<close>

theorem send_gate_exact:
  "checkFollowupSendAllowed snap = SendAllowed st \<longleftrightarrow>
     snap_status snap = Some (followupDueStatus st) \<and> \<not> snap_doNotContact snap \<and> preparedStep snap = st"
  by (rule checkFollowupSendAllowed_iff)

end
