(* ===== verification/Scheduler.thy ===== *)
theory Scheduler
  imports Timezone
begin

text \<open>
  \<^verbatim>\<open>src/src/domain/schedule/scheduler.ts\<close>: the search for the next send slot and the check of a
  slot an operator asks for. The inner loop of the search adds \<^verbatim>\<open>minSpacingMinutes\<close> to its counter,
  so it need not end; it is a partial function, and the lemmas show that it ends when the spacing
  is positive. The search is proved equal to taking the first acceptable instant of a list of
  all instants of the grid.
\<close>

record scheduling_rules =
  windowStartHour :: int
  windowEndHour :: int
  allowedWeekdays :: "int list"
  minSpacingMinutes :: int
  dailyCap :: int
  earliestOffsetMinutes :: int
  horizonDays :: int

record slot_result =
  sl_ok :: bool
  scheduledAtUtc :: "int option"
  sl_reason :: "string option"

definition slot_found :: "int \<Rightarrow> slot_result" where
  "slot_found t = \<lparr>sl_ok = True, scheduledAtUtc = Some t, sl_reason = None\<rparr>"

definition slot_refused :: "string \<Rightarrow> slot_result" where
  "slot_refused why = \<lparr>sl_ok = False, scheduledAtUtc = None, sl_reason = Some why\<rparr>"

lemma slot_result_eq [simp]:
  "slot_found t = slot_found u \<longleftrightarrow> t = u" "slot_found t \<noteq> slot_refused w" "slot_refused w \<noteq> slot_found t"
  by (auto simp: slot_found_def slot_refused_def)

section \<open>The search\<close>

definition too_close :: "scheduling_rules \<Rightarrow> int list \<Rightarrow> int \<Rightarrow> bool" where
  "too_close rules existing t \<longleftrightarrow>
     list_ex (\<lambda>e. \<bar>t - e\<bar> < minSpacingMinutes rules * 60000) existing"

text \<open>\<^verbatim>\<open>existing.filter(\<dots>).length\<close>, where each conversion may throw.\<close>

fun count_on_day :: "intl \<Rightarrow> string \<Rightarrow> int \<Rightarrow> int \<Rightarrow> int \<Rightarrow> int list \<Rightarrow> int res" where
  "count_on_day intl tz y mo dm [] = Inr 0"
| "count_on_day intl tz y mo dm (e # es) =
     bind_res (utcToLocal intl tz e) (\<lambda>(l, _).
     bind_res (count_on_day intl tz y mo dm es) (\<lambda>n.
       Inr (if lp_year l = y \<and> lp_month l = mo \<and> lp_day l = dm then n + 1 else n)))"

text \<open>The inner loop, over the minutes of the window. \<^const>\<open>None\<close>: it does not end.\<close>

partial_function (option) scan_minutes ::
  "intl \<Rightarrow> string \<Rightarrow> scheduling_rules \<Rightarrow> int list \<Rightarrow> int \<Rightarrow> int \<Rightarrow> int \<Rightarrow> int \<Rightarrow> int
   \<Rightarrow> int option res option" where
  "scan_minutes intl tz rules existing earliest y mo dm mins =
     (if mins < windowEndHour rules * 60 then
        (case zonedWallClockToUtc intl tz y mo dm (mins div 60) (mins mod 60) of
           Inl e \<Rightarrow> Some (Inl e)
         | Inr candidate \<Rightarrow>
             if candidate < earliest \<or> too_close rules existing candidate
             then scan_minutes intl tz rules existing earliest y mo dm (mins + minSpacingMinutes rules)
             else Some (Inr (Some candidate)))
      else Some (Inr None))"

declare scan_minutes.simps [code]

text \<open>The outer loop, over the day indices that are left.\<close>

fun scan_days ::
  "intl \<Rightarrow> string \<Rightarrow> scheduling_rules \<Rightarrow> int list \<Rightarrow> int \<Rightarrow> int \<Rightarrow> int list \<Rightarrow> int option res option" where
  "scan_days intl tz rules existing earliest base [] = Some (Inr None)"
| "scan_days intl tz rules existing earliest base (dayIdx # rest) =
     (let d = base + dayIdx * 86400000;
          y = getUTCFullYear d; mo = getUTCMonth d + 1; dm = getUTCDate d
      in if iso_weekday d \<notin> set (allowedWeekdays rules)
         then scan_days intl tz rules existing earliest base rest
         else (case count_on_day intl tz y mo dm existing of
           Inl e \<Rightarrow> Some (Inl e)
         | Inr n \<Rightarrow>
             if n \<ge> dailyCap rules then scan_days intl tz rules existing earliest base rest
             else (case scan_minutes intl tz rules existing earliest y mo dm (windowStartHour rules * 60) of
               None \<Rightarrow> None
             | Some (Inl e) \<Rightarrow> Some (Inl e)
             | Some (Inr (Some t)) \<Rightarrow> Some (Inr (Some t))
             | Some (Inr None) \<Rightarrow> scan_days intl tz rules existing earliest base rest)))"

definition earliest_send :: "scheduling_rules \<Rightarrow> int \<Rightarrow> int option \<Rightarrow> int" where
  "earliest_send rules nowMs notBeforeMs =
     max (nowMs + earliestOffsetMinutes rules * 60000) (case notBeforeMs of None \<Rightarrow> 0 | Some t \<Rightarrow> t)"

definition computeNextSlot ::
  "intl \<Rightarrow> int \<Rightarrow> string \<Rightarrow> scheduling_rules \<Rightarrow> int list \<Rightarrow> int option \<Rightarrow> slot_result res option" where
  "computeNextSlot intl nowMs tz rules existing notBeforeMs =
     (let earliest = earliest_send rules nowMs notBeforeMs in
      case utcToLocal intl tz earliest of
        Inl e \<Rightarrow> Some (Inl e)
      | Inr (l, _) \<Rightarrow>
          (case scan_days intl tz rules existing earliest
                  (date_utc (lp_year l) (lp_month l - 1) (lp_day l) 0 0 0) [0..horizonDays rules] of
             None \<Rightarrow> None
           | Some (Inl e) \<Rightarrow> Some (Inl e)
           | Some (Inr (Some t)) \<Rightarrow> Some (Inr (slot_found t))
           | Some (Inr None) \<Rightarrow> Some (Inr (slot_refused ''blocked''))))"

section \<open>The operator's slot\<close>

definition isSlotAllowed ::
  "intl \<Rightarrow> int \<Rightarrow> int \<Rightarrow> string \<Rightarrow> scheduling_rules \<Rightarrow> int list \<Rightarrow> slot_result res" where
  "isSlotAllowed intl atMs nowMs tz rules others =
     (if atMs < nowMs + earliestOffsetMinutes rules * 60000 then Inr (slot_refused ''before_earliest'')
      else bind_res (utcToLocal intl tz atMs) (\<lambda>(l, wd).
        if wd \<notin> set (allowedWeekdays rules) then Inr (slot_refused ''weekday_not_allowed'')
        else let mins = lp_hour l * 60 + lp_minute l in
          if mins < windowStartHour rules * 60 \<or> mins \<ge> windowEndHour rules * 60
          then Inr (slot_refused ''outside_window'')
          else if too_close rules others atMs then Inr (slot_refused ''too_close'')
          else bind_res (count_on_day intl tz (lp_year l) (lp_month l) (lp_day l) others) (\<lambda>n.
            if n \<ge> dailyCap rules then Inr (slot_refused ''daily_cap'') else Inr (slot_found atMs))))"

section \<open>A reference for the search\<close>

text \<open>All wall-clock minutes of the window grid, the instants of one day, and of all days.\<close>

definition grid_minutes :: "scheduling_rules \<Rightarrow> int \<Rightarrow> int list" where
  "grid_minutes rules m0 =
     filter (\<lambda>m. (m - m0) mod minSpacingMinutes rules = 0) [m0..windowEndHour rules * 60 - 1]"

definition wall_instant :: "intl \<Rightarrow> string \<Rightarrow> int \<Rightarrow> int \<Rightarrow> int \<Rightarrow> int \<Rightarrow> int" where
  "wall_instant intl tz y mo dm mins =
     (case zonedWallClockToUtc intl tz y mo dm (mins div 60) (mins mod 60) of Inr t \<Rightarrow> t | Inl _ \<Rightarrow> 0)"

definition sends_on_day :: "intl \<Rightarrow> string \<Rightarrow> int \<Rightarrow> int \<Rightarrow> int \<Rightarrow> int list \<Rightarrow> int" where
  "sends_on_day intl tz y mo dm existing =
     int (length (filter (\<lambda>e. case utcToLocal intl tz e of Inl _ \<Rightarrow> False
        | Inr (l, _) \<Rightarrow> lp_year l = y \<and> lp_month l = mo \<and> lp_day l = dm) existing))"

definition day_slots :: "intl \<Rightarrow> string \<Rightarrow> scheduling_rules \<Rightarrow> int list \<Rightarrow> int \<Rightarrow> int list" where
  "day_slots intl tz rules existing d =
     (if iso_weekday d \<in> set (allowedWeekdays rules)
        \<and> sends_on_day intl tz (getUTCFullYear d) (getUTCMonth d + 1) (getUTCDate d) existing < dailyCap rules
      then map (wall_instant intl tz (getUTCFullYear d) (getUTCMonth d + 1) (getUTCDate d))
             (grid_minutes rules (windowStartHour rules * 60))
      else [])"

definition all_slots :: "intl \<Rightarrow> string \<Rightarrow> scheduling_rules \<Rightarrow> int list \<Rightarrow> int \<Rightarrow> int list \<Rightarrow> int list" where
  "all_slots intl tz rules existing base idxs =
     concat (map (\<lambda>i. day_slots intl tz rules existing (base + i * 86400000)) idxs)"

definition acceptable :: "scheduling_rules \<Rightarrow> int list \<Rightarrow> int \<Rightarrow> int \<Rightarrow> bool" where
  "acceptable rules existing earliest t \<longleftrightarrow> earliest \<le> t \<and> \<not> too_close rules existing t"

text \<open>In a zone the platform knows, no conversion throws.\<close>

lemma known_zone:
  assumes "intl tz = Some f"
  shows "\<exists>p w. utcToLocal intl tz t = Inr (p, w)"
    and "zonedWallClockToUtc intl tz y mo d h mi = Inr (case zonedWallClockToUtc intl tz y mo d h mi of
      Inr t \<Rightarrow> t | Inl _ \<Rightarrow> 0)"
  using assms by (auto simp: utcToLocal_def zonedWallClockToUtc_def tzOffsetMs_def partsOf_def Let_def)

lemma count_on_day_known:
  assumes "intl tz = Some f"
  shows "count_on_day intl tz y mo dm es = Inr (sends_on_day intl tz y mo dm es)"
proof (induction es)
  case Nil
  then show ?case by (simp add: sends_on_day_def)
next
  case (Cons e es)
  obtain p w where "utcToLocal intl tz e = Inr (p, w)"
    using known_zone(1) [of intl tz f e, OF assms] by blast
  then show ?case
    using Cons by (simp add: sends_on_day_def)
qed

lemma grid_minutes_step:
  assumes "1 \<le> minSpacingMinutes rules" and "m0 < windowEndHour rules * 60"
  shows "grid_minutes rules m0 = m0 # grid_minutes rules (m0 + minSpacingMinutes rules)"
proof -
  let ?s = "minSpacingMinutes rules" and ?e = "windowEndHour rules * 60 - 1"
  have gap: "filter (\<lambda>m. (m - m0) mod ?s = 0) [m0 + 1..min ?e (m0 + ?s - 1)] = []"
    by (auto simp: filter_empty_conv)
  have shift: "(m - (m0 + ?s)) mod ?s = (m - m0) mod ?s" for m
    using minus_mod_self2 [of "m - m0" ?s] by (simp add: algebra_simps)
  have "[m0..?e] = m0 # [m0 + 1..?e]"
    using assms(2) by (subst upto_rec1) auto
  also have "[m0 + 1..?e] = [m0 + 1..min ?e (m0 + ?s - 1)] @ [m0 + ?s..?e]"
  proof (cases "m0 + ?s \<le> ?e")
    case True
    have "[m0 + 1..?e] = [m0 + 1..m0 + ?s - 1] @ [m0 + ?s - 1 + 1..?e]" if "?s \<noteq> 1"
      using assms(1) True that by (intro upto_split2) auto
    then show ?thesis using True by (cases "?s = 1") (simp_all add: min_def)
  next
    case False
    then show ?thesis by (simp add: min_def)
  qed
  finally have "[m0..?e] = m0 # [m0 + 1..min ?e (m0 + ?s - 1)] @ [m0 + ?s..?e]" .
  then show ?thesis
    using gap by (simp add: grid_minutes_def shift)
qed


lemma grid_minutes_end: "windowEndHour rules * 60 \<le> m0 \<Longrightarrow> grid_minutes rules m0 = []"
  by (simp add: grid_minutes_def)

text \<open>The inner loop ends, and finds the first acceptable instant of the day.\<close>

lemma scan_minutes_find:
  assumes "intl tz = Some f" and "1 \<le> minSpacingMinutes rules"
  shows "scan_minutes intl tz rules existing earliest y mo dm mins =
    Some (Inr (find (acceptable rules existing earliest)
      (map (wall_instant intl tz y mo dm) (grid_minutes rules mins))))"
proof (induction "nat (windowEndHour rules * 60 - mins)" arbitrary: mins rule: less_induct)
  case less
  show ?case
  proof (cases "mins < windowEndHour rules * 60")
    case False
    then show ?thesis
      by (simp add: scan_minutes.simps [of intl tz rules existing earliest y mo dm mins] grid_minutes_end)
  next
    case True
    let ?t = "wall_instant intl tz y mo dm mins"
    have t: "zonedWallClockToUtc intl tz y mo dm (mins div 60) (mins mod 60) = Inr ?t"
      unfolding wall_instant_def by (rule known_zone(2) [of intl tz f, OF assms(1)])
    have rest: "scan_minutes intl tz rules existing earliest y mo dm (mins + minSpacingMinutes rules) =
        Some (Inr (find (acceptable rules existing earliest) (map (wall_instant intl tz y mo dm)
          (grid_minutes rules (mins + minSpacingMinutes rules)))))"
      using True assms(2) by (intro less) simp
    show ?thesis
      unfolding scan_minutes.simps [of intl tz rules existing earliest y mo dm mins] rest t
        grid_minutes_step [OF assms(2) True]
      using True by (auto simp: acceptable_def)
  qed
qed

lemma find_append_case:
  "find P (xs @ ys) = (case find P xs of None \<Rightarrow> find P ys | Some x \<Rightarrow> Some x)"
  by (induction xs) auto

lemma scan_days_find:
  assumes "intl tz = Some f" and "1 \<le> minSpacingMinutes rules"
  shows "scan_days intl tz rules existing earliest base idxs =
    Some (Inr (find (acceptable rules existing earliest) (all_slots intl tz rules existing base idxs)))"
proof (induction idxs)
  case Nil
  then show ?case by (simp add: all_slots_def)
next
  case (Cons i idxs)
  let ?d = "base + i * 86400000"
  let ?slots = "day_slots intl tz rules existing ?d"
  have split: "find (acceptable rules existing earliest) (all_slots intl tz rules existing base (i # idxs)) =
      (case find (acceptable rules existing earliest) ?slots of
         None \<Rightarrow> find (acceptable rules existing earliest) (all_slots intl tz rules existing base idxs)
       | Some t \<Rightarrow> Some t)"
    by (simp add: all_slots_def find_append_case split: option.splits)
  show ?case
    unfolding split
    by (auto simp: Let_def day_slots_def Cons count_on_day_known [of intl tz f, OF assms(1)]
        scan_minutes_find [of intl tz f, OF assms] split: option.splits)
qed


section \<open>The properties of the search\<close>

text \<open>C37: the search for a send slot always ends and returns the first acceptable instant, in the
  order of days and then of minutes, among all instants of the window grid on allowed weekdays below
  the daily cap within the horizon; and it reports \<^verbatim>\<open>blocked\<close> only if none of them is acceptable.\<close>

theorem next_slot_first:
  assumes "earliest = earliest_send rules nowMs notBefore" and "utcToLocal intl tz earliest = Inr (l, w)"
    and "1 \<le> minSpacingMinutes rules"
    and "slots = all_slots intl tz rules existing
      (date_utc (lp_year l) (lp_month l - 1) (lp_day l) 0 0 0) [0..horizonDays rules]"
  shows "computeNextSlot intl nowMs tz rules existing notBefore =
    Some (Inr (case find (acceptable rules existing earliest) slots of
      Some t \<Rightarrow> slot_found t | None \<Rightarrow> slot_refused ''blocked''))"
proof -
  obtain f where "intl tz = Some f"
    using assms(2) by (cases "intl tz") (auto simp: utcToLocal_def partsOf_def)
  then show ?thesis
    using assms(1,2,4)
    by (simp add: computeNextSlot_def Let_def scan_days_find [of intl tz f, OF _ assms(3)] split: option.splits)
qed

definition demo_rules :: scheduling_rules where
  "demo_rules = \<lparr>windowStartHour = 9, windowEndHour = 10, allowedWeekdays = [1, 2, 3, 4, 5],
     minSpacingMinutes = 60, dailyCap = 2, earliestOffsetMinutes = 60, horizonDays = 3\<rparr>"

abbreviation demo_utc :: intl where
  "demo_utc \<equiv> one_zone ''UTC'' (\<lambda>_. 0)"

lemma demo_utc_zone: "zone_offset demo_utc ''UTC'' (\<lambda>_. 0)"
  by (rule one_zone_offset) simp

text \<open>Friday 2 January 1970, 16:30: the hour of notice leaves the grid of the day, so the first slot is
  on Monday at 9.\<close>

theorem next_slot_first_witness:
  "computeNextSlot demo_utc 145800000 ''UTC'' demo_rules [] None = Some (Inr (slot_found 378000000))"
proof -
  have "utcToLocal demo_utc ''UTC'' 149400000 = Inr (utc_parts 149400000, 5)"
    by code_simp
  moreover have "149400000 = earliest_send demo_rules 145800000 None" "1 \<le> minSpacingMinutes demo_rules"
    by (simp_all add: earliest_send_def demo_rules_def)
  ultimately have "computeNextSlot demo_utc 145800000 ''UTC'' demo_rules [] None =
    Some (Inr (case find (acceptable demo_rules [] 149400000) (all_slots demo_utc ''UTC'' demo_rules []
      (date_utc (lp_year (utc_parts 149400000)) (lp_month (utc_parts 149400000) - 1)
         (lp_day (utc_parts 149400000)) 0 0 0) [0..horizonDays demo_rules]) of
      Some t \<Rightarrow> slot_found t | None \<Rightarrow> slot_refused ''blocked''))"
    using next_slot_first [OF _ _ _ refl] by blast
  also have "\<dots> = Some (Inr (slot_found 378000000))"
    by code_simp
  finally show ?thesis .
qed

section \<open>The two routines agree\<close>

text \<open>Exactly which operator-chosen slots are accepted, and as what they are answered.\<close>

theorem slot_allowed_exact:
  assumes "utcToLocal intl tz atMs = Inr (l, wd)"
  shows "isSlotAllowed intl atMs nowMs tz rules others = Inr (slot_found atMs) \<longleftrightarrow>
     nowMs + earliestOffsetMinutes rules * 60000 \<le> atMs \<and> wd \<in> set (allowedWeekdays rules)
     \<and> windowStartHour rules * 60 \<le> lp_hour l * 60 + lp_minute l
     \<and> lp_hour l * 60 + lp_minute l < windowEndHour rules * 60
     \<and> \<not> too_close rules others atMs
     \<and> sends_on_day intl tz (lp_year l) (lp_month l) (lp_day l) others < dailyCap rules"
proof -
  obtain f where "intl tz = Some f"
    using assms by (cases "intl tz") (auto simp: utcToLocal_def partsOf_def)
  then show ?thesis
    using assms by (auto simp: isSlotAllowed_def Let_def count_on_day_known [of intl tz f])
qed

theorem slot_allowed_exact_witness:
  "isSlotAllowed demo_utc 378000000 145800000 ''UTC'' demo_rules [] = Inr (slot_found 378000000)"
proof -
  have l: "utcToLocal demo_utc ''UTC'' 378000000 = Inr (utc_parts 378000000, 1)"
    by code_simp
  have c: "145800000 + earliestOffsetMinutes demo_rules * 60000 \<le> 378000000
     \<and> 1 \<in> set (allowedWeekdays demo_rules)
     \<and> windowStartHour demo_rules * 60 \<le> lp_hour (utc_parts 378000000) * 60 + lp_minute (utc_parts 378000000)
     \<and> lp_hour (utc_parts 378000000) * 60 + lp_minute (utc_parts 378000000) < windowEndHour demo_rules * 60
     \<and> \<not> too_close demo_rules [] 378000000
     \<and> sends_on_day demo_utc ''UTC'' (lp_year (utc_parts 378000000)) (lp_month (utc_parts 378000000))
         (lp_day (utc_parts 378000000)) [] < dailyCap demo_rules"
    by code_simp
  show ?thesis
    using slot_allowed_exact [OF l] c by blast
qed

lemma day_start:
  assumes "0 \<le> d" and "d mod 86400000 = 0"
  shows "valid_date (getUTCFullYear d) (getUTCMonth d + 1) (getUTCDate d)"
    and "1970 \<le> getUTCFullYear d"
    and "iso_weekday (date_utc (getUTCFullYear d) (getUTCMonth d) (getUTCDate d) 0 0 0) = iso_weekday d"
proof -
  note v = day_number_of_getUTC [of d]
  show "valid_date (getUTCFullYear d) (getUTCMonth d + 1) (getUTCDate d)" by (rule v(1))
  have "0 \<le> day_of d"
    using assms(1) by (simp add: day_of_def)
  then have "day_from_year 1970 < day_from_year (getUTCFullYear d + 1)"
    using year_from_day_bounds [of "day_of d"] by (simp add: getUTCFullYear_def day_from_year_def [of 1970])
  then show y: "1970 \<le> getUTCFullYear d"
    using day_from_year_mono [of "getUTCFullYear d + 1" 1970] by linarith
  have "1 \<le> getUTCMonth d + 1" "getUTCMonth d + 1 \<le> 12" "\<not> (0 \<le> getUTCFullYear d \<and> getUTCFullYear d \<le> 99)"
    using v(1) y by (auto simp: valid_date_def)
  from date_utc_eq [OF this, of "getUTCDate d" 0 0 0]
  have "date_utc (getUTCFullYear d) (getUTCMonth d) (getUTCDate d) 0 0 0 = day_of d * 86400000"
    using v(2) by simp
  then show "iso_weekday (date_utc (getUTCFullYear d) (getUTCMonth d) (getUTCDate d) 0 0 0) = iso_weekday d"
    by (simp add: iso_weekday_def getUTCDay_def day_of_def)
qed

lemma find_Some_in: "find P xs = Some x \<Longrightarrow> x \<in> set xs \<and> P x"
  by (induction xs) (auto split: if_splits)

text \<open>In a zone where every wall-clock time exists, a slot the search returns passes the check
  an operator's slot has to pass: both enforce the same rules.\<close>

theorem computed_slot_is_allowed:
  assumes "computeNextSlot intl nowMs tz rules existing notBefore = Some (Inr (slot_found t))"
    and clock: "exact_clock intl tz" and zone: "intl tz = Some f"
    and rules: "1 \<le> minSpacingMinutes rules" "0 \<le> windowStartHour rules" "windowEndHour rules \<le> 24"
    and l: "utcToLocal intl tz (earliest_send rules nowMs notBefore) = Inr (l, w)"
      "0 \<le> date_utc (lp_year l) (lp_month l - 1) (lp_day l) 0 0 0"
  shows "isSlotAllowed intl t nowMs tz rules existing = Inr (slot_found t)"
proof -
  let ?base = "date_utc (lp_year l) (lp_month l - 1) (lp_day l) 0 0 0"
  let ?earliest = "earliest_send rules nowMs notBefore"
  have "find (acceptable rules existing ?earliest)
      (all_slots intl tz rules existing ?base [0..horizonDays rules]) = Some t"
    using assms(1) l(1)
    by (auto simp: computeNextSlot_def Let_def scan_days_find [of intl tz f, OF zone rules(1)]
        split: option.splits)
  then have t: "t \<in> set (all_slots intl tz rules existing ?base [0..horizonDays rules])"
    and ok: "acceptable rules existing ?earliest t"
    using find_Some_in by fastforce+
  from t obtain i where i: "0 \<le> i" and slot: "t \<in> set (day_slots intl tz rules existing (?base + i * 86400000))"
    by (auto simp: all_slots_def)
  define d where "d = ?base + i * 86400000"
  have "?base mod 86400000 = 0"
    by (simp add: date_utc_def Let_def)
  then have d: "0 \<le> d" "d mod 86400000 = 0"
    using l(2) i by (simp_all add: d_def)
  obtain m where m: "windowStartHour rules * 60 \<le> m" "m < windowEndHour rules * 60"
      "t = wall_instant intl tz (getUTCFullYear d) (getUTCMonth d + 1) (getUTCDate d) m"
    and day: "iso_weekday d \<in> set (allowedWeekdays rules)"
      "sends_on_day intl tz (getUTCFullYear d) (getUTCMonth d + 1) (getUTCDate d) existing < dailyCap rules"
    using slot unfolding d_def [symmetric] by (auto simp: day_slots_def grid_minutes_def split: if_splits)
  have time: "valid_time (m div 60) (m mod 60) 0"
    using m rules by (auto simp: valid_time_def)
  have "zonedWallClockToUtc intl tz (getUTCFullYear d) (getUTCMonth d + 1) (getUTCDate d) (m div 60) (m mod 60) = Inr t"
    unfolding m(3) wall_instant_def by (rule known_zone(2) [of intl tz f, OF zone])
  with clock day_start(1,2) [OF d] time
  have "utcToLocal intl tz t = Inr (\<lparr>lp_year = getUTCFullYear d, lp_month = getUTCMonth d + 1,
      lp_day = getUTCDate d, lp_hour = m div 60, lp_minute = m mod 60, lp_second = 0\<rparr>,
      iso_weekday (date_utc (getUTCFullYear d) (getUTCMonth d + 1 - 1) (getUTCDate d) 0 0 0))"
    unfolding exact_clock_def by blast
  moreover have "m div 60 * 60 + m mod 60 = m" by simp
  moreover have "nowMs + earliestOffsetMinutes rules * 60000 \<le> t"
    using ok by (simp add: acceptable_def earliest_send_def)
  ultimately show ?thesis
    using day m(1,2) ok day_start(3) [OF d]
    by (simp add: isSlotAllowed_def count_on_day_known [of intl tz f, OF zone] acceptable_def)
qed

theorem computed_slot_is_allowed_witness:
  "\<exists>t. computeNextSlot demo_utc 145800000 ''UTC'' demo_rules [] None = Some (Inr (slot_found t))
     \<and> isSlotAllowed demo_utc t 145800000 ''UTC'' demo_rules [] = Inr (slot_found t)"
proof -
  have slot: "computeNextSlot demo_utc 145800000 ''UTC'' demo_rules [] None = Some (Inr (slot_found 378000000))"
    by code_simp
  have l: "utcToLocal demo_utc ''UTC'' (earliest_send demo_rules 145800000 None) = Inr (utc_parts 149400000, 5)"
    "0 \<le> date_utc (lp_year (utc_parts 149400000)) (lp_month (utc_parts 149400000) - 1)
       (lp_day (utc_parts 149400000)) 0 0 0"
    by code_simp+
  have r: "1 \<le> minSpacingMinutes demo_rules" "0 \<le> windowStartHour demo_rules" "windowEndHour demo_rules \<le> 24"
    by (simp_all add: demo_rules_def)
  have "demo_utc ''UTC'' = Some (\<lambda>t. utc_parts (t + 0))"
    by (simp add: one_zone_def)
  with computed_slot_is_allowed [OF slot exact_clock_fixed [OF demo_utc_zone] this r l] slot
  show ?thesis by auto
qed

end
