(* ===== verification/Programs.thy ===== *)
theory Programs
  imports Prelude
begin

text \<open>
  Programs over the database: an asynchronous method that runs statement after statement and may
  throw. Outside a transaction each statement is committed at once, so a throw keeps what was written
  before it; \<open>transaction\<close> is the unit of work, which keeps nothing of a body that throws
  (\<^verbatim>\<open>src/src/persistence/*-unit-of-work.ts\<close>). \<open>keeps R p\<close> says that a run of \<open>p\<close>, thrown or
  returned, relates the states by \<open>R\<close>; the locale derives it for composed programs.
\<close>

type_synonym ('s, 'a) prog = "'s \<Rightarrow> (app_error + 'a) \<times> 's"

definition return_p :: "'a \<Rightarrow> ('s, 'a) prog" where
  "return_p x s = (Inr x, s)"

definition throw_p :: "app_error \<Rightarrow> ('s, 'a) prog" where
  "throw_p e s = (Inl e, s)"

definition bind_p :: "('s, 'a) prog \<Rightarrow> ('a \<Rightarrow> ('s, 'b) prog) \<Rightarrow> ('s, 'b) prog" where
  "bind_p p f s = (case p s of (Inl e, s1) \<Rightarrow> (Inl e, s1) | (Inr x, s1) \<Rightarrow> f x s1)"

definition then_p :: "('s, 'a) prog \<Rightarrow> ('s, 'b) prog \<Rightarrow> ('s, 'b) prog" where
  "then_p p q s = (case p s of (Inl e, s1) \<Rightarrow> (Inl e, s1) | (Inr _, s1) \<Rightarrow> q s1)"

definition read_p :: "('s \<Rightarrow> 'a) \<Rightarrow> ('s, 'a) prog" where
  "read_p f s = (Inr (f s), s)"

definition write_p :: "('s \<Rightarrow> 's) \<Rightarrow> ('s, unit) prog" where
  "write_p f s = (Inr (), f s)"

text \<open>A value computed without the database, or the error it throws.\<close>

definition lift_p :: "app_error + 'b \<Rightarrow> ('s, 'b) prog" where
  "lift_p r = (case r of Inl e \<Rightarrow> throw_p e | Inr x \<Rightarrow> return_p x)"

definition when_p :: "bool \<Rightarrow> ('s, unit) prog \<Rightarrow> ('s, unit) prog" where
  "when_p b p = (if b then p else return_p ())"

text \<open>\<open>restore s s1\<close> is the state after a roll-back to \<open>s\<close> from \<open>s1\<close>: the tables of \<open>s\<close>, with
  what is not undone (the identifiers drawn and the clock) as in \<open>s1\<close>.\<close>

definition transaction :: "('s \<Rightarrow> 's \<Rightarrow> 's) \<Rightarrow> ('s, 'a) prog \<Rightarrow> ('s, 'a) prog" where
  "transaction restore p s =
     (case p s of (Inl e, s1) \<Rightarrow> (Inl e, restore s s1) | (Inr x, s1) \<Rightarrow> (Inr x, s1))"

text \<open>A \<^verbatim>\<open>for\<close> loop of statements.\<close>

fun for_p :: "'a list \<Rightarrow> ('a \<Rightarrow> ('s, unit) prog) \<Rightarrow> ('s, unit) prog" where
  "for_p [] body = return_p ()"
| "for_p (x # xs) body = then_p (body x) (for_p xs body)"

declare return_p_def [code_unfold] throw_p_def [code_unfold] bind_p_def [code_unfold]
  then_p_def [code_unfold] read_p_def [code_unfold] write_p_def [code_unfold] when_p_def [code_unfold]
  lift_p_def [code_unfold]
  transaction_def [code_unfold]

named_theorems prog_simps

lemma return_p_eq [prog_simps, simp]: "return_p x s = (Inr x, s)"
  by (simp add: return_p_def)

lemma throw_p_eq [prog_simps, simp]: "throw_p e s = (Inl e, s)"
  by (simp add: throw_p_def)

lemma read_p_eq [prog_simps, simp]: "read_p f s = (Inr (f s), s)"
  by (simp add: read_p_def)

lemma write_p_eq [prog_simps, simp]: "write_p f s = (Inr (), f s)"
  by (simp add: write_p_def)

lemma bind_p_Inr [prog_simps]:
  "bind_p p f s = (Inr y, s') \<longleftrightarrow> (\<exists>x s1. p s = (Inr x, s1) \<and> f x s1 = (Inr y, s'))"
  by (auto simp: bind_p_def split: prod.splits sum.splits)

lemma then_p_Inr [prog_simps]:
  "then_p p q s = (Inr y, s') \<longleftrightarrow> (\<exists>x s1. p s = (Inr x, s1) \<and> q s1 = (Inr y, s'))"
  by (auto simp: then_p_def split: prod.splits sum.splits)

lemma bind_p_InrE:
  assumes "bind_p p f s = (Inr y, s')"
  obtains x s1 where "p s = (Inr x, s1)" "f x s1 = (Inr y, s')"
  using assms by (auto simp: prog_simps)

lemma bind_p_run [simp]: "p s = (Inr x, s1) \<Longrightarrow> bind_p p f s = f x s1"
  by (simp add: bind_p_def)

lemma then_p_run [simp]: "p s = (Inr x, s1) \<Longrightarrow> then_p p q s = q s1"
  by (simp add: then_p_def)

lemma bind_p_throw [simp]: "p s = (Inl e, s1) \<Longrightarrow> bind_p p f s = (Inl e, s1)"
  by (simp add: bind_p_def)

lemma then_p_throw [simp]: "p s = (Inl e, s1) \<Longrightarrow> then_p p q s = (Inl e, s1)"
  by (simp add: then_p_def)

lemma lift_p_Inr [prog_simps]: "lift_p r s = (Inr x, s') \<longleftrightarrow> r = Inr x \<and> s' = s"
  by (auto simp: lift_p_def split: sum.splits)

lemma when_p_Inr [prog_simps]:
  "when_p b p s = (Inr u, s') \<longleftrightarrow> (if b then p s = (Inr u, s') else s' = s)"
  by (auto simp: when_p_def)

lemma transaction_Inr [prog_simps]: "transaction r p s = (Inr x, s') \<longleftrightarrow> p s = (Inr x, s')"
  by (auto simp: transaction_def split: prod.splits sum.splits)

lemma transaction_Inl:
  "transaction r p s = (Inl e, s') \<longleftrightarrow> (\<exists>s1. p s = (Inl e, s1) \<and> s' = r s s1)"
  by (auto simp: transaction_def split: prod.splits sum.splits)

section \<open>What a program keeps\<close>

definition keeps :: "('s \<Rightarrow> 's \<Rightarrow> bool) \<Rightarrow> ('s, 'a) prog \<Rightarrow> bool" where
  "keeps R p \<longleftrightarrow> (\<forall>s. R s (snd (p s)))"

lemma keepsI: "(\<And>s x s'. p s = (x, s') \<Longrightarrow> R s s') \<Longrightarrow> keeps R p"
  unfolding keeps_def by (metis prod.collapse)

lemma keepsD: "keeps R p \<Longrightarrow> p s = (x, s') \<Longrightarrow> R s s'"
  unfolding keeps_def by (metis snd_conv)

lemma keeps_weaken: "keeps R p \<Longrightarrow> (\<And>s s'. R s s' \<Longrightarrow> Q s s') \<Longrightarrow> keeps Q p"
  by (simp add: keeps_def)

text \<open>\<open>commits R p\<close>: a run that returns relates the states by \<open>R\<close>.\<close>

definition commits :: "('s \<Rightarrow> 's \<Rightarrow> bool) \<Rightarrow> ('s, 'a) prog \<Rightarrow> bool" where
  "commits R p \<longleftrightarrow> (\<forall>s x s'. p s = (Inr x, s') \<longrightarrow> R s s')"

lemma commitsI: "(\<And>s x s'. p s = (Inr x, s') \<Longrightarrow> R s s') \<Longrightarrow> commits R p"
  by (simp add: commits_def)

lemma commitsD: "commits R p \<Longrightarrow> p s = (Inr x, s') \<Longrightarrow> R s s'"
  by (simp add: commits_def)

lemma keeps_commits: "keeps R p \<Longrightarrow> commits R p"
  by (auto simp: commits_def dest: keepsD)

locale prog_frame =
  fixes R :: "'s \<Rightarrow> 's \<Rightarrow> bool"
  assumes refl: "R s s" and trans: "R s t \<Longrightarrow> R t u \<Longrightarrow> R s u"
begin

lemma keeps_return: "keeps R (return_p x)" and keeps_throw: "keeps R (throw_p e)"
  and keeps_read: "keeps R (read_p f)"
  by (simp_all add: keeps_def refl)

lemma keeps_write: "(\<And>s. R s (f s)) \<Longrightarrow> keeps R (write_p f)"
  by (simp add: keeps_def)

lemma keeps_bind: "keeps R p \<Longrightarrow> (\<And>x. keeps R (f x)) \<Longrightarrow> keeps R (bind_p p f)"
  unfolding keeps_def bind_p_def by (auto split: prod.splits sum.splits) (metis snd_conv trans)+

lemma keeps_bind_result:
  "keeps R p \<Longrightarrow> (\<And>s x s'. p s = (Inr x, s') \<Longrightarrow> keeps R (f x)) \<Longrightarrow> keeps R (bind_p p f)"
  unfolding keeps_def bind_p_def by (auto split: prod.splits sum.splits) (metis snd_conv trans)+

lemma keeps_then: "keeps R p \<Longrightarrow> keeps R q \<Longrightarrow> keeps R (then_p p q)"
  unfolding keeps_def then_p_def by (auto split: prod.splits sum.splits) (metis snd_conv trans)+

lemma keeps_when: "keeps R p \<Longrightarrow> keeps R (when_p b p)"
  by (simp add: when_p_def keeps_return)

lemma keeps_if: "(b \<Longrightarrow> keeps R p) \<Longrightarrow> (\<not> b \<Longrightarrow> keeps R q) \<Longrightarrow> keeps R (if b then p else q)"
  by simp

lemma keeps_option:
  "(x = None \<Longrightarrow> keeps R p) \<Longrightarrow> (\<And>y. x = Some y \<Longrightarrow> keeps R (f y)) \<Longrightarrow>
   keeps R (case x of None \<Rightarrow> p | Some y \<Rightarrow> f y)"
  by (cases x) simp_all

lemma keeps_transaction:
  "(\<And>s s1. R s s1 \<Longrightarrow> R s (r s s1)) \<Longrightarrow> keeps R p \<Longrightarrow> keeps R (transaction r p)"
  unfolding keeps_def transaction_def
  by (auto split: prod.splits sum.splits) (metis snd_conv)+

lemma keeps_for: "(\<And>x. x \<in> set xs \<Longrightarrow> keeps R (body x)) \<Longrightarrow> keeps R (for_p xs body)"
  by (induction xs) (auto intro: keeps_return keeps_then)

lemma commits_return: "commits R (return_p x)" and commits_throw: "commits R (throw_p e)"
  and commits_read: "commits R (read_p f)"
  by (simp_all add: commits_def refl)

lemma commits_bind: "commits R p \<Longrightarrow> (\<And>x. commits R (f x)) \<Longrightarrow> commits R (bind_p p f)"
  unfolding commits_def prog_simps using trans by blast

lemma commits_then: "commits R p \<Longrightarrow> commits R q \<Longrightarrow> commits R (then_p p q)"
  unfolding commits_def prog_simps using trans by blast

lemma commits_when: "commits R p \<Longrightarrow> commits R (when_p b p)"
  by (simp add: when_p_def commits_return)

lemma commits_if: "(b \<Longrightarrow> commits R p) \<Longrightarrow> (\<not> b \<Longrightarrow> commits R q) \<Longrightarrow> commits R (if b then p else q)"
  by simp

lemma commits_option:
  "(x = None \<Longrightarrow> commits R p) \<Longrightarrow> (\<And>y. x = Some y \<Longrightarrow> commits R (f y)) \<Longrightarrow>
   commits R (case x of None \<Rightarrow> p | Some y \<Rightarrow> f y)"
  by (cases x) simp_all

lemma commits_for: "(\<And>x. x \<in> set xs \<Longrightarrow> commits R (body x)) \<Longrightarrow> commits R (for_p xs body)"
  by (induction xs) (auto intro: commits_return commits_then)

text \<open>A transaction keeps what its body commits and its roll-back restores.\<close>

lemma committed_transaction:
  "(\<And>s s1. R s (r s s1)) \<Longrightarrow> commits R p \<Longrightarrow> keeps R (transaction r p)"
  unfolding keeps_def commits_def transaction_def by (auto split: prod.splits sum.splits)

lemmas commits_all = commits_return commits_throw commits_read commits_bind commits_then commits_when
  commits_if commits_option commits_for

lemmas keeps_all = keeps_return keeps_throw keeps_read keeps_bind keeps_then keeps_when keeps_if
  keeps_option keeps_for

end

section \<open>Sequences of programs\<close>

text \<open>Commands run one after the other, whatever each returns or throws.\<close>

fun run_progs :: "('c \<Rightarrow> ('s, 'a) prog) \<Rightarrow> 'c list \<Rightarrow> 's \<Rightarrow> 's" where
  "run_progs exec [] s = s"
| "run_progs exec (c # cs) s = run_progs exec cs (snd (exec c s))"

lemma run_progs_append: "run_progs exec (xs @ ys) s = run_progs exec ys (run_progs exec xs s)"
  by (induction xs arbitrary: s) auto

locale prog_system = prog_frame R for R :: "'s \<Rightarrow> 's \<Rightarrow> bool" +
  fixes exec :: "'c \<Rightarrow> ('s, 'a) prog"
  assumes exec_keeps: "keeps R (exec c)"
begin

lemma run_keeps: "R s (run_progs exec cs s)"
proof (induction cs arbitrary: s)
  case Nil
  then show ?case by (simp add: refl)
next
  case (Cons c cs)
  have "R s (snd (exec c s))"
    using exec_keeps [of c] by (simp add: keeps_def)
  then show ?case
    using Cons trans by simp
qed

end

text \<open>An invariant is a frame: the relation that carries it forward.\<close>

lemma prog_frame_invariant: "prog_frame (\<lambda>s s'. I s \<longrightarrow> I s')"
  by unfold_locales auto

end
