(* ===== verification/Leads.thy ===== *)
theory Leads
  imports Lead_Machine Programs Complex_Main
begin

text \<open>
  Leads: the normal forms of their identifying facts (\<^verbatim>\<open>leads/normalize.ts\<close>), the decision how an
  incoming record relates to known leads (\<^verbatim>\<open>leads/dedup.ts\<close>), the lead built from facts
  (\<^verbatim>\<open>leads/lead-factory.ts\<close>), the tables of leads and pipeline events
  (\<^verbatim>\<open>persistence/repositories/leads.repo.ts\<close>, \<^verbatim>\<open>pipeline.repo.ts\<close>) and the two operations of
  \<^verbatim>\<open>leads/lead-service.ts\<close>. Floating-point coordinates are rationals; they are only compared through
  the parameter \<open>metres\<close>, the floating-point distance in metres of \<^verbatim>\<open>haversineMeters\<close>
  (\<^verbatim>\<open>utils/geo.ts\<close>). \<^verbatim>\<open>createdAt\<close> of an event is assigned by
  the database and not kept.
\<close>

section \<open>Normal forms\<close>

text \<open>A fact that is absent or empty.\<close>

definition fact :: "string option \<Rightarrow> string option" where
  "fact x = (case x of None \<Rightarrow> None | Some s \<Rightarrow> if s = [] then None else Some s)"

definition non_empty :: "string \<Rightarrow> string option" where
  "non_empty s = (if s = [] then None else Some s)"

definition normalizeName :: "string option \<Rightarrow> string option" where
  "normalizeName name =
     (case fact name of None \<Rightarrow> None | Some n \<Rightarrow> non_empty (collapse_ws (js_lower (js_trim n))))"

definition normalizeCity :: "string option \<Rightarrow> string option" where
  "normalizeCity city = normalizeName city"

definition normalizeCategory :: "string \<Rightarrow> string" where
  "normalizeCategory value =
     js_trim (collapse_ws (squeeze (\<lambda>c. c = CHR ''_'' \<or> c = CHR ''-'') False (js_lower value)))"

definition drop_prefix :: "string \<Rightarrow> string \<Rightarrow> string" where
  "drop_prefix p s = (if starts_with p s then drop (length p) s else s)"

text \<open>\<^verbatim>\<open>/^https?:\/\//\<close> and \<^verbatim>\<open>/\/.*$/\<close>, where the dot matches no line terminator.\<close>

definition drop_scheme :: "string \<Rightarrow> string" where
  "drop_scheme s = (if starts_with ''https://'' s then drop 8 s else drop_prefix ''http://'' s)"

definition line_terminator :: "char \<Rightarrow> bool" where
  "line_terminator c \<longleftrightarrow> c = CHR 0x0A \<or> c = CHR 0x0D"

fun drop_path :: "string \<Rightarrow> string" where
  "drop_path [] = []"
| "drop_path (c # s) = (if c = CHR ''/'' \<and> \<not> list_ex line_terminator s then [] else c # drop_path s)"

definition normalizeDomain :: "string option \<Rightarrow> string option" where
  "normalizeDomain domain =
     (case fact domain of None \<Rightarrow> None
      | Some d \<Rightarrow> non_empty (drop_path (drop_prefix ''www.'' (drop_scheme (js_lower (js_trim d))))))"

definition is_digit :: "char \<Rightarrow> bool" where
  "is_digit c \<longleftrightarrow> (let n = (of_char c :: nat) in 48 \<le> n \<and> n \<le> 57)"

definition COUNTRY_CODES :: "string list" where
  "COUNTRY_CODES = [''44'', ''972'', ''353'', ''1'']"

text \<open>\<^verbatim>\<open>/^0+(?=\d)/\<close> on a string of digits: all leading zeros but a last one.\<close>

fun strip_zeros :: "string \<Rightarrow> string" where
  "strip_zeros (c # d # s) = (if c = CHR ''0'' then strip_zeros (d # s) else c # d # s)"
| "strip_zeros s = s"

fun strip_country :: "string list \<Rightarrow> string \<Rightarrow> string" where
  "strip_country [] s = s"
| "strip_country (cc # ccs) s =
     (if starts_with cc s \<and> length s > length cc then drop (length cc) s else strip_country ccs s)"

definition normalizePhone :: "string option \<Rightarrow> string option" where
  "normalizePhone phone =
     (case fact phone of None \<Rightarrow> None
      | Some p \<Rightarrow>
        let trimmed = js_trim p;
            hadPlus = starts_with ''+'' trimmed \<or> starts_with ''00'' trimmed;
            digits0 = filter is_digit trimmed;
            digits = (if hadPlus then strip_zeros digits0 else digits0)
        in if digits = [] then None
           else if hadPlus then Some (strip_country COUNTRY_CODES (drop_prefix ''00'' digits))
           else Some (drop_prefix ''0'' digits))"

definition normalizeAddress :: "string option \<Rightarrow> string option" where
  "normalizeAddress address =
     (case fact address of None \<Rightarrow> None
      | Some a \<Rightarrow> non_empty (js_trim (collapse_ws
          (map (\<lambda>c. if c = CHR ''.'' \<or> c = CHR '','' \<or> c = CHR ''#'' then CHR '' '' else c)
             (js_lower (js_trim a))))))"

section \<open>Deduplication\<close>

record dedup_input =
  di_normalizedName :: "string option"
  di_normalizedDomain :: "string option"
  di_normalizedPhone :: "string option"
  di_normalizedAddress :: "string option"
  di_latitude :: "rat option"
  di_longitude :: "rat option"
  di_city :: "string option"

record dedup_candidate = dedup_input +
  dc_leadId :: string

type_synonym distance = "rat \<Rightarrow> rat \<Rightarrow> rat \<Rightarrow> rat \<Rightarrow> rat"

datatype match_tier =
    DOMAIN_ADDRESS | PHONE_ADDRESS | NAME_ADDRESS | TIER_BRANCH | TIER_AMBIGUOUS | TIER_NONE | PLACE_ID

datatype dedup_decision =
  DEDUP_DUPLICATE match_tier string | BRANCH string | AMBIGUOUS string | UNIQUE

text \<open>Two facts that are present and equal.\<close>

definition same_fact :: "string option \<Rightarrow> string option \<Rightarrow> bool" where
  "same_fact a b \<longleftrightarrow> fact a \<noteq> None \<and> b = a"

definition nearAddress ::
  "distance \<Rightarrow> rat \<Rightarrow> 'a dedup_input_scheme \<Rightarrow> 'b dedup_input_scheme \<Rightarrow> bool" where
  "nearAddress metres nearMeters a b \<longleftrightarrow>
     (if fact (di_normalizedAddress a) \<noteq> None \<and> fact (di_normalizedAddress b) \<noteq> None
         \<and> di_normalizedAddress a = di_normalizedAddress b then True
      else (case (di_latitude a, di_longitude a, di_latitude b, di_longitude b) of
        (Some la, Some lo, Some lb, Some lp) \<Rightarrow> metres la lo lb lp \<le> nearMeters
      | _ \<Rightarrow> False))"

definition sameCity :: "'a dedup_input_scheme \<Rightarrow> 'b dedup_input_scheme \<Rightarrow> bool" where
  "sameCity a b \<longleftrightarrow> normalizeCity (di_city a) \<noteq> None \<and> normalizeCity (di_city b) \<noteq> None
     \<and> normalizeCity (di_city a) = normalizeCity (di_city b)"

definition decideMatch ::
  "distance \<Rightarrow> dedup_input \<Rightarrow> dedup_candidate list \<Rightarrow> rat \<Rightarrow> dedup_decision" where
  "decideMatch metres input cs nearMeters =
     (case find (\<lambda>c. same_fact (di_normalizedDomain input) (di_normalizedDomain c) \<and> nearAddress metres nearMeters input c) cs of
        Some c \<Rightarrow> DEDUP_DUPLICATE DOMAIN_ADDRESS (dc_leadId c)
      | None \<Rightarrow>
     (case find (\<lambda>c. same_fact (di_normalizedPhone input) (di_normalizedPhone c) \<and> nearAddress metres nearMeters input c) cs of
        Some c \<Rightarrow> DEDUP_DUPLICATE PHONE_ADDRESS (dc_leadId c)
      | None \<Rightarrow>
     (case find (\<lambda>c. same_fact (di_normalizedName input) (di_normalizedName c) \<and> nearAddress metres nearMeters input c) cs of
        Some c \<Rightarrow> DEDUP_DUPLICATE NAME_ADDRESS (dc_leadId c)
      | None \<Rightarrow>
     (case find (\<lambda>c. (di_normalizedDomain input \<noteq> None \<and> di_normalizedDomain c = di_normalizedDomain input
            \<or> di_normalizedPhone input \<noteq> None \<and> di_normalizedPhone c = di_normalizedPhone input)
            \<and> \<not> nearAddress metres nearMeters input c) cs of
        Some c \<Rightarrow> BRANCH (dc_leadId c)
      | None \<Rightarrow>
     (case find (\<lambda>c. same_fact (di_normalizedName input) (di_normalizedName c) \<and> sameCity input c) cs of
        Some c \<Rightarrow> AMBIGUOUS (dc_leadId c)
      | None \<Rightarrow> UNIQUE)))))"

definition toDedupInput :: "'a dedup_input_scheme \<Rightarrow> dedup_input" where
  "toDedupInput r =
     \<lparr>di_normalizedName = di_normalizedName r, di_normalizedDomain = di_normalizedDomain r,
      di_normalizedPhone = di_normalizedPhone r, di_normalizedAddress = di_normalizedAddress r,
      di_latitude = di_latitude r, di_longitude = di_longitude r, di_city = di_city r\<rparr>"

section \<open>Leads and their events\<close>

datatype dedup_status = DS_UNIQUE | DS_AMBIGUOUS

record lead =
  ld_id :: string
  ld_businessName :: "string option"
  ld_normalizedName :: "string option"
  ld_domain :: "string option"
  ld_normalizedDomain :: "string option"
  ld_phone :: "string option"
  ld_normalizedPhone :: "string option"
  ld_formattedAddress :: "string option"
  ld_normalizedAddress :: "string option"
  ld_latitude :: "rat option"
  ld_longitude :: "rat option"
  ld_placeId :: "string option"
  ld_city :: "string option"
  ld_country :: "string option"
  ld_status :: lead_status
  ld_priority :: "string option"
  ld_source :: "string option"
  ld_dedupStatus :: dedup_status
  ld_duplicateOf :: "string option"
  ld_createdAt :: int
  ld_updatedAt :: int

datatype pipeline_event_type =
    LEAD_CREATED | LEAD_STATE_TRANSITION | INVALID_TRANSITION | NOTE | LEAD_COLLECTED
  | LEAD_DUPLICATE | LEAD_BRANCH | LEAD_AMBIGUOUS | LEAD_REJECTED | SOURCE_REFRESHED

record new_pipeline_event =
  pv_leadId :: "string option"
  pv_runId :: "string option"
  pv_type :: pipeline_event_type
  pv_fromStatus :: "lead_status option"
  pv_toStatus :: "lead_status option"
  pv_message :: "string option"
  pv_data :: json

record pipeline_event =
  pv_id :: string
  pv_new :: new_pipeline_event

datatype fact_type =
    FT_business_name | FT_official_domain | FT_official_website_url | FT_candidate_website_url
  | FT_google_place_id | FT_official_location_page_url | FT_domain | FT_phone | FT_contact_email
  | FT_contact_form_url | FT_formatted_address | FT_latitude | FT_longitude | FT_city | FT_country | FT_category
  | FT_rating | FT_review_count | FT_business_status | FT_ownership_type | FT_services | FT_opening_hours
  | FT_booking_url | FT_contact_timezone

datatype fact_source_type = src_mock | src_manual | src_website | src_google_places

record lead_fact =
  ff_id :: string
  ff_leadId :: string
  ff_factType :: fact_type
  ff_value :: string
  ff_normalizedValue :: "string option"
  ff_sourceType :: fact_source_type
  ff_sourceUrl :: "string option"
  ff_capturedAt :: int
  ff_confidence :: rat
  ff_supersededBy :: "string option"
  ff_supersededAt :: "int option"
  ff_isCurrent :: bool

record source_entity =
  se_id :: string
  se_provider :: string
  se_sourcePlaceId :: string
  se_leadId :: string
  se_firstSeenAt :: int
  se_lastSeenAt :: int

datatype request_status = RQ_OK | RQ_EMPTY | RQ_FAILED

record request_meta =
  rq_fieldMask :: string
  rq_pageIndex :: int
  rq_query :: json
  rq_resultCount :: int
  rq_billedTier :: "string option"
  rq_estimatedCostUsd :: "rat option"
  rq_status :: request_status
  rq_startedAt :: int
  rq_completedAt :: "int option"

record source_request = request_meta +
  rq_id :: string
  rq_runId :: string
  rq_campaign :: string
  rq_provider :: string

datatype processing_result = PR_CREATED | PR_DUPLICATE | PR_REFRESHED | PR_AMBIGUOUS

record source_observation =
  so_id :: string
  so_sourceEntityId :: string
  so_sourceRequestId :: string
  so_processingResult :: processing_result
  so_matchTier :: "match_tier option"

record lead_db =
  t_leads :: "lead list"
  t_pipeline_events :: "pipeline_event list"
  fk_runs :: "string list"
  t_lead_facts :: "lead_fact list"
  t_source_entities :: "source_entity list"
  t_source_requests :: "source_request list"
  t_source_observations :: "source_observation list"
  lead_uuids :: "nat \<Rightarrow> string"
  lead_drawn :: nat
  lead_clock :: "nat \<Rightarrow> int"
  lead_ticks :: nat

definition newUUID :: "('a lead_db_scheme, string) prog" where
  "newUUID s = (Inr (lead_uuids s (lead_drawn s)), s\<lparr>lead_drawn := Suc (lead_drawn s)\<rparr>)"

text \<open>\<^verbatim>\<open>new Date()\<close>.\<close>

definition readClock :: "('a lead_db_scheme, int) prog" where
  "readClock s = (Inr (lead_clock s (lead_ticks s)), s\<lparr>lead_ticks := Suc (lead_ticks s)\<rparr>)"

text \<open>The unit of work: a roll-back keeps the identifiers drawn and the clock.\<close>

definition rollback :: "'a lead_db_scheme \<Rightarrow> 'a lead_db_scheme \<Rightarrow> 'a lead_db_scheme" where
  "rollback s s1 = s\<lparr>lead_drawn := lead_drawn s1, lead_ticks := lead_ticks s1\<rparr>"

abbreviation lead_tx :: "('a lead_db_scheme, 'b) prog \<Rightarrow> ('a lead_db_scheme, 'b) prog" where
  "lead_tx \<equiv> transaction rollback"

definition lead_exists :: "'a lead_db_scheme \<Rightarrow> string \<Rightarrow> bool" where
  "lead_exists s lid \<longleftrightarrow> list_ex (\<lambda>l. ld_id l = lid) (t_leads s)"

text \<open>An insert fails when the primary key is taken or a reference has no row.\<close>

definition lead_create :: "lead \<Rightarrow> ('a lead_db_scheme, unit) prog" where
  "lead_create l s =
     (if lead_exists s (ld_id l) then (Inl (UniqueViolation ''leads_pkey''), s)
      else if (case ld_duplicateOf l of None \<Rightarrow> False | Some d \<Rightarrow> \<not> lead_exists s d \<and> d \<noteq> ld_id l)
      then (Inl (ForeignKeyViolation ''leads.duplicate_of''), s)
      else (Inr (), s\<lparr>t_leads := t_leads s @ [l]\<rparr>))"

definition lead_of :: "'a lead_db_scheme \<Rightarrow> string \<Rightarrow> lead option" where
  "lead_of s lid = find (\<lambda>l. ld_id l = lid) (t_leads s)"

definition lead_getById :: "string \<Rightarrow> ('a lead_db_scheme, lead option) prog" where
  "lead_getById lid = read_p (\<lambda>s. lead_of s lid)"

definition lead_updateStatus :: "string \<Rightarrow> lead_status \<Rightarrow> int \<Rightarrow> ('a lead_db_scheme, unit) prog" where
  "lead_updateStatus lid st tm = write_p (\<lambda>s. s\<lparr>t_leads :=
     update_where (\<lambda>l. ld_id l = lid) (\<lambda>l. l\<lparr>ld_status := st, ld_updatedAt := tm\<rparr>) (t_leads s)\<rparr>)"

definition setDedupStatus :: "string \<Rightarrow> dedup_status \<Rightarrow> string option \<Rightarrow> ('a lead_db_scheme, unit) prog" where
  "setDedupStatus lid st dup s =
     (if (case dup of None \<Rightarrow> False | Some d \<Rightarrow> \<not> lead_exists s d) \<and> lead_exists s lid
      then (Inl (ForeignKeyViolation ''leads.duplicate_of''), s)
      else (Inr (), s\<lparr>t_leads := update_where (\<lambda>l. ld_id l = lid)
        (\<lambda>l. l\<lparr>ld_dedupStatus := st, ld_duplicateOf := dup\<rparr>) (t_leads s)\<rparr>))"

text \<open>The rows are taken in table order.\<close>

definition findDedupCandidates :: "dedup_input \<Rightarrow> ('a lead_db_scheme, dedup_candidate list) prog" where
  "findDedupCandidates i = read_p (\<lambda>s.
     if fact (di_normalizedDomain i) = None \<and> fact (di_normalizedPhone i) = None
        \<and> fact (di_normalizedName i) = None then []
     else map (\<lambda>l. \<lparr>di_normalizedName = ld_normalizedName l, di_normalizedDomain = ld_normalizedDomain l,
                 di_normalizedPhone = ld_normalizedPhone l, di_normalizedAddress = ld_normalizedAddress l,
                 di_latitude = ld_latitude l, di_longitude = ld_longitude l, di_city = ld_city l,
                 dc_leadId = ld_id l\<rparr>)
       (take 50 (filter (\<lambda>l. ld_dedupStatus l = DS_UNIQUE
          \<and> (same_fact (di_normalizedDomain i) (ld_normalizedDomain l)
             \<or> same_fact (di_normalizedPhone i) (ld_normalizedPhone l)
             \<or> same_fact (di_normalizedName i) (ld_normalizedName l))) (t_leads s))))"

definition record_event :: "new_pipeline_event \<Rightarrow> ('a lead_db_scheme, unit) prog" where
  "record_event e = bind_p newUUID (\<lambda>eid s.
     if list_ex (\<lambda>r. pv_id r = eid) (t_pipeline_events s)
     then (Inl (UniqueViolation ''pipeline_events_pkey''), s)
     else if (case pv_leadId e of None \<Rightarrow> False | Some lid \<Rightarrow> \<not> lead_exists s lid)
     then (Inl (ForeignKeyViolation ''pipeline_events.lead_id''), s)
     else if (case pv_runId e of None \<Rightarrow> False | Some rid \<Rightarrow> rid \<notin> set (fk_runs s))
     then (Inl (ForeignKeyViolation ''pipeline_events.run_id''), s)
     else (Inr (), s\<lparr>t_pipeline_events := t_pipeline_events s @ [\<lparr>pv_id = eid, pv_new = e\<rparr>]\<rparr>))"

definition leadsEverReachedStatus :: "string list \<Rightarrow> lead_status \<Rightarrow> ('a lead_db_scheme, string list) prog" where
  "leadsEverReachedStatus ids st = read_p (\<lambda>s. remdups (List.map_filter (\<lambda>r.
     case pv_leadId (pv_new r) of None \<Rightarrow> None
     | Some lid \<Rightarrow> if lid \<in> set ids \<and> pv_type (pv_new r) = LEAD_STATE_TRANSITION
                  \<and> pv_toStatus (pv_new r) = Some st then Some lid else None) (t_pipeline_events s)))"

section \<open>Building leads\<close>

record lead_facts_input =
  lf_businessName :: "string option"
  lf_domain :: "string option"
  lf_phone :: "string option"
  lf_city :: "string option"
  lf_country :: "string option"
  lf_formattedAddress :: "string option"
  lf_latitude :: "rat option"
  lf_longitude :: "rat option"
  lf_officialDomain :: "string option"
  lf_contactEmail :: "string option"
  lf_contactFormUrl :: "string option"
  lf_category :: "string option"
  lf_rating :: "rat option"
  lf_reviewCount :: "rat option"
  lf_businessStatus :: "string option"
  lf_ownershipType :: "string option"

definition buildLeadFromFacts :: "string \<Rightarrow> lead_facts_input \<Rightarrow> string option \<Rightarrow> string \<Rightarrow> int \<Rightarrow> lead" where
  "buildLeadFromFacts lid facts placeId src now =
     \<lparr>ld_id = lid, ld_businessName = lf_businessName facts,
      ld_normalizedName = normalizeName (lf_businessName facts),
      ld_domain = lf_domain facts, ld_normalizedDomain = normalizeDomain (lf_domain facts),
      ld_phone = lf_phone facts, ld_normalizedPhone = normalizePhone (lf_phone facts),
      ld_formattedAddress = lf_formattedAddress facts,
      ld_normalizedAddress = normalizeAddress (lf_formattedAddress facts),
      ld_latitude = lf_latitude facts, ld_longitude = lf_longitude facts, ld_placeId = placeId,
      ld_city = lf_city facts, ld_country = lf_country facts, ld_status = NEW, ld_priority = None,
      ld_source = Some src, ld_dedupStatus = DS_UNIQUE, ld_duplicateOf = None,
      ld_createdAt = now, ld_updatedAt = now\<rparr>"

definition buildCandidateLead :: "string \<Rightarrow> string \<Rightarrow> string \<Rightarrow> int \<Rightarrow> lead" where
  "buildCandidateLead lid sourcePlaceId src now =
     \<lparr>ld_id = lid, ld_businessName = None, ld_normalizedName = None, ld_domain = None,
      ld_normalizedDomain = None, ld_phone = None, ld_normalizedPhone = None,
      ld_formattedAddress = None, ld_normalizedAddress = None, ld_latitude = None,
      ld_longitude = None, ld_placeId = Some sourcePlaceId, ld_city = None, ld_country = None,
      ld_status = NEW, ld_priority = None, ld_source = Some src, ld_dedupStatus = DS_UNIQUE,
      ld_duplicateOf = None, ld_createdAt = now, ld_updatedAt = now\<rparr>"

section \<open>The lead service\<close>

definition lead_event ::
  "string \<Rightarrow> pipeline_event_type \<Rightarrow> lead_status option \<Rightarrow> lead_status \<Rightarrow> string \<Rightarrow> new_pipeline_event" where
  "lead_event lid ty src dst msg =
     \<lparr>pv_leadId = Some lid, pv_runId = None, pv_type = ty, pv_fromStatus = src,
      pv_toStatus = Some dst, pv_message = Some msg, pv_data = JNull\<rparr>"

text \<open>The schema of the input requires a name.\<close>

record new_lead =
  nl_businessName :: string
  nl_domain :: "string option"
  nl_phone :: "string option"
  nl_placeId :: "string option"
  nl_city :: "string option"
  nl_country :: "string option"
  nl_formattedAddress :: "string option"
  nl_latitude :: "rat option"
  nl_longitude :: "rat option"
  nl_source :: "string option"

definition new_lead_facts :: "new_lead \<Rightarrow> lead_facts_input" where
  "new_lead_facts i =
     \<lparr>lf_businessName = Some (nl_businessName i), lf_domain = nl_domain i, lf_phone = nl_phone i,
      lf_city = nl_city i, lf_country = nl_country i, lf_formattedAddress = nl_formattedAddress i,
      lf_latitude = nl_latitude i, lf_longitude = nl_longitude i, lf_officialDomain = None,
      lf_contactEmail = None, lf_contactFormUrl = None, lf_category = None, lf_rating = None,
      lf_reviewCount = None, lf_businessStatus = None, lf_ownershipType = None\<rparr>"

definition createLead :: "new_lead \<Rightarrow> ('a lead_db_scheme, lead) prog" where
  "createLead i =
     (if nl_businessName i = [] then throw_p (PlainError ''businessName'')
      else bind_p readClock (\<lambda>now. bind_p newUUID (\<lambda>lid.
        let l = buildLeadFromFacts lid (new_lead_facts i) (nl_placeId i)
              (case nl_source i of None \<Rightarrow> ''mock'' | Some x \<Rightarrow> x) now
        in then_p (lead_create l)
          (then_p (record_event (lead_event lid LEAD_CREATED None NEW
             (''Lead created: '' @ nl_businessName i)))
          (return_p l)))))"

definition invalid_text :: "lead_status \<Rightarrow> lead_status \<Rightarrow> string" where
  "invalid_text src dst =
     ''Rejected invalid transition '' @ lead_status_str src @ '' -> '' @ lead_status_str dst"

definition hop_message :: "lead_status \<Rightarrow> lead_status \<Rightarrow> string" where
  "hop_message src dst = lead_status_str src @ '' -> '' @ lead_status_str dst"

definition lead_transition :: "string \<Rightarrow> lead_status \<Rightarrow> ('a lead_db_scheme, lead) prog" where
  "lead_transition lid dst =
     bind_p (lead_getById lid) (\<lambda>found.
       case found of
         None \<Rightarrow> throw_p (AppError ''LEAD_NOT_FOUND'' (''Lead not found: '' @ lid))
       | Some l \<Rightarrow>
           let src = ld_status l in
           if \<not> canTransition src dst
           then then_p (record_event (lead_event lid INVALID_TRANSITION (Some src) dst (invalid_text src dst)))
             (throw_p (InvalidStateTransitionError (lead_status_str src) (lead_status_str dst)))
           else bind_p readClock (\<lambda>now. then_p (lead_updateStatus lid dst now)
             (then_p (record_event (lead_event lid LEAD_STATE_TRANSITION (Some src) dst (hop_message src dst)))
             (return_p (l\<lparr>ld_status := dst, ld_updatedAt := now\<rparr>)))))"

end
