(* ===== verification/Lead_Facts.thy ===== *)
theory Lead_Facts
  imports Leads
begin

text \<open>
  Facts about leads with their provenance: the facts written from a provider's fact set
  (\<^verbatim>\<open>src/src/domain/lead-facts/build-facts.ts\<close>), and the store that keeps one current fact per lead
  and type and links what it supersedes (\<^verbatim>\<open>persistence/repositories/lead-facts.repo.ts\<close>). Numbers
  are rationals; \<open>num_str\<close> is the \<^verbatim>\<open>String\<close> of a floating-point number.
\<close>

section \<open>The facts of a fact set\<close>

record new_lead_fact =
  nf_leadId :: string
  nf_factType :: fact_type
  nf_value :: string
  nf_normalizedValue :: "string option"
  nf_sourceType :: fact_source_type
  nf_sourceUrl :: "string option"
  nf_capturedAt :: "int option"
  nf_confidence :: "rat option"

text \<open>Upper-casing on the repertoire of the strings, the micro sign and the florin sign aside.\<close>

definition upper_chars :: "char \<Rightarrow> string" where
  "upper_chars c =
     (let n = (of_char c :: nat) in
      if n = 223 then ''SS''
      else if (97 \<le> n \<and> n \<le> 122) \<or> (224 \<le> n \<and> n \<le> 254 \<and> n \<noteq> 247) then [char_of (n - 32)]
      else if n = 154 \<or> n = 156 \<or> n = 158 then [char_of (n - 16)]
      else if n = 255 then [char_of (159 :: nat)]
      else [c])"

definition js_upper :: "string \<Rightarrow> string" where
  "js_upper s = concat (map upper_chars s)"

text \<open>One \<^verbatim>\<open>push\<close>: absent and empty values give no fact.\<close>

definition fact_spec ::
  "fact_type \<Rightarrow> string option \<Rightarrow> string option \<Rightarrow> (fact_type \<times> string \<times> string option) list" where
  "fact_spec ty value nv =
     (case value of None \<Rightarrow> [] | Some v \<Rightarrow> if v = [] then [] else [(ty, v, nv)])"

definition fact_specs ::
  "(rat \<Rightarrow> string) \<Rightarrow> lead_facts_input \<Rightarrow> (fact_type \<times> string \<times> string option) list" where
  "fact_specs num_str f =
     fact_spec FT_business_name (lf_businessName f) (normalizeName (lf_businessName f))
   @ fact_spec FT_official_domain (lf_officialDomain f) (normalizeDomain (lf_officialDomain f))
   @ fact_spec FT_domain (lf_domain f) (normalizeDomain (lf_domain f))
   @ fact_spec FT_phone (lf_phone f) (normalizePhone (lf_phone f))
   @ fact_spec FT_contact_email (lf_contactEmail f) (map_option (\<lambda>s. js_lower (js_trim s)) (lf_contactEmail f))
   @ fact_spec FT_contact_form_url (lf_contactFormUrl f) None
   @ fact_spec FT_formatted_address (lf_formattedAddress f) (normalizeAddress (lf_formattedAddress f))
   @ fact_spec FT_latitude (map_option num_str (lf_latitude f)) None
   @ fact_spec FT_longitude (map_option num_str (lf_longitude f)) None
   @ fact_spec FT_city (lf_city f) (normalizeCity (lf_city f))
   @ fact_spec FT_country (lf_country f) (map_option (\<lambda>s. js_upper (js_trim s)) (lf_country f))
   @ fact_spec FT_category (lf_category f) (normalizeName (lf_category f))
   @ fact_spec FT_rating (map_option num_str (lf_rating f)) None
   @ fact_spec FT_review_count (map_option num_str (lf_reviewCount f)) None
   @ fact_spec FT_business_status (lf_businessStatus f) None
   @ fact_spec FT_ownership_type (lf_ownershipType f) None"

definition buildLeadFactInputs ::
  "(rat \<Rightarrow> string) \<Rightarrow> string \<Rightarrow> lead_facts_input \<Rightarrow> fact_source_type \<Rightarrow> string option \<Rightarrow> new_lead_fact list" where
  "buildLeadFactInputs num_str lid facts src url =
     map (\<lambda>(ty, v, n). \<lparr>nf_leadId = lid, nf_factType = ty, nf_value = v, nf_normalizedValue = n,
            nf_sourceType = src, nf_sourceUrl = url, nf_capturedAt = None, nf_confidence = None\<rparr>)
       (fact_specs num_str facts)"

section \<open>The store\<close>

definition fact_key :: "string \<Rightarrow> fact_type \<Rightarrow> lead_fact \<Rightarrow> bool" where
  "fact_key lid ty r \<longleftrightarrow> ff_leadId r = lid \<and> ff_factType r = ty"

definition demoteFact :: "string \<Rightarrow> fact_type \<Rightarrow> int \<Rightarrow> ('a lead_db_scheme, unit) prog" where
  "demoteFact lid ty now = write_p (\<lambda>s. s\<lparr>t_lead_facts :=
     update_where (\<lambda>r. fact_key lid ty r \<and> ff_isCurrent r)
       (\<lambda>r. r\<lparr>ff_isCurrent := False, ff_supersededAt := Some now\<rparr>) (t_lead_facts s)\<rparr>)"

text \<open>The insert checks the primary key, the reference to the lead, the range of the confidence and
  the unique index of the current facts.\<close>

definition insertFact :: "lead_fact \<Rightarrow> ('a lead_db_scheme, unit) prog" where
  "insertFact r s =
     (if list_ex (\<lambda>q. ff_id q = ff_id r) (t_lead_facts s)
      then (Inl (UniqueViolation ''lead_facts_pkey''), s)
      else if list_ex (\<lambda>q. fact_key (ff_leadId r) (ff_factType r) q \<and> ff_isCurrent q) (t_lead_facts s)
              \<and> ff_isCurrent r
      then (Inl (UniqueViolation ''lead_facts_current_uk''), s)
      else if ff_confidence r < 0 \<or> 1 < ff_confidence r
      then (Inl (CheckViolation ''lead_facts_confidence_ck''), s)
      else if \<not> lead_exists s (ff_leadId r)
      then (Inl (ForeignKeyViolation ''lead_facts.lead_id''), s)
      else (Inr (), s\<lparr>t_lead_facts := t_lead_facts s @ [r]\<rparr>))"

definition linkFact :: "string \<Rightarrow> fact_type \<Rightarrow> string \<Rightarrow> ('a lead_db_scheme, unit) prog" where
  "linkFact lid ty fid = write_p (\<lambda>s. s\<lparr>t_lead_facts :=
     update_where (\<lambda>r. fact_key lid ty r \<and> \<not> ff_isCurrent r \<and> ff_supersededBy r = None \<and> ff_id r \<noteq> fid)
       (\<lambda>r. r\<lparr>ff_supersededBy := Some fid\<rparr>) (t_lead_facts s)\<rparr>)"

definition writeCurrentFact :: "new_lead_fact \<Rightarrow> ('a lead_db_scheme, string) prog" where
  "writeCurrentFact f =
     bind_p newUUID (\<lambda>fid.
     bind_p (case nf_capturedAt f of Some t \<Rightarrow> return_p t | None \<Rightarrow> readClock) (\<lambda>now.
     then_p (demoteFact (nf_leadId f) (nf_factType f) now)
    (then_p (insertFact
       \<lparr>ff_id = fid, ff_leadId = nf_leadId f, ff_factType = nf_factType f, ff_value = nf_value f,
        ff_normalizedValue = nf_normalizedValue f, ff_sourceType = nf_sourceType f,
        ff_sourceUrl = nf_sourceUrl f, ff_capturedAt = now,
        ff_confidence = (case nf_confidence f of None \<Rightarrow> 1 | Some c \<Rightarrow> c), ff_supersededBy = None,
        ff_supersededAt = None, ff_isCurrent = True\<rparr>)
    (then_p (linkFact (nf_leadId f) (nf_factType f) fid)
    (return_p fid)))))"

definition getCurrentFact :: "string \<Rightarrow> fact_type \<Rightarrow> ('a lead_db_scheme, lead_fact option) prog" where
  "getCurrentFact lid ty = read_p (\<lambda>s. find (\<lambda>r. fact_key lid ty r \<and> ff_isCurrent r) (t_lead_facts s))"

definition listCurrentFacts :: "string \<Rightarrow> ('a lead_db_scheme, lead_fact list) prog" where
  "listCurrentFacts lid = read_p (\<lambda>s. filter (\<lambda>r. ff_leadId r = lid \<and> ff_isCurrent r) (t_lead_facts s))"

end
