(* ===== verification/Collection.thy ===== *)
theory Collection
  imports Lead_Facts
begin

text \<open>
  Collecting leads from a provider (\<^verbatim>\<open>src/src/pipeline/collect-leads.ts\<close>) over the tables of sources
  (\<^verbatim>\<open>persistence/repositories/source.repo.ts\<close>). The provider is the list of the pages it yields and
  whether its generator throws after them; each candidate is processed in a transaction of its
  own, and one that throws is counted and rolled back.
\<close>

section \<open>The tables of sources\<close>

record raw_candidate =
  rc_sourcePlaceId :: string
  rc_facts :: "lead_facts_input option"

record provider_page =
  pg_candidates :: "raw_candidate list"
  pg_request :: request_meta

record collect_options =
  co_runId :: string
  co_campaign :: string
  co_maxLeads :: int
  co_nearMeters :: rat
  co_factsSource :: fact_source_type

definition request_row :: "string \<Rightarrow> string \<Rightarrow> collect_options \<Rightarrow> request_meta \<Rightarrow> source_request" where
  "request_row qid provider opts m = request_meta.extend m
     \<lparr>rq_id = qid, rq_runId = co_runId opts, rq_campaign = co_campaign opts, rq_provider = provider\<rparr>"

definition recordRequest ::
  "string \<Rightarrow> collect_options \<Rightarrow> request_meta \<Rightarrow> ('a lead_db_scheme, string) prog" where
  "recordRequest provider opts m = bind_p newUUID (\<lambda>qid s.
     if list_ex (\<lambda>r. rq_id r = qid) (t_source_requests s)
     then (Inl (UniqueViolation ''source_requests_pkey''), s)
     else if co_runId opts \<notin> set (fk_runs s)
     then (Inl (ForeignKeyViolation ''source_requests.run_id''), s)
     else (Inr qid, s\<lparr>t_source_requests := t_source_requests s @ [request_row qid provider opts m]\<rparr>))"

definition entity_of :: "'a lead_db_scheme \<Rightarrow> string \<Rightarrow> string \<Rightarrow> source_entity option" where
  "entity_of s provider place =
     find (\<lambda>e. se_provider e = provider \<and> se_sourcePlaceId e = place) (t_source_entities s)"

definition findByProviderPlaceId ::
  "string \<Rightarrow> string \<Rightarrow> ('a lead_db_scheme, source_entity option) prog" where
  "findByProviderPlaceId provider place = read_p (\<lambda>s. entity_of s provider place)"

definition insertEntity :: "source_entity \<Rightarrow> ('a lead_db_scheme, unit) prog" where
  "insertEntity e s =
     (if list_ex (\<lambda>r. se_id r = se_id e) (t_source_entities s)
      then (Inl (UniqueViolation ''source_entities_pkey''), s)
      else if entity_of s (se_provider e) (se_sourcePlaceId e) \<noteq> None
      then (Inl (UniqueViolation ''source_entities_provider_placeid_uk''), s)
      else if \<not> lead_exists s (se_leadId e)
      then (Inl (ForeignKeyViolation ''source_entities.lead_id''), s)
      else (Inr (), s\<lparr>t_source_entities := t_source_entities s @ [e]\<rparr>))"

definition createEntity :: "string \<Rightarrow> string \<Rightarrow> string \<Rightarrow> ('a lead_db_scheme, source_entity) prog" where
  "createEntity provider place lid =
     bind_p readClock (\<lambda>now. bind_p newUUID (\<lambda>eid.
     let row = \<lparr>se_id = eid, se_provider = provider, se_sourcePlaceId = place, se_leadId = lid,
                se_firstSeenAt = now, se_lastSeenAt = now\<rparr>
     in then_p (insertEntity row) (return_p row)))"

definition touchLastSeen :: "string \<Rightarrow> int \<Rightarrow> ('a lead_db_scheme, unit) prog" where
  "touchLastSeen eid tm = write_p (\<lambda>s. s\<lparr>t_source_entities :=
     update_where (\<lambda>e. se_id e = eid) (\<lambda>e. e\<lparr>se_lastSeenAt := tm\<rparr>) (t_source_entities s)\<rparr>)"

definition createObservation ::
  "string \<Rightarrow> string \<Rightarrow> processing_result \<Rightarrow> match_tier option \<Rightarrow> ('a lead_db_scheme, unit) prog" where
  "createObservation eid qid res tier = bind_p newUUID (\<lambda>oid s.
     if list_ex (\<lambda>q. so_id q = oid) (t_source_observations s)
     then (Inl (UniqueViolation ''source_observations_pkey''), s)
     else if \<not> list_ex (\<lambda>e. se_id e = eid) (t_source_entities s)
     then (Inl (ForeignKeyViolation ''source_observations.source_entity_id''), s)
     else if \<not> list_ex (\<lambda>r. rq_id r = qid) (t_source_requests s)
     then (Inl (ForeignKeyViolation ''source_observations.source_request_id''), s)
     else (Inr (), s\<lparr>t_source_observations := t_source_observations s
            @ [\<lparr>so_id = oid, so_sourceEntityId = eid, so_sourceRequestId = qid,
                so_processingResult = res, so_matchTier = tier\<rparr>]\<rparr>))"

section \<open>One candidate\<close>

definition factsToDedupInput :: "lead_facts_input \<Rightarrow> dedup_input" where
  "factsToDedupInput f =
     \<lparr>di_normalizedName = normalizeName (lf_businessName f),
      di_normalizedDomain = normalizeDomain (lf_domain f),
      di_normalizedPhone = normalizePhone (lf_phone f),
      di_normalizedAddress = normalizeAddress (lf_formattedAddress f),
      di_latitude = lf_latitude f, di_longitude = lf_longitude f, di_city = lf_city f\<rparr>"

definition trimmed_fact :: "string option \<Rightarrow> bool" where
  "trimmed_fact x \<longleftrightarrow> (case x of None \<Rightarrow> False | Some v \<Rightarrow> js_trim v \<noteq> [])"

definition hasIdentity :: "lead_facts_input \<Rightarrow> bool" where
  "hasIdentity f \<longleftrightarrow>
     trimmed_fact (lf_businessName f) \<or> trimmed_fact (lf_domain f) \<or> trimmed_fact (lf_phone f)"

definition invalid_candidate :: "raw_candidate \<Rightarrow> bool" where
  "invalid_candidate c \<longleftrightarrow> js_trim (rc_sourcePlaceId c) = []
     \<or> (case rc_facts c of None \<Rightarrow> False | Some f \<Rightarrow> \<not> hasIdentity f)"

datatype candidate_result =
  CR_CREATED | CR_DUPLICATE | CR_REFRESHED | CR_AMBIGUOUS | CR_REJECTED | CR_BRANCH

record candidate_outcome =
  oc_result :: candidate_result
  oc_newLead :: bool
  oc_leadId :: "string option"

definition collect_event ::
  "collect_options \<Rightarrow> string option \<Rightarrow> pipeline_event_type \<Rightarrow> lead_status option \<Rightarrow> string \<Rightarrow> new_pipeline_event" where
  "collect_event opts lid ty dst msg =
     \<lparr>pv_leadId = lid, pv_runId = Some (co_runId opts), pv_type = ty, pv_fromStatus = None,
      pv_toStatus = dst, pv_message = Some msg, pv_data = JNull\<rparr>"

text \<open>The row a new candidate resolves to: the lead's identifier, how it was resolved, the tier and
  the event. Every branch but the duplicate inserts a lead.\<close>

record resolution =
  rs_leadId :: string
  rs_result :: candidate_result
  rs_tier :: match_tier
  rs_event :: pipeline_event_type
  rs_message :: string

fun tier_str :: "match_tier \<Rightarrow> string" where
  "tier_str DOMAIN_ADDRESS = ''DOMAIN_ADDRESS''"
| "tier_str PHONE_ADDRESS = ''PHONE_ADDRESS''"
| "tier_str NAME_ADDRESS = ''NAME_ADDRESS''"
| "tier_str TIER_BRANCH = ''BRANCH''"
| "tier_str TIER_AMBIGUOUS = ''AMBIGUOUS''"
| "tier_str TIER_NONE = ''NONE''"
| "tier_str PLACE_ID = ''PLACE_ID''"

definition insert_resolved ::
  "lead \<Rightarrow> candidate_result \<Rightarrow> match_tier \<Rightarrow> pipeline_event_type \<Rightarrow> string
   \<Rightarrow> ('a lead_db_scheme, resolution) prog" where
  "insert_resolved l res tier ev msg =
     then_p (lead_create l)
       (return_p \<lparr>rs_leadId = ld_id l, rs_result = res, rs_tier = tier, rs_event = ev, rs_message = msg\<rparr>)"

definition resolve_facts ::
  "distance \<Rightarrow> collect_options \<Rightarrow> string \<Rightarrow> string \<Rightarrow> int \<Rightarrow> lead_facts_input
   \<Rightarrow> ('a lead_db_scheme, resolution) prog" where
  "resolve_facts metres opts provider place now f =
     bind_p (findDedupCandidates (factsToDedupInput f)) (\<lambda>cs.
     case decideMatch metres (factsToDedupInput f) cs (co_nearMeters opts) of
       DEDUP_DUPLICATE tier lid \<Rightarrow> return_p
         \<lparr>rs_leadId = lid, rs_result = CR_DUPLICATE, rs_tier = tier, rs_event = LEAD_DUPLICATE,
          rs_message = ''Duplicate of '' @ lid @ '' ('' @ tier_str tier @ '')''\<rparr>
     | BRANCH related \<Rightarrow> bind_p newUUID (\<lambda>lid.
         insert_resolved (buildLeadFromFacts lid f (Some place) provider now) CR_BRANCH TIER_BRANCH
           LEAD_BRANCH (''Separate branch; related to '' @ related @ '' (not merged)''))
     | AMBIGUOUS other \<Rightarrow> bind_p newUUID (\<lambda>lid.
         insert_resolved
           ((buildLeadFromFacts lid f (Some place) provider now)
             \<lparr>ld_dedupStatus := DS_AMBIGUOUS, ld_duplicateOf := Some other\<rparr>)
           CR_AMBIGUOUS TIER_AMBIGUOUS LEAD_AMBIGUOUS
           (''Ambiguous vs '' @ other @ ''; flagged for review (not merged)''))
     | UNIQUE \<Rightarrow> bind_p newUUID (\<lambda>lid.
         insert_resolved (buildLeadFromFacts lid f (Some place) provider now) CR_CREATED TIER_NONE
           LEAD_COLLECTED
           (''Lead created from '' @ provider @ '' ('' @ (case lf_businessName f of None \<Rightarrow> ''unnamed'' | Some n \<Rightarrow> n) @ '')'')))"

definition resolve_candidate ::
  "distance \<Rightarrow> collect_options \<Rightarrow> string \<Rightarrow> string \<Rightarrow> int \<Rightarrow> raw_candidate
   \<Rightarrow> ('a lead_db_scheme, resolution) prog" where
  "resolve_candidate metres opts provider place now c =
     (case rc_facts c of
        None \<Rightarrow> bind_p newUUID (\<lambda>lid.
          insert_resolved (buildCandidateLead lid place provider now) CR_CREATED TIER_NONE LEAD_COLLECTED
            (''Candidate created from '' @ provider @ '' place '' @ place))
      | Some f \<Rightarrow> resolve_facts metres opts provider place now f)"

fun is_new :: "candidate_result \<Rightarrow> bool" where
  "is_new CR_CREATED = True"
| "is_new CR_BRANCH = True"
| "is_new CR_AMBIGUOUS = True"
| "is_new CR_DUPLICATE = False"
| "is_new CR_REFRESHED = False"
| "is_new CR_REJECTED = False"

text \<open>\<^verbatim>\<open>result === 'BRANCH' ? 'CREATED' : result\<close>.\<close>

fun stored_result :: "candidate_result \<Rightarrow> processing_result" where
  "stored_result CR_DUPLICATE = PR_DUPLICATE"
| "stored_result CR_AMBIGUOUS = PR_AMBIGUOUS"
| "stored_result CR_REFRESHED = PR_REFRESHED"
| "stored_result _ = PR_CREATED"

text \<open>The facts of a lead the candidate added.\<close>

definition write_facts ::
  "(rat \<Rightarrow> string) \<Rightarrow> raw_candidate \<Rightarrow> collect_options \<Rightarrow> resolution \<Rightarrow> ('a lead_db_scheme, unit) prog" where
  "write_facts num_str c opts r =
     (case rc_facts c of
        Some f \<Rightarrow> if is_new (rs_result r)
          then for_p (buildLeadFactInputs num_str (rs_leadId r) f (co_factsSource opts) None)
                 (\<lambda>nf. then_p (writeCurrentFact nf) (return_p ()))
          else return_p ()
      | None \<Rightarrow> return_p ())"

definition fresh_candidate ::
  "distance \<Rightarrow> (rat \<Rightarrow> string) \<Rightarrow> raw_candidate \<Rightarrow> string \<Rightarrow> string \<Rightarrow> string \<Rightarrow> collect_options \<Rightarrow> int
   \<Rightarrow> ('a lead_db_scheme, candidate_outcome) prog" where
  "fresh_candidate metres num_str c qid provider place opts now =
     bind_p (resolve_candidate metres opts provider place now c) (\<lambda>r.
     then_p (write_facts num_str c opts r)
    (bind_p (createEntity provider place (rs_leadId r)) (\<lambda>e.
     then_p (createObservation (se_id e) qid (stored_result (rs_result r)) (Some (rs_tier r)))
    (then_p (record_event (collect_event opts (Some (rs_leadId r)) (rs_event r)
               (if rs_result r = CR_DUPLICATE then None else Some NEW) (rs_message r)))
    (return_p \<lparr>oc_result = rs_result r, oc_newLead = is_new (rs_result r), oc_leadId = Some (rs_leadId r)\<rparr>)))))"

definition known_candidate ::
  "source_entity \<Rightarrow> string \<Rightarrow> string \<Rightarrow> string \<Rightarrow> collect_options \<Rightarrow> int
   \<Rightarrow> ('a lead_db_scheme, candidate_outcome) prog" where
  "known_candidate e qid provider place opts now =
     then_p (touchLastSeen (se_id e) now)
    (then_p (createObservation (se_id e) qid PR_REFRESHED (Some PLACE_ID))
    (then_p (record_event (collect_event opts (Some (se_leadId e)) SOURCE_REFRESHED None
               (''Re-observed '' @ provider @ '' place '' @ place)))
    (return_p \<lparr>oc_result = CR_REFRESHED, oc_newLead = False, oc_leadId = Some (se_leadId e)\<rparr>)))"

definition processCandidate ::
  "distance \<Rightarrow> (rat \<Rightarrow> string) \<Rightarrow> raw_candidate \<Rightarrow> string \<Rightarrow> string \<Rightarrow> collect_options \<Rightarrow> int
   \<Rightarrow> ('a lead_db_scheme, candidate_outcome) prog" where
  "processCandidate metres num_str c qid provider opts now =
     (let place = js_trim (rc_sourcePlaceId c) in
      if invalid_candidate c
      then then_p (record_event (collect_event opts None LEAD_REJECTED None
             (''Malformed candidate rejected (placeId=\"'' @ rc_sourcePlaceId c @ ''\")'')))
           (return_p \<lparr>oc_result = CR_REJECTED, oc_newLead = False, oc_leadId = None\<rparr>)
      else bind_p (findByProviderPlaceId provider place) (\<lambda>existing.
        case existing of
          Some e \<Rightarrow> known_candidate e qid provider place opts now
        | None \<Rightarrow> fresh_candidate metres num_str c qid provider place opts now))"

section \<open>The run\<close>

record collect_summary =
  cs_created :: int
  cs_duplicates :: int
  cs_refreshed :: int
  cs_ambiguous :: int
  cs_branches :: int
  cs_rejected :: int
  cs_failed :: int
  cs_requests :: int
  cs_pages :: int
  cs_stoppedAtCap :: bool
  cs_interrupted :: bool

definition empty_summary :: collect_summary where
  "empty_summary = \<lparr>cs_created = 0, cs_duplicates = 0, cs_refreshed = 0, cs_ambiguous = 0,
     cs_branches = 0, cs_rejected = 0, cs_failed = 0, cs_requests = 0, cs_pages = 0,
     cs_stoppedAtCap = False, cs_interrupted = False\<rparr>"

definition newLeadCount :: "collect_summary \<Rightarrow> int" where
  "newLeadCount u = cs_created u + cs_ambiguous u + cs_branches u"

fun count_result :: "candidate_result \<Rightarrow> collect_summary \<Rightarrow> collect_summary" where
  "count_result CR_CREATED u = u\<lparr>cs_created := cs_created u + 1\<rparr>"
| "count_result CR_DUPLICATE u = u\<lparr>cs_duplicates := cs_duplicates u + 1\<rparr>"
| "count_result CR_REFRESHED u = u\<lparr>cs_refreshed := cs_refreshed u + 1\<rparr>"
| "count_result CR_AMBIGUOUS u = u\<lparr>cs_ambiguous := cs_ambiguous u + 1\<rparr>"
| "count_result CR_BRANCH u = u\<lparr>cs_branches := cs_branches u + 1\<rparr>"
| "count_result CR_REJECTED u = u\<lparr>cs_rejected := cs_rejected u + 1\<rparr>"

text \<open>One candidate in its transaction, and the loop over the candidates of a page.\<close>

definition collect_one ::
  "distance \<Rightarrow> (rat \<Rightarrow> string) \<Rightarrow> string \<Rightarrow> collect_options \<Rightarrow> string \<Rightarrow> raw_candidate
   \<Rightarrow> ('a lead_db_scheme, candidate_outcome) prog" where
  "collect_one metres num_str provider opts qid c =
     lead_tx (bind_p readClock (\<lambda>now. processCandidate metres num_str c qid provider opts now))"

fun collect_page ::
  "distance \<Rightarrow> (rat \<Rightarrow> string) \<Rightarrow> string \<Rightarrow> collect_options \<Rightarrow> string \<Rightarrow> raw_candidate list
   \<Rightarrow> collect_summary \<Rightarrow> 'a lead_db_scheme \<Rightarrow> collect_summary \<times> 'a lead_db_scheme" where
  "collect_page metres num_str provider opts qid [] u s = (u, s)"
| "collect_page metres num_str provider opts qid (c # cs) u s =
     (if newLeadCount u \<ge> co_maxLeads opts then (u\<lparr>cs_stoppedAtCap := True\<rparr>, s)
      else (case collect_one metres num_str provider opts qid c s of
        (Inr outcome, s1) \<Rightarrow> collect_page metres num_str provider opts qid cs (count_result (oc_result outcome) u) s1
      | (Inl e, s1) \<Rightarrow> collect_page metres num_str provider opts qid cs (u\<lparr>cs_failed := cs_failed u + 1\<rparr>) s1))"

text \<open>The loop over the pages; a request row that cannot be written, like a throw of the generator,
  interrupts the run.\<close>

fun collect_pages ::
  "distance \<Rightarrow> (rat \<Rightarrow> string) \<Rightarrow> string \<Rightarrow> collect_options \<Rightarrow> provider_page list \<Rightarrow> bool
   \<Rightarrow> collect_summary \<Rightarrow> 'a lead_db_scheme \<Rightarrow> collect_summary \<times> 'a lead_db_scheme" where
  "collect_pages metres num_str provider opts [] fails u s = (u\<lparr>cs_interrupted := cs_interrupted u \<or> fails\<rparr>, s)"
| "collect_pages metres num_str provider opts (p # ps) fails u s =
     (let u1 = u\<lparr>cs_pages := cs_pages u + 1\<rparr> in
      case recordRequest provider opts (pg_request p) s of
        (Inl e, s1) \<Rightarrow> (u1\<lparr>cs_interrupted := True\<rparr>, s1)
      | (Inr qid, s1) \<Rightarrow>
          let u2 = u1\<lparr>cs_requests := cs_requests u1 + 1\<rparr> in
          if rq_status (pg_request p) = RQ_FAILED then (u2\<lparr>cs_interrupted := True\<rparr>, s1)
          else (case collect_page metres num_str provider opts qid (pg_candidates p) u2 s1 of
            (u3, s2) \<Rightarrow>
              if cs_stoppedAtCap u3 then (u3, s2)
              else collect_pages metres num_str provider opts ps fails u3 s2))"

definition collectLeads ::
  "distance \<Rightarrow> (rat \<Rightarrow> string) \<Rightarrow> string \<Rightarrow> provider_page list \<Rightarrow> bool \<Rightarrow> collect_options
   \<Rightarrow> 'a lead_db_scheme \<Rightarrow> collect_summary \<times> 'a lead_db_scheme" where
  "collectLeads metres num_str provider pages fails opts s =
     collect_pages metres num_str provider opts pages fails empty_summary s"

end
