(* ===== verification/Lead_History.thy ===== *)
theory Lead_History
  imports Collection "HOL-Library.Sublist"
begin

text \<open>
  What the operations on leads keep. The commands are the units of work the program runs on leads:
  creating a lead, changing its status, writing a fact, recording an API request and collecting one
  candidate. The frames shown for them: the events of leads grow, the recorded transitions of a lead
  replay to its status, and the facts of a kind form a chain of supersessions.
\<close>

section \<open>Commands\<close>

record collect_env =
  env_metres :: distance
  env_num_str :: "rat \<Rightarrow> string"

datatype lead_cmd =
    DoCreate new_lead
  | DoTransition string lead_status
  | DoFact new_lead_fact
  | DoRequest string collect_options request_meta
  | DoCandidate string collect_options string raw_candidate

definition then_unit :: "('s, 'a) prog \<Rightarrow> ('s, unit) prog" where
  "then_unit p = then_p p (return_p ())"

fun lead_exec :: "collect_env \<Rightarrow> lead_cmd \<Rightarrow> ('a lead_db_scheme, unit) prog" where
  "lead_exec env (DoCreate i) = then_unit (lead_tx (createLead i))"
| "lead_exec env (DoTransition lid dst) = then_unit (lead_tx (lead_transition lid dst))"
| "lead_exec env (DoFact f) = then_unit (lead_tx (writeCurrentFact f))"
| "lead_exec env (DoRequest provider opts m) = then_unit (recordRequest provider opts m)"
| "lead_exec env (DoCandidate provider opts qid c) =
     then_unit (collect_one (env_metres env) (env_num_str env) provider opts qid c)"

section \<open>Statements\<close>

lemma newUUID_run: "newUUID s = (Inr (lead_uuids s (lead_drawn s)), s\<lparr>lead_drawn := Suc (lead_drawn s)\<rparr>)"
  by (simp add: newUUID_def)

lemma record_event_cases:
  obtains (ok) r where "record_event e s = (Inr (), s\<lparr>lead_drawn := Suc (lead_drawn s), t_pipeline_events := t_pipeline_events s @ [r]\<rparr>)"
      "pv_new r = e" "\<And>lid. pv_leadId e = Some lid \<Longrightarrow> lead_exists s lid"
  | (err) x where "record_event e s = (Inl x, s\<lparr>lead_drawn := Suc (lead_drawn s)\<rparr>)"
proof -
  show thesis
  proof (cases "record_event e s")
    case (Pair a b)
    then show thesis
      using ok [of "\<lparr>pv_id = lead_uuids s (lead_drawn s), pv_new = e\<rparr>"] err
      unfolding record_event_def bind_p_def newUUID_def
      by (auto simp: lead_exists_def split: if_splits option.splits)
  qed
qed

lemma lead_create_cases:
  obtains (ok) "lead_create l s = (Inr (), s\<lparr>t_leads := t_leads s @ [l]\<rparr>)" "\<not> lead_exists s (ld_id l)"
  | (err) x where "lead_create l s = (Inl x, s)"
proof (cases "lead_create l s")
  case (Pair a b)
  then show thesis
    using ok err unfolding lead_create_def by (auto split: if_splits)
qed

text \<open>The statements that touch neither the leads nor their events: the fields they leave alone.\<close>

definition same_history :: "'a lead_db_scheme \<Rightarrow> 'a lead_db_scheme \<Rightarrow> bool" where
  "same_history s s' \<longleftrightarrow> t_leads s' = t_leads s \<and> t_pipeline_events s' = t_pipeline_events s"

interpretation same_hist: prog_frame same_history
  by unfold_locales (auto simp: same_history_def)

named_theorems same_history_intros

lemmas [same_history_intros] = same_hist.keeps_all

lemma same_history_rollback: "same_history s s1 \<Longrightarrow> same_history s (rollback s s1)"
  by (simp add: same_history_def rollback_def)

lemma same_history_statements [same_history_intros]:
  "keeps same_history newUUID" "keeps same_history readClock"
  "keeps same_history (touchLastSeen eid tm)" "keeps same_history (insertEntity ent)"
  "keeps same_history (demoteFact lid ty now)" "keeps same_history (insertFact r)"
  "keeps same_history (linkFact lid ty fid)" "keeps same_history (findDedupCandidates i)"
  "keeps same_history (findByProviderPlaceId provider place)"
  by (auto simp: keeps_def newUUID_def readClock_def same_history_def touchLastSeen_def insertEntity_def
      demoteFact_def insertFact_def linkFact_def findDedupCandidates_def findByProviderPlaceId_def)

lemma same_history_bind_newUUID:
  "(\<And>x s. same_history s (snd (f x s))) \<Longrightarrow> keeps same_history (bind_p newUUID f)"
  by (intro same_hist.keeps_bind same_history_statements) (simp add: keeps_def)

lemma same_history_rows [same_history_intros]:
  "keeps same_history (recordRequest provider opts m)"
  "keeps same_history (createObservation eid qid res tier)"
  unfolding recordRequest_def createObservation_def
  by (rule same_history_bind_newUUID; auto simp: same_history_def)+

lemma same_history_writeCurrentFact [same_history_intros]: "keeps same_history (writeCurrentFact f)"
  unfolding writeCurrentFact_def by (intro same_history_intros)

lemma same_history_createEntity [same_history_intros]: "keeps same_history (createEntity provider place lid)"
  unfolding createEntity_def Let_def by (intro same_history_intros)

text \<open>What only grows: the events, the known places and the leads.\<close>

definition grows :: "'a lead_db_scheme \<Rightarrow> 'a lead_db_scheme \<Rightarrow> bool" where
  "grows s s' \<longleftrightarrow> prefix (t_pipeline_events s) (t_pipeline_events s')
     \<and> prefix (map ld_id (t_leads s)) (map ld_id (t_leads s'))
     \<and> prefix (map (\<lambda>e. (se_provider e, se_sourcePlaceId e)) (t_source_entities s))
         (map (\<lambda>e. (se_provider e, se_sourcePlaceId e)) (t_source_entities s'))"

interpretation grow: prog_frame grows
proof
  show "grows s s" for s :: "'a lead_db_scheme"
    by (simp add: grows_def)
  show "grows s u" if "grows s t" "grows t u" for s t u :: "'a lead_db_scheme"
    using that unfolding grows_def by (blast intro: prefix_order.trans)
qed

named_theorems grows_intros

lemmas [grows_intros] = grow.keeps_all

lemma grows_eq:
  "t_pipeline_events s' = t_pipeline_events s \<Longrightarrow> map ld_id (t_leads s') = map ld_id (t_leads s) \<Longrightarrow>
   map (\<lambda>e. (se_provider e, se_sourcePlaceId e)) (t_source_entities s') =
   map (\<lambda>e. (se_provider e, se_sourcePlaceId e)) (t_source_entities s) \<Longrightarrow> grows s s'"
  by (simp add: grows_def)

lemma grows_statements [grows_intros]:
  "keeps grows newUUID" "keeps grows readClock" "keeps grows (touchLastSeen eid tm)"
  "keeps grows (demoteFact lid ty now)" "keeps grows (linkFact lid ty fid)"
  "keeps grows (findDedupCandidates i)" "keeps grows (findByProviderPlaceId provider place)"
  "keeps grows (lead_getById lid)" "keeps grows (lead_updateStatus lid st tm)"
  unfolding newUUID_def readClock_def touchLastSeen_def demoteFact_def linkFact_def
    findDedupCandidates_def findByProviderPlaceId_def lead_getById_def lead_updateStatus_def
  by (simp_all add: keeps_def grows_eq map_update_where_same)

lemma grows_insertEntity [grows_intros]: "keeps grows (insertEntity ent)"
  unfolding keeps_def insertEntity_def by (simp add: grows_def)

lemma grows_insertFact [grows_intros]: "keeps grows (insertFact r)"
  unfolding keeps_def insertFact_def by (simp add: grows_eq)

lemma grows_lead_create [grows_intros]: "keeps grows (lead_create l)"
  unfolding keeps_def lead_create_def by (simp add: grows_def)

lemma grows_bind_newUUID: "(\<And>x s. grows s (snd (f x s))) \<Longrightarrow> keeps grows (bind_p newUUID f)"
  by (intro grow.keeps_bind grows_statements) (simp add: keeps_def)

lemma grows_rows [grows_intros]:
  "keeps grows (recordRequest provider opts m)" "keeps grows (createObservation eid qid res tier)"
  "keeps grows (record_event e)"
  unfolding recordRequest_def createObservation_def record_event_def
  by (rule grows_bind_newUUID; simp add: grows_def)+

lemma grows_writeCurrentFact [grows_intros]: "keeps grows (writeCurrentFact f)"
  unfolding writeCurrentFact_def by (intro grows_intros)

lemma grows_createEntity [grows_intros]: "keeps grows (createEntity provider place lid)"
  unfolding createEntity_def Let_def by (intro grows_intros)

lemma grows_insert_resolved [grows_intros]: "keeps grows (insert_resolved l res tier ev msg)"
  unfolding insert_resolved_def by (intro grows_intros)

lemma grows_decision [grows_intros]:
  "(\<And>t l. keeps grows (f t l)) \<Longrightarrow> (\<And>l. keeps grows (g l)) \<Longrightarrow> (\<And>l. keeps grows (h l)) \<Longrightarrow>
   keeps grows u \<Longrightarrow> keeps grows (case d of DEDUP_DUPLICATE t l \<Rightarrow> f t l | BRANCH l \<Rightarrow> g l | AMBIGUOUS l \<Rightarrow> h l | UNIQUE \<Rightarrow> u)"
  by (cases d) simp_all

lemma grows_processCandidate [grows_intros]:
  "keeps grows (processCandidate metres num_str c qid provider opts now)"
  unfolding processCandidate_def Let_def known_candidate_def fresh_candidate_def write_facts_def resolve_candidate_def resolve_facts_def
  by (intro grows_intros)

lemma grows_rollback: "grows s (rollback s s1)"
  by (simp add: grows_def rollback_def)

lemma grows_lead_tx [grows_intros]: "keeps grows p \<Longrightarrow> keeps grows (lead_tx p)"
  by (rule grow.keeps_transaction [OF grows_rollback])

lemma grows_services [grows_intros]: "keeps grows (createLead i)" "keeps grows (lead_transition lid dst)"
  unfolding createLead_def lead_transition_def Let_def by (intro grows_intros)+

lemma grows_lead_exec: "keeps grows (lead_exec env c)"
  by (cases c) (auto simp: then_unit_def collect_one_def intro!: grows_intros)

interpretation growing: prog_system grows "lead_exec env" for env
  by unfold_locales (rule grows_lead_exec)

section \<open>The recorded transitions of a lead\<close>

definition transitions_of ::
  "'a lead_db_scheme \<Rightarrow> string \<Rightarrow> (lead_status option \<times> lead_status option) list" where
  "transitions_of s lid = map (\<lambda>r. (pv_fromStatus (pv_new r), pv_toStatus (pv_new r)))
     (filter (\<lambda>r. pv_leadId (pv_new r) = Some lid \<and> pv_type (pv_new r) = LEAD_STATE_TRANSITION)
       (t_pipeline_events s))"

text \<open>The transitions lead from a status to a status, each allowed and starting where the one before
  ended.\<close>

fun lead_replays ::
  "lead_status \<Rightarrow> (lead_status option \<times> lead_status option) list \<Rightarrow> lead_status \<Rightarrow> bool" where
  "lead_replays st [] fin \<longleftrightarrow> fin = st"
| "lead_replays st ((Some a, Some b) # es) fin \<longleftrightarrow> a = st \<and> canTransition a b \<and> lead_replays b es fin"
| "lead_replays st _ fin \<longleftrightarrow> False"

lemma lead_replays_snoc:
  "lead_replays st (es @ [(Some a, Some b)]) fin \<longleftrightarrow>
     lead_replays st es a \<and> canTransition a b \<and> fin = b"
  by (induction st es fin rule: lead_replays.induct) auto

definition lead_inv :: "'a lead_db_scheme \<Rightarrow> bool" where
  "lead_inv s \<longleftrightarrow> distinct (map ld_id (t_leads s))
     \<and> (\<forall>r\<in>set (t_pipeline_events s). \<forall>lid. pv_leadId (pv_new r) = Some lid \<longrightarrow> lead_exists s lid)
     \<and> (\<forall>r\<in>set (t_pipeline_events s). pv_type (pv_new r) \<noteq> INVALID_TRANSITION)
     \<and> (\<forall>l\<in>set (t_leads s). lead_replays NEW (transitions_of s (ld_id l)) (ld_status l))"

definition keeps_inv :: "'a lead_db_scheme \<Rightarrow> 'a lead_db_scheme \<Rightarrow> bool" where
  "keeps_inv s s' \<longleftrightarrow> (lead_inv s \<longrightarrow> lead_inv s')"

interpretation inv: prog_frame keeps_inv
  by unfold_locales (auto simp: keeps_inv_def)

named_theorems inv_intros

lemmas [inv_intros] = inv.keeps_all

lemma same_history_inv: "same_history s s' \<Longrightarrow> keeps_inv s s'"
  by (simp add: same_history_def keeps_inv_def lead_inv_def transitions_of_def lead_exists_def)

lemma inv_same_history: "keeps same_history p \<Longrightarrow> keeps keeps_inv p"
  by (erule keeps_weaken) (rule same_history_inv)

lemmas inv_statements [inv_intros] =
  same_history_statements [THEN inv_same_history] same_history_rows [THEN inv_same_history]
  same_history_writeCurrentFact [THEN inv_same_history] same_history_createEntity [THEN inv_same_history]

lemma inv_rollback: "keeps_inv s (rollback s s1)"
  by (rule same_history_inv) (simp add: same_history_def rollback_def)

lemma inv_lead_tx [inv_intros]: "keeps keeps_inv p \<Longrightarrow> keeps keeps_inv (lead_tx p)"
  by (rule inv.keeps_transaction [OF inv_rollback])

lemma lead_inv_event:
  assumes "lead_inv s" and "pv_type (pv_new r) \<notin> {LEAD_STATE_TRANSITION, INVALID_TRANSITION}"
    and "\<And>lid. pv_leadId (pv_new r) = Some lid \<Longrightarrow> lead_exists s lid"
  shows "lead_inv (s\<lparr>lead_drawn := n, t_pipeline_events := t_pipeline_events s @ [r]\<rparr>)"
  using assms by (auto simp: lead_inv_def transitions_of_def lead_exists_def)

lemma inv_record_event [inv_intros]:
  assumes "pv_type e \<notin> {LEAD_STATE_TRANSITION, INVALID_TRANSITION}"
  shows "keeps keeps_inv (record_event e)"
proof (rule keepsI)
  fix s :: "'a lead_db_scheme" and x s'
  assume run: "record_event e s = (x, s')"
  show "keeps_inv s s'"
  proof (cases rule: record_event_cases [of e s])
    case (ok r)
    then show ?thesis
      using run assms by (auto simp: keeps_inv_def intro: lead_inv_event)
  next
    case (err y)
    then have "same_history s s'"
      using run by (auto simp: same_history_def)
    then show ?thesis by (rule same_history_inv)
  qed
qed

lemma no_transitions:
  assumes "lead_inv s" and "\<not> lead_exists s lid"
  shows "transitions_of s lid = []"
  using assms unfolding lead_inv_def transitions_of_def by (auto simp: filter_empty_conv)

lemma inv_lead_create [inv_intros]:
  assumes "ld_status l = NEW"
  shows "keeps keeps_inv (lead_create l)"
proof (rule keepsI)
  fix s :: "'a lead_db_scheme" and x s'
  assume run: "lead_create l s = (x, s')"
  show "keeps_inv s s'"
  proof (cases rule: lead_create_cases [of l s])
    case ok
    show ?thesis
      unfolding keeps_inv_def
    proof
      assume inv: "lead_inv s"
      have tr: "transitions_of s' = transitions_of s" and s': "t_leads s' = t_leads s @ [l]"
        "t_pipeline_events s' = t_pipeline_events s"
        using run ok by (auto simp: transitions_of_def fun_eq_iff)
      have "ld_id l \<notin> set (map ld_id (t_leads s))"
        using ok(2) by (auto simp: lead_exists_def list_ex_iff)
      then show "lead_inv s'"
        using inv no_transitions [OF inv ok(2)] assms
        unfolding lead_inv_def tr s' by (auto simp: lead_exists_def s' list_ex_iff)
    qed
  next
    case (err y)
    then show ?thesis
      using run inv.refl by auto
  qed
qed

lemma built_new [simp]:
  "ld_status (buildLeadFromFacts lid f place src now) = NEW"
  "ld_status (buildCandidateLead lid pl src now) = NEW"
  by (simp_all add: buildLeadFromFacts_def buildCandidateLead_def)

lemma inv_decision [inv_intros]:
  "(\<And>t l. keeps keeps_inv (f t l)) \<Longrightarrow> (\<And>l. keeps keeps_inv (g l)) \<Longrightarrow> (\<And>l. keeps keeps_inv (h l)) \<Longrightarrow>
   keeps keeps_inv u \<Longrightarrow>
   keeps keeps_inv (case d of DEDUP_DUPLICATE t l \<Rightarrow> f t l | BRANCH l \<Rightarrow> g l | AMBIGUOUS l \<Rightarrow> h l | UNIQUE \<Rightarrow> u)"
  by (cases d) simp_all

lemma inv_resolve: "keeps keeps_inv (resolve_candidate metres opts provider place now c)"
  unfolding resolve_candidate_def resolve_facts_def insert_resolved_def by (intro inv_intros) simp_all

lemma insert_resolved_run:
  assumes "insert_resolved l res tier ev msg s = (Inr r, s')"
  shows "s' = s\<lparr>t_leads := t_leads s @ [l]\<rparr>" "rs_event r = ev" "rs_result r = res" "rs_leadId r = ld_id l"
  using assms by (cases rule: lead_create_cases [of l s]; auto simp: insert_resolved_def then_p_def)+

text \<open>How a candidate is resolved: a duplicate leaves the leads alone, anything else adds one.\<close>

lemma resolve_cases:
  assumes "resolve_candidate metres opts provider place now c s = (Inr r, s')"
  obtains (dup) "rs_result r = CR_DUPLICATE" "rs_event r = LEAD_DUPLICATE" "s' = s"
  | (new) l where "is_new (rs_result r)" "rs_event r \<in> {LEAD_COLLECTED, LEAD_BRANCH, LEAD_AMBIGUOUS}"
      "t_leads s' = t_leads s @ [l]" "rs_leadId r = ld_id l"
proof (cases "rc_facts c")
  case None
  then show thesis
    using assms by (intro new) (auto simp: resolve_candidate_def newUUID_run dest: insert_resolved_run)
next
  case (Some f)
  let ?i = "factsToDedupInput f"
  obtain cs where cs: "findDedupCandidates ?i s = (Inr cs, s)"
    by (simp add: findDedupCandidates_def)
  show thesis
  proof (cases "decideMatch metres ?i cs (co_nearMeters opts)")
    case (DEDUP_DUPLICATE t lid)
    then show thesis
      using assms Some cs by (intro dup) (auto simp: resolve_candidate_def resolve_facts_def)
  next
    case (BRANCH x)
    then show thesis
      using assms Some cs
      by (intro new) (auto simp: resolve_candidate_def resolve_facts_def newUUID_run dest: insert_resolved_run)
  next
    case (AMBIGUOUS x)
    then show thesis
      using assms Some cs
      by (intro new) (auto simp: resolve_candidate_def resolve_facts_def newUUID_run dest: insert_resolved_run)
  next
    case UNIQUE
    then show thesis
      using assms Some cs
      by (intro new) (auto simp: resolve_candidate_def resolve_facts_def newUUID_run simp del: append.simps
          dest: insert_resolved_run split: option.splits)
  qed
qed

lemma resolve_event:
  assumes "resolve_candidate metres opts provider place now c s = (Inr r, s')"
  shows "rs_event r \<noteq> LEAD_STATE_TRANSITION" "rs_event r \<noteq> INVALID_TRANSITION"
  by (cases rule: resolve_cases [OF assms]; auto)+

lemma inv_fresh: "keeps keeps_inv (fresh_candidate metres num_str c qid provider place opts now)"
  unfolding fresh_candidate_def write_facts_def
  by (rule inv.keeps_bind_result [OF inv_resolve]) (intro inv_intros, auto simp: collect_event_def dest: resolve_event)

lemma inv_processCandidate [inv_intros]:
  "keeps keeps_inv (processCandidate metres num_str c qid provider opts now)"
  unfolding processCandidate_def Let_def known_candidate_def
  by (intro inv_intros inv_fresh) (simp_all add: collect_event_def)

lemma inv_createLead [inv_intros]: "keeps keeps_inv (createLead i)"
  unfolding createLead_def Let_def by (intro inv_intros) (simp_all add: lead_event_def)

section \<open>The change of a status\<close>

text \<open>What a change of status writes, when its event can be written.\<close>

definition transitioned ::
  "'a lead_db_scheme \<Rightarrow> string \<Rightarrow> lead \<Rightarrow> lead_status \<Rightarrow> 'a lead_db_scheme \<Rightarrow> bool" where
  "transitioned s lid l dst s' \<longleftrightarrow> (\<exists>r now.
     t_leads s' = update_where (\<lambda>l. ld_id l = lid) (\<lambda>l. l\<lparr>ld_status := dst, ld_updatedAt := now\<rparr>) (t_leads s)
     \<and> t_pipeline_events s' = t_pipeline_events s @ [r]
     \<and> pv_new r = lead_event lid LEAD_STATE_TRANSITION (Some (ld_status l)) dst (hop_message (ld_status l) dst))"

lemma lead_transition_ok:
  assumes "lead_transition lid dst s = (Inr x, s')"
  obtains l where "lead_of s lid = Some l" "canTransition (ld_status l) dst" "transitioned s lid l dst s'"
    "x = l\<lparr>ld_status := dst, ld_updatedAt := lead_clock s (lead_ticks s)\<rparr>"
proof (cases "lead_of s lid")
  case None
  then show thesis
    using assms by (simp add: lead_transition_def lead_getById_def prog_simps)
next
  case (Some l)
  note found = Some
  let ?e = "lead_event lid LEAD_STATE_TRANSITION (Some (ld_status l)) dst (hop_message (ld_status l) dst)"
  let ?t = "s\<lparr>lead_ticks := Suc (lead_ticks s), t_leads := update_where (\<lambda>l. ld_id l = lid)
    (\<lambda>l. l\<lparr>ld_status := dst, ld_updatedAt := lead_clock s (lead_ticks s)\<rparr>) (t_leads s)\<rparr>"
  have can: "canTransition (ld_status l) dst"
    using assms found by (auto simp: lead_transition_def lead_getById_def Let_def prog_simps split: if_splits)
  then have rec: "record_event ?e ?t = (Inr (), s')" and x: "x = l\<lparr>ld_status := dst, ld_updatedAt := lead_clock s (lead_ticks s)\<rparr>"
    using assms found
    by (auto simp: lead_transition_def lead_getById_def Let_def prog_simps readClock_def lead_updateStatus_def)
  show thesis
  proof (cases rule: record_event_cases [of ?e ?t])
    case (ok r)
    then show thesis
      using rec found can x by (intro that [of l]) (auto simp: transitioned_def)
  next
    case (err y)
    then show thesis using rec by simp
  qed
qed

lemma lead_of_SomeD: "lead_of s lid = Some l \<Longrightarrow> l \<in> set (t_leads s) \<and> ld_id l = lid"
  by (auto simp: lead_of_def find_Some_iff)

lemma lead_of_unique:
  "distinct (map ld_id (t_leads s)) \<Longrightarrow> l \<in> set (t_leads s) \<Longrightarrow> lead_of s (ld_id l) = Some l"
  by (cases "lead_of s (ld_id l)")
    (auto simp: lead_of_def find_None_iff find_Some_iff distinct_map inj_on_def)

lemma transitioned_inv:
  assumes inv: "lead_inv s" and found: "lead_of s lid = Some l"
    and can: "canTransition (ld_status l) dst" and tr: "transitioned s lid l dst s'"
  shows "lead_inv s'"
proof -
  obtain r now where leads: "t_leads s' = update_where (\<lambda>l. ld_id l = lid)
        (\<lambda>l. l\<lparr>ld_status := dst, ld_updatedAt := now\<rparr>) (t_leads s)"
    and events: "t_pipeline_events s' = t_pipeline_events s @ [r]"
    and r: "pv_new r = lead_event lid LEAD_STATE_TRANSITION (Some (ld_status l)) dst (hop_message (ld_status l) dst)"
    using tr by (auto simp: transitioned_def)
  have l: "l \<in> set (t_leads s)" "ld_id l = lid"
    using lead_of_SomeD [OF found] by simp_all
  have ids: "map ld_id (t_leads s') = map ld_id (t_leads s)"
    unfolding leads by (rule map_update_where_same) simp
  have ex: "lead_exists s' = lead_exists s"
    using arg_cong [OF ids, of set] by (auto simp: lead_exists_def list_ex_iff fun_eq_iff image_iff set_eq_iff; metis)
  have own: "transitions_of s' lid = transitions_of s lid @ [(Some (ld_status l), Some dst)]"
    and other: "k \<noteq> lid \<Longrightarrow> transitions_of s' k = transitions_of s k" for k
    by (simp_all add: transitions_of_def events r lead_event_def)
  have replay: "lead_replays NEW (transitions_of s' (ld_id q)) (ld_status q)" if q: "q \<in> set (t_leads s')" for q
    using q unfolding leads
  proof (cases rule: in_update_whereE)
    case 1
    then show ?thesis
      using inv other by (simp add: lead_inv_def)
  next
    case (2 p)
    then have "p = l"
      using inv l by (auto simp: lead_inv_def distinct_map inj_on_def)
    then show ?thesis
      using 2 inv l can own by (auto simp: lead_inv_def lead_replays_snoc)
  qed
  show ?thesis
    using inv replay l r unfolding lead_inv_def ids ex events
    by (auto simp: lead_event_def lead_exists_def list_ex_iff)
qed

lemma inv_transition [inv_intros]: "keeps keeps_inv (lead_tx (lead_transition lid dst))"
proof (rule keepsI)
  fix s :: "'a lead_db_scheme" and x s'
  assume run: "lead_tx (lead_transition lid dst) s = (x, s')"
  show "keeps_inv s s'"
  proof (cases x)
    case (Inl e)
    then show ?thesis
      using run by (auto simp: transaction_Inl inv_rollback)
  next
    case (Inr l)
    then have "lead_transition lid dst s = (Inr l, s')"
      using run by (simp add: prog_simps)
    then show ?thesis
      unfolding keeps_inv_def by (auto elim!: lead_transition_ok intro: transitioned_inv)
  qed
qed

lemma inv_lead_exec: "keeps keeps_inv (lead_exec env c)"
  by (cases c) (auto simp: then_unit_def collect_one_def intro!: inv_intros)

interpretation history: prog_system keeps_inv "lead_exec env" for env
  by unfold_locales (rule inv_lead_exec)

section \<open>The facts of a kind\<close>

definition fact_rows :: "'a lead_db_scheme \<Rightarrow> string \<Rightarrow> fact_type \<Rightarrow> lead_fact list" where
  "fact_rows s lid ty = filter (fact_key lid ty) (t_lead_facts s)"

text \<open>Each row but the last is superseded by the next one, at the time that one was captured; the last
  is current.\<close>

fun superseding :: "lead_fact list \<Rightarrow> bool" where
  "superseding [] \<longleftrightarrow> True"
| "superseding [r] \<longleftrightarrow> ff_isCurrent r \<and> ff_supersededBy r = None \<and> ff_supersededAt r = None"
| "superseding (r # q # rs) \<longleftrightarrow> \<not> ff_isCurrent r \<and> ff_supersededBy r = Some (ff_id q)
     \<and> ff_supersededAt r = Some (ff_capturedAt q) \<and> superseding (q # rs)"

definition supersede :: "lead_fact \<Rightarrow> lead_fact \<Rightarrow> lead_fact" where
  "supersede n r = (if ff_isCurrent r
     then r\<lparr>ff_isCurrent := False, ff_supersededAt := Some (ff_capturedAt n), ff_supersededBy := Some (ff_id n)\<rparr>
     else r)"

lemma superseding_last:
  "superseding rs \<Longrightarrow> rs \<noteq> [] \<Longrightarrow> filter ff_isCurrent rs = [last rs]"
  by (induction rs rule: superseding.induct) auto

lemma supersede_same [simp]:
  "ff_id (supersede n r) = ff_id r" "ff_capturedAt (supersede n r) = ff_capturedAt r"
  "\<not> ff_isCurrent r \<Longrightarrow> supersede n r = r"
  by (simp_all add: supersede_def)

lemma superseding_snoc:
  "superseding rs \<Longrightarrow> superseding [n] \<Longrightarrow> superseding (map (supersede n) rs @ [n])"
proof (induction rs rule: superseding.induct)
  case 1
  then show ?case by simp
next
  case (2 r)
  then show ?case by (simp add: supersede_def)
next
  case (3 r q rs)
  then have "superseding (map (supersede n) (q # rs) @ [n])" by simp
  then show ?case
    using 3(2) by simp
qed

lemma superseding_linked:
  "superseding rs \<Longrightarrow> r \<in> set rs \<Longrightarrow> ff_supersededBy r = None \<longleftrightarrow> ff_isCurrent r"
  by (induction rs rule: superseding.induct) auto

definition fact_row :: "'a lead_db_scheme \<Rightarrow> new_lead_fact \<Rightarrow> lead_fact" where
  "fact_row s f =
     \<lparr>ff_id = lead_uuids s (lead_drawn s), ff_leadId = nf_leadId f, ff_factType = nf_factType f,
      ff_value = nf_value f, ff_normalizedValue = nf_normalizedValue f, ff_sourceType = nf_sourceType f,
      ff_sourceUrl = nf_sourceUrl f,
      ff_capturedAt = (case nf_capturedAt f of Some t \<Rightarrow> t | None \<Rightarrow> lead_clock s (lead_ticks s)),
      ff_confidence = (case nf_confidence f of None \<Rightarrow> 1 | Some c \<Rightarrow> c), ff_supersededBy = None,
      ff_supersededAt = None, ff_isCurrent = True\<rparr>"

lemma fact_key_simps [simp]:
  "fact_key lid ty (r\<lparr>ff_isCurrent := b\<rparr>) = fact_key lid ty r"
  "fact_key lid ty (r\<lparr>ff_supersededAt := t\<rparr>) = fact_key lid ty r"
  "fact_key lid ty (r\<lparr>ff_supersededBy := u\<rparr>) = fact_key lid ty r"
  "fact_key lid ty (fact_row s f) \<longleftrightarrow> lid = nf_leadId f \<and> ty = nf_factType f"
  by (auto simp: fact_key_def fact_row_def)

text \<open>Rewriting the rows of a key leaves the rows of the other keys.\<close>

lemma filter_update_where:
  assumes "\<And>r. Q (g r) = Q r"
  shows "filter Q (update_where P g rs) = update_where P g (filter Q rs)"
  by (induction rs) (auto simp: assms)

lemma writeCurrentFact_ok:
  assumes run: "writeCurrentFact f s = (Inr fid, s')" and chain: "superseding (fact_rows s (nf_leadId f) (nf_factType f))"
  shows "fid = ff_id (fact_row s f)"
    and "fact_rows s' (nf_leadId f) (nf_factType f) =
      map (supersede (fact_row s f)) (fact_rows s (nf_leadId f) (nf_factType f)) @ [fact_row s f]"
    and "(lid, ty) \<noteq> (nf_leadId f, nf_factType f) \<Longrightarrow> fact_rows s' lid ty = fact_rows s lid ty"
proof -
  let ?n = "fact_row s f" and ?k = "fact_key (nf_leadId f) (nf_factType f)"
  define t1 where "t1 = update_where (\<lambda>r. ?k r \<and> ff_isCurrent r)
     (\<lambda>r. r\<lparr>ff_isCurrent := False, ff_supersededAt := Some (ff_capturedAt ?n)\<rparr>) (t_lead_facts s)"
  define s2 where "s2 = s\<lparr>lead_drawn := Suc (lead_drawn s),
     lead_ticks := (case nf_capturedAt f of Some t \<Rightarrow> lead_ticks s | None \<Rightarrow> Suc (lead_ticks s)), t_lead_facts := t1\<rparr>"
  have steps: "bind_p (return_p (fact_row s f)) (\<lambda>n. then_p (insertFact n)
      (then_p (linkFact (nf_leadId f) (nf_factType f) (ff_id n)) (return_p (ff_id n)))) s2 = (Inr fid, s')"
    using run unfolding writeCurrentFact_def
    by (simp add: newUUID_run readClock_def demoteFact_def fact_row_def s2_def t1_def then_p_def bind_p_def
        split: option.splits)
  have fid: "fid = ff_id ?n"
    and t: "t_lead_facts s' = update_where (\<lambda>r. ?k r \<and> \<not> ff_isCurrent r \<and> ff_supersededBy r = None \<and> ff_id r \<noteq> ff_id ?n)
       (\<lambda>r. r\<lparr>ff_supersededBy := Some (ff_id ?n)\<rparr>) (t1 @ [?n])"
    and fresh: "ff_id ?n \<notin> ff_id ` set t1"
    using steps
    by (auto simp: insertFact_def linkFact_def then_p_def s2_def list_ex_iff split: if_splits)
  have "map ff_id t1 = map ff_id (t_lead_facts s)"
    unfolding t1_def by (rule map_update_where_same) simp
  then have ids: "ff_id ` set t1 = ff_id ` set (t_lead_facts s)"
    by (metis set_map)
  have rows: "fact_rows s' lid ty = update_where (\<lambda>r. ?k r \<and> \<not> ff_isCurrent r \<and> ff_supersededBy r = None \<and> ff_id r \<noteq> ff_id ?n)
       (\<lambda>r. r\<lparr>ff_supersededBy := Some (ff_id ?n)\<rparr>)
       (update_where (\<lambda>r. ?k r \<and> ff_isCurrent r)
          (\<lambda>r. r\<lparr>ff_isCurrent := False, ff_supersededAt := Some (ff_capturedAt ?n)\<rparr>) (fact_rows s lid ty)
        @ filter (fact_key lid ty) [?n])" for lid ty
    unfolding fact_rows_def t by (simp add: filter_update_where t1_def)
  show "fid = ff_id ?n" by (rule fid)
  show "fact_rows s' lid ty = fact_rows s lid ty" if "(lid, ty) \<noteq> (nf_leadId f, nf_factType f)"
  proof -
    have "\<not> ?k r" if "r \<in> set (fact_rows s lid ty)" for r
      using that \<open>(lid, ty) \<noteq> _\<close> by (auto simp: fact_rows_def fact_key_def)
    then show ?thesis
      unfolding rows using that by (simp add: update_where_none)
  qed
  let ?rows = "fact_rows s (nf_leadId f) (nf_factType f)"
  have "update_where (\<lambda>r. ?k r \<and> \<not> ff_isCurrent r \<and> ff_supersededBy r = None \<and> ff_id r \<noteq> ff_id ?n)
       (\<lambda>r. r\<lparr>ff_supersededBy := Some (ff_id ?n)\<rparr>)
       (update_where (\<lambda>r. ?k r \<and> ff_isCurrent r)
          (\<lambda>r. r\<lparr>ff_isCurrent := False, ff_supersededAt := Some (ff_capturedAt ?n)\<rparr>) ?rows) =
      map (supersede ?n) ?rows"
  proof -
    have "ff_id r \<noteq> ff_id ?n" if "r \<in> set ?rows" for r
      using that fresh ids unfolding fact_rows_def by auto (metis imageI)
    moreover have "?k r" if "r \<in> set ?rows" for r
      using that by (simp add: fact_rows_def)
    moreover have "ff_supersededBy r = None \<longleftrightarrow> ff_isCurrent r" if "r \<in> set ?rows" for r
      by (rule superseding_linked [OF chain that])
    ultimately show ?thesis
      unfolding update_where_def by (auto simp: supersede_def)
  qed
  moreover have "ff_isCurrent ?n" by (simp add: fact_row_def)
  ultimately show "fact_rows s' (nf_leadId f) (nf_factType f) = map (supersede ?n) ?rows @ [?n]"
    unfolding rows by simp
qed

text \<open>Facts are written by \<^const>\<open>writeCurrentFact\<close> only; every command keeps the chains.\<close>

definition facts_chained :: "'a lead_db_scheme \<Rightarrow> bool" where
  "facts_chained s \<longleftrightarrow> (\<forall>lid ty. superseding (fact_rows s lid ty))"

definition keeps_chains :: "'a lead_db_scheme \<Rightarrow> 'a lead_db_scheme \<Rightarrow> bool" where
  "keeps_chains s s' \<longleftrightarrow> (facts_chained s \<longrightarrow> facts_chained s')"

lemma writeCurrentFact_chains:
  assumes "writeCurrentFact f s = (Inr fid, s')" and chained: "facts_chained s"
  shows "facts_chained s'"
  unfolding facts_chained_def
proof (intro allI)
  fix lid ty
  have own: "superseding (fact_rows s (nf_leadId f) (nf_factType f))"
    using chained by (simp add: facts_chained_def)
  note ok = writeCurrentFact_ok [OF assms(1) own]
  show "superseding (fact_rows s' lid ty)"
  proof (cases "(lid, ty) = (nf_leadId f, nf_factType f)")
    case True
    moreover have "superseding [fact_row s f]"
      by (simp add: fact_row_def)
    ultimately show ?thesis
      using superseding_snoc [OF own] ok(2) by simp
  next
    case False
    then show ?thesis
      using ok(3) chained by (simp add: facts_chained_def)
  qed
qed

interpretation chain: prog_frame keeps_chains
  by unfold_locales (auto simp: keeps_chains_def)

named_theorems chain_intros

lemmas [chain_intros] = chain.commits_all

lemma chain_same_facts: "t_lead_facts s' = t_lead_facts s \<Longrightarrow> keeps_chains s s'"
  by (simp add: keeps_chains_def facts_chained_def fact_rows_def)

lemma chain_statements [chain_intros]:
  "commits keeps_chains newUUID" "commits keeps_chains readClock" "commits keeps_chains (touchLastSeen eid tm)"
  "commits keeps_chains (findDedupCandidates i)" "commits keeps_chains (findByProviderPlaceId provider place)"
  "commits keeps_chains (lead_getById lid)" "commits keeps_chains (lead_updateStatus lid st tm)"
  unfolding newUUID_def readClock_def touchLastSeen_def findDedupCandidates_def
    findByProviderPlaceId_def lead_getById_def lead_updateStatus_def
  by (auto intro!: commitsI chain_same_facts)

lemma chain_rows [chain_intros]:
  "commits keeps_chains (insertEntity ent)" "commits keeps_chains (lead_create l)"
  "commits keeps_chains (recordRequest provider opts m)"
  "commits keeps_chains (createObservation eid qid res tier)" "commits keeps_chains (record_event e)"
  unfolding insertEntity_def lead_create_def recordRequest_def createObservation_def record_event_def
    bind_p_def newUUID_def
  by (auto intro!: commitsI chain_same_facts split: if_splits)

lemma chain_writeCurrentFact [chain_intros]: "commits keeps_chains (writeCurrentFact f)"
  by (rule commitsI) (auto simp: keeps_chains_def intro: writeCurrentFact_chains)

lemma chain_createEntity [chain_intros]: "commits keeps_chains (createEntity provider place lid)"
  unfolding createEntity_def Let_def by (intro chain_intros)

lemma chain_decision [chain_intros]:
  "(\<And>t l. commits keeps_chains (f t l)) \<Longrightarrow> (\<And>l. commits keeps_chains (g l)) \<Longrightarrow>
   (\<And>l. commits keeps_chains (h l)) \<Longrightarrow> commits keeps_chains u \<Longrightarrow>
   commits keeps_chains (case d of DEDUP_DUPLICATE t l \<Rightarrow> f t l | BRANCH l \<Rightarrow> g l | AMBIGUOUS l \<Rightarrow> h l | UNIQUE \<Rightarrow> u)"
  by (cases d) simp_all

lemma chain_services [chain_intros]:
  "commits keeps_chains (processCandidate metres num_str c qid provider opts now)"
  "commits keeps_chains (createLead i)" "commits keeps_chains (lead_transition lid dst)"
  unfolding processCandidate_def Let_def known_candidate_def fresh_candidate_def write_facts_def resolve_candidate_def
    resolve_facts_def insert_resolved_def createLead_def lead_transition_def
  by (intro chain_intros)+

lemma chain_tx: "commits keeps_chains p \<Longrightarrow> keeps keeps_chains (lead_tx p)"
  by (rule chain.committed_transaction) (simp_all add: chain_same_facts rollback_def)

lemma chain_recordRequest: "keeps keeps_chains (recordRequest provider opts m)"
  unfolding recordRequest_def bind_p_def newUUID_def by (auto intro!: keepsI chain_same_facts split: if_splits)

lemma chain_lead_exec: "keeps keeps_chains (lead_exec env c)"
  by (cases c)
    (auto simp: then_unit_def collect_one_def
      intro!: chain.keeps_then chain.keeps_return chain_tx chain_recordRequest chain_intros)

interpretation chains: prog_system keeps_chains "lead_exec env" for env
  by unfold_locales (rule chain_lead_exec)

end
