(* ===== verification/Lead_Claims.thy ===== *)
theory Lead_Claims
  imports Lead_History
begin

text \<open>
  The properties of leads, their facts and their collection: the history of a lead replays, a
  recorded status is never lost, illegal changes leave no trace in a unit of work, the facts of a
  kind supersede each other in order, the dedup decision is the strongest evidence of the first
  candidate that has it, telephone numbers agree across their notations, and collection is bounded,
  accounted for and idempotent.
\<close>

section \<open>What one candidate does\<close>

definition same_leads :: "'a lead_db_scheme \<Rightarrow> 'a lead_db_scheme \<Rightarrow> bool" where
  "same_leads s s' \<longleftrightarrow> t_leads s' = t_leads s"

interpretation same_lds: prog_frame same_leads
  by unfold_locales (auto simp: same_leads_def)

named_theorems same_leads_intros

lemmas [same_leads_intros] = same_lds.keeps_all

lemma same_leads_history: "keeps same_history p \<Longrightarrow> keeps same_leads p"
  by (erule keeps_weaken) (simp add: same_history_def same_leads_def)

lemmas same_leads_statements [same_leads_intros] =
  same_history_statements [THEN same_leads_history] same_history_rows [THEN same_leads_history]
  same_history_writeCurrentFact [THEN same_leads_history] same_history_createEntity [THEN same_leads_history]

lemma same_leads_record_event [same_leads_intros]: "keeps same_leads (record_event e)"
proof (rule keepsI)
  fix s :: "'a lead_db_scheme" and x s'
  assume "record_event e s = (x, s')"
  then show "same_leads s s'"
    by (cases rule: record_event_cases [of e s]) (auto simp: same_leads_def)
qed

lemma same_leads_rollback: "same_leads s (rollback s s1)"
  by (simp add: same_leads_def rollback_def)

lemma same_leads_known [same_leads_intros]: "keeps same_leads (known_candidate e qid provider place opts now)"
  unfolding known_candidate_def by (intro same_leads_intros)

definition known :: "'a lead_db_scheme \<Rightarrow> string \<Rightarrow> raw_candidate \<Rightarrow> bool" where
  "known s provider c \<longleftrightarrow>
     invalid_candidate c \<or> entity_of s provider (js_trim (rc_sourcePlaceId c)) \<noteq> None"

lemma entity_of_iff:
  "entity_of s provider place \<noteq> None \<longleftrightarrow>
     (provider, place) \<in> set (map (\<lambda>e. (se_provider e, se_sourcePlaceId e)) (t_source_entities s))"
  by (auto simp: entity_of_def find_None_iff image_iff)

lemma known_grows: "grows s s' \<Longrightarrow> known s provider c \<Longrightarrow> known s' provider c"
  unfolding known_def grows_def entity_of_iff using set_mono_prefix by blast

lemma fresh_candidate_ok:
  assumes "fresh_candidate metres num_str c qid provider place opts now s = (Inr oc, s')"
  shows "length (t_leads s') = length (t_leads s) + (if is_new (oc_result oc) then 1 else 0)"
    and "entity_of s' provider place \<noteq> None"
proof -
  obtain r s1 s2 e s3 s4 where
    res: "resolve_candidate metres opts provider place now c s = (Inr r, s1)"
    and fs: "write_facts num_str c opts r s1 = (Inr (), s2)"
    and ent: "createEntity provider place (rs_leadId r) s2 = (Inr e, s3)"
    and obs: "createObservation (se_id e) qid (stored_result (rs_result r)) (Some (rs_tier r)) s3 = (Inr (), s4)"
    and ev: "record_event (collect_event opts (Some (rs_leadId r)) (rs_event r)
               (if rs_result r = CR_DUPLICATE then None else Some NEW) (rs_message r)) s4 = (Inr (), s')"
    and oc: "oc_result oc = rs_result r"
    using assms unfolding fresh_candidate_def prog_simps
    by (auto simp: prog_simps)
  have "keeps same_leads (write_facts num_str c opts r)"
    "keeps same_leads (createEntity provider place (rs_leadId r))"
    "keeps same_leads (createObservation (se_id e) qid (stored_result (rs_result r)) (Some (rs_tier r)))"
    unfolding write_facts_def by (intro same_leads_intros)+
  from keepsD [OF this(1) fs] keepsD [OF this(2) ent] keepsD [OF this(3) obs]
    keepsD [OF same_leads_record_event ev]
  have "same_leads s1 s'" by (simp add: same_leads_def)
  moreover have "length (t_leads s1) = length (t_leads s) + (if is_new (rs_result r) then 1 else 0)"
    by (cases rule: resolve_cases [OF res]) auto
  ultimately show "length (t_leads s') = length (t_leads s) + (if is_new (oc_result oc) then 1 else 0)"
    by (simp add: same_leads_def oc)
  have "(provider, place) \<in> set (map (\<lambda>e. (se_provider e, se_sourcePlaceId e)) (t_source_entities s3))"
    using ent by (auto simp: createEntity_def insertEntity_def readClock_def newUUID_def bind_p_def then_p_def
        Let_def split: if_splits)
  moreover have "grows s3 s'"
    using grow.trans [OF keepsD [OF grows_rows(2) obs] keepsD [OF grows_rows(3) ev]] .
  ultimately show "entity_of s' provider place \<noteq> None"
    unfolding entity_of_iff grows_def using set_mono_prefix by blast
qed

lemma collect_one_known:
  assumes run: "collect_one metres num_str provider opts qid c s = (x, s')" and known: "known s provider c"
  shows "t_leads s' = t_leads s" and "x = Inr oc \<Longrightarrow> oc_result oc = CR_REFRESHED \<or> oc_result oc = CR_REJECTED"
proof -
  let ?s1 = "s\<lparr>lead_ticks := Suc (lead_ticks s)\<rparr>" and ?now = "lead_clock s (lead_ticks s)"
  let ?place = "js_trim (rc_sourcePlaceId c)"
  define p :: "('a lead_db_scheme, candidate_outcome) prog" where "p = (if invalid_candidate c
      then then_p (record_event (collect_event opts None LEAD_REJECTED None
             (''Malformed candidate rejected (placeId=\"'' @ rc_sourcePlaceId c @ ''\")'')))
           (return_p \<lparr>oc_result = CR_REJECTED, oc_newLead = False, oc_leadId = None\<rparr>)
      else known_candidate (the (entity_of s provider ?place)) qid provider ?place opts ?now)"
  have "entity_of ?s1 provider ?place = entity_of s provider ?place"
    by (simp add: entity_of_def)
  then have "processCandidate metres num_str c qid provider opts ?now ?s1 = p ?s1"
    using known unfolding processCandidate_def p_def known_def Let_def
    by (auto simp: findByProviderPlaceId_def simp del: append.simps)
  then have tx: "transaction rollback (\<lambda>_. p ?s1) s = (x, s')"
    using run by (simp add: collect_one_def transaction_def bind_p_def readClock_def)
  have "keeps same_leads p"
    unfolding p_def by (intro same_leads_intros)
  then have "same_leads s (snd (p ?s1))"
    using keepsD [of same_leads p ?s1] by (cases "p ?s1") (auto simp: same_leads_def)
  then show "t_leads s' = t_leads s"
    using tx by (auto simp: transaction_def same_leads_def rollback_def split: prod.splits sum.splits)
  show "oc_result oc = CR_REFRESHED \<or> oc_result oc = CR_REJECTED" if "x = Inr oc"
  proof -
    have "p ?s1 = (Inr oc, s')"
      using tx that by (simp add: transaction_def split: prod.splits sum.splits)
    then show ?thesis
      by (auto simp: p_def known_candidate_def prog_simps simp del: append.simps split: if_splits)
  qed
qed

lemma process_unknown:
  assumes "\<not> known s provider c"
  shows "processCandidate metres num_str c qid provider opts now (s\<lparr>lead_ticks := n\<rparr>) =
    fresh_candidate metres num_str c qid provider (js_trim (rc_sourcePlaceId c)) opts now (s\<lparr>lead_ticks := n\<rparr>)"
  using assms
  by (simp add: known_def processCandidate_def findByProviderPlaceId_def entity_of_def Let_def bind_p_def
      del: append.simps)

lemma grows_collect_one: "keeps grows (collect_one metres num_str provider opts qid c)"
  unfolding collect_one_def by (intro grows_intros)

lemma collect_one_outcome:
  assumes run: "collect_one metres num_str provider opts qid c s = (x, s')"
  shows "length (t_leads s') = length (t_leads s)
      + (case x of Inr oc \<Rightarrow> if is_new (oc_result oc) then 1 else 0 | Inl _ \<Rightarrow> 0)"
    and "x = Inr oc \<Longrightarrow> known s' provider c"
proof -
  let ?s1 = "s\<lparr>lead_ticks := Suc (lead_ticks s)\<rparr>" and ?now = "lead_clock s (lead_ticks s)"
  let ?place = "js_trim (rc_sourcePlaceId c)"
  show "length (t_leads s') = length (t_leads s)
      + (case x of Inr oc \<Rightarrow> if is_new (oc_result oc) then 1 else 0 | Inl _ \<Rightarrow> 0)"
  proof (cases "known s provider c")
    case True
    then show ?thesis
      using collect_one_known [OF run True] by (auto split: sum.splits)
  next
    case False
    then have "processCandidate metres num_str c qid provider opts ?now ?s1 =
        fresh_candidate metres num_str c qid provider ?place opts ?now ?s1"
      by (rule process_unknown)
    then have "transaction rollback (\<lambda>_. fresh_candidate metres num_str c qid provider ?place opts ?now ?s1) s = (x, s')"
      using run by (simp add: collect_one_def transaction_def bind_p_def readClock_def)
    then show ?thesis
      by (auto simp: transaction_def rollback_def dest: fresh_candidate_ok(1) split: prod.splits sum.splits)
  qed
  show "known s' provider c" if x: "x = Inr oc"
  proof (cases "known s provider c")
    case True
    have grown: "grows s s'"
      using keepsD [OF grows_collect_one run] .
    show ?thesis
      by (rule known_grows [OF grown True])
  next
    case False
    then have "processCandidate metres num_str c qid provider opts ?now ?s1 =
        fresh_candidate metres num_str c qid provider ?place opts ?now ?s1"
      by (rule process_unknown)
    then have "fresh_candidate metres num_str c qid provider ?place opts ?now ?s1 = (Inr oc, s')"
      using run x by (simp add: collect_one_def prog_simps readClock_def)
    then show ?thesis
      by (auto simp: known_def dest: fresh_candidate_ok(2))
  qed
qed

section \<open>What a run does\<close>

lemma count_result_new: "newLeadCount (count_result r u) = newLeadCount u + (if is_new r then 1 else 0)"
  by (cases r) (simp_all add: newLeadCount_def)

lemma count_result_flags [simp]:
  "cs_failed (count_result r u) = cs_failed u" "cs_stoppedAtCap (count_result r u) = cs_stoppedAtCap u"
  "cs_interrupted (count_result r u) = cs_interrupted u" "cs_pages (count_result r u) = cs_pages u"
  "cs_requests (count_result r u) = cs_requests u"
  by (cases r; simp)+

lemma newLeadCount_flags [simp]:
  "newLeadCount (u\<lparr>cs_stoppedAtCap := b\<rparr>) = newLeadCount u" "newLeadCount (u\<lparr>cs_failed := n\<rparr>) = newLeadCount u"
  "newLeadCount (u\<lparr>cs_interrupted := b\<rparr>) = newLeadCount u" "newLeadCount (u\<lparr>cs_pages := n\<rparr>) = newLeadCount u"
  "newLeadCount (u\<lparr>cs_requests := n\<rparr>) = newLeadCount u"
  by (simp_all add: newLeadCount_def)

text \<open>The account of a run: what the summary counts is what the table of leads gained, within the cap.\<close>

definition accounts ::
  "collect_options \<Rightarrow> collect_summary \<Rightarrow> 'a lead_db_scheme \<Rightarrow> collect_summary \<Rightarrow> 'a lead_db_scheme \<Rightarrow> bool" where
  "accounts opts u s u' s' \<longleftrightarrow> grows s s'
     \<and> int (length (t_leads s')) - int (length (t_leads s)) = newLeadCount u' - newLeadCount u
     \<and> (newLeadCount u \<le> max 0 (co_maxLeads opts) \<longrightarrow> newLeadCount u' \<le> max 0 (co_maxLeads opts))
     \<and> cs_failed u \<le> cs_failed u' \<and> (cs_stoppedAtCap u \<longrightarrow> cs_stoppedAtCap u')
     \<and> (cs_interrupted u \<longrightarrow> cs_interrupted u')"

lemma accounts_refl: "accounts opts u s u s"
  by (simp add: accounts_def grow.refl)

lemma accounts_trans: "accounts opts u s v t \<Longrightarrow> accounts opts v t w r \<Longrightarrow> accounts opts u s w r"
  unfolding accounts_def using grow.trans [of s t r] by auto

lemma accounts_one:
  assumes "collect_one metres num_str provider opts qid c s = (x, s')"
    and "newLeadCount u < co_maxLeads opts"
  shows "accounts opts u s (case x of Inr oc \<Rightarrow> count_result (oc_result oc) u
      | Inl _ \<Rightarrow> u\<lparr>cs_failed := cs_failed u + 1\<rparr>) s'"
  using keepsD [OF grows_collect_one assms(1)] collect_one_outcome(1) [OF assms(1)] assms(2)
  by (auto simp: accounts_def count_result_new split: sum.splits)

lemma accounts_page:
  "collect_page metres num_str provider opts qid cs u s = (u', s') \<Longrightarrow> accounts opts u s u' s'"
proof (induction cs arbitrary: u s)
  case Nil
  then show ?case by (simp add: accounts_refl)
next
  case (Cons c cs)
  show ?case
  proof (cases "co_maxLeads opts \<le> newLeadCount u")
    case True
    then show ?thesis
      using Cons.prems by (auto simp: accounts_def grow.refl)
  next
    case False
    obtain x s1 where one: "collect_one metres num_str provider opts qid c s = (x, s1)"
      by (cases "collect_one metres num_str provider opts qid c s")
    let ?u = "case x of Inr oc \<Rightarrow> count_result (oc_result oc) u | Inl _ \<Rightarrow> u\<lparr>cs_failed := cs_failed u + 1\<rparr>"
    have "collect_page metres num_str provider opts qid cs ?u s1 = (u', s')"
      using Cons.prems False one by (auto split: sum.splits)
    then have "accounts opts ?u s1 u' s'"
      by (rule Cons.IH)
    moreover have "accounts opts u s ?u s1"
      using accounts_one [OF one] False by simp
    ultimately show ?thesis
      by (rule accounts_trans [rotated])
  qed
qed

text \<open>When nothing failed and the cap was not met, every candidate of the page is known afterwards.\<close>

lemma page_known:
  assumes "collect_page metres num_str provider opts qid cs u s = (u', s')"
    and "\<not> cs_stoppedAtCap u'" and "cs_failed u' = cs_failed u" and "c \<in> set cs"
  shows "known s' provider c"
  using assms
proof (induction cs arbitrary: u s)
  case Nil
  then show ?case by simp
next
  case (Cons c1 cs)
  have below: "newLeadCount u < co_maxLeads opts"
    using Cons.prems(1,2) by (cases "co_maxLeads opts \<le> newLeadCount u") auto
  obtain x s1 where one: "collect_one metres num_str provider opts qid c1 s = (x, s1)"
    by (cases "collect_one metres num_str provider opts qid c1 s")
  show ?case
  proof (cases x)
    case (Inl e)
    then have "collect_page metres num_str provider opts qid cs (u\<lparr>cs_failed := cs_failed u + 1\<rparr>) s1 = (u', s')"
      using Cons.prems(1) below one by simp
    then show ?thesis
      using accounts_page Cons.prems(3) by (fastforce simp: accounts_def)
  next
    case (Inr oc)
    then have rest: "collect_page metres num_str provider opts qid cs (count_result (oc_result oc) u) s1 = (u', s')"
      using Cons.prems(1) below one by simp
    show ?thesis
    proof (cases "c = c1")
      case True
      have "known s1 provider c1"
        by (rule collect_one_outcome(2) [OF one Inr])
      then show ?thesis
        using accounts_page [OF rest] True by (auto simp: accounts_def intro: known_grows)
    next
      case False
      then show ?thesis
        using Cons.IH [OF rest Cons.prems(2)] Cons.prems(3,4) by simp
    qed
  qed
qed

lemma accounts_request:
  assumes "recordRequest provider opts m s = (x, s')"
  shows "accounts opts u s (u\<lparr>cs_pages := n, cs_requests := k\<rparr>) s'"
    and "accounts opts u s (u\<lparr>cs_pages := n\<rparr>) s'" and "t_leads s' = t_leads s"
proof -
  have "keeps same_history (recordRequest provider opts m)"
    by (intro same_history_intros)
  from keepsD [OF this assms] show "t_leads s' = t_leads s"
    by (simp add: same_history_def)
  then show "accounts opts u s (u\<lparr>cs_pages := n, cs_requests := k\<rparr>) s'"
      "accounts opts u s (u\<lparr>cs_pages := n\<rparr>) s'"
    using keepsD [OF grows_rows(1) assms] by (simp_all add: accounts_def)
qed

lemma accounts_flag: "accounts opts u s (u\<lparr>cs_interrupted := cs_interrupted u \<or> b\<rparr>) s"
  by (simp add: accounts_def grow.refl)

lemma accounts_pages:
  "collect_pages metres num_str provider opts ps fails u s = (u', s') \<Longrightarrow> accounts opts u s u' s'"
proof (induction ps arbitrary: u s)
  case Nil
  then show ?case using accounts_flag by auto
next
  case (Cons p ps)
  obtain x s1 where req: "recordRequest provider opts (pg_request p) s = (x, s1)"
    by (cases "recordRequest provider opts (pg_request p) s")
  let ?u1 = "u\<lparr>cs_pages := cs_pages u + 1\<rparr>"
  let ?u2 = "?u1\<lparr>cs_requests := cs_requests u + 1\<rparr>"
  have a1: "accounts opts u s ?u1 s1" and a2: "accounts opts u s ?u2 s1"
    by (rule accounts_request [OF req])+
  show ?case
  proof (cases x)
    case (Inl e)
    then show ?thesis
      using Cons.prems req accounts_trans [OF a1 accounts_flag [of _ _ _ True]] by simp
  next
    case (Inr qid)
    show ?thesis
    proof (cases "rq_status (pg_request p) = RQ_FAILED")
      case True
      then show ?thesis
        using Cons.prems req Inr accounts_trans [OF a2 accounts_flag [of _ _ _ True]] by (simp add: Let_def)
    next
      case False
      obtain u3 s2 where page: "collect_page metres num_str provider opts qid (pg_candidates p) ?u2 s1 = (u3, s2)"
        by (cases "collect_page metres num_str provider opts qid (pg_candidates p) ?u2 s1")
      have a3: "accounts opts u s u3 s2"
        by (rule accounts_trans [OF a2 accounts_page [OF page]])
      show ?thesis
      proof (cases "cs_stoppedAtCap u3")
        case True
        then show ?thesis
          using Cons.prems req Inr False page a3 by (simp add: Let_def)
      next
        case go: False
        then have "collect_pages metres num_str provider opts ps fails u3 s2 = (u', s')"
          using Cons.prems req Inr False page by (simp add: Let_def)
        then show ?thesis
          by (rule accounts_trans [OF a3 Cons.IH])
      qed
    qed
  qed
qed

lemma pages_known:
  assumes "collect_pages metres num_str provider opts ps fails u s = (u', s')"
    and "\<not> cs_stoppedAtCap u'" and "\<not> cs_interrupted u'" and "cs_failed u' = cs_failed u"
    and "p \<in> set ps" and "c \<in> set (pg_candidates p)"
  shows "known s' provider c"
  using assms
proof (induction ps arbitrary: u s)
  case Nil
  then show ?case by simp
next
  case (Cons p1 ps)
  obtain x s1 where req: "recordRequest provider opts (pg_request p1) s = (x, s1)"
    by (cases "recordRequest provider opts (pg_request p1) s")
  let ?u2 = "u\<lparr>cs_pages := cs_pages u + 1, cs_requests := cs_requests u + 1\<rparr>"
  obtain qid where qid: "x = Inr qid" and ok: "rq_status (pg_request p1) \<noteq> RQ_FAILED"
    using Cons.prems(1,3) req by (cases x) (auto simp: Let_def split: if_splits)
  obtain u3 s2 where page: "collect_page metres num_str provider opts qid (pg_candidates p1) ?u2 s1 = (u3, s2)"
    by (cases "collect_page metres num_str provider opts qid (pg_candidates p1) ?u2 s1")
  have go: "\<not> cs_stoppedAtCap u3"
    using Cons.prems(1,2) req qid ok page by (auto simp: Let_def)
  then have rest: "collect_pages metres num_str provider opts ps fails u3 s2 = (u', s')"
    using Cons.prems(1) req qid ok page by (simp add: Let_def)
  have failed: "cs_failed u3 = cs_failed u"
    using accounts_page [OF page] accounts_pages [OF rest] Cons.prems(4) by (simp add: accounts_def)
  show ?case
  proof (cases "p = p1")
    case True
    have "known s2 provider c"
      using page_known [OF page go] failed Cons.prems(6) True by simp
    then show ?thesis
      using accounts_pages [OF rest] by (auto simp: accounts_def intro: known_grows)
  next
    case False
    then show ?thesis
      using Cons.IH [OF rest Cons.prems(2,3)] failed Cons.prems(4,5,6) by simp
  qed
qed

text \<open>Known candidates add nothing.\<close>

lemma page_rerun:
  assumes "collect_page metres num_str provider opts qid cs u s = (u', s')"
    and "\<And>c. c \<in> set cs \<Longrightarrow> known s provider c"
  shows "t_leads s' = t_leads s" and "newLeadCount u' = newLeadCount u" and "cs_duplicates u' = cs_duplicates u"
proof -
  have "t_leads s' = t_leads s \<and> newLeadCount u' = newLeadCount u \<and> cs_duplicates u' = cs_duplicates u"
    using assms
  proof (induction cs arbitrary: u s)
    case Nil
    then show ?case by simp
  next
    case (Cons c cs)
    obtain x s1 where one: "collect_one metres num_str provider opts qid c s = (x, s1)"
      by (cases "collect_one metres num_str provider opts qid c s")
    have c: "known s provider c"
      using Cons.prems(2) by simp
    have "grows s s1"
      using keepsD [OF grows_collect_one one] .
    then have rest: "known s1 provider d" if "d \<in> set cs" for d
      using known_grows [of s s1 provider d] Cons.prems(2) that by simp
    show ?case
    proof (cases "co_maxLeads opts \<le> newLeadCount u")
      case True
      then show ?thesis using Cons.prems(1) by auto
    next
      case False
      let ?u = "case x of Inr oc \<Rightarrow> count_result (oc_result oc) u | Inl _ \<Rightarrow> u\<lparr>cs_failed := cs_failed u + 1\<rparr>"
      have run: "collect_page metres num_str provider opts qid cs ?u s1 = (u', s')"
        using Cons.prems(1) False one by (auto split: sum.splits)
      have u: "newLeadCount ?u = newLeadCount u \<and> cs_duplicates ?u = cs_duplicates u"
      proof (cases x)
        case (Inl e)
        then show ?thesis by simp
      next
        case (Inr oc)
        then show ?thesis
          using collect_one_known(2) [OF one c Inr] by (auto simp: count_result_new)
      qed
      show ?thesis
        using Cons.IH [OF run rest] collect_one_known(1) [OF one c] u by simp
    qed
  qed
  then show "t_leads s' = t_leads s" "newLeadCount u' = newLeadCount u" "cs_duplicates u' = cs_duplicates u"
    by simp_all
qed

lemma pages_rerun:
  assumes "collect_pages metres num_str provider opts ps fails u s = (u', s')"
    and "\<And>p c. p \<in> set ps \<Longrightarrow> c \<in> set (pg_candidates p) \<Longrightarrow> known s provider c"
  shows "t_leads s' = t_leads s \<and> newLeadCount u' = newLeadCount u \<and> cs_duplicates u' = cs_duplicates u"
  using assms
proof (induction ps arbitrary: u s)
  case Nil
  then show ?case by auto
next
  case (Cons p ps)
  obtain x s1 where req: "recordRequest provider opts (pg_request p) s = (x, s1)"
    by (cases "recordRequest provider opts (pg_request p) s")
  note leads1 = accounts_request(3) [OF req]
  let ?u2 = "u\<lparr>cs_pages := cs_pages u + 1, cs_requests := cs_requests u + 1\<rparr>"
  show ?case
  proof (cases "\<exists>qid. x = Inr qid \<and> rq_status (pg_request p) \<noteq> RQ_FAILED")
    case False
    then show ?thesis
      using Cons.prems(1) req leads1 by (cases x) (auto simp: Let_def)
  next
    case True
    then obtain qid where qid: "x = Inr qid" "rq_status (pg_request p) \<noteq> RQ_FAILED" by blast
    obtain u3 s2 where page: "collect_page metres num_str provider opts qid (pg_candidates p) ?u2 s1 = (u3, s2)"
      by (cases "collect_page metres num_str provider opts qid (pg_candidates p) ?u2 s1")
    have g1: "grows s s1"
      using keepsD [OF grows_rows(1) req] .
    have g2: "grows s s2"
      using grow.trans [OF g1] accounts_page [OF page] by (simp add: accounts_def)
    have "known s1 provider c" if "c \<in> set (pg_candidates p)" for c
      using known_grows [OF g1] Cons.prems(2) [of p] that by simp
    from page_rerun [OF page this]
    have this_page: "t_leads s2 = t_leads s1" "newLeadCount u3 = newLeadCount u" "cs_duplicates u3 = cs_duplicates u"
      by simp_all
    have later: "known s2 provider c" if "q \<in> set ps" "c \<in> set (pg_candidates q)" for q c
      using known_grows [OF g2] Cons.prems(2) [of q c] that by simp
    show ?thesis
    proof (cases "cs_stoppedAtCap u3")
      case True
      then show ?thesis
        using Cons.prems(1) req qid page this_page leads1 by (simp add: Let_def)
    next
      case False
      then have "collect_pages metres num_str provider opts ps fails u3 s2 = (u', s')"
        using Cons.prems(1) req qid page by (simp add: Let_def)
      from Cons.IH [OF this later] show ?thesis
        using this_page leads1 by simp
    qed
  qed
qed

section \<open>The histories\<close>

definition fresh_lead_db :: "string list \<Rightarrow> (nat \<Rightarrow> string) \<Rightarrow> (nat \<Rightarrow> int) \<Rightarrow> lead_db" where
  "fresh_lead_db runs uuids clock = \<lparr>t_leads = [], t_pipeline_events = [], fk_runs = runs, t_lead_facts = [],
     t_source_entities = [], t_source_requests = [], t_source_observations = [], lead_uuids = uuids,
     lead_drawn = 0, lead_clock = clock, lead_ticks = 0\<rparr>"

abbreviation lead_run ::
  "collect_env \<Rightarrow> lead_cmd list \<Rightarrow> string list \<Rightarrow> (nat \<Rightarrow> string) \<Rightarrow> (nat \<Rightarrow> int) \<Rightarrow> lead_db" where
  "lead_run env cmds runs uuids clock \<equiv> run_progs (lead_exec env) cmds (fresh_lead_db runs uuids clock)"

lemma lead_run_inv: "lead_inv (lead_run env cmds runs uuids clock)"
proof -
  have "lead_inv (fresh_lead_db runs uuids clock)"
    by (simp add: lead_inv_def fresh_lead_db_def)
  then show ?thesis
    using history.run_keeps by (auto simp: keeps_inv_def)
qed

lemma lead_run_chained: "facts_chained (lead_run env cmds runs uuids clock)"
proof -
  have "facts_chained (fresh_lead_db runs uuids clock)"
    by (simp add: facts_chained_def fact_rows_def fresh_lead_db_def)
  then show ?thesis
    using chains.run_keeps by (auto simp: keeps_chains_def)
qed


lemma replays_reached:
  "lead_replays st es fin \<Longrightarrow> fin \<noteq> st \<Longrightarrow> \<exists>a. (a, Some fin) \<in> set es"
  by (induction st es fin rule: lead_replays.induct) auto

lemma transition_event:
  "(a, Some st) \<in> set (transitions_of s lid) \<Longrightarrow>
   \<exists>r\<in>set (t_pipeline_events s). pv_leadId (pv_new r) = Some lid \<and> pv_type (pv_new r) = LEAD_STATE_TRANSITION
     \<and> pv_toStatus (pv_new r) = Some st"
  by (auto simp: transitions_of_def)

lemma set_map_filter': "y \<in> set (List.map_filter f xs) \<longleftrightarrow> (\<exists>x\<in>set xs. f x = Some y)"
  by (induction xs) (auto simp: List.map_filter_simps split: option.splits)

lemma selected_lead:
  "(case x of None \<Rightarrow> None | Some k \<Rightarrow> if k \<in> A \<and> b then Some k else None) = Some lid \<longleftrightarrow>
     x = Some lid \<and> lid \<in> A \<and> b"
  by (cases x) auto

lemma set_ever_reached:
  "leadsEverReachedStatus ids st s = (Inr xs, s') \<Longrightarrow>
   lid \<in> set xs \<longleftrightarrow> lid \<in> set ids \<and> (\<exists>r\<in>set (t_pipeline_events s). pv_leadId (pv_new r) = Some lid
     \<and> pv_type (pv_new r) = LEAD_STATE_TRANSITION \<and> pv_toStatus (pv_new r) = Some st)"
  by (auto simp: leadsEverReachedStatus_def set_map_filter' selected_lead)

text \<open>The durable signal of a status: a lead that once had a status other than NEW is reported as
  having reached it after every further sequence of units of work.\<close>

theorem reached_status_durable:
  assumes "lead_of (lead_run env cmds runs uuids clock) lid = Some l" and "ld_status l \<noteq> NEW"
    and "lid \<in> set ids"
  shows "case leadsEverReachedStatus ids (ld_status l) (lead_run env (cmds @ later) runs uuids clock) of
    (Inr found, _) \<Rightarrow> lid \<in> set found | (Inl _, _) \<Rightarrow> False"
proof -
  let ?s = "lead_run env cmds runs uuids clock" and ?t = "lead_run env (cmds @ later) runs uuids clock"
  have "lead_replays NEW (transitions_of ?s lid) (ld_status l)"
    using lead_run_inv [of env cmds runs uuids clock] lead_of_SomeD [OF assms(1)] by (auto simp: lead_inv_def)
  from replays_reached [OF this assms(2)]
  obtain r where r: "r \<in> set (t_pipeline_events ?s)" "pv_leadId (pv_new r) = Some lid"
    "pv_type (pv_new r) = LEAD_STATE_TRANSITION" "pv_toStatus (pv_new r) = Some (ld_status l)"
    using transition_event by blast
  have "grows ?s ?t"
    by (simp add: run_progs_append growing.run_keeps)
  then have "r \<in> set (t_pipeline_events ?t)"
    using r(1) set_mono_prefix unfolding grows_def by blast
  moreover obtain found s' where q: "leadsEverReachedStatus ids (ld_status l) ?t = (Inr found, s')"
    by (simp add: leadsEverReachedStatus_def)
  ultimately have "lid \<in> set found"
    using r assms(3) unfolding set_ever_reached [OF q] by blast
  then show ?thesis by (simp add: q)
qed

text \<open>No unit of work leaves the event of a rejected status change: the exception that rejects the
  change rolls the event back.\<close>

theorem rejected_change_leaves_no_event:
  "filter (\<lambda>r. pv_type (pv_new r) = INVALID_TRANSITION)
     (t_pipeline_events (lead_run env cmds runs uuids clock)) = []"
  using lead_run_inv [of env cmds runs uuids clock] by (auto simp: lead_inv_def filter_empty_conv)

lemma find_filter:
  "find (\<lambda>x. P x \<and> Q x) xs = (case filter Q (filter P xs) of [] \<Rightarrow> None | x # _ \<Rightarrow> Some x)"
  by (induction xs) auto

text \<open>C40: For every sequence of units of work the facts of a lead and type form one chain: each is
  superseded by the one written after it, at that one's time, and the current fact read back is the
  last one written.\<close>

theorem fact_history:
  "let s = lead_run env cmds runs uuids clock; rows = fact_rows s lid ty in
   superseding rows \<and> fst (getCurrentFact lid ty s) = Inr (if rows = [] then None else Some (last rows))"
proof -
  let ?s = "lead_run env cmds runs uuids clock"
  let ?rows = "fact_rows ?s lid ty"
  have chain: "superseding ?rows"
    using lead_run_chained by (simp add: facts_chained_def)
  have "find (\<lambda>r. fact_key lid ty r \<and> ff_isCurrent r) (t_lead_facts ?s) =
      (case filter ff_isCurrent ?rows of [] \<Rightarrow> None | r # _ \<Rightarrow> Some r)"
    unfolding fact_rows_def by (rule find_filter)
  then show ?thesis
    using chain superseding_last [OF chain] by (simp add: getCurrentFact_def Let_def)
qed

section \<open>Collection\<close>

text \<open>A collection run accounts for every lead it adds, and adds at most \<open>maxLeads\<close> of them,
  whatever the pages hold and whatever fails.\<close>

theorem collection_accounted:
  "case collectLeads metres num_str provider pages fails opts s of (u, s') \<Rightarrow>
     int (length (t_leads s')) = int (length (t_leads s)) + cs_created u + cs_ambiguous u + cs_branches u
     \<and> cs_created u + cs_ambiguous u + cs_branches u \<le> max 0 (co_maxLeads opts)
     \<and> prefix (map ld_id (t_leads s)) (map ld_id (t_leads s'))"
proof -
  obtain u s' where run: "collectLeads metres num_str provider pages fails opts s = (u, s')"
    by (cases "collectLeads metres num_str provider pages fails opts s")
  have "accounts opts empty_summary s u s'"
    using accounts_pages run by (simp add: collectLeads_def)
  then show ?thesis
    by (simp add: run accounts_def grows_def newLeadCount_def empty_summary_def)
qed

text \<open>C39: Collection is idempotent: when a run over the provider's pages went through (no candidate
  failed, the cap was not met, nothing interrupted it), any later run over the same pages, under any
  options, adds no lead and merges none.\<close>

theorem collection_idempotent:
  assumes "collectLeads metres num_str provider pages fails opts s = (u, s')"
    and "cs_failed u = 0" and "\<not> cs_stoppedAtCap u" and "\<not> cs_interrupted u"
  shows "case collectLeads metres num_str provider pages fails' opts' s' of (u2, s2) \<Rightarrow>
     t_leads s2 = t_leads s' \<and> cs_created u2 + cs_ambiguous u2 + cs_branches u2 = 0 \<and> cs_duplicates u2 = 0"
proof -
  obtain u2 s2 where rerun: "collectLeads metres num_str provider pages fails' opts' s' = (u2, s2)"
    by (cases "collectLeads metres num_str provider pages fails' opts' s'")
  have "known s' provider c" if "p \<in> set pages" "c \<in> set (pg_candidates p)" for p c
  proof (rule pages_known)
    show "collect_pages metres num_str provider opts pages fails empty_summary s = (u, s')"
      using assms(1) by (simp add: collectLeads_def)
    show "cs_failed u = cs_failed empty_summary"
      using assms(2) by (simp add: empty_summary_def)
  qed (use assms(3,4) that in simp_all)
  from pages_rerun [OF _ this] rerun show ?thesis
    by (simp add: collectLeads_def newLeadCount_def empty_summary_def)
qed

section \<open>Deduplication\<close>

text \<open>The first element of smallest rank, in one pass.\<close>

fun strongest :: "('a \<Rightarrow> nat) \<Rightarrow> 'a list \<Rightarrow> 'a option" where
  "strongest r [] = None"
| "strongest r (c # cs) =
     (case strongest r cs of None \<Rightarrow> Some c | Some d \<Rightarrow> if r c \<le> r d then Some c else Some d)"

lemma strongest_None: "strongest r cs = None \<longleftrightarrow> cs = []"
  by (cases cs) (auto split: option.splits)

lemma strongest_Some:
  "strongest r cs = Some c \<Longrightarrow> find (\<lambda>x. r x = r c) cs = Some c \<and> c \<in> set cs \<and> (\<forall>x\<in>set cs. r c \<le> r x)"
proof (induction cs arbitrary: c)
  case Nil
  then show ?case by simp
next
  case (Cons a cs)
  show ?case
  proof (cases "strongest r cs")
    case None
    then show ?thesis using Cons.prems by (simp add: strongest_None)
  next
    case (Some d)
    then show ?thesis
      using Cons.prems Cons.IH [OF Some] by (auto split: if_splits)
  qed
qed

lemma strongest_Suc:
  "(\<And>x. x \<in> set cs \<Longrightarrow> r x = Suc (q x)) \<Longrightarrow> strongest r cs = strongest q cs"
proof (induction cs)
  case Nil
  then show ?case by simp
next
  case (Cons a cs)
  then have "strongest r cs = strongest q cs" by simp
  then show ?case
    using Cons.prems by (auto split: option.splits dest: strongest_Some)
qed

text \<open>A chain of searches, and the rank of an element in the chain.\<close>

fun first_of :: "('a \<Rightarrow> bool) list \<Rightarrow> 'a list \<Rightarrow> (nat \<times> 'a) option" where
  "first_of [] cs = None"
| "first_of (P # Ps) cs =
     (case find P cs of Some c \<Rightarrow> Some (0, c) | None \<Rightarrow> map_option (\<lambda>(n, c). (Suc n, c)) (first_of Ps cs))"

fun rank_of :: "('a \<Rightarrow> bool) list \<Rightarrow> 'a \<Rightarrow> nat" where
  "rank_of [] x = 0"
| "rank_of (P # Ps) x = (if P x then 0 else Suc (rank_of Ps x))"

lemma first_of_strongest:
  "first_of Ps cs = (case strongest (rank_of Ps) cs of None \<Rightarrow> None
     | Some c \<Rightarrow> if rank_of Ps c < length Ps then Some (rank_of Ps c, c) else None)"
proof (induction Ps)
  case Nil
  then show ?case by (simp split: option.split)
next
  case (Cons P Ps)
  define r where "r = rank_of (P # Ps)"
  have r: "r x = (if P x then 0 else Suc (rank_of Ps x))" for x
    by (simp add: r_def)
  have "first_of (P # Ps) cs = (case strongest r cs of None \<Rightarrow> None
     | Some c \<Rightarrow> if r c < Suc (length Ps) then Some (r c, c) else None)"
  proof (cases "find P cs")
    case None
    then have no: "\<not> P x" if "x \<in> set cs" for x
      using that by (simp add: find_None_iff)
    then have eq: "strongest r cs = strongest (rank_of Ps) cs"
      by (intro strongest_Suc) (simp add: r)
    show ?thesis
    proof (cases "strongest (rank_of Ps) cs")
      case (Some c)
      then have "\<not> P c" using no strongest_Some [OF Some] by blast
      then show ?thesis
        using None Some Cons.IH by (simp add: eq r)
    qed (use None Cons.IH eq in simp)
  next
    case (Some c)
    then have c: "c \<in> set cs" "P c"
      by (auto simp: find_Some_iff)
    then obtain d where d: "strongest r cs = Some d"
      using strongest_None [of r cs] by fastforce
    have "r d \<le> r c"
      using strongest_Some [OF d] c by blast
    then have d0: "r d = 0"
      using c by (simp add: r)
    have "(\<lambda>x. r x = 0) = P"
      by (simp add: r fun_eq_iff)
    then have "find P cs = Some d"
      using strongest_Some [OF d] d0 by simp
    then show ?thesis
      using Some d d0 by simp
  qed
  then show ?case by (simp only: r_def length_Cons)
qed

text \<open>The kinds of evidence that a candidate is the lead, strongest first.\<close>

definition evidence_kinds ::
  "distance \<Rightarrow> rat \<Rightarrow> dedup_input \<Rightarrow> (dedup_candidate \<Rightarrow> bool) list" where
  "evidence_kinds metres nearMeters i =
     [\<lambda>c. same_fact (di_normalizedDomain i) (di_normalizedDomain c) \<and> nearAddress metres nearMeters i c,
      \<lambda>c. same_fact (di_normalizedPhone i) (di_normalizedPhone c) \<and> nearAddress metres nearMeters i c,
      \<lambda>c. same_fact (di_normalizedName i) (di_normalizedName c) \<and> nearAddress metres nearMeters i c,
      \<lambda>c. (di_normalizedDomain i \<noteq> None \<and> di_normalizedDomain c = di_normalizedDomain i
            \<or> di_normalizedPhone i \<noteq> None \<and> di_normalizedPhone c = di_normalizedPhone i)
            \<and> \<not> nearAddress metres nearMeters i c,
      \<lambda>c. same_fact (di_normalizedName i) (di_normalizedName c) \<and> sameCity i c]"

definition verdict :: "nat \<Rightarrow> string \<Rightarrow> dedup_decision" where
  "verdict n lid =
     (if n = 0 then DEDUP_DUPLICATE DOMAIN_ADDRESS lid
      else if n = 1 then DEDUP_DUPLICATE PHONE_ADDRESS lid
      else if n = 2 then DEDUP_DUPLICATE NAME_ADDRESS lid
      else if n = 3 then BRANCH lid
      else if n = 4 then AMBIGUOUS lid
      else UNIQUE)"

lemma decideMatch_chain:
  "decideMatch metres i cs nearMeters =
     (case first_of (evidence_kinds metres nearMeters i) cs of
        None \<Rightarrow> UNIQUE | Some (n, c) \<Rightarrow> verdict n (dc_leadId c))"
  unfolding decideMatch_def evidence_kinds_def
  by (simp add: verdict_def split: option.split)

text \<open>The dedup decision, five passes over the candidates, is that of the first candidate with the
  strongest evidence, found in one pass: a weaker signal never wins over a stronger one, and no
  candidate without evidence is merged, branched or flagged.\<close>

theorem dedup_strongest_evidence:
  "decideMatch metres i cs nearMeters =
     (case strongest (rank_of (evidence_kinds metres nearMeters i)) cs of
        None \<Rightarrow> UNIQUE
      | Some c \<Rightarrow> verdict (rank_of (evidence_kinds metres nearMeters i) c) (dc_leadId c))"
proof -
  have "length (evidence_kinds metres nearMeters i) = 5"
    by (simp add: evidence_kinds_def)
  then show ?thesis
    unfolding decideMatch_chain first_of_strongest by (auto simp: verdict_def split: option.split)
qed

section \<open>Telephone numbers\<close>

lemma digit_not_ws: "is_digit c \<Longrightarrow> \<not> is_ws c"
  by (auto simp: is_digit_def is_ws_def Let_def)

lemma filter_dropWhile_none: "(\<And>x. P x \<Longrightarrow> \<not> Q x) \<Longrightarrow> filter P (dropWhile Q xs) = filter P xs"
  by (induction xs) auto

lemma digits_trim: "filter is_digit (js_trim s) = filter is_digit s"
proof -
  have "filter is_digit (js_trim s) = rev (filter is_digit (dropWhile is_ws (rev (dropWhile is_ws s))))"
    by (simp add: js_trim_def rev_filter)
  also have "\<dots> = filter is_digit s"
    by (simp add: filter_dropWhile_none digit_not_ws rev_filter)
  finally show ?thesis .
qed

lemma strip_zeros_id: "s \<noteq> [] \<Longrightarrow> hd s \<noteq> CHR ''0'' \<Longrightarrow> strip_zeros s = s"
  by (cases s rule: strip_zeros.cases) auto

lemma starts_with_append: "starts_with p (p @ s)"
  by (simp add: starts_with_def)

lemma country_codes:
  assumes "cc \<in> set COUNTRY_CODES" and "d \<noteq> []"
  shows "strip_country COUNTRY_CODES (cc @ d) = d" and "strip_zeros (cc @ d) = cc @ d"
    and "drop_prefix ''00'' (cc @ d) = cc @ d" and "cc @ d \<noteq> []"
proof -
  have cc: "cc = ''44'' \<or> cc = ''972'' \<or> cc = ''353'' \<or> cc = ''1''"
    using assms(1) by (simp add: COUNTRY_CODES_def)
  then show "strip_country COUNTRY_CODES (cc @ d) = d"
    using assms(2) by (elim disjE) (simp_all add: COUNTRY_CODES_def starts_with_def)
  show "strip_zeros (cc @ d) = cc @ d"
    using cc by (intro strip_zeros_id) auto
  show "drop_prefix ''00'' (cc @ d) = cc @ d" "cc @ d \<noteq> []"
    using cc by (auto simp: drop_prefix_def starts_with_def)
qed

lemma fact_trim: "starts_with ''+'' (js_trim s) \<Longrightarrow> s \<noteq> []"
  by (auto simp: js_trim_def starts_with_def)

text \<open>Two notations of a telephone number have one normal form, whatever separators they use: the
  international one, a plus sign and the digits of a country code of the table and a national number,
  and the national one, its digits with or without the leading zero.\<close>

theorem phone_notations_agree:
  assumes "starts_with ''+'' (js_trim international)" and "filter is_digit international = cc @ d"
    and "cc \<in> set COUNTRY_CODES" and "d \<noteq> []" and "hd d \<noteq> CHR ''0''"
    and "\<not> starts_with ''+'' (js_trim national)" and "\<not> starts_with ''00'' (js_trim national)"
    and "filter is_digit national = CHR ''0'' # d \<or> filter is_digit national = d"
  shows "normalizePhone (Some international) = Some d \<and> normalizePhone (Some national) = Some d"
proof
  have "international \<noteq> []"
    by (rule fact_trim [OF assms(1)])
  then show "normalizePhone (Some international) = Some d"
    using assms(1,2) country_codes [OF assms(3,4)]
    by (simp add: normalizePhone_def fact_def digits_trim Let_def)
  have ne: "national \<noteq> []"
    using assms(4,8) by auto
  have "drop_prefix ''0'' (filter is_digit national) = d" "filter is_digit national \<noteq> []"
    using assms(4,5,8) by (auto simp: drop_prefix_def starts_with_def neq_Nil_conv)
  then show "normalizePhone (Some national) = Some d"
    using assms(6,7) ne by (simp add: normalizePhone_def fact_def digits_trim Let_def)
qed

theorem phone_notations_agree_witness:
  "normalizePhone (Some ''+44 161 496 0000'') = Some ''1614960000''
   \<and> normalizePhone (Some ''(0161) 496-0000'') = Some ''1614960000''"
  by (rule phone_notations_agree [where cc = "''44''"]) code_simp+

section \<open>Concrete runs\<close>

definition demo_env :: collect_env where
  "demo_env = \<lparr>env_metres = (\<lambda>a b c d. 0), env_num_str = (\<lambda>q. ''1'')\<rparr>"

definition demo_new_lead :: new_lead where
  "demo_new_lead = \<lparr>nl_businessName = ''A'', nl_domain = None, nl_phone = None, nl_placeId = None,
     nl_city = None, nl_country = None, nl_formattedAddress = None, nl_latitude = None,
     nl_longitude = None, nl_source = None\<rparr>"

definition demo_cmds :: "lead_cmd list" where
  "demo_cmds = [DoCreate demo_new_lead, DoTransition ''0'' NORMALIZED]"

lemma demo_lead:
  "map_option ld_status (lead_of (lead_run demo_env demo_cmds [] show_nat int) ''0'') = Some NORMALIZED"
  by code_simp

theorem reached_status_durable_witness:
  "case leadsEverReachedStatus [''0''] NORMALIZED
      (lead_run demo_env (demo_cmds @ [DoTransition ''0'' READY_FOR_QUALIFICATION]) [] show_nat int) of
    (Inr found, _) \<Rightarrow> ''0'' \<in> set found | (Inl _, _) \<Rightarrow> False"
proof -
  obtain l where l: "lead_of (lead_run demo_env demo_cmds [] show_nat int) ''0'' = Some l" "ld_status l = NORMALIZED"
    using demo_lead by auto
  show ?thesis
    using reached_status_durable [OF l(1), of "[''0'']" "[DoTransition ''0'' READY_FOR_QUALIFICATION]"] l(2)
    by simp
qed

definition demo_meta :: request_meta where
  "demo_meta = \<lparr>rq_fieldMask = ''id'', rq_pageIndex = 0, rq_query = JNull, rq_resultCount = 1,
     rq_billedTier = None, rq_estimatedCostUsd = None, rq_status = RQ_OK, rq_startedAt = 0,
     rq_completedAt = None\<rparr>"

definition demo_pages :: "provider_page list" where
  "demo_pages = [\<lparr>pg_candidates = [\<lparr>rc_sourcePlaceId = ''p1'', rc_facts = None\<rparr>], pg_request = demo_meta\<rparr>]"

definition demo_options :: collect_options where
  "demo_options = \<lparr>co_runId = ''r'', co_campaign = ''c'', co_maxLeads = 5, co_nearMeters = 100,
     co_factsSource = src_mock\<rparr>"

definition demo_collect :: "lead_db \<Rightarrow> collect_summary \<times> lead_db" where
  "demo_collect = collectLeads (\<lambda>a b c d. 0) (\<lambda>q. ''1'') ''mock'' demo_pages False demo_options"

lemma demo_collected:
  "(case demo_collect (fresh_lead_db [''r''] show_nat int) of (u, s) \<Rightarrow>
     cs_failed u = 0 \<and> \<not> cs_stoppedAtCap u \<and> \<not> cs_interrupted u \<and> cs_created u = 1 \<and> length (t_leads s) = 1)"
  by code_simp

theorem collection_idempotent_witness:
  "case demo_collect (fresh_lead_db [''r''] show_nat int) of (u, s) \<Rightarrow>
     (case demo_collect s of (u2, s2) \<Rightarrow> t_leads s2 = t_leads s \<and> length (t_leads s2) = 1
        \<and> cs_created u2 + cs_ambiguous u2 + cs_branches u2 = 0 \<and> cs_duplicates u2 = 0)"
proof -
  obtain u s where run: "demo_collect (fresh_lead_db [''r''] show_nat int) = (u, s)"
    by (cases "demo_collect (fresh_lead_db [''r''] show_nat int)")
  then have "cs_failed u = 0" "\<not> cs_stoppedAtCap u" "\<not> cs_interrupted u" "length (t_leads s) = 1"
    using demo_collected by auto
  with collection_idempotent [OF run [unfolded demo_collect_def], of False demo_options] show ?thesis
    by (auto simp: run demo_collect_def [symmetric] split: prod.splits)
qed

end
