(* ===== verification/Send_Gate.thy ===== *)
theory Send_Gate
  imports Timezone Lead_Machine
begin

text \<open>
  The pure part of scheduling and sending: the eligibility of a draft for a schedule
  (\<^verbatim>\<open>src/src/domain/schedule/eligibility.ts\<close>), the fingerprint a schedule is bound to
  (\<^verbatim>\<open>schedule/fingerprint.ts\<close>), the envelope hashes and the comparison with the provider's draft
  (\<^verbatim>\<open>send/envelope.ts\<close>), and the fail-closed gate in front of every send (\<^verbatim>\<open>send/eligibility.ts\<close>).
  \<open>sha256\<close> is the digest of the platform.
\<close>

section \<open>JSON text\<close>

text \<open>\<^verbatim>\<open>JSON.stringify\<close> of a string: quotes, backslashes and control characters are escaped.\<close>

definition hex_digit :: "nat \<Rightarrow> char" where
  "hex_digit n = (if n < 10 then char_of (48 + n) else char_of (87 + n))"

definition json_char :: "char \<Rightarrow> string" where
  "json_char c =
     (let n = (of_char c :: nat) in
      if n = 34 then [CHR 0x5C, CHR 0x22]
      else if n = 92 then [CHR 0x5C, CHR 0x5C]
      else if n = 8 then [CHR 0x5C, CHR ''b'']
      else if n = 9 then [CHR 0x5C, CHR ''t'']
      else if n = 10 then [CHR 0x5C, CHR ''n'']
      else if n = 12 then [CHR 0x5C, CHR ''f'']
      else if n = 13 then [CHR 0x5C, CHR ''r'']
      else if n < 32 then CHR 0x5C # ''u00'' @ [hex_digit (n div 16), hex_digit (n mod 16)]
      else [c])"

definition json_string :: "string \<Rightarrow> string" where
  "json_string s = CHR 0x22 # concat (map json_char s) @ [CHR 0x22]"

fun json_text :: "json \<Rightarrow> string" where
  "json_text JNull = ''null''"
| "json_text (JBool b) = show_bool b"
| "json_text (JNum i) = show_int i"
| "json_text (JLit t) = t"
| "json_text (JStr s) = json_string s"
| "json_text (JArr xs) = ''['' @ js_join '','' (map json_text xs) @ '']''"
| "json_text (JObj ps) = ''{'' @ js_join '','' (map (\<lambda>(k, v). json_string k @ '':'' @ json_text v) ps) @ ''}''"

section \<open>Addresses\<close>

text \<open>\<^verbatim>\<open>/^[^\s@]+@[^\s@]+\.[^\s@]+$/\<close>: one at sign, no white space, something before the sign, and a dot
  strictly inside what follows it.\<close>

definition valid_email :: "string \<Rightarrow> bool" where
  "valid_email s \<longleftrightarrow>
     (let local = takeWhile (\<lambda>c. c \<noteq> CHR ''@'') s; rest = dropWhile (\<lambda>c. c \<noteq> CHR ''@'') s in
      \<not> list_ex is_ws s \<and> local \<noteq> [] \<and> rest \<noteq> [] \<and> CHR ''@'' \<notin> set (tl rest)
      \<and> CHR ''.'' \<in> set (butlast (tl (tl rest))))"

definition normal_address :: "string \<Rightarrow> string" where
  "normal_address v = js_lower (js_trim v)"

section \<open>Eligibility for a schedule\<close>

record schedule_snapshot =
  ss_leadStatus :: lead_status
  ss_gmailDraft :: "(string \<times> string option) option"
  ss_finalizedContentHash :: "string option"
  ss_recipientEmail :: "string option"
  ss_timezone :: "string option"
  ss_featureEnabled :: bool
  ss_hasActiveSchedule :: bool

record schedule_eligibility =
  sg_eligible :: bool
  sg_duplicateReusable :: bool
  sg_timezoneProblem :: bool
  sg_reasons :: "string list"

text \<open>A value that is absent or empty is missing.\<close>

definition missing :: "string option \<Rightarrow> bool" where
  "missing x \<longleftrightarrow> x = None \<or> x = Some ''''"

definition draft_reasons :: "(string \<times> string option) option \<Rightarrow> string list" where
  "draft_reasons d =
     (case d of None \<Rightarrow> [''no_gmail_draft'']
      | Some (outcome, pid) \<Rightarrow>
          (if outcome \<noteq> ''DRAFT_CREATED'' then [''gmail_draft_not_created:'' @ outcome] else [])
        @ (if missing pid then [''no_provider_draft_id''] else []))"

definition recipient_reasons :: "string option \<Rightarrow> string list" where
  "recipient_reasons r =
     (if missing r then [''no_verified_recipient'']
      else if \<not> valid_email (the r) then [''recipient_not_valid_email''] else [])"

definition timezone_reasons :: "intl \<Rightarrow> string option \<Rightarrow> string list" where
  "timezone_reasons intl tz =
     (if missing tz then [''missing_timezone'']
      else if \<not> isValidTimeZone intl (the tz) then [''invalid_timezone''] else [])"

definition schedule_reasons :: "intl \<Rightarrow> schedule_snapshot \<Rightarrow> string list" where
  "schedule_reasons intl s =
     (if \<not> ss_featureEnabled s then [''scheduling_disabled''] else [])
   @ (if ss_leadStatus s \<noteq> DRAFT_CREATED
      then [''lead_not_draft_created:'' @ lead_status_str (ss_leadStatus s)] else [])
   @ draft_reasons (ss_gmailDraft s)
   @ (if missing (ss_finalizedContentHash s) then [''no_finalized_content_hash''] else [])
   @ recipient_reasons (ss_recipientEmail s)
   @ timezone_reasons intl (ss_timezone s)"

definition checkScheduleEligibility :: "intl \<Rightarrow> schedule_snapshot \<Rightarrow> schedule_eligibility" where
  "checkScheduleEligibility intl s =
     (if ss_hasActiveSchedule s
      then \<lparr>sg_eligible = False, sg_duplicateReusable = True, sg_timezoneProblem = False,
            sg_reasons = [''active_schedule_exists'']\<rparr>
      else \<lparr>sg_eligible = (schedule_reasons intl s = []), sg_duplicateReusable = False,
            sg_timezoneProblem = (timezone_reasons intl (ss_timezone s) \<noteq> []),
            sg_reasons = schedule_reasons intl s\<rparr>)"

section \<open>Fingerprints and envelopes\<close>

type_synonym digest = "string \<Rightarrow> string"

record schedule_binding =
  sb_leadId :: string
  sb_gmailDraftId :: string
  sb_providerDraftId :: string
  sb_finalizedContentHash :: string
  sb_recipientEmail :: string
  sb_scheduledAtUtcMs :: int
  sb_rulesVersion :: string

definition scheduleIntegrityFingerprint :: "digest \<Rightarrow> schedule_binding \<Rightarrow> string" where
  "scheduleIntegrityFingerprint sha256 b = sha256 (js_join ''|''
     [sb_leadId b, sb_gmailDraftId b, sb_providerDraftId b, sb_finalizedContentHash b,
      sb_recipientEmail b, show_int (sb_scheduledAtUtcMs b), sb_rulesVersion b])"

definition recipientHash :: "digest \<Rightarrow> string \<Rightarrow> string" where
  "recipientHash sha256 email = sha256 (''recipient|'' @ normal_address email)"

record approved_envelope =
  ae_gmailAccount :: string
  ae_recipientEmail :: string
  ae_subject :: string
  ae_finalizedContentHash :: string
  ae_scheduleId :: string
  ae_scheduledAtUtcMs :: int
  ae_replyTo :: "string option"

definition reply_address :: "string option \<Rightarrow> string option" where
  "reply_address r = (if missing r then None else Some (normal_address (the r)))"

definition approvedEnvelopeHash :: "digest \<Rightarrow> approved_envelope \<Rightarrow> string" where
  "approvedEnvelopeHash sha256 e = sha256 (js_join ''|''
     [normal_address (ae_gmailAccount e), normal_address (ae_recipientEmail e), ae_subject e,
      ae_finalizedContentHash e, (case reply_address (ae_replyTo e) of None \<Rightarrow> '''' | Some r \<Rightarrow> r),
      ae_scheduleId e, show_int (ae_scheduledAtUtcMs e)])"

definition sendFingerprint :: "digest \<Rightarrow> string \<Rightarrow> string \<Rightarrow> string \<Rightarrow> string \<Rightarrow> string" where
  "sendFingerprint sha256 scheduleId gmailDraftId envelope readinessId =
     sha256 (js_join ''|'' [scheduleId, gmailDraftId, envelope, readinessId])"

definition confirmationFingerprint :: "digest \<Rightarrow> string \<Rightarrow> string \<Rightarrow> string \<Rightarrow> string" where
  "confirmationFingerprint sha256 approved confirmedBy observed =
     sha256 (js_join ''|'' [approved, confirmedBy, observed])"

definition preflightProofHash :: "digest \<Rightarrow> string \<Rightarrow> string \<Rightarrow> int \<Rightarrow> string" where
  "preflightProofHash sha256 fp observed checkedAt =
     sha256 (js_join ''|'' [''preflight-v1'', fp, observed, show_int checkedAt])"

record draft_envelope =
  de_fromName :: string
  de_fromEmail :: string
  de_to :: "string list"
  de_cc :: "string list"
  de_bcc :: "string list"
  de_replyTo :: "string option"
  de_subject :: string
  de_body :: string
  de_attachmentCount :: int

definition SENDER_NAME_TOKEN :: string where
  "SENDER_NAME_TOKEN = ''{{SENDER_NAME}}''"

definition resolveSenderName :: "string \<Rightarrow> string \<Rightarrow> string" where
  "resolveSenderName body senderName = js_replace_all SENDER_NAME_TOKEN senderName body"

text \<open>\<^verbatim>\<open>/\{\{[A-Za-z0-9_]+\}\}/\<close>: two opening braces, a word, two closing braces.\<close>

definition word_char :: "char \<Rightarrow> bool" where
  "word_char c \<longleftrightarrow> (let n = (of_char c :: nat) in
     (65 \<le> n \<and> n \<le> 90) \<or> (97 \<le> n \<and> n \<le> 122) \<or> (48 \<le> n \<and> n \<le> 57) \<or> n = 95)"

definition token_here :: "string \<Rightarrow> bool" where
  "token_here s \<longleftrightarrow> starts_with ''{{'' s
     \<and> takeWhile word_char (drop 2 s) \<noteq> [] \<and> starts_with ''}}'' (dropWhile word_char (drop 2 s))"

fun hasUnresolvedTokens :: "string \<Rightarrow> bool" where
  "hasUnresolvedTokens [] \<longleftrightarrow> False"
| "hasUnresolvedTokens (c # s) \<longleftrightarrow> token_here (c # s) \<or> hasUnresolvedTokens s"

text \<open>No reply-to address is ever passed; \<^const>\<open>None\<close>: the body keeps a token and the code throws.\<close>

definition expectedDraftEnvelope ::
  "string \<Rightarrow> string \<Rightarrow> string \<Rightarrow> string \<Rightarrow> string \<Rightarrow> draft_envelope option" where
  "expectedDraftEnvelope senderName senderEmail recipient subject resolvedBody =
     (let body = resolveSenderName resolvedBody senderName in
      if hasUnresolvedTokens body then None
      else Some \<lparr>de_fromName = senderName, de_fromEmail = normal_address senderEmail,
             de_to = [normal_address recipient], de_cc = [], de_bcc = [], de_replyTo = None,
             de_subject = subject, de_body = body, de_attachmentCount = 0\<rparr>)"

definition providerEnvelopeHash :: "digest \<Rightarrow> draft_envelope \<Rightarrow> string" where
  "providerEnvelopeHash sha256 e = sha256 (json_text (JObj
     [(''fromName'', JStr (de_fromName e)), (''fromEmail'', JStr (normal_address (de_fromEmail e))),
      (''to'', JArr (map (JStr \<circ> normal_address) (de_to e))),
      (''cc'', JArr (map (JStr \<circ> normal_address) (de_cc e))),
      (''bcc'', JArr (map (JStr \<circ> normal_address) (de_bcc e))),
      (''replyTo'', jopt (reply_address (de_replyTo e))),
      (''subject'', JStr (de_subject e)), (''bodyHash'', JStr (sha256 (de_body e))),
      (''attachmentCount'', JNum (de_attachmentCount e))]))"

definition head_address :: "string list \<Rightarrow> string" where
  "head_address xs = (case xs of [] \<Rightarrow> '''' | x # _ \<Rightarrow> x)"

definition compareProviderEnvelope :: "draft_envelope \<Rightarrow> draft_envelope \<Rightarrow> string list" where
  "compareProviderEnvelope expected actual =
     (if de_fromName actual \<noteq> de_fromName expected then [''sender_name_changed''] else [])
   @ (if normal_address (de_fromEmail actual) \<noteq> normal_address (de_fromEmail expected)
      then [''sender_changed''] else [])
   @ (if length (de_to actual) \<noteq> 1
        \<or> normal_address (head_address (de_to actual)) \<noteq> normal_address (head_address (de_to expected))
      then [''recipient_changed''] else [])
   @ (if de_cc actual \<noteq> [] then [''unexpected_cc''] else [])
   @ (if de_bcc actual \<noteq> [] then [''unexpected_bcc''] else [])
   @ (if reply_address (de_replyTo actual) \<noteq> reply_address (de_replyTo expected)
      then [''reply_to_changed''] else [])
   @ (if de_attachmentCount actual \<noteq> 0 then [''unexpected_attachment''] else [])
   @ (if de_subject actual \<noteq> de_subject expected then [''subject_changed''] else [])
   @ (if de_body actual \<noteq> de_body expected then [''body_changed''] else [])"

section \<open>Eligibility for a send\<close>

datatype schedule_status = SC_SCHEDULED | SC_CANCELLED | SC_SUPERSEDED | SC_FULFILLED | SC_INVALIDATED

fun schedule_status_str :: "schedule_status \<Rightarrow> string" where
  "schedule_status_str SC_SCHEDULED = ''SCHEDULED''"
| "schedule_status_str SC_CANCELLED = ''CANCELLED''"
| "schedule_status_str SC_SUPERSEDED = ''SUPERSEDED''"
| "schedule_status_str SC_FULFILLED = ''FULFILLED''"
| "schedule_status_str SC_INVALIDATED = ''INVALIDATED''"

record schedule_view =
  sv_id :: string
  sv_status :: schedule_status
  sv_gmailDraftId :: string
  sv_providerDraftId :: string
  sv_finalizedContentHash :: string
  sv_recipientEmail :: string
  sv_scheduledAtUtcMs :: int
  sv_rulesVersion :: string
  sv_storedIntegrityFingerprint :: string

record readiness_view =
  rv_id :: string
  rv_gmailAccount :: string
  rv_policyVersion :: string
  rv_approvedAtMs :: int
  rv_expiresAtMs :: int
  rv_revoked :: bool

record confirmation_view =
  cv_observedSendFingerprint :: string
  cv_confirmedBy :: string
  cv_confirmedAtMs :: int

record send_snapshot =
  sn_leadStatus :: lead_status
  sn_schedule :: "schedule_view option"
  sn_recomputedIntegrityFingerprint :: "string option"
  sn_currentGmailDraft :: "(string \<times> string option) option"
  sn_currentFinalizedContentHash :: "string option"
  sn_currentRecipientEmail :: "string option"
  sn_finalizationApproved :: bool
  sn_draftBindingValid :: bool
  sn_gmailAccountMatches :: bool
  sn_draftRecipientMatches :: bool
  sn_recipientSuppressed :: bool
  sn_readiness :: "readiness_view option"
  sn_confirmation :: "confirmation_view option"
  sn_approvedEnvelopeHash :: string
  sn_expectedSendFingerprint :: string
  sn_configGmailAccount :: string
  sn_configPolicyVersion :: string
  sn_sendingEnabled :: bool
  sn_outboundActionsEnabled :: bool
  sn_dryRun :: bool
  sn_nowMs :: int
  sn_maxLateMs :: int
  sn_confirmationTtlMs :: int
  sn_hasConfirmedAttempt :: bool
  sn_hasBlockingAttempt :: bool
  sn_lastDefinitiveFailureAtMs :: "int option"
  sn_confirmedSendsToday :: int
  sn_dailyCap :: int

record send_eligibility =
  el_eligible :: bool
  el_reasons :: "string list"
  el_bindingInvalid :: bool
  el_notDue :: bool
  el_tooLate :: bool
  el_suppressed :: bool
  el_alreadySent :: bool
  el_blocked :: bool
  el_flagsOnly :: bool

definition flag_reasons :: "send_snapshot \<Rightarrow> string list" where
  "flag_reasons s =
     (if \<not> sn_sendingEnabled s then [''sending_disabled''] else [])
   @ (if \<not> sn_outboundActionsEnabled s then [''outbound_actions_disabled''] else [])
   @ (if sn_dryRun s then [''dry_run_enabled''] else [])"

definition schedule_view_reasons :: "send_snapshot \<Rightarrow> string list" where
  "schedule_view_reasons s =
     (case sn_schedule s of None \<Rightarrow> [''no_active_schedule'']
      | Some v \<Rightarrow> if sv_status v \<noteq> SC_SCHEDULED
          then [''schedule_not_active:'' @ schedule_status_str (sv_status v)] else [])"

definition binding_invalid :: "send_snapshot \<Rightarrow> bool" where
  "binding_invalid s \<longleftrightarrow>
     (case sn_schedule s of None \<Rightarrow> False
      | Some v \<Rightarrow> sn_recomputedIntegrityFingerprint s \<noteq> Some (sv_storedIntegrityFingerprint v))"

definition readiness_reasons :: "send_snapshot \<Rightarrow> string list" where
  "readiness_reasons s =
     (case sn_readiness s of None \<Rightarrow> [''no_sending_readiness'']
      | Some r \<Rightarrow>
          (if rv_revoked r then [''readiness_revoked''] else [])
        @ (if normal_address (rv_gmailAccount r) \<noteq> normal_address (sn_configGmailAccount s)
           then [''readiness_account_mismatch''] else [])
        @ (if rv_policyVersion r \<noteq> sn_configPolicyVersion s then [''readiness_policy_mismatch''] else [])
        @ (if rv_approvedAtMs r > sn_nowMs s then [''readiness_in_future''] else [])
        @ (if sn_nowMs s \<ge> rv_expiresAtMs r then [''readiness_expired''] else [])
        @ (case sn_lastDefinitiveFailureAtMs s of None \<Rightarrow> []
           | Some t \<Rightarrow> if rv_approvedAtMs r \<le> t then [''fresh_readiness_required''] else []))"

definition confirmation_reasons :: "bool \<Rightarrow> send_snapshot \<Rightarrow> string list" where
  "confirmation_reasons required s =
     (if \<not> required then []
      else (case sn_confirmation s of None \<Rightarrow> [''no_confirmation'']
        | Some c \<Rightarrow>
            (if cv_observedSendFingerprint c \<noteq> sn_expectedSendFingerprint s
             then [''confirmation_fingerprint_mismatch''] else [])
          @ (if cv_confirmedAtMs c > sn_nowMs s then [''confirmation_in_future'']
             else if sn_nowMs s - cv_confirmedAtMs c > sn_confirmationTtlMs s then [''confirmation_expired'']
             else [])))"

definition not_due :: "send_snapshot \<Rightarrow> bool" where
  "not_due s \<longleftrightarrow> (case sn_schedule s of None \<Rightarrow> False | Some v \<Rightarrow> sn_nowMs s < sv_scheduledAtUtcMs v)"

definition too_late :: "send_snapshot \<Rightarrow> bool" where
  "too_late s \<longleftrightarrow> (case sn_schedule s of None \<Rightarrow> False
     | Some v \<Rightarrow> \<not> sn_nowMs s < sv_scheduledAtUtcMs v
         \<and> sn_nowMs s - sv_scheduledAtUtcMs v > sn_maxLateMs s)"

definition send_reasons :: "bool \<Rightarrow> send_snapshot \<Rightarrow> string list" where
  "send_reasons required s =
     (if sn_confirmedSendsToday s \<ge> sn_dailyCap s then [''daily_cap_reached''] else [])
   @ flag_reasons s
   @ (if sn_leadStatus s \<noteq> SCHEDULED then [''lead_not_scheduled:'' @ lead_status_str (sn_leadStatus s)] else [])
   @ schedule_view_reasons s
   @ draft_reasons (sn_currentGmailDraft s)
   @ (if missing (sn_currentFinalizedContentHash s) then [''no_finalized_content_hash''] else [])
   @ (if \<not> sn_finalizationApproved s then [''finalized_email_not_approved''] else [])
   @ (if \<not> sn_draftBindingValid s then [''draft_finalization_mismatch''] else [])
   @ (if \<not> sn_gmailAccountMatches s then [''gmail_account_mismatch''] else [])
   @ (if \<not> sn_draftRecipientMatches s then [''draft_recipient_mismatch''] else [])
   @ recipient_reasons (sn_currentRecipientEmail s)
   @ (if binding_invalid s then [''binding_invalidated''] else [])
   @ (if sn_recipientSuppressed s then [''recipient_suppressed''] else [])
   @ readiness_reasons s
   @ confirmation_reasons required s
   @ (if not_due s then [''not_due''] else if too_late s then [''too_late''] else [])"

definition refused :: "string list \<Rightarrow> send_eligibility" where
  "refused rs = \<lparr>el_eligible = False, el_reasons = rs, el_bindingInvalid = False, el_notDue = False,
     el_tooLate = False, el_suppressed = False, el_alreadySent = False, el_blocked = False,
     el_flagsOnly = False\<rparr>"

definition checkSendEligibility :: "bool \<Rightarrow> send_snapshot \<Rightarrow> send_eligibility" where
  "checkSendEligibility required s =
     (if sn_hasConfirmedAttempt s then (refused [''already_sent''])\<lparr>el_alreadySent := True\<rparr>
      else if sn_hasBlockingAttempt s then (refused [''blocking_attempt_exists''])\<lparr>el_blocked := True\<rparr>
      else let reasons = send_reasons required s; eligible = (reasons = []) in
        \<lparr>el_eligible = eligible, el_reasons = reasons, el_bindingInvalid = binding_invalid s,
         el_notDue = not_due s, el_tooLate = too_late s, el_suppressed = sn_recipientSuppressed s,
         el_alreadySent = False, el_blocked = False,
         el_flagsOnly = (\<not> eligible \<and> list_all (\<lambda>r. r \<in> set (flag_reasons s)) reasons)\<rparr>)"

section \<open>What the gates mean\<close>

lemma draft_reasons_Nil:
  "draft_reasons d = [] \<longleftrightarrow> (\<exists>pid. d = Some (''DRAFT_CREATED'', Some pid) \<and> pid \<noteq> [])"
  by (auto simp: draft_reasons_def missing_def split: option.splits)

lemma recipient_reasons_Nil: "recipient_reasons r = [] \<longleftrightarrow> (\<exists>a. r = Some a \<and> a \<noteq> [] \<and> valid_email a)"
  by (auto simp: recipient_reasons_def missing_def)

lemma missing_iff: "\<not> missing x \<longleftrightarrow> (\<exists>v. x = Some v \<and> v \<noteq> [])"
  by (auto simp: missing_def)

end
