(* ===== verification/Send_Store.thy ===== *)
theory Send_Store
  imports Send_Gate Leads
begin

text \<open>
  The tables behind scheduling and sending, with the constraints of \<^verbatim>\<open>src/src/persistence/schema.ts\<close>,
  and the repositories over them: \<^verbatim>\<open>schedule.repo.ts\<close>, \<^verbatim>\<open>send.repo.ts\<close>, \<^verbatim>\<open>send-input.repo.ts\<close>,
  \<^verbatim>\<open>scheduled-send.repo.ts\<close> and the suppression list. They extend the database of leads. Drafts and
  their finalizations (joined with the subject, the sequence step and the outreach record of the email
  draft they finalize) are written elsewhere and only read here. \<open>sqlstate_exposed\<close> says whether the driver's error for a failed statement carries the
  SQLSTATE at its top level, which is where the code looks for it.
\<close>

section \<open>Rows\<close>

record gmail_draft =
  gd_id :: string
  gd_leadId :: string
  gd_finalizedEmailId :: "string option"
  gd_recipientEmail :: string
  gd_senderEmail :: string
  gd_gmailAccount :: string
  gd_providerDraftId :: "string option"
  gd_threadId :: "string option"
  gd_messageId :: "string option"
  gd_outcome :: string
  gd_provider :: string
  gd_idempotencyFingerprint :: string
  gd_sourceEmailVersion :: string
  gd_errorClass :: "string option"
  gd_createdAt :: int
  gd_completedAt :: "int option"

record finalization =
  fn_id :: string
  fn_leadId :: string
  fn_resolvedBody :: string
  fn_resolvedBodyHash :: string
  fn_finalHumanDecision :: "string option"
  fn_finalReviewedAt :: "int option"
  fn_subject :: string
  fn_originalDraftId :: string
  fn_sequenceStep :: int
  fn_outreachRecordId :: "string option"
  fn_deploymentRunId :: "string option"
  fn_verifiedDeploymentUrl :: "string option"
  fn_originalBodyHash :: string
  fn_kind :: string
  fn_finalizedAt :: int
  fn_finalHumanNotes :: "string option"
  fn_finalReviewedBy :: "string option"
  fn_finalReviewedSource :: "string option"

record send_schedule =
  sc_id :: string
  sc_leadId :: string
  sc_gmailDraftId :: string
  sc_providerDraftId :: string
  sc_finalizedContentHash :: string
  sc_recipientEmail :: string
  sc_scheduledAtUtc :: int
  sc_timezone :: string
  sc_rulesVersion :: string
  sc_integrityFingerprint :: string
  sc_origin :: string
  sc_status :: schedule_status
  sc_supersededById :: "string option"
  sc_cancelReason :: "string option"
  sc_rescheduleCount :: int
  sc_createdAt :: int
  sc_cancelledAt :: "int option"
  sc_fulfilledAt :: "int option"
  sc_invalidatedAt :: "int option"
  sc_invalidationReason :: "string option"

datatype attempt_status =
  AT_RESERVED | AT_CALL_STARTED | AT_SENT_CONFIRMED | AT_DEFINITIVE_FAILURE | AT_OUTCOME_UNKNOWN
  | AT_DUPLICATE_PREVENTED

datatype reconciliation = CONFIRMED_SENT | CONFIRMED_NOT_SENT

record send_attempt =
  sa_id :: string
  sa_leadId :: string
  sa_scheduleId :: string
  sa_gmailDraftId :: string
  sa_readinessApprovalId :: string
  sa_gmailAccount :: string
  sa_recipientHash :: string
  sa_finalizedContentHash :: string
  sa_scheduleIntegrityFingerprint :: string
  sa_approvedEnvelopeHash :: string
  sa_observedEnvelopeHash :: string
  sa_sendFingerprint :: string
  sa_confirmationFingerprint :: string
  sa_confirmedBy :: string
  sa_confirmedAt :: int
  sa_status :: attempt_status
  sa_providerMessageId :: "string option"
  sa_providerThreadId :: "string option"
  sa_errorClass :: "string option"
  sa_reservedAt :: int
  sa_callStartedAt :: "int option"
  sa_completedAt :: "int option"
  sa_reconciledOutcome :: "reconciliation option"
  sa_reconciledBy :: "string option"
  sa_reconciledAt :: "int option"
  sa_reconciliationNote :: "string option"

datatype readiness_source = INTERACTIVE | SESSION

record readiness =
  rd_id :: string
  rd_gmailAccount :: string
  rd_policyVersion :: string
  rd_approvedBy :: string
  rd_approvedAt :: int
  rd_expiresAt :: int
  rd_revokedAt :: "int option"
  rd_revokedBy :: "string option"
  rd_revokeReason :: "string option"
  rd_source :: readiness_source
  rd_authorizationId :: "string option"

datatype suppression_scope = SU_domain | SU_phone | SU_place_id | SU_email | SU_business

record suppression =
  su_id :: string
  su_scope :: suppression_scope
  su_value :: string
  su_reason :: "string option"
  su_createdBy :: string
  su_createdAt :: int
  su_revokedAt :: "int option"
  su_revokedBy :: "string option"
  su_revokeReason :: "string option"

record authorization =
  au_id :: string
  au_gmailAccount :: string
  au_policyVersion :: string
  au_startsAt :: int
  au_expiresAt :: int
  au_maxPerDay :: int
  au_createdBy :: string
  au_note :: "string option"
  au_revokedAt :: "int option"
  au_revokedBy :: "string option"
  au_revokeReason :: "string option"
  au_createdAt :: int

section \<open>The provider\<close>

text \<open>What the provider answers, in the order of the calls, and the drafts it was told to send.\<close>

record account_answer =
  aa_ok :: bool
  aa_email :: "string option"

record draft_answer =
  da_envelope :: draft_envelope
  da_providerDraftId :: "string option"
  da_providerMessageId :: "string option"
  da_providerThreadId :: "string option"

datatype draft_inspection = Inspected draft_answer | NotInspected string

datatype send_outcome_class = SR_ok | SR_definitive_failure | SR_rate_limited | SR_auth_error | SR_unknown

text \<open>A response carries an outcome, the message and thread identifiers if there is a reference, and a
  reason; \<open>ProviderThrows\<close> is an exception of the call.\<close>

datatype send_response =
    Response send_outcome_class "(string \<times> string option) option" "string option"
  | ProviderThrows

record send_db = lead_db +
  t_gmail_drafts :: "gmail_draft list"
  t_finalizations :: "finalization list"
  t_schedules :: "send_schedule list"
  t_attempts :: "send_attempt list"
  t_readiness :: "readiness list"
  t_suppressions :: "suppression list"
  t_authorizations :: "authorization list"
  gm_calls :: nat
  gm_account :: "nat \<Rightarrow> account_answer"
  gm_draft :: "nat \<Rightarrow> draft_inspection"
  gm_send :: "nat \<Rightarrow> send_response"
  gm_sent :: "string list"

section \<open>Choosing rows\<close>

text \<open>\<^verbatim>\<open>ORDER BY \<dots> DESC LIMIT 1\<close>: the first of the rows with the greatest key.\<close>

fun latest_by :: "('r \<Rightarrow> int) \<Rightarrow> 'r list \<Rightarrow> 'r option" where
  "latest_by k [] = None"
| "latest_by k (r # rs) =
     (case latest_by k rs of None \<Rightarrow> Some r | Some q \<Rightarrow> if k r \<ge> k q then Some r else Some q)"

lemma latest_by_in: "latest_by k rs = Some r \<Longrightarrow> r \<in> set rs"
  by (induction rs arbitrary: r) (auto split: option.splits if_splits)

lemma latest_by_None [simp]: "latest_by k rs = None \<longleftrightarrow> rs = []"
  by (cases rs) (auto split: option.splits)

section \<open>Schedules\<close>

definition activeScheduledUtc :: "('a send_db_scheme, int list) prog" where
  "activeScheduledUtc =
     read_p (\<lambda>s. map sc_scheduledAtUtc (filter (\<lambda>r. sc_status r = SC_SCHEDULED) (t_schedules s)))"

definition activeForDraft :: "string \<Rightarrow> ('a send_db_scheme, send_schedule option) prog" where
  "activeForDraft did =
     read_p (\<lambda>s. find (\<lambda>r. sc_gmailDraftId r = did \<and> sc_status r = SC_SCHEDULED) (t_schedules s))"

definition active_for_lead :: "'a send_db_scheme \<Rightarrow> string \<Rightarrow> send_schedule option" where
  "active_for_lead s lid =
     latest_by sc_createdAt (filter (\<lambda>r. sc_leadId r = lid \<and> sc_status r = SC_SCHEDULED) (t_schedules s))"

definition activeForLead :: "string \<Rightarrow> ('a send_db_scheme, send_schedule option) prog" where
  "activeForLead lid = read_p (\<lambda>s. active_for_lead s lid)"

text \<open>The insert checks the primary key, the unique index of the active schedules of a draft, and the
  references; the database assigns the creation time.\<close>

definition insertSchedule :: "send_schedule \<Rightarrow> ('a send_db_scheme, unit) prog" where
  "insertSchedule r s =
     (if list_ex (\<lambda>q. sc_id q = sc_id r) (t_schedules s)
      then (Inl (UniqueViolation ''send_schedules_pkey''), s)
      else if sc_status r = SC_SCHEDULED
        \<and> list_ex (\<lambda>q. sc_gmailDraftId q = sc_gmailDraftId r \<and> sc_status q = SC_SCHEDULED) (t_schedules s)
      then (Inl (UniqueViolation ''send_schedules_active_uk''), s)
      else if \<not> lead_exists s (sc_leadId r)
      then (Inl (ForeignKeyViolation ''send_schedules.lead_id''), s)
      else if \<not> list_ex (\<lambda>d. gd_id d = sc_gmailDraftId r) (t_gmail_drafts s)
      then (Inl (ForeignKeyViolation ''send_schedules.gmail_draft_id''), s)
      else (Inr (), s\<lparr>lead_ticks := Suc (lead_ticks s),
             t_schedules := t_schedules s @ [r\<lparr>sc_createdAt := lead_clock s (lead_ticks s)\<rparr>]\<rparr>))"

definition update_schedule ::
  "string \<Rightarrow> (send_schedule \<Rightarrow> send_schedule) \<Rightarrow> ('a send_db_scheme, unit) prog" where
  "update_schedule sid f =
     write_p (\<lambda>s. s\<lparr>t_schedules := update_where (\<lambda>r. sc_id r = sid) f (t_schedules s)\<rparr>)"

definition supersedeSchedule :: "string \<Rightarrow> string \<Rightarrow> ('a send_db_scheme, unit) prog" where
  "supersedeSchedule oldId newId =
     update_schedule oldId (\<lambda>r. r\<lparr>sc_status := SC_SUPERSEDED, sc_supersededById := Some newId\<rparr>)"

definition cancelSchedule :: "string \<Rightarrow> string option \<Rightarrow> int \<Rightarrow> ('a send_db_scheme, unit) prog" where
  "cancelSchedule sid reason now = update_schedule sid
     (\<lambda>r. r\<lparr>sc_status := SC_CANCELLED, sc_cancelReason := reason, sc_cancelledAt := Some now\<rparr>)"

definition markScheduleFulfilled :: "string \<Rightarrow> int \<Rightarrow> ('a send_db_scheme, unit) prog" where
  "markScheduleFulfilled sid now =
     update_schedule sid (\<lambda>r. r\<lparr>sc_status := SC_FULFILLED, sc_fulfilledAt := Some now\<rparr>)"

definition invalidateSchedule :: "string \<Rightarrow> string \<Rightarrow> int \<Rightarrow> ('a send_db_scheme, unit) prog" where
  "invalidateSchedule sid reason now = update_schedule sid
     (\<lambda>r. r\<lparr>sc_status := SC_INVALIDATED, sc_invalidatedAt := Some now, sc_invalidationReason := Some reason\<rparr>)"

section \<open>Attempts\<close>

definition confirmed_attempt :: "send_attempt \<Rightarrow> bool" where
  "confirmed_attempt a \<longleftrightarrow>
     sa_status a = AT_SENT_CONFIRMED \<or> sa_reconciledOutcome a = Some CONFIRMED_SENT"

text \<open>The condition of the partial index, and the one of the query, which leaves out the confirmed.\<close>

definition blocking_attempt :: "send_attempt \<Rightarrow> bool" where
  "blocking_attempt a \<longleftrightarrow>
     sa_status a = AT_RESERVED \<or> sa_status a = AT_CALL_STARTED \<or> sa_status a = AT_SENT_CONFIRMED
     \<or> (sa_status a = AT_OUTCOME_UNKNOWN \<and> sa_reconciledOutcome a \<noteq> Some CONFIRMED_NOT_SENT)"

definition unresolved_attempt :: "send_attempt \<Rightarrow> bool" where
  "unresolved_attempt a \<longleftrightarrow>
     sa_status a = AT_RESERVED \<or> sa_status a = AT_CALL_STARTED
     \<or> (sa_status a = AT_OUTCOME_UNKNOWN \<and> sa_reconciledOutcome a \<noteq> Some CONFIRMED_NOT_SENT)"

text \<open>The first unique index a table of attempts violates.\<close>

definition attempts_violation :: "send_attempt list \<Rightarrow> string option" where
  "attempts_violation rows =
     (if \<not> distinct (map sa_id rows) then Some ''send_attempts_pkey''
      else if \<not> distinct (map sa_sendFingerprint rows) then Some ''send_attempts_fingerprint_uk''
      else if \<not> distinct (map sa_scheduleId (filter confirmed_attempt rows))
      then Some ''send_attempts_confirmed_schedule_uk''
      else if \<not> distinct (map sa_scheduleId (filter blocking_attempt rows))
      then Some ''send_attempts_blocking_schedule_uk''
      else if \<not> distinct (List.map_filter sa_providerMessageId rows)
      then Some ''send_attempts_provider_message_uk''
      else None)"

definition attempt_exists :: "(send_attempt \<Rightarrow> bool) \<Rightarrow> 'a send_db_scheme \<Rightarrow> string \<Rightarrow> bool" where
  "attempt_exists P s sid \<longleftrightarrow> list_ex (\<lambda>a. sa_scheduleId a = sid \<and> P a) (t_attempts s)"

definition hasConfirmedAttempt :: "string \<Rightarrow> ('a send_db_scheme, bool) prog" where
  "hasConfirmedAttempt sid = read_p (\<lambda>s. attempt_exists confirmed_attempt s sid)"

definition hasBlockingAttempt :: "string \<Rightarrow> ('a send_db_scheme, bool) prog" where
  "hasBlockingAttempt sid = read_p (\<lambda>s. attempt_exists unresolved_attempt s sid)"

text \<open>\<^verbatim>\<open>COALESCE(reconciled_at, completed_at)\<close>.\<close>

definition effective_at :: "send_attempt \<Rightarrow> int option" where
  "effective_at a = (case sa_reconciledAt a of Some t \<Rightarrow> Some t | None \<Rightarrow> sa_completedAt a)"

definition last_failure :: "'a send_db_scheme \<Rightarrow> string \<Rightarrow> int option" where
  "last_failure s sid = latest_by id (List.map_filter effective_at
     (filter (\<lambda>a. sa_scheduleId a = sid \<and> (sa_status a = AT_DEFINITIVE_FAILURE
        \<or> sa_reconciledOutcome a = Some CONFIRMED_NOT_SENT)) (t_attempts s)))"

definition lastDefinitiveFailureAt :: "string \<Rightarrow> ('a send_db_scheme, int option) prog" where
  "lastDefinitiveFailureAt sid = read_p (\<lambda>s. last_failure s sid)"

definition day_start :: "int \<Rightarrow> int" where
  "day_start now = date_utc (getUTCFullYear now) (getUTCMonth now) (getUTCDate now) 0 0 0"

definition in_day :: "int \<Rightarrow> int \<Rightarrow> bool" where
  "in_day start t \<longleftrightarrow> start \<le> t \<and> t < start + 86400000"

definition effective_in_day :: "int \<Rightarrow> send_attempt \<Rightarrow> bool" where
  "effective_in_day start a \<longleftrightarrow> (case effective_at a of None \<Rightarrow> False | Some t \<Rightarrow> in_day start t)"

definition confirmed_today :: "'a send_db_scheme \<Rightarrow> string \<Rightarrow> int \<Rightarrow> int" where
  "confirmed_today s account now = int (length (filter (\<lambda>a. sa_gmailAccount a = account
     \<and> confirmed_attempt a \<and> effective_in_day (day_start now) a) (t_attempts s)))"

definition confirmedSendsToday :: "string \<Rightarrow> int \<Rightarrow> ('a send_db_scheme, int) prog" where
  "confirmedSendsToday account now = read_p (\<lambda>s. confirmed_today s account now)"

definition counts_for_cap :: "string \<Rightarrow> int \<Rightarrow> send_attempt \<Rightarrow> bool" where
  "counts_for_cap account start a \<longleftrightarrow> sa_gmailAccount a = account
     \<and> (confirmed_attempt a \<and> effective_in_day start a
       \<or> (sa_status a = AT_RESERVED \<or> sa_status a = AT_CALL_STARTED) \<and> in_day start (sa_reservedAt a)
       \<or> (sa_status a = AT_OUTCOME_UNKNOWN \<and> sa_reconciledOutcome a \<noteq> Some CONFIRMED_NOT_SENT)
           \<and> in_day start (sa_reservedAt a))"

datatype reservation = RESERVED_OK | RESERVE_DUPLICATE | RESERVE_DAILY_CAP

definition insertAttempt :: "send_attempt \<Rightarrow> ('a send_db_scheme, unit) prog" where
  "insertAttempt r s =
     (case attempts_violation (t_attempts s @ [r]) of
        Some n \<Rightarrow> (Inl (UniqueViolation n), s)
      | None \<Rightarrow>
          if \<not> lead_exists s (sa_leadId r) then (Inl (ForeignKeyViolation ''send_attempts.lead_id''), s)
          else if \<not> list_ex (\<lambda>q. sc_id q = sa_scheduleId r) (t_schedules s)
          then (Inl (ForeignKeyViolation ''send_attempts.schedule_id''), s)
          else if \<not> list_ex (\<lambda>d. gd_id d = sa_gmailDraftId r) (t_gmail_drafts s)
          then (Inl (ForeignKeyViolation ''send_attempts.gmail_draft_id''), s)
          else if \<not> list_ex (\<lambda>q. rd_id q = sa_readinessApprovalId r) (t_readiness s)
          then (Inl (ForeignKeyViolation ''send_attempts.readiness_approval_id''), s)
          else (Inr (), s\<lparr>t_attempts := t_attempts s @ [r]\<rparr>))"

definition reserveAttempt ::
  "bool \<Rightarrow> send_attempt \<Rightarrow> int \<Rightarrow> ('a send_db_scheme, reservation) prog" where
  "reserveAttempt sqlstate_exposed r dailyCap s =
     (if int (length (filter (counts_for_cap (sa_gmailAccount r) (day_start (sa_reservedAt r))) (t_attempts s)))
           \<ge> dailyCap
      then (Inr RESERVE_DAILY_CAP, s)
      else (case insertAttempt r s of
        (Inr _, s1) \<Rightarrow> (Inr RESERVED_OK, s1)
      | (Inl (UniqueViolation n), s1) \<Rightarrow>
          (if sqlstate_exposed then Inr RESERVE_DUPLICATE else Inl (UniqueViolation n), s)
      | (Inl e, s1) \<Rightarrow> (Inl e, s)))"

record attempt_patch =
  ap_status :: "attempt_status option"
  ap_providerMessageId :: "string option option"
  ap_providerThreadId :: "string option option"
  ap_errorClass :: "string option option"
  ap_callStartedAt :: "int option option"
  ap_completedAt :: "int option option"

definition no_patch :: attempt_patch where
  "no_patch = \<lparr>ap_status = None, ap_providerMessageId = None, ap_providerThreadId = None,
     ap_errorClass = None, ap_callStartedAt = None, ap_completedAt = None\<rparr>"

definition patched :: "'v \<Rightarrow> 'v option \<Rightarrow> 'v" where
  "patched old new = (case new of None \<Rightarrow> old | Some v \<Rightarrow> v)"

definition patch_attempt :: "attempt_patch \<Rightarrow> send_attempt \<Rightarrow> send_attempt" where
  "patch_attempt p a = a\<lparr>sa_status := patched (sa_status a) (ap_status p),
     sa_providerMessageId := patched (sa_providerMessageId a) (ap_providerMessageId p),
     sa_providerThreadId := patched (sa_providerThreadId a) (ap_providerThreadId p),
     sa_errorClass := patched (sa_errorClass a) (ap_errorClass p),
     sa_callStartedAt := patched (sa_callStartedAt a) (ap_callStartedAt p),
     sa_completedAt := patched (sa_completedAt a) (ap_completedAt p)\<rparr>"

text \<open>An update that would break a unique index fails.\<close>

definition update_attempts ::
  "(send_attempt \<Rightarrow> bool) \<Rightarrow> (send_attempt \<Rightarrow> send_attempt) \<Rightarrow> ('a send_db_scheme, unit) prog" where
  "update_attempts P f s =
     (let rows = update_where P f (t_attempts s) in
      case attempts_violation rows of
        Some n \<Rightarrow> (Inl (UniqueViolation n), s)
      | None \<Rightarrow> (Inr (), s\<lparr>t_attempts := rows\<rparr>))"

definition completeAttempt :: "string \<Rightarrow> attempt_patch \<Rightarrow> ('a send_db_scheme, unit) prog" where
  "completeAttempt aid p = update_attempts (\<lambda>a. sa_id a = aid) (patch_attempt p)"

section \<open>Readiness and suppressions\<close>

definition readiness_for ::
  "readiness_source \<Rightarrow> string \<Rightarrow> string \<Rightarrow> 'a send_db_scheme \<Rightarrow> readiness option" where
  "readiness_for src account policy s = latest_by rd_approvedAt
     (filter (\<lambda>r. rd_gmailAccount r = account \<and> rd_policyVersion r = policy \<and> rd_source r = src) (t_readiness s))"

definition readReadiness ::
  "readiness_source \<Rightarrow> string \<Rightarrow> string \<Rightarrow> ('a send_db_scheme, readiness option) prog" where
  "readReadiness src account policy = read_p (readiness_for src account policy)"

record identity =
  id_email :: "string option"
  id_domain :: "string option"
  id_phone :: "string option"
  id_placeId :: "string option"

definition suppression_hit :: "suppression_scope \<Rightarrow> string option \<Rightarrow> suppression \<Rightarrow> bool" where
  "suppression_hit sc v r \<longleftrightarrow> su_scope r = sc \<and> v = Some (su_value r)"

definition suppressions_of :: "identity \<Rightarrow> 'a send_db_scheme \<Rightarrow> suppression_scope list" where
  "suppressions_of i s = remdups (map su_scope (filter (\<lambda>r. su_revokedAt r = None
     \<and> (suppression_hit SU_email (map_option normal_address (fact (id_email i))) r
        \<or> suppression_hit SU_domain (fact (id_domain i)) r
        \<or> suppression_hit SU_phone (fact (id_phone i)) r \<or> suppression_hit SU_place_id (fact (id_placeId i)) r)) (t_suppressions s)))"

definition activeSuppressions :: "identity \<Rightarrow> ('a send_db_scheme, suppression_scope list) prog" where
  "activeSuppressions i = read_p (suppressions_of i)"

end
