(* ===== verification/Schedule_Service.thy ===== *)
theory Schedule_Service
  imports Send_Store Scheduler
begin

text \<open>
  The scheduling service (\<^verbatim>\<open>src/src/domain/schedule/schedule-service.ts\<close>): an eligible draft gets the
  next slot, an active schedule can be cancelled or moved to a slot the operator asks for. Reads run
  outside the transaction that writes. \<open>parse_date\<close> is \<^verbatim>\<open>Date.parse\<close>, with \<^const>\<open>None\<close> for not-a-number.
  A conversion that throws makes the operation throw; a search that does not end (a spacing that is
  not positive) is the result \<open>Diverges\<close>.
\<close>

datatype schedule_outcome =
  SO_SCHEDULED | SO_SCHEDULED_DRYRUN | SO_DUPLICATE_REUSED | SO_INVALID_ELIGIBILITY | SO_TIMEZONE_INVALID
  | SO_SCHEDULE_BLOCKED | SO_CANCELLED | SO_NOT_SCHEDULED | SO_RESCHEDULED | SO_INVALID_SCHEDULE
  | SO_NOT_FOUND

fun schedule_outcome_str :: "schedule_outcome \<Rightarrow> string" where
  "schedule_outcome_str SO_SCHEDULED = ''SCHEDULED''"
| "schedule_outcome_str SO_SCHEDULED_DRYRUN = ''SCHEDULED_DRYRUN''"
| "schedule_outcome_str SO_DUPLICATE_REUSED = ''DUPLICATE_REUSED''"
| "schedule_outcome_str SO_INVALID_ELIGIBILITY = ''INVALID_ELIGIBILITY''"
| "schedule_outcome_str SO_TIMEZONE_INVALID = ''TIMEZONE_INVALID''"
| "schedule_outcome_str SO_SCHEDULE_BLOCKED = ''SCHEDULE_BLOCKED''"
| "schedule_outcome_str SO_CANCELLED = ''CANCELLED''"
| "schedule_outcome_str SO_NOT_SCHEDULED = ''NOT_SCHEDULED''"
| "schedule_outcome_str SO_RESCHEDULED = ''RESCHEDULED''"
| "schedule_outcome_str SO_INVALID_SCHEDULE = ''INVALID_SCHEDULE''"
| "schedule_outcome_str SO_NOT_FOUND = ''NOT_FOUND''"

record schedule_config =
  cf_featureEnabled :: bool
  cf_rules :: scheduling_rules
  cf_rulesVersion :: string

record schedule_draft =
  sd_id :: string
  sd_outcome :: string
  sd_providerDraftId :: "string option"

record schedule_input =
  si_leadId :: string
  si_leadStatus :: lead_status
  si_gmailDraft :: "schedule_draft option"
  si_finalizedContentHash :: "string option"
  si_recipientEmail :: "string option"
  si_timezone :: "string option"

record schedule_result =
  sr_leadId :: string
  sr_outcome :: schedule_outcome
  sr_scheduledAtUtc :: "int option"
  sr_scheduledAtLocal :: "string option"
  sr_why :: "string option"

text \<open>\<^verbatim>\<open>out\<close>: the local rendering of an instant may throw.\<close>

definition sched_out ::
  "intl \<Rightarrow> string \<Rightarrow> schedule_outcome \<Rightarrow> int option \<Rightarrow> string option \<Rightarrow> string option
   \<Rightarrow> ('a send_db_scheme, schedule_result) prog" where
  "sched_out intl lid outcome at_ms tz why =
     (case (at_ms, tz) of
        (Some t, Some z) \<Rightarrow>
          (case formatLocal intl z t of
             Inl e \<Rightarrow> throw_p e
           | Inr txt \<Rightarrow> return_p \<lparr>sr_leadId = lid, sr_outcome = outcome, sr_scheduledAtUtc = Some t,
               sr_scheduledAtLocal = Some txt, sr_why = why\<rparr>)
      | _ \<Rightarrow> return_p \<lparr>sr_leadId = lid, sr_outcome = outcome, sr_scheduledAtUtc = at_ms,
               sr_scheduledAtLocal = None, sr_why = why\<rparr>)"

definition note_event :: "string \<Rightarrow> string option \<Rightarrow> string \<Rightarrow> json \<Rightarrow> new_pipeline_event" where
  "note_event lid run msg data =
     \<lparr>pv_leadId = Some lid, pv_runId = run, pv_type = NOTE, pv_fromStatus = None, pv_toStatus = None,
      pv_message = Some msg, pv_data = data\<rparr>"

definition schedule_note :: "string \<Rightarrow> string \<Rightarrow> schedule_outcome \<Rightarrow> json \<Rightarrow> new_pipeline_event" where
  "schedule_note lid run outcome data =
     note_event lid (Some run) (''schedule: '' @ schedule_outcome_str outcome) data"

definition text_of :: "string option \<Rightarrow> string" where
  "text_of x = (case x of None \<Rightarrow> '''' | Some s \<Rightarrow> s)"

definition buildRecord ::
  "digest \<Rightarrow> schedule_config \<Rightarrow> schedule_input \<Rightarrow> string \<Rightarrow> string option \<Rightarrow> string \<Rightarrow> int \<Rightarrow> string \<Rightarrow> int
   \<Rightarrow> ('a send_db_scheme, send_schedule) prog" where
  "buildRecord sha256 cf i draftId providerId tz at_ms origin reschedules = bind_p newUUID (\<lambda>sid.
     return_p \<lparr>sc_id = sid, sc_leadId = si_leadId i, sc_gmailDraftId = draftId,
       sc_providerDraftId = text_of providerId, sc_finalizedContentHash = text_of (si_finalizedContentHash i),
       sc_recipientEmail = text_of (si_recipientEmail i), sc_scheduledAtUtc = at_ms, sc_timezone = tz,
       sc_rulesVersion = cf_rulesVersion cf,
       sc_integrityFingerprint = scheduleIntegrityFingerprint sha256
         \<lparr>sb_leadId = si_leadId i, sb_gmailDraftId = draftId, sb_providerDraftId = text_of providerId,
          sb_finalizedContentHash = text_of (si_finalizedContentHash i),
          sb_recipientEmail = text_of (si_recipientEmail i), sb_scheduledAtUtcMs = at_ms,
          sb_rulesVersion = cf_rulesVersion cf\<rparr>,
       sc_origin = origin, sc_status = SC_SCHEDULED, sc_supersededById = None, sc_cancelReason = None,
       sc_rescheduleCount = reschedules, sc_createdAt = 0, sc_cancelledAt = None, sc_fulfilledAt = None,
       sc_invalidatedAt = None, sc_invalidationReason = None\<rparr>)"

text \<open>\<^verbatim>\<open>if (lead && lead.status === src) await leadService.transition(leadId, dst)\<close>.\<close>

definition move_lead :: "string \<Rightarrow> lead_status \<Rightarrow> lead_status \<Rightarrow> ('a lead_db_scheme, unit) prog" where
  "move_lead lid src dst = bind_p (lead_getById lid) (\<lambda>found.
     case found of None \<Rightarrow> return_p ()
     | Some l \<Rightarrow> if ld_status l = src then then_p (lead_transition lid dst) (return_p ()) else return_p ())"

definition route_schedule ::
  "intl \<Rightarrow> schedule_input \<Rightarrow> string \<Rightarrow> schedule_outcome \<Rightarrow> string \<Rightarrow> ('a send_db_scheme, schedule_result) prog" where
  "route_schedule intl i run outcome why =
     then_p (lead_tx
       (then_p (move_lead (si_leadId i) DRAFT_CREATED NEEDS_MANUAL_REVIEW)
         (record_event (schedule_note (si_leadId i) run outcome (JObj [(''reason'', JStr why)])))))
     (sched_out intl (si_leadId i) outcome None None (Some why))"

text \<open>The values a run of a search may have in a program.\<close>

definition lift_res :: "'b res \<Rightarrow> ('s, 'b) prog" where
  "lift_res r = (case r of Inl e \<Rightarrow> throw_p e | Inr x \<Rightarrow> return_p x)"

definition commit_schedule ::
  "digest \<Rightarrow> schedule_config \<Rightarrow> schedule_input \<Rightarrow> schedule_draft \<Rightarrow> string \<Rightarrow> int \<Rightarrow> string
   \<Rightarrow> ('a send_db_scheme, unit) prog" where
  "commit_schedule sha256 cf i draft tz t run =
     bind_p (buildRecord sha256 cf i (sd_id draft) (sd_providerDraftId draft) tz t ''auto'' 0) (\<lambda>row.
     lead_tx (then_p (insertSchedule row)
       (then_p (move_lead (si_leadId i) DRAFT_CREATED SCHEDULED)
         (record_event (schedule_note (si_leadId i) run SO_SCHEDULED
            (JObj [(''scheduledAtUtc'', JStr (toISOString t)), (''timezone'', JStr tz)]))))))"

text \<open>The part of the operation after the eligibility check; \<^const>\<open>None\<close>: the search does not end.\<close>

definition place_schedule ::
  "intl \<Rightarrow> digest \<Rightarrow> schedule_config \<Rightarrow> schedule_input \<Rightarrow> schedule_draft \<Rightarrow> string \<Rightarrow> string \<Rightarrow> int option
   \<Rightarrow> bool \<Rightarrow> 'a send_db_scheme \<Rightarrow> ((app_error + schedule_result) \<times> 'a send_db_scheme) option" where
  "place_schedule intl sha256 cf i draft tz run notBefore dryRun s =
     (case bind_p activeScheduledUtc (\<lambda>existing. bind_p readClock (\<lambda>now. return_p (existing, now))) s of
        (Inl e, s1) \<Rightarrow> Some (Inl e, s1)
      | (Inr (existing, now), s1) \<Rightarrow>
          (case computeNextSlot intl now tz (cf_rules cf) existing notBefore of
             None \<Rightarrow> None
           | Some (Inl e) \<Rightarrow> Some (Inl e, s1)
           | Some (Inr slot) \<Rightarrow>
               (case scheduledAtUtc slot of
                  None \<Rightarrow> Some (sched_out intl (si_leadId i) SO_SCHEDULE_BLOCKED None None
                            (Some ''no_slot_within_horizon'') s1)
                | Some t \<Rightarrow>
                    if \<not> sl_ok slot
                    then Some (sched_out intl (si_leadId i) SO_SCHEDULE_BLOCKED None None
                           (Some ''no_slot_within_horizon'') s1)
                    else if dryRun
                    then Some (sched_out intl (si_leadId i) SO_SCHEDULED_DRYRUN (Some t) (Some tz) None s1)
                    else Some (then_p (commit_schedule sha256 cf i draft tz t run)
                           (sched_out intl (si_leadId i) SO_SCHEDULED (Some t) (Some tz) None) s1))))"

definition schedule_snapshot_of :: "schedule_config \<Rightarrow> schedule_input \<Rightarrow> bool \<Rightarrow> bool \<Rightarrow> schedule_snapshot" where
  "schedule_snapshot_of cf i dryRun active =
     \<lparr>ss_leadStatus = si_leadStatus i,
      ss_gmailDraft = map_option (\<lambda>d. (sd_outcome d, sd_providerDraftId d)) (si_gmailDraft i),
      ss_finalizedContentHash = si_finalizedContentHash i, ss_recipientEmail = si_recipientEmail i,
      ss_timezone = si_timezone i, ss_featureEnabled = (cf_featureEnabled cf \<or> dryRun),
      ss_hasActiveSchedule = active\<rparr>"

definition active_of_input :: "'a send_db_scheme \<Rightarrow> schedule_input \<Rightarrow> send_schedule option" where
  "active_of_input s i = (case si_gmailDraft i of None \<Rightarrow> None
     | Some d \<Rightarrow> find (\<lambda>r. sc_gmailDraftId r = sd_id d \<and> sc_status r = SC_SCHEDULED) (t_schedules s))"

definition schedule_draft ::
  "intl \<Rightarrow> digest \<Rightarrow> schedule_config \<Rightarrow> schedule_input \<Rightarrow> string \<Rightarrow> int option \<Rightarrow> bool
   \<Rightarrow> 'a send_db_scheme \<Rightarrow> ((app_error + schedule_result) \<times> 'a send_db_scheme) option" where
  "schedule_draft intl sha256 cf i run notBefore dryRun s =
     (let active = active_of_input s i;
          elig = checkScheduleEligibility intl (schedule_snapshot_of cf i dryRun (active \<noteq> None));
          why = js_join '','' (sg_reasons elig)
      in case (sg_duplicateReusable elig, active) of
           (True, Some a) \<Rightarrow> Some (sched_out intl (si_leadId i) SO_DUPLICATE_REUSED
              (Some (sc_scheduledAtUtc a)) (Some (sc_timezone a)) (Some ''active_schedule_exists'') s)
         | _ \<Rightarrow>
             if \<not> sg_eligible elig
             then if sg_timezoneProblem elig
               then Some (route_schedule intl i run SO_TIMEZONE_INVALID why s)
               else Some (sched_out intl (si_leadId i) SO_INVALID_ELIGIBILITY None None (Some why) s)
             else place_schedule intl sha256 cf i (the (si_gmailDraft i)) (text_of (si_timezone i)) run
                    notBefore dryRun s)"

definition cancel_schedule ::
  "intl \<Rightarrow> string \<Rightarrow> string option \<Rightarrow> string \<Rightarrow> ('a send_db_scheme, schedule_result) prog" where
  "cancel_schedule intl lid reason run = bind_p (activeForLead lid) (\<lambda>found.
     case found of None \<Rightarrow> sched_out intl lid SO_NOT_SCHEDULED None None None
     | Some a \<Rightarrow> then_p (lead_tx
         (bind_p readClock (\<lambda>now. then_p (cancelSchedule (sc_id a) reason now)
           (then_p (move_lead lid SCHEDULED DRAFT_CREATED)
             (record_event (schedule_note lid run SO_CANCELLED (JObj [(''reason'', jopt reason)])))))))
         (sched_out intl lid SO_CANCELLED (Some (sc_scheduledAtUtc a)) (Some (sc_timezone a)) None))"

definition reschedule ::
  "intl \<Rightarrow> digest \<Rightarrow> (string \<Rightarrow> int option) \<Rightarrow> schedule_config \<Rightarrow> schedule_input \<Rightarrow> string \<Rightarrow> string
   \<Rightarrow> ('a send_db_scheme, schedule_result) prog" where
  "reschedule intl sha256 parse_date cf i at_iso run = bind_p (activeForLead (si_leadId i)) (\<lambda>found.
     case found of None \<Rightarrow> sched_out intl (si_leadId i) SO_NOT_SCHEDULED None None None
     | Some a \<Rightarrow>
        (case parse_date at_iso of
           None \<Rightarrow> sched_out intl (si_leadId i) SO_INVALID_SCHEDULE None None (Some ''unparseable_time'')
         | Some t \<Rightarrow> bind_p activeScheduledUtc (\<lambda>all. bind_p readClock (\<lambda>now.
             bind_p (lift_res (isSlotAllowed intl t now (sc_timezone a) (cf_rules cf)
                        (filter (\<lambda>u. u \<noteq> sc_scheduledAtUtc a) all))) (\<lambda>check.
             if \<not> sl_ok check
             then sched_out intl (si_leadId i) SO_INVALID_SCHEDULE None None (sl_reason check)
             else bind_p (buildRecord sha256 cf i (sc_gmailDraftId a) (Some (sc_providerDraftId a))
                            (sc_timezone a) t ''manual'' (sc_rescheduleCount a + 1)) (\<lambda>row.
               then_p (lead_tx (then_p (supersedeSchedule (sc_id a) (sc_id row))
                   (then_p (insertSchedule row)
                     (record_event (schedule_note (si_leadId i) run SO_RESCHEDULED
                        (JObj [(''from'', JStr (toISOString (sc_scheduledAtUtc a))),
                               (''to'', JStr (toISOString t))]))))))
               (sched_out intl (si_leadId i) SO_RESCHEDULED (Some t) (Some (sc_timezone a)) None)))))))"

end
