(* ===== verification/Send_Service.thy ===== *)
theory Send_Service
  imports Send_Store Schedule_Service
begin

text \<open>
  The send service (\<^verbatim>\<open>src/src/domain/send/send-service.ts\<close>): the checks before a send, the read-only
  verification of the provider's draft, and the controlled send in its phases. A send is prepared
  (reads only, except that a stale schedule may be routed away), reserved, marked as started,
  dispatched and finished; each phase is a definition of its own, since other processes may run between
  two of them. The provider's verification calls classify every failure and never throw; the call that
  sends may. \<open>src\<close> is the readiness lineage the injected store reads.
\<close>

section \<open>Inputs and results\<close>

datatype send_outcome =
  OC_READY | OC_SENT_CONFIRMED | OC_SENDING_DISABLED | OC_OUTBOUND_ACTIONS_DISABLED | OC_DRY_RUN_ACTIVE
  | OC_INVALID_ELIGIBILITY | OC_READINESS_INVALID | OC_NOT_CONFIRMED | OC_PROVIDER_VERIFICATION_FAILED
  | OC_BINDING_INVALIDATED | OC_TOO_LATE | OC_RECIPIENT_SUPPRESSED | OC_NOT_DUE | OC_ALREADY_SENT
  | OC_DUPLICATE_PREVENTED | OC_RATE_LIMITED | OC_DEFINITIVE_FAILURE | OC_AUTH_ERROR | OC_OUTCOME_UNKNOWN
  | OC_DAILY_CAP_REACHED | OC_OUTREACH_SUPPRESSED

fun send_outcome_str :: "send_outcome \<Rightarrow> string" where
  "send_outcome_str OC_READY = ''READY''"
| "send_outcome_str OC_SENT_CONFIRMED = ''SENT_CONFIRMED''"
| "send_outcome_str OC_SENDING_DISABLED = ''SENDING_DISABLED''"
| "send_outcome_str OC_OUTBOUND_ACTIONS_DISABLED = ''OUTBOUND_ACTIONS_DISABLED''"
| "send_outcome_str OC_DRY_RUN_ACTIVE = ''DRY_RUN_ACTIVE''"
| "send_outcome_str OC_INVALID_ELIGIBILITY = ''INVALID_ELIGIBILITY''"
| "send_outcome_str OC_READINESS_INVALID = ''READINESS_INVALID''"
| "send_outcome_str OC_NOT_CONFIRMED = ''NOT_CONFIRMED''"
| "send_outcome_str OC_PROVIDER_VERIFICATION_FAILED = ''PROVIDER_VERIFICATION_FAILED''"
| "send_outcome_str OC_BINDING_INVALIDATED = ''BINDING_INVALIDATED''"
| "send_outcome_str OC_TOO_LATE = ''TOO_LATE''"
| "send_outcome_str OC_RECIPIENT_SUPPRESSED = ''RECIPIENT_SUPPRESSED''"
| "send_outcome_str OC_NOT_DUE = ''NOT_DUE''"
| "send_outcome_str OC_ALREADY_SENT = ''ALREADY_SENT''"
| "send_outcome_str OC_DUPLICATE_PREVENTED = ''DUPLICATE_PREVENTED''"
| "send_outcome_str OC_RATE_LIMITED = ''RATE_LIMITED''"
| "send_outcome_str OC_DEFINITIVE_FAILURE = ''DEFINITIVE_FAILURE''"
| "send_outcome_str OC_AUTH_ERROR = ''AUTH_ERROR''"
| "send_outcome_str OC_OUTCOME_UNKNOWN = ''OUTCOME_UNKNOWN''"
| "send_outcome_str OC_DAILY_CAP_REACHED = ''DAILY_CAP_REACHED''"
| "send_outcome_str OC_OUTREACH_SUPPRESSED = ''OUTREACH_SUPPRESSED''"

record preflight_proof =
  pf_sendFingerprint :: string
  pf_providerEnvelopeHash :: string
  pf_checkedAtMs :: int
  pf_proofHash :: string

record draft_view =
  dv_id :: string
  dv_outcome :: string
  dv_providerDraftId :: "string option"
  dv_providerMessageId :: "string option"
  dv_providerThreadId :: "string option"
  dv_gmailAccount :: string
  dv_senderEmail :: string
  dv_recipientEmail :: string
  dv_finalizedEmailId :: "string option"

record finalization_view =
  fv_id :: string
  fv_resolvedBody :: string
  fv_resolvedBodyHash :: string
  fv_finalHumanDecision :: "string option"
  fv_finalReviewedAt :: "int option"

record send_input_data =
  in_schedule :: "schedule_view option"
  in_currentGmailDraft :: "draft_view option"
  in_finalization :: "finalization_view option"
  in_currentFinalizedContentHash :: "string option"
  in_currentRecipientEmail :: "string option"
  in_subject :: "string option"
  in_normalizedDomain :: "string option"
  in_normalizedPhone :: "string option"
  in_placeId :: "string option"

record send_input = send_input_data +
  in_leadId :: string
  in_leadStatus :: lead_status
  in_confirmation :: "confirmation_view option"
  in_preflightProof :: "preflight_proof option"

record send_config =
  cg_gmailAccount :: string
  cg_senderName :: "string option"
  cg_policyVersion :: string
  cg_sendingEnabled :: bool
  cg_outboundActionsEnabled :: bool
  cg_dryRun :: bool
  cg_maxLateMs :: int
  cg_confirmationTtlMs :: int
  cg_dailyCap :: int

record send_result_out =
  ro_leadId :: string
  ro_outcome :: send_outcome
  ro_reason :: "string option"
  ro_preflightProof :: "preflight_proof option"

definition send_out :: "string \<Rightarrow> send_outcome \<Rightarrow> string option \<Rightarrow> send_result_out" where
  "send_out lid outcome why =
     \<lparr>ro_leadId = lid, ro_outcome = outcome, ro_reason = why, ro_preflightProof = None\<rparr>"

definition send_note :: "string \<Rightarrow> string \<Rightarrow> send_outcome \<Rightarrow> json \<Rightarrow> new_pipeline_event" where
  "send_note lid run outcome data =
     note_event lid (if run = '''' then None else Some run) (''send: '' @ send_outcome_str outcome) data"

definition send_identity :: "send_input \<Rightarrow> identity" where
  "send_identity i = \<lparr>id_email = in_currentRecipientEmail i, id_domain = in_normalizedDomain i,
     id_phone = in_normalizedPhone i, id_placeId = in_placeId i\<rparr>"

section \<open>Routing a schedule away\<close>

definition routeInvalidate ::
  "send_input \<Rightarrow> string \<Rightarrow> send_outcome \<Rightarrow> string \<Rightarrow> ('a send_db_scheme, send_result_out) prog" where
  "routeInvalidate i run outcome why =
     then_p (lead_tx (then_p
       (case in_schedule i of None \<Rightarrow> return_p ()
        | Some sv \<Rightarrow> bind_p readClock (invalidateSchedule (sv_id sv) why))
       (then_p (move_lead (in_leadId i) SCHEDULED NEEDS_MANUAL_REVIEW)
         (record_event (send_note (in_leadId i) run outcome (JObj [(''reason'', JStr why)]))))))
     (return_p (send_out (in_leadId i) outcome (Some why)))"

definition routeManual ::
  "send_input \<Rightarrow> string \<Rightarrow> send_outcome \<Rightarrow> string \<Rightarrow> ('a send_db_scheme, send_result_out) prog" where
  "routeManual i run outcome why =
     then_p (lead_tx (then_p (move_lead (in_leadId i) SCHEDULED NEEDS_MANUAL_REVIEW)
         (record_event (send_note (in_leadId i) run outcome (JObj [(''reason'', JStr why)])))))
     (return_p (send_out (in_leadId i) outcome (Some why)))"

section \<open>The local checks\<close>

record checked_send =
  ck_schedule :: schedule_view
  ck_readiness :: readiness
  ck_envelopeHash :: string
  ck_sendFp :: string
  ck_expected :: draft_envelope

definition recompute_fingerprint :: "digest \<Rightarrow> send_input \<Rightarrow> schedule_view \<Rightarrow> string option" where
  "recompute_fingerprint sha256 i sv =
     (case in_currentGmailDraft i of None \<Rightarrow> None
      | Some d \<Rightarrow>
          if missing (dv_providerDraftId d) \<or> missing (in_currentFinalizedContentHash i)
             \<or> missing (in_currentRecipientEmail i) then None
          else Some (scheduleIntegrityFingerprint sha256
            \<lparr>sb_leadId = in_leadId i, sb_gmailDraftId = dv_id d, sb_providerDraftId = text_of (dv_providerDraftId d),
             sb_finalizedContentHash = text_of (in_currentFinalizedContentHash i),
             sb_recipientEmail = text_of (in_currentRecipientEmail i),
             sb_scheduledAtUtcMs = sv_scheduledAtUtcMs sv, sb_rulesVersion = sv_rulesVersion sv\<rparr>))"

definition envelope_of_input :: "digest \<Rightarrow> send_config \<Rightarrow> send_input \<Rightarrow> schedule_view \<Rightarrow> string" where
  "envelope_of_input sha256 cf i sv = approvedEnvelopeHash sha256
     \<lparr>ae_gmailAccount = cg_gmailAccount cf, ae_recipientEmail = text_of (in_currentRecipientEmail i),
      ae_subject = text_of (in_subject i), ae_finalizedContentHash = text_of (in_currentFinalizedContentHash i),
      ae_scheduleId = sv_id sv, ae_scheduledAtUtcMs = sv_scheduledAtUtcMs sv, ae_replyTo = None\<rparr>"

definition fingerprint_of_input ::
  "digest \<Rightarrow> send_config \<Rightarrow> send_input \<Rightarrow> schedule_view \<Rightarrow> readiness option \<Rightarrow> string" where
  "fingerprint_of_input sha256 cf i sv rd = (case rd of None \<Rightarrow> ''''
     | Some r \<Rightarrow> sendFingerprint sha256 (sv_id sv) (sv_gmailDraftId sv) (envelope_of_input sha256 cf i sv) (rd_id r))"

definition readiness_view_of :: "readiness \<Rightarrow> readiness_view" where
  "readiness_view_of r = \<lparr>rv_id = rd_id r, rv_gmailAccount = rd_gmailAccount r,
     rv_policyVersion = rd_policyVersion r, rv_approvedAtMs = rd_approvedAt r,
     rv_expiresAtMs = rd_expiresAt r, rv_revoked = (rd_revokedAt r \<noteq> None)\<rparr>"

definition finalization_approved :: "send_input \<Rightarrow> bool" where
  "finalization_approved i \<longleftrightarrow> (case in_finalization i of None \<Rightarrow> False
     | Some f \<Rightarrow> fv_finalHumanDecision f = Some ''APPROVED'' \<and> fv_finalReviewedAt f \<noteq> None)"

definition draft_binding_valid :: "send_input \<Rightarrow> schedule_view \<Rightarrow> bool" where
  "draft_binding_valid i sv \<longleftrightarrow> (case in_currentGmailDraft i of None \<Rightarrow> False
     | Some d \<Rightarrow> dv_id d = sv_gmailDraftId sv
         \<and> (case in_finalization i of None \<Rightarrow> False | Some f \<Rightarrow> dv_finalizedEmailId d = Some (fv_id f)))"

definition account_matches :: "send_config \<Rightarrow> send_input \<Rightarrow> bool" where
  "account_matches cf i \<longleftrightarrow> (case in_currentGmailDraft i of None \<Rightarrow> False
     | Some d \<Rightarrow> js_lower (dv_gmailAccount d) = js_lower (cg_gmailAccount cf))"

definition draft_recipient_matches :: "send_input \<Rightarrow> bool" where
  "draft_recipient_matches i \<longleftrightarrow> (case in_currentGmailDraft i of None \<Rightarrow> False
     | Some d \<Rightarrow> \<not> missing (in_currentRecipientEmail i)
         \<and> js_lower (dv_recipientEmail d) = js_lower (text_of (in_currentRecipientEmail i)))"

text \<open>The snapshot of the gate: the configuration, the input, and what the store answered.\<close>

definition snapshot_from ::
  "digest \<Rightarrow> send_config \<Rightarrow> send_input \<Rightarrow> schedule_view \<Rightarrow> readiness option \<Rightarrow> suppression_scope list
   \<Rightarrow> int option \<Rightarrow> int \<Rightarrow> bool \<Rightarrow> bool \<Rightarrow> int \<Rightarrow> send_snapshot" where
  "snapshot_from sha256 cf i sv rd scopes failure now confirmed blocking today =
     \<lparr>sn_leadStatus = in_leadStatus i, sn_schedule = Some sv,
      sn_recomputedIntegrityFingerprint = recompute_fingerprint sha256 i sv,
      sn_currentGmailDraft = map_option (\<lambda>d. (dv_outcome d, dv_providerDraftId d)) (in_currentGmailDraft i),
      sn_currentFinalizedContentHash = in_currentFinalizedContentHash i,
      sn_currentRecipientEmail = in_currentRecipientEmail i,
      sn_finalizationApproved = finalization_approved i, sn_draftBindingValid = draft_binding_valid i sv,
      sn_gmailAccountMatches = account_matches cf i, sn_draftRecipientMatches = draft_recipient_matches i,
      sn_recipientSuppressed = (scopes \<noteq> []), sn_readiness = map_option readiness_view_of rd,
      sn_confirmation = in_confirmation i, sn_approvedEnvelopeHash = envelope_of_input sha256 cf i sv,
      sn_expectedSendFingerprint = fingerprint_of_input sha256 cf i sv rd,
      sn_configGmailAccount = cg_gmailAccount cf, sn_configPolicyVersion = cg_policyVersion cf,
      sn_sendingEnabled = cg_sendingEnabled cf, sn_outboundActionsEnabled = cg_outboundActionsEnabled cf,
      sn_dryRun = cg_dryRun cf, sn_nowMs = now, sn_maxLateMs = cg_maxLateMs cf,
      sn_confirmationTtlMs = cg_confirmationTtlMs cf, sn_hasConfirmedAttempt = confirmed,
      sn_hasBlockingAttempt = blocking, sn_lastDefinitiveFailureAtMs = failure,
      sn_confirmedSendsToday = today, sn_dailyCap = cg_dailyCap cf\<rparr>"

text \<open>The reads from the store, in the order of the code; the clock is read twice.\<close>

definition read_snapshot ::
  "readiness_source \<Rightarrow> digest \<Rightarrow> send_config \<Rightarrow> send_input \<Rightarrow> schedule_view
   \<Rightarrow> ('a send_db_scheme, readiness option \<times> send_snapshot) prog" where
  "read_snapshot src sha256 cf i sv =
     bind_p (readReadiness src (cg_gmailAccount cf) (cg_policyVersion cf)) (\<lambda>rd.
     bind_p (activeSuppressions (send_identity i)) (\<lambda>scopes.
     bind_p (lastDefinitiveFailureAt (sv_id sv)) (\<lambda>failure.
     bind_p readClock (\<lambda>now.
     bind_p (hasConfirmedAttempt (sv_id sv)) (\<lambda>confirmed.
     bind_p (hasBlockingAttempt (sv_id sv)) (\<lambda>blocking.
     bind_p readClock (\<lambda>now2.
     bind_p (confirmedSendsToday (cg_gmailAccount cf) now2) (\<lambda>today.
     return_p (rd, snapshot_from sha256 cf i sv rd scopes failure now confirmed blocking today)))))))))"

definition mentions :: "string \<Rightarrow> string list \<Rightarrow> bool" where
  "mentions w rs = list_ex (js_includes w) rs"

definition refusal_outcome :: "string list \<Rightarrow> send_outcome" where
  "refusal_outcome rs =
     (if ''daily_cap_reached'' \<in> set rs then OC_DAILY_CAP_REACHED
      else if mentions ''readiness'' rs then OC_READINESS_INVALID
      else if mentions ''confirmation'' rs then OC_NOT_CONFIRMED
      else OC_INVALID_ELIGIBILITY)"

text \<open>What the service answers when the gate is closed.\<close>

definition refuse_send ::
  "send_input \<Rightarrow> bool \<Rightarrow> send_eligibility \<Rightarrow> ('a send_db_scheme, send_result_out) prog" where
  "refuse_send i mutate el =
     (let answer = \<lambda>outcome why. return_p (send_out (in_leadId i) outcome (Some why)) in
      if el_alreadySent el then answer OC_ALREADY_SENT ''already_sent''
      else if el_blocked el then answer OC_DUPLICATE_PREVENTED ''blocking_attempt_exists''
      else if el_bindingInvalid el
      then if mutate then routeInvalidate i '''' OC_BINDING_INVALIDATED ''binding_invalidated''
           else answer OC_BINDING_INVALIDATED ''binding_invalidated''
      else if el_tooLate el
      then if mutate then routeInvalidate i '''' OC_TOO_LATE ''too_late'' else answer OC_TOO_LATE ''too_late''
      else if el_suppressed el
      then if mutate then routeManual i '''' OC_RECIPIENT_SUPPRESSED ''recipient_suppressed''
           else answer OC_RECIPIENT_SUPPRESSED ''recipient_suppressed''
      else if el_notDue el then answer OC_NOT_DUE ''not_due''
      else answer (refusal_outcome (el_reasons el)) (js_join '','' (el_reasons el)))"

definition expected_of_input :: "send_config \<Rightarrow> send_input \<Rightarrow> string + draft_envelope" where
  "expected_of_input cf i =
     (case (in_currentGmailDraft i, in_finalization i) of
        (Some d, Some f) \<Rightarrow>
          if missing (cg_senderName cf) \<or> missing (in_currentRecipientEmail i) \<or> missing (in_subject i)
          then Inl ''approved_envelope_incomplete''
          else (case expectedDraftEnvelope (text_of (cg_senderName cf)) (dv_senderEmail d)
                  (text_of (in_currentRecipientEmail i)) (text_of (in_subject i)) (fv_resolvedBody f) of
                  None \<Rightarrow> Inl ''approved_envelope_invalid'' | Some e \<Rightarrow> Inr e)
      | _ \<Rightarrow> Inl ''approved_envelope_incomplete'')"

definition send_state ::
  "readiness_source \<Rightarrow> digest \<Rightarrow> send_config \<Rightarrow> send_input \<Rightarrow> bool \<Rightarrow> bool
   \<Rightarrow> ('a send_db_scheme, send_result_out + checked_send) prog" where
  "send_state src sha256 cf i required mutate =
     (let stop = \<lambda>outcome why. return_p (Inl (send_out (in_leadId i) outcome (Some why))) in
      if \<not> cg_sendingEnabled cf then stop OC_SENDING_DISABLED ''sending_disabled''
      else if \<not> cg_outboundActionsEnabled cf then stop OC_OUTBOUND_ACTIONS_DISABLED ''outbound_actions_disabled''
      else if cg_dryRun cf then stop OC_DRY_RUN_ACTIVE ''dry_run_enabled''
      else (case in_schedule i of None \<Rightarrow> stop OC_INVALID_ELIGIBILITY ''no_active_schedule''
        | Some sv \<Rightarrow> bind_p (read_snapshot src sha256 cf i sv) (\<lambda>(rd, snapshot).
            let el = checkSendEligibility required snapshot in
            if \<not> el_eligible el then bind_p (refuse_send i mutate el) (\<lambda>r. return_p (Inl r))
            else (case (expected_of_input cf i, rd) of
                (Inr e, Some r) \<Rightarrow> return_p (Inr \<lparr>ck_schedule = sv, ck_readiness = r,
                   ck_envelopeHash = envelope_of_input sha256 cf i sv,
                   ck_sendFp = fingerprint_of_input sha256 cf i sv rd, ck_expected = e\<rparr>)
              | (Inl why, _) \<Rightarrow> stop OC_INVALID_ELIGIBILITY why
              | (Inr _, None) \<Rightarrow> throw_p (PlainError ''readiness'')))))"

section \<open>The provider\<close>

definition provider_call :: "('a send_db_scheme, nat) prog" where
  "provider_call s = (Inr (gm_calls s), s\<lparr>gm_calls := Suc (gm_calls s)\<rparr>)"

definition verifyAccount :: "('a send_db_scheme, account_answer) prog" where
  "verifyAccount = bind_p provider_call (\<lambda>n. read_p (\<lambda>s. gm_account s n))"

definition getKnownDraft :: "('a send_db_scheme, draft_inspection) prog" where
  "getKnownDraft = bind_p provider_call (\<lambda>n. read_p (\<lambda>s. gm_draft s n))"

definition sendExistingDraft :: "string \<Rightarrow> ('a send_db_scheme, send_response) prog" where
  "sendExistingDraft did = bind_p provider_call (\<lambda>n.
     then_p (write_p (\<lambda>s. s\<lparr>gm_sent := gm_sent s @ [did]\<rparr>)) (read_p (\<lambda>s. gm_send s n)))"

text \<open>The comparison of the provider's draft with the stored one: \<^const>\<open>Inl\<close> a reason, or the hash of the
  envelope.\<close>

definition identity_reasons :: "draft_view \<Rightarrow> draft_answer \<Rightarrow> string option" where
  "identity_reasons d a =
     (if da_providerDraftId a \<noteq> None \<and> da_providerDraftId a \<noteq> dv_providerDraftId d
      then Some ''known_draft_identity_changed''
      else if da_providerMessageId a \<noteq> dv_providerMessageId d then Some ''known_message_identity_changed''
      else if da_providerThreadId a \<noteq> dv_providerThreadId d then Some ''known_thread_identity_changed''
      else None)"

definition inspect_draft ::
  "digest \<Rightarrow> draft_envelope \<Rightarrow> draft_view \<Rightarrow> draft_inspection \<Rightarrow> string + string" where
  "inspect_draft sha256 expected d r =
     (case r of
        NotInspected outcome \<Rightarrow> Inl (''known_draft_'' @ outcome)
      | Inspected a \<Rightarrow>
          (case identity_reasons d a of Some why \<Rightarrow> Inl why
           | None \<Rightarrow>
               let problems = compareProviderEnvelope expected (da_envelope a) in
               if problems \<noteq> [] then Inl (js_join '','' problems)
               else Inr (providerEnvelopeHash sha256 (da_envelope a))))"

definition verifyProvider ::
  "digest \<Rightarrow> send_config \<Rightarrow> draft_envelope \<Rightarrow> draft_view option
   \<Rightarrow> ('a send_db_scheme, string + string) prog" where
  "verifyProvider sha256 cf expected stored =
     (case stored of None \<Rightarrow> return_p (Inl ''known_draft_identity_missing'')
      | Some d \<Rightarrow>
          if missing (dv_providerDraftId d) \<or> missing (dv_providerMessageId d) \<or> missing (dv_providerThreadId d)
          then return_p (Inl ''known_draft_identity_missing'')
          else bind_p verifyAccount (\<lambda>acc.
            if \<not> aa_ok acc \<or> map_option js_lower (aa_email acc) \<noteq> Some (js_lower (cg_gmailAccount cf))
            then return_p (Inl ''authenticated_account_mismatch'')
            else bind_p getKnownDraft (\<lambda>r. return_p (inspect_draft sha256 expected d r))))"

definition preflight ::
  "readiness_source \<Rightarrow> digest \<Rightarrow> send_config \<Rightarrow> send_input \<Rightarrow> ('a send_db_scheme, send_result_out) prog" where
  "preflight src sha256 cf i = bind_p (send_state src sha256 cf i False False) (\<lambda>checked.
     case checked of Inl out \<Rightarrow> return_p out
     | Inr ck \<Rightarrow> bind_p (verifyProvider sha256 cf (ck_expected ck) (in_currentGmailDraft i)) (\<lambda>pv.
         case pv of Inl why \<Rightarrow> return_p (send_out (in_leadId i) OC_PROVIDER_VERIFICATION_FAILED (Some why))
         | Inr env \<Rightarrow> bind_p readClock (\<lambda>now. return_p
             ((send_out (in_leadId i) OC_READY None)\<lparr>ro_preflightProof := Some
                \<lparr>pf_sendFingerprint = ck_sendFp ck, pf_providerEnvelopeHash = env, pf_checkedAtMs = now,
                 pf_proofHash = preflightProofHash sha256 (ck_sendFp ck) env now\<rparr>\<rparr>))))"

section \<open>The controlled send\<close>

definition proof_intact :: "digest \<Rightarrow> string \<Rightarrow> preflight_proof \<Rightarrow> bool" where
  "proof_intact sha256 fp p \<longleftrightarrow> pf_sendFingerprint p = fp
     \<and> pf_proofHash p = preflightProofHash sha256 (pf_sendFingerprint p) (pf_providerEnvelopeHash p) (pf_checkedAtMs p)"

definition attempt_row ::
  "digest \<Rightarrow> send_config \<Rightarrow> send_input \<Rightarrow> checked_send \<Rightarrow> confirmation_view \<Rightarrow> ('a send_db_scheme, send_attempt) prog" where
  "attempt_row sha256 cf i ck c = bind_p newUUID (\<lambda>aid. bind_p readClock (\<lambda>now. return_p
     \<lparr>sa_id = aid, sa_leadId = in_leadId i, sa_scheduleId = sv_id (ck_schedule ck),
      sa_gmailDraftId = sv_gmailDraftId (ck_schedule ck), sa_readinessApprovalId = rd_id (ck_readiness ck),
      sa_gmailAccount = cg_gmailAccount cf,
      sa_recipientHash = recipientHash sha256 (text_of (in_currentRecipientEmail i)),
      sa_finalizedContentHash = text_of (in_currentFinalizedContentHash i),
      sa_scheduleIntegrityFingerprint = sv_storedIntegrityFingerprint (ck_schedule ck),
      sa_approvedEnvelopeHash = ck_envelopeHash ck, sa_observedEnvelopeHash = ck_envelopeHash ck,
      sa_sendFingerprint = ck_sendFp ck,
      sa_confirmationFingerprint = confirmationFingerprint sha256 (ck_sendFp ck) (cv_confirmedBy c)
        (cv_observedSendFingerprint c),
      sa_confirmedBy = cv_confirmedBy c, sa_confirmedAt = cv_confirmedAtMs c, sa_status = AT_RESERVED,
      sa_providerMessageId = None, sa_providerThreadId = None, sa_errorClass = None, sa_reservedAt = now,
      sa_callStartedAt = None, sa_completedAt = None, sa_reconciledOutcome = None, sa_reconciledBy = None,
      sa_reconciledAt = None, sa_reconciliationNote = None\<rparr>))"

text \<open>After the local checks and the proof: the second verification, the second look at the suppressions,
  and the row of the attempt.\<close>

definition verify_again ::
  "digest \<Rightarrow> send_config \<Rightarrow> send_input \<Rightarrow> checked_send \<Rightarrow> preflight_proof
   \<Rightarrow> ('a send_db_scheme, send_result_out + send_attempt) prog" where
  "verify_again sha256 cf i ck pf =
     (let stop = \<lambda>outcome why. return_p (Inl (send_out (in_leadId i) outcome (Some why))) in
      bind_p (verifyProvider sha256 cf (ck_expected ck) (in_currentGmailDraft i)) (\<lambda>pv.
        case pv of Inl why \<Rightarrow> stop OC_PROVIDER_VERIFICATION_FAILED why
        | Inr env \<Rightarrow>
            if env \<noteq> pf_providerEnvelopeHash pf
            then stop OC_PROVIDER_VERIFICATION_FAILED ''draft_changed_after_confirmation''
            else bind_p (activeSuppressions (send_identity i)) (\<lambda>scopes.
              if scopes \<noteq> [] then stop OC_RECIPIENT_SUPPRESSED ''recipient_suppressed_before_reservation''
              else (case in_confirmation i of None \<Rightarrow> throw_p (PlainError ''confirmation'')
                | Some c \<Rightarrow> bind_p (attempt_row sha256 cf i ck c) (\<lambda>row. return_p (Inr row))))))"

definition send_prepare ::
  "readiness_source \<Rightarrow> digest \<Rightarrow> send_config \<Rightarrow> send_input
   \<Rightarrow> ('a send_db_scheme, send_result_out + send_attempt) prog" where
  "send_prepare src sha256 cf i =
     (let unproved = Inl (send_out (in_leadId i) OC_NOT_CONFIRMED (Some ''preflight_proof_invalid_or_expired'')) in
      bind_p (send_state src sha256 cf i True True) (\<lambda>checked.
        case checked of Inl out \<Rightarrow> return_p (Inl out)
        | Inr ck \<Rightarrow>
            (case in_preflightProof i of None \<Rightarrow> return_p unproved
             | Some pf \<Rightarrow>
                 if \<not> proof_intact sha256 (ck_sendFp ck) pf then return_p unproved
                 else bind_p readClock (\<lambda>now.
                   if now - pf_checkedAtMs pf > cg_confirmationTtlMs cf then return_p unproved
                   else verify_again sha256 cf i ck pf))))"

definition start_call :: "string \<Rightarrow> ('a send_db_scheme, int) prog" where
  "start_call aid = bind_p readClock (\<lambda>started.
     then_p (lead_tx (completeAttempt aid
        (no_patch\<lparr>ap_status := Some AT_CALL_STARTED, ap_callStartedAt := Some (Some started)\<rparr>)))
     (return_p started))"

definition dispatch :: "send_input \<Rightarrow> ('a send_db_scheme, send_response) prog" where
  "dispatch i = sendExistingDraft (case in_currentGmailDraft i of None \<Rightarrow> '''' | Some d \<Rightarrow> text_of (dv_providerDraftId d))"

definition finishUnknown ::
  "send_input \<Rightarrow> string \<Rightarrow> string \<Rightarrow> int \<Rightarrow> string \<Rightarrow> ('a send_db_scheme, send_result_out) prog" where
  "finishUnknown i run aid started why =
     then_p (lead_tx (bind_p readClock (\<lambda>now.
       then_p (completeAttempt aid (no_patch\<lparr>ap_status := Some AT_OUTCOME_UNKNOWN,
          ap_errorClass := Some (Some ''unknown''), ap_callStartedAt := Some (Some started),
          ap_completedAt := Some (Some now)\<rparr>))
       (then_p (move_lead (in_leadId i) SCHEDULED NEEDS_MANUAL_REVIEW)
         (record_event (send_note (in_leadId i) run OC_OUTCOME_UNKNOWN
            (JObj [(''manualReconcileRequired'', JBool True)])))))))
     (return_p (send_out (in_leadId i) OC_OUTCOME_UNKNOWN (Some why)))"

definition finishSent ::
  "send_input \<Rightarrow> string \<Rightarrow> send_attempt \<Rightarrow> string \<Rightarrow> string option \<Rightarrow> ('a send_db_scheme, send_result_out) prog" where
  "finishSent i run row mid tid =
     then_p (lead_tx (bind_p readClock (\<lambda>now.
       then_p (completeAttempt (sa_id row) (no_patch\<lparr>ap_status := Some AT_SENT_CONFIRMED,
          ap_providerMessageId := Some (Some mid), ap_providerThreadId := Some tid,
          ap_completedAt := Some (Some now)\<rparr>))
       (bind_p readClock (\<lambda>now2. then_p (markScheduleFulfilled (sa_scheduleId row) now2)
         (then_p (move_lead (in_leadId i) SCHEDULED SENT)
           (record_event (send_note (in_leadId i) run OC_SENT_CONFIRMED
              (JObj [(''providerConfirmed'', JBool True)])))))))))
     (return_p (send_out (in_leadId i) OC_SENT_CONFIRMED None))"

fun send_class_str :: "send_outcome_class \<Rightarrow> string" where
  "send_class_str SR_ok = ''ok''"
| "send_class_str SR_definitive_failure = ''definitive_failure''"
| "send_class_str SR_rate_limited = ''rate_limited''"
| "send_class_str SR_auth_error = ''auth_error''"
| "send_class_str SR_unknown = ''unknown''"

definition failure_outcome :: "send_outcome_class \<Rightarrow> send_outcome" where
  "failure_outcome c = (if c = SR_rate_limited then OC_RATE_LIMITED
     else if c = SR_auth_error then OC_AUTH_ERROR else OC_DEFINITIVE_FAILURE)"

definition finishFailed ::
  "send_input \<Rightarrow> string \<Rightarrow> string \<Rightarrow> send_outcome_class \<Rightarrow> string option
   \<Rightarrow> ('a send_db_scheme, send_result_out) prog" where
  "finishFailed i run aid c why =
     then_p (lead_tx (bind_p readClock (\<lambda>now.
       then_p (completeAttempt aid (no_patch\<lparr>ap_status := Some AT_DEFINITIVE_FAILURE,
          ap_errorClass := Some (Some (send_class_str c)), ap_completedAt := Some (Some now)\<rparr>))
         (record_event (send_note (in_leadId i) run (failure_outcome c)
            (JObj [(''errorClass'', JStr (send_class_str c))]))))))
     (return_p (send_out (in_leadId i) (failure_outcome c) why))"

definition finish_call ::
  "send_input \<Rightarrow> string \<Rightarrow> send_attempt \<Rightarrow> int \<Rightarrow> send_response \<Rightarrow> ('a send_db_scheme, send_result_out) prog" where
  "finish_call i run row started r =
     (case r of
        ProviderThrows \<Rightarrow> finishUnknown i run (sa_id row) started ''provider_exception''
      | Response c ref why \<Rightarrow>
          (case (c, ref) of
             (SR_ok, Some (mid, tid)) \<Rightarrow>
               if mid \<noteq> '''' then finishSent i run row mid tid
               else finishUnknown i run (sa_id row) started ''provider_outcome_unknown''
           | _ \<Rightarrow>
               if c = SR_unknown \<or> c = SR_ok
               then finishUnknown i run (sa_id row) started ''provider_outcome_unknown''
               else finishFailed i run (sa_id row) c why))"

definition send ::
  "readiness_source \<Rightarrow> digest \<Rightarrow> bool \<Rightarrow> send_config \<Rightarrow> send_input \<Rightarrow> string
   \<Rightarrow> ('a send_db_scheme, send_result_out) prog" where
  "send src sha256 sqlstate_exposed cf i run = bind_p (send_prepare src sha256 cf i) (\<lambda>prepared.
     case prepared of Inl out \<Rightarrow> return_p out
     | Inr row \<Rightarrow> bind_p (reserveAttempt sqlstate_exposed row (cg_dailyCap cf)) (\<lambda>verdict.
         case verdict of
           RESERVE_DAILY_CAP \<Rightarrow> return_p (send_out (in_leadId i) OC_DAILY_CAP_REACHED
             (Some ''daily_cap_reached_at_reservation''))
         | RESERVE_DUPLICATE \<Rightarrow> return_p (send_out (in_leadId i) OC_DUPLICATE_PREVENTED (Some ''reserve_conflict''))
         | RESERVED_OK \<Rightarrow> bind_p (start_call (sa_id row)) (\<lambda>started.
             bind_p (dispatch i) (finish_call i run row started))))"

end
