(* ===== verification/Send_Admin.thy ===== *)
theory Send_Admin
  imports Send_Service
begin

text \<open>
  The operator's side of sending (\<^verbatim>\<open>src/src/domain/send/send-admin-service.ts\<close> over
  \<^verbatim>\<open>src/src/persistence/repositories/send-admin.repo.ts\<close>): expiring readiness, recovery of an attempt a
  crash left started, and the reconciliation of an attempt with an unknown outcome. The confirmation
  phrases are part of the operations. \<^verbatim>\<open>for update\<close> locks do not show, since a transaction is one step.
\<close>

section \<open>Arguments\<close>

definition id_char :: "char \<Rightarrow> bool" where
  "id_char c \<longleftrightarrow> word_char c \<or> c = CHR ''-''"

definition requiredId :: "string \<Rightarrow> app_error + string" where
  "requiredId value = (let v = js_trim value in
     if 1 \<le> length v \<and> length v \<le> 200 \<and> list_all id_char v then Inr v
     else Inl (PlainError ''invalid_identifier''))"

definition requiredText :: "string \<Rightarrow> string \<Rightarrow> nat \<Rightarrow> app_error + string" where
  "requiredText value field maxlen = (let v = js_trim value in
     if v = '''' \<or> length v > maxlen \<or> CHR 0x0A \<in> set v \<or> CHR 0x0D \<in> set v
     then Inl (PlainError (''invalid_'' @ field)) else Inr v)"

datatype selection = SEL_SENT | SEL_NOT_SENT | SEL_UNRESOLVED

fun selection_str :: "selection \<Rightarrow> string" where
  "selection_str SEL_SENT = ''CONFIRMED_SENT''"
| "selection_str SEL_NOT_SENT = ''CONFIRMED_NOT_SENT''"
| "selection_str SEL_UNRESOLVED = ''UNRESOLVED''"

definition reconciliationPhrase :: "string \<Rightarrow> selection \<Rightarrow> app_error + string" where
  "reconciliationPhrase attemptId sel = (case requiredId attemptId of Inl e \<Rightarrow> Inl e
     | Inr v \<Rightarrow> Inr (''RECONCILE '' @ v @ '' '' @ selection_str sel))"

definition recoveryPhrase :: "string \<Rightarrow> app_error + string" where
  "recoveryPhrase attemptId = (case requiredId attemptId of Inl e \<Rightarrow> Inl e
     | Inr v \<Rightarrow> Inr (''RECOVER STARTED '' @ v @ '' AS OUTCOME_UNKNOWN''))"

section \<open>Readiness\<close>

definition readiness_exists :: "'a send_db_scheme \<Rightarrow> string \<Rightarrow> bool" where
  "readiness_exists s rid \<longleftrightarrow> list_ex (\<lambda>r. rd_id r = rid) (t_readiness s)"

text \<open>The constraints: the lineage fits the authorization, one active row per account, policy and lineage.\<close>

definition lineage_fits :: "readiness \<Rightarrow> bool" where
  "lineage_fits r \<longleftrightarrow> (rd_source r = INTERACTIVE) = (rd_authorizationId r = None)"

definition readiness_clash :: "readiness \<Rightarrow> readiness \<Rightarrow> bool" where
  "readiness_clash r q \<longleftrightarrow> rd_revokedAt r = None \<and> rd_revokedAt q = None
     \<and> rd_gmailAccount r = rd_gmailAccount q \<and> rd_policyVersion r = rd_policyVersion q
     \<and> rd_source r = rd_source q"

definition insertReadiness :: "readiness \<Rightarrow> ('a send_db_scheme, unit) prog" where
  "insertReadiness r s =
     (if \<not> lineage_fits r then (Inl (CheckViolation ''sending_readiness_source_ck''), s)
      else if readiness_exists s (rd_id r)
      then (Inl (UniqueViolation ''sending_readiness_approvals_pkey''), s)
      else if list_ex (readiness_clash r) (t_readiness s)
      then (Inl (UniqueViolation ''sending_readiness_active_uk''), s)
      else if (case rd_authorizationId r of None \<Rightarrow> False
               | Some a \<Rightarrow> \<not> list_ex (\<lambda>q. au_id q = a) (t_authorizations s))
      then (Inl (ForeignKeyViolation ''sending_readiness_approvals.scheduled_authorization_id''), s)
      else (Inr (), s\<lparr>t_readiness := t_readiness s @ [r]\<rparr>))"

text \<open>Retire the lineage's readiness rows that are not revoked.\<close>

definition supersedeReadiness ::
  "readiness_source \<Rightarrow> string \<Rightarrow> string \<Rightarrow> int \<Rightarrow> string \<Rightarrow> string \<Rightarrow> ('a send_db_scheme, unit) prog" where
  "supersedeReadiness src account policy now by_whom why = write_p (\<lambda>s. s\<lparr>t_readiness :=
     update_where (\<lambda>r. rd_gmailAccount r = account \<and> rd_policyVersion r = policy \<and> rd_source r = src
         \<and> rd_revokedAt r = None)
       (\<lambda>r. r\<lparr>rd_revokedAt := Some now, rd_revokedBy := Some by_whom, rd_revokeReason := Some why\<rparr>)
       (t_readiness s)\<rparr>)"

definition system_note ::
  "string option \<Rightarrow> lead_status option \<Rightarrow> lead_status option \<Rightarrow> string \<Rightarrow> json \<Rightarrow> new_pipeline_event" where
  "system_note lid src dst msg data = \<lparr>pv_leadId = lid, pv_runId = None, pv_type = NOTE,
     pv_fromStatus = src, pv_toStatus = dst, pv_message = Some msg, pv_data = data\<rparr>"

definition store_createReadiness ::
  "string \<Rightarrow> string \<Rightarrow> string \<Rightarrow> int \<Rightarrow> int \<Rightarrow> ('a send_db_scheme, readiness) prog" where
  "store_createReadiness account policy approvedBy approvedAt expiresAt = lead_tx (
     then_p (supersedeReadiness INTERACTIVE account policy approvedAt approvedBy ''superseded_by_fresh_readiness'')
     (bind_p newUUID (\<lambda>rid.
       let r = \<lparr>rd_id = rid, rd_gmailAccount = account, rd_policyVersion = policy, rd_approvedBy = approvedBy,
                rd_approvedAt = approvedAt, rd_expiresAt = expiresAt, rd_revokedAt = None, rd_revokedBy = None,
                rd_revokeReason = None, rd_source = INTERACTIVE, rd_authorizationId = None\<rparr>
       in then_p (insertReadiness r)
         (then_p (record_event (system_note None None None ''Expiring sending readiness created''
            (JObj [(''eventKind'', JStr ''SENDING_READINESS_CREATED''), (''readinessId'', JStr rid),
                   (''policyVersion'', JStr policy), (''expiresAt'', JStr (toISOString expiresAt))])))
         (return_p r)))))"

definition store_revokeReadiness ::
  "string \<Rightarrow> string \<Rightarrow> string \<Rightarrow> int \<Rightarrow> ('a send_db_scheme, bool) prog" where
  "store_revokeReadiness rid revokedBy why now = lead_tx (
     bind_p (read_p (\<lambda>s. list_ex (\<lambda>r. rd_id r = rid \<and> rd_revokedAt r = None) (t_readiness s))) (\<lambda>hit.
       if \<not> hit then return_p False
       else then_p (write_p (\<lambda>s. s\<lparr>t_readiness :=
            update_where (\<lambda>r. rd_id r = rid \<and> rd_revokedAt r = None)
              (\<lambda>r. r\<lparr>rd_revokedAt := Some now, rd_revokedBy := Some revokedBy, rd_revokeReason := Some why\<rparr>)
              (t_readiness s)\<rparr>))
         (then_p (record_event (system_note None None None ''Sending readiness revoked''
            (JObj [(''eventKind'', JStr ''SENDING_READINESS_REVOKED''), (''readinessId'', JStr rid)])))
         (return_p True))))"

text \<open>\<^const>\<open>None\<close> as an account: none is configured. \<open>minutes\<close> is an integer, as the operation demands.\<close>

definition configured_account :: "string option \<Rightarrow> app_error + string" where
  "configured_account account = (case account of None \<Rightarrow> Inl (PlainError ''configured_gmail_account_required'')
     | Some a \<Rightarrow> if normal_address a = '''' then Inl (PlainError ''configured_gmail_account_required'')
                else Inr (normal_address a))"

definition createReadiness ::
  "string option \<Rightarrow> string \<Rightarrow> string \<Rightarrow> int \<Rightarrow> ('a send_db_scheme, readiness) prog" where
  "createReadiness account policy approvedBy minutes =
     bind_p (lift_res (configured_account account)) (\<lambda>acc.
     bind_p (lift_res (requiredText approvedBy ''approved_by'' 120)) (\<lambda>who.
       if minutes < 1 \<or> minutes > 60 then throw_p (PlainError ''readiness_expiry_must_be_1_to_60_minutes'')
       else bind_p readClock (\<lambda>now. store_createReadiness acc policy who now (now + minutes * 60000))))"

definition revokeReadiness ::
  "string \<Rightarrow> string \<Rightarrow> string \<Rightarrow> ('a send_db_scheme, bool) prog" where
  "revokeReadiness rid revokedBy why =
     bind_p (lift_res (requiredId rid)) (\<lambda>v.
     bind_p (lift_res (requiredText revokedBy ''revoked_by'' 120)) (\<lambda>who.
     bind_p (lift_res (requiredText why ''revoke_reason'' 500)) (\<lambda>w.
     bind_p readClock (store_revokeReadiness v who w))))"

definition readiness_status ::
  "string option \<Rightarrow> string \<Rightarrow> ('a send_db_scheme, readiness option) prog" where
  "readiness_status account policy = bind_p (lift_res (configured_account account)) (\<lambda>acc.
     readReadiness INTERACTIVE acc policy)"

section \<open>Recovery\<close>

definition attempt_of :: "'a send_db_scheme \<Rightarrow> string \<Rightarrow> send_attempt option" where
  "attempt_of s aid = find (\<lambda>a. sa_id a = aid) (t_attempts s)"

text \<open>The status of a lead is written directly, not through the lead service.\<close>

definition set_status_from ::
  "string \<Rightarrow> lead_status \<Rightarrow> lead_status \<Rightarrow> int \<Rightarrow> ('a send_db_scheme, unit) prog" where
  "set_status_from lid src dst now = write_p (\<lambda>s. s\<lparr>t_leads :=
     update_where (\<lambda>l. ld_id l = lid \<and> ld_status l = src)
       (\<lambda>l. l\<lparr>ld_status := dst, ld_updatedAt := now\<rparr>) (t_leads s)\<rparr>)"

definition store_recoverStarted ::
  "string \<Rightarrow> string \<Rightarrow> string \<Rightarrow> int \<Rightarrow> ('a send_db_scheme, bool) prog" where
  "store_recoverStarted aid recoveredBy evidence now = lead_tx (
     bind_p (read_p (\<lambda>s. attempt_of s aid)) (\<lambda>found. case found of None \<Rightarrow> return_p False
     | Some a \<Rightarrow>
        if sa_status a \<noteq> AT_CALL_STARTED then return_p False
        else then_p (update_attempts (\<lambda>q. sa_id q = aid \<and> sa_status q = AT_CALL_STARTED)
            (\<lambda>q. q\<lparr>sa_status := AT_OUTCOME_UNKNOWN, sa_errorClass := Some ''crash_after_call_started'',
                   sa_completedAt := Some now\<rparr>))
          (bind_p (read_p (\<lambda>s. map_option ld_status (lead_of s (sa_leadId a)))) (\<lambda>st.
            let moved = (st = Some SCHEDULED) in
            then_p (when_p moved (set_status_from (sa_leadId a) SCHEDULED NEEDS_MANUAL_REVIEW now))
            (then_p (record_event (system_note (Some (sa_leadId a)) (if moved then Some SCHEDULED else None)
                (if moved then Some NEEDS_MANUAL_REVIEW else None)
                ''Crash-left send attempt recovered as outcome unknown''
                (JObj [(''eventKind'', JStr ''SEND_CALL_STARTED_RECOVERED''), (''attemptId'', JStr (sa_id a)),
                       (''originalAttemptStatus'', JStr ''CALL_STARTED''), (''recoveredBy'', JStr recoveredBy),
                       (''recoveredAt'', JStr (toISOString now)), (''evidenceNote'', JStr evidence)])))
            (return_p True))))))"

definition recoverStarted ::
  "string \<Rightarrow> string \<Rightarrow> string \<Rightarrow> string \<Rightarrow> ('a send_db_scheme, bool) prog" where
  "recoverStarted attemptId recoveredBy evidence observed =
     bind_p (lift_res (requiredId attemptId)) (\<lambda>aid.
     bind_p (lift_res (recoveryPhrase aid)) (\<lambda>phrase.
       if observed \<noteq> phrase then throw_p (PlainError ''recovery_confirmation_mismatch'')
       else bind_p (lift_res (requiredText recoveredBy ''recovered_by'' 120)) (\<lambda>who.
         bind_p (lift_res (requiredText evidence ''recovery_note'' 1000)) (\<lambda>txt.
         bind_p readClock (store_recoverStarted aid who txt)))))"

section \<open>Reconciliation\<close>

definition schedule_of :: "'a send_db_scheme \<Rightarrow> string \<Rightarrow> send_schedule option" where
  "schedule_of s sid = find (\<lambda>r. sc_id r = sid) (t_schedules s)"

definition draft_of :: "'a send_db_scheme \<Rightarrow> string \<Rightarrow> gmail_draft option" where
  "draft_of s did = find (\<lambda>d. gd_id d = did) (t_gmail_drafts s)"

definition recipients_of :: "'a send_db_scheme \<Rightarrow> string \<Rightarrow> string list" where
  "recipients_of s lid = map ff_value (filter (\<lambda>f. ff_leadId f = lid \<and> ff_factType f = FT_contact_email
     \<and> ff_isCurrent f) (t_lead_facts s))"

definition attempts_of :: "'a send_db_scheme \<Rightarrow> string \<Rightarrow> send_attempt list" where
  "attempts_of s sid = filter (\<lambda>q. sa_scheduleId q = sid) (t_attempts s)"

text \<open>The rows an attempt was reserved for.\<close>

record attempt_context =
  cx_lead :: lead
  cx_schedule :: send_schedule
  cx_draft :: gmail_draft
  cx_readiness :: readiness
  cx_recipient :: string

text \<open>The binding of the attempt to its finalized content, checked last.\<close>

definition content_problem ::
  "digest \<Rightarrow> string \<Rightarrow> 'a send_db_scheme \<Rightarrow> send_attempt \<Rightarrow> attempt_context \<Rightarrow> string option" where
  "content_problem sha256 account s a cx =
     (let draft = cx_draft cx; sched = cx_schedule cx in
      case (if missing (gd_finalizedEmailId draft) then None
            else find (\<lambda>f. fn_id f = text_of (gd_finalizedEmailId draft)) (t_finalizations s)) of
        None \<Rightarrow> Some (if missing (gd_finalizedEmailId draft) then ''finalized_email_binding_missing''
                     else ''content_binding_changed'')
      | Some f \<Rightarrow>
          if fn_finalHumanDecision f \<noteq> Some ''APPROVED'' \<or> fn_finalReviewedAt f = None
             \<or> fn_resolvedBodyHash f \<noteq> sc_finalizedContentHash sched
             \<or> fn_resolvedBodyHash f \<noteq> sa_finalizedContentHash a
          then Some ''content_binding_changed''
          else let schedule_fp = scheduleIntegrityFingerprint sha256
                 \<lparr>sb_leadId = ld_id (cx_lead cx), sb_gmailDraftId = gd_id draft,
                  sb_providerDraftId = text_of (gd_providerDraftId draft),
                  sb_finalizedContentHash = fn_resolvedBodyHash f, sb_recipientEmail = cx_recipient cx,
                  sb_scheduledAtUtcMs = sc_scheduledAtUtc sched, sb_rulesVersion = sc_rulesVersion sched\<rparr>;
                 env = approvedEnvelopeHash sha256
                 \<lparr>ae_gmailAccount = account, ae_recipientEmail = cx_recipient cx, ae_subject = fn_subject f,
                  ae_finalizedContentHash = fn_resolvedBodyHash f, ae_scheduleId = sc_id sched,
                  ae_scheduledAtUtcMs = sc_scheduledAtUtc sched, ae_replyTo = None\<rparr>
               in if schedule_fp \<noteq> sc_integrityFingerprint sched
                     \<or> schedule_fp \<noteq> sa_scheduleIntegrityFingerprint a
                  then Some ''schedule_fingerprint_changed''
                  else if env \<noteq> sa_approvedEnvelopeHash a
                     \<or> sendFingerprint sha256 (sc_id sched) (gd_id draft) env (rd_id (cx_readiness cx))
                          \<noteq> sa_sendFingerprint a
                  then Some ''send_fingerprint_changed'' else None)"

definition recipient_problem :: "digest \<Rightarrow> string \<Rightarrow> send_attempt \<Rightarrow> attempt_context \<Rightarrow> string option" where
  "recipient_problem sha256 account a cx =
     (if js_lower (sc_recipientEmail (cx_schedule cx)) \<noteq> cx_recipient cx
         \<or> js_lower (gd_recipientEmail (cx_draft cx)) \<noteq> cx_recipient cx
         \<or> sa_recipientHash a \<noteq> recipientHash sha256 (cx_recipient cx)
      then Some ''recipient_binding_changed''
      else if js_lower (gd_gmailAccount (cx_draft cx)) \<noteq> account \<or> js_lower (sa_gmailAccount a) \<noteq> account
      then Some ''account_binding_changed'' else None)"

text \<open>The rows, or the first that is missing or does not fit.\<close>

definition attempt_context_of ::
  "string \<Rightarrow> string \<Rightarrow> 'a send_db_scheme \<Rightarrow> send_attempt \<Rightarrow> string + attempt_context" where
  "attempt_context_of account policy s a =
     (case lead_of s (sa_leadId a) of None \<Rightarrow> Inl ''lead_not_in_manual_review'' | Some l \<Rightarrow>
      if ld_status l \<noteq> NEEDS_MANUAL_REVIEW then Inl ''lead_not_in_manual_review'' else
      case schedule_of s (sa_scheduleId a) of None \<Rightarrow> Inl ''schedule_not_active'' | Some sched \<Rightarrow>
      if sc_status sched \<noteq> SC_SCHEDULED \<or> sc_leadId sched \<noteq> ld_id l then Inl ''schedule_not_active'' else
      case draft_of s (sa_gmailDraftId a) of None \<Rightarrow> Inl ''gmail_draft_binding_changed'' | Some d \<Rightarrow>
      if gd_leadId d \<noteq> ld_id l \<or> gd_id d \<noteq> sc_gmailDraftId sched \<or> gd_outcome d \<noteq> ''DRAFT_CREATED''
         \<or> missing (gd_providerDraftId d) \<or> gd_providerDraftId d \<noteq> Some (sc_providerDraftId sched)
      then Inl ''gmail_draft_binding_changed'' else
      case find (\<lambda>r. rd_id r = sa_readinessApprovalId a) (t_readiness s) of
        None \<Rightarrow> Inl ''readiness_binding_changed'' | Some r \<Rightarrow>
      if js_lower (rd_gmailAccount r) \<noteq> account \<or> rd_policyVersion r \<noteq> policy
      then Inl ''readiness_binding_changed'' else
      case recipients_of s (sa_leadId a) of
        [x] \<Rightarrow> if x = '''' then Inl ''verified_recipient_not_unique''
               else Inr \<lparr>cx_lead = l, cx_schedule = sched, cx_draft = d, cx_readiness = r,
                         cx_recipient = normal_address x\<rparr>
      | _ \<Rightarrow> Inl ''verified_recipient_not_unique'')"

definition reconcile_problem ::
  "digest \<Rightarrow> string \<Rightarrow> string \<Rightarrow> 'a send_db_scheme \<Rightarrow> send_attempt \<Rightarrow> string option" where
  "reconcile_problem sha256 account policy s a =
     (if sa_status a \<noteq> AT_OUTCOME_UNKNOWN \<or> sa_reconciledOutcome a \<noteq> None
      then Some ''send_attempt_not_unresolved_unknown''
      else if map sa_id (attempts_of s (sa_scheduleId a)) \<noteq> [sa_id a]
      then Some ''reconciliation_requires_exactly_one_attempt''
      else if list_ex confirmed_attempt (attempts_of s (sa_scheduleId a))
      then Some ''confirmed_send_already_exists''
      else (case attempt_context_of account policy s a of Inl why \<Rightarrow> Some why
        | Inr cx \<Rightarrow>
            (case recipient_problem sha256 account a cx of Some why \<Rightarrow> Some why
             | None \<Rightarrow> content_problem sha256 account s a cx)))"

text \<open>The writes of a reconciliation: the outcome on the attempt, the schedule, the lead, and a note.\<close>

definition reconcile_writes ::
  "send_attempt \<Rightarrow> reconciliation \<Rightarrow> string \<Rightarrow> string \<Rightarrow> int \<Rightarrow> ('a send_db_scheme, attempt_status) prog" where
  "reconcile_writes a outcome by_whom evidence now =
     (let sent = (outcome = CONFIRMED_SENT); dst = (if sent then SENT else SCHEDULED) in
      then_p (update_attempts (\<lambda>q. sa_id q = sa_id a) (\<lambda>q. q\<lparr>sa_reconciledOutcome := Some outcome,
          sa_reconciledBy := Some by_whom, sa_reconciledAt := Some now, sa_reconciliationNote := Some evidence\<rparr>))
      (then_p (when_p sent (markScheduleFulfilled (sa_scheduleId a) now))
      (then_p (set_status_from (sa_leadId a) NEEDS_MANUAL_REVIEW dst now)
      (then_p (record_event (system_note (Some (sa_leadId a)) (Some NEEDS_MANUAL_REVIEW) (Some dst)
          ''Uncertain send attempt manually reconciled''
          (JObj [(''eventKind'', JStr ''SEND_ATTEMPT_RECONCILED''), (''attemptId'', JStr (sa_id a)),
                 (''originalAttemptStatus'', JStr ''OUTCOME_UNKNOWN''),
                 (''reconciliationOutcome'', JStr (if sent then ''CONFIRMED_SENT'' else ''CONFIRMED_NOT_SENT''))])))
      (return_p (if sent then AT_SENT_CONFIRMED else AT_DEFINITIVE_FAILURE))))))"

definition store_reconcile ::
  "digest \<Rightarrow> string \<Rightarrow> string \<Rightarrow> string \<Rightarrow> reconciliation \<Rightarrow> string \<Rightarrow> string \<Rightarrow> int
   \<Rightarrow> ('a send_db_scheme, attempt_status) prog" where
  "store_reconcile sha256 account policy aid outcome by_whom evidence now = lead_tx (
     bind_p (read_p (\<lambda>s. attempt_of s aid)) (\<lambda>found. case found of
       None \<Rightarrow> throw_p (PlainError ''send_attempt_not_found'')
     | Some a \<Rightarrow> bind_p (read_p (\<lambda>s. reconcile_problem sha256 account policy s a)) (\<lambda>problem.
         case problem of Some why \<Rightarrow> throw_p (PlainError why)
         | None \<Rightarrow> reconcile_writes a outcome by_whom evidence now)))"

definition store_recordUnresolved ::
  "string \<Rightarrow> string \<Rightarrow> string \<Rightarrow> int \<Rightarrow> ('a send_db_scheme, unit) prog" where
  "store_recordUnresolved aid by_whom evidence now = lead_tx (
     bind_p (read_p (\<lambda>s. attempt_of s aid)) (\<lambda>found.
       let open_attempt = (case found of None \<Rightarrow> None
         | Some a \<Rightarrow> if sa_status a = AT_OUTCOME_UNKNOWN \<and> sa_reconciledOutcome a = None then Some a else None)
       in case open_attempt of None \<Rightarrow> throw_p (PlainError ''send_attempt_not_unresolved_unknown'')
        | Some a \<Rightarrow> bind_p (read_p (\<lambda>s. map_option ld_status (lead_of s (sa_leadId a)))) (\<lambda>st.
            if st \<noteq> Some NEEDS_MANUAL_REVIEW then throw_p (PlainError ''lead_not_in_manual_review'')
            else record_event (system_note (Some (sa_leadId a)) None None
              ''Send outcome remains unresolved; retry stays blocked''
              (JObj [(''eventKind'', JStr ''SEND_RECONCILIATION_UNRESOLVED''), (''attemptId'', JStr (sa_id a)),
                     (''reviewedBy'', JStr by_whom), (''reviewedAt'', JStr (toISOString now)),
                     (''evidenceNote'', JStr evidence)])))))"

text \<open>\<^const>\<open>None\<close>: unchanged.\<close>

definition reconcile ::
  "digest \<Rightarrow> string option \<Rightarrow> string \<Rightarrow> string \<Rightarrow> selection \<Rightarrow> string \<Rightarrow> string \<Rightarrow> string
   \<Rightarrow> ('a send_db_scheme, attempt_status option) prog" where
  "reconcile sha256 account policy attemptId sel by_whom evidence observed =
     bind_p (lift_res (requiredId attemptId)) (\<lambda>aid.
     bind_p (lift_res (reconciliationPhrase aid sel)) (\<lambda>phrase.
       if observed \<noteq> phrase then throw_p (PlainError ''reconciliation_confirmation_mismatch'')
       else bind_p (lift_res (requiredText by_whom ''reconciled_by'' 120)) (\<lambda>who.
         bind_p (lift_res (requiredText evidence ''reconciliation_note'' 1000)) (\<lambda>txt.
         bind_p readClock (\<lambda>now.
           if sel = SEL_UNRESOLVED
           then then_p (store_recordUnresolved aid who txt now) (return_p None)
           else bind_p (lift_res (configured_account account)) (\<lambda>acc.
             bind_p (store_reconcile sha256 acc policy aid
                (if sel = SEL_SENT then CONFIRMED_SENT else CONFIRMED_NOT_SENT) who txt now)
               (\<lambda>st. return_p (Some st))))))))"

end
