(* ===== verification/Send_Eligibility.thy ===== *)
theory Send_Eligibility
  imports Send_Service
begin

text \<open>
  What the gate in front of a send lets through (\<^verbatim>\<open>src/src/domain/send/eligibility.ts\<close>), and what
  is known when the controlled send of \<^verbatim>\<open>src/src/domain/send/send-service.ts\<close> has prepared an attempt:
  a specification of the conditions over the input, the database and the clock, in place of lists of
  reasons.
\<close>

section \<open>The conditions\<close>

text \<open>The readiness is live at \<open>now\<close> and newer than the last definitive failure.\<close>

definition readiness_live :: "send_snapshot \<Rightarrow> readiness_view \<Rightarrow> bool" where
  "readiness_live s r \<longleftrightarrow> \<not> rv_revoked r
     \<and> normal_address (rv_gmailAccount r) = normal_address (sn_configGmailAccount s)
     \<and> rv_policyVersion r = sn_configPolicyVersion s
     \<and> rv_approvedAtMs r \<le> sn_nowMs s \<and> sn_nowMs s < rv_expiresAtMs r
     \<and> (\<forall>t. sn_lastDefinitiveFailureAtMs s = Some t \<longrightarrow> t < rv_approvedAtMs r)"

definition confirmation_live :: "send_snapshot \<Rightarrow> confirmation_view \<Rightarrow> bool" where
  "confirmation_live s c \<longleftrightarrow> cv_observedSendFingerprint c = sn_expectedSendFingerprint s
     \<and> cv_confirmedAtMs c \<le> sn_nowMs s \<and> sn_nowMs s \<le> cv_confirmedAtMs c + sn_confirmationTtlMs s"

definition schedule_live :: "send_snapshot \<Rightarrow> schedule_view \<Rightarrow> bool" where
  "schedule_live s v \<longleftrightarrow> sv_status v = SC_SCHEDULED
     \<and> sn_recomputedIntegrityFingerprint s = Some (sv_storedIntegrityFingerprint v)
     \<and> sv_scheduledAtUtcMs v \<le> sn_nowMs s \<and> sn_nowMs s \<le> sv_scheduledAtUtcMs v + sn_maxLateMs s"

definition recipient_ok :: "send_snapshot \<Rightarrow> bool" where
  "recipient_ok s \<longleftrightarrow> (\<exists>a. sn_currentRecipientEmail s = Some a \<and> a \<noteq> [] \<and> valid_email a)
     \<and> sn_draftRecipientMatches s \<and> \<not> sn_recipientSuppressed s"

definition content_ok :: "send_snapshot \<Rightarrow> bool" where
  "content_ok s \<longleftrightarrow> (\<exists>pid. sn_currentGmailDraft s = Some (''DRAFT_CREATED'', Some pid) \<and> pid \<noteq> [])
     \<and> (\<exists>h. sn_currentFinalizedContentHash s = Some h \<and> h \<noteq> [])
     \<and> sn_finalizationApproved s \<and> sn_draftBindingValid s \<and> sn_gmailAccountMatches s"

definition switches_on :: "send_snapshot \<Rightarrow> bool" where
  "switches_on s \<longleftrightarrow> sn_sendingEnabled s \<and> sn_outboundActionsEnabled s \<and> \<not> sn_dryRun s"

definition sendable :: "bool \<Rightarrow> send_snapshot \<Rightarrow> bool" where
  "sendable required s \<longleftrightarrow> \<not> sn_hasConfirmedAttempt s \<and> \<not> sn_hasBlockingAttempt s
     \<and> sn_confirmedSendsToday s < sn_dailyCap s \<and> switches_on s \<and> sn_leadStatus s = SCHEDULED
     \<and> (\<exists>v. sn_schedule s = Some v \<and> schedule_live s v)
     \<and> content_ok s \<and> recipient_ok s
     \<and> (\<exists>r. sn_readiness s = Some r \<and> readiness_live s r)
     \<and> (required \<longrightarrow> (\<exists>c. sn_confirmation s = Some c \<and> confirmation_live s c))"

section \<open>No reason left\<close>

named_theorems no_reason \<open>when a group of reasons is empty\<close>

lemma one_reason [no_reason]: "(if b then [x] else []) = [] \<longleftrightarrow> \<not> b"
  and two_reasons [no_reason]: "(if b then [x] else if c then [y] else []) = [] \<longleftrightarrow> \<not> b \<and> \<not> c"
  by simp_all

lemma flag_reasons_Nil [no_reason]: "flag_reasons s = [] \<longleftrightarrow> switches_on s"
  by (auto simp: flag_reasons_def switches_on_def)

lemma readiness_reasons_Nil [no_reason]:
  "readiness_reasons s = [] \<longleftrightarrow> (\<exists>r. sn_readiness s = Some r \<and> readiness_live s r)"
  by (cases "sn_readiness s")
     (auto simp: readiness_reasons_def readiness_live_def split: option.splits)

lemma confirmation_reasons_Nil [no_reason]:
  "confirmation_reasons required s = []
   \<longleftrightarrow> (required \<longrightarrow> (\<exists>c. sn_confirmation s = Some c \<and> confirmation_live s c))"
  by (cases "sn_confirmation s") (auto simp: confirmation_reasons_def confirmation_live_def)

text \<open>The reasons about the schedule come from three places of the list.\<close>

lemma schedule_live_iff:
  "schedule_view_reasons s = [] \<and> \<not> binding_invalid s \<and> \<not> not_due s \<and> \<not> too_late s
   \<longleftrightarrow> (\<exists>v. sn_schedule s = Some v \<and> schedule_live s v)"
  by (cases "sn_schedule s")
     (auto simp: schedule_view_reasons_def binding_invalid_def not_due_def too_late_def schedule_live_def)

lemma send_reasons_Nil:
  "send_reasons required s = [] \<longleftrightarrow> sn_confirmedSendsToday s < sn_dailyCap s \<and> switches_on s
     \<and> sn_leadStatus s = SCHEDULED
     \<and> (schedule_view_reasons s = [] \<and> \<not> binding_invalid s \<and> \<not> not_due s \<and> \<not> too_late s)
     \<and> content_ok s \<and> recipient_ok s
     \<and> (\<exists>r. sn_readiness s = Some r \<and> readiness_live s r)
     \<and> (required \<longrightarrow> (\<exists>c. sn_confirmation s = Some c \<and> confirmation_live s c))"
  unfolding send_reasons_def append_is_Nil_conv no_reason draft_reasons_Nil recipient_reasons_Nil
    content_ok_def recipient_ok_def missing_iff [symmetric]
  unfolding not_le not_not by blast

text \<open>C20: The gate in front of a send opens exactly when nothing was sent or is under way for the
  schedule, the account has sends left today, all three switches are on, the lead and its schedule are
  scheduled, the schedule's fingerprint still matches, it is due and not too late, a human approved the
  finalized content of exactly this draft, the recipient is valid, unchanged and not suppressed, the
  readiness is live and newer than the last failure, and (where required) the operator's confirmation
  is about exactly this send and recent.\<close>

theorem send_gate_opens_exactly:
  "el_eligible (checkSendEligibility required s) = sendable required s"
  unfolding sendable_def checkSendEligibility_def
  by (cases "sn_hasConfirmedAttempt s"; cases "sn_hasBlockingAttempt s")
     (simp_all add: refused_def Let_def send_reasons_Nil schedule_live_iff del: append.simps)

section \<open>What a prepared send has passed\<close>

text \<open>The snapshot of a database at two readings of the clock.\<close>

definition snapshot_of_db ::
  "readiness_source \<Rightarrow> digest \<Rightarrow> send_config \<Rightarrow> send_input \<Rightarrow> schedule_view \<Rightarrow> 'a send_db_scheme
   \<Rightarrow> int \<Rightarrow> int \<Rightarrow> send_snapshot" where
  "snapshot_of_db src sha256 cf i sv s now now2 =
     snapshot_from sha256 cf i sv (readiness_for src (cg_gmailAccount cf) (cg_policyVersion cf) s)
       (suppressions_of (send_identity i) s) (last_failure s (sv_id sv)) now
       (attempt_exists confirmed_attempt s (sv_id sv)) (attempt_exists unresolved_attempt s (sv_id sv))
       (confirmed_today s (cg_gmailAccount cf) now2)"

definition ticked :: "nat \<Rightarrow> 'a send_db_scheme \<Rightarrow> 'a send_db_scheme" where
  "ticked k s = s\<lparr>lead_ticks := lead_ticks s + k\<rparr>"

abbreviation clock_at :: "'a send_db_scheme \<Rightarrow> nat \<Rightarrow> int" where
  "clock_at s k \<equiv> lead_clock s (lead_ticks s + k)"

lemma readClock_run: "readClock s = (Inr (clock_at s 0), ticked 1 s)"
  by (simp add: readClock_def ticked_def)

lemma read_snapshot_run:
  "read_snapshot src sha256 cf i sv s =
     (Inr (readiness_for src (cg_gmailAccount cf) (cg_policyVersion cf) s,
        snapshot_of_db src sha256 cf i sv s (clock_at s 0) (clock_at s 1)), ticked 2 s)"
  by (simp add: read_snapshot_def bind_p_def readReadiness_def activeSuppressions_def
      lastDefinitiveFailureAt_def readClock_def hasConfirmedAttempt_def hasBlockingAttempt_def
      confirmedSendsToday_def snapshot_of_db_def ticked_def attempt_exists_def confirmed_today_def)

lemma send_state_Inr:
  assumes "send_state src sha256 cf i required mutate s = (Inr (Inr ck), s1)"
  shows "s1 = ticked 2 s" "in_schedule i = Some (ck_schedule ck)"
    and "sendable required (snapshot_of_db src sha256 cf i (ck_schedule ck) s (clock_at s 0) (clock_at s 1))"
    and "readiness_for src (cg_gmailAccount cf) (cg_policyVersion cf) s = Some (ck_readiness ck)"
    and "expected_of_input cf i = Inr (ck_expected ck)"
    and "ck_sendFp ck = fingerprint_of_input sha256 cf i (ck_schedule ck) (Some (ck_readiness ck))"
  using assms unfolding send_state_def Let_def
  by (auto simp: prog_simps read_snapshot_run send_gate_opens_exactly
      split: if_splits option.splits sum.splits)

text \<open>The expected envelope is the approved copy addressed to the verified recipient alone.\<close>

definition approved_copy :: "send_config \<Rightarrow> send_input \<Rightarrow> draft_envelope \<Rightarrow> bool" where
  "approved_copy cf i e \<longleftrightarrow> (\<exists>d f name recipient subject. in_currentGmailDraft i = Some d
     \<and> in_finalization i = Some f \<and> cg_senderName cf = Some name
     \<and> in_currentRecipientEmail i = Some recipient \<and> in_subject i = Some subject
     \<and> de_fromName e = name \<and> normal_address (de_fromEmail e) = normal_address (normal_address (dv_senderEmail d))
     \<and> map normal_address (de_to e) = [normal_address (normal_address recipient)]
     \<and> de_cc e = [] \<and> de_bcc e = [] \<and> reply_address (de_replyTo e) = None \<and> de_attachmentCount e = 0
     \<and> de_subject e = subject
     \<and> de_body e = resolveSenderName (fv_resolvedBody f) name \<and> \<not> hasUnresolvedTokens (de_body e))"

lemma not_missing_text: "\<not> missing x \<Longrightarrow> x = Some (text_of x)"
  by (cases x) (auto simp: missing_def text_of_def)

lemma compare_ok:
  assumes "compareProviderEnvelope expected actual = []"
  shows "de_fromName actual = de_fromName expected"
    and "normal_address (de_fromEmail actual) = normal_address (de_fromEmail expected)"
    and "map normal_address (de_to actual) = [normal_address (head_address (de_to expected))]"
    and "de_cc actual = []" "de_bcc actual = []" "de_attachmentCount actual = 0"
    and "reply_address (de_replyTo actual) = reply_address (de_replyTo expected)"
    and "de_subject actual = de_subject expected" "de_body actual = de_body expected"
  using assms unfolding compareProviderEnvelope_def append_is_Nil_conv no_reason
  by (auto simp: head_address_def length_Suc_conv split: list.splits)

lemma reply_address_None [simp]: "reply_address None = None"
  by (simp add: reply_address_def missing_def)

lemma approved_copyI:
  assumes "expected_of_input cf i = Inr expected" and "compareProviderEnvelope expected actual = []"
  shows "approved_copy cf i actual"
proof -
  obtain d f where d: "in_currentGmailDraft i = Some d" and f: "in_finalization i = Some f"
    and ok: "\<not> missing (cg_senderName cf)" "\<not> missing (in_currentRecipientEmail i)" "\<not> missing (in_subject i)"
    and e: "expectedDraftEnvelope (text_of (cg_senderName cf)) (dv_senderEmail d)
        (text_of (in_currentRecipientEmail i)) (text_of (in_subject i)) (fv_resolvedBody f) = Some expected"
    using assms(1) by (auto simp: expected_of_input_def split: option.splits if_splits)
  have ex: "\<not> hasUnresolvedTokens (resolveSenderName (fv_resolvedBody f) (text_of (cg_senderName cf)))"
    "expected = \<lparr>de_fromName = text_of (cg_senderName cf), de_fromEmail = normal_address (dv_senderEmail d),
       de_to = [normal_address (text_of (in_currentRecipientEmail i))], de_cc = [], de_bcc = [],
       de_replyTo = None, de_subject = text_of (in_subject i),
       de_body = resolveSenderName (fv_resolvedBody f) (text_of (cg_senderName cf)), de_attachmentCount = 0\<rparr>"
    using e by (auto simp: expectedDraftEnvelope_def Let_def split: if_splits)
  show ?thesis
    unfolding approved_copy_def
    using d f ok [THEN not_missing_text] compare_ok [OF assms(2)] ex
    by (simp add: head_address_def) metis
qed

lemma verifyProvider_Inr:
  assumes "verifyProvider sha256 cf expected stored s = (Inr (Inr env), s1)"
  shows "s1 = s\<lparr>gm_calls := gm_calls s + 2\<rparr>"
    and "\<exists>d a. stored = Some d \<and> gm_draft s (Suc (gm_calls s)) = Inspected a
      \<and> identity_reasons d a = None \<and> compareProviderEnvelope expected (da_envelope a) = []
      \<and> env = providerEnvelopeHash sha256 (da_envelope a)"
    and "aa_ok (gm_account s (gm_calls s))"
    and "map_option js_lower (aa_email (gm_account s (gm_calls s))) = Some (js_lower (cg_gmailAccount cf))"
  using assms unfolding verifyProvider_def
  by (auto simp: prog_simps verifyAccount_def getKnownDraft_def provider_call_def inspect_draft_def Let_def
      split: if_splits option.splits draft_inspection.splits)

section \<open>Preparing changes no attempt and sends nothing\<close>

definition quiet :: "'a send_db_scheme \<Rightarrow> 'a send_db_scheme \<Rightarrow> bool" where
  "quiet s s' \<longleftrightarrow> t_attempts s' = t_attempts s \<and> gm_sent s' = gm_sent s \<and> gm_send s' = gm_send s"

interpretation quiet: prog_frame quiet
  by unfold_locales (auto simp: quiet_def)

named_theorems quiet_parts \<open>statements that are quiet\<close>

lemma quiet_rollback [intro]: "quiet s s1 \<Longrightarrow> quiet s (rollback s s1)"
  by (simp add: quiet_def rollback_def)

lemma quiet_tx [quiet_parts]: "keeps quiet p \<Longrightarrow> keeps quiet (lead_tx p)"
  by (rule quiet.keeps_transaction) auto

lemma quiet_clock [quiet_parts]: "keeps quiet readClock"
  and quiet_uuid [quiet_parts]: "keeps quiet newUUID"
  and quiet_call [quiet_parts]: "keeps quiet provider_call"
  by (simp_all add: keeps_def quiet_def readClock_def newUUID_def provider_call_def)

lemma quiet_record_event [quiet_parts]: "keeps quiet (record_event e)"
  unfolding record_event_def
  by (intro quiet.keeps_bind quiet_uuid) (simp add: keeps_def quiet_def)

lemma quiet_getById [quiet_parts]: "keeps quiet (lead_getById lid)"
  unfolding lead_getById_def by (rule quiet.keeps_read)

lemma quiet_updateStatus [quiet_parts]: "keeps quiet (lead_updateStatus lid st now)"
  unfolding lead_updateStatus_def by (rule quiet.keeps_write) (simp add: quiet_def)

lemma quiet_update_schedule [quiet_parts]: "keeps quiet (update_schedule sid f)"
  unfolding update_schedule_def by (rule quiet.keeps_write) (simp add: quiet_def)

lemma quiet_lead_transition [quiet_parts]: "keeps quiet (lead_transition lid dst)"
  unfolding lead_transition_def Let_def
  by (intro quiet.keeps_bind quiet.keeps_option quiet.keeps_if quiet.keeps_all quiet_parts)

lemma quiet_move_lead [quiet_parts]: "keeps quiet (move_lead lid src dst)"
  unfolding move_lead_def
  by (intro quiet.keeps_bind quiet.keeps_option quiet.keeps_all quiet_parts)

lemma quiet_markFulfilled [quiet_parts]: "keeps quiet (markScheduleFulfilled sid now)"
  and quiet_invalidate [quiet_parts]: "keeps quiet (invalidateSchedule sid why now)"
  and quiet_cancelSchedule [quiet_parts]: "keeps quiet (cancelSchedule sid reason now)"
  and quiet_supersede [quiet_parts]: "keeps quiet (supersedeSchedule sid nid)"
  unfolding markScheduleFulfilled_def invalidateSchedule_def cancelSchedule_def supersedeSchedule_def
  by (rule quiet_update_schedule)+

lemma quiet_routes [quiet_parts]:
  "keeps quiet (routeInvalidate i run outcome why)" "keeps quiet (routeManual i run outcome why)"
  unfolding routeInvalidate_def routeManual_def
  by (intro quiet.keeps_all quiet_parts)+

lemma quiet_refuse [quiet_parts]: "keeps quiet (refuse_send i mutate el)"
  unfolding refuse_send_def Let_def by (intro quiet.keeps_all quiet_parts)

lemma quiet_send_state [quiet_parts]: "keeps quiet (send_state src sha256 cf i required mutate)"
proof -
  have snap: "keeps quiet (read_snapshot src sha256 cf i sv)" for sv
    by (simp add: keeps_def read_snapshot_run quiet_def ticked_def)
  show ?thesis
    unfolding send_state_def Let_def
    by (auto intro!: quiet.keeps_all quiet_parts snap split: sum.splits option.splits)
qed

lemma quiet_verifyProvider [quiet_parts]: "keeps quiet (verifyProvider sha256 cf expected stored)"
  unfolding verifyProvider_def verifyAccount_def getKnownDraft_def
  by (intro quiet.keeps_all quiet_parts)

lemma quiet_attempt_row [quiet_parts]: "keeps quiet (attempt_row sha256 cf i ck c)"
  unfolding attempt_row_def by (intro quiet.keeps_all quiet_parts)

lemma quiet_verify_again [quiet_parts]: "keeps quiet (verify_again sha256 cf i ck pf)"
  unfolding verify_again_def Let_def activeSuppressions_def
  by (auto intro!: quiet.keeps_all quiet_parts split: sum.splits)

lemma quiet_prepare [quiet_parts]: "keeps quiet (send_prepare src sha256 cf i)"
  unfolding send_prepare_def Let_def
  by (auto intro!: quiet.keeps_all quiet_parts split: sum.splits option.splits)

lemma quiet_preflight [quiet_parts]: "keeps quiet (preflight src sha256 cf i)"
  unfolding preflight_def
  by (auto intro!: quiet.keeps_all quiet_parts split: sum.splits)

section \<open>A dispatched draft was cleared\<close>

text \<open>The provider's own answers at two consecutive calls: the authenticated account is the configured
  one, and the draft it holds is the stored draft and the approved copy.\<close>

definition provider_agrees ::
  "send_config \<Rightarrow> send_input \<Rightarrow> account_answer \<Rightarrow> draft_inspection \<Rightarrow> bool" where
  "provider_agrees cf i acc r \<longleftrightarrow> aa_ok acc
     \<and> map_option js_lower (aa_email acc) = Some (js_lower (cg_gmailAccount cf))
     \<and> (\<exists>d a. in_currentGmailDraft i = Some d \<and> r = Inspected a \<and> identity_reasons d a = None
          \<and> approved_copy cf i (da_envelope a))"

definition cleared ::
  "readiness_source \<Rightarrow> digest \<Rightarrow> send_config \<Rightarrow> send_input \<Rightarrow> 'a send_db_scheme \<Rightarrow> bool" where
  "cleared src sha256 cf i s \<longleftrightarrow>
     (\<exists>sv. in_schedule i = Some sv
        \<and> sendable True (snapshot_of_db src sha256 cf i sv s (clock_at s 0) (clock_at s 1)))
   \<and> provider_agrees cf i (gm_account s (gm_calls s)) (gm_draft s (Suc (gm_calls s)))
   \<and> (\<exists>pf. in_preflightProof i = Some pf \<and> clock_at s 2 - pf_checkedAtMs pf \<le> cg_confirmationTtlMs cf)"

definition reserved_for :: "send_config \<Rightarrow> send_input \<Rightarrow> send_attempt \<Rightarrow> bool" where
  "reserved_for cf i row \<longleftrightarrow> (\<exists>sv. in_schedule i = Some sv \<and> sa_scheduleId row = sv_id sv)
     \<and> sa_leadId row = in_leadId i \<and> sa_gmailAccount row = cg_gmailAccount cf
     \<and> sa_status row = AT_RESERVED \<and> sa_reconciledOutcome row = None \<and> sa_providerMessageId row = None"

lemma attempt_row_run:
  assumes "attempt_row sha256 cf i ck c s = (x, s1)" and "in_schedule i = Some (ck_schedule ck)"
  shows "\<exists>row. x = Inr row \<and> reserved_for cf i row"
  using assms by (auto simp: attempt_row_def bind_p_def newUUID_def readClock_def reserved_for_def)

lemma verify_again_Inr:
  assumes "verify_again sha256 cf i ck pf s = (Inr (Inr row), s1)"
    and "expected_of_input cf i = Inr (ck_expected ck)" and "in_schedule i = Some (ck_schedule ck)"
  shows "provider_agrees cf i (gm_account s (gm_calls s)) (gm_draft s (Suc (gm_calls s)))"
    and "reserved_for cf i row"
proof -
  obtain env s2 where v: "verifyProvider sha256 cf (ck_expected ck) (in_currentGmailDraft i) s = (Inr (Inr env), s2)"
    and row: "\<exists>c s3. attempt_row sha256 cf i ck c s3 = (Inr row, s1)"
    using assms(1) unfolding verify_again_def Let_def
    by (elim bind_p_InrE)
       (fastforce simp: activeSuppressions_def elim!: bind_p_InrE split: sum.splits if_splits option.splits)
  show "provider_agrees cf i (gm_account s (gm_calls s)) (gm_draft s (Suc (gm_calls s)))"
    using verifyProvider_Inr(2-4) [OF v] approved_copyI [OF assms(2)] by (auto simp: provider_agrees_def)
  show "reserved_for cf i row"
    using row attempt_row_run [OF _ assms(3)] by fastforce
qed

lemma send_prepare_InrE:
  assumes "send_prepare src sha256 cf i s = (Inr (Inr row), s1)"
  obtains ck pf s0 s2 now where "send_state src sha256 cf i True True s = (Inr (Inr ck), s0)"
    "in_preflightProof i = Some pf" "readClock s0 = (Inr now, s2)"
    "now - pf_checkedAtMs pf \<le> cg_confirmationTtlMs cf"
    "verify_again sha256 cf i ck pf s2 = (Inr (Inr row), s1)"
  using assms unfolding send_prepare_def Let_def
  by (elim bind_p_InrE)
     (fastforce split: sum.splits option.splits if_splits elim!: bind_p_InrE simp: not_less)

lemma send_prepare_Inr:
  assumes "send_prepare src sha256 cf i s = (Inr (Inr row), s1)"
  shows "cleared src sha256 cf i s" "reserved_for cf i row"
proof -
  obtain ck pf s0 s2 now where st: "send_state src sha256 cf i True True s = (Inr (Inr ck), s0)"
    and pf: "in_preflightProof i = Some pf" and clk: "readClock s0 = (Inr now, s2)"
    and ttl: "now - pf_checkedAtMs pf \<le> cg_confirmationTtlMs cf"
    and v: "verify_again sha256 cf i ck pf s2 = (Inr (Inr row), s1)"
    using send_prepare_InrE [OF assms] .
  have s0: "s0 = ticked 2 s"
    by (rule send_state_Inr(1) [OF st])
  have s2: "gm_calls s2 = gm_calls s" "gm_account s2 = gm_account s" "gm_draft s2 = gm_draft s"
    using clk s0 by (auto simp: readClock_def ticked_def)
  have ttl': "clock_at s 2 - pf_checkedAtMs pf \<le> cg_confirmationTtlMs cf"
    using ttl clk s0 by (simp add: ticked_def readClock_def)
  note ck = send_state_Inr [OF st]
  show "cleared src sha256 cf i s"
    using ck(2,3) verify_again_Inr(1) [OF v ck(5,2)] pf ttl' s2 by (auto simp: cleared_def)
  show "reserved_for cf i row"
    by (rule verify_again_Inr(2) [OF v ck(5,2)])
qed

end
