(* ===== verification/Send_Effects.thy ===== *)
theory Send_Effects
  imports Send_Eligibility
begin

text \<open>
  What the phases of a send do to the table of attempts and to the provider: reserving appends one row,
  starting and finishing change that row's status, and only the dispatch sends. From these the effect
  of a whole send follows: a draft is dispatched only after every condition of the gate was checked,
  and its attempt is in the table afterwards, whatever the provider answered and whatever failed.
\<close>

section \<open>Updates of one attempt\<close>

text \<open>Updating the rows with an identifier, as one transaction that also does quiet work.\<close>

definition patches_attempt ::
  "string \<Rightarrow> attempt_status \<Rightarrow> 'a send_db_scheme \<Rightarrow> 'a send_db_scheme \<Rightarrow> bool" where
  "patches_attempt aid st s s' \<longleftrightarrow> gm_sent s' = gm_sent s \<and> gm_send s' = gm_send s
     \<and> attempts_violation (t_attempts s') = None
     \<and> (\<exists>p. ap_status p = Some st
          \<and> t_attempts s' = update_where (\<lambda>a. sa_id a = aid) (patch_attempt p) (t_attempts s))"

lemma completeAttempt_Inr:
  assumes "completeAttempt aid p s = (Inr u, s')" and "ap_status p = Some st"
  shows "patches_attempt aid st s s'"
  using assms by (auto simp: completeAttempt_def update_attempts_def patches_attempt_def Let_def
      split: option.splits)

lemma patches_then_quiet: "patches_attempt aid st s s1 \<Longrightarrow> quiet s1 s2 \<Longrightarrow> patches_attempt aid st s s2"
  by (auto simp: patches_attempt_def quiet_def)

lemma quiet_then_patches: "quiet s s1 \<Longrightarrow> patches_attempt aid st s1 s2 \<Longrightarrow> patches_attempt aid st s s2"
  by (auto simp: patches_attempt_def quiet_def)

lemma finishing_tx:
  assumes "lead_tx (bind_p readClock (\<lambda>now. then_p (completeAttempt aid (P now)) (Q now))) s = (x, s')"
    and "\<And>now. ap_status (P now) = Some st" and "\<And>now. keeps quiet (Q now)"
  shows "(\<exists>u. x = Inr u) \<and> patches_attempt aid st s s' \<or> (\<exists>e. x = Inl e) \<and> quiet s s'"
proof (cases x)
  case (Inl e)
  then have "\<exists>s1. s' = rollback s s1"
    using assms(1) by (auto simp: transaction_Inl)
  then show ?thesis using Inl by (auto simp: quiet_def rollback_def)
next
  case (Inr u)
  then obtain now s1 s2 v where r: "readClock s = (Inr now, s1)" "completeAttempt aid (P now) s1 = (Inr v, s2)"
    "Q now s2 = (Inr u, s')"
    using assms(1) by (auto simp: prog_simps)
  have "patches_attempt aid st s s2"
    using quiet_then_patches [OF keepsD [OF quiet_clock r(1)] completeAttempt_Inr [OF r(2) assms(2)]] .
  then show ?thesis
    using Inr patches_then_quiet keepsD [OF assms(3) r(3)] by blast
qed

section \<open>The phases\<close>

definition answered :: "send_response \<Rightarrow> bool" where
  "answered r \<longleftrightarrow> (\<exists>mid tid why. r = Response SR_ok (Some (mid, tid)) why \<and> mid \<noteq> '''')"

definition refused_by_provider :: "send_response \<Rightarrow> bool" where
  "refused_by_provider r \<longleftrightarrow> (\<exists>c ref why. r = Response c ref why \<and> c \<noteq> SR_ok \<and> c \<noteq> SR_unknown)"

definition final_status :: "send_response \<Rightarrow> attempt_status" where
  "final_status r = (if answered r then AT_SENT_CONFIRMED
     else if refused_by_provider r then AT_DEFINITIVE_FAILURE else AT_OUTCOME_UNKNOWN)"

fun status_of_outcome :: "send_outcome \<Rightarrow> attempt_status" where
  "status_of_outcome OC_SENT_CONFIRMED = AT_SENT_CONFIRMED"
| "status_of_outcome OC_OUTCOME_UNKNOWN = AT_OUTCOME_UNKNOWN"
| "status_of_outcome _ = AT_DEFINITIVE_FAILURE"

text \<open>A finishing phase returns a result that tells the status it wrote, or throws and writes nothing.\<close>

definition finishes ::
  "string \<Rightarrow> attempt_status \<Rightarrow> 'a send_db_scheme \<Rightarrow> app_error + send_result_out \<Rightarrow> 'a send_db_scheme \<Rightarrow> bool" where
  "finishes aid st s x s' \<longleftrightarrow>
     (case x of Inl e \<Rightarrow> quiet s s'
      | Inr out \<Rightarrow> status_of_outcome (ro_outcome out) = st \<and> patches_attempt aid st s s')"

lemma finishing_then_return:
  assumes "then_p (lead_tx (bind_p readClock (\<lambda>now. then_p (completeAttempt aid (P now)) (Q now))))
      (return_p out) s = (x, s')"
    and "\<And>now. ap_status (P now) = Some st" and "\<And>now. keeps quiet (Q now)"
    and "status_of_outcome (ro_outcome out) = st"
  shows "finishes aid st s x s'"
proof -
  obtain y s1 where tx: "lead_tx (bind_p readClock (\<lambda>now. then_p (completeAttempt aid (P now)) (Q now))) s = (y, s1)"
    by fastforce
  show ?thesis
    using finishing_tx [OF tx assms(2,3)] assms(1,4) tx
    by (cases y) (auto simp: finishes_def)
qed

lemma finish_call_effect:
  assumes "finish_call i run row started r s = (x, s')"
  shows "finishes (sa_id row) (final_status r) s x s'"
proof -
  have "finishes (sa_id row) AT_OUTCOME_UNKNOWN s x s'" if "finishUnknown i run (sa_id row) started why s = (x, s')" for why
    using that unfolding finishUnknown_def
    by (rule finishing_then_return) (auto simp: send_out_def intro!: quiet.keeps_all quiet_parts)
  moreover have "finishes (sa_id row) AT_SENT_CONFIRMED s x s'" if "finishSent i run row mid tid s = (x, s')" for mid tid
    using that unfolding finishSent_def
    by (rule finishing_then_return) (auto simp: send_out_def intro!: quiet.keeps_all quiet_parts)
  moreover have "finishes (sa_id row) AT_DEFINITIVE_FAILURE s x s'" if "finishFailed i run (sa_id row) c why s = (x, s')" for c why
    using that unfolding finishFailed_def
    by (rule finishing_then_return)
       (auto simp: send_out_def failure_outcome_def intro!: quiet.keeps_all quiet_parts)
  ultimately show ?thesis
    using assms unfolding finish_call_def
    by (auto simp: final_status_def answered_def refused_by_provider_def
        split: send_response.splits send_outcome_class.splits option.splits if_splits)
qed

lemma start_call_effect:
  assumes "start_call aid s = (x, s')"
  shows "(\<exists>now. x = Inr now) \<and> patches_attempt aid AT_CALL_STARTED s s' \<or> (\<exists>e. x = Inl e) \<and> quiet s s'"
proof (cases x)
  case (Inl e)
  then show ?thesis
    using assms by (auto simp: start_call_def bind_p_def then_p_def readClock_def transaction_def
        completeAttempt_def update_attempts_def rollback_def quiet_def Let_def split: option.splits prod.splits)
next
  case (Inr now)
  then obtain s1 u where r: "readClock s = (Inr now, s1)"
    "completeAttempt aid (no_patch\<lparr>ap_status := Some AT_CALL_STARTED, ap_callStartedAt := Some (Some now)\<rparr>) s1 = (Inr u, s')"
    using assms unfolding start_call_def by (auto simp: prog_simps)
  have "patches_attempt aid AT_CALL_STARTED s1 s'"
    by (rule completeAttempt_Inr [OF r(2)]) simp
  then show ?thesis
    using quiet_then_patches [OF keepsD [OF quiet_clock r(1)]] Inr by blast
qed

text \<open>A reservation is one row appended, or nothing.\<close>

definition reserves :: "send_attempt \<Rightarrow> 'a send_db_scheme \<Rightarrow> 'a send_db_scheme \<Rightarrow> bool" where
  "reserves row s s' \<longleftrightarrow> attempts_violation (t_attempts s @ [row]) = None
     \<and> s' = s\<lparr>t_attempts := t_attempts s @ [row]\<rparr>"

lemma reserveAttempt_effect:
  assumes "reserveAttempt ex row cap s = (x, s')"
  shows "x = Inr RESERVED_OK \<and> reserves row s s' \<or> x \<noteq> Inr RESERVED_OK \<and> s' = s"
  using assms by (auto simp: reserveAttempt_def insertAttempt_def reserves_def
      split: if_splits option.splits app_error.splits sum.splits)

definition draft_to_send :: "send_input \<Rightarrow> string" where
  "draft_to_send i = (case in_currentGmailDraft i of None \<Rightarrow> '''' | Some d \<Rightarrow> text_of (dv_providerDraftId d))"

lemma dispatch_effect:
  assumes "dispatch i s = (x, s')"
  shows "x = Inr (gm_send s (gm_calls s))" and "t_attempts s' = t_attempts s"
    and "gm_sent s' = gm_sent s @ [draft_to_send i]"
  using assms by (auto simp: dispatch_def sendExistingDraft_def bind_p_def then_p_def provider_call_def
      draft_to_send_def)


section \<open>A whole send\<close>

lemma not_sent:
  "quiet s s' \<Longrightarrow> gm_sent s' = gm_sent s" "patches_attempt aid st s s' \<Longrightarrow> gm_sent s' = gm_sent s"
  "reserves row s s' \<Longrightarrow> gm_sent s' = gm_sent s" "finishes aid st s x s' \<Longrightarrow> gm_sent s' = gm_sent s"
  by (auto simp: quiet_def patches_attempt_def reserves_def finishes_def split: sum.splits)

text \<open>A send that dispatched ran through all phases.\<close>

lemma send_dispatchE:
  assumes run: "send src sha256 ex cf i run s = (r, s')" and sent: "gm_sent s' \<noteq> gm_sent s"
  obtains row s1 s2 s3 s4 started resp
  where "send_prepare src sha256 cf i s = (Inr (Inr row), s1)" "reserves row s1 s2"
    "start_call (sa_id row) s2 = (Inr started, s3)" "dispatch i s3 = (Inr resp, s4)"
    "finish_call i run row started resp s4 = (r, s')"
proof -
  obtain p s1 where prep: "send_prepare src sha256 cf i s = (p, s1)" by fastforce
  have q1: "gm_sent s1 = gm_sent s"
    using keepsD [OF quiet_prepare prep] by (simp add: quiet_def)
  obtain row where p: "p = Inr (Inr row)"
    using run sent prep q1 by (cases p) (auto simp: send_def split: sum.splits)
  obtain v s2 where res: "reserveAttempt ex row (cg_dailyCap cf) s1 = (v, s2)" by fastforce
  have v: "v = Inr RESERVED_OK" and rs: "reserves row s1 s2"
    using reserveAttempt_effect [OF res] run sent prep p q1 res
    by (cases v; auto simp: send_def split: reservation.splits)+
  obtain c s3 where st: "start_call (sa_id row) s2 = (c, s3)" by fastforce
  have q3: "gm_sent s3 = gm_sent s"
    using start_call_effect [OF st] not_sent q1 rs by metis
  obtain started where c: "c = Inr started"
    using run sent prep p res v st q3 by (cases c) (auto simp: send_def)
  obtain d s4 where dp: "dispatch i s3 = (d, s4)" by fastforce
  then obtain resp where d: "d = Inr resp"
    using dispatch_effect(1) [OF dp] by blast
  have "finish_call i run row started resp s4 = (r, s')"
    using run prep p res v st c dp d by (simp add: send_def)
  then show ?thesis
    using that prep p rs st c dp d by blast
qed

text \<open>Either nothing is dispatched, or the send was cleared and dispatched the known draft once.\<close>

lemma send_sends:
  assumes "send src sha256 ex cf i run s = (r, s')"
  shows "gm_sent s' = gm_sent s \<or> cleared src sha256 cf i s \<and> gm_sent s' = gm_sent s @ [draft_to_send i]"
proof (cases "gm_sent s' = gm_sent s")
  case False
  from send_dispatchE [OF assms False] obtain row s1 s2 s3 s4 started resp
    where prep: "send_prepare src sha256 cf i s = (Inr (Inr row), s1)" and rs: "reserves row s1 s2"
      and st: "start_call (sa_id row) s2 = (Inr started, s3)" and dp: "dispatch i s3 = (Inr resp, s4)"
      and fin: "finish_call i run row started resp s4 = (r, s')" .
  have "cleared src sha256 cf i s"
    by (rule send_prepare_Inr(1) [OF prep])
  moreover have "gm_sent s' = gm_sent s4" "gm_sent s3 = gm_sent s2" "gm_sent s2 = gm_sent s1" "gm_sent s1 = gm_sent s"
    using not_sent(4) [OF finish_call_effect [OF fin]] start_call_effect [OF st] not_sent(1,2) not_sent(3) [OF rs]
      keepsD [OF quiet_prepare prep] by blast+
  ultimately show ?thesis
    using dispatch_effect(3) [OF dp] by simp
qed simp

text \<open>C2: A send that reaches the provider was cleared: before it the switches were on, the lead was
  scheduled, the schedule's binding intact, due and not stale, the content approved by a human, the
  recipient valid and not suppressed, nothing sent or under way for the schedule, the cap not reached,
  the readiness live, the operator's confirmation recent; the provider itself reported the configured
  account and a draft equal to the approved copy, addressed to the verified recipient alone; and exactly
  that one known draft was sent, once.\<close>

theorem dispatch_only_when_cleared:
  assumes "send src sha256 ex cf i run s = (r, s')" and "gm_sent s' \<noteq> gm_sent s"
  shows "cleared src sha256 cf i s \<and> gm_sent s' = gm_sent s @ [draft_to_send i]"
  using send_sends [OF assms(1)] assms(2) by blast


section \<open>A send that succeeds\<close>

text \<open>A small database in which a send is ready to go, and the provider's answers.\<close>

definition demo_digest :: digest where
  "demo_digest = (\<lambda>_. ''h'')"

definition demo_scheduled_lead :: lead where
  "demo_scheduled_lead = \<lparr>ld_id = ''l'', ld_businessName = None, ld_normalizedName = None, ld_domain = None,
     ld_normalizedDomain = None, ld_phone = None, ld_normalizedPhone = None, ld_formattedAddress = None,
     ld_normalizedAddress = None, ld_latitude = None, ld_longitude = None, ld_placeId = None, ld_city = None,
     ld_country = None, ld_status = SCHEDULED, ld_priority = None, ld_source = None,
     ld_dedupStatus = DS_UNIQUE, ld_duplicateOf = None, ld_createdAt = 0, ld_updatedAt = 0\<rparr>"

definition demo_draft :: gmail_draft where
  "demo_draft = \<lparr>gd_id = ''d'', gd_leadId = ''l'', gd_finalizedEmailId = Some ''f'', gd_recipientEmail = ''r@b.c'',
     gd_senderEmail = ''a@b.c'', gd_gmailAccount = ''a@b.c'', gd_providerDraftId = Some ''pd'',
     gd_threadId = Some ''t'', gd_messageId = Some ''m'', gd_outcome = ''DRAFT_CREATED'',
     gd_provider = ''gmail'', gd_idempotencyFingerprint = ''h'', gd_sourceEmailVersion = ''h'', gd_errorClass = None,
     gd_createdAt = 1, gd_completedAt = Some 2\<rparr>"

definition demo_schedule :: send_schedule where
  "demo_schedule = \<lparr>sc_id = ''s'', sc_leadId = ''l'', sc_gmailDraftId = ''d'', sc_providerDraftId = ''pd'',
     sc_finalizedContentHash = ''h'', sc_recipientEmail = ''r@b.c'', sc_scheduledAtUtc = 900, sc_timezone = ''UTC'',
     sc_rulesVersion = ''1'', sc_integrityFingerprint = ''h'', sc_origin = ''auto'', sc_status = SC_SCHEDULED,
     sc_supersededById = None, sc_cancelReason = None, sc_rescheduleCount = 0, sc_createdAt = 0,
     sc_cancelledAt = None, sc_fulfilledAt = None, sc_invalidatedAt = None, sc_invalidationReason = None\<rparr>"

definition demo_readiness :: readiness where
  "demo_readiness = \<lparr>rd_id = ''q'', rd_gmailAccount = ''a@b.c'', rd_policyVersion = ''1'', rd_approvedBy = ''o'',
     rd_approvedAt = 500, rd_expiresAt = 5000, rd_revokedAt = None, rd_revokedBy = None,
     rd_revokeReason = None, rd_source = INTERACTIVE, rd_authorizationId = None\<rparr>"

definition demo_envelope :: draft_envelope where
  "demo_envelope = \<lparr>de_fromName = ''N'', de_fromEmail = ''a@b.c'', de_to = [''r@b.c''], de_cc = [], de_bcc = [],
     de_replyTo = None, de_subject = ''S'', de_body = ''B'', de_attachmentCount = 0\<rparr>"

definition demo_send_db :: "send_response \<Rightarrow> send_db" where
  "demo_send_db answer = \<lparr>t_leads = [demo_scheduled_lead], t_pipeline_events = [], fk_runs = [''run''],
     t_lead_facts = [], t_source_entities = [], t_source_requests = [], t_source_observations = [],
     lead_uuids = (\<lambda>n. show_nat n), lead_drawn = 0, lead_clock = (\<lambda>n. 1000 + int n), lead_ticks = 0,
     t_gmail_drafts = [demo_draft], t_finalizations = [], t_schedules = [demo_schedule], t_attempts = [],
     t_readiness = [demo_readiness], t_suppressions = [], t_authorizations = [], gm_calls = 0,
     gm_account = (\<lambda>_. \<lparr>aa_ok = True, aa_email = Some ''a@b.c''\<rparr>),
     gm_draft = (\<lambda>_. Inspected \<lparr>da_envelope = demo_envelope, da_providerDraftId = None,
        da_providerMessageId = Some ''m'', da_providerThreadId = Some ''t''\<rparr>),
     gm_send = (\<lambda>_. answer), gm_sent = []\<rparr>"

definition demo_config :: send_config where
  "demo_config = \<lparr>cg_gmailAccount = ''a@b.c'', cg_senderName = Some ''N'', cg_policyVersion = ''1'',
     cg_sendingEnabled = True, cg_outboundActionsEnabled = True, cg_dryRun = False, cg_maxLateMs = 10000,
     cg_confirmationTtlMs = 600, cg_dailyCap = 2\<rparr>"

definition demo_input :: send_input where
  "demo_input = \<lparr>in_schedule = Some \<lparr>sv_id = ''s'', sv_status = SC_SCHEDULED, sv_gmailDraftId = ''d'',
       sv_providerDraftId = ''pd'', sv_finalizedContentHash = ''h'', sv_recipientEmail = ''r@b.c'',
       sv_scheduledAtUtcMs = 900, sv_rulesVersion = ''1'', sv_storedIntegrityFingerprint = ''h''\<rparr>,
     in_currentGmailDraft = Some \<lparr>dv_id = ''d'', dv_outcome = ''DRAFT_CREATED'', dv_providerDraftId = Some ''pd'',
       dv_providerMessageId = Some ''m'', dv_providerThreadId = Some ''t'', dv_gmailAccount = ''a@b.c'',
       dv_senderEmail = ''a@b.c'', dv_recipientEmail = ''r@b.c'', dv_finalizedEmailId = Some ''f''\<rparr>,
     in_finalization = Some \<lparr>fv_id = ''f'', fv_resolvedBody = ''B'', fv_resolvedBodyHash = ''h'',
       fv_finalHumanDecision = Some ''APPROVED'', fv_finalReviewedAt = Some 10\<rparr>,
     in_currentFinalizedContentHash = Some ''h'', in_currentRecipientEmail = Some ''r@b.c'', in_subject = Some ''S'',
     in_normalizedDomain = None, in_normalizedPhone = None, in_placeId = None, in_leadId = ''l'',
     in_leadStatus = SCHEDULED,
     in_confirmation = Some \<lparr>cv_observedSendFingerprint = ''h'', cv_confirmedBy = ''o'', cv_confirmedAtMs = 990\<rparr>,
     in_preflightProof = Some \<lparr>pf_sendFingerprint = ''h'', pf_providerEnvelopeHash = ''h'',
       pf_checkedAtMs = 990, pf_proofHash = ''h''\<rparr>\<rparr>"

definition demo_send :: "send_response \<Rightarrow> (app_error + send_result_out) \<times> send_db" where
  "demo_send answer = send INTERACTIVE demo_digest True demo_config demo_input ''run'' (demo_send_db answer)"

lemma demo_send_confirmed:
  "gm_sent (snd (demo_send (Response SR_ok (Some (''x'', None)) None))) = [''pd'']"
  by code_simp

lemma demo_send_unknown:
  "(map_sum (\<lambda>_. ()) ro_outcome (fst (demo_send ProviderThrows)), gm_sent (snd (demo_send ProviderThrows)))
   = (Inr OC_OUTCOME_UNKNOWN, [''pd''])"
  by code_simp

theorem dispatch_only_when_cleared_witness:
  "cleared INTERACTIVE demo_digest demo_config demo_input
     (demo_send_db (Response SR_ok (Some (''x'', None)) None))"
  using dispatch_only_when_cleared [of INTERACTIVE demo_digest True demo_config demo_input "''run''"
      "demo_send_db (Response SR_ok (Some (''x'', None)) None)"
      "fst (demo_send (Response SR_ok (Some (''x'', None)) None))"
      "snd (demo_send (Response SR_ok (Some (''x'', None)) None))"]
  by (simp add: demo_send_def [symmetric] demo_send_confirmed) (simp add: demo_send_db_def)



end
