(* ===== verification/Send_Steps.thy ===== *)
theory Send_Steps
  imports Send_Admin Send_Effects
begin

text \<open>
  Sending under concurrency and crashes. Any number of processes run the controlled send of
  \<^verbatim>\<open>src/src/domain/send/send-service.ts\<close>, whose phases interleave with each other, with the operator's
  recovery and reconciliation (\<^verbatim>\<open>send-admin.repo.ts\<close>), with every other program that leaves the attempts
  alone, and with crashes at any point. A database transaction is one step, and so is the call of the
  provider. What a process reads before it reserves may be stale by then, so the row it reserves is
  arbitrary. The ghost list of the world holds the attempts dispatched so far.
\<close>

section \<open>The world\<close>

datatype phase =
    Idle
  | Reserved send_input string send_attempt
  | Started send_input string send_attempt int
  | Called send_input string send_attempt int send_response

record world =
  w_db :: send_db
  w_phase :: "nat \<Rightarrow> phase"
  w_calls :: "string list"

definition enter :: "nat \<Rightarrow> phase \<Rightarrow> send_db \<Rightarrow> world \<Rightarrow> world" where
  "enter p ph s w = w\<lparr>w_db := s, w_phase := (w_phase w)(p := ph)\<rparr>"

inductive send_step :: "world \<Rightarrow> world \<Rightarrow> bool" where
  Reserve: "w_phase w p = Idle \<Longrightarrow> sa_status row = AT_RESERVED \<Longrightarrow> sa_reconciledOutcome row = None \<Longrightarrow>
    reserveAttempt ex row cap (w_db w) = (Inr RESERVED_OK, s) \<Longrightarrow>
    send_step w (enter p (Reserved i run row) s w)"
| Start: "w_phase w p = Reserved i run row \<Longrightarrow> start_call (sa_id row) (w_db w) = (Inr started, s) \<Longrightarrow>
    send_step w (enter p (Started i run row started) s w)"
| Start_throws: "w_phase w p = Reserved i run row \<Longrightarrow> start_call (sa_id row) (w_db w) = (Inl e, s) \<Longrightarrow>
    send_step w (enter p Idle s w)"
| Dispatch: "w_phase w p = Started i run row started \<Longrightarrow> dispatch i (w_db w) = (Inr r, s) \<Longrightarrow>
    send_step w ((enter p (Called i run row started r) s w)\<lparr>w_calls := w_calls w @ [sa_id row]\<rparr>)"
| Finish: "w_phase w p = Called i run row started r \<Longrightarrow>
    finish_call i run row started r (w_db w) = (x, s) \<Longrightarrow> send_step w (enter p Idle s w)"
| Crash: "send_step w (enter p Idle (w_db w) w)"
| Recover: "store_recoverStarted aid by_whom evidence now (w_db w) = (y, s) \<Longrightarrow>
    send_step w (w\<lparr>w_db := s\<rparr>)"
| Reconcile: "store_reconcile sha256 account policy aid outcome by_whom evidence now (w_db w) = (z, s) \<Longrightarrow>
    send_step w (w\<lparr>w_db := s\<rparr>)"
| Other: "quiet (w_db w) s \<Longrightarrow> send_step w (w\<lparr>w_db := s\<rparr>)"

abbreviation send_steps :: "world \<Rightarrow> world \<Rightarrow> bool" where
  "send_steps \<equiv> send_step\<^sup>*\<^sup>*"

definition fresh_world :: "world \<Rightarrow> bool" where
  "fresh_world w \<longleftrightarrow> t_attempts (w_db w) = [] \<and> w_phase w = (\<lambda>_. Idle) \<and> w_calls w = []"

section \<open>Attempts by identifier\<close>

text \<open>What matters of an attempt: its schedule, its status and how it was reconciled.\<close>

type_synonym attempt_view = "string \<times> attempt_status \<times> reconciliation option"

definition view_of :: "send_attempt \<Rightarrow> attempt_view" where
  "view_of a = (sa_scheduleId a, sa_status a, sa_reconciledOutcome a)"

definition look :: "'a send_db_scheme \<Rightarrow> string \<Rightarrow> attempt_view option" where
  "look s aid = map_option view_of (find (\<lambda>a. sa_id a = aid) (t_attempts s))"

fun blocks :: "attempt_view \<Rightarrow> bool" where
  "blocks (sc, st, r) \<longleftrightarrow> st \<in> {AT_RESERVED, AT_CALL_STARTED, AT_SENT_CONFIRMED}
     \<or> st = AT_OUTCOME_UNKNOWN \<and> r \<noteq> Some CONFIRMED_NOT_SENT"

text \<open>The provider refused the call for certain, or an operator found that nothing was sent.\<close>

fun resolved :: "attempt_view \<Rightarrow> bool" where
  "resolved (sc, st, r) \<longleftrightarrow> st = AT_DEFINITIVE_FAILURE \<or> r = Some CONFIRMED_NOT_SENT"

lemma blocking_view: "blocking_attempt a = blocks (view_of a)"
  by (auto simp: blocking_attempt_def view_of_def)

lemma look_cong: "t_attempts s' = t_attempts s \<Longrightarrow> look s' = look s"
  by (rule ext) (simp add: look_def)

lemma look_quiet: "quiet s s' \<Longrightarrow> look s' = look s"
  by (rule look_cong) (simp add: quiet_def)

lemma view_patch: "ap_status p = Some st \<Longrightarrow> view_of (patch_attempt p a) = (sa_scheduleId a, st, sa_reconciledOutcome a)"
  by (simp add: view_of_def patch_attempt_def patched_def)

lemma look_patch:
  assumes "patches_attempt aid st s s'"
  shows "look s' = (\<lambda>x. if x = aid then map_option (\<lambda>(sc, _, r). (sc, st, r)) (look s x) else look s x)"
proof -
  obtain p where p: "ap_status p = Some st"
    and rows: "t_attempts s' = update_where (\<lambda>a. sa_id a = aid) (patch_attempt p) (t_attempts s)"
    using assms by (auto simp: patches_attempt_def)
  have "find (\<lambda>a. sa_id a = x) (t_attempts s') =
      map_option (\<lambda>a. if sa_id a = aid then patch_attempt p a else a) (find (\<lambda>a. sa_id a = x) (t_attempts s))" for x
    unfolding rows by (rule find_update_where_keep) (simp add: patch_attempt_def)
  then have "look s' x = (if x = aid then map_option (\<lambda>(sc, _, r). (sc, st, r)) (look s x) else look s x)" for x
    using p by (cases "find (\<lambda>a. sa_id a = x) (t_attempts s)")
      (auto simp: look_def view_of_def patch_attempt_def patched_def dest: find_SomeD)
  then show ?thesis by blast
qed

lemma look_reserve:
  assumes "reserves row s s'"
  shows "look s (sa_id row) = None" and "look s' = (look s)(sa_id row \<mapsto> view_of row)"
proof -
  have "sa_id row \<notin> sa_id ` set (t_attempts s)" and rows: "t_attempts s' = t_attempts s @ [row]"
    using assms by (auto simp: reserves_def attempts_violation_def split: if_splits)
  then have none: "find (\<lambda>a. sa_id a = sa_id row) (t_attempts s) = None"
    by (auto simp: find_None_iff) (metis imageI)
  then show "look s (sa_id row) = None"
    by (simp add: look_def)
  show "look s' = (look s)(sa_id row \<mapsto> view_of row)"
    using none by (intro ext) (auto simp: look_def rows find_append split: option.splits)
qed

text \<open>The blocking index: of the attempts of a schedule at most one blocks.\<close>

lemma distinct_map_inj: "distinct (map f xs) \<Longrightarrow> x \<in> set xs \<Longrightarrow> y \<in> set xs \<Longrightarrow> f x = f y \<Longrightarrow> x = y"
  by (simp add: distinct_map inj_on_def)

lemma look_SomeE:
  assumes "look s x = Some v"
  obtains a where "a \<in> set (t_attempts s)" "sa_id a = x" "view_of a = v"
  using assms by (auto simp: look_def dest: find_SomeD)

lemma one_blocks:
  assumes "attempts_violation (t_attempts s) = None"
    and "look s x = Some v" "look s y = Some u" "blocks v" "blocks u" "fst v = fst u"
  shows "x = y"
proof -
  obtain a where a: "a \<in> set (t_attempts s)" "sa_id a = x" "view_of a = v"
    by (rule look_SomeE [OF assms(2)])
  obtain b where b: "b \<in> set (t_attempts s)" "sa_id b = y" "view_of b = u"
    by (rule look_SomeE [OF assms(3)])
  have "distinct (map sa_scheduleId (filter blocking_attempt (t_attempts s)))"
    using assms(1) by (auto simp: attempts_violation_def split: if_splits)
  then have "a = b"
  proof (rule distinct_map_inj)
    show "a \<in> set (filter blocking_attempt (t_attempts s))" "b \<in> set (filter blocking_attempt (t_attempts s))"
      using a b assms(4,5) by (simp_all add: blocking_view)
    show "sa_scheduleId a = sa_scheduleId b"
      using a(3) b(3) assms(6) by (auto simp: view_of_def)
  qed
  then show ?thesis using a b by simp
qed

section \<open>The operator's steps\<close>

lemma tx_cases:
  assumes "lead_tx p s = (x, s')"
  obtains (aborted) e where "x = Inl e" "quiet s s'" | (committed) y where "x = Inr y" "p s = (Inr y, s')"
  using assms by (cases x) (auto simp: transaction_Inl transaction_Inr quiet_def rollback_def)

lemma update_attempts_Inr:
  assumes "update_attempts P f s = (Inr u, s')"
  shows "t_attempts s' = update_where P f (t_attempts s)" "attempts_violation (t_attempts s') = None"
    "gm_sent s' = gm_sent s"
  using assms by (auto simp: update_attempts_def Let_def split: option.splits)

lemma quiet_set_status [quiet_parts]: "keeps quiet (set_status_from lid src dst now)"
  unfolding set_status_from_def by (rule quiet.keeps_write) (simp add: quiet_def)

definition legal_table :: "'a send_db_scheme \<Rightarrow> bool" where
  "legal_table s \<longleftrightarrow> attempts_violation (t_attempts s) = None"

lemma legal_quiet: "quiet s s' \<Longrightarrow> legal_table s' = legal_table s"
  by (simp add: legal_table_def quiet_def)

lemma recover_effect:
  assumes "store_recoverStarted aid by_whom evidence now s = (y, s')"
  shows "quiet s s' \<or> legal_table s' \<and> gm_sent s' = gm_sent s \<and> (\<exists>sc r. look s aid = Some (sc, AT_CALL_STARTED, r)
    \<and> look s' = (look s)(aid \<mapsto> (sc, AT_OUTCOME_UNKNOWN, r)))"
  using assms unfolding store_recoverStarted_def
proof (cases rule: tx_cases)
  case (committed b)
  show ?thesis
  proof (cases "attempt_of s aid")
    case None
    then show ?thesis using committed by (simp add: quiet_def)
  next
    case (Some a)
    show ?thesis
    proof (cases "sa_status a = AT_CALL_STARTED")
      case False
      then show ?thesis using committed Some by (simp add: quiet_def)
    next
      case True
      obtain u s1 where u: "update_attempts (\<lambda>q. sa_id q = aid \<and> sa_status q = AT_CALL_STARTED)
          (\<lambda>q. q\<lparr>sa_status := AT_OUTCOME_UNKNOWN, sa_errorClass := Some ''crash_after_call_started'',
             sa_completedAt := Some now\<rparr>) s = (Inr u, s1)" and q: "quiet s1 s'"
        using committed(2) Some True
        by (auto simp: prog_simps Let_def quiet_def when_p_def
            dest!: keepsD [OF quiet_set_status] keepsD [OF quiet_record_event] split: if_splits)
      note u1 = update_attempts_Inr [OF u]
      have "find (\<lambda>q. sa_id q = x) (t_attempts s1) = map_option
          (\<lambda>q. if sa_id q = aid \<and> sa_status q = AT_CALL_STARTED
             then q\<lparr>sa_status := AT_OUTCOME_UNKNOWN, sa_errorClass := Some ''crash_after_call_started'',
                sa_completedAt := Some now\<rparr> else q) (find (\<lambda>q. sa_id q = x) (t_attempts s))" for x
        unfolding u1 by (rule find_update_where_keep) simp
      then have "look s1 x = (if x = aid then Some (sa_scheduleId a, AT_OUTCOME_UNKNOWN, sa_reconciledOutcome a)
          else look s x)" for x
        using Some True by (cases "find (\<lambda>q. sa_id q = x) (t_attempts s)")
          (auto simp: look_def attempt_of_def view_of_def dest: find_SomeD)
      then have "look s' = (look s)(aid \<mapsto> (sa_scheduleId a, AT_OUTCOME_UNKNOWN, sa_reconciledOutcome a))"
        using look_quiet [OF q] by auto
      moreover have "look s aid = Some (sa_scheduleId a, AT_CALL_STARTED, sa_reconciledOutcome a)"
        using Some True by (simp add: look_def attempt_of_def view_of_def)
      ultimately show ?thesis
        using u1(2,3) legal_quiet [OF q] q by (auto simp: legal_table_def quiet_def)
    qed
  qed
qed simp

lemma reconcile_effect:
  assumes "store_reconcile sha256 account policy aid outcome by_whom evidence now s = (z, s')"
  shows "quiet s s' \<or> legal_table s' \<and> gm_sent s' = gm_sent s \<and> (\<exists>sc. look s aid = Some (sc, AT_OUTCOME_UNKNOWN, None)
    \<and> look s' = (look s)(aid \<mapsto> (sc, AT_OUTCOME_UNKNOWN, Some outcome)))"
  using assms unfolding store_reconcile_def
proof (cases rule: tx_cases)
  case (committed b)
  obtain a where a: "attempt_of s aid = Some a" and ok: "reconcile_problem sha256 account policy s a = None"
    and w: "reconcile_writes a outcome by_whom evidence now s = (Inr b, s')"
    using committed(2) by (auto simp: prog_simps split: option.splits)
  have st: "sa_status a = AT_OUTCOME_UNKNOWN" "sa_reconciledOutcome a = None" "sa_id a = aid"
    using ok a by (auto simp: reconcile_problem_def attempt_of_def find_Some_iff split: if_splits)
  obtain u s1 where u: "update_attempts (\<lambda>q. sa_id q = sa_id a) (\<lambda>q. q\<lparr>sa_reconciledOutcome := Some outcome,
      sa_reconciledBy := Some by_whom, sa_reconciledAt := Some now, sa_reconciliationNote := Some evidence\<rparr>) s
      = (Inr u, s1)" and q: "quiet s1 s'"
    using w unfolding reconcile_writes_def Let_def
    by (auto simp: prog_simps when_p_def dest!: keepsD [OF quiet_set_status] keepsD [OF quiet_record_event]
        keepsD [OF quiet_markFulfilled] intro: quiet.trans split: if_splits)
  note u1 = update_attempts_Inr [OF u]
  have "find (\<lambda>q. sa_id q = x) (t_attempts s1) = map_option
      (\<lambda>q. if sa_id q = sa_id a then q\<lparr>sa_reconciledOutcome := Some outcome, sa_reconciledBy := Some by_whom,
         sa_reconciledAt := Some now, sa_reconciliationNote := Some evidence\<rparr> else q)
      (find (\<lambda>q. sa_id q = x) (t_attempts s))" for x
    unfolding u1 by (rule find_update_where_keep) simp
  then have "look s1 x = (if x = aid then Some (sa_scheduleId a, AT_OUTCOME_UNKNOWN, Some outcome) else look s x)" for x
    using a st by (cases "find (\<lambda>q. sa_id q = x) (t_attempts s)")
      (auto simp: look_def attempt_of_def view_of_def dest: find_SomeD)
  then have "look s' = (look s)(aid \<mapsto> (sa_scheduleId a, AT_OUTCOME_UNKNOWN, Some outcome))"
    using look_quiet [OF q] by auto
  moreover have "look s aid = Some (sa_scheduleId a, AT_OUTCOME_UNKNOWN, None)"
    using a st by (simp add: look_def attempt_of_def view_of_def)
  ultimately show ?thesis
    using u1(2,3) legal_quiet [OF q] q by (auto simp: legal_table_def quiet_def)
qed simp

section \<open>The invariant\<close>

fun owner :: "phase \<Rightarrow> string option" where
  "owner Idle = None"
| "owner (Reserved i run row) = Some (sa_id row)"
| "owner (Started i run row started) = Some (sa_id row)"
| "owner (Called i run row started r) = Some (sa_id row)"

text \<open>What the table and the calls say about the attempt a process works on.\<close>

fun phase_ok :: "(string \<Rightarrow> attempt_view option) \<Rightarrow> string list \<Rightarrow> phase \<Rightarrow> bool" where
  "phase_ok L calls Idle \<longleftrightarrow> True"
| "phase_ok L calls (Reserved i run row) \<longleftrightarrow>
     sa_id row \<notin> set calls \<and> (\<exists>sc. L (sa_id row) = Some (sc, AT_RESERVED, None))"
| "phase_ok L calls (Started i run row started) \<longleftrightarrow>
     sa_id row \<notin> set calls \<and> (\<exists>sc st r. L (sa_id row) = Some (sc, st, r) \<and> st \<in> {AT_CALL_STARTED, AT_OUTCOME_UNKNOWN})"
| "phase_ok L calls (Called i run row started r) \<longleftrightarrow>
     sa_id row \<in> set calls \<and> (\<exists>sc st r. L (sa_id row) = Some (sc, st, r) \<and> st \<in> {AT_CALL_STARTED, AT_OUTCOME_UNKNOWN})"

definition called_ok :: "(string \<Rightarrow> attempt_view option) \<Rightarrow> string list \<Rightarrow> bool" where
  "called_ok L calls \<longleftrightarrow> distinct calls \<and> (\<forall>x \<in> set calls. \<exists>sc st r. L x = Some (sc, st, r)
     \<and> st \<in> {AT_CALL_STARTED, AT_SENT_CONFIRMED, AT_DEFINITIVE_FAILURE, AT_OUTCOME_UNKNOWN})"

definition separate :: "(nat \<Rightarrow> phase) \<Rightarrow> bool" where
  "separate ph \<longleftrightarrow> (\<forall>p q x. owner (ph p) = Some x \<longrightarrow> owner (ph q) = Some x \<longrightarrow> p = q)"

definition send_inv :: "world \<Rightarrow> bool" where
  "send_inv w \<longleftrightarrow> legal_table (w_db w) \<and> called_ok (look (w_db w)) (w_calls w) \<and> separate (w_phase w)
     \<and> (\<forall>p. phase_ok (look (w_db w)) (w_calls w) (w_phase w p))"

lemma enter_sel [simp]:
  "w_db (enter p ph s w) = s" "w_calls (enter p ph s w) = w_calls w"
  "w_phase (enter p ph s w) = (w_phase w)(p := ph)"
  by (simp_all add: enter_def)

lemma separate_upd:
  "separate ph \<Longrightarrow> (\<And>q x. owner new = Some x \<Longrightarrow> q \<noteq> p \<Longrightarrow> owner (ph q) \<noteq> Some x) \<Longrightarrow> separate (ph(p := new))"
  unfolding separate_def by (auto split: if_splits)

text \<open>A process's own attempt is touched by no other process.\<close>

lemma phase_ok_other:
  "phase_ok L calls ph \<Longrightarrow> owner ph \<noteq> Some x \<Longrightarrow> phase_ok (L(x := v)) calls ph"
  "phase_ok L calls ph \<Longrightarrow> owner ph \<noteq> Some x \<Longrightarrow> phase_ok L (calls @ [x]) ph"
  by (cases ph; auto)+

lemma phase_ok_owner: "phase_ok L calls ph \<Longrightarrow> owner ph = Some x \<Longrightarrow> L x \<noteq> None"
  by (cases ph) auto

lemma look_patch_upd:
  assumes "patches_attempt aid st s s'" and "look s aid = Some (sc, st0, r)"
  shows "look s' = (look s)(aid \<mapsto> (sc, st, r))"
  using assms(2) by (intro ext) (simp add: look_patch [OF assms(1)])

lemma phase_ok_calls:
  "phase_ok L calls ph \<Longrightarrow> set calls \<subseteq> set calls' \<Longrightarrow> set calls' \<subseteq> insert x (set calls) \<Longrightarrow>
   owner ph \<noteq> Some x \<Longrightarrow> phase_ok L calls' ph"
  by (cases ph) auto

text \<open>A process that changes its own attempt \<open>x\<close> and goes on.\<close>

lemma own_step:
  assumes inv: "send_inv w" and own: "\<And>q. q \<noteq> p \<Longrightarrow> owner (w_phase w q) \<noteq> Some x"
    and L: "look s = (look (w_db w))(x := v)" and "legal_table s"
    and new: "phase_ok (look s) calls' new" "owner new = None \<or> owner new = Some x"
    and calls: "called_ok (look s) calls'" "set (w_calls w) \<subseteq> set calls'" "set calls' \<subseteq> insert x (set (w_calls w))"
  shows "send_inv ((enter p new s w)\<lparr>w_calls := calls'\<rparr>)"
proof -
  have ok: "phase_ok (look s) calls' (w_phase w q)" if "q \<noteq> p" for q
  proof -
    have "phase_ok (look s) (w_calls w) (w_phase w q)"
      unfolding L using inv own [OF that] by (intro phase_ok_other(1)) (auto simp: send_inv_def)
    then show ?thesis
      by (rule phase_ok_calls [OF _ calls(2,3) own [OF that]])
  qed
  have "separate ((w_phase w)(p := new))"
    using inv new(2) own by (intro separate_upd) (auto simp: send_inv_def)
  then show ?thesis
    using assms(4) new(1) calls(1) ok by (simp add: send_inv_def)
qed

lemma idle_step:
  assumes "send_inv w" and "quiet (w_db w) s"
  shows "send_inv (enter p Idle s w)"
  using assms separate_upd [of "w_phase w" Idle p]
  by (auto simp: send_inv_def look_quiet [OF assms(2)] legal_quiet [OF assms(2)])

lemma uncertain_step:
  assumes inv: "send_inv w" and "legal_table s" and L: "look s = (look (w_db w))(x \<mapsto> (sc, AT_OUTCOME_UNKNOWN, r))"
    and st: "look (w_db w) x = Some (sc, st0, r0)" "st0 = AT_CALL_STARTED \<or> st0 = AT_OUTCOME_UNKNOWN"
  shows "send_inv (w\<lparr>w_db := s\<rparr>)"
proof -
  have "phase_ok (look s) (w_calls w) ph" if "phase_ok (look (w_db w)) (w_calls w) ph" for ph
    using that st by (cases ph) (auto simp: L)
  moreover have "called_ok (look s) (w_calls w)"
    using inv by (auto simp: L send_inv_def called_ok_def)
  ultimately show ?thesis
    using inv assms(2) by (simp add: send_inv_def)
qed

lemma quiet_step: "send_inv w \<Longrightarrow> quiet (w_db w) s \<Longrightarrow> send_inv (w\<lparr>w_db := s\<rparr>)"
  by (simp add: send_inv_def look_quiet legal_quiet)

lemma called_ok_upd:
  "called_ok L calls \<Longrightarrow> x \<notin> set calls \<Longrightarrow> called_ok (L(x := v)) calls"
  "called_ok L calls \<Longrightarrow> st \<in> {AT_CALL_STARTED, AT_SENT_CONFIRMED, AT_DEFINITIVE_FAILURE, AT_OUTCOME_UNKNOWN} \<Longrightarrow>
   called_ok (L(x \<mapsto> (sc, st, r))) calls"
  "called_ok L calls \<Longrightarrow> x \<notin> set calls \<Longrightarrow> L x = Some (sc, st, r) \<Longrightarrow>
   st \<in> {AT_CALL_STARTED, AT_OUTCOME_UNKNOWN} \<Longrightarrow> called_ok L (calls @ [x])"
  by (auto simp: called_ok_def)

lemma owner_alone:
  "send_inv w \<Longrightarrow> owner (w_phase w p) = Some x \<Longrightarrow> q \<noteq> p \<Longrightarrow> owner (w_phase w q) \<noteq> Some x"
  by (auto simp: send_inv_def separate_def)

lemma patches_legal: "patches_attempt aid st s s' \<Longrightarrow> legal_table s'"
  by (simp add: patches_attempt_def legal_table_def)

lemma send_inv_step: "send_step w w' \<Longrightarrow> send_inv w \<Longrightarrow> send_inv w'"
proof (induction rule: send_step.induct)
  case (Reserve w p row ex cap s i run)
  have r: "reserves row (w_db w) s"
    using reserveAttempt_effect [OF Reserve(4)] by simp
  note L = look_reserve [OF r]
  have free: "owner (w_phase w q) \<noteq> Some (sa_id row)" for q
    using Reserve(5) L(1) phase_ok_owner by (fastforce simp: send_inv_def)
  have new: "sa_id row \<notin> set (w_calls w)"
    using Reserve(5) L(1) by (force simp: send_inv_def called_ok_def)
  have "send_inv ((enter p (Reserved i run row) s w)\<lparr>w_calls := w_calls w\<rparr>)"
    by (rule own_step [OF Reserve(5) free L(2)])
       (use Reserve r new L(2) called_ok_upd(1) in
         \<open>auto simp: legal_table_def reserves_def view_of_def send_inv_def\<close>)
  then show ?case by (simp add: enter_def)
next
  case (Start w p i run row started s)
  have pa: "patches_attempt (sa_id row) AT_CALL_STARTED (w_db w) s"
    using start_call_effect [OF Start(2)] by auto
  obtain sc where l: "look (w_db w) (sa_id row) = Some (sc, AT_RESERVED, None)" "sa_id row \<notin> set (w_calls w)"
    using Start(1,3) unfolding send_inv_def by (metis phase_ok.simps(2))
  note L = look_patch_upd [OF pa l(1)]
  have "send_inv ((enter p (Started i run row started) s w)\<lparr>w_calls := w_calls w\<rparr>)"
    using Start(1,3) patches_legal [OF pa] l(2)
    by (intro own_step [OF Start(3) owner_alone [OF Start(3)] L])
       (auto simp: L send_inv_def called_ok_upd(1))
  then show ?case by (simp add: enter_def)
next
  case (Start_throws w p i run row e s)
  then have "quiet (w_db w) s"
    using start_call_effect [OF Start_throws(2)] by auto
  then show ?case using Start_throws(3) by (rule idle_step [rotated])
next
  case (Dispatch w p i run row started r s)
  obtain sc st rc where l: "look (w_db w) (sa_id row) = Some (sc, st, rc)" "sa_id row \<notin> set (w_calls w)"
    "st \<in> {AT_CALL_STARTED, AT_OUTCOME_UNKNOWN}"
    using Dispatch(1,3) unfolding send_inv_def by (metis phase_ok.simps(3))
  have t: "t_attempts s = t_attempts (w_db w)"
    by (rule dispatch_effect(2) [OF Dispatch(2)])
  have same: "look s = look (w_db w)" by (rule look_cong [OF t])
  then have L: "look s = (look (w_db w))(sa_id row := look (w_db w) (sa_id row))" by simp
  have "called_ok (look s) (w_calls w @ [sa_id row])"
    unfolding same using Dispatch(3) l by (auto simp: send_inv_def intro: called_ok_upd(3))
  moreover have "phase_ok (look s) (w_calls w @ [sa_id row]) (Called i run row started r)"
    using l by (auto simp: same)
  moreover have "legal_table s"
    using Dispatch(3) t by (simp add: send_inv_def legal_table_def)
  ultimately show ?case
    using Dispatch(1) by (intro own_step [OF Dispatch(3) owner_alone [OF Dispatch(3)] L]) auto
next
  case (Finish w p i run row started r x s)
  obtain sc st rc where l: "look (w_db w) (sa_id row) = Some (sc, st, rc)"
    using Finish(1,3) unfolding send_inv_def by (metis phase_ok.simps(4))
  show ?case
  proof (cases x)
    case (Inl e)
    then show ?thesis
      using finish_call_effect [OF Finish(2)] Finish(3) by (auto simp: finishes_def intro: idle_step)
  next
    case (Inr out)
    then have pa: "patches_attempt (sa_id row) (final_status r) (w_db w) s"
      using finish_call_effect [OF Finish(2)] by (simp add: finishes_def)
    note L = look_patch_upd [OF pa l]
    have "send_inv ((enter p Idle s w)\<lparr>w_calls := w_calls w\<rparr>)"
      using Finish(1,3) patches_legal [OF pa]
      by (intro own_step [OF Finish(3) owner_alone [OF Finish(3)] L])
         (auto simp: L send_inv_def final_status_def intro!: called_ok_upd(2))
    then show ?thesis by (simp add: enter_def)
  qed
next
  case (Crash w p)
  then show ?case by (rule idle_step) (simp add: quiet_def)
next
  case (Recover aid by_whom evidence now w y s)
  then show ?case
    using recover_effect [OF Recover(1)] by (auto intro: uncertain_step quiet_step)
next
  case (Reconcile sha256 account policy aid outcome by_whom evidence now w z s)
  then show ?case
    using reconcile_effect [OF Reconcile(1)] by (auto intro: uncertain_step quiet_step)
next
  case (Other w s)
  then show ?case by (intro quiet_step)
qed

lemma send_inv_steps: "send_steps w w' \<Longrightarrow> send_inv w \<Longrightarrow> send_inv w'"
  by (induction rule: rtranclp_induct) (auto intro: send_inv_step)

lemma send_inv_fresh: "fresh_world w \<Longrightarrow> send_inv w"
  by (auto simp: fresh_world_def send_inv_def legal_table_def attempts_violation_def called_ok_def
      separate_def map_filter_simps)

text \<open>The ghost list counts the calls of the provider.\<close>

lemma calls_counted:
  "send_step w w' \<Longrightarrow>
   length (gm_sent (w_db w')) + length (w_calls w) = length (gm_sent (w_db w)) + length (w_calls w')"
proof (induction rule: send_step.induct)
  case (Reserve w p row ex cap s i run)
  then show ?case using reserveAttempt_effect [OF Reserve(4)] by (auto simp: reserves_def)
next
  case (Start w p i run row started s)
  then show ?case using start_call_effect [OF Start(2)] by (auto simp: patches_attempt_def)
next
  case (Start_throws w p i run row e s)
  then show ?case using start_call_effect [OF Start_throws(2)] by (auto simp: quiet_def)
next
  case (Dispatch w p i run row started r s)
  then show ?case using dispatch_effect(3) [OF Dispatch(2)] by simp
next
  case (Finish w p i run row started r x s)
  then show ?case
    using finish_call_effect [OF Finish(2)] by (auto simp: finishes_def quiet_def patches_attempt_def split: sum.splits)
next
  case (Recover aid by_whom evidence now w y s)
  then show ?case using recover_effect [OF Recover(1)] by (auto simp: quiet_def)
next
  case (Reconcile sha256 account policy aid outcome by_whom evidence now w z s)
  then show ?case using reconcile_effect [OF Reconcile(1)] by (auto simp: quiet_def)
qed (simp_all add: quiet_def)

lemma calls_counted_steps:
  "send_steps w w' \<Longrightarrow>
   length (gm_sent (w_db w')) + length (w_calls w) = length (gm_sent (w_db w)) + length (w_calls w')"
  by (induction rule: rtranclp_induct) (auto dest: calls_counted)

text \<open>C3: However many processes send at once, whatever they read before, wherever they crash, and whatever
  operators recover or reconcile meanwhile: no attempt is dispatched twice, and of two dispatched attempts
  of the same schedule one was definitely refused by the provider or found not sent by an operator. The calls
  counted are all the calls the provider received.\<close>

theorem dispatch_at_most_once:
  assumes "fresh_world w0" and "send_steps w0 w"
  shows "length (gm_sent (w_db w)) = length (gm_sent (w_db w0)) + length (w_calls w)
    \<and> distinct (w_calls w) \<and> (\<forall>x \<in> set (w_calls w). \<forall>y \<in> set (w_calls w). x \<noteq> y \<longrightarrow>
    (\<exists>v u. look (w_db w) x = Some v \<and> look (w_db w) y = Some u
       \<and> (fst v = fst u \<longrightarrow> resolved v \<or> resolved u)))"
proof -
  have inv: "send_inv w"
    using send_inv_steps [OF assms(2) send_inv_fresh [OF assms(1)]] .
  have view: "\<exists>v. look (w_db w) x = Some v \<and> (blocks v \<or> resolved v)" if "x \<in> set (w_calls w)" for x
    using inv that by (fastforce simp: send_inv_def called_ok_def)
  have "\<exists>v u. look (w_db w) x = Some v \<and> look (w_db w) y = Some u \<and> (fst v = fst u \<longrightarrow> resolved v \<or> resolved u)"
    if "x \<in> set (w_calls w)" "y \<in> set (w_calls w)" "x \<noteq> y" for x y
    using view [OF that(1)] view [OF that(2)] one_blocks [of "w_db w" x _ y] inv that(3)
    by (auto simp: send_inv_def legal_table_def)
  moreover have "length (gm_sent (w_db w)) = length (gm_sent (w_db w0)) + length (w_calls w)"
    using calls_counted_steps [OF assms(2)] assms(1) by (simp add: fresh_world_def)
  ultimately show ?thesis
    using inv by (auto simp: send_inv_def called_ok_def)
qed

section \<open>A reservation left behind\<close>

text \<open>A reserved attempt no process works on: what a crash between the reservation and the call leaves.\<close>

definition abandoned :: "world \<Rightarrow> string \<Rightarrow> string \<Rightarrow> bool" where
  "abandoned w x sid \<longleftrightarrow> look (w_db w) x = Some (sid, AT_RESERVED, None)
     \<and> (\<forall>p. owner (w_phase w p) \<noteq> Some x)"

lemma abandoned_enter:
  assumes "abandoned w x sid" and "look s x = look (w_db w) x" and "owner ph \<noteq> Some x"
  shows "abandoned (enter p ph s w) x sid" "abandoned ((enter p ph s w)\<lparr>w_calls := cs\<rparr>) x sid"
  using assms by (auto simp: abandoned_def)

lemma abandoned_step: "send_step w w' \<Longrightarrow> abandoned w x sid \<Longrightarrow> abandoned w' x sid"
proof (induction rule: send_step.induct)
  case (Reserve w p row ex cap s i run)
  note L = look_reserve [of row "w_db w" s]
  have "reserves row (w_db w) s"
    using reserveAttempt_effect [OF Reserve(4)] by simp
  then have "sa_id row \<noteq> x" "look s x = look (w_db w) x"
    using L Reserve(5) by (auto simp: abandoned_def)
  then show ?case using Reserve(5) by (intro abandoned_enter) auto
next
  case (Start w p i run row started s)
  then have "patches_attempt (sa_id row) AT_CALL_STARTED (w_db w) s" "sa_id row \<noteq> x"
    using start_call_effect [OF Start(2)] by (auto simp: abandoned_def dest: spec [of _ p])
  then show ?case using Start(3) by (intro abandoned_enter) (auto simp: look_patch)
next
  case (Start_throws w p i run row e s)
  then show ?case
    using start_call_effect [OF Start_throws(2)] by (intro abandoned_enter) (auto simp: look_quiet)
next
  case (Dispatch w p i run row started r s)
  then have "sa_id row \<noteq> x" by (auto simp: abandoned_def dest: spec [of _ p])
  then show ?case
    using Dispatch(3) look_cong [OF dispatch_effect(2) [OF Dispatch(2)]] by (intro abandoned_enter) auto
next
  case (Finish w p i run row started r y s)
  then have "sa_id row \<noteq> x" by (auto simp: abandoned_def dest: spec [of _ p])
  then have "look s x = look (w_db w) x"
    using finish_call_effect [OF Finish(2)]
    by (auto simp: finishes_def look_quiet look_patch split: sum.splits)
  then show ?case using Finish(3) by (intro abandoned_enter) auto
next
  case (Crash w p)
  then show ?case by (intro abandoned_enter) auto
next
  case (Recover aid by_whom evidence now w y s)
  then show ?case
    using recover_effect [OF Recover(1)] by (auto simp: abandoned_def look_quiet)
next
  case (Reconcile sha256 account policy aid outcome by_whom evidence now w z s)
  then show ?case
    using reconcile_effect [OF Reconcile(1)] by (auto simp: abandoned_def look_quiet)
next
  case (Other w s)
  then show ?case by (auto simp: abandoned_def look_quiet)
qed

lemma abandoned_steps: "send_steps w w' \<Longrightarrow> abandoned w x sid \<Longrightarrow> abandoned w' x sid"
  by (induction rule: rtranclp_induct) (auto intro: abandoned_step)

text \<open>C6: A reservation whose process died before the call stays reserved for ever, whatever happens later:
  neither recovery nor reconciliation touches it, and no attempt can be reserved for its schedule again.\<close>

theorem abandoned_reservation_blocks:
  assumes "abandoned w x sid" and "send_steps w w'"
    and "sa_scheduleId row = sid" and "sa_status row = AT_RESERVED"
  shows "abandoned w' x sid \<and> fst (reserveAttempt ex row cap (w_db w')) \<noteq> Inr RESERVED_OK"
proof
  show ab: "abandoned w' x sid"
    by (rule abandoned_steps [OF assms(2,1)])
  show "fst (reserveAttempt ex row cap (w_db w')) \<noteq> Inr RESERVED_OK"
  proof
    assume "fst (reserveAttempt ex row cap (w_db w')) = Inr RESERVED_OK"
    then obtain s where r: "reserves row (w_db w') s"
      using reserveAttempt_effect [of ex row cap "w_db w'"] by (metis prod.collapse)
    note L = look_reserve [OF r]
    have "look s x = Some (sid, AT_RESERVED, None)" "sa_id row \<noteq> x"
      using ab L by (auto simp: abandoned_def)
    moreover have "attempts_violation (t_attempts s) = None"
      using r by (simp add: reserves_def)
    ultimately show False
      using one_blocks [of s x "(sid, AT_RESERVED, None)" "sa_id row" "view_of row"] L(2) assms(3,4)
      by (simp add: view_of_def)
  qed
qed

section \<open>A send is a path of steps\<close>

lemma one_step: "send_steps w v \<Longrightarrow> send_step v u \<Longrightarrow> send_steps w u"
  by (rule rtranclp.rtrancl_into_rtrancl)

text \<open>The part of a send after its preparation, run by process \<open>p\<close>.\<close>

lemma reserved_path:
  assumes idle: "w_phase w p = Idle" and row: "reserved_for cf i row"
    and res: "reserveAttempt ex row cap (w_db w) = (Inr RESERVED_OK, s2)"
    and run: "bind_p (start_call (sa_id row)) (\<lambda>started. bind_p (dispatch i) (finish_call i run row started)) s2 = (r, s')"
  shows "\<exists>calls. send_steps w (w\<lparr>w_db := s', w_calls := w_calls w @ calls\<rparr>)"
proof -
  let ?w2 = "enter p (Reserved i run row) s2 w"
  have w2: "send_steps w ?w2"
    using send_step.Reserve [OF idle _ _ res] row by (auto simp: reserved_for_def)
  obtain c s3 where st: "start_call (sa_id row) s2 = (c, s3)" by fastforce
  show ?thesis
  proof (cases c)
    case (Inl e)
    then have "send_step ?w2 (enter p Idle s3 ?w2)"
      using st by (intro send_step.Start_throws [where i = i and run = run and row = row and e = e]) auto
    then have "send_steps w (enter p Idle s3 ?w2)"
      by (rule one_step [OF w2])
    moreover have "enter p Idle s3 ?w2 = w\<lparr>w_db := s', w_calls := w_calls w @ []\<rparr>"
      using run st Inl idle by (simp add: enter_def fun_upd_idem)
    ultimately show ?thesis by metis
  next
    case (Inr started)
    let ?w3 = "enter p (Started i run row started) s3 ?w2"
    have w3: "send_steps w ?w3"
      using st Inr by (intro one_step [OF w2] send_step.Start) auto
    obtain d s4 where dp: "dispatch i s3 = (d, s4)" by fastforce
    have d: "d = Inr (gm_send s3 (gm_calls s3))" (is "_ = Inr ?resp")
      by (rule dispatch_effect(1) [OF dp])
    let ?w4 = "(enter p (Called i run row started ?resp) s4 ?w3)\<lparr>w_calls := w_calls ?w3 @ [sa_id row]\<rparr>"
    have w4: "send_steps w ?w4"
      using dp d by (intro one_step [OF w3] send_step.Dispatch) auto
    have fin: "finish_call i run row started ?resp s4 = (r, s')"
      using run st Inr dp d by simp
    have "send_step ?w4 (enter p Idle s' ?w4)"
      using fin by (intro send_step.Finish [where i = i and run = run and row = row]) auto
    then have "send_steps w (enter p Idle s' ?w4)"
      by (rule one_step [OF w4])
    moreover have "enter p Idle s' ?w4 = w\<lparr>w_db := s', w_calls := w_calls w @ [sa_id row]\<rparr>"
      using idle by (simp add: enter_def fun_upd_idem)
    ultimately show ?thesis by metis
  qed
qed

lemma send_path:
  assumes "w_phase w p = Idle" and "send src sha256 ex cf i run (w_db w) = (r, s')"
  shows "\<exists>calls. send_steps w (w\<lparr>w_db := s', w_calls := w_calls w @ calls\<rparr>)"
proof -
  obtain y s1 where prep: "send_prepare src sha256 cf i (w_db w) = (y, s1)" by fastforce
  have q: "quiet (w_db w) s1"
    by (rule keepsD [OF quiet_prepare prep])
  then have w1: "send_steps w (w\<lparr>w_db := s1\<rparr>)"
    by (intro r_into_rtranclp send_step.Other)
  have stop: "\<exists>calls. send_steps w (w\<lparr>w_db := s', w_calls := w_calls w @ calls\<rparr>)" if "s' = s1"
    using w1 that by (intro exI [of _ "[]"]) simp
  show ?thesis
  proof (cases "\<exists>row. y = Inr (Inr row)")
    case False
    then show ?thesis
      using assms(2) prep stop by (cases y) (auto simp: send_def split: sum.splits)
  next
    case True
    then obtain row where y: "y = Inr (Inr row)" by blast
    obtain v s2 where res: "reserveAttempt ex row (cg_dailyCap cf) s1 = (v, s2)" by fastforce
    show ?thesis
    proof (cases "v = Inr RESERVED_OK")
      case False
      then have "s2 = s1"
        using reserveAttempt_effect [OF res] by blast
      then show ?thesis
        using assms(2) prep y res False stop
        by (cases v) (auto simp: send_def split: reservation.splits)
    next
      case v: True
      have "bind_p (start_call (sa_id row)) (\<lambda>started. bind_p (dispatch i) (finish_call i run row started)) s2 = (r, s')"
        using assms(2) prep y res v by (simp add: send_def)
      then obtain calls where "send_steps (w\<lparr>w_db := s1\<rparr>) (w\<lparr>w_db := s1\<rparr>\<lparr>w_db := s', w_calls := w_calls w @ calls\<rparr>)"
        using reserved_path [of "w\<lparr>w_db := s1\<rparr>" p cf i row ex "cg_dailyCap cf" s2 run r s']
          assms(1) send_prepare_Inr(2) [of src sha256 cf i "w_db w" row s1] prep y res v by auto
      then show ?thesis
        using w1 by (intro exI [of _ calls]) (auto intro: rtranclp_trans)
    qed
  qed
qed

text \<open>C5: The step relation is about the code: a whole send, run by an idle process, is a path of its steps
  that ends in the state the send leaves, and the calls on the path are the calls the provider received.\<close>

theorem send_is_a_path:
  assumes "w_phase w p = Idle" and "send src sha256 ex cf i run (w_db w) = (r, s')"
  shows "\<exists>calls. send_steps w (w\<lparr>w_db := s', w_calls := w_calls w @ calls\<rparr>)
    \<and> length (gm_sent s') = length (gm_sent (w_db w)) + length calls"
proof -
  obtain calls where path: "send_steps w (w\<lparr>w_db := s', w_calls := w_calls w @ calls\<rparr>)"
    using send_path [OF assms] by blast
  then show ?thesis
    using calls_counted_steps [OF path] by auto
qed

section \<open>Examples\<close>

definition demo_answer :: send_response where
  "demo_answer = Response SR_ok (Some (''x'', None)) None"

definition demo_world :: world where
  "demo_world = \<lparr>w_db = demo_send_db demo_answer, w_phase = (\<lambda>_. Idle), w_calls = []\<rparr>"

abbreviation demo_sent :: send_db where
  "demo_sent \<equiv> snd (demo_send demo_answer)"

lemma demo_run:
  "send INTERACTIVE demo_digest True demo_config demo_input ''run'' (w_db demo_world) = (fst (demo_send demo_answer), demo_sent)"
  by (simp add: demo_world_def demo_send_def)

lemma send_is_a_path_witness:
  "\<exists>calls. send_steps demo_world (demo_world\<lparr>w_db := demo_sent, w_calls := w_calls demo_world @ calls\<rparr>)
    \<and> length (gm_sent demo_sent) = length (gm_sent (w_db demo_world)) + length calls"
  by (rule send_is_a_path [OF _ demo_run, of 0]) (simp add: demo_world_def)

lemma demo_path:
  "\<exists>calls. send_steps demo_world (demo_world\<lparr>w_db := demo_sent, w_calls := w_calls demo_world @ calls\<rparr>)"
  by (rule send_path [OF _ demo_run, of 0]) (simp add: demo_world_def)

lemma dispatch_at_most_once_witness:
  "\<exists>w::world. send_steps demo_world w \<and> w_db w = demo_sent \<and> length (w_calls w) = 1 \<and> distinct (w_calls w)"
proof -
  obtain calls where path: "send_steps demo_world (demo_world\<lparr>w_db := demo_sent, w_calls := w_calls demo_world @ calls\<rparr>)"
    (is "send_steps _ ?w") using demo_path by blast
  have "fresh_world demo_world"
    by (simp add: fresh_world_def demo_world_def demo_send_db_def)
  from dispatch_at_most_once [OF this path]
  have "w_db ?w = demo_sent \<and> length (w_calls ?w) = 1 \<and> distinct (w_calls ?w)"
    using demo_send_confirmed by (simp add: demo_world_def demo_send_db_def demo_answer_def)
  then show ?thesis using path by blast
qed

text \<open>A process that reserves an attempt and dies before the call.\<close>

definition demo_row :: "string \<Rightarrow> send_attempt" where
  "demo_row aid = \<lparr>sa_id = aid, sa_leadId = ''l'', sa_scheduleId = ''s'', sa_gmailDraftId = ''d'',
     sa_readinessApprovalId = ''q'', sa_gmailAccount = ''a@b.c'', sa_recipientHash = ''h'',
     sa_finalizedContentHash = ''h'', sa_scheduleIntegrityFingerprint = ''h'', sa_approvedEnvelopeHash = ''h'',
     sa_observedEnvelopeHash = ''h'', sa_sendFingerprint = ''h'', sa_confirmationFingerprint = ''h'',
     sa_confirmedBy = ''o'', sa_confirmedAt = 990, sa_status = AT_RESERVED, sa_providerMessageId = None,
     sa_providerThreadId = None, sa_errorClass = None, sa_reservedAt = 1001, sa_callStartedAt = None,
     sa_completedAt = None, sa_reconciledOutcome = None, sa_reconciledBy = None, sa_reconciledAt = None,
     sa_reconciliationNote = None\<rparr>"

definition crashed_world :: world where
  "crashed_world = enter 0 Idle (snd (reserveAttempt True (demo_row ''a'') 2 (w_db demo_world))) demo_world"

lemma abandoned_reservation_blocks_witness:
  "abandoned crashed_world ''a'' ''s''
    \<and> fst (reserveAttempt True (demo_row ''b'') 2 (w_db crashed_world)) \<noteq> Inr RESERVED_OK"
proof -
  have "abandoned crashed_world ''a'' ''s''"
    by (simp add: abandoned_def crashed_world_def demo_world_def demo_send_db_def demo_row_def look_def view_of_def
        reserveAttempt_def insertAttempt_def attempts_violation_def blocking_attempt_def lead_exists_def demo_readiness_def
        demo_draft_def demo_schedule_def demo_scheduled_lead_def)
  then show ?thesis
    by (rule abandoned_reservation_blocks [OF _ rtranclp.rtrancl_refl]) (simp_all add: demo_row_def)
qed

end
