(* ===== verification/Authorizations.thy ===== *)
theory Authorizations
  imports Send_Admin
begin

text \<open>
  The pre-authorization of automated sending: the decision of
  \<^verbatim>\<open>src/src/domain/send/scheduled-send-authorization.ts\<close>, and the repository of
  \<^verbatim>\<open>src/src/persistence/repositories/scheduled-send.repo.ts\<close> with the indexes and checks of its table,
  the session readiness it mints, and the reads of the automated run that need no outreach table.
\<close>

section \<open>Validity\<close>

definition SCHEDULED_SEND_AUTH_MAX_MS :: int where
  "SCHEDULED_SEND_AUTH_MAX_MS = 14 * 24 * 60 * 60000"

text \<open>\<^verbatim>\<open>normalize\<close>: trimmed and lower-cased.\<close>

definition auth_normalize :: "string \<Rightarrow> string" where
  "auth_normalize v = js_lower (js_trim v)"

datatype auth_invalid_reason =
  AI_revoked | AI_not_started | AI_expired | AI_account_mismatch | AI_policy_mismatch
  | AI_exceeds_max_lifetime | AI_invalid_cap

text \<open>The column \<^verbatim>\<open>max_per_day\<close> holds integers, so the test for an integer is always passed.\<close>

definition authorizationInvalidReasons ::
  "authorization \<Rightarrow> int \<Rightarrow> string \<Rightarrow> string \<Rightarrow> auth_invalid_reason list" where
  "authorizationInvalidReasons a nowMs account policy =
       (if au_revokedAt a \<noteq> None then [AI_revoked] else [])
     @ (if au_startsAt a > nowMs then [AI_not_started] else [])
     @ (if nowMs \<ge> au_expiresAt a then [AI_expired] else [])
     @ (if auth_normalize (au_gmailAccount a) \<noteq> auth_normalize account then [AI_account_mismatch] else [])
     @ (if au_policyVersion a \<noteq> policy then [AI_policy_mismatch] else [])
     @ (if au_expiresAt a - au_startsAt a > SCHEDULED_SEND_AUTH_MAX_MS then [AI_exceeds_max_lifetime] else [])
     @ (if au_maxPerDay a < 1 then [AI_invalid_cap] else [])"

definition isAuthorizationValid :: "authorization \<Rightarrow> int \<Rightarrow> string \<Rightarrow> string \<Rightarrow> bool" where
  "isAuthorizationValid a nowMs account policy \<longleftrightarrow> authorizationInvalidReasons a nowMs account policy = []"

text \<open>A new authorization; \<open>na_maxPerDay\<close> is \<open>None\<close> when the option given is not an integer.\<close>

record new_authorization =
  na_gmailAccount :: string
  na_policyVersion :: string
  na_createdBy :: string
  na_startsAtMs :: int
  na_expiresAtMs :: int
  na_maxPerDay :: "int option"

definition validateNewAuthorization :: "new_authorization \<Rightarrow> string list" where
  "validateNewAuthorization i =
       (if js_trim (na_gmailAccount i) = '''' then [''gmail_account_required''] else [])
     @ (if js_trim (na_policyVersion i) = '''' then [''policy_version_required''] else [])
     @ (if js_trim (na_createdBy i) = '''' then [''created_by_required''] else [])
     @ (if na_expiresAtMs i \<le> na_startsAtMs i then [''expiry_must_be_after_start''] else [])
     @ (if na_expiresAtMs i - na_startsAtMs i > SCHEDULED_SEND_AUTH_MAX_MS then [''lifetime_exceeds_14_days''] else [])
     @ (case na_maxPerDay i of None \<Rightarrow> [''max_per_day_must_be_positive_integer'']
        | Some n \<Rightarrow> if n < 1 then [''max_per_day_must_be_positive_integer''] else [])"

section \<open>The table\<close>

definition authorization_clash :: "authorization \<Rightarrow> authorization \<Rightarrow> bool" where
  "authorization_clash r q \<longleftrightarrow> au_revokedAt r = None \<and> au_revokedAt q = None
     \<and> au_gmailAccount r = au_gmailAccount q \<and> au_policyVersion r = au_policyVersion q"

definition authorization_window :: "authorization \<Rightarrow> bool" where
  "authorization_window r \<longleftrightarrow> au_expiresAt r > au_startsAt r
     \<and> au_expiresAt r \<le> au_startsAt r + 14 * 86400000"

definition insertAuthorization :: "authorization \<Rightarrow> ('a send_db_scheme, unit) prog" where
  "insertAuthorization r s =
     (if au_maxPerDay r < 1 then (Inl (CheckViolation ''scheduled_send_auth_cap_ck''), s)
      else if \<not> authorization_window r then (Inl (CheckViolation ''scheduled_send_auth_window_ck''), s)
      else if list_ex (\<lambda>q. au_id q = au_id r) (t_authorizations s)
      then (Inl (UniqueViolation ''scheduled_send_authorizations_pkey''), s)
      else if list_ex (authorization_clash r) (t_authorizations s)
      then (Inl (UniqueViolation ''scheduled_send_auth_active_uk''), s)
      else (Inr (), s\<lparr>t_authorizations := t_authorizations s @ [r]\<rparr>))"

text \<open>Revoking sets the three columns of the rows a condition selects.\<close>

definition revoke_authorizations ::
  "(authorization \<Rightarrow> bool) \<Rightarrow> int \<Rightarrow> string \<Rightarrow> string \<Rightarrow> ('a send_db_scheme, unit) prog" where
  "revoke_authorizations P at_time by_whom why = write_p (\<lambda>s. s\<lparr>t_authorizations :=
     update_where P (\<lambda>r. r\<lparr>au_revokedAt := Some at_time, au_revokedBy := Some by_whom,
       au_revokeReason := Some why\<rparr>) (t_authorizations s)\<rparr>)"

definition active_authorization :: "string \<Rightarrow> string \<Rightarrow> authorization \<Rightarrow> bool" where
  "active_authorization account policy r \<longleftrightarrow>
     au_gmailAccount r = account \<and> au_policyVersion r = policy \<and> au_revokedAt r = None"

definition authorization_row ::
  "string \<Rightarrow> string \<Rightarrow> string \<Rightarrow> int \<Rightarrow> int \<Rightarrow> int \<Rightarrow> string option \<Rightarrow> string \<Rightarrow> int \<Rightarrow> authorization" where
  "authorization_row account policy by_whom startsAt expiresAt maxPerDay note aid now =
     \<lparr>au_id = aid, au_gmailAccount = account, au_policyVersion = policy, au_startsAt = startsAt,
      au_expiresAt = expiresAt, au_maxPerDay = maxPerDay, au_createdBy = by_whom, au_note = note,
      au_revokedAt = None, au_revokedBy = None, au_revokeReason = None, au_createdAt = now\<rparr>"

definition createAuthorization ::
  "string \<Rightarrow> string \<Rightarrow> string \<Rightarrow> int \<Rightarrow> int \<Rightarrow> int \<Rightarrow> string option \<Rightarrow> ('a send_db_scheme, authorization) prog" where
  "createAuthorization account policy by_whom startsAt expiresAt maxPerDay note = lead_tx (
     then_p (revoke_authorizations (active_authorization account policy) startsAt by_whom
       ''superseded_by_new_authorization'')
     (bind_p newUUID (\<lambda>aid. bind_p readClock (\<lambda>now.
       let r = authorization_row account policy by_whom startsAt expiresAt maxPerDay note aid now
       in then_p (insertAuthorization r) (return_p r)))))"

definition revokeAuthorization ::
  "string \<Rightarrow> string \<Rightarrow> string \<Rightarrow> int \<Rightarrow> ('a send_db_scheme, bool) prog" where
  "revokeAuthorization aid by_whom why at_time =
     bind_p (read_p (\<lambda>s. list_ex (\<lambda>r. au_id r = aid \<and> au_revokedAt r = None) (t_authorizations s))) (\<lambda>hit.
     then_p (revoke_authorizations (\<lambda>r. au_id r = aid \<and> au_revokedAt r = None) at_time by_whom why)
       (return_p hit))"

definition active_for :: "string \<Rightarrow> string \<Rightarrow> 'a send_db_scheme \<Rightarrow> authorization option" where
  "active_for account policy s = latest_by au_createdAt (filter (active_authorization account policy) (t_authorizations s))"

definition getActive :: "string \<Rightarrow> string \<Rightarrow> ('a send_db_scheme, authorization option) prog" where
  "getActive account policy = read_p (active_for account policy)"

definition latestAuthorization :: "string \<Rightarrow> string \<Rightarrow> ('a send_db_scheme, authorization option) prog" where
  "latestAuthorization account policy = read_p (\<lambda>s. latest_by au_createdAt
     (filter (\<lambda>r. au_gmailAccount r = account \<and> au_policyVersion r = policy) (t_authorizations s)))"

section \<open>The operator's commands\<close>

text \<open>\<^verbatim>\<open>approve-scheduled-send\<close>: \<open>days\<close> and \<open>maxPerDay\<close> are the options given, \<open>None\<close> inside for a
  text that is not an integer. The reply is \<open>None\<close> where the command only prints a refusal.\<close>

definition DAY_MS :: int where
  "DAY_MS = 24 * 60 * 60000"

definition approveScheduledSend ::
  "string option \<Rightarrow> string \<Rightarrow> int \<Rightarrow> string \<Rightarrow> int option option \<Rightarrow> int option option \<Rightarrow> string option
   \<Rightarrow> ('a send_db_scheme, authorization option) prog" where
  "approveScheduledSend configured policy cap by_whom days maxPerDay note =
     (let account = text_of (map_option auth_normalize configured);
          d = (case days of None \<Rightarrow> Some 14 | Some v \<Rightarrow> v);
          m = (case maxPerDay of None \<Rightarrow> Some cap | Some v \<Rightarrow> v)
      in if account = '''' then return_p None
         else (case d of None \<Rightarrow> return_p None
           | Some n \<Rightarrow>
               if n < 1 \<or> n > 14 then return_p None
               else bind_p readClock (\<lambda>startsAt.
                 if validateNewAuthorization \<lparr>na_gmailAccount = account, na_policyVersion = policy,
                      na_createdBy = by_whom, na_startsAtMs = startsAt, na_expiresAtMs = startsAt + n * DAY_MS,
                      na_maxPerDay = m\<rparr> \<noteq> [] then return_p None
                 else bind_p (createAuthorization account policy (js_trim by_whom) startsAt (startsAt + n * DAY_MS)
                        (case m of None \<Rightarrow> 0 | Some c \<Rightarrow> c) (map_option js_trim note))
                        (\<lambda>a. return_p (Some a)))))"

definition revokeScheduledSend :: "string \<Rightarrow> string \<Rightarrow> string \<Rightarrow> ('a send_db_scheme, bool) prog" where
  "revokeScheduledSend aid by_whom why = bind_p readClock
     (revokeAuthorization (js_trim aid) (js_trim by_whom) (js_trim why))"

section \<open>The reads of the automated run\<close>

text \<open>The session readiness derived from an authorization.\<close>

definition mintSessionReadiness ::
  "string \<Rightarrow> string \<Rightarrow> string \<Rightarrow> int \<Rightarrow> int \<Rightarrow> ('a send_db_scheme, string) prog" where
  "mintSessionReadiness account policy aid approvedAt expiresAt = lead_tx (
     then_p (supersedeReadiness SESSION account policy approvedAt (''scheduler:'' @ aid)
       ''superseded_by_fresh_session_readiness'')
     (bind_p newUUID (\<lambda>rid. then_p (insertReadiness
        \<lparr>rd_id = rid, rd_gmailAccount = account, rd_policyVersion = policy, rd_approvedBy = ''scheduler:'' @ aid,
         rd_approvedAt = approvedAt, rd_expiresAt = expiresAt, rd_revokedAt = None, rd_revokedBy = None,
         rd_revokeReason = None, rd_source = SESSION, rd_authorizationId = Some aid\<rparr>)
       (return_p rid))))"

definition due_leads :: "int \<Rightarrow> 'a send_db_scheme \<Rightarrow> string list" where
  "due_leads nowMs s = map sc_leadId (sort_key sc_scheduledAtUtc
     (filter (\<lambda>r. sc_status r = SC_SCHEDULED \<and> sc_scheduledAtUtc r \<le> nowMs
        \<and> list_ex (\<lambda>l. ld_id l = sc_leadId r \<and> ld_status l = SCHEDULED) (t_leads s)) (t_schedules s)))"

definition dueScheduledLeadIds :: "int \<Rightarrow> int \<Rightarrow> ('a send_db_scheme, string list) prog" where
  "dueScheduledLeadIds nowMs limit =
     (if limit \<le> 0 then return_p [] else read_p (\<lambda>s. take (nat limit) (due_leads nowMs s)))"

definition latestConfirmedAttemptId :: "string \<Rightarrow> ('a send_db_scheme, string option) prog" where
  "latestConfirmedAttemptId lid = read_p (\<lambda>s. map_option sa_id (latest_by sa_reservedAt
     (filter (\<lambda>a. sa_leadId a = lid \<and> confirmed_attempt a) (t_attempts s))))"

definition latestUnknownAttemptId :: "string \<Rightarrow> ('a send_db_scheme, string option) prog" where
  "latestUnknownAttemptId lid = read_p (\<lambda>s. map_option sa_id (latest_by sa_reservedAt
     (filter (\<lambda>a. sa_leadId a = lid \<and> sa_status a = AT_OUTCOME_UNKNOWN) (t_attempts s))))"

end
