(* ===== verification/Enrollment.thy ===== *)
theory Enrollment
  imports Authorizations Outreach_Service
begin

text \<open>
  From a confirmed send to outreach tracking: the rows an attempt leads to
  (\<^verbatim>\<open>src/src/persistence/repositories/enroll-input.repo.ts\<close>), the campaigns of \<^verbatim>\<open>outreach.repo.ts\<close>, and the
  bridge \<^verbatim>\<open>enrollConfirmedSendFromAttempt\<close> of \<^verbatim>\<open>src/src/cli/commands/outreach-enroll-sent.ts\<close>, which runs
  the outreach service. The state joins the database of sending with that of outreach. The rows of an
  attempt's draft, finalization and email are joined as in \<^verbatim>\<open>Send_Store\<close>.
\<close>

section \<open>The joined database\<close>

record campaign =
  cp_id :: string
  cp_name :: string
  cp_policy :: sequence_policy
  cp_timezone :: string
  cp_status :: string
  cp_createdAt :: int
  cp_updatedAt :: int

record suite_db = send_db +
  outreach :: outreach_db
  t_campaigns :: "campaign list"

text \<open>A unit of work of the outreach service.\<close>

definition outreach_p :: "'b otx \<Rightarrow> ('a suite_db_scheme, 'b) prog" where
  "outreach_p m s = (case m (outreach s) of
       Inl e \<Rightarrow> (Inl e, s) | Inr (x, o1) \<Rightarrow> (Inr x, s\<lparr>outreach := o1\<rparr>))"

definition getCampaignByName :: "string \<Rightarrow> ('a suite_db_scheme, campaign option) prog" where
  "getCampaignByName name = read_p (\<lambda>s. find (\<lambda>c. cp_name c = name) (t_campaigns s))"

text \<open>A new campaign can be referenced by the outreach tables.\<close>

definition insertCampaign ::
  "string \<Rightarrow> sequence_policy \<Rightarrow> string \<Rightarrow> ('a suite_db_scheme, campaign) prog" where
  "insertCampaign name policy tz = bind_p readClock (\<lambda>now. bind_p newUUID (\<lambda>cid. \<lambda>s.
     let c = \<lparr>cp_id = cid, cp_name = name, cp_policy = policy, cp_timezone = tz, cp_status = ''ACTIVE'',
              cp_createdAt = now, cp_updatedAt = now\<rparr>
     in if list_ex (\<lambda>q. cp_id q = cid) (t_campaigns s)
        then (Inl (UniqueViolation ''outreach_campaigns_pkey''), s)
        else if list_ex (\<lambda>q. cp_name q = name) (t_campaigns s)
        then (Inl (UniqueViolation ''outreach_campaigns_name_uk''), s)
        else (Inr c, s\<lparr>t_campaigns := t_campaigns s @ [c],
          outreach := (outreach s)\<lparr>fk_campaigns := fk_campaigns (outreach s) @ [cid]\<rparr>\<rparr>)))"

section \<open>The rows of an attempt\<close>

record enroll_data =
  ed_attempt :: send_attempt
  ed_draft :: gmail_draft
  ed_finalization :: finalization

text \<open>\<^verbatim>\<open>reconciledAt ?? completedAt\<close> is \<open>effective_at\<close> of the attempt.\<close>

definition load_attempt :: "string \<Rightarrow> 'a send_db_scheme \<Rightarrow> enroll_data option" where
  "load_attempt aid s =
     (case attempt_of s aid of None \<Rightarrow> None
      | Some a \<Rightarrow>
          (case find (\<lambda>d. gd_id d = sa_gmailDraftId a) (t_gmail_drafts s) of None \<Rightarrow> None
           | Some d \<Rightarrow>
               (case find (\<lambda>f. gd_finalizedEmailId d = Some (fn_id f)) (t_finalizations s) of None \<Rightarrow> None
                | Some f \<Rightarrow> Some \<lparr>ed_attempt = a, ed_draft = d, ed_finalization = f\<rparr>)))"

fun attempt_status_str :: "attempt_status \<Rightarrow> string" where
  "attempt_status_str AT_RESERVED = ''RESERVED''"
| "attempt_status_str AT_CALL_STARTED = ''CALL_STARTED''"
| "attempt_status_str AT_SENT_CONFIRMED = ''SENT_CONFIRMED''"
| "attempt_status_str AT_DEFINITIVE_FAILURE = ''DEFINITIVE_FAILURE''"
| "attempt_status_str AT_OUTCOME_UNKNOWN = ''OUTCOME_UNKNOWN''"
| "attempt_status_str AT_DUPLICATE_PREVENTED = ''DUPLICATE_PREVENTED''"

fun reconciliation_str :: "reconciliation option \<Rightarrow> string" where
  "reconciliation_str None = ''-''"
| "reconciliation_str (Some CONFIRMED_SENT) = ''CONFIRMED_SENT''"
| "reconciliation_str (Some CONFIRMED_NOT_SENT) = ''CONFIRMED_NOT_SENT''"

section \<open>The bridge\<close>

definition DEFAULT_CAMPAIGN :: string where
  "DEFAULT_CAMPAIGN = ''Production Outreach''"

datatype bridge_outcome =
    BO_ENROLLED | BO_ALREADY_ENROLLED | BO_RECORD_NOT_ENROLLABLE | BO_STEP_MISMATCH | BO_REFUSED

fun bridge_outcome_of :: "enroll_outcome \<Rightarrow> bridge_outcome" where
  "bridge_outcome_of ENROLLED = BO_ENROLLED"
| "bridge_outcome_of ALREADY_ENROLLED = BO_ALREADY_ENROLLED"
| "bridge_outcome_of RECORD_NOT_ENROLLABLE = BO_RECORD_NOT_ENROLLABLE"
| "bridge_outcome_of ENROLL_STEP_MISMATCH = BO_STEP_MISMATCH"

record bridge_result =
  br_outcome :: bridge_outcome
  br_reason :: "string option"
  br_recordId :: "string option"
  br_campaignId :: "string option"
  br_campaignName :: "string option"
  br_contact :: "string option"
  br_messageId :: "string option"
  br_contentHash :: "string option"
  br_gmailMessageId :: "string option"
  br_gmailThreadId :: "string option"
  br_followupDueAt :: "int option"
  br_sequenceStep :: "int option"
  br_messageType :: "message_type option"
  br_recordStatus :: "outreach_status option"

definition refused :: "string \<Rightarrow> bridge_result" where
  "refused why = \<lparr>br_outcome = BO_REFUSED, br_reason = Some why, br_recordId = None, br_campaignId = None,
     br_campaignName = None, br_contact = None, br_messageId = None, br_contentHash = None,
     br_gmailMessageId = None, br_gmailThreadId = None, br_followupDueAt = None, br_sequenceStep = None,
     br_messageType = None, br_recordStatus = None\<rparr>"

text \<open>The checks before anything is written; \<open>Inr\<close> carries the message, the thread and the time sent.\<close>

definition enrollment_checks :: "string \<Rightarrow> enroll_data \<Rightarrow> string + (string \<times> string \<times> int)" where
  "enrollment_checks lid ed =
     (let a = ed_attempt ed in
      if sa_leadId a \<noteq> lid then Inl (''attempt belongs to lead '' @ sa_leadId a @ '', not '' @ lid)
      else if \<not> confirmed_attempt a
      then Inl (''attempt is not confirmed (status='' @ attempt_status_str (sa_status a)
             @ '', reconciled='' @ reconciliation_str (sa_reconciledOutcome a) @ '')'')
      else if text_of (sa_providerMessageId a) = '''' \<or> text_of (sa_providerThreadId a) = ''''
      then Inl ''confirmed attempt is missing a Gmail message/thread id''
      else (case effective_at a of
          None \<Rightarrow> Inl ''confirmed attempt is missing a sent timestamp''
        | Some sentAt \<Rightarrow>
            if sa_finalizedContentHash a \<noteq> fn_resolvedBodyHash (ed_finalization ed)
            then Inl (''finalized content hash does not match the attempt '' @ [CHR 0x97] @ '' content may have diverged'')
            else Inr (text_of (sa_providerMessageId a), text_of (sa_providerThreadId a), sentAt)))"

text \<open>What the bridge tells of the campaign and the message in every answer after the checks.\<close>

definition bridge_common :: "campaign \<Rightarrow> string \<Rightarrow> string \<Rightarrow> string \<Rightarrow> bridge_result" where
  "bridge_common c contact mid tid = (refused '''')\<lparr>br_reason := None, br_campaignId := Some (cp_id c),
     br_campaignName := Some (cp_name c), br_contact := Some contact, br_gmailMessageId := Some mid,
     br_gmailThreadId := Some tid\<rparr>"

definition enroll_input_of ::
  "enroll_data \<Rightarrow> sequence_policy \<Rightarrow> string \<Rightarrow> string \<times> string \<times> int \<Rightarrow> enroll_input" where
  "enroll_input_of ed policy rid = (\<lambda>(mid, tid, sentAt). (let f = ed_finalization ed in
     \<lparr>ei_recordId = rid, ei_subject = fn_subject f, ei_body = fn_resolvedBody f, ei_gmailMessageId = mid,
      ei_gmailThreadId = tid, ei_sentAt = sentAt, ei_emailDraftId = Some (fn_originalDraftId f),
      ei_finalizedEmailId = Some (fn_id f), ei_sendAttemptId = sa_id (ed_attempt ed), ei_policy = policy\<rparr>))"

definition initial_result :: "bridge_result \<Rightarrow> enroll_result \<Rightarrow> bridge_result" where
  "initial_result common r = common\<lparr>br_outcome := bridge_outcome_of (er_outcome r),
     br_recordId := Some (or_id (er_record r)), br_messageId := map_option om_id (er_message r),
     br_contentHash := map_option om_contentHash (er_message r),
     br_followupDueAt := map_option of_dueAt (er_followup r), br_sequenceStep := Some 0,
     br_messageType := Some INITIAL, br_recordStatus := Some (or_status (er_record r))\<rparr>"

definition followup_result :: "bridge_result \<Rightarrow> int \<Rightarrow> enroll_followup_result \<Rightarrow> bridge_result" where
  "followup_result common stp r = common\<lparr>br_outcome := bridge_outcome_of (ef_outcome r),
     br_reason := ef_reason r, br_recordId := Some (or_id (ef_record r)),
     br_messageId := map_option om_id (ef_message r),
     br_contentHash := map_option om_contentHash (ef_message r),
     br_followupDueAt := map_option of_dueAt (ef_nextFollowup r), br_sequenceStep := Some stp,
     br_messageType := Some FOLLOW_UP, br_recordStatus := Some (or_status (ef_record r))\<rparr>"

text \<open>The routing on the sequence step the draft was written for.\<close>

definition enroll_route ::
  "intl \<Rightarrow> digest \<Rightarrow> sequence_policy \<Rightarrow> enroll_data \<Rightarrow> string \<times> string \<times> int \<Rightarrow> bridge_result
   \<Rightarrow> outreach_record \<Rightarrow> ('a suite_db_scheme, bridge_result) prog" where
  "enroll_route intl sha256 policy ed sent common rec =
     (let f = ed_finalization ed; stp = fn_sequenceStep f; input = enroll_input_of ed policy (or_id rec) sent in
      if stp = 0
      then bind_p readClock (\<lambda>now. bind_p (outreach_p (enrollConfirmedSend intl sha256 now input))
             (\<lambda>r. return_p (initial_result common r)))
      else (case to_followup_step stp of
          None \<Rightarrow> return_p (refused (''draft '' @ fn_originalDraftId f @ '' records an unknown sequence step ''
                    @ show_int stp))
        | Some st \<Rightarrow>
            if fn_outreachRecordId f \<noteq> None \<and> fn_outreachRecordId f \<noteq> Some (or_id rec)
            then return_p (refused (''draft '' @ fn_originalDraftId f @ '' belongs to outreach record ''
                   @ text_of (fn_outreachRecordId f) @ '', but the active record for ''
                   @ gd_recipientEmail (ed_draft ed) @ '' is '' @ or_id rec))
            else bind_p readClock (\<lambda>now.
              bind_p (outreach_p (enrollConfirmedFollowup intl sha256 now input st))
                (\<lambda>r. return_p (followup_result common stp r)))))"

definition campaign_named :: "string \<Rightarrow> sequence_policy \<Rightarrow> ('a suite_db_scheme, campaign) prog" where
  "campaign_named name policy = bind_p (getCampaignByName name) (\<lambda>found.
     case found of Some c \<Rightarrow> return_p c | None \<Rightarrow> insertCampaign name policy ''UTC'')"

definition enrollConfirmedSendFromAttempt ::
  "intl \<Rightarrow> digest \<Rightarrow> sequence_policy \<Rightarrow> string \<Rightarrow> string \<Rightarrow> string option \<Rightarrow> string option
   \<Rightarrow> ('a suite_db_scheme, bridge_result) prog" where
  "enrollConfirmedSendFromAttempt intl sha256 policy lid aid camp by_whom =
     bind_p (read_p (load_attempt aid)) (\<lambda>loaded.
     case loaded of
       None \<Rightarrow> return_p (refused (''send attempt '' @ aid @ '' not found, or it has no finalized draft''))
     | Some ed \<Rightarrow>
         (case enrollment_checks lid ed of
            Inl why \<Rightarrow> return_p (refused why)
          | Inr sent \<Rightarrow>
              bind_p (campaign_named (case camp of None \<Rightarrow> DEFAULT_CAMPAIGN | Some n \<Rightarrow> n) policy) (\<lambda>c.
              bind_p readClock (\<lambda>now.
              bind_p (outreach_p (track now \<lparr>ti_campaignId = cp_id c, ti_leadId = lid,
                  ti_contactEmail = gd_recipientEmail (ed_draft ed), ti_timezone = cp_timezone c,
                  ti_owner = by_whom\<rparr>)) (\<lambda>(outcome, tracked).
                case (outcome, tracked) of
                  (BLOCKED_DO_NOT_CONTACT, _) \<Rightarrow> return_p (refused (''contact ''
                     @ gd_recipientEmail (ed_draft ed) @ '' is on do-not-contact''))
                | (_, None) \<Rightarrow> return_p (refused (''contact ''
                     @ gd_recipientEmail (ed_draft ed) @ '' is on do-not-contact''))
                | (_, Some rec) \<Rightarrow> enroll_route intl sha256 policy ed sent
                     (bridge_common c (gd_recipientEmail (ed_draft ed)) (fst sent) (fst (snd sent))) rec)))))"

end
