(* ===== verification/Scheduled_Run.thy ===== *)
theory Scheduled_Run
  imports Enrollment Send_Effects
begin

text \<open>
  The automated run: what one scheduled email needs (\<^verbatim>\<open>send-input.repo.ts\<close>,
  \<^verbatim>\<open>followup-send-context.repo.ts\<close>), the attempt to send it and the wiring of
  \<^verbatim>\<open>src/src/cli/commands/run-scheduled-sends.ts\<close>, and the orchestration of
  \<^verbatim>\<open>src/src/domain/send/scheduled-send-runner.ts\<close>, which is polymorphic in the state its injected effects
  work on. The contract of the effects is the locale \<open>scheduled_effects\<close>.
\<close>

section \<open>The inputs of a send\<close>

definition schedule_view_of :: "send_schedule \<Rightarrow> schedule_view" where
  "schedule_view_of r = \<lparr>sv_id = sc_id r, sv_status = sc_status r, sv_gmailDraftId = sc_gmailDraftId r,
     sv_providerDraftId = sc_providerDraftId r, sv_finalizedContentHash = sc_finalizedContentHash r,
     sv_recipientEmail = sc_recipientEmail r, sv_scheduledAtUtcMs = sc_scheduledAtUtc r,
     sv_rulesVersion = sc_rulesVersion r, sv_storedIntegrityFingerprint = sc_integrityFingerprint r\<rparr>"

definition draft_view_of :: "gmail_draft \<Rightarrow> draft_view" where
  "draft_view_of d = \<lparr>dv_id = gd_id d, dv_outcome = gd_outcome d, dv_providerDraftId = gd_providerDraftId d,
     dv_providerMessageId = gd_messageId d, dv_providerThreadId = gd_threadId d,
     dv_gmailAccount = gd_gmailAccount d, dv_senderEmail = gd_senderEmail d,
     dv_recipientEmail = gd_recipientEmail d, dv_finalizedEmailId = gd_finalizedEmailId d\<rparr>"

definition finalization_view_of :: "finalization \<Rightarrow> finalization_view" where
  "finalization_view_of f = \<lparr>fv_id = fn_id f, fv_resolvedBody = fn_resolvedBody f,
     fv_resolvedBodyHash = fn_resolvedBodyHash f, fv_finalHumanDecision = fn_finalHumanDecision f,
     fv_finalReviewedAt = fn_finalReviewedAt f\<rparr>"

definition draft_of_schedule :: "'a send_db_scheme \<Rightarrow> string \<Rightarrow> send_schedule \<Rightarrow> gmail_draft option" where
  "draft_of_schedule s lid r = find (\<lambda>d. gd_id d = sc_gmailDraftId r \<and> gd_leadId d = lid) (t_gmail_drafts s)"

definition finalization_of_draft :: "'a send_db_scheme \<Rightarrow> string \<Rightarrow> gmail_draft \<Rightarrow> finalization option" where
  "finalization_of_draft s lid d = (if missing (gd_finalizedEmailId d) then None
     else find (\<lambda>f. gd_finalizedEmailId d = Some (fn_id f) \<and> fn_leadId f = lid) (t_finalizations s))"

definition current_recipient :: "'a send_db_scheme \<Rightarrow> string \<Rightarrow> string option" where
  "current_recipient s lid = map_option ff_value (find (\<lambda>f. ff_leadId f = lid
     \<and> ff_factType f = FT_contact_email \<and> ff_isCurrent f) (t_lead_facts s))"

definition send_data_of :: "string \<Rightarrow> 'a send_db_scheme \<Rightarrow> send_input_data" where
  "send_data_of lid s =
     (let sched = active_for_lead s lid;
          draft = Option.bind sched (draft_of_schedule s lid);
          fin = Option.bind draft (finalization_of_draft s lid);
          l = lead_of s lid
      in \<lparr>in_schedule = map_option schedule_view_of sched, in_currentGmailDraft = map_option draft_view_of draft,
          in_finalization = map_option finalization_view_of fin,
          in_currentFinalizedContentHash = map_option fn_resolvedBodyHash fin,
          in_currentRecipientEmail = current_recipient s lid, in_subject = map_option fn_subject fin,
          in_normalizedDomain = Option.bind l ld_normalizedDomain,
          in_normalizedPhone = Option.bind l ld_normalizedPhone, in_placeId = Option.bind l ld_placeId\<rparr>)"

definition latestSendInput :: "string \<Rightarrow> ('a send_db_scheme, send_input_data) prog" where
  "latestSendInput lid = read_p (send_data_of lid)"

section \<open>The sequence position of a pending email\<close>

record pending_context =
  px_sequenceStep :: int
  px_emailDraftId :: string
  px_outreachRecordId :: "string option"
  px_outreachStatus :: "outreach_status option"
  px_outreachDoNotContact :: bool

definition scheduled_chain :: "'a send_db_scheme \<Rightarrow> send_schedule \<Rightarrow> (send_schedule \<times> finalization) option" where
  "scheduled_chain s r =
     (case find (\<lambda>d. gd_id d = sc_gmailDraftId r) (t_gmail_drafts s) of None \<Rightarrow> None
      | Some d \<Rightarrow> map_option (Pair r)
          (find (\<lambda>f. gd_finalizedEmailId d = Some (fn_id f)) (t_finalizations s)))"

definition pending_context_of :: "string \<Rightarrow> 'a suite_db_scheme \<Rightarrow> pending_context option" where
  "pending_context_of lid s =
     (case latest_by (\<lambda>(r, f). sc_createdAt r) (List.map_filter (scheduled_chain s)
        (filter (\<lambda>r. sc_leadId r = lid \<and> sc_status r = SC_SCHEDULED) (t_schedules s))) of
        None \<Rightarrow> None
      | Some (r, f) \<Rightarrow>
          let rec = Option.bind (fn_outreachRecordId f)
                (\<lambda>rid. find (\<lambda>q. or_id q = rid) (t_records (outreach s)))
          in Some \<lparr>px_sequenceStep = fn_sequenceStep f, px_emailDraftId = fn_originalDraftId f,
               px_outreachRecordId = fn_outreachRecordId f, px_outreachStatus = map_option or_status rec,
               px_outreachDoNotContact = (case rec of None \<Rightarrow> False | Some q \<Rightarrow> or_doNotContact q)\<rparr>)"

definition pendingContext :: "string \<Rightarrow> ('a suite_db_scheme, pending_context option) prog" where
  "pendingContext lid = read_p (pending_context_of lid)"

section \<open>The orchestration\<close>

datatype run_outcome =
  RO_RAN | RO_MASTER_DISABLED | RO_GATES_DISABLED | RO_TRACKING_DISABLED | RO_NO_AUTHORIZATION | RO_CAP_REACHED

datatype enrollment =
  EN_ENROLLED | EN_ALREADY_ENROLLED | EN_RECORD_NOT_ENROLLABLE | EN_STEP_MISMATCH | EN_ENROLL_FAILED

record send_one_result =
  so_outcome :: send_outcome
  so_attemptId :: "string option"
  so_reason :: "string option"

record run_gates =
  g_scheduledSendEnabled :: bool
  g_sendingEnabled :: bool
  g_outboundActionsEnabled :: bool
  g_dryRun :: bool
  g_providerIsHttp :: bool
  g_outreachTrackingEnabled :: bool

record 's run_deps =
  dp_now :: "('s, int) prog"
  dp_gates :: run_gates
  dp_dailyCap :: int
  dp_unenrolled :: "('s, (string \<times> string) list) prog"
  dp_authorization :: "int \<Rightarrow> ('s, (string \<times> int) option) prog"
  dp_sentToday :: "int \<Rightarrow> ('s, int) prog"
  dp_mint :: "string \<Rightarrow> int \<Rightarrow> ('s, unit) prog"
  dp_due :: "int \<Rightarrow> int \<Rightarrow> ('s, string list) prog"
  dp_sendOne :: "string \<Rightarrow> string \<Rightarrow> ('s, send_one_result) prog"
  dp_enroll :: "string \<Rightarrow> string \<Rightarrow> ('s, enrollment) prog"

record recovery_entry =
  re_leadId :: string
  re_attemptId :: string
  re_outcome :: enrollment

record run_report =
  rp_outcome :: run_outcome
  rp_authorizationId :: "string option"
  rp_capacity :: int
  rp_attempted :: nat
  rp_recovered :: "recovery_entry list"
  rp_recoveryFailures :: "recovery_entry list"
  rp_sent :: "recovery_entry list"
  rp_unknown :: "(string \<times> string option) list"
  rp_failures :: "(string \<times> send_outcome \<times> string option) list"

definition empty_report :: run_report where
  "empty_report = \<lparr>rp_outcome = RO_RAN, rp_authorizationId = None, rp_capacity = 0, rp_attempted = 0,
     rp_recovered = [], rp_recoveryFailures = [], rp_sent = [], rp_unknown = [], rp_failures = []\<rparr>"

text \<open>\<^verbatim>\<open>try { outcome = await enroll(...) } catch { outcome = 'ENROLL_FAILED' }\<close>.\<close>

definition try_enroll :: "'s run_deps \<Rightarrow> string \<Rightarrow> string \<Rightarrow> ('s, enrollment) prog" where
  "try_enroll dp lid aid s =
     (case dp_enroll dp lid aid s of (Inl e, s1) \<Rightarrow> (Inr EN_ENROLL_FAILED, s1) | (Inr x, s1) \<Rightarrow> (Inr x, s1))"

definition add_recovery :: "recovery_entry \<Rightarrow> run_report \<Rightarrow> run_report" where
  "add_recovery x rp = (if re_outcome x = EN_ENROLLED \<or> re_outcome x = EN_ALREADY_ENROLLED
     then rp\<lparr>rp_recovered := rp_recovered rp @ [x]\<rparr>
     else rp\<lparr>rp_recoveryFailures := rp_recoveryFailures rp @ [x]\<rparr>)"

fun recover_loop :: "'s run_deps \<Rightarrow> (string \<times> string) list \<Rightarrow> run_report \<Rightarrow> ('s, run_report) prog" where
  "recover_loop dp [] rp = return_p rp"
| "recover_loop dp ((lid, aid) # ps) rp = bind_p (try_enroll dp lid aid) (\<lambda>o1.
     recover_loop dp ps (add_recovery \<lparr>re_leadId = lid, re_attemptId = aid, re_outcome = o1\<rparr> rp))"

fun send_loop :: "'s run_deps \<Rightarrow> string \<Rightarrow> int \<Rightarrow> string list \<Rightarrow> run_report \<Rightarrow> ('s, run_report) prog" where
  "send_loop dp auth capacity [] rp = return_p rp"
| "send_loop dp auth capacity (lid # ls) rp =
     (if int (length (rp_sent rp)) \<ge> capacity then return_p rp
      else bind_p (dp_sendOne dp lid auth) (\<lambda>r.
        let rp1 = rp\<lparr>rp_attempted := Suc (rp_attempted rp)\<rparr> in
        if so_outcome r = OC_SENT_CONFIRMED \<and> \<not> missing (so_attemptId r)
        then bind_p (try_enroll dp lid (text_of (so_attemptId r))) (\<lambda>o1.
          send_loop dp auth capacity ls (rp1\<lparr>rp_sent := rp_sent rp @
            [\<lparr>re_leadId = lid, re_attemptId = text_of (so_attemptId r), re_outcome = o1\<rparr>]\<rparr>))
        else if so_outcome r = OC_OUTCOME_UNKNOWN
        then return_p (rp1\<lparr>rp_unknown := rp_unknown rp @ [(lid, so_attemptId r)]\<rparr>)
        else send_loop dp auth capacity ls
          (rp1\<lparr>rp_failures := rp_failures rp @ [(lid, so_outcome r, so_reason r)]\<rparr>)))"

definition gates_closed :: "run_gates \<Rightarrow> run_outcome option" where
  "gates_closed g =
     (if \<not> g_scheduledSendEnabled g then Some RO_MASTER_DISABLED
      else if \<not> g_sendingEnabled g \<or> \<not> g_outboundActionsEnabled g \<or> g_dryRun g \<or> \<not> g_providerIsHttp g
      then Some RO_GATES_DISABLED
      else if \<not> g_outreachTrackingEnabled g then Some RO_TRACKING_DISABLED
      else None)"

definition recovery_phase :: "'s run_deps \<Rightarrow> ('s, run_report) prog" where
  "recovery_phase dp = (if g_outreachTrackingEnabled (dp_gates dp)
     then bind_p (dp_unenrolled dp) (\<lambda>ps. recover_loop dp ps empty_report) else return_p empty_report)"

definition sending_phase :: "'s run_deps \<Rightarrow> int \<Rightarrow> run_report \<Rightarrow> ('s, run_report) prog" where
  "sending_phase dp now rp =
     (case gates_closed (dp_gates dp) of Some x \<Rightarrow> return_p (rp\<lparr>rp_outcome := x\<rparr>)
      | None \<Rightarrow> bind_p (dp_authorization dp now) (\<lambda>found.
          case found of None \<Rightarrow> return_p (rp\<lparr>rp_outcome := RO_NO_AUTHORIZATION\<rparr>)
          | Some (auth, maxPerDay) \<Rightarrow> bind_p (dp_sentToday dp now) (\<lambda>sentToday.
              let capacity = max 0 (min (dp_dailyCap dp) maxPerDay - sentToday);
                  rp1 = rp\<lparr>rp_authorizationId := Some auth, rp_capacity := capacity\<rparr>
              in if capacity \<le> 0 then return_p (rp1\<lparr>rp_outcome := RO_CAP_REACHED\<rparr>)
                 else then_p (dp_mint dp auth now)
                   (bind_p (dp_due dp now capacity) (\<lambda>ls. send_loop dp auth capacity ls rp1)))))"

definition runScheduledSends :: "'s run_deps \<Rightarrow> ('s, run_report) prog" where
  "runScheduledSends dp = bind_p (dp_now dp) (\<lambda>now.
     bind_p (recovery_phase dp) (sending_phase dp now))"

section \<open>The wiring\<close>

text \<open>The configuration the command reads.\<close>

record run_env =
  ev_gmailAccount :: "string option"
  ev_senderName :: "string option"
  ev_policyVersion :: string
  ev_sendingEnabled :: bool
  ev_outboundActionsEnabled :: bool
  ev_dryRun :: bool
  ev_maxLateMinutes :: int
  ev_confirmationTtlSeconds :: int
  ev_dailyCap :: int
  ev_scheduledSendEnabled :: bool
  ev_providerIsHttp :: bool
  ev_trackingEnabled :: bool
  ev_readinessMinutes :: int
  ev_sequencePolicy :: sequence_policy

definition buildSendConfig :: "run_env \<Rightarrow> send_config" where
  "buildSendConfig c = \<lparr>cg_gmailAccount = (case ev_gmailAccount c of None \<Rightarrow> ''mock@example.com'' | Some a \<Rightarrow> a),
     cg_senderName = ev_senderName c, cg_policyVersion = ev_policyVersion c,
     cg_sendingEnabled = ev_sendingEnabled c, cg_outboundActionsEnabled = ev_outboundActionsEnabled c,
     cg_dryRun = ev_dryRun c, cg_maxLateMs = ev_maxLateMinutes c * 60000,
     cg_confirmationTtlMs = ev_confirmationTtlSeconds c * 1000, cg_dailyCap = ev_dailyCap c\<rparr>"

definition runner_account :: "run_env \<Rightarrow> string" where
  "runner_account c = text_of (map_option auth_normalize (ev_gmailAccount c))"

text \<open>The run whose identifier the command draws before its first send.\<close>

record runner_db = suite_db +
  run_memo :: "string option"

definition startRun :: "('a lead_db_scheme, string) prog" where
  "startRun = bind_p newUUID (\<lambda>rid. then_p readClock (\<lambda>s.
     if rid \<in> set (fk_runs s) then (Inl (UniqueViolation ''pipeline_runs_pkey''), s)
     else (Inr rid, s\<lparr>fk_runs := fk_runs s @ [rid]\<rparr>)))"

definition getRunId :: "('a runner_db_scheme, string) prog" where
  "getRunId = bind_p (read_p run_memo) (\<lambda>m. case m of Some r \<Rightarrow> return_p r
     | None \<Rightarrow> bind_p startRun (\<lambda>r. then_p (write_p (\<lambda>s. s\<lparr>run_memo := Some r\<rparr>)) (return_p r)))"

text \<open>The re-check of a follow-up against the outreach state as it is now; a reason stops the send.\<close>

definition followup_recheck :: "pending_context option \<Rightarrow> string option" where
  "followup_recheck ctx =
     (case ctx of None \<Rightarrow> None
      | Some c \<Rightarrow>
          if px_sequenceStep c > 0
          then (case to_followup_step (px_sequenceStep c) of
              None \<Rightarrow> Some (''unknown_sequence_step:'' @ show_int (px_sequenceStep c))
            | Some st \<Rightarrow> (case checkFollowupSendAllowed \<lparr>snap_status = px_outreachStatus c,
                  snap_doNotContact = px_outreachDoNotContact c, preparedStep = st\<rparr> of
                SendAllowed _ \<Rightarrow> None
              | SendDenied why detail \<Rightarrow> Some (send_block_str why @ '':'' @ detail)))
          else None)"

definition base_input :: "lead \<Rightarrow> send_input_data \<Rightarrow> send_input" where
  "base_input l d = send_input_data.extend d (send_input.fields (ld_id l) (ld_status l) None None)"

definition attempt_of_result :: "string \<Rightarrow> send_outcome \<Rightarrow> ('a send_db_scheme, string option) prog" where
  "attempt_of_result lid oc = (if oc = OC_SENT_CONFIRMED then latestConfirmedAttemptId lid
     else if oc = OC_OUTCOME_UNKNOWN then latestUnknownAttemptId lid else return_p None)"

definition confirmed_sendOne ::
  "digest \<Rightarrow> bool \<Rightarrow> send_config \<Rightarrow> send_input \<Rightarrow> preflight_proof \<Rightarrow> string \<Rightarrow> string
   \<Rightarrow> ('a runner_db_scheme, send_one_result) prog" where
  "confirmed_sendOne sha256 ex cf i pf lid auth = bind_p readClock (\<lambda>now. bind_p getRunId (\<lambda>run.
     bind_p (send SESSION sha256 ex cf (i\<lparr>in_preflightProof := Some pf, in_confirmation := Some
         \<lparr>cv_observedSendFingerprint = pf_sendFingerprint pf, cv_confirmedBy = ''scheduler:'' @ auth,
          cv_confirmedAtMs = now\<rparr>\<rparr>) run) (\<lambda>r.
     bind_p (attempt_of_result lid (ro_outcome r)) (\<lambda>aid.
       return_p \<lparr>so_outcome = ro_outcome r, so_attemptId = aid, so_reason = ro_reason r\<rparr>))))"

definition sendOne ::
  "digest \<Rightarrow> bool \<Rightarrow> send_config \<Rightarrow> string \<Rightarrow> string \<Rightarrow> ('a runner_db_scheme, send_one_result) prog" where
  "sendOne sha256 ex cf lid auth =
     (let answer = \<lambda>oc why. return_p \<lparr>so_outcome = oc, so_attemptId = None, so_reason = why\<rparr>;
          inactive = answer OC_INVALID_ELIGIBILITY (Some ''no_active_schedule'')
      in bind_p (lead_getById lid) (\<lambda>found. case found of None \<Rightarrow> inactive
        | Some l \<Rightarrow> bind_p (latestSendInput lid) (\<lambda>d.
            if in_schedule d = None then inactive
            else bind_p (pendingContext lid) (\<lambda>ctx.
              case followup_recheck ctx of Some why \<Rightarrow> answer OC_OUTREACH_SUPPRESSED (Some why)
              | None \<Rightarrow> bind_p (preflight SESSION sha256 cf (base_input l d)) (\<lambda>pf.
                  case (ro_outcome pf, ro_preflightProof pf) of
                    (OC_READY, Some proof) \<Rightarrow> confirmed_sendOne sha256 ex cf (base_input l d) proof lid auth
                  | _ \<Rightarrow> answer (ro_outcome pf) (ro_reason pf))))))"

definition unenrolled_sends :: "'a suite_db_scheme \<Rightarrow> (string \<times> string) list" where
  "unenrolled_sends s =
     (let rows = filter (\<lambda>a. confirmed_attempt a \<and> sa_providerMessageId a \<noteq> None
            \<and> \<not> list_ex (\<lambda>m. om_gmailMessageId m = sa_providerMessageId a) (t_messages (outreach s))) (t_attempts s)
      in map (\<lambda>a. (sa_leadId a, sa_id a))
           (sort_key (\<lambda>a. the (sa_completedAt a)) (filter (\<lambda>a. sa_completedAt a \<noteq> None) rows)
            @ filter (\<lambda>a. sa_completedAt a = None) rows))"

definition unenrolledConfirmedSends :: "int \<Rightarrow> ('a suite_db_scheme, (string \<times> string) list) prog" where
  "unenrolledConfirmedSends limit = (if limit \<le> 0 then return_p []
     else read_p (\<lambda>s. take (nat limit) (unenrolled_sends s)))"

fun enrollment_of :: "bridge_outcome \<Rightarrow> enrollment" where
  "enrollment_of BO_ENROLLED = EN_ENROLLED"
| "enrollment_of BO_ALREADY_ENROLLED = EN_ALREADY_ENROLLED"
| "enrollment_of BO_RECORD_NOT_ENROLLABLE = EN_RECORD_NOT_ENROLLABLE"
| "enrollment_of BO_STEP_MISMATCH = EN_STEP_MISMATCH"
| "enrollment_of BO_REFUSED = EN_ENROLL_FAILED"

definition valid_authorization :: "run_env \<Rightarrow> int \<Rightarrow> ('a send_db_scheme, (string \<times> int) option) prog" where
  "valid_authorization c now = bind_p (getActive (runner_account c) (ev_policyVersion c)) (\<lambda>found.
     case found of None \<Rightarrow> return_p None
     | Some a \<Rightarrow> return_p (if isAuthorizationValid a now (runner_account c) (ev_policyVersion c)
         then Some (au_id a, au_maxPerDay a) else None))"

definition run_deps_of :: "intl \<Rightarrow> digest \<Rightarrow> bool \<Rightarrow> run_env \<Rightarrow> 'a runner_db_scheme run_deps" where
  "run_deps_of intl sha256 ex c =
     \<lparr>dp_now = readClock,
      dp_gates = \<lparr>g_scheduledSendEnabled = ev_scheduledSendEnabled c, g_sendingEnabled = ev_sendingEnabled c,
        g_outboundActionsEnabled = ev_outboundActionsEnabled c, g_dryRun = ev_dryRun c,
        g_providerIsHttp = ev_providerIsHttp c, g_outreachTrackingEnabled = ev_trackingEnabled c\<rparr>,
      dp_dailyCap = ev_dailyCap c,
      dp_unenrolled = unenrolledConfirmedSends 50,
      dp_authorization = valid_authorization c,
      dp_sentToday = confirmedSendsToday (runner_account c),
      dp_mint = (\<lambda>aid now. then_p (mintSessionReadiness (runner_account c) (ev_policyVersion c) aid now
         (now + ev_readinessMinutes c * 60000)) (return_p ())),
      dp_due = dueScheduledLeadIds,
      dp_sendOne = sendOne sha256 ex (buildSendConfig c),
      dp_enroll = (\<lambda>lid aid. bind_p (enrollConfirmedSendFromAttempt intl sha256 (ev_sequencePolicy c) lid aid
         None (Some ''scheduler'')) (\<lambda>r. return_p (enrollment_of (br_outcome r))))\<rparr>"

definition scheduled_run :: "intl \<Rightarrow> digest \<Rightarrow> bool \<Rightarrow> run_env \<Rightarrow> ('a runner_db_scheme, run_report) prog" where
  "scheduled_run intl sha256 ex c = runScheduledSends (run_deps_of intl sha256 ex c)"

end
