(* ===== verification/Scheduled_Claims.thy ===== *)
theory Scheduled_Claims
  imports Outreach_Operations Scheduled_Run "HOL-Library.Multiset"
begin

text \<open>
  Properties of the automated run (\<^verbatim>\<open>src/src/domain/send/scheduled-send-runner.ts\<close> with the effects of
  \<^verbatim>\<open>src/src/cli/commands/run-scheduled-sends.ts\<close>): the bridge to outreach tracking never sends and heals
  what it enrolls, the run sends no more than its authorization allows, and a follow-up is re-checked
  before it is sent.
\<close>

section \<open>The bridge\<close>

text \<open>What tracking may change: the outreach tables, whose history only grows, the campaigns, and the
  clock and the identifiers drawn.\<close>

definition tracks :: "'a suite_db_scheme \<Rightarrow> 'a suite_db_scheme \<Rightarrow> bool" where
  "tracks s s' \<longleftrightarrow> s' = s\<lparr>outreach := outreach s', t_campaigns := t_campaigns s',
       lead_ticks := lead_ticks s', lead_drawn := lead_drawn s'\<rparr>
     \<and> extends_history (outreach s) (outreach s')"

lemma tracks_keeps:
  assumes "tracks s s'"
  shows "t_attempts s' = t_attempts s" "gm_sent s' = gm_sent s" "t_authorizations s' = t_authorizations s"
    "t_gmail_drafts s' = t_gmail_drafts s" "t_finalizations s' = t_finalizations s"
    "t_schedules s' = t_schedules s" "t_leads s' = t_leads s" "t_readiness s' = t_readiness s"
proof -
  obtain o1 c k d where "s' = s\<lparr>outreach := o1, t_campaigns := c, lead_ticks := k, lead_drawn := d\<rparr>"
    using assms unfolding tracks_def by blast
  then show "t_attempts s' = t_attempts s" "gm_sent s' = gm_sent s" "t_authorizations s' = t_authorizations s"
    "t_gmail_drafts s' = t_gmail_drafts s" "t_finalizations s' = t_finalizations s"
    "t_schedules s' = t_schedules s" "t_leads s' = t_leads s" "t_readiness s' = t_readiness s"
    by simp_all
qed

lemma tracks_refl: "tracks s s"
  by (simp add: tracks_def hist.frame_refl)

lemma tracks_trans: "tracks s t \<Longrightarrow> tracks t u \<Longrightarrow> tracks s u"
  unfolding tracks_def
proof (elim conjE, intro conjI)
  assume t: "t = s\<lparr>outreach := outreach t, t_campaigns := t_campaigns t, lead_ticks := lead_ticks t,
      lead_drawn := lead_drawn t\<rparr>"
    and u: "u = t\<lparr>outreach := outreach u, t_campaigns := t_campaigns u, lead_ticks := lead_ticks u,
      lead_drawn := lead_drawn u\<rparr>"
  show "u = s\<lparr>outreach := outreach u, t_campaigns := t_campaigns u, lead_ticks := lead_ticks u,
      lead_drawn := lead_drawn u\<rparr>"
    by (subst u, subst t) simp
qed (rule hist.frame_trans)

interpretation tracks: prog_frame tracks
  by unfold_locales (rule tracks_refl, rule tracks_trans)

named_theorems tracks_parts \<open>statements that only track\<close>

lemma tracks_clock [tracks_parts]: "keeps tracks readClock"
  and tracks_uuid [tracks_parts]: "keeps tracks newUUID"
  by (rule keepsI, auto simp: readClock_def newUUID_def tracks_def hist.frame_refl)+

lemma tracks_outreach_p [tracks_parts]: "ensures sound_stmt m \<Longrightarrow> keeps tracks (outreach_p m)"
  by (rule keepsI)
     (auto simp: outreach_p_def tracks_def sound_stmt_def hist.frame_refl dest: ensuresD
       split: sum.splits prod.splits)

lemma tracks_campaign [tracks_parts]: "keeps tracks (campaign_named name policy)"
proof -
  have "keeps tracks (insertCampaign name policy tz)" for tz
    unfolding insertCampaign_def Let_def
    by (intro tracks.keeps_bind tracks_parts keepsI)
       (auto simp: tracks_def extends_history_def split: if_splits)
  then show ?thesis
    unfolding campaign_named_def getCampaignByName_def by (intro tracks.keeps_all)
qed

lemma tracks_route [tracks_parts]: "keeps tracks (enroll_route intl sha256 policy ed sent common rec)"
  unfolding enroll_route_def Let_def
  by (intro tracks.keeps_all tracks_parts sound_enrollSend sound_enrollFollowup)

lemma tracks_bridge: "keeps tracks (enrollConfirmedSendFromAttempt intl sha256 policy lid aid camp by_whom)"
  unfolding enrollConfirmedSendFromAttempt_def
  by (intro tracks.keeps_bind tracks.keeps_read)
     (auto split: option.splits sum.splits prod.splits track_outcome.splits
       intro!: tracks.keeps_all tracks_parts sound_track)

lemma outreach_p_Inr: "outreach_p m s = (Inr x, s') \<longleftrightarrow> (\<exists>o1. m (outreach s) = Inr (x, o1) \<and> s' = s\<lparr>outreach := o1\<rparr>)"
  by (auto simp: outreach_p_def split: sum.splits prod.splits)

definition known_message :: "string \<Rightarrow> outreach_db \<Rightarrow> bool" where
  "known_message mid s \<longleftrightarrow> (\<exists>m \<in> set (t_messages s). om_gmailMessageId m = Some mid)"

lemma known_message_later: "extends_history s s' \<Longrightarrow> known_message mid s \<Longrightarrow> known_message mid s'"
  unfolding known_message_def extends_history_def by (meson in_mono set_mono_prefix)

lemma enrolled_send_known:
  assumes "enrollConfirmedSend intl sha256 now i s = Inr (r, s')"
    and "er_outcome r = ENROLLED \<or> er_outcome r = ALREADY_ENROLLED"
  shows "known_message (ei_gmailMessageId i) s'"
proof (cases "er_outcome r = ENROLLED")
  case True
  then show ?thesis
    using enrolled_message_stored(1) [OF assms(1)] by (simp add: known_message_def)
next
  case False
  then have "\<exists>m. find (\<lambda>m. om_gmailMessageId m = Some (ei_gmailMessageId i)) (t_messages s) = Some m \<and> s' = s"
    using assms unfolding enrollConfirmedSend_def Let_def findMessageByGmailMessageId_def
    by (auto simp: bind_tx_eq_Inr then_tx_eq_Inr require_eq_Inr split: option.splits if_splits)
  then show ?thesis
    unfolding known_message_def by (blast dest: find_SomeD)
qed

lemma enrolled_followup_known:
  assumes "enrollConfirmedFollowup intl sha256 now i st s = Inr (r, s')"
    and "ef_outcome r = ENROLLED \<or> ef_outcome r = ALREADY_ENROLLED"
  shows "known_message (ei_gmailMessageId i) s'"
proof (cases "ef_outcome r = ENROLLED")
  case True
  then obtain m s0 u s1 rest where m: "om_gmailMessageId m = Some (ei_gmailMessageId i)"
    and ins: "insertMessage m s0 = Inr (u, s1)"
    and rest: "rest s1 = Inr (r, s')" "ensures sound_stmt rest"
  proof -
    assume *: "\<And>m s0 u s1 rest. om_gmailMessageId m = Some (ei_gmailMessageId i) \<Longrightarrow>
      insertMessage m s0 = Inr (u, s1) \<Longrightarrow> rest s1 = Inr (r, s') \<Longrightarrow> ensures sound_stmt rest \<Longrightarrow> thesis"
    show thesis
      using assms True unfolding enrollConfirmedFollowup_def Let_def findMessageByGmailMessageId_def
      apply (auto simp: bind_tx_eq_Inr require_eq_Inr enroll_nothing_def split: option.splits if_splits)
      apply (subst (asm) then_tx_eq_Inr)
      apply (elim exE conjE)
      apply (rule *)
         prefer 2
         apply assumption
        apply (simp add: enrolled_message_def)
       apply assumption
      apply (intro sound_intros)
      done
  qed
  have "extends_history s1 s'"
    using ensuresD [OF rest(2,1)] by (simp add: sound_stmt_def)
  then show ?thesis
    using insert_then_history [OF ins] m by (auto simp: known_message_def)
next
  case False
  then have "\<exists>m. find (\<lambda>m. om_gmailMessageId m = Some (ei_gmailMessageId i)) (t_messages s) = Some m \<and> s' = s"
    using assms unfolding enrollConfirmedFollowup_def Let_def findMessageByGmailMessageId_def
    by (auto simp: bind_tx_eq_Inr then_tx_eq_Inr require_eq_Inr enroll_nothing_def split: option.splits if_splits)
  then show ?thesis
    unfolding known_message_def by (blast dest: find_SomeD)
qed

lemma refused_outcome [simp]: "br_outcome (refused why) = BO_REFUSED"
  by (simp add: refused_def)

definition tracked_outcome :: "bridge_outcome \<Rightarrow> bool" where
  "tracked_outcome x \<longleftrightarrow> x = BO_ENROLLED \<or> x = BO_ALREADY_ENROLLED"

lemma tracked_outcome_of [simp]:
  "tracked_outcome (bridge_outcome_of x) \<longleftrightarrow> x = ENROLLED \<or> x = ALREADY_ENROLLED"
  "\<not> tracked_outcome BO_REFUSED"
  by (cases x; simp add: tracked_outcome_def)+

lemma enroll_route_known:
  assumes "enroll_route intl sha256 policy ed sent common rec s = (Inr r, s')" and "tracked_outcome (br_outcome r)"
  shows "known_message (fst sent) (outreach s')"
proof -
  have mid: "ei_gmailMessageId (enroll_input_of ed policy (or_id rec) sent) = fst sent"
    by (simp add: enroll_input_of_def Let_def split: prod.splits)
  show ?thesis
    using assms unfolding enroll_route_def Let_def
    by (auto simp: prog_simps outreach_p_Inr initial_result_def followup_result_def
        simp flip: mid split: if_splits option.splits
        dest!: enrolled_send_known enrolled_followup_known)
qed

text \<open>An attempt is linked when it is confirmed and its message is on a timeline.\<close>

definition linked :: "'a suite_db_scheme \<Rightarrow> string \<Rightarrow> bool" where
  "linked s aid \<longleftrightarrow> (\<exists>a mid. attempt_of s aid = Some a \<and> sa_providerMessageId a = Some mid
     \<and> confirmed_attempt a \<and> known_message mid (outreach s))"

lemma linked_later: "tracks s s' \<Longrightarrow> linked s aid \<Longrightarrow> linked s' aid"
  using tracks_keeps(1) [of s s'] by (auto simp: linked_def attempt_of_def tracks_def dest: known_message_later)

lemma bridge_links:
  assumes "enrollConfirmedSendFromAttempt intl sha256 policy lid aid camp by_whom s = (Inr r, s')"
    and "tracked_outcome (br_outcome r)"
  shows "linked s' aid"
proof -
  obtain ed where ed: "load_attempt aid s = Some ed"
    using assms by (auto simp: enrollConfirmedSendFromAttempt_def prog_simps split: option.splits)
  obtain mid tid at_time where ok: "enrollment_checks lid ed = Inr (mid, tid, at_time)"
    using assms ed by (cases "enrollment_checks lid ed")
      (auto simp: enrollConfirmedSendFromAttempt_def prog_simps)
  have "known_message mid (outreach s')"
    using assms ed ok unfolding enrollConfirmedSendFromAttempt_def
    by (auto simp: prog_simps split: track_outcome.splits option.splits dest: enroll_route_known)
      (metis track_outcome.exhaust)+
  moreover have "attempt_of s' aid = Some (ed_attempt ed)"
    using ed tracks_keeps(1) [OF keepsD [OF tracks_bridge assms(1)]]
    by (auto simp: load_attempt_def attempt_of_def split: option.splits)
  moreover have "sa_providerMessageId (ed_attempt ed) = Some mid" "confirmed_attempt (ed_attempt ed)"
    using ok by (auto simp: enrollment_checks_def Let_def text_of_def split: if_splits option.splits)
  ultimately show ?thesis by (auto simp: linked_def)
qed

lemma linked_not_listed:
  assumes "distinct (map sa_id (t_attempts s))" and "linked s aid"
  shows "(lid, aid) \<notin> set (unenrolled_sends s)"
proof
  assume "(lid, aid) \<in> set (unenrolled_sends s)"
  then obtain b where b: "b \<in> set (t_attempts s)" "sa_id b = aid"
    and none: "\<not> list_ex (\<lambda>m. om_gmailMessageId m = sa_providerMessageId b) (t_messages (outreach s))"
    by (auto simp: unenrolled_sends_def Let_def)
  obtain a mid where a: "attempt_of s aid = Some a" "sa_providerMessageId a = Some mid"
    and known: "known_message mid (outreach s)"
    using assms(2) by (auto simp: linked_def)
  have "a = b"
    using a(1) b assms(1) by (auto simp: attempt_of_def distinct_map inj_on_def dest!: find_SomeD)
  then show False
    using none known a(2) by (auto simp: known_message_def list_ex_iff)
qed

lemma unenrolled_shrinks:
  assumes "tracks s s'"
  shows "set (unenrolled_sends s') \<subseteq> set (unenrolled_sends s)"
proof -
  have "known_message mid (outreach s')" if "known_message mid (outreach s)" for mid
    using that assms known_message_later by (auto simp: tracks_def)
  then show ?thesis
    using tracks_keeps(1) [OF assms]
    by (fastforce simp: unenrolled_sends_def Let_def known_message_def list_ex_iff)
qed

section \<open>The recovery phase\<close>

lemma try_enroll_real:
  assumes "try_enroll (run_deps_of intl sha256 ex c) lid aid s = (x, s')"
  shows "\<exists>o1. x = Inr o1 \<and> tracks s s' \<and> (o1 = EN_ENROLLED \<or> o1 = EN_ALREADY_ENROLLED \<longrightarrow> linked s' aid)"
proof -
  obtain y s1 where y: "enrollConfirmedSendFromAttempt intl sha256 (ev_sequencePolicy c) lid aid None
      (Some ''scheduler'') s = (y, s1)" by fastforce
  have t: "tracks s s1"
    by (rule keepsD [OF tracks_bridge y])
  show ?thesis
  proof (cases y)
    case (Inl e)
    then show ?thesis
      using assms y t by (auto simp: try_enroll_def run_deps_of_def)
  next
    case (Inr r)
    have "linked s1 aid" if "enrollment_of (br_outcome r) = EN_ENROLLED \<or> enrollment_of (br_outcome r) = EN_ALREADY_ENROLLED"
      using that bridge_links [OF y [unfolded Inr]]
      by (cases "br_outcome r") (auto simp: tracked_outcome_def)
    then show ?thesis
      using assms y t Inr by (auto simp: try_enroll_def run_deps_of_def)
  qed
qed

definition entry_key :: "recovery_entry \<Rightarrow> string \<times> string" where
  "entry_key e = (re_leadId e, re_attemptId e)"

definition entries :: "run_report \<Rightarrow> recovery_entry list" where
  "entries rp = rp_recovered rp @ rp_recoveryFailures rp"

lemma recover_loop_real:
  assumes "recover_loop (run_deps_of intl sha256 ex c) ps rp s = (x, s')"
    and "\<forall>e \<in> set (rp_recovered rp). linked s (re_attemptId e)"
  shows "\<exists>rp'. x = Inr rp' \<and> tracks s s' \<and> mset (map entry_key (entries rp')) = mset (map entry_key (entries rp)) + mset ps
    \<and> (\<forall>e \<in> set (rp_recovered rp'). linked s' (re_attemptId e))"
  using assms
proof (induction ps arbitrary: rp s)
  case Nil
  then show ?case by (auto simp: tracks.refl)
next
  case (Cons p ps)
  obtain lid aid where p: "p = (lid, aid)" by (cases p)
  obtain y s1 where y: "try_enroll (run_deps_of intl sha256 ex c) lid aid s = (y, s1)" by fastforce
  from try_enroll_real [OF y] obtain o1 where o1: "y = Inr o1" and t: "tracks s s1"
    and link: "o1 = EN_ENROLLED \<or> o1 = EN_ALREADY_ENROLLED \<longrightarrow> linked s1 aid" by blast
  let ?rp = "add_recovery \<lparr>re_leadId = lid, re_attemptId = aid, re_outcome = o1\<rparr> rp"
  have run: "recover_loop (run_deps_of intl sha256 ex c) ps ?rp s1 = (x, s')"
    using Cons.prems(1) y o1 p by simp
  have "\<forall>e \<in> set (rp_recovered ?rp). linked s1 (re_attemptId e)"
    using Cons.prems(2) linked_later [OF t] link by (auto simp: add_recovery_def)
  from Cons.IH [OF run this] obtain rp' where rp': "x = Inr rp'" "tracks s1 s'"
      "mset (map entry_key (entries rp')) = mset (map entry_key (entries ?rp)) + mset ps"
      "\<forall>e \<in> set (rp_recovered rp'). linked s' (re_attemptId e)" by blast
  moreover have "mset (map entry_key (entries ?rp)) = mset (map entry_key (entries rp)) + {#p#}"
    by (simp add: add_recovery_def entries_def entry_key_def p)
  ultimately show ?case
    using tracks.trans [OF t] by auto
qed

text \<open>C9: The recovery that starts every automated run never throws and never sends: it writes only tracking
  data, and no attempt. It accounts for each confirmed send on its worklist exactly once, the worklist
  only gets shorter, and whatever it reports as recovered is off the worklist afterwards.\<close>

theorem recovery_heals:
  assumes "recovery_phase (run_deps_of intl sha256 ex c) s = (x, s')" and "distinct (map sa_id (t_attempts s))"
  shows "\<exists>rp. x = Inr rp \<and> gm_sent s' = gm_sent s \<and> t_attempts s' = t_attempts s
    \<and> mset (map entry_key (rp_recovered rp @ rp_recoveryFailures rp))
        = (if ev_trackingEnabled c then mset (take 50 (unenrolled_sends s)) else {#})
    \<and> set (unenrolled_sends s') \<subseteq> set (unenrolled_sends s) - set (map entry_key (rp_recovered rp))"
proof -
  have "\<exists>rp. x = Inr rp \<and> tracks s s' \<and> mset (map entry_key (entries rp))
        = (if ev_trackingEnabled c then mset (take 50 (unenrolled_sends s)) else {#})
      \<and> (\<forall>e \<in> set (rp_recovered rp). linked s' (re_attemptId e))"
  proof (cases "ev_trackingEnabled c")
    case True
    then have "recover_loop (run_deps_of intl sha256 ex c) (take 50 (unenrolled_sends s)) empty_report s = (x, s')"
      using assms(1) by (simp add: recovery_phase_def run_deps_of_def unenrolledConfirmedSends_def bind_p_def)
    from recover_loop_real [OF this] True show ?thesis
      by (simp add: empty_report_def entries_def)
  next
    case False
    then show ?thesis
      using assms(1) by (auto simp: recovery_phase_def run_deps_of_def empty_report_def entries_def tracks.refl)
  qed
  then obtain rp where rp: "x = Inr rp" and t: "tracks s s'"
    and acc: "mset (map entry_key (entries rp)) = (if ev_trackingEnabled c then mset (take 50 (unenrolled_sends s)) else {#})"
    and link: "\<forall>e \<in> set (rp_recovered rp). linked s' (re_attemptId e)" by blast
  have "entry_key e \<notin> set (unenrolled_sends s')" if "e \<in> set (rp_recovered rp)" for e
    using linked_not_listed [of s' "re_attemptId e"] link that assms(2) tracks_keeps(1) [OF t]
    by (simp add: entry_key_def)
  then show ?thesis
    using rp acc unenrolled_shrinks [OF t] tracks_keeps(1,2) [OF t] by (auto simp: entries_def)
qed

section \<open>The orchestration under its contract\<close>

text \<open>What the injected effects promise: all but the reservation of a session and the send itself keep a
  frame under which nothing is dispatched, the worklist respects its limit, and one attempt dispatches at
  most one draft.\<close>

locale scheduled_effects = prog_frame R for R :: "'s \<Rightarrow> 's \<Rightarrow> bool" +
  fixes dp :: "'s run_deps" and sent :: "'s \<Rightarrow> string list"
  assumes sent_kept: "R s s' \<Longrightarrow> sent s' = sent s"
    and now_kept: "keeps R (dp_now dp)"
    and unenrolled_kept: "keeps R (dp_unenrolled dp)"
    and enroll_kept: "keeps R (dp_enroll dp lid aid)"
    and authorization_kept: "keeps R (dp_authorization dp now)"
    and today_kept: "keeps R (dp_sentToday dp now)"
    and due_kept: "keeps R (dp_due dp now limit)"
    and mint_sent: "dp_mint dp auth now s = (u, s') \<Longrightarrow> sent s' = sent s"
    and due_limit: "dp_due dp now limit s = (Inr ls, s') \<Longrightarrow> 0 < limit \<Longrightarrow> int (length ls) \<le> limit"
    and one_dispatch: "dp_sendOne dp lid auth s = (r, s') \<Longrightarrow> \<exists>ds. sent s' = sent s @ ds \<and> length ds \<le> 1"
begin

lemma try_enroll_kept: "keeps R (try_enroll dp lid aid)"
proof (rule keepsI)
  fix s x s' assume "try_enroll dp lid aid s = (x, s')"
  then show "R s s'"
    using enroll_kept [of lid aid] unfolding try_enroll_def
    by (auto split: prod.splits sum.splits dest: keepsD)
qed

lemma recover_kept: "keeps R (recover_loop dp ps rp)"
  by (induction ps arbitrary: rp) (auto intro!: keeps_return keeps_bind try_enroll_kept)

lemma recovery_kept: "keeps R (recovery_phase dp)"
  unfolding recovery_phase_def by (intro keeps_if keeps_bind unenrolled_kept recover_kept keeps_return)

lemma send_loop_sent:
  "send_loop dp auth capacity ls rp s = (x, s') \<Longrightarrow> \<exists>ds. sent s' = sent s @ ds \<and> length ds \<le> length ls"
proof (induction ls arbitrary: rp s)
  case Nil
  then show ?case by simp
next
  case (Cons lid ls)
  obtain y s1 where y: "dp_sendOne dp lid auth s = (y, s1)" by fastforce
  obtain ds where ds: "sent s1 = sent s @ ds" "length ds \<le> 1"
    using one_dispatch [OF y] by blast
  have more: "\<exists>ds. sent s' = sent s @ ds \<and> length ds \<le> length (lid # ls)"
    if "send_loop dp auth capacity ls rp2 s2 = (x, s')" "sent s2 = sent s1" for rp2 s2
  proof -
    from Cons.IH [OF that(1)] obtain es where "sent s' = sent s2 @ es" "length es \<le> length ls" by blast
    then show ?thesis using ds that(2) by (intro exI [of _ "ds @ es"]) simp
  qed
  have stop: "\<exists>ds. sent s' = sent s @ ds \<and> length ds \<le> length (lid # ls)" if "s' = s1 \<or> s' = s"
    using that ds by (auto intro: exI [of _ ds])
  show ?case
  proof (cases "int (length (rp_sent rp)) \<ge> capacity")
    case True
    then show ?thesis using Cons.prems stop by simp
  next
    case go: False
    show ?thesis
    proof (cases y)
      case (Inl e)
      then show ?thesis using Cons.prems go y stop by simp
    next
      case (Inr r)
      obtain z s2 where z: "try_enroll dp lid (text_of (so_attemptId r)) s1 = (z, s2)" by fastforce
      have s2: "sent s2 = sent s1"
        by (rule sent_kept [OF keepsD [OF try_enroll_kept z]])
      obtain o1 where o1: "z = Inr o1"
        using z by (auto simp: try_enroll_def split: prod.splits sum.splits)
      show ?thesis
        using Cons.prems go y Inr z o1 s2 more stop by (auto simp: Let_def split: if_splits)
    qed
  qed
qed

text \<open>Every lead tried is in exactly one list of the report; an unknown outcome is the last thing done.\<close>

lemma send_loop_report:
  "send_loop dp auth capacity ls rp s = (Inr rp', s') \<Longrightarrow>
   rp_attempted rp' \<le> rp_attempted rp + length ls
     \<and> length (rp_sent rp') + length (rp_unknown rp') + length (rp_failures rp') + rp_attempted rp
       = length (rp_sent rp) + length (rp_unknown rp) + length (rp_failures rp) + rp_attempted rp'
     \<and> (rp_unknown rp' = rp_unknown rp \<or> (\<exists>lid s1 r. lid \<in> set ls \<and> dp_sendOne dp lid auth s1 = (Inr r, s')
           \<and> so_outcome r = OC_OUTCOME_UNKNOWN \<and> rp_unknown rp' = rp_unknown rp @ [(lid, so_attemptId r)]))
     \<and> rp_authorizationId rp' = rp_authorizationId rp \<and> rp_capacity rp' = rp_capacity rp
     \<and> rp_recovered rp' = rp_recovered rp \<and> rp_outcome rp' = rp_outcome rp"
proof (induction ls arbitrary: rp s)
  case Nil
  then show ?case by simp
next
  case (Cons lid ls)
  show ?case
  proof (cases "int (length (rp_sent rp)) \<ge> capacity")
    case True
    then show ?thesis using Cons.prems by auto
  next
    case False
    then obtain r s1 where r: "dp_sendOne dp lid auth s = (Inr r, s1)"
      using Cons.prems by (auto elim!: bind_p_InrE)
    obtain z s2 where z: "try_enroll dp lid (text_of (so_attemptId r)) s1 = (z, s2)" by fastforce
    obtain o1 where o1: "z = Inr o1"
      using z by (auto simp: try_enroll_def split: prod.splits sum.splits)
    consider (sent) rp2 where "send_loop dp auth capacity ls rp2 s2 = (Inr rp', s')"
        "rp2 = rp\<lparr>rp_attempted := Suc (rp_attempted rp), rp_sent := rp_sent rp @
            [\<lparr>re_leadId = lid, re_attemptId = text_of (so_attemptId r), re_outcome = o1\<rparr>]\<rparr>"
      | (unknown) "so_outcome r = OC_OUTCOME_UNKNOWN" "s' = s1"
        "rp' = rp\<lparr>rp_attempted := Suc (rp_attempted rp), rp_unknown := rp_unknown rp @ [(lid, so_attemptId r)]\<rparr>"
      | (failed) rp2 where "send_loop dp auth capacity ls rp2 s1 = (Inr rp', s')"
        "rp2 = rp\<lparr>rp_attempted := Suc (rp_attempted rp),
           rp_failures := rp_failures rp @ [(lid, so_outcome r, so_reason r)]\<rparr>"
      using Cons.prems False r z o1 by (auto simp: Let_def split: if_splits)
    then show ?thesis
    proof cases
      case sent
      from Cons.IH [OF sent(1)] sent(2) show ?thesis
        by auto
    next
      case unknown
      then show ?thesis using r by auto
    next
      case failed
      from Cons.IH [OF failed(1)] failed(2) show ?thesis
        by auto
    qed
  qed
qed

end

context scheduled_effects begin

lemma recover_report:
  "recover_loop dp ps rp s = (Inr rp', s') \<Longrightarrow> rp_sent rp' = rp_sent rp \<and> rp_unknown rp' = rp_unknown rp
     \<and> rp_failures rp' = rp_failures rp \<and> rp_attempted rp' = rp_attempted rp \<and> rp_capacity rp' = rp_capacity rp"
  by (induction ps arbitrary: rp s) (force simp: add_recovery_def elim!: bind_p_InrE)+

lemma recovery_report:
  assumes "recovery_phase dp s = (Inr rp, s')"
  shows "rp_sent rp = []" "rp_unknown rp = []" "rp_failures rp = []" "rp_attempted rp = 0" "rp_capacity rp = 0"
  using assms recover_report
  by (fastforce simp: recovery_phase_def empty_report_def elim!: bind_p_InrE split: if_splits)+

text \<open>The sending phase: nothing is dispatched, or everything was open and the capacity bounds it.\<close>

lemma sending_dispatch:
  assumes "sending_phase dp now rp s = (x, s')"
  shows "sent s' = sent s \<or> (\<exists>auth m today s1 s2 ds. gates_closed (dp_gates dp) = None
    \<and> dp_authorization dp now s = (Inr (Some (auth, m)), s1) \<and> dp_sentToday dp now s1 = (Inr today, s2)
    \<and> sent s' = sent s @ ds \<and> int (length ds) \<le> min (dp_dailyCap dp) m - today)"
proof (cases "gates_closed (dp_gates dp)")
  case (Some g)
  then show ?thesis using assms by (simp add: sending_phase_def)
next
  case open_gates: None
  obtain y s1 where y: "dp_authorization dp now s = (y, s1)" by fastforce
  have k1: "sent s1 = sent s"
    by (rule sent_kept [OF keepsD [OF authorization_kept y]])
  show ?thesis
  proof (cases "\<exists>auth m. y = Inr (Some (auth, m))")
    case False
    then have "s' = s1"
      using assms open_gates y by (cases y) (auto simp: sending_phase_def bind_p_def split: option.splits)
    then show ?thesis using k1 by simp
  next
    case True
    then obtain auth m where am: "y = Inr (Some (auth, m))" by blast
    obtain z s2 where z: "dp_sentToday dp now s1 = (z, s2)" by fastforce
    have k2: "sent s2 = sent s"
      using sent_kept [OF keepsD [OF today_kept z]] k1 by simp
    show ?thesis
    proof (cases z)
      case (Inl e)
      then show ?thesis using assms open_gates y am z k2 by (simp add: sending_phase_def bind_p_def)
    next
      case (Inr today)
      let ?cap = "max 0 (min (dp_dailyCap dp) m - today)"
      let ?rp = "rp\<lparr>rp_authorizationId := Some auth, rp_capacity := ?cap\<rparr>"
      show ?thesis
      proof (cases "?cap \<le> 0")
        case True
        then show ?thesis using assms open_gates y am z Inr k2 by (simp add: sending_phase_def Let_def bind_p_def)
      next
        case pos: False
        obtain u s3 where u: "dp_mint dp auth now s2 = (u, s3)" by fastforce
        have k3: "sent s3 = sent s" using mint_sent [OF u] k2 by simp
        have run: "then_p (dp_mint dp auth now)
            (bind_p (dp_due dp now ?cap) (\<lambda>ls. send_loop dp auth ?cap ls ?rp)) s2 = (x, s')"
          using assms open_gates y am z Inr pos by (simp add: sending_phase_def Let_def bind_p_def)
        obtain d s4 where d: "dp_due dp now ?cap s3 = (d, s4)" by fastforce
        have k4: "sent s4 = sent s" using sent_kept [OF keepsD [OF due_kept d]] k3 by simp
        have "\<exists>ds. sent s' = sent s @ ds \<and> int (length ds) \<le> ?cap"
        proof (cases "\<exists>v ls. u = Inr v \<and> d = Inr ls")
          case False
          then have "s' = s3 \<or> s' = s4"
            using run u d by (cases u; cases d) auto
          then show ?thesis using k3 k4 by auto
        next
          case True
          then obtain v ls where "u = Inr v" and ls: "d = Inr ls" by blast
          then have "send_loop dp auth ?cap ls ?rp s4 = (x, s')" using run u d by simp
          from send_loop_sent [OF this] due_limit [OF d [unfolded ls]] pos k4 show ?thesis by fastforce
        qed
        moreover have "?cap = min (dp_dailyCap dp) m - today" using pos by simp
        ultimately show ?thesis using open_gates y am z Inr by auto
      qed
    qed
  qed
qed

lemma run_dispatch:
  assumes "runScheduledSends dp s = (x, s')"
  shows "sent s' = sent s \<or> (\<exists>now s1 s2 auth m today s3 s4 ds. dp_now dp s = (Inr now, s1) \<and> R s1 s2
    \<and> gates_closed (dp_gates dp) = None \<and> dp_authorization dp now s2 = (Inr (Some (auth, m)), s3)
    \<and> dp_sentToday dp now s3 = (Inr today, s4)
    \<and> sent s' = sent s @ ds \<and> int (length ds) \<le> min (dp_dailyCap dp) m - today)"
proof -
  obtain y s1 where y: "dp_now dp s = (y, s1)" by fastforce
  have k1: "sent s1 = sent s" by (rule sent_kept [OF keepsD [OF now_kept y]])
  show ?thesis
  proof (cases y)
    case (Inl e)
    then show ?thesis using assms y k1 by (simp add: runScheduledSends_def)
  next
    case (Inr now)
    obtain z s2 where z: "recovery_phase dp s1 = (z, s2)" by fastforce
    have r: "R s1 s2" by (rule keepsD [OF recovery_kept z])
    then have k2: "sent s2 = sent s" using sent_kept k1 by simp
    show ?thesis
    proof (cases z)
      case (Inl e)
      then show ?thesis using assms y Inr z k2 by (simp add: runScheduledSends_def)
    next
      case rp: (Inr rp)
      then have "sending_phase dp now rp s2 = (x, s')"
        using assms y Inr z by (simp add: runScheduledSends_def)
      from sending_dispatch [OF this] k2 y Inr r show ?thesis by auto
    qed
  qed
qed

lemma run_report:
  assumes "runScheduledSends dp s = (Inr rp, s')"
  shows "rp_attempted rp = length (rp_sent rp) + length (rp_unknown rp) + length (rp_failures rp)"
    and "int (rp_attempted rp) \<le> rp_capacity rp"
    and "rp_unknown rp = [] \<or> (\<exists>lid auth s1 r. dp_sendOne dp lid auth s1 = (Inr r, s')
      \<and> so_outcome r = OC_OUTCOME_UNKNOWN \<and> rp_unknown rp = [(lid, so_attemptId r)])"
proof -
  obtain now rp0 s1 s2 where rec: "recovery_phase dp s1 = (Inr rp0, s2)" and run: "sending_phase dp now rp0 s2 = (Inr rp, s')"
    using assms by (auto simp: runScheduledSends_def elim!: bind_p_InrE)
  note zero = recovery_report [OF rec]
  have "rp_attempted rp = length (rp_sent rp) + length (rp_unknown rp) + length (rp_failures rp)
    \<and> int (rp_attempted rp) \<le> rp_capacity rp
    \<and> (rp_unknown rp = [] \<or> (\<exists>lid auth s1 r. dp_sendOne dp lid auth s1 = (Inr r, s')
      \<and> so_outcome r = OC_OUTCOME_UNKNOWN \<and> rp_unknown rp = [(lid, so_attemptId r)]))"
  proof (cases "\<exists>auth cap ls s3 s4. 0 < cap \<and> dp_due dp now cap s3 = (Inr ls, s4) \<and> send_loop dp auth cap ls
        (rp0\<lparr>rp_authorizationId := Some auth, rp_capacity := cap\<rparr>) s4 = (Inr rp, s')")
    case True
    then obtain auth cap ls s3 s4 where pos: "0 < cap" and due: "dp_due dp now cap s3 = (Inr ls, s4)"
      and loop: "send_loop dp auth cap ls (rp0\<lparr>rp_authorizationId := Some auth, rp_capacity := cap\<rparr>) s4 = (Inr rp, s')"
      by blast
    from send_loop_report [OF loop] due_limit [OF due pos] zero show ?thesis by auto
  next
    case False
    then have "rp_sent rp = [] \<and> rp_unknown rp = [] \<and> rp_failures rp = [] \<and> rp_attempted rp = 0 \<and> 0 \<le> rp_capacity rp"
      using run zero unfolding sending_phase_def Let_def
      by (auto simp: then_p_Inr elim!: bind_p_InrE split: option.splits if_splits)
    then show ?thesis by simp
  qed
  then show "rp_attempted rp = length (rp_sent rp) + length (rp_unknown rp) + length (rp_failures rp)"
    and "int (rp_attempted rp) \<le> rp_capacity rp"
    and "rp_unknown rp = [] \<or> (\<exists>lid auth s1 r. dp_sendOne dp lid auth s1 = (Inr r, s')
      \<and> so_outcome r = OC_OUTCOME_UNKNOWN \<and> rp_unknown rp = [(lid, so_attemptId r)])"
    by blast+
qed

end

section \<open>The effects of the command\<close>

lemma quiet_startRun [quiet_parts]: "keeps quiet startRun"
  unfolding startRun_def
  by (intro quiet.keeps_bind quiet.keeps_then quiet_parts keepsI) (auto simp: quiet_def split: if_splits)

lemma quiet_getRunId [quiet_parts]: "keeps quiet getRunId"
  unfolding getRunId_def
  by (intro quiet.keeps_all quiet_parts quiet.keeps_write) (simp add: quiet_def)

lemma quiet_attempt_of_result [quiet_parts]: "keeps quiet (attempt_of_result lid oc)"
  unfolding attempt_of_result_def latestConfirmedAttemptId_def latestUnknownAttemptId_def
  by (intro quiet.keeps_all)

lemma confirmed_sendOne_sent:
  assumes "confirmed_sendOne sha256 ex cf i pf lid auth s = (x, s')"
  shows "gm_sent s' = gm_sent s \<or> (\<exists>s1 now. quiet s s1
    \<and> cleared SESSION sha256 cf (i\<lparr>in_preflightProof := Some pf, in_confirmation := Some
         \<lparr>cv_observedSendFingerprint = pf_sendFingerprint pf, cv_confirmedBy = ''scheduler:'' @ auth,
          cv_confirmedAtMs = now\<rparr>\<rparr>) s1
    \<and> gm_sent s' = gm_sent s @ [draft_to_send i])"
proof -
  obtain now s1 where now: "readClock s = (Inr now, s1)"
    by (simp add: readClock_def)
  obtain g s2 where g: "getRunId s1 = (g, s2)" by fastforce
  have q: "quiet s s2"
    using keepsD [OF quiet_clock now] keepsD [OF quiet_getRunId g] by (rule quiet.trans)
  show ?thesis
  proof (cases g)
    case (Inl e)
    then show ?thesis using assms now g q by (simp add: confirmed_sendOne_def quiet_def)
  next
    case (Inr run)
    let ?i = "i\<lparr>in_preflightProof := Some pf, in_confirmation := Some
         \<lparr>cv_observedSendFingerprint = pf_sendFingerprint pf, cv_confirmedBy = ''scheduler:'' @ auth,
          cv_confirmedAtMs = now\<rparr>\<rparr>"
    obtain r s3 where r: "send SESSION sha256 ex cf ?i run s2 = (r, s3)" by fastforce
    have last: "gm_sent s' = gm_sent s3"
    proof (cases r)
      case (Inl e)
      then show ?thesis using assms now g Inr r by (simp add: confirmed_sendOne_def)
    next
      case ok: (Inr out)
      obtain a s4 where a: "attempt_of_result lid (ro_outcome out) s3 = (a, s4)" by fastforce
      have "s' = s4"
        using assms now g Inr r ok a by (cases a) (auto simp: confirmed_sendOne_def)
      then show ?thesis using keepsD [OF quiet_attempt_of_result a] by (simp add: quiet_def)
    qed
    have "gm_sent s3 = gm_sent s2 \<or> cleared SESSION sha256 cf ?i s2 \<and> gm_sent s3 = gm_sent s2 @ [draft_to_send ?i]"
      using send_sends [OF r] by blast
    moreover have "draft_to_send ?i = draft_to_send i"
      by (simp add: draft_to_send_def)
    ultimately show ?thesis
      using last q by (auto simp: quiet_def)
  qed
qed

lemma sendOne_sent:
  assumes "sendOne sha256 ex cf lid auth s = (x, s')"
  shows "gm_sent s' = gm_sent s \<or> (\<exists>l pf now s1. lead_of s lid = Some l
    \<and> followup_recheck (pending_context_of lid s) = None \<and> quiet s s1
    \<and> cleared SESSION sha256 cf ((base_input l (send_data_of lid s))\<lparr>in_preflightProof := Some pf,
        in_confirmation := Some \<lparr>cv_observedSendFingerprint = pf_sendFingerprint pf,
          cv_confirmedBy = ''scheduler:'' @ auth, cv_confirmedAtMs = now\<rparr>\<rparr>) s1
    \<and> gm_sent s' = gm_sent s @ [draft_to_send (base_input l (send_data_of lid s))])"
proof (cases "lead_of s lid")
  case None
  then show ?thesis using assms by (auto simp: sendOne_def Let_def lead_getById_def)
next
  case (Some l)
  show ?thesis
  proof (cases "in_schedule (send_data_of lid s) = None \<or> followup_recheck (pending_context_of lid s) \<noteq> None")
    case True
    then have "s' = s"
      using assms Some by (auto simp: sendOne_def lead_getById_def bind_p_def latestSendInput_def
          pendingContext_def Let_def split: if_splits)
    then show ?thesis by simp
  next
    case False
    obtain pf s1 where pf: "preflight SESSION sha256 cf (base_input l (send_data_of lid s)) s = (pf, s1)" by fastforce
    have q: "quiet s s1" by (rule keepsD [OF quiet_preflight pf])
    have run: "s' = s1 \<or> (\<exists>p. confirmed_sendOne sha256 ex cf (base_input l (send_data_of lid s)) p lid auth s1 = (x, s'))"
      using assms Some False pf
      by (auto simp: sendOne_def lead_getById_def latestSendInput_def pendingContext_def Let_def bind_p_def
          split: sum.splits option.splits send_outcome.splits)
    then show ?thesis
    proof
      assume "s' = s1"
      then show ?thesis using q by (simp add: quiet_def)
    next
      assume "\<exists>p. confirmed_sendOne sha256 ex cf (base_input l (send_data_of lid s)) p lid auth s1 = (x, s')"
      then obtain p where p: "confirmed_sendOne sha256 ex cf (base_input l (send_data_of lid s)) p lid auth s1 = (x, s')"
        by blast
      from confirmed_sendOne_sent [OF p] show ?thesis
      proof (elim disjE exE conjE)
        assume "gm_sent s' = gm_sent s1"
        then show ?thesis using q by (simp add: quiet_def)
      next
        fix s2 now
        assume "quiet s1 s2" and "cleared SESSION sha256 cf ((base_input l (send_data_of lid s))\<lparr>in_preflightProof := Some p,
          in_confirmation := Some \<lparr>cv_observedSendFingerprint = pf_sendFingerprint p,
          cv_confirmedBy = ''scheduler:'' @ auth, cv_confirmedAtMs = now\<rparr>\<rparr>) s2"
          and "gm_sent s' = gm_sent s1 @ [draft_to_send (base_input l (send_data_of lid s))]"
        then show ?thesis
          using q Some False quiet.trans [OF q] by (intro disjI2 exI conjI) (auto simp: quiet_def)
      qed
    qed
  qed
qed

lemma tracks_reads [tracks_parts]:
  "keeps tracks (unenrolledConfirmedSends n)" "keeps tracks (valid_authorization c now)"
  "keeps tracks (confirmedSendsToday account now)" "keeps tracks (dueScheduledLeadIds now n)"
  unfolding unenrolledConfirmedSends_def valid_authorization_def getActive_def confirmedSendsToday_def
    dueScheduledLeadIds_def
  by (intro tracks.keeps_all)+

lemma mint_not_sent:
  assumes "mintSessionReadiness account policy aid t1 t2 s = (x, s')"
  shows "gm_sent s' = gm_sent s"
  using assms by (auto simp: mintSessionReadiness_def transaction_def bind_p_def then_p_def supersedeReadiness_def
      newUUID_def insertReadiness_def rollback_def split: if_splits prod.splits sum.splits option.splits)

interpretation run: scheduled_effects tracks "run_deps_of intl sha256 ex c" gm_sent
  for intl :: intl and sha256 :: digest and ex :: bool and c :: run_env
proof unfold_locales
  show "gm_sent s' = gm_sent s" if "tracks s s'" for s s' :: "'a runner_db_scheme"
    by (rule tracks_keeps(2) [OF that])
next
  show "gm_sent s' = gm_sent s" if "dp_mint (run_deps_of intl sha256 ex c) auth now s = (u, s')"
    for auth now u and s s' :: "'a runner_db_scheme"
    using that mint_not_sent by (fastforce simp: run_deps_of_def then_p_def split: prod.splits sum.splits)
next
  show "\<exists>ds. gm_sent s' = gm_sent s @ ds \<and> length ds \<le> 1"
    if "dp_sendOne (run_deps_of intl sha256 ex c) lid auth s = (r, s')" for lid auth r and s s' :: "'a runner_db_scheme"
    using sendOne_sent [of sha256 ex "buildSendConfig c" lid auth s r s'] that by (auto simp: run_deps_of_def)
qed (auto simp: run_deps_of_def dueScheduledLeadIds_def intro!: tracks_parts tracks.keeps_bind tracks_bridge
      tracks.keeps_return tracks.keeps_read)

section \<open>The automated run\<close>

definition switches_on :: "run_env \<Rightarrow> bool" where
  "switches_on c \<longleftrightarrow> ev_scheduledSendEnabled c \<and> ev_sendingEnabled c \<and> ev_outboundActionsEnabled c
     \<and> \<not> ev_dryRun c \<and> ev_providerIsHttp c \<and> ev_trackingEnabled c"

lemma gates_of_run: "gates_closed (dp_gates (run_deps_of intl sha256 ex c)) = None \<longleftrightarrow> switches_on c"
  by (auto simp: gates_closed_def run_deps_of_def switches_on_def)

text \<open>C7: One automated run sends nothing unless every switch is on and an authorization of the configured
  account and policy is in force when the run starts; and then it sends at most what the lesser of the
  configured and the authorized daily cap leaves after the sends already confirmed that day. Whatever it
  throws in between, this bound holds.\<close>

theorem automated_run_bounded:
  assumes "scheduled_run intl sha256 ex c s = (x, s')" and "now = lead_clock s (lead_ticks s)"
  shows "gm_sent s' = gm_sent s \<or> switches_on c
    \<and> (\<exists>a \<in> set (t_authorizations s). isAuthorizationValid a now (runner_account c) (ev_policyVersion c)
        \<and> (\<exists>ds. gm_sent s' = gm_sent s @ ds \<and> int (length ds)
             \<le> min (ev_dailyCap c) (au_maxPerDay a) - confirmed_today s (runner_account c) now))"
proof (cases "gm_sent s' = gm_sent s")
  case False
  from run.run_dispatch [OF assms(1) [unfolded scheduled_run_def]] False
  obtain t s1 s2 auth m today s3 s4 ds where t: "readClock s = (Inr t, s1)" and k: "tracks s1 s2"
    and gates: "gates_closed (dp_gates (run_deps_of intl sha256 ex c)) = None"
    and auth: "valid_authorization c t s2 = (Inr (Some (auth, m)), s3)"
    and today: "confirmedSendsToday (runner_account c) t s3 = (Inr today, s4)"
    and ds: "gm_sent s' = gm_sent s @ ds" "int (length ds) \<le> min (ev_dailyCap c) m - today"
    by (auto simp: run_deps_of_def)
  have now: "t = now" and s1: "t_authorizations s1 = t_authorizations s" "t_attempts s1 = t_attempts s"
    using t assms(2) by (auto simp: readClock_def)
  obtain a where a: "active_for (runner_account c) (ev_policyVersion c) s2 = Some a" "m = au_maxPerDay a"
      "isAuthorizationValid a now (runner_account c) (ev_policyVersion c)" "s3 = s2"
    using auth now by (auto simp: valid_authorization_def getActive_def bind_p_def split: option.splits if_splits)
  have "a \<in> set (t_authorizations s2)"
    using a(1) by (auto simp: active_for_def dest: latest_by_in)
  then have "a \<in> set (t_authorizations s)"
    using tracks_keeps(3) [OF k] s1 by simp
  moreover have "today = confirmed_today s (runner_account c) now"
    using today a(4) now tracks_keeps(1) [OF k] s1 by (auto simp: confirmedSendsToday_def confirmed_today_def)
  ultimately show ?thesis
    using gates gates_of_run a ds by blast
qed simp

text \<open>C10: The report of an automated run is complete: every lead it tried is in exactly one of its lists, it
  tries no more leads than its capacity, and it stops at the first send with an unknown outcome, which
  is then the last thing it does to the database.\<close>

theorem automated_run_report:
  assumes "scheduled_run intl sha256 ex c s = (Inr rp, s')"
  shows "rp_attempted rp = length (rp_sent rp) + length (rp_unknown rp) + length (rp_failures rp)
    \<and> int (rp_attempted rp) \<le> rp_capacity rp
    \<and> (rp_unknown rp = [] \<or> (\<exists>lid auth s1 r. sendOne sha256 ex (buildSendConfig c) lid auth s1 = (Inr r, s')
         \<and> so_outcome r = OC_OUTCOME_UNKNOWN \<and> rp_unknown rp = [(lid, so_attemptId r)]))"
  using run.run_report [OF assms [unfolded scheduled_run_def]] by (auto simp: run_deps_of_def)

lemma allowed_step: "checkFollowupSendAllowed snap = SendAllowed st \<Longrightarrow> preparedStep snap = st"
  by (simp add: checkFollowupSendAllowed_iff)

lemma followup_recheck_None:
  "followup_recheck ctx = None \<longleftrightarrow> (case ctx of None \<Rightarrow> True | Some p \<Rightarrow> px_sequenceStep p \<le> 0
     \<or> (\<exists>st. px_sequenceStep p = step_num st \<and> px_outreachStatus p = Some (followupDueStatus st)
          \<and> \<not> px_outreachDoNotContact p))"
proof (cases ctx)
  case (Some p)
  show ?thesis
  proof (cases "px_sequenceStep p > 0")
    case True
    show ?thesis
    proof (cases "px_sequenceStep p" rule: to_followup_step_cases)
      case (step st)
      let ?snap = "\<lparr>snap_status = px_outreachStatus p, snap_doNotContact = px_outreachDoNotContact p, preparedStep = st\<rparr>"
      have "followup_recheck ctx = None \<longleftrightarrow> checkFollowupSendAllowed ?snap = SendAllowed st"
        using Some True step by (auto simp: followup_recheck_def dest!: allowed_step split: followup_send_decision.splits)
      then show ?thesis
        using Some True step by (auto simp: checkFollowupSendAllowed_iff)
    next
      case none
      then show ?thesis using Some True by (simp add: followup_recheck_def)
    qed
  qed (simp add: Some followup_recheck_def)
qed (simp add: followup_recheck_def)

text \<open>C8: What the automated run sends, it sends for a lead whose follow-up, if the email is one, is still
  awaited at that moment by an outreach record that is not blocked, in the step it was written for; and
  only after the whole gate passed on the data read then, under the runner's own readiness lineage and
  a confirmation in the name of the authorization; and it sends only the draft of the schedule, once.\<close>

theorem automated_send_rechecked:
  assumes "sendOne sha256 ex cf lid auth s = (x, s')" and "gm_sent s' \<noteq> gm_sent s"
  shows "(case pending_context_of lid s of None \<Rightarrow> True | Some p \<Rightarrow> px_sequenceStep p \<le> 0
        \<or> (\<exists>st. px_sequenceStep p = step_num st \<and> px_outreachStatus p = Some (followupDueStatus st)
             \<and> \<not> px_outreachDoNotContact p))
    \<and> (\<exists>l pf now s1. lead_of s lid = Some l \<and> quiet s s1
        \<and> cleared SESSION sha256 cf ((base_input l (send_data_of lid s))\<lparr>in_preflightProof := Some pf,
            in_confirmation := Some \<lparr>cv_observedSendFingerprint = pf_sendFingerprint pf,
              cv_confirmedBy = ''scheduler:'' @ auth, cv_confirmedAtMs = now\<rparr>\<rparr>) s1
        \<and> gm_sent s' = gm_sent s @ [draft_to_send (base_input l (send_data_of lid s))])"
  using sendOne_sent [OF assms(1)] assms(2) unfolding followup_recheck_None by blast

section \<open>Authorizations\<close>

lemma insertAuthorization_Inr:
  "insertAuthorization r s = (Inr u, s') \<longleftrightarrow> s' = s\<lparr>t_authorizations := t_authorizations s @ [r]\<rparr>
     \<and> 1 \<le> au_maxPerDay r \<and> authorization_window r \<and> \<not> list_ex (\<lambda>q. au_id q = au_id r) (t_authorizations s)
     \<and> \<not> list_ex (authorization_clash r) (t_authorizations s)"
  by (auto simp: insertAuthorization_def not_less)

definition superseded :: "int \<Rightarrow> string \<Rightarrow> authorization \<Rightarrow> authorization" where
  "superseded at_time by_whom r = r\<lparr>au_revokedAt := Some at_time, au_revokedBy := Some by_whom,
     au_revokeReason := Some ''superseded_by_new_authorization''\<rparr>"

lemma superseded_inactive: "\<not> active_authorization account policy (superseded t by_whom r)"
  by (simp add: active_authorization_def superseded_def)

lemma filter_updated_none: "(\<And>r. \<not> P (f r)) \<Longrightarrow> filter P (update_where P f xs) = []"
  by (induction xs) (simp_all add: update_where_def)

lemma createAuthorization_Inr:
  assumes "createAuthorization account policy by_whom startsAt expiresAt m note s = (Inr a, s')"
  shows "\<exists>s1. insertAuthorization a s1 = (Inr (), s') \<and> active_authorization account policy a
    \<and> t_authorizations s1 = update_where (active_authorization account policy) (superseded startsAt by_whom) (t_authorizations s)"
proof -
  let ?s1 = "s\<lparr>t_authorizations := update_where (active_authorization account policy) (superseded startsAt by_whom)
      (t_authorizations s), lead_drawn := Suc (lead_drawn s), lead_ticks := Suc (lead_ticks s)\<rparr>"
  have "a = authorization_row account policy by_whom startsAt expiresAt m note (lead_uuids s (lead_drawn s))
        (lead_clock s (lead_ticks s))"
    and "insertAuthorization a ?s1 = (Inr (), s')"
    using assms unfolding createAuthorization_def revoke_authorizations_def superseded_def [abs_def] Let_def
    by (auto simp: prog_simps newUUID_def readClock_def)
  then show ?thesis
    by (intro exI [of _ ?s1]) (simp add: active_authorization_def authorization_row_def)
qed

text \<open>C21: Approving automated sending makes the new authorization the only one in force for the account and
  policy. It is valid exactly from its start until its expiry, at most fourteen days, for at least one send a
  day; and once it is revoked there is none in force.\<close>

theorem authorization_window_exact:
  assumes "approveScheduledSend configured policy cap by_whom days maxPerDay note s = (Inr (Some a), s1)"
    and "account = text_of (map_option auth_normalize configured)"
  shows "getActive account policy s1 = (Inr (Some a), s1)
    \<and> (\<forall>t. isAuthorizationValid a t account policy \<longleftrightarrow> au_startsAt a \<le> t \<and> t < au_expiresAt a)
    \<and> au_startsAt a < au_expiresAt a \<and> au_expiresAt a \<le> au_startsAt a + 14 * 86400000 \<and> 1 \<le> au_maxPerDay a
    \<and> (\<forall>who why at_time. \<exists>s2. revokeAuthorization (au_id a) who why at_time s1 = (Inr True, s2)
         \<and> getActive account policy s2 = (Inr None, s2))"
proof -
  obtain startsAt expiresAt m s0 where create:
      "createAuthorization account policy (js_trim by_whom) startsAt expiresAt m (map_option js_trim note) s0 = (Inr a, s1)"
    using assms unfolding approveScheduledSend_def Let_def
    by (auto simp: prog_simps not_less split: option.splits if_splits)
  let ?act = "active_authorization account policy"
  define rows where rows: "rows = update_where ?act (superseded startsAt (js_trim by_whom)) (t_authorizations s0)"
  obtain s2 where "insertAuthorization a s2 = (Inr (), s1)" and act_a: "?act a" and "t_authorizations s2 = rows"
    using createAuthorization_Inr [OF create] unfolding rows by blast
  then have ins: "t_authorizations s1 = rows @ [a]" "1 \<le> au_maxPerDay a" "authorization_window a"
      "\<not> list_ex (\<lambda>q. au_id q = au_id a) rows"
    by (simp_all add: insertAuthorization_Inr)
  have a: "au_gmailAccount a = account" "au_policyVersion a = policy" "au_revokedAt a = None"
    using act_a by (simp_all add: active_authorization_def)
  have none: "filter ?act rows = []"
    unfolding rows by (rule filter_updated_none) (rule superseded_inactive)
  then have act: "filter ?act (t_authorizations s1) = [a]"
    using ins(1) a by (simp add: active_authorization_def)
  have "getActive account policy s1 = (Inr (Some a), s1)"
    using act by (simp add: getActive_def active_for_def)
  moreover have "isAuthorizationValid a t account policy \<longleftrightarrow> au_startsAt a \<le> t \<and> t < au_expiresAt a" for t
    using a ins(2,3) by (auto simp: isAuthorizationValid_def authorizationInvalidReasons_def
        authorization_window_def SCHEDULED_SEND_AUTH_MAX_MS_def)
  moreover have "\<exists>s2. revokeAuthorization (au_id a) who why at_time s1 = (Inr True, s2)
      \<and> getActive account policy s2 = (Inr None, s2)" for who why at_time
  proof -
    let ?hit = "\<lambda>r. au_id r = au_id a \<and> au_revokedAt r = None"
    let ?f = "\<lambda>r. r\<lparr>au_revokedAt := Some at_time, au_revokedBy := Some who, au_revokeReason := Some why\<rparr>"
    have "update_where ?hit ?f rows = rows"
      using ins(4) by (intro update_where_none) (auto simp: list_ex_iff)
    then have "filter ?act (update_where ?hit ?f (t_authorizations s1)) = []"
      using none ins(1) a by (simp add: update_where_def active_authorization_def)
    then show ?thesis
      using ins(1) a by (simp add: revokeAuthorization_def revoke_authorizations_def getActive_def active_for_def)
  qed
  ultimately show ?thesis
    using ins(2,3) by (simp add: authorization_window_def)
qed

section \<open>Examples\<close>

definition demo_env :: run_env where
  "demo_env = \<lparr>ev_gmailAccount = Some ''a@b.c'', ev_senderName = Some ''N'', ev_policyVersion = ''1'',
     ev_sendingEnabled = True, ev_outboundActionsEnabled = True, ev_dryRun = False, ev_maxLateMinutes = 1,
     ev_confirmationTtlSeconds = 1, ev_dailyCap = 2, ev_scheduledSendEnabled = True, ev_providerIsHttp = True,
     ev_trackingEnabled = True, ev_readinessMinutes = 5, ev_sequencePolicy = DEFAULT_SEQUENCE_POLICY\<rparr>"

definition demo_finalization :: finalization where
  "demo_finalization = \<lparr>fn_id = ''f'', fn_leadId = ''l'', fn_resolvedBody = ''B'', fn_resolvedBodyHash = ''h'',
     fn_finalHumanDecision = Some ''APPROVED'', fn_finalReviewedAt = Some 10, fn_subject = ''S'',
     fn_originalDraftId = ''e'', fn_sequenceStep = 0, fn_outreachRecordId = None,
     fn_deploymentRunId = None, fn_verifiedDeploymentUrl = None, fn_originalBodyHash = ''h'', fn_kind = ''REPLY_DIRECT'',
     fn_finalizedAt = 9, fn_finalHumanNotes = None, fn_finalReviewedBy = None, fn_finalReviewedSource = None\<rparr>"

definition demo_recipient :: lead_fact where
  "demo_recipient = \<lparr>ff_id = ''ff'', ff_leadId = ''l'', ff_factType = FT_contact_email, ff_value = ''r@b.c'',
     ff_normalizedValue = None, ff_sourceType = src_manual, ff_sourceUrl = None, ff_capturedAt = 0,
     ff_confidence = 1, ff_supersededBy = None, ff_supersededAt = None, ff_isCurrent = True\<rparr>"

definition demo_authorization :: authorization where
  "demo_authorization = authorization_row ''a@b.c'' ''1'' ''o'' 500 90000 3 None ''auth'' 500"

definition demo_runner :: "send_attempt list \<Rightarrow> runner_db" where
  "demo_runner attempts = send_db.extend
     ((demo_send_db (Response SR_ok (Some (''x'', Some ''t'')) None))\<lparr>t_lead_facts := [demo_recipient],
        t_finalizations := [demo_finalization], t_authorizations := [demo_authorization], t_attempts := attempts\<rparr>)
     \<lparr>outreach = demo_db\<lparr>fk_drafts := [''e''], fk_finalizations := [''f'']\<rparr>, t_campaigns = [],
      run_memo = None\<rparr>"

text \<open>The run sends the one email that is due and enrolls it.\<close>

lemma demo_run_sends:
  "(case scheduled_run demo_intl demo_digest True demo_env (demo_runner []) of
      (Inr rp, s') \<Rightarrow> Some (rp_capacity rp, rp_attempted rp, map re_outcome (rp_sent rp), gm_sent s')
    | (Inl e, s') \<Rightarrow> None) = Some (2, 1, [EN_ENROLLED], [''pd''])"
  by code_simp

lemma demo_run_ok:
  obtains rp s' where "scheduled_run demo_intl demo_digest True demo_env (demo_runner []) = (Inr rp, s')"
    "rp_attempted rp = 1" "gm_sent s' = [''pd'']"
  using demo_run_sends by (auto split: prod.splits sum.splits)

lemma demo_runner_start: "gm_sent (demo_runner as) = []" "lead_clock (demo_runner as) (lead_ticks (demo_runner as)) = 1000"
  "t_authorizations (demo_runner as) = [demo_authorization]"
  by (simp_all add: demo_runner_def demo_send_db_def send_db.defs)

theorem automated_run_bounded_witness:
  "\<exists>s' :: runner_db. gm_sent s' = [''pd''] \<and> isAuthorizationValid demo_authorization 1000 (runner_account demo_env) (ev_policyVersion demo_env)
    \<and> int (length (gm_sent s')) \<le> min (ev_dailyCap demo_env) (au_maxPerDay demo_authorization)
        - confirmed_today (demo_runner []) (runner_account demo_env) 1000"
proof -
  obtain rp s' where run: "scheduled_run demo_intl demo_digest True demo_env (demo_runner []) = (Inr rp, s')"
    and s': "gm_sent s' = [''pd'']" by (rule demo_run_ok)
  from automated_run_bounded [OF run demo_runner_start(2) [symmetric]] show ?thesis
    using s' by (intro exI [of _ s']) (auto simp: demo_runner_start)
qed

theorem automated_run_report_witness:
  "\<exists>rp :: run_report. rp_attempted rp = 1 \<and> length (rp_sent rp) + length (rp_unknown rp) + length (rp_failures rp) = 1
    \<and> 1 \<le> rp_capacity rp"
proof -
  obtain rp s' where run: "scheduled_run demo_intl demo_digest True demo_env (demo_runner []) = (Inr rp, s')"
    and n: "rp_attempted rp = 1" by (rule demo_run_ok)
  from automated_run_report [OF run] n show ?thesis
    by (intro exI [of _ rp]) auto
qed

lemma demo_sendOne:
  "(case mintSessionReadiness ''a@b.c'' ''1'' ''auth'' 1000 2000 (demo_runner []) of (u, s) \<Rightarrow>
      (case sendOne demo_digest True (buildSendConfig demo_env) ''l'' ''auth'' s of
        (r, s') \<Rightarrow> (gm_sent s, gm_sent s'))) = ([], [''pd''])"
  by code_simp

theorem automated_send_rechecked_witness:
  "\<exists>(s :: runner_db) l. lead_of s ''l'' = Some l \<and> draft_to_send (base_input l (send_data_of ''l'' s)) = ''pd''"
proof -
  obtain u s where s: "mintSessionReadiness ''a@b.c'' ''1'' ''auth'' 1000 2000 (demo_runner []) = (u, s)" by fastforce
  obtain r s' where r: "sendOne demo_digest True (buildSendConfig demo_env) ''l'' ''auth'' s = (r, s')" by fastforce
  have g: "gm_sent s = []" "gm_sent s' = [''pd'']"
    using demo_sendOne s r by auto
  then have "gm_sent s' \<noteq> gm_sent s" by simp
  from automated_send_rechecked [OF r this] obtain l where "lead_of s ''l'' = Some l"
    and "gm_sent s' = gm_sent s @ [draft_to_send (base_input l (send_data_of ''l'' s))]" by blast
  then have "lead_of s ''l'' = Some l \<and> draft_to_send (base_input l (send_data_of ''l'' s)) = ''pd''"
    using g by simp
  then show ?thesis by blast
qed

definition demo_confirmed :: send_attempt where
  "demo_confirmed = \<lparr>sa_id = ''a'', sa_leadId = ''l'', sa_scheduleId = ''s'', sa_gmailDraftId = ''d'',
     sa_readinessApprovalId = ''q'', sa_gmailAccount = ''a@b.c'', sa_recipientHash = ''h'',
     sa_finalizedContentHash = ''h'', sa_scheduleIntegrityFingerprint = ''h'', sa_approvedEnvelopeHash = ''h'',
     sa_observedEnvelopeHash = ''h'', sa_sendFingerprint = ''h'', sa_confirmationFingerprint = ''h'',
     sa_confirmedBy = ''o'', sa_confirmedAt = 990, sa_status = AT_SENT_CONFIRMED, sa_providerMessageId = Some ''x'',
     sa_providerThreadId = Some ''t'', sa_errorClass = None, sa_reservedAt = 901, sa_callStartedAt = Some 902,
     sa_completedAt = Some 903, sa_reconciledOutcome = None, sa_reconciledBy = None, sa_reconciledAt = None,
     sa_reconciliationNote = None\<rparr>"

lemma demo_recovery:
  "(case recovery_phase (run_deps_of demo_intl demo_digest True demo_env) (demo_runner [demo_confirmed]) of
      (Inr rp, s') \<Rightarrow> Some (map entry_key (rp_recovered rp)) | (Inl e, s') \<Rightarrow> None) = Some [(''l'', ''a'')]"
  by code_simp

theorem recovery_heals_witness:
  "\<exists>s' :: runner_db. t_attempts s' = [demo_confirmed] \<and> (''l'', ''a'') \<notin> set (unenrolled_sends s')"
proof -
  obtain rp s' where run: "recovery_phase (run_deps_of demo_intl demo_digest True demo_env)
      (demo_runner [demo_confirmed]) = (Inr rp, s')" and rp: "map entry_key (rp_recovered rp) = [(''l'', ''a'')]"
    using demo_recovery by (auto split: prod.splits sum.splits)
  have "distinct (map sa_id (t_attempts (demo_runner [demo_confirmed])))"
    and at: "t_attempts (demo_runner [demo_confirmed]) = [demo_confirmed]"
    by (simp_all add: demo_runner_def demo_send_db_def send_db.defs)
  from recovery_heals [OF run this(1)] rp at show ?thesis
    by (intro exI [of _ s']) auto
qed

theorem authorization_window_exact_witness:
  "\<exists>a (s :: runner_db). getActive ''a@b.c'' ''1'' s = (Inr (Some a), s) \<and> au_maxPerDay a = 2
    \<and> au_expiresAt a = au_startsAt a + 3 * 86400000"
proof -
  have "(case approveScheduledSend (Some '' A@b.c'') ''1'' 2 ''o'' (Some (Some 3)) None None (demo_runner []) of
      (Inr (Some a), s1) \<Rightarrow> Some (au_maxPerDay a, au_expiresAt a - au_startsAt a) | _ \<Rightarrow> None) = Some (2, 3 * 86400000)"
    by code_simp
  then obtain a s1 where run: "approveScheduledSend (Some '' A@b.c'') ''1'' 2 ''o'' (Some (Some 3)) None None (demo_runner [])
      = (Inr (Some a), s1)" and a: "au_maxPerDay a = 2" "au_expiresAt a - au_startsAt a = 3 * 86400000"
    by (auto split: prod.splits sum.splits option.splits)
  have "''a@b.c'' = text_of (map_option auth_normalize (Some '' A@b.c''))"
    by code_simp
  from authorization_window_exact [OF run this] a show ?thesis
    by (intro exI [of _ a] exI [of _ s1]) auto
qed

end
