(* ===== verification/Canonical.thy ===== *)
theory Canonical
  imports Send_Gate "HOL-Library.List_Lexorder" "HOL-Library.Multiset"
begin

text \<open>
  Canonical JSON and the hash of a value (\<^verbatim>\<open>src/src/utils/hash.ts\<close>): object keys are sorted
  recursively, so that the order in which an object was built does not matter. Strings are compared by
  their UTF-16 code units, as JavaScript does. A value that is \<^verbatim>\<open>undefined\<close> is not represented; the
  keys are not array indexes. The digest is a parameter.
\<close>

section \<open>Order of strings\<close>

text \<open>The code units of the characters at the positions 128 to 159 of Windows-1252.\<close>

definition WINDOWS_1252 :: "nat list" where
  "WINDOWS_1252 =
     [8364, 129, 8218, 402, 8222, 8230, 8224, 8225, 710, 8240, 352, 8249, 338, 141, 381, 143,
      144, 8216, 8217, 8220, 8221, 8226, 8211, 8212, 732, 8482, 353, 8250, 339, 157, 382, 376]"

definition code_unit :: "char \<Rightarrow> nat" where
  "code_unit c = (let n = of_char c in if 128 \<le> n \<and> n < 160 then WINDOWS_1252 ! (n - 128) else n)"

definition code_units :: "string \<Rightarrow> nat list" where
  "code_units = map code_unit"

text \<open>\<^verbatim>\<open>Array.prototype.sort\<close> on strings, and by the string of a key.\<close>

definition string_sort :: "string list \<Rightarrow> string list" where
  "string_sort = sort_key code_units"

definition js_sort_by :: "('r \<Rightarrow> string) \<Rightarrow> 'r list \<Rightarrow> 'r list" where
  "js_sort_by k = sort_key (code_units \<circ> k)"

section \<open>Canonical values\<close>

fun sortValue :: "json \<Rightarrow> json" where
  "sortValue (JArr xs) = JArr (map sortValue xs)"
| "sortValue (JObj ps) = JObj (js_sort_by fst (map (\<lambda>(k, v). (k, sortValue v)) ps))"
| "sortValue v = v"

definition canonicalStringify :: "json \<Rightarrow> string" where
  "canonicalStringify v = json_text (sortValue v)"

definition hashCanonical :: "(string \<Rightarrow> string) \<Rightarrow> json \<Rightarrow> string" where
  "hashCanonical sha v = sha (canonicalStringify v)"

section \<open>Distinct strings have distinct code units\<close>

lemma table_distinct: "distinct WINDOWS_1252" "length WINDOWS_1252 = 32"
  by (simp_all add: WINDOWS_1252_def)

text \<open>An entry of the table is not the code unit of a character outside it.\<close>

lemma table_outside: "i < 32 \<Longrightarrow> \<not> (WINDOWS_1252 ! i < 128) \<and> \<not> (160 \<le> WINDOWS_1252 ! i \<and> WINDOWS_1252 ! i < 256)"
proof -
  have "list_all (\<lambda>u. \<not> (u < 128) \<and> \<not> (160 \<le> u \<and> u < 256)) WINDOWS_1252"
    by (simp add: WINDOWS_1252_def)
  then show "i < 32 \<Longrightarrow> ?thesis"
    using table_distinct(2) by (simp add: list_all_length)
qed

lemma inj_code_unit: "inj code_unit"
proof (rule injI)
  fix c d :: char
  assume eq: "code_unit c = code_unit d"
  define m n :: nat where "m = of_char c" and "n = of_char d"
  have b: "m < 256" "n < 256"
    unfolding m_def n_def by simp_all
  have e: "(if 128 \<le> m \<and> m < 160 then WINDOWS_1252 ! (m - 128) else m)
      = (if 128 \<le> n \<and> n < 160 then WINDOWS_1252 ! (n - 128) else n)"
    using eq unfolding code_unit_def m_def n_def Let_def .
  have "m = n"
  proof (cases "128 \<le> m \<and> m < 160"; cases "128 \<le> n \<and> n < 160")
    assume m: "128 \<le> m \<and> m < 160" and n: "128 \<le> n \<and> n < 160"
    then have "m - 128 < 32" "n - 128 < 32" by linarith+
    then have "m - 128 = n - 128"
      using e m n table_distinct nth_eq_iff_index_eq [of WINDOWS_1252 "m - 128" "n - 128"] by simp
    then show "m = n"
      using m n by linarith
  next
    assume m: "128 \<le> m \<and> m < 160" and n: "\<not> (128 \<le> n \<and> n < 160)"
    have "n = WINDOWS_1252 ! (m - 128)"
      using e unfolding if_P [OF m] if_not_P [OF n] by (rule sym)
    then show "m = n"
      using table_outside [of "m - 128"] m n b by linarith
  next
    assume m: "\<not> (128 \<le> m \<and> m < 160)" and n: "128 \<le> n \<and> n < 160"
    have "m = WINDOWS_1252 ! (n - 128)"
      using e unfolding if_P [OF n] if_not_P [OF m] .
    then show "m = n"
      using table_outside [of "n - 128"] m n b by linarith
  next
    assume m: "\<not> (128 \<le> m \<and> m < 160)" and n: "\<not> (128 \<le> n \<and> n < 160)"
    show "m = n"
      using e unfolding if_not_P [OF n] if_not_P [OF m] .
  qed
  then show "c = d"
    unfolding m_def n_def by (simp add: of_char_eq_iff)
qed

lemma inj_code_units: "inj code_units"
  unfolding code_units_def using inj_code_unit by simp

section \<open>Sorting does not depend on the order\<close>

lemma sort_key_same:
  assumes "mset xs = mset ys" and "inj_on f (set ys)"
  shows "sort_key f xs = sort_key f ys"
proof (rule properties_for_sort_key)
  show "mset (sort_key f ys) = mset xs"
    using assms(1) by simp
  show "sorted (map f (sort_key f ys))"
    by simp
  fix k
  assume "k \<in> set (sort_key f ys)"
  then have k: "k \<in> set ys" by simp
  have single: "filter (\<lambda>x. f k = f x) zs = replicate (count (mset ys) k) k" if "mset zs = mset ys" for zs
  proof -
    have "set zs = set ys"
      using that by (metis set_mset_mset)
    then have "filter (\<lambda>x. f k = f x) zs = filter (\<lambda>x. k = x) zs"
      using assms(2) k by (auto intro!: filter_cong dest: inj_onD)
    also have "\<dots> = replicate (length (filter (\<lambda>x. k = x) zs)) k"
      by (rule replicate_length_filter [symmetric])
    also have "length (filter (\<lambda>x. k = x) zs) = count (mset zs) k"
      by (induction zs) auto
    finally show ?thesis
      using that by simp
  qed
  show "filter (\<lambda>x. f k = f x) (sort_key f ys) = filter (\<lambda>x. f k = f x) xs"
    using single [of "sort_key f ys"] single [OF assms(1)] by simp
qed

lemma string_sort_same: "mset xs = mset ys \<Longrightarrow> string_sort xs = string_sort ys"
  unfolding string_sort_def by (erule sort_key_same) (rule inj_on_subset [OF inj_code_units subset_UNIV])

lemma js_sort_by_same:
  assumes "mset xs = mset ys" and "inj_on k (set ys)"
  shows "js_sort_by k xs = js_sort_by k ys"
  unfolding js_sort_by_def using assms
  by (intro sort_key_same comp_inj_on) (auto intro: inj_on_subset [OF inj_code_units])

lemma set_string_sort [simp]: "set (string_sort xs) = set xs" and length_string_sort [simp]: "length (string_sort xs) = length xs"
  by (simp_all add: string_sort_def)

lemma mset_string_sort [simp]: "mset (string_sort xs) = mset xs"
  by (simp add: string_sort_def)

section \<open>Canonical text\<close>

text \<open>Two values that differ only in the order of object keys, at any depth.\<close>

inductive reordered :: "json \<Rightarrow> json \<Rightarrow> bool" where
  reordered_refl: "reordered v v"
| reordered_arr: "list_all2 reordered xs ys \<Longrightarrow> reordered (JArr xs) (JArr ys)"
| reordered_obj: "list_all2 (\<lambda>p q. fst p = fst q \<and> reordered (snd p) (snd q)) ps qs \<Longrightarrow>
    distinct (map fst qs) \<Longrightarrow> mset qs = mset rs \<Longrightarrow> reordered (JObj ps) (JObj rs)"

abbreviation sorted_entry :: "string \<times> json \<Rightarrow> string \<times> json" where
  "sorted_entry \<equiv> \<lambda>(k, v). (k, sortValue v)"

lemma reordered_sortValue: "reordered v w \<Longrightarrow> sortValue v = sortValue w"
proof (induction rule: reordered.induct)
  case (reordered_arr xs ys)
  then have "list_all2 (\<lambda>x y. sortValue x = sortValue y) xs ys"
    by (rule list_all2_mono) simp
  then have "map sortValue xs = map sortValue ys"
    by (simp add: list_all2_conv_all_nth list_eq_iff_nth_eq)
  then show ?case by simp
next
  case (reordered_obj ps qs rs)
  have "list_all2 (\<lambda>p q. sorted_entry p = sorted_entry q) ps qs"
    using reordered_obj(1) by (rule list_all2_mono) (simp add: case_prod_beta)
  then have "map sorted_entry ps = map sorted_entry qs"
    by (simp add: list_all2_conv_all_nth list_eq_iff_nth_eq)
  moreover have "js_sort_by fst (map sorted_entry qs) = js_sort_by fst (map sorted_entry rs)"
  proof (rule js_sort_by_same)
    show "mset (map sorted_entry qs) = mset (map sorted_entry rs)"
      using reordered_obj(3) by (metis mset_map)
    have "set qs = set rs"
      using reordered_obj(3) by (metis set_mset_mset)
    then show "inj_on fst (set (map sorted_entry rs))"
      using reordered_obj(2) by (force simp: distinct_map inj_on_def)
  qed
  ultimately show ?case by simp
qed simp

text \<open>The canonical text of a value, and so its hash, does not depend on the order of object keys
  at any depth.\<close>

theorem canonical_order_free:
  assumes "reordered v w"
  shows "canonicalStringify v = canonicalStringify w \<and> hashCanonical sha v = hashCanonical sha w"
  unfolding hashCanonical_def canonicalStringify_def using reordered_sortValue [OF assms] by simp

theorem canonical_order_free_witness:
  "canonicalStringify (JObj [(''b'', JNum 1), (''a'', JNull)]) = canonicalStringify (JObj [(''a'', JNull), (''b'', JNum 1)])"
proof -
  have "reordered (JObj [(''b'', JNum 1), (''a'', JNull)]) (JObj [(''a'', JNull), (''b'', JNum 1)])"
    by (rule reordered_obj [of _ "[(''b'', JNum 1), (''a'', JNull)]"]) (auto intro: reordered_refl)
  from canonical_order_free [OF this] show ?thesis by simp
qed

end
