(* ===== verification/Suppressions.thy ===== *)
theory Suppressions
  imports Send_Store
begin

text \<open>
  The suppression list: the normal forms of suppressed values, the table with its unique index and the
  checks over it (\<^verbatim>\<open>src/src/persistence/repositories/suppression.repo.ts\<close>), the audited administration
  (\<^verbatim>\<open>domain/suppression/admin-service.ts\<close>) and the two commands that change the list
  (\<^verbatim>\<open>cli/commands/suppression-admin.ts\<close>). The digest \<open>sha\<close> and the operator's terminal (\<open>tty\<close> and
  the answer to a prompt) are parameters; printing is left out.
\<close>

section \<open>Normal forms\<close>

fun scope_str :: "suppression_scope \<Rightarrow> string" where
  "scope_str SU_domain = ''domain''"
| "scope_str SU_phone = ''phone''"
| "scope_str SU_place_id = ''place_id''"
| "scope_str SU_email = ''email''"
| "scope_str SU_business = ''business''"

definition is_lower :: "char \<Rightarrow> bool" where
  "is_lower c \<longleftrightarrow> (let n = (of_char c :: nat) in 97 \<le> n \<and> n \<le> 122)"

definition is_upper :: "char \<Rightarrow> bool" where
  "is_upper c \<longleftrightarrow> (let n = (of_char c :: nat) in 65 \<le> n \<and> n \<le> 90)"

text \<open>\<^verbatim>\<open>s.split(c)\<close>.\<close>

fun split_at :: "char \<Rightarrow> string \<Rightarrow> string list" where
  "split_at c [] = [[]]"
| "split_at c (x # xs) =
     (if x = c then [] # split_at c xs
      else (case split_at c xs of [] \<Rightarrow> [[x]] | w # ws \<Rightarrow> (x # w) # ws))"

text \<open>\<^verbatim>\<open>/^(?:[a-z0-9](?:[a-z0-9-]{0,61}[a-z0-9])?\.)+[a-z]{2,63}$/\<close>: labels separated by dots, at
  least two, of which the last consists of letters.\<close>

definition domain_label :: "string \<Rightarrow> bool" where
  "domain_label w \<longleftrightarrow> w \<noteq> [] \<and> length w \<le> 63
     \<and> (is_lower (hd w) \<or> is_digit (hd w)) \<and> (is_lower (last w) \<or> is_digit (last w))
     \<and> list_all (\<lambda>c. is_lower c \<or> is_digit c \<or> c = CHR ''-'') w"

definition valid_domain :: "string \<Rightarrow> bool" where
  "valid_domain s \<longleftrightarrow> (let ws = split_at CHR ''.'' s in
     2 \<le> length ws \<and> list_all domain_label (butlast ws)
     \<and> list_all is_lower (last ws) \<and> 2 \<le> length (last ws) \<and> length (last ws) \<le> 63)"

text \<open>\<^verbatim>\<open>/^\+?[0-9]{7,20}$/\<close> and \<^verbatim>\<open>/^[A-Za-z0-9_-]{3,256}$/\<close>.\<close>

definition valid_phone :: "string \<Rightarrow> bool" where
  "valid_phone s \<longleftrightarrow> (let d = drop_prefix ''+'' s in list_all is_digit d \<and> 7 \<le> length d \<and> length d \<le> 20)"

definition valid_place_id :: "string \<Rightarrow> bool" where
  "valid_place_id s \<longleftrightarrow> 3 \<le> length s \<and> length s \<le> 256
     \<and> list_all (\<lambda>c. is_upper c \<or> is_lower c \<or> is_digit c \<or> c = CHR ''_'' \<or> c = CHR ''-'') s"

definition phone_noise :: "char \<Rightarrow> bool" where
  "phone_noise c \<longleftrightarrow> is_ws c \<or> c \<in> set ''().-''"

definition bare_domain :: "string \<Rightarrow> string" where
  "bare_domain value = drop_prefix ''www.'' (drop_path (drop_scheme (js_lower value)))"

definition normalizeSuppressionValue :: "suppression_scope \<Rightarrow> string \<Rightarrow> app_error + string" where
  "normalizeSuppressionValue scope input =
     (let value = js_trim input in
      if value = [] then Inl (PlainError ''suppression_value_required'')
      else (case scope of
        SU_email \<Rightarrow>
          let email = js_lower value in
          if \<not> valid_email email then Inl (PlainError ''invalid_suppression_email'') else Inr email
      | SU_domain \<Rightarrow>
          let domain = bare_domain value in
          if \<not> valid_domain domain then Inl (PlainError ''invalid_suppression_domain'') else Inr domain
      | SU_phone \<Rightarrow>
          let phone = filter (\<lambda>c. \<not> phone_noise c) value in
          if \<not> valid_phone phone then Inl (PlainError ''invalid_suppression_phone'') else Inr phone
      | SU_business \<Rightarrow>
          (case normalizeName (Some value) of
             None \<Rightarrow> Inl (PlainError ''invalid_suppression_business'')
           | Some business \<Rightarrow>
               if length business > 300 then Inl (PlainError ''invalid_suppression_business'') else Inr business)
      | SU_place_id \<Rightarrow>
          if \<not> valid_place_id value then Inl (PlainError ''invalid_suppression_place_id'') else Inr value))"

section \<open>The table\<close>

text \<open>The insert checks the primary key and the unique index on scope and value, which covers revoked
  rows too.\<close>

definition insertSuppression :: "suppression \<Rightarrow> ('a send_db_scheme, unit) prog" where
  "insertSuppression r s =
     (if list_ex (\<lambda>q. su_id q = su_id r) (t_suppressions s)
      then (Inl (UniqueViolation ''suppression_list_pkey''), s)
      else if list_ex (\<lambda>q. su_scope q = su_scope r \<and> su_value q = su_value r) (t_suppressions s)
      then (Inl (UniqueViolation ''suppression_list_scope_value_uk''), s)
      else (Inr (), s\<lparr>lead_ticks := Suc (lead_ticks s),
             t_suppressions := t_suppressions s @ [r\<lparr>su_createdAt := lead_clock s (lead_ticks s)\<rparr>]\<rparr>))"

definition suppression_add ::
  "suppression_scope \<Rightarrow> string \<Rightarrow> string \<Rightarrow> string \<Rightarrow> ('a send_db_scheme, string) prog" where
  "suppression_add scope value reason createdBy =
     bind_p newUUID (\<lambda>sid.
     bind_p (lift_p (normalizeSuppressionValue scope value)) (\<lambda>v.
     then_p (insertSuppression
       \<lparr>su_id = sid, su_scope = scope, su_value = v, su_reason = Some reason, su_createdBy = createdBy,
        su_createdAt = 0, su_revokedAt = None, su_revokedBy = None, su_revokeReason = None\<rparr>)
     (return_p sid)))"

definition active_suppression :: "suppression \<Rightarrow> bool" where
  "active_suppression r \<longleftrightarrow> su_revokedAt r = None"

definition revoke_row :: "int \<Rightarrow> string \<Rightarrow> string \<Rightarrow> suppression \<Rightarrow> suppression" where
  "revoke_row tm actor reason r =
     r\<lparr>su_revokedAt := Some tm, su_revokedBy := Some actor, su_revokeReason := Some reason\<rparr>"

definition suppression_revoke ::
  "string \<Rightarrow> string \<Rightarrow> string \<Rightarrow> int \<Rightarrow> ('a send_db_scheme, bool) prog" where
  "suppression_revoke sid actor reason tm s =
     (let hit = (\<lambda>r. su_id r = sid \<and> active_suppression r) in
      (Inr (length (filter hit (t_suppressions s)) = 1),
       s\<lparr>t_suppressions := update_where hit (revoke_row tm actor reason) (t_suppressions s)\<rparr>))"

definition suppression_list :: "suppression_scope option \<Rightarrow> ('a send_db_scheme, suppression list) prog" where
  "suppression_list scope = read_p (\<lambda>s. sort_key su_createdAt
     (filter (\<lambda>r. scope = None \<or> scope = Some (su_scope r)) (t_suppressions s)))"

section \<open>The checks\<close>

definition listed :: "'a send_db_scheme \<Rightarrow> suppression_scope \<Rightarrow> string \<Rightarrow> bool" where
  "listed s sc v \<longleftrightarrow>
     list_ex (\<lambda>r. su_scope r = sc \<and> su_value r = v \<and> active_suppression r) (t_suppressions s)"

record suppression_identity =
  si_id :: "string option"
  si_normalizedName :: "string option"
  si_normalizedDomain :: "string option"
  si_normalizedPhone :: "string option"
  si_placeId :: "string option"

definition identity_of :: "lead \<Rightarrow> suppression_identity" where
  "identity_of l = \<lparr>si_id = Some (ld_id l), si_normalizedName = ld_normalizedName l,
     si_normalizedDomain = ld_normalizedDomain l, si_normalizedPhone = ld_normalizedPhone l,
     si_placeId = ld_placeId l\<rparr>"

definition key_of :: "suppression_scope \<Rightarrow> string option \<Rightarrow> (suppression_scope \<times> string) list" where
  "key_of sc x = (case fact x of None \<Rightarrow> [] | Some v \<Rightarrow> [(sc, v)])"

text \<open>The scope of a value that has a normal form; any other value is passed over.\<close>

definition domain_key :: "string \<Rightarrow> (suppression_scope \<times> string) list" where
  "domain_key v = (case normalizeSuppressionValue SU_domain v of Inl _ \<Rightarrow> [] | Inr d \<Rightarrow> [(SU_domain, d)])"

definition fact_keys :: "lead_fact \<Rightarrow> (suppression_scope \<times> string) list" where
  "fact_keys f =
     (if ff_factType f = FT_business_name then key_of SU_business (normalizeName (Some (ff_value f)))
      else domain_key (ff_value f))"

definition suppression_checks :: "suppression_identity \<Rightarrow> 'a send_db_scheme \<Rightarrow> (suppression_scope \<times> string) list" where
  "suppression_checks i s =
     key_of SU_business (si_normalizedName i) @ key_of SU_domain (si_normalizedDomain i)
   @ key_of SU_phone (si_normalizedPhone i) @ key_of SU_place_id (si_placeId i)
   @ (case fact (si_id i) of None \<Rightarrow> []
      | Some lid \<Rightarrow> concat (map fact_keys (filter (\<lambda>f. ff_leadId f = lid \<and> ff_isCurrent f
          \<and> (ff_factType f = FT_business_name \<or> ff_factType f = FT_candidate_website_url
             \<or> ff_factType f = FT_official_domain)) (t_lead_facts s))))"

definition is_suppressed :: "suppression_identity \<Rightarrow> 'a send_db_scheme \<Rightarrow> bool" where
  "is_suppressed i s \<longleftrightarrow>
     list_ex (\<lambda>scope. list_ex (\<lambda>v. listed s scope v)
       (map snd (filter (\<lambda>c. fst c = scope) (suppression_checks i s))))
     [SU_business, SU_domain, SU_phone, SU_place_id]"

definition isSuppressed :: "suppression_identity \<Rightarrow> ('a send_db_scheme, bool) prog" where
  "isSuppressed i = read_p (is_suppressed i)"

text \<open>The candidate's identity: an invalid place identifier is the only value that throws.\<close>

definition isIdentitySuppressed ::
  "string option \<Rightarrow> string option \<Rightarrow> string option \<Rightarrow> ('a send_db_scheme, bool) prog" where
  "isIdentitySuppressed placeId businessName websiteUrl =
     bind_p (case fact placeId of None \<Rightarrow> return_p []
             | Some p \<Rightarrow> bind_p (lift_p (normalizeSuppressionValue SU_place_id p)) (\<lambda>v. return_p [(SU_place_id, v)]))
       (\<lambda>place. read_p (\<lambda>s. list_ex (\<lambda>(sc, v). listed s sc v)
         (place @ key_of SU_business (normalizeName businessName)
          @ (case fact websiteUrl of None \<Rightarrow> [] | Some u \<Rightarrow> domain_key u))))"

definition isEmailSuppressed :: "string \<Rightarrow> ('a send_db_scheme, bool) prog" where
  "isEmailSuppressed email =
     bind_p (lift_p (normalizeSuppressionValue SU_email email)) (\<lambda>v. read_p (\<lambda>s. listed s SU_email v))"

section \<open>Administration\<close>

definition requireText :: "string \<Rightarrow> string \<Rightarrow> ('s, unit) prog" where
  "requireText value err = (if js_trim value = [] then throw_p (PlainError err) else return_p ())"

definition suppression_note :: "string \<Rightarrow> json \<Rightarrow> new_pipeline_event" where
  "suppression_note msg d = \<lparr>pv_leadId = None, pv_runId = None, pv_type = NOTE, pv_fromStatus = None,
     pv_toStatus = None, pv_message = Some msg, pv_data = d\<rparr>"

definition previewHash :: "(string \<Rightarrow> string) \<Rightarrow> suppression_scope \<Rightarrow> string \<Rightarrow> app_error + string" where
  "previewHash sha scope value =
     (case normalizeSuppressionValue scope value of
        Inl e \<Rightarrow> Inl e | Inr v \<Rightarrow> Inr (sha (scope_str scope @ ''|'' @ v)))"

definition admin_add ::
  "(string \<Rightarrow> string) \<Rightarrow> suppression_scope \<Rightarrow> string \<Rightarrow> string \<Rightarrow> string \<Rightarrow> ('a send_db_scheme, string) prog" where
  "admin_add sha scope value reason actor =
     then_p (requireText reason ''suppression_reason_required'')
    (then_p (requireText actor ''operator_required'')
    (bind_p (lift_p (normalizeSuppressionValue scope value)) (\<lambda>normalized.
     bind_p (lift_p (previewHash sha scope normalized)) (\<lambda>valueHash.
     bind_p (suppression_add scope normalized (js_trim reason) (js_trim actor)) (\<lambda>sid.
     then_p (record_event (suppression_note ''suppression: ADDED''
       (JObj [(''suppressionId'', JStr sid), (''scope'', JStr (scope_str scope)), (''valueHash'', JStr valueHash)])))
     (return_p sid))))))"

definition admin_revoke :: "string \<Rightarrow> string \<Rightarrow> string \<Rightarrow> ('a send_db_scheme, bool) prog" where
  "admin_revoke sid reason actor =
     then_p (requireText sid ''suppression_id_required'')
    (then_p (requireText reason ''revoke_reason_required'')
    (then_p (requireText actor ''operator_required'')
    (bind_p readClock (\<lambda>now.
     bind_p (suppression_revoke (js_trim sid) (js_trim actor) (js_trim reason) now) (\<lambda>changed.
     then_p (when_p changed (record_event (suppression_note ''suppression: REVOKED''
       (JObj [(''suppressionId'', JStr (js_trim sid))]))))
     (return_p changed))))))"

record redacted_suppression =
  rs_id :: string
  rs_scope :: suppression_scope
  rs_valueHash :: string
  rs_active :: bool
  rs_createdAt :: int
  rs_revokedAt :: "int option"

fun redact_all :: "(string \<Rightarrow> string) \<Rightarrow> suppression list \<Rightarrow> app_error + redacted_suppression list" where
  "redact_all sha [] = Inr []"
| "redact_all sha (r # rs) =
     (case previewHash sha (su_scope r) (su_value r) of
        Inl e \<Rightarrow> Inl e
      | Inr h \<Rightarrow> (case redact_all sha rs of
          Inl e \<Rightarrow> Inl e
        | Inr xs \<Rightarrow> Inr (\<lparr>rs_id = su_id r, rs_scope = su_scope r, rs_valueHash = h, rs_active = active_suppression r,
            rs_createdAt = su_createdAt r, rs_revokedAt = su_revokedAt r\<rparr> # xs)))"

definition admin_list ::
  "(string \<Rightarrow> string) \<Rightarrow> suppression_scope option \<Rightarrow> ('a send_db_scheme, redacted_suppression list) prog" where
  "admin_list sha scope = bind_p (suppression_list scope) (\<lambda>rows. lift_p (redact_all sha rows))"

section \<open>The commands\<close>

definition scopeOf :: "string \<Rightarrow> app_error + suppression_scope" where
  "scopeOf value = (case find (\<lambda>sc. scope_str sc = value) [SU_email, SU_domain, SU_phone, SU_place_id, SU_business] of
     None \<Rightarrow> Inl (PlainError ''invalid_suppression_scope'') | Some sc \<Rightarrow> Inr sc)"

definition addSuppressionCommand ::
  "(string \<Rightarrow> string) \<Rightarrow> bool \<Rightarrow> (string \<Rightarrow> string) \<Rightarrow> string \<Rightarrow> string \<Rightarrow> string \<Rightarrow> string
   \<Rightarrow> ('a send_db_scheme, string option) prog" where
  "addSuppressionCommand sha tty answer scope value reason actor =
     (if \<not> tty then return_p None
      else bind_p (lift_p (scopeOf scope)) (\<lambda>sc.
        bind_p (lift_p (previewHash sha sc value)) (\<lambda>hash.
        let phrase = ''ADD SUPPRESSION '' @ scope_str sc @ '' '' @ take 12 hash in
        if answer phrase \<noteq> phrase then return_p None
        else bind_p (lead_tx (admin_add sha sc value reason actor)) (\<lambda>sid. return_p (Some sid)))))"

definition revokeSuppressionCommand ::
  "bool \<Rightarrow> (string \<Rightarrow> string) \<Rightarrow> string \<Rightarrow> string \<Rightarrow> string \<Rightarrow> ('a send_db_scheme, bool) prog" where
  "revokeSuppressionCommand tty answer sid reason actor =
     (if \<not> tty then return_p False
      else let phrase = ''REVOKE SUPPRESSION '' @ sid in
        if answer phrase \<noteq> phrase then return_p False
        else lead_tx (admin_revoke sid reason actor))"

section \<open>What the administration does to the list\<close>

datatype suppression_cmd =
    Add_Suppression suppression_scope string string string
  | Revoke_Suppression string string string

fun exec_suppression :: "(string \<Rightarrow> string) \<Rightarrow> suppression_cmd \<Rightarrow> ('a send_db_scheme, unit) prog" where
  "exec_suppression sha (Add_Suppression sc v reason actor) =
     then_p (lead_tx (admin_add sha sc v reason actor)) (return_p ())"
| "exec_suppression sha (Revoke_Suppression sid reason actor) =
     then_p (lead_tx (admin_revoke sid reason actor)) (return_p ())"

fun revokes :: "string \<Rightarrow> suppression_cmd \<Rightarrow> bool" where
  "revokes sid (Add_Suppression _ _ _ _) \<longleftrightarrow> False"
| "revokes sid (Revoke_Suppression x _ _) \<longleftrightarrow> js_trim x = sid"

definition sup_key :: "suppression \<Rightarrow> suppression_scope \<times> string" where
  "sup_key r = (su_scope r, su_value r)"

text \<open>The indexes of the table.\<close>

definition suppressions_ok :: "'a send_db_scheme \<Rightarrow> bool" where
  "suppressions_ok s \<longleftrightarrow> distinct (map su_id (t_suppressions s)) \<and> distinct (map sup_key (t_suppressions s))"

inductive sup_change :: "suppression_cmd \<Rightarrow> suppression list \<Rightarrow> suppression list \<Rightarrow> bool" where
  sup_same: "sup_change c xs xs"
| sup_added: "active_suppression r \<Longrightarrow> sup_key r \<notin> sup_key ` set xs \<Longrightarrow> su_id r \<notin> su_id ` set xs \<Longrightarrow>
    sup_change (Add_Suppression sc v reason actor) xs (xs @ [r])"
| sup_revoked: "sup_change (Revoke_Suppression sid reason actor) xs
    (update_where (\<lambda>r. su_id r = js_trim sid \<and> active_suppression r) (revoke_row tm b w) xs)"

lemma requireText_Inr [prog_simps]: "requireText v e s = (Inr u, s') \<longleftrightarrow> js_trim v \<noteq> [] \<and> s' = s"
  by (auto simp: requireText_def)

lemma newUUID_Inr [prog_simps]: "newUUID s = (Inr x, s') \<longleftrightarrow>
    x = lead_uuids s (lead_drawn s) \<and> s' = s\<lparr>lead_drawn := Suc (lead_drawn s)\<rparr>"
  by (auto simp: newUUID_def)

lemma readClock_Inr [prog_simps]: "readClock s = (Inr x, s') \<longleftrightarrow>
    x = lead_clock s (lead_ticks s) \<and> s' = s\<lparr>lead_ticks := Suc (lead_ticks s)\<rparr>"
  by (auto simp: readClock_def)

lemma record_event_suppressions:
  fixes s :: "'a send_db_scheme"
  shows "record_event e s = (x, s') \<Longrightarrow> t_suppressions s' = t_suppressions s \<and> t_lead_facts s' = t_lead_facts s"
  by (auto simp: record_event_def bind_p_def newUUID_def split: if_splits)

lemma not_taken: "f r \<notin> f ` set xs \<longleftrightarrow> \<not> list_ex (\<lambda>q. f q = f r) xs"
  by (auto simp: list_ex_iff image_iff)

lemma insertSuppression_Inr:
  fixes s :: "'a send_db_scheme"
  shows "insertSuppression r s = (Inr u, s') \<longleftrightarrow>
    su_id r \<notin> su_id ` set (t_suppressions s) \<and> sup_key r \<notin> sup_key ` set (t_suppressions s)
    \<and> s' = s\<lparr>lead_ticks := Suc (lead_ticks s),
             t_suppressions := t_suppressions s @ [r\<lparr>su_createdAt := lead_clock s (lead_ticks s)\<rparr>]\<rparr>"
  using not_taken [of su_id] not_taken [of sup_key]
  by (auto simp: insertSuppression_def sup_key_def)

text \<open>A successful addition: the value has a normal form, no row has its key, and the new row is the
  last one.\<close>

lemma suppression_add_Inr:
  fixes s :: "'a send_db_scheme"
  assumes "suppression_add sc v reason actor s = (Inr sid, s')"
  obtains k r where "normalizeSuppressionValue sc v = Inr k" "t_suppressions s' = t_suppressions s @ [r]"
    "su_id r = sid" "sup_key r = (sc, k)" "active_suppression r"
    "sid \<notin> su_id ` set (t_suppressions s)" "(sc, k) \<notin> sup_key ` set (t_suppressions s)"
    "t_lead_facts s' = t_lead_facts s"
proof -
  from assms obtain k where k: "normalizeSuppressionValue sc v = Inr k"
    and ins: "insertSuppression \<lparr>su_id = sid, su_scope = sc, su_value = k, su_reason = Some reason,
      su_createdBy = actor, su_createdAt = 0, su_revokedAt = None, su_revokedBy = None, su_revokeReason = None\<rparr>
      (s\<lparr>lead_drawn := Suc (lead_drawn s)\<rparr>) = (Inr (), s')" (is "insertSuppression ?r _ = _")
    unfolding suppression_add_def by (auto simp: prog_simps)
  from ins have "su_id ?r \<notin> su_id ` set (t_suppressions s)" "sup_key ?r \<notin> sup_key ` set (t_suppressions s)"
    "t_suppressions s' = t_suppressions s @ [?r\<lparr>su_createdAt := lead_clock s (lead_ticks s)\<rparr>]"
    "t_lead_facts s' = t_lead_facts s"
    by (simp_all add: insertSuppression_Inr)
  then show thesis
    by (intro that [OF k, of "?r\<lparr>su_createdAt := lead_clock s (lead_ticks s)\<rparr>"])
       (simp_all add: sup_key_def active_suppression_def)
qed

lemma admin_add_Inr:
  fixes s :: "'a send_db_scheme"
  assumes "admin_add sha sc v reason actor s = (Inr sid, s')"
  obtains n s1 where "normalizeSuppressionValue sc v = Inr n"
    "suppression_add sc n (js_trim reason) (js_trim actor) s = (Inr sid, s1)"
    "t_suppressions s' = t_suppressions s1" "t_lead_facts s' = t_lead_facts s1"
  using assms unfolding admin_add_def
  by (auto simp: prog_simps dest!: record_event_suppressions)

lemma admin_revoke_Inr:
  fixes s :: "'a send_db_scheme"
  assumes "admin_revoke sid reason actor s = (Inr b, s')"
  shows "t_suppressions s' = update_where (\<lambda>r. su_id r = js_trim sid \<and> active_suppression r)
      (revoke_row (lead_clock s (lead_ticks s)) (js_trim actor) (js_trim reason)) (t_suppressions s)
    \<and> b = (length (filter (\<lambda>r. su_id r = js_trim sid \<and> active_suppression r) (t_suppressions s)) = 1)
    \<and> t_lead_facts s' = t_lead_facts s"
  using assms unfolding admin_revoke_def
  by (auto simp: prog_simps suppression_revoke_def Let_def dest!: record_event_suppressions)

lemma exec_suppression_change:
  fixes s :: "'a send_db_scheme"
  shows "sup_change c (t_suppressions s) (t_suppressions (snd (exec_suppression sha c s)))"
proof (cases c)
  case (Add_Suppression sc v reason actor)
  show ?thesis
  proof (cases "admin_add sha sc v reason actor s")
    case (Pair x s1)
    show ?thesis
    proof (cases x)
      case (Inl e)
      then show ?thesis
        using Pair Add_Suppression by (simp add: then_p_def transaction_def rollback_def sup_same)
    next
      case (Inr sid)
      then have "exec_suppression sha c s = (Inr (), s1)"
        using Pair Add_Suppression by (simp add: then_p_def transaction_def)
      moreover have "sup_change c (t_suppressions s) (t_suppressions s1)"
      proof -
        obtain n t where t: "suppression_add sc n (js_trim reason) (js_trim actor) s = (Inr sid, t)"
          and s1: "t_suppressions s1 = t_suppressions t"
          using Pair Inr by (auto elim: admin_add_Inr)
        from t obtain k r where "t_suppressions t = t_suppressions s @ [r]" "active_suppression r"
          "sup_key r \<notin> sup_key ` set (t_suppressions s)" "su_id r \<notin> su_id ` set (t_suppressions s)"
          by (auto elim!: suppression_add_Inr)
        then show ?thesis
          unfolding Add_Suppression s1 by (simp add: sup_added)
      qed
      ultimately show ?thesis
        by simp
    qed
  qed
next
  case (Revoke_Suppression sid reason actor)
  show ?thesis
  proof (cases "admin_revoke sid reason actor s")
    case (Pair x s1)
    show ?thesis
    proof (cases x)
      case (Inl e)
      then show ?thesis
        using Pair Revoke_Suppression by (simp add: then_p_def transaction_def rollback_def sup_same)
    next
      case (Inr b)
      then have "exec_suppression sha c s = (Inr (), s1)"
        using Pair Revoke_Suppression by (simp add: then_p_def transaction_def)
      then show ?thesis
        using Pair Inr Revoke_Suppression by (auto dest!: admin_revoke_Inr intro: sup_revoked)
    qed
  qed
qed

lemma revoke_row_simps [simp]: "su_id (revoke_row a b w r) = su_id r" "sup_key (revoke_row a b w r) = sup_key r"
  "su_scope (revoke_row a b w r) = su_scope r" "su_value (revoke_row a b w r) = su_value r"
  "\<not> active_suppression (revoke_row a b w r)"
  by (simp_all add: revoke_row_def sup_key_def active_suppression_def)

text \<open>An active row stays unless it is the one revoked; a revoked row stays as it is; the indexes hold.\<close>

lemma active_stays:
  assumes "sup_change c xs ys" and "r \<in> set xs" and "\<not> revokes (su_id r) c"
  shows "r \<in> set ys"
  using assms by (cases rule: sup_change.cases) (auto simp: set_update_where image_iff)

lemma revoked_stays:
  assumes "sup_change c xs ys" and "r \<in> set xs" and "\<not> active_suppression r"
  shows "r \<in> set ys"
  using assms by (cases rule: sup_change.cases) (auto simp: set_update_where image_iff)

lemma indexes_kept:
  assumes "sup_change c xs ys" and "distinct (map su_id xs)" and "distinct (map sup_key xs)"
  shows "distinct (map su_id ys) \<and> distinct (map sup_key ys)"
  using assms
proof (cases rule: sup_change.cases)
  case (sup_revoked sid reason actor tm b w)
  then show ?thesis
    using assms(2,3) by (simp add: map_update_where_same)
qed simp_all

text \<open>Along a run of commands.\<close>

definition keeps_active :: "string \<Rightarrow> suppression_cmd list \<Rightarrow> bool" where
  "keeps_active sid cs \<longleftrightarrow> \<not> list_ex (revokes sid) cs"

locale suppression_commands =
  fixes exec :: "suppression_cmd \<Rightarrow> ('s, unit) prog" and table :: "'s \<Rightarrow> suppression list"
  assumes changes: "sup_change c (table s) (table (snd (exec c s)))"
begin

lemma run_active_stays:
  "r \<in> set (table s) \<Longrightarrow> keeps_active (su_id r) cs \<Longrightarrow> r \<in> set (table (run_progs exec cs s))"
  by (induction cs arbitrary: s) (simp_all add: keeps_active_def active_stays [OF changes])

lemma run_revoked_stays:
  "r \<in> set (table s) \<Longrightarrow> \<not> active_suppression r \<Longrightarrow> r \<in> set (table (run_progs exec cs s))"
  by (induction cs arbitrary: s) (simp_all add: revoked_stays [OF changes])

lemma run_indexes:
  "distinct (map su_id (table s)) \<Longrightarrow> distinct (map sup_key (table s)) \<Longrightarrow>
   distinct (map su_id (table (run_progs exec cs s))) \<and> distinct (map sup_key (table (run_progs exec cs s)))"
  by (induction cs arbitrary: s) (simp_all add: indexes_kept [OF changes])

end

interpretation sup: suppression_commands "exec_suppression sha" t_suppressions for sha
  by unfold_locales (rule exec_suppression_change)

text \<open>The checks over the list.\<close>

lemma listedI: "r \<in> set (t_suppressions s) \<Longrightarrow> sup_key r = (sc, v) \<Longrightarrow> active_suppression r \<Longrightarrow> listed s sc v"
  by (auto simp: listed_def list_ex_iff sup_key_def)

lemma not_listedI:
  assumes "r \<in> set (t_suppressions s)" and "\<not> active_suppression r"
    and "distinct (map sup_key (t_suppressions s))" and "sup_key r = (sc, v)"
  shows "\<not> listed s sc v"
proof
  assume "listed s sc v"
  then obtain q where q: "q \<in> set (t_suppressions s)" "sup_key q = (sc, v)" "active_suppression q"
    by (auto simp: listed_def list_ex_iff sup_key_def)
  then have "q = r"
    using assms(1,3,4) by (simp add: distinct_map inj_on_def)
  then show False
    using q(3) assms(2) by simp
qed

text \<open>An addition whose key is taken throws.\<close>

lemma taken_key_rejected:
  fixes s :: "'a send_db_scheme"
  assumes "normalizeSuppressionValue sc n = Inr k" and "(sc, k) \<in> sup_key ` set (t_suppressions s)"
  shows "\<exists>e s'. suppression_add sc n reason actor s = (Inl e, s')"
proof (cases "suppression_add sc n reason actor s")
  case (Pair x s')
  show ?thesis
  proof (cases x)
    case (Inr sid)
    then show ?thesis
      using Pair assms by (auto elim!: suppression_add_Inr)
  qed (use Pair in auto)
qed

text \<open>The key under which the administration files a value.\<close>

definition filed_key :: "suppression_scope \<Rightarrow> string \<Rightarrow> app_error + string" where
  "filed_key sc v = (case normalizeSuppressionValue sc v of Inl e \<Rightarrow> Inl e | Inr n \<Rightarrow> normalizeSuppressionValue sc n)"

lemma taken_key_admin:
  fixes s :: "'a send_db_scheme"
  assumes "filed_key sc v = Inr k" and "(sc, k) \<in> sup_key ` set (t_suppressions s)"
  shows "\<exists>e s'. admin_add sha sc v reason actor s = (Inl e, s')"
proof (cases "admin_add sha sc v reason actor s")
  case (Pair x s')
  show ?thesis
  proof (cases x)
    case (Inr sid)
    then obtain n s1 where "normalizeSuppressionValue sc v = Inr n"
      "suppression_add sc n (js_trim reason) (js_trim actor) s = (Inr sid, s1)"
      using Pair by (auto elim: admin_add_Inr)
    then show ?thesis
      using taken_key_rejected [of sc n k s "js_trim reason" "js_trim actor"] assms
      by (auto simp: filed_key_def split: sum.splits)
  qed (use Pair in auto)
qed

lemma nonempty_value: "normalizeSuppressionValue sc w = Inr k \<Longrightarrow> w \<noteq> []"
  by (auto simp: normalizeSuppressionValue_def)

lemma business_value: "normalizeSuppressionValue SU_business w = Inr k \<Longrightarrow> fact (normalizeName (Some w)) = Some k"
  by (auto simp: normalizeSuppressionValue_def Let_def normalizeName_def fact_def non_empty_def
      split: if_splits option.splits)

lemma phone_value: "normalizeSuppressionValue SU_phone w = Inr k \<Longrightarrow> k \<noteq> [] \<and> valid_phone k"
  by (auto simp: normalizeSuppressionValue_def Let_def valid_phone_def drop_prefix_def starts_with_def
      split: if_splits)

text \<open>Numbers: the digits of a number survive both normal forms.\<close>

lemma digit_not_noise: "is_digit c \<Longrightarrow> \<not> phone_noise c"
  by (auto simp: is_digit_def phone_noise_def is_ws_def Let_def)

lemma filter_digits_noise: "filter is_digit (filter (\<lambda>c. \<not> phone_noise c) s) = filter is_digit s"
  by (induction s) (auto dest: digit_not_noise)

lemma set_drop_prefix: "set (drop_prefix p s) \<subseteq> set s"
  by (auto simp: drop_prefix_def dest: in_set_dropD)

lemma set_strip_zeros: "set (strip_zeros s) \<subseteq> set s"
  by (induction s rule: strip_zeros.induct) auto

lemma set_strip_country: "set (strip_country ccs s) \<subseteq> set s"
  by (induction ccs) (auto dest: in_set_dropD)

lemma normalizePhone_digits:
  assumes "normalizePhone q = Some k"
  shows "list_all is_digit k"
proof -
  have "set k \<subseteq> {c. is_digit c}"
    using assms set_strip_country set_drop_prefix set_strip_zeros
    by (fastforce simp: normalizePhone_def Let_def split: option.splits if_splits)
  then show ?thesis
    by (auto simp: list_all_iff)
qed

lemma length_drop_prefix: "length (drop_prefix p s) \<le> length s"
  by (simp add: drop_prefix_def)

lemma length_strip_zeros: "length (strip_zeros s) \<le> length s"
  by (induction s rule: strip_zeros.induct) auto

lemma length_strip_zeros_less: "starts_with ''0'' s \<Longrightarrow> 2 \<le> length s \<Longrightarrow> length (strip_zeros s) < length s"
proof (cases s rule: strip_zeros.cases)
  case (1 c d t)
  assume "starts_with ''0'' s"
  then show ?thesis
    using length_strip_zeros [of "d # t"] 1 by (simp add: starts_with_def)
qed (simp_all add: starts_with_def)

lemma length_strip_country: "length (strip_country ccs s) \<le> length s"
  by (induction ccs) auto

lemma starts_with_hd: "starts_with [c] s \<longleftrightarrow> (\<exists>t. s = c # t)"
  by (cases s) (auto simp: starts_with_def)

lemma starts_with_filter: "starts_with [c] s \<Longrightarrow> P c \<Longrightarrow> starts_with [c] (filter P s)"
  by (auto simp: starts_with_hd)

lemma valid_phone_digits:
  assumes "valid_phone k"
  shows "7 \<le> length k" and "starts_with ''+'' k \<or> list_all is_digit k"
  using assms length_drop_prefix [of "''+''" k]
  by (auto simp: valid_phone_def Let_def drop_prefix_def split: if_splits)

lemma plain_number:
  assumes k: "k = filter (\<lambda>c. \<not> phone_noise c) (js_trim p)" and valid: "valid_phone k" and p: "p \<noteq> []"
    and plus: "\<not> starts_with ''+'' k"
  shows "normalizePhone (Some p) = Some k \<longleftrightarrow> \<not> starts_with ''0'' k"
proof -
  have digits: "list_all is_digit k" and len: "7 \<le> length k"
    using valid_phone_digits [OF valid] plus by auto
  have d: "filter is_digit (js_trim p) = k"
  proof -
    have "filter is_digit k = k"
      using digits by (simp add: filter_id_conv list_all_iff)
    then show ?thesis
      using filter_digits_noise [of "js_trim p"] unfolding k by simp
  qed
  have nz: "\<not> phone_noise CHR ''+''" "\<not> phone_noise CHR ''0''"
    by (simp_all add: phone_noise_def is_ws_def)
  have no_plus: "\<not> starts_with ''+'' (js_trim p)"
    using plus starts_with_filter [of "CHR ''+''" "js_trim p" "\<lambda>c. \<not> phone_noise c"] nz k by blast
  have zeros: "starts_with ''0'' k" if "starts_with ''00'' (js_trim p)"
  proof -
    have "starts_with ''0'' (js_trim p)"
      using that by (cases "js_trim p") (auto simp: starts_with_def)
    then show ?thesis
      using starts_with_filter [of "CHR ''0''" "js_trim p" "\<lambda>c. \<not> phone_noise c"] nz k by blast
  qed
  show ?thesis
  proof (cases "starts_with ''0'' k")
    case False
    then have "\<not> starts_with ''00'' (js_trim p)"
      using zeros by blast
    then show ?thesis
      using False no_plus d len p by (auto simp: normalizePhone_def Let_def fact_def drop_prefix_def)
  next
    case True
    have "length (strip_country ccs (drop_prefix ''00'' (strip_zeros k))) < length k" for ccs
      using length_strip_country [of ccs "drop_prefix ''00'' (strip_zeros k)"]
        length_drop_prefix [of "''00''" "strip_zeros k"] length_strip_zeros_less [OF True] len by linarith
    then have "strip_country ccs (drop_prefix ''00'' (strip_zeros k)) \<noteq> k" for ccs
      by (metis less_irrefl)
    moreover have "drop_prefix ''0'' k \<noteq> k"
      using True by (auto simp: drop_prefix_def starts_with_hd)
    ultimately show ?thesis
      using True d p by (auto simp: normalizePhone_def Let_def fact_def)
  qed
qed

section \<open>Properties\<close>


text \<open>C23: an entry that has been revoked can never be put back: whatever additions and revocations
  follow, its value is not recognised any more, and adding it again fails.\<close>

theorem revoked_never_again:
  fixes s :: "'a send_db_scheme"
  assumes "suppressions_ok s" and "r \<in> set (t_suppressions s)" and "su_revokedAt r \<noteq> None"
    and "filed_key (su_scope r) v = Inr (su_value r)" and "s2 = run_progs (exec_suppression sha) cs s"
  shows "\<not> listed s2 (su_scope r) (su_value r)
    \<and> (\<exists>e s3. admin_add sha (su_scope r) v reason actor s2 = (Inl e, s3))"
proof -
  have r: "r \<in> set (t_suppressions s2)" "\<not> active_suppression r"
    unfolding assms(5) using assms(2,3) by (simp_all add: active_suppression_def sup.run_revoked_stays)
  have "distinct (map sup_key (t_suppressions s2))"
    unfolding assms(5) using assms(1) by (simp add: suppressions_ok_def sup.run_indexes)
  then have "\<not> listed s2 (su_scope r) (su_value r)"
    using not_listedI [OF r] by (simp add: sup_key_def)
  moreover have "(su_scope r, su_value r) \<in> sup_key ` set (t_suppressions s2)"
    using r(1) by (force simp: sup_key_def)
  ultimately show ?thesis
    using taken_key_admin [OF assms(4)] by blast
qed


section \<open>Examples\<close>

definition demo_list :: "suppression list \<Rightarrow> send_db" where
  "demo_list rows = \<lparr>t_leads = [], t_pipeline_events = [], fk_runs = [], t_lead_facts = [],
     t_source_entities = [], t_source_requests = [], t_source_observations = [],
     lead_uuids = (\<lambda>n. replicate n CHR ''u''), lead_drawn = 0, lead_clock = int, lead_ticks = 0,
     t_gmail_drafts = [], t_finalizations = [], t_schedules = [], t_attempts = [], t_readiness = [],
     t_suppressions = rows, t_authorizations = [], gm_calls = 0, gm_account = (\<lambda>_. \<lparr>aa_ok = False, aa_email = None\<rparr>),
     gm_draft = (\<lambda>_. NotInspected ''''), gm_send = (\<lambda>_. ProviderThrows), gm_sent = []\<rparr>"

definition demo_revoked :: suppression where
  "demo_revoked = \<lparr>su_id = ''i'', su_scope = SU_email, su_value = ''r@b.c'', su_reason = None, su_createdBy = ''o'',
     su_createdAt = 1, su_revokedAt = Some 2, su_revokedBy = Some ''o'', su_revokeReason = Some ''x''\<rparr>"


theorem revoked_never_again_witness:
  "\<exists>s2 :: send_db. \<not> listed s2 SU_email ''r@b.c''
     \<and> (\<exists>e s3. admin_add (\<lambda>_. ''h'') SU_email ''R@b.c'' ''x'' ''o'' s2 = (Inl e, s3))"
proof -
  have "suppressions_ok (demo_list [demo_revoked])" "demo_revoked \<in> set (t_suppressions (demo_list [demo_revoked]))"
    by (simp_all add: suppressions_ok_def demo_list_def)
  moreover have "su_revokedAt demo_revoked \<noteq> None" "su_scope demo_revoked = SU_email" "su_value demo_revoked = ''r@b.c''"
    by (simp_all add: demo_revoked_def)
  moreover have "filed_key SU_email ''R@b.c'' = Inr ''r@b.c''"
    by code_simp
  ultimately show ?thesis
    using revoked_never_again [of "demo_list [demo_revoked]" demo_revoked "''R@b.c''" _ "\<lambda>_. ''h''" "[]"]
    by (intro exI [of _ "demo_list [demo_revoked]"]) simp
qed


end
