(* ===== verification/Qualification.thy ===== *)
theory Qualification
  imports Canonical Lead_Facts Suppressions
begin

text \<open>
  Qualification of leads before an audit: the versioned rules (\<^verbatim>\<open>src/src/config/qualification-rules.ts\<close>),
  the deterministic evaluation of the current facts (\<^verbatim>\<open>domain/qualification/qualify.ts\<close>), the atomic
  write of a result with the status changes (\<^verbatim>\<open>qualification-service.ts\<close>,
  \<^verbatim>\<open>persistence/repositories/qualification.repo.ts\<close>), and the run over a selection of leads
  (\<^verbatim>\<open>pipeline/qualify-leads.ts\<close>, \<^verbatim>\<open>cli/commands/qualify-leads.ts\<close>). Numbers are exact rationals; the
  scores of the shipped rules are integers, so that rounding undoes the errors of floating-point
  arithmetic. The text of a number (\<open>num_str\<close>) and the digest (\<open>sha\<close>) are parameters.
\<close>

section \<open>Numbers in strings\<close>

text \<open>\<^verbatim>\<open>Number(s)\<close>: decimal literals with an exponent, the three literals with a prefix, and the empty
  string; \<^verbatim>\<open>None\<close> stands for \<^verbatim>\<open>NaN\<close> and the infinities.\<close>

definition digit_value :: "char \<Rightarrow> nat" where
  "digit_value c = (let n = of_char c in
     if 48 \<le> n \<and> n \<le> 57 then n - 48 else if 97 \<le> n \<and> n \<le> 122 then n - 87
     else if 65 \<le> n \<and> n \<le> 90 then n - 55 else 36)"

definition digits_value :: "nat \<Rightarrow> string \<Rightarrow> nat" where
  "digits_value b ds = foldl (\<lambda>acc c. acc * b + digit_value c) 0 ds"

definition radix_literal :: "nat \<Rightarrow> string \<Rightarrow> rat option" where
  "radix_literal b ds = (if ds \<noteq> [] \<and> list_all (\<lambda>c. digit_value c < b) ds then Some (of_nat (digits_value b ds)) else None)"

definition exponent_part :: "string \<Rightarrow> int option" where
  "exponent_part s =
     (case s of [] \<Rightarrow> Some 0
      | c # t \<Rightarrow>
          if c \<noteq> CHR ''e'' \<and> c \<noteq> CHR ''E'' then None
          else let ds = (if starts_with ''-'' t \<or> starts_with ''+'' t then tl t else t) in
            if ds = [] \<or> \<not> list_all is_digit ds then None
            else Some ((if starts_with ''-'' t then -1 else 1) * int (digits_value 10 ds)))"

definition power_of_ten :: "int \<Rightarrow> rat" where
  "power_of_ten e = (if e < 0 then 1 / 10 ^ nat (- e) else 10 ^ nat e)"

definition unsigned_literal :: "string \<Rightarrow> rat option" where
  "unsigned_literal s =
     (let whole = takeWhile is_digit s; r1 = dropWhile is_digit s;
          frac = (if starts_with ''.'' r1 then takeWhile is_digit (tl r1) else []);
          r2 = (if starts_with ''.'' r1 then dropWhile is_digit (tl r1) else r1)
      in if whole = [] \<and> frac = [] then None
         else (case exponent_part r2 of None \<Rightarrow> None
           | Some e \<Rightarrow> Some (of_nat (digits_value 10 (whole @ frac)) * power_of_ten (e - int (length frac)))))"

text \<open>Magnitudes from half a unit beyond the greatest double on are infinite.\<close>

definition finite_double :: "rat \<Rightarrow> bool" where
  "finite_double x \<longleftrightarrow> \<bar>x\<bar> < 2 ^ 1024 - 2 ^ 970"

definition js_number :: "string \<Rightarrow> rat option" where
  "js_number s =
     (let t = js_trim s in
      if t = [] then Some 0
      else if starts_with ''0x'' t \<or> starts_with ''0X'' t then radix_literal 16 (drop 2 t)
      else if starts_with ''0o'' t \<or> starts_with ''0O'' t then radix_literal 8 (drop 2 t)
      else if starts_with ''0b'' t \<or> starts_with ''0B'' t then radix_literal 2 (drop 2 t)
      else if starts_with ''-'' t then map_option uminus (unsigned_literal (tl t))
      else if starts_with ''+'' t then unsigned_literal (tl t)
      else unsigned_literal t)"

definition numeric :: "string option \<Rightarrow> rat option" where
  "numeric value = (case value of None \<Rightarrow> None
     | Some v \<Rightarrow> (case js_number v of None \<Rightarrow> None | Some n \<Rightarrow> if finite_double n then Some n else None))"

text \<open>\<^verbatim>\<open>Math.round\<close>: halves are rounded up.\<close>

definition js_round :: "rat \<Rightarrow> int" where
  "js_round x = \<lfloor>x + 1 / 2\<rfloor>"

section \<open>Rules\<close>

record qualification_rules =
  qr_version :: string
  qr_ratingMin :: rat
  qr_reviewCountMin :: rat
  qr_active :: rat
  qr_rating :: rat
  qr_reviews :: rat
  qr_independent :: rat
  qr_verifiedEmail :: rat
  qr_contactForm :: rat
  qr_phone :: rat
  qr_viability :: rat
  qr_auditability :: rat
  qr_acceptThreshold :: rat
  qr_priorityHigh :: rat

definition QUALIFICATION_RULES :: qualification_rules where
  "QUALIFICATION_RULES = \<lparr>qr_version = ''q-2026.07.1'', qr_ratingMin = 4, qr_reviewCountMin = 20,
     qr_active = 40, qr_rating = 25, qr_reviews = 20, qr_independent = 15,
     qr_verifiedEmail = 100, qr_contactForm = 80, qr_phone = 40,
     qr_viability = 6 / 10, qr_auditability = 4 / 10, qr_acceptThreshold = 55, qr_priorityHigh = 80\<rparr>"

definition rules_json :: "(rat \<Rightarrow> string) \<Rightarrow> qualification_rules \<Rightarrow> json" where
  "rules_json num_str r = (let n = (\<lambda>x. JLit (num_str x)) in JObj
     [(''version'', JStr (qr_version r)), (''ratingMin'', n (qr_ratingMin r)), (''reviewCountMin'', n (qr_reviewCountMin r)),
      (''viabilityWeights'', JObj [(''active'', n (qr_active r)), (''rating'', n (qr_rating r)),
         (''reviews'', n (qr_reviews r)), (''independent'', n (qr_independent r))]),
      (''contactabilityTiers'', JObj [(''verifiedEmail'', n (qr_verifiedEmail r)), (''contactForm'', n (qr_contactForm r)),
         (''phone'', n (qr_phone r))]),
      (''composite'', JObj [(''viability'', n (qr_viability r)), (''auditability'', n (qr_auditability r))]),
      (''acceptThreshold'', n (qr_acceptThreshold r)), (''priorityHigh'', n (qr_priorityHigh r))])"

definition rulesConfigHash :: "(string \<Rightarrow> string) \<Rightarrow> (rat \<Rightarrow> string) \<Rightarrow> qualification_rules \<Rightarrow> string" where
  "rulesConfigHash sha num_str rules = hashCanonical sha (rules_json num_str rules)"

section \<open>Results\<close>

datatype qualification_decision = Q_ACCEPT | Q_REVIEW | Q_REJECT
datatype qualification_priority = Q_HIGH | Q_MEDIUM | Q_LOW | Q_UNASSIGNED
datatype next_step = NX_AUDIT | NX_WEBSITE_DISCOVERY | NX_NEEDS_ENRICHMENT | NX_MANUAL_REVIEW | NX_SKIP

record qualification_verdict =
  ql_viability :: "rat option"
  ql_auditability :: "rat option"
  ql_contactability :: "rat option"
  ql_opportunity :: "rat option"
  ql_deterministic :: "rat option"
  ql_decision :: qualification_decision
  ql_priority :: qualification_priority
  ql_nextStep :: next_step
  ql_missingRequiredFacts :: "string list"

record qualification_result = qualification_verdict +
  ql_leadId :: string
  ql_campaign :: string
  ql_rulesVersion :: string
  ql_rulesConfigHash :: string
  ql_evaluatedAt :: int
  ql_triggeredRules :: "string list"
  ql_reasons :: "string list"
  ql_inputFingerprint :: string
  ql_inputFactIds :: "string list"

record niche =
  ni_allowedCategories :: "string list"
  ni_excludeChains :: bool
  ni_chainNames :: "string list"

record qualification_context =
  qc_leadId :: string
  qc_campaign :: string
  qc_niche :: niche
  qc_suppressed :: bool
  qc_now :: int

fun fact_type_str :: "fact_type \<Rightarrow> string" where
  "fact_type_str FT_business_name = ''business_name''"
| "fact_type_str FT_official_domain = ''official_domain''"
| "fact_type_str FT_official_website_url = ''official_website_url''"
| "fact_type_str FT_candidate_website_url = ''candidate_website_url''"
| "fact_type_str FT_google_place_id = ''google_place_id''"
| "fact_type_str FT_official_location_page_url = ''official_location_page_url''"
| "fact_type_str FT_domain = ''domain''"
| "fact_type_str FT_phone = ''phone''"
| "fact_type_str FT_contact_email = ''contact_email''"
| "fact_type_str FT_contact_form_url = ''contact_form_url''"
| "fact_type_str FT_formatted_address = ''formatted_address''"
| "fact_type_str FT_latitude = ''latitude''"
| "fact_type_str FT_longitude = ''longitude''"
| "fact_type_str FT_city = ''city''"
| "fact_type_str FT_country = ''country''"
| "fact_type_str FT_category = ''category''"
| "fact_type_str FT_rating = ''rating''"
| "fact_type_str FT_review_count = ''review_count''"
| "fact_type_str FT_business_status = ''business_status''"
| "fact_type_str FT_ownership_type = ''ownership_type''"
| "fact_type_str FT_services = ''services''"
| "fact_type_str FT_opening_hours = ''opening_hours''"
| "fact_type_str FT_booking_url = ''booking_url''"
| "fact_type_str FT_contact_timezone = ''contact_timezone''"

definition REQUIRED_FACTS :: "fact_type list" where
  "REQUIRED_FACTS = [FT_business_name, FT_business_status, FT_category]"

definition CONTACT_OR_AUDIT_FACTS :: "fact_type list" where
  "CONTACT_OR_AUDIT_FACTS = [FT_official_domain, FT_domain, FT_phone, FT_contact_email, FT_contact_form_url]"

section \<open>The evaluation\<close>

text \<open>\<^verbatim>\<open>byType.get\<close>: the last current fact of a type.\<close>

definition by_type :: "lead_fact list \<Rightarrow> fact_type \<Rightarrow> lead_fact option" where
  "by_type facts ty = find (\<lambda>f. ff_isCurrent f \<and> ff_factType f = ty) (rev facts)"

definition has_type :: "lead_fact list \<Rightarrow> fact_type \<Rightarrow> bool" where
  "has_type facts ty \<longleftrightarrow> by_type facts ty \<noteq> None"

definition value_of :: "lead_fact list \<Rightarrow> fact_type \<Rightarrow> string option" where
  "value_of facts ty = map_option ff_value (by_type facts ty)"

text \<open>\<^verbatim>\<open>f.normalizedValue ?? f.value\<close>.\<close>

definition normal_value :: "lead_fact \<Rightarrow> string" where
  "normal_value f = (case ff_normalizedValue f of None \<Rightarrow> ff_value f | Some n \<Rightarrow> n)"

text \<open>The facts used are given by their types, in the order of use.\<close>

definition input_fact_ids :: "lead_fact list \<Rightarrow> fact_type list \<Rightarrow> string list" where
  "input_fact_ids facts used = string_sort (remdups (map ff_id (List.map_filter (by_type facts) used)))"

definition fact_pairs :: "lead_fact list \<Rightarrow> string list \<Rightarrow> (string \<times> string) list" where
  "fact_pairs facts ids =
     js_sort_by fst (map (\<lambda>f. (fact_type_str (ff_factType f), normal_value f))
       (List.map_filter (\<lambda>i. find (\<lambda>f. ff_id f = i) facts) ids))"

definition input_json ::
  "qualification_context \<Rightarrow> string \<Rightarrow> (string \<times> string) list \<Rightarrow> json" where
  "input_json ctx hash pairs = JObj
     [(''campaign'', JStr (qc_campaign ctx)),
      (''niche'', JObj [(''allowedCategories'', JArr (map JStr (string_sort (ni_allowedCategories (qc_niche ctx))))),
         (''excludeChains'', JBool (ni_excludeChains (qc_niche ctx))),
         (''chainNames'', JArr (map JStr (string_sort (ni_chainNames (qc_niche ctx)))))]),
      (''rulesConfigHash'', JStr hash),
      (''facts'', JArr (map (\<lambda>(t, v). JArr [JStr t, JStr v]) pairs))]"

definition finish ::
  "(string \<Rightarrow> string) \<Rightarrow> (rat \<Rightarrow> string) \<Rightarrow> lead_fact list \<Rightarrow> qualification_context \<Rightarrow> qualification_rules
   \<Rightarrow> fact_type list \<Rightarrow> string list \<Rightarrow> string list \<Rightarrow> qualification_verdict \<Rightarrow> qualification_result" where
  "finish sha num_str facts ctx rules used triggered reasons v =
     (let hash = rulesConfigHash sha num_str rules; ids = input_fact_ids facts used in
      \<lparr>ql_viability = ql_viability v, ql_auditability = ql_auditability v, ql_contactability = ql_contactability v,
       ql_opportunity = ql_opportunity v, ql_deterministic = ql_deterministic v, ql_decision = ql_decision v,
       ql_priority = ql_priority v, ql_nextStep = ql_nextStep v, ql_missingRequiredFacts = ql_missingRequiredFacts v,
       ql_leadId = qc_leadId ctx, ql_campaign = qc_campaign ctx, ql_rulesVersion = qr_version rules,
       ql_rulesConfigHash = hash, ql_evaluatedAt = qc_now ctx, ql_triggeredRules = triggered, ql_reasons = reasons,
       ql_inputFingerprint = hashCanonical sha (input_json ctx hash (fact_pairs facts ids)),
       ql_inputFactIds = ids\<rparr>)"

definition no_scores ::
  "qualification_decision \<Rightarrow> next_step \<Rightarrow> string list \<Rightarrow> qualification_verdict" where
  "no_scores d n absent = \<lparr>ql_viability = None, ql_auditability = None, ql_contactability = None,
     ql_opportunity = None, ql_deterministic = None, ql_decision = d, ql_priority = Q_UNASSIGNED,
     ql_nextStep = n, ql_missingRequiredFacts = absent\<rparr>"

definition category_of :: "lead_fact list \<Rightarrow> string option" where
  "category_of facts = fact (map_option normal_value (by_type facts FT_category))"

definition outside_niche :: "niche \<Rightarrow> string \<Rightarrow> bool" where
  "outside_niche n category \<longleftrightarrow> normalizeCategory category \<notin> set (map normalizeCategory (ni_allowedCategories n))"

text \<open>The rejection gates in order: the rule, the reason and the facts looked at so far.\<close>

definition rejection ::
  "lead_fact list \<Rightarrow> qualification_context \<Rightarrow> (string \<times> string \<times> fact_type list) option" where
  "rejection facts ctx =
     (if qc_suppressed ctx then Some (''gate.suppressed'', ''Business is on the suppression list'', [])
      else if value_of facts FT_business_status = Some ''CLOSED_PERMANENTLY''
      then Some (''gate.permanentlyClosed'', ''Business is permanently closed'', [FT_business_status])
      else (case category_of facts of
          Some category \<Rightarrow>
            if outside_niche (qc_niche ctx) category
            then Some (''gate.outsideNiche'',
              ''Category '' @ [CHR 0x22] @ category @ [CHR 0x22] @ '' is outside the campaign niche'',
              [FT_business_status, FT_category])
            else if ni_excludeChains (qc_niche ctx) \<and> value_of facts FT_ownership_type = Some ''CHAIN''
            then Some (''gate.verifiedChain'', ''Verified chain excluded by campaign'',
              [FT_business_status, FT_category, FT_ownership_type])
            else None
        | None \<Rightarrow>
            if ni_excludeChains (qc_niche ctx) \<and> value_of facts FT_ownership_type = Some ''CHAIN''
            then Some (''gate.verifiedChain'', ''Verified chain excluded by campaign'',
              [FT_business_status, FT_category, FT_ownership_type])
            else None))"

definition possible_chain :: "lead_fact list \<Rightarrow> niche \<Rightarrow> bool" where
  "possible_chain facts n \<longleftrightarrow>
     (case fact (Option.bind (by_type facts FT_business_name) ff_normalizedValue) of
        None \<Rightarrow> False | Some name \<Rightarrow> name \<in> set (ni_chainNames n))"

definition missing_required :: "lead_fact list \<Rightarrow> string list" where
  "missing_required facts =
     map fact_type_str (filter (\<lambda>ty. \<not> has_type facts ty) REQUIRED_FACTS)
   @ (if list_ex (has_type facts) CONTACT_OR_AUDIT_FACTS then [] else [''contact_or_audit_path''])"

text \<open>The weights a lead earns, with the signal each one triggers.\<close>

definition viability_signals :: "qualification_rules \<Rightarrow> lead_fact list \<Rightarrow> (string \<times> rat) list" where
  "viability_signals rules facts =
     (if value_of facts FT_business_status = Some ''OPERATIONAL'' then [(''signal.activeBusiness'', qr_active rules)] else [])
   @ (case numeric (value_of facts FT_rating) of
        Some r \<Rightarrow> if r \<ge> qr_ratingMin rules then [(''signal.ratingGood'', qr_rating rules)] else [] | None \<Rightarrow> [])
   @ (case numeric (value_of facts FT_review_count) of
        Some n \<Rightarrow> if n \<ge> qr_reviewCountMin rules then [(''signal.reviewVolume'', qr_reviews rules)] else [] | None \<Rightarrow> [])
   @ (if value_of facts FT_ownership_type = Some ''INDEPENDENT''
      then [(''signal.independentVerified'', qr_independent rules)] else [])"

definition contact_types :: "lead_fact list \<Rightarrow> fact_type list" where
  "contact_types facts =
     (if has_type facts FT_contact_email then [FT_contact_email]
      else if has_type facts FT_contact_form_url then [FT_contact_form_url]
      else if has_type facts FT_phone then [FT_phone] else [])"

definition contact_score :: "qualification_rules \<Rightarrow> lead_fact list \<Rightarrow> rat" where
  "contact_score rules facts =
     (case contact_types facts of [] \<Rightarrow> 0
      | ty # _ \<Rightarrow> if ty = FT_contact_email then qr_verifiedEmail rules
                 else if ty = FT_contact_form_url then qr_contactForm rules else qr_phone rules)"

definition viability_score :: "qualification_rules \<Rightarrow> lead_fact list \<Rightarrow> rat" where
  "viability_score rules facts = sum_list (map snd (viability_signals rules facts))"

definition auditability_score :: "lead_fact list \<Rightarrow> rat" where
  "auditability_score facts = (if has_type facts FT_official_domain then 100 else 0)"

definition composite_score :: "qualification_rules \<Rightarrow> lead_fact list \<Rightarrow> int" where
  "composite_score rules facts = js_round (qr_viability rules * viability_score rules facts
     + qr_auditability rules * auditability_score facts)"

definition scored ::
  "(rat \<Rightarrow> string) \<Rightarrow> qualification_rules \<Rightarrow> lead_fact list \<Rightarrow> qualification_verdict \<times> string list \<times> string" where
  "scored num_str rules facts =
     (let viability = viability_score rules facts; auditability = auditability_score facts;
          hasOfficialDomain = has_type facts FT_official_domain; composite = composite_score rules facts;
          v = \<lparr>ql_viability = Some viability, ql_auditability = Some auditability,
               ql_contactability = Some (contact_score rules facts), ql_opportunity = None,
               ql_deterministic = Some (of_int composite), ql_decision = Q_REVIEW, ql_priority = Q_LOW,
               ql_nextStep = NX_MANUAL_REVIEW, ql_missingRequiredFacts = []\<rparr>;
          signals = map fst (viability_signals rules facts) @ (if hasOfficialDomain then [''signal.officialDomain''] else [])
      in if of_int composite \<ge> qr_acceptThreshold rules
         then (v\<lparr>ql_decision := Q_ACCEPT, ql_nextStep := (if hasOfficialDomain then NX_AUDIT else NX_WEBSITE_DISCOVERY),
                 ql_priority := (if of_int composite \<ge> qr_priorityHigh rules then Q_HIGH else Q_MEDIUM)\<rparr>,
               signals @ [if hasOfficialDomain then ''route.audit'' else ''route.websiteDiscovery''],
               if hasOfficialDomain then ''Worth auditing (official domain present)''
               else ''Worth pursuing but needs an official website discovered first'')
         else (v, signals @ [''route.manualReview''],
               ''Composite score '' @ show_int composite @ '' below accept threshold '' @ num_str (qr_acceptThreshold rules)))"

definition evaluateQualification ::
  "(string \<Rightarrow> string) \<Rightarrow> (rat \<Rightarrow> string) \<Rightarrow> lead_fact list \<Rightarrow> qualification_context \<Rightarrow> qualification_rules
   \<Rightarrow> qualification_result" where
  "evaluateQualification sha num_str facts ctx rules =
     (case rejection facts ctx of
        Some (rule, reason, used) \<Rightarrow>
          finish sha num_str facts ctx rules used [rule] [reason] (no_scores Q_REJECT NX_SKIP [])
      | None \<Rightarrow>
          let used = [FT_business_status, FT_category, FT_ownership_type, FT_business_name];
              flags = (if possible_chain facts (qc_niche ctx) then [''flag.possibleChain''] else []);
              notes = (if possible_chain facts (qc_niche ctx)
                then [''Name matches a known chain; ownership not verified (not rejected)''] else []);
              absent = missing_required facts
          in if filter ff_isCurrent facts = [] \<or> absent \<noteq> []
             then finish sha num_str facts ctx rules used (flags @ [''route.needsEnrichment''])
               (notes @ [if filter ff_isCurrent facts = []
                  then ''No approved facts yet (e.g. Place-ID-only candidate); needs enrichment''
                  else ''Missing required facts: '' @ js_join '', '' absent])
               (no_scores Q_REVIEW NX_NEEDS_ENRICHMENT absent)
             else let (v, signals, reason) = scored num_str rules facts
               in finish sha num_str facts ctx rules
                 (used @ [FT_rating, FT_review_count, FT_official_domain] @ contact_types facts)
                 (flags @ signals) (notes @ [reason]) v)"

section \<open>The store\<close>

record qualification_db = send_db +
  t_qualification_results :: "(string \<times> qualification_result) list"
  t_qualification_result_facts :: "(string \<times> string) list"

definition score_in_range :: "rat option \<Rightarrow> bool" where
  "score_in_range x \<longleftrightarrow> (case x of None \<Rightarrow> True | Some v \<Rightarrow> 0 \<le> v \<and> v \<le> 100)"

definition scores_in_range :: "'a qualification_verdict_scheme \<Rightarrow> bool" where
  "scores_in_range r \<longleftrightarrow> score_in_range (ql_viability r) \<and> score_in_range (ql_auditability r)
     \<and> score_in_range (ql_contactability r) \<and> score_in_range (ql_opportunity r)
     \<and> score_in_range (ql_deterministic r)"

definition insertResult :: "string \<Rightarrow> qualification_result \<Rightarrow> ('a qualification_db_scheme, unit) prog" where
  "insertResult rid r s =
     (if rid \<in> fst ` set (t_qualification_results s)
      then (Inl (UniqueViolation ''qualification_results_pkey''), s)
      else if \<not> scores_in_range r then (Inl (CheckViolation ''qr_score_ck''), s)
      else if \<not> lead_exists s (ql_leadId r)
      then (Inl (ForeignKeyViolation ''qualification_results.lead_id''), s)
      else (Inr (), s\<lparr>t_qualification_results := t_qualification_results s @ [(rid, r)]\<rparr>))"

definition insertResultFacts :: "string \<Rightarrow> string list \<Rightarrow> ('a qualification_db_scheme, unit) prog" where
  "insertResultFacts rid ids s =
     (if \<not> distinct ids \<or> list_ex (\<lambda>i. (rid, i) \<in> set (t_qualification_result_facts s)) ids
      then (Inl (UniqueViolation ''qualification_result_facts_pkey''), s)
      else if \<not> list_all (\<lambda>i. list_ex (\<lambda>f. ff_id f = i) (t_lead_facts s)) ids
      then (Inl (ForeignKeyViolation ''qualification_result_facts.lead_fact_id''), s)
      else (Inr (), s\<lparr>t_qualification_result_facts := t_qualification_result_facts s @ map (Pair rid) ids\<rparr>))"

definition saveResult :: "qualification_result \<Rightarrow> ('a qualification_db_scheme, string) prog" where
  "saveResult r =
     bind_p newUUID (\<lambda>rid.
     then_p (insertResult rid r)
    (then_p (when_p (ql_inputFactIds r \<noteq> []) (insertResultFacts rid (ql_inputFactIds r)))
    (return_p rid)))"

section \<open>The service\<close>

definition QUALIFIABLE_FROM :: "lead_status list" where
  "QUALIFIABLE_FROM = [NEW, NORMALIZED, READY_FOR_QUALIFICATION, ENRICHED, NEEDS_MANUAL_REVIEW]"

definition isQualifiable :: "lead_status \<Rightarrow> bool" where
  "isQualifiable st \<longleftrightarrow> st \<in> set QUALIFIABLE_FROM"

fun targetState :: "next_step \<Rightarrow> lead_status" where
  "targetState NX_AUDIT = QUALIFIED"
| "targetState NX_WEBSITE_DISCOVERY = READY_FOR_ENRICHMENT"
| "targetState NX_NEEDS_ENRICHMENT = READY_FOR_ENRICHMENT"
| "targetState NX_MANUAL_REVIEW = NEEDS_MANUAL_REVIEW"
| "targetState NX_SKIP = REJECTED"

definition advanceToReady :: "lead \<Rightarrow> ('a qualification_db_scheme, unit) prog" where
  "advanceToReady l =
     then_p (when_p (ld_status l = NEW) (then_p (lead_transition (ld_id l) NORMALIZED) (return_p ())))
       (let status = (if ld_status l = NEW then NORMALIZED else ld_status l) in
        when_p (status = NORMALIZED \<or> status = ENRICHED \<or> status = NEEDS_MANUAL_REVIEW)
          (then_p (lead_transition (ld_id l) READY_FOR_QUALIFICATION) (return_p ())))"

definition qualify_body ::
  "(string \<Rightarrow> string) \<Rightarrow> (rat \<Rightarrow> string) \<Rightarrow> string \<Rightarrow> string \<Rightarrow> niche \<Rightarrow> qualification_rules \<Rightarrow> int
   \<Rightarrow> ('a qualification_db_scheme, qualification_result) prog" where
  "qualify_body sha num_str lid campaign n rules now =
     bind_p (lead_getById lid) (\<lambda>found.
       case found of
         None \<Rightarrow> throw_p (AppError ''LEAD_NOT_FOUND'' (''Lead not found: '' @ lid))
       | Some l \<Rightarrow>
         if \<not> isQualifiable (ld_status l)
         then throw_p (AppError ''NOT_QUALIFIABLE''
           (''Lead '' @ lid @ '' not qualifiable from '' @ lead_status_str (ld_status l)))
         else then_p (advanceToReady l)
           (bind_p (isSuppressed (identity_of l)) (\<lambda>suppressed.
            bind_p (listCurrentFacts lid) (\<lambda>facts.
            let result = evaluateQualification sha num_str facts
              \<lparr>qc_leadId = lid, qc_campaign = campaign, qc_niche = n, qc_suppressed = suppressed, qc_now = now\<rparr> rules
            in then_p (saveResult result)
              (then_p (lead_transition lid (targetState (ql_nextStep result)))
              (return_p result))))))"

definition qualify ::
  "(string \<Rightarrow> string) \<Rightarrow> (rat \<Rightarrow> string) \<Rightarrow> string \<Rightarrow> string \<Rightarrow> niche \<Rightarrow> qualification_rules \<Rightarrow> int
   \<Rightarrow> ('a qualification_db_scheme, qualification_result) prog" where
  "qualify sha num_str lid campaign n rules now =
     lead_tx (qualify_body sha num_str lid campaign n rules now)"

section \<open>The run\<close>

record qualify_summary =
  qs_evaluated :: nat
  qs_accepted :: nat
  qs_review :: nat
  qs_rejected :: nat
  qs_needsEnrichment :: nat
  qs_websiteDiscovery :: nat
  qs_audit :: nat
  qs_manualReview :: nat
  qs_failed :: nat

definition no_summary :: qualify_summary where
  "no_summary = \<lparr>qs_evaluated = 0, qs_accepted = 0, qs_review = 0, qs_rejected = 0, qs_needsEnrichment = 0,
     qs_websiteDiscovery = 0, qs_audit = 0, qs_manualReview = 0, qs_failed = 0\<rparr>"

definition count_qualified :: "qualification_result \<Rightarrow> qualify_summary \<Rightarrow> qualify_summary" where
  "count_qualified r m =
     (let d = (case ql_decision r of
            Q_ACCEPT \<Rightarrow> m\<lparr>qs_evaluated := qs_evaluated m + 1, qs_accepted := qs_accepted m + 1\<rparr>
          | Q_REVIEW \<Rightarrow> m\<lparr>qs_evaluated := qs_evaluated m + 1, qs_review := qs_review m + 1\<rparr>
          | Q_REJECT \<Rightarrow> m\<lparr>qs_evaluated := qs_evaluated m + 1, qs_rejected := qs_rejected m + 1\<rparr>)
      in (case ql_nextStep r of
            NX_AUDIT \<Rightarrow> d\<lparr>qs_audit := qs_audit d + 1\<rparr>
          | NX_WEBSITE_DISCOVERY \<Rightarrow> d\<lparr>qs_websiteDiscovery := qs_websiteDiscovery d + 1\<rparr>
          | NX_NEEDS_ENRICHMENT \<Rightarrow> d\<lparr>qs_needsEnrichment := qs_needsEnrichment d + 1\<rparr>
          | NX_MANUAL_REVIEW \<Rightarrow> d\<lparr>qs_manualReview := qs_manualReview d + 1\<rparr>
          | NX_SKIP \<Rightarrow> d))"

fun qualify_each ::
  "(string \<Rightarrow> string) \<Rightarrow> (rat \<Rightarrow> string) \<Rightarrow> string \<Rightarrow> niche \<Rightarrow> qualification_rules \<Rightarrow> lead list
   \<Rightarrow> qualify_summary \<Rightarrow> ('a qualification_db_scheme, qualify_summary) prog" where
  "qualify_each sha num_str campaign n rules [] m = return_p m"
| "qualify_each sha num_str campaign n rules (l # ls) m =
     (if \<not> isQualifiable (ld_status l) then qualify_each sha num_str campaign n rules ls m
      else (\<lambda>s. case bind_p readClock (\<lambda>now. qualify sha num_str (ld_id l) campaign n rules now) s of
          (Inr r, s1) \<Rightarrow> qualify_each sha num_str campaign n rules ls (count_qualified r m) s1
        | (Inl e, s1) \<Rightarrow> qualify_each sha num_str campaign n rules ls (m\<lparr>qs_failed := qs_failed m + 1\<rparr>) s1))"

definition qualifyLeads ::
  "(string \<Rightarrow> string) \<Rightarrow> (rat \<Rightarrow> string) \<Rightarrow> string \<Rightarrow> niche \<Rightarrow> qualification_rules \<Rightarrow> lead list
   \<Rightarrow> ('a qualification_db_scheme, qualify_summary) prog" where
  "qualifyLeads sha num_str campaign n rules ls = qualify_each sha num_str campaign n rules ls no_summary"

text \<open>\<^verbatim>\<open>Number.parseInt(s, 10)\<close>, with \<^verbatim>\<open>None\<close> for \<^verbatim>\<open>NaN\<close>, and \<^verbatim>\<open>xs.slice(0, n)\<close>.\<close>

definition parseInt10 :: "string \<Rightarrow> int option" where
  "parseInt10 s =
     (let t = dropWhile is_ws s;
          ds = takeWhile is_digit (if starts_with ''-'' t \<or> starts_with ''+'' t then tl t else t)
      in if ds = [] then None else Some ((if starts_with ''-'' t then -1 else 1) * int (digits_value 10 ds)))"

definition slice_to :: "int option \<Rightarrow> 'r list \<Rightarrow> 'r list" where
  "slice_to n xs = (case n of None \<Rightarrow> []
     | Some k \<Rightarrow> take (nat (if k < 0 then int (length xs) + k else k)) xs)"

definition selectQualifiableLeads ::
  "string option \<Rightarrow> string option \<Rightarrow> lead list \<Rightarrow> app_error + lead list" where
  "selectQualifiableLeads leadOpt limitOpt all =
     (case fact leadOpt of
        Some lid \<Rightarrow> (case find (\<lambda>l. ld_id l = lid) all of
            None \<Rightarrow> Inl (PlainError ''qualification_lead_not_found'')
          | Some l \<Rightarrow> if isQualifiable (ld_status l) then Inr [l]
              else Inl (PlainError (''qualification_lead_not_qualifiable:'' @ lead_status_str (ld_status l))))
      | None \<Rightarrow>
          let selected = filter (\<lambda>l. isQualifiable (ld_status l)) all in
          Inr (case fact limitOpt of None \<Rightarrow> selected | Some n \<Rightarrow> slice_to (parseInt10 n) selected))"

definition list_leads :: "nat \<Rightarrow> ('a lead_db_scheme, lead list) prog" where
  "list_leads limit = read_p (\<lambda>s. take limit (sort_key (\<lambda>l. - ld_createdAt l) (t_leads s)))"

definition qualifyLeadsCommand ::
  "(string \<Rightarrow> string) \<Rightarrow> (rat \<Rightarrow> string) \<Rightarrow> string \<Rightarrow> niche \<Rightarrow> string option \<Rightarrow> string option
   \<Rightarrow> ('a qualification_db_scheme, qualify_summary) prog" where
  "qualifyLeadsCommand sha num_str campaign n leadOpt limitOpt =
     bind_p (list_leads 1000) (\<lambda>all.
     bind_p (lift_p (selectQualifiableLeads leadOpt limitOpt all)) (\<lambda>ls.
     qualifyLeads sha num_str campaign n QUALIFICATION_RULES ls))"

end
