(* ===== verification/Qualification_Claims.thy ===== *)
theory Qualification_Claims
  imports Qualification
begin

text \<open>
  Properties of the qualification: the exact decision, the range of the scores under the shipped rules,
  independence of the order in which facts and the niche are given, and the success of the whole unit
  of work for a qualifiable lead.
\<close>

section \<open>The decision\<close>

text \<open>A lead is rejected for a reason that is known.\<close>

definition rejectable :: "lead_fact list \<Rightarrow> qualification_context \<Rightarrow> bool" where
  "rejectable facts ctx \<longleftrightarrow> qc_suppressed ctx
     \<or> value_of facts FT_business_status = Some ''CLOSED_PERMANENTLY''
     \<or> list_ex (outside_niche (qc_niche ctx)) (case category_of facts of None \<Rightarrow> [] | Some c \<Rightarrow> [c])
     \<or> ni_excludeChains (qc_niche ctx) \<and> value_of facts FT_ownership_type = Some ''CHAIN''"

lemma rejection_iff: "rejection facts ctx \<noteq> None \<longleftrightarrow> rejectable facts ctx"
  by (auto simp: rejection_def rejectable_def split: option.splits)

lemma finish_fields [simp]:
  "ql_decision (finish sha num_str facts ctx rules used tr rs v) = ql_decision v"
  "ql_nextStep (finish sha num_str facts ctx rules used tr rs v) = ql_nextStep v"
  "ql_priority (finish sha num_str facts ctx rules used tr rs v) = ql_priority v"
  "ql_viability (finish sha num_str facts ctx rules used tr rs v) = ql_viability v"
  "ql_auditability (finish sha num_str facts ctx rules used tr rs v) = ql_auditability v"
  "ql_contactability (finish sha num_str facts ctx rules used tr rs v) = ql_contactability v"
  "ql_opportunity (finish sha num_str facts ctx rules used tr rs v) = ql_opportunity v"
  "ql_deterministic (finish sha num_str facts ctx rules used tr rs v) = ql_deterministic v"
  "ql_leadId (finish sha num_str facts ctx rules used tr rs v) = qc_leadId ctx"
  "ql_inputFactIds (finish sha num_str facts ctx rules used tr rs v) = input_fact_ids facts used"
  by (simp_all add: finish_def Let_def)

text \<open>The three outcomes of an evaluation.\<close>

lemma evaluation_cases:
  obtains (rejected) used tr rs where "rejectable facts ctx"
      "evaluateQualification sha num_str facts ctx rules
        = finish sha num_str facts ctx rules used tr rs (no_scores Q_REJECT NX_SKIP [])"
  | (incomplete) used tr rs where "\<not> rejectable facts ctx" "missing_required facts \<noteq> []"
      "evaluateQualification sha num_str facts ctx rules
        = finish sha num_str facts ctx rules used tr rs (no_scores Q_REVIEW NX_NEEDS_ENRICHMENT (missing_required facts))"
  | (complete) used tr rs where "\<not> rejectable facts ctx" "missing_required facts = []"
      "evaluateQualification sha num_str facts ctx rules
        = finish sha num_str facts ctx rules used tr rs (fst (scored num_str rules facts))"
proof (cases "rejection facts ctx")
  case (Some x)
  then show thesis
    using rejected rejection_iff [of facts ctx] by (cases x) (auto simp: evaluateQualification_def)
next
  case None
  have none: "missing_required facts \<noteq> []" if "filter ff_isCurrent facts = []"
  proof -
    have "by_type facts ty = None" for ty
      using that by (auto simp: by_type_def find_None_iff filter_empty_iff)
    then show ?thesis
      by (simp add: missing_required_def has_type_def REQUIRED_FACTS_def)
  qed
  have nr: "\<not> rejectable facts ctx"
    using None rejection_iff [of facts ctx] by simp
  show thesis
  proof (cases "missing_required facts = []")
    case True
    then show thesis
      using None none complete [OF nr True]
      by (cases "scored num_str rules facts") (fastforce simp: evaluateQualification_def Let_def)
  next
    case False
    then show thesis
      using None incomplete [OF nr False] by (auto simp: evaluateQualification_def Let_def)
  qed
qed

lemma scored_fields:
  "ql_viability (fst (scored num_str rules facts)) = Some (viability_score rules facts)"
  "ql_auditability (fst (scored num_str rules facts)) = Some (auditability_score facts)"
  "ql_contactability (fst (scored num_str rules facts)) = Some (contact_score rules facts)"
  "ql_opportunity (fst (scored num_str rules facts)) = None"
  "ql_deterministic (fst (scored num_str rules facts)) = Some (of_int (composite_score rules facts))"
  "ql_decision (fst (scored num_str rules facts)) =
     (if qr_acceptThreshold rules \<le> of_int (composite_score rules facts) then Q_ACCEPT else Q_REVIEW)"
  "ql_nextStep (fst (scored num_str rules facts)) =
     (if qr_acceptThreshold rules \<le> of_int (composite_score rules facts)
      then if has_type facts FT_official_domain then NX_AUDIT else NX_WEBSITE_DISCOVERY else NX_MANUAL_REVIEW)"
  "ql_priority (fst (scored num_str rules facts)) =
     (if qr_acceptThreshold rules \<le> of_int (composite_score rules facts)
      then if qr_priorityHigh rules \<le> of_int (composite_score rules facts) then Q_HIGH else Q_MEDIUM else Q_LOW)"
  by (simp_all add: scored_def Let_def)

lemma no_scores_fields [simp]:
  "ql_decision (no_scores d n m) = d" "ql_nextStep (no_scores d n m) = n" "ql_priority (no_scores d n m) = Q_UNASSIGNED"
  "ql_viability (no_scores d n m) = None" "ql_auditability (no_scores d n m) = None"
  "ql_contactability (no_scores d n m) = None" "ql_opportunity (no_scores d n m) = None"
  "ql_deterministic (no_scores d n m) = None"
  by (simp_all add: no_scores_def)

text \<open>C33: a lead is rejected exactly when it is suppressed or a present fact shows it closed, outside the
  niche or an excluded chain, so a missing fact never rejects; it needs enrichment exactly when it is not
  rejected and a required fact is missing; it is accepted exactly when, besides, its composite score
  reaches the threshold, for an audit or for the discovery of a web site according to its official
  domain; and otherwise it is left to a human.\<close>

theorem qualification_decision_exact:
  "let r = evaluateQualification sha num_str facts ctx rules;
       good = qr_acceptThreshold rules \<le> of_int (composite_score rules facts)
   in (ql_decision r = Q_REJECT \<longleftrightarrow> rejectable facts ctx)
    \<and> (ql_nextStep r = NX_SKIP \<longleftrightarrow> rejectable facts ctx)
    \<and> (ql_nextStep r = NX_NEEDS_ENRICHMENT \<longleftrightarrow> \<not> rejectable facts ctx \<and> missing_required facts \<noteq> [])
    \<and> (ql_decision r = Q_ACCEPT \<longleftrightarrow> \<not> rejectable facts ctx \<and> missing_required facts = [] \<and> good)
    \<and> (ql_nextStep r = NX_AUDIT \<longleftrightarrow> ql_decision r = Q_ACCEPT \<and> has_type facts FT_official_domain)
    \<and> (ql_nextStep r = NX_WEBSITE_DISCOVERY \<longleftrightarrow> ql_decision r = Q_ACCEPT \<and> \<not> has_type facts FT_official_domain)
    \<and> (ql_priority r = Q_HIGH \<longleftrightarrow> ql_decision r = Q_ACCEPT \<and> qr_priorityHigh rules \<le> of_int (composite_score rules facts))"
  unfolding Let_def
  by (cases rule: evaluation_cases [of facts ctx sha num_str rules]) (simp_all add: scored_fields)

section \<open>The shipped rules\<close>

definition active_signal :: "lead_fact list \<Rightarrow> bool" where
  "active_signal facts \<longleftrightarrow> value_of facts FT_business_status = Some ''OPERATIONAL''"

definition at_least :: "rat \<Rightarrow> rat option \<Rightarrow> bool" where
  "at_least b x \<longleftrightarrow> (case x of None \<Rightarrow> False | Some v \<Rightarrow> b \<le> v)"

definition points :: "bool \<Rightarrow> rat \<Rightarrow> rat" where
  "points b w = (if b then w else 0)"

lemma viability_points:
  "viability_score rules facts = points (active_signal facts) (qr_active rules)
     + points (at_least (qr_ratingMin rules) (numeric (value_of facts FT_rating))) (qr_rating rules)
     + points (at_least (qr_reviewCountMin rules) (numeric (value_of facts FT_review_count))) (qr_reviews rules)
     + points (value_of facts FT_ownership_type = Some ''INDEPENDENT'') (qr_independent rules)"
  by (simp add: viability_score_def viability_signals_def points_def at_least_def active_signal_def split: option.splits)

lemma shipped_viability_values:
  obtains a b c d where
    "viability_score QUALIFICATION_RULES facts = points a 40 + points b 25 + points c 20 + points d 15"
  using viability_points [of QUALIFICATION_RULES facts] by (auto simp: QUALIFICATION_RULES_def)

lemma js_round_of_int: "js_round (of_int k) = k"
  unfolding js_round_def by (rule floor_unique) simp_all

lemma shipped_composite:
  "rat_of_int (composite_score QUALIFICATION_RULES facts) =
     3 / 5 * viability_score QUALIFICATION_RULES facts + (if has_type facts FT_official_domain then 40 else 0)"
proof -
  obtain a b c d where v: "viability_score QUALIFICATION_RULES facts = points a 40 + points b 25 + points c 20 + points d 15"
    by (rule shipped_viability_values)
  let ?m = "(if a then 8 else 0) + (if b then 5 else 0) + (if c then 4 else 0) + (if d then 3 else 0) :: int"
  let ?k = "3 * ?m + (if has_type facts FT_official_domain then 40 else 0)"
  have m: "viability_score QUALIFICATION_RULES facts = 5 * of_int ?m"
    unfolding v by (simp add: points_def)
  have "qr_viability QUALIFICATION_RULES * viability_score QUALIFICATION_RULES facts
      + qr_auditability QUALIFICATION_RULES * auditability_score facts = of_int ?k"
    unfolding m by (simp add: auditability_score_def QUALIFICATION_RULES_def)
  then have "composite_score QUALIFICATION_RULES facts = ?k"
    unfolding composite_score_def by (simp only: js_round_of_int)
  then show ?thesis
    unfolding m by simp
qed

lemma contact_score_range: "0 \<le> contact_score QUALIFICATION_RULES facts" "contact_score QUALIFICATION_RULES facts \<le> 100"
  by (simp_all add: contact_score_def QUALIFICATION_RULES_def split: list.splits)

lemma shipped_viability_facts:
  fixes facts :: "lead_fact list"
  defines "v \<equiv> viability_score QUALIFICATION_RULES facts"
  shows "0 \<le> v" "v \<le> 100" "55 \<le> 3 / 5 * v \<longleftrightarrow> v = 100" "55 \<le> 3 / 5 * v + 40 \<longleftrightarrow> 25 \<le> v"
    "80 \<le> 3 / 5 * v + 40 \<longleftrightarrow> 75 \<le> v"
proof -
  obtain a b c d where v: "v = points a 40 + points b 25 + points c 20 + points d 15"
    unfolding v_def by (rule shipped_viability_values)
  show "0 \<le> v" "v \<le> 100" "55 \<le> 3 / 5 * v \<longleftrightarrow> v = 100" "55 \<le> 3 / 5 * v + 40 \<longleftrightarrow> 25 \<le> v"
    "80 \<le> 3 / 5 * v + 40 \<longleftrightarrow> 75 \<le> v"
    unfolding v by (cases a; cases b; cases c; cases d; simp add: points_def)+
qed

lemma scores_in_range_shipped:
  "scores_in_range (evaluateQualification sha num_str facts ctx QUALIFICATION_RULES)"
proof (cases rule: evaluation_cases [of facts ctx sha num_str QUALIFICATION_RULES])
  case complete
  then show ?thesis
    using shipped_viability_facts(1,2) [of facts] contact_score_range [of facts]
    by (auto simp: scores_in_range_def score_in_range_def scored_fields shipped_composite auditability_score_def)
qed (simp_all add: scores_in_range_def score_in_range_def)

text \<open>Under the shipped rules every score lies between 0 and 100, so that the table accepts it; a
  lead with an official domain is accepted from a viability of 25 on and has high priority from 75 on,
  and one without needs the full viability of 100 and never has high priority.\<close>

theorem shipped_rules_thresholds:
  "let r = evaluateQualification sha num_str facts ctx QUALIFICATION_RULES;
       v = viability_score QUALIFICATION_RULES facts;
       official = has_type facts FT_official_domain
   in scores_in_range r
    \<and> (ql_decision r = Q_ACCEPT \<longleftrightarrow> \<not> rejectable facts ctx \<and> missing_required facts = []
        \<and> (if official then 25 \<le> v else v = 100))
    \<and> (ql_priority r = Q_HIGH \<longleftrightarrow> ql_decision r = Q_ACCEPT \<and> official \<and> 75 \<le> v)"
proof -
  let ?r = "evaluateQualification sha num_str facts ctx QUALIFICATION_RULES"
  have limits: "qr_acceptThreshold QUALIFICATION_RULES = 55" "qr_priorityHigh QUALIFICATION_RULES = 80"
    by (simp_all add: QUALIFICATION_RULES_def)
  note v = shipped_viability_facts [of facts]
  have "80 \<le> 3 / 5 * viability_score QUALIFICATION_RULES facts \<longleftrightarrow> False"
    using v(2) by simp
  with v show ?thesis
    unfolding Let_def using scores_in_range_shipped [of sha num_str facts ctx]
    by (cases rule: evaluation_cases [of facts ctx sha num_str QUALIFICATION_RULES])
       (auto simp: scored_fields limits shipped_composite)
qed

section \<open>The order of the facts\<close>

lemma find_determined:
  assumes "set xs = set ys" and "\<And>x y. x \<in> set ys \<Longrightarrow> y \<in> set ys \<Longrightarrow> P x \<Longrightarrow> P y \<Longrightarrow> x = y"
  shows "find P xs = find P ys"
proof (cases "find P ys")
  case None
  then have "find P xs = None"
    unfolding find_None_iff assms(1) .
  then show ?thesis
    using None by simp
next
  case (Some y)
  then have y: "y \<in> set ys" "P y"
    by (auto dest: find_SomeD)
  then have "find P xs \<noteq> None"
    unfolding find_None_iff assms(1) by blast
  then obtain x where x: "find P xs = Some x" by blast
  have "x \<in> set ys" "P x"
    using find_SomeD [OF x] unfolding assms(1) by simp_all
  then have "x = y"
    using assms(2) y by blast
  then show ?thesis
    using x Some by simp
qed

definition one_per_type :: "lead_fact list \<Rightarrow> bool" where
  "one_per_type facts \<longleftrightarrow> distinct (map ff_id facts) \<and> distinct (map ff_factType (filter ff_isCurrent facts))"

lemma by_type_reordered:
  assumes "set facts' = set facts" and "one_per_type facts"
  shows "by_type facts' = by_type facts"
proof
  fix ty
  show "by_type facts' ty = by_type facts ty"
    unfolding by_type_def
    by (rule find_determined) (use assms in \<open>auto simp: one_per_type_def distinct_map inj_on_def\<close>)
qed

lemma evaluation_determined:
  assumes facts: "by_type facts' = by_type facts" "filter ff_isCurrent facts' = [] \<longleftrightarrow> filter ff_isCurrent facts = []"
    and ids: "\<And>i. find (\<lambda>f. ff_id f = i) facts' = find (\<lambda>f. ff_id f = i) facts"
    and ctx: "ctx' = ctx\<lparr>qc_niche := n'\<rparr>" "ni_excludeChains n' = ni_excludeChains (qc_niche ctx)"
    and niche: "mset (ni_allowedCategories n') = mset (ni_allowedCategories (qc_niche ctx))"
      "mset (ni_chainNames n') = mset (ni_chainNames (qc_niche ctx))"
  shows "evaluateQualification sha num_str facts' ctx' rules = evaluateQualification sha num_str facts ctx rules"
proof -
  have sets: "set (ni_allowedCategories n') = set (ni_allowedCategories (qc_niche ctx))"
    "set (ni_chainNames n') = set (ni_chainNames (qc_niche ctx))"
    using niche by (metis set_mset_mset)+
  have vals: "value_of facts' = value_of facts" "category_of facts' = category_of facts"
    "has_type facts' = has_type facts"
    by (simp_all add: fun_eq_iff value_of_def category_of_def has_type_def facts(1))
  have out: "outside_niche n' = outside_niche (qc_niche ctx)"
    by (simp add: fun_eq_iff outside_niche_def sets(1))
  have fields: "qc_niche ctx' = n'" "qc_suppressed ctx' = qc_suppressed ctx" "qc_leadId ctx' = qc_leadId ctx"
    "qc_campaign ctx' = qc_campaign ctx" "qc_now ctx' = qc_now ctx"
    by (simp_all add: ctx(1))
  have e1: "rejection facts' ctx' = rejection facts ctx"
    unfolding rejection_def fields ctx(2) vals out ..
  have e2: "possible_chain facts' n' = possible_chain facts (qc_niche ctx)"
    by (simp add: possible_chain_def facts(1) sets(2) split: option.splits)
  have e3: "missing_required facts' = missing_required facts"
    by (simp add: missing_required_def vals)
  have e4: "scored num_str rules facts' = scored num_str rules facts"
    by (simp add: scored_def viability_score_def viability_signals_def auditability_score_def composite_score_def
        contact_score_def contact_types_def vals)
  have e5: "contact_types facts' = contact_types facts"
    by (simp add: contact_types_def vals)
  have e6: "finish sha num_str facts' ctx' rules = finish sha num_str facts ctx rules"
    by (simp add: fun_eq_iff finish_def Let_def input_fact_ids_def fact_pairs_def facts(1) ids input_json_def
        fields ctx(2) string_sort_same [OF niche(1)] string_sort_same [OF niche(2)])
  show ?thesis
    unfolding evaluateQualification_def by (simp only: facts(2) fields e1 e2 e3 e4 e5 e6)
qed

text \<open>C34: the result of a qualification, its fingerprint included, does not depend on the order in
  which the facts of the lead, the allowed categories and the names of chains are listed.\<close>

theorem qualification_order_free:
  assumes "mset facts' = mset facts" and "one_per_type facts"
    and "mset (ni_allowedCategories n') = mset (ni_allowedCategories (qc_niche ctx))"
    and "mset (ni_chainNames n') = mset (ni_chainNames (qc_niche ctx))"
    and "ni_excludeChains n' = ni_excludeChains (qc_niche ctx)"
  shows "evaluateQualification sha num_str facts' (ctx\<lparr>qc_niche := n'\<rparr>) rules
    = evaluateQualification sha num_str facts ctx rules"
proof (rule evaluation_determined [OF _ _ _ refl assms(5,3,4)])
  have sets: "set facts' = set facts"
    using assms(1) by (metis set_mset_mset)
  then show "by_type facts' = by_type facts"
    using assms(2) by (rule by_type_reordered)
  show "filter ff_isCurrent facts' = [] \<longleftrightarrow> filter ff_isCurrent facts = []"
    by (simp add: filter_empty_conv sets)
  show "find (\<lambda>f. ff_id f = i) facts' = find (\<lambda>f. ff_id f = i) facts" for i
    by (rule find_determined [OF sets]) (use assms(2) in \<open>auto simp: one_per_type_def distinct_map inj_on_def\<close>)
qed

section \<open>The unit of work\<close>

text \<open>The identifiers still to be drawn are new.\<close>

definition used_ids :: "'a qualification_db_scheme \<Rightarrow> string set" where
  "used_ids s = pv_id ` set (t_pipeline_events s) \<union> fst ` set (t_qualification_results s)
     \<union> fst ` set (t_qualification_result_facts s)"

definition fresh_ids :: "'a qualification_db_scheme \<Rightarrow> bool" where
  "fresh_ids s \<longleftrightarrow> inj (lead_uuids s) \<and> (\<forall>n. lead_drawn s \<le> n \<longrightarrow> lead_uuids s n \<notin> used_ids s)"

lemma fresh_idsD:
  assumes "fresh_ids s"
  shows "lead_uuids s (lead_drawn s) \<notin> pv_id ` set (t_pipeline_events s)"
    "lead_uuids s (lead_drawn s) \<notin> fst ` set (t_qualification_results s)"
    "lead_uuids s (lead_drawn s) \<notin> fst ` set (t_qualification_result_facts s)"
proof -
  have "lead_uuids s (lead_drawn s) \<notin> used_ids s"
    using assms by (simp add: fresh_ids_def)
  then show "lead_uuids s (lead_drawn s) \<notin> pv_id ` set (t_pipeline_events s)"
    "lead_uuids s (lead_drawn s) \<notin> fst ` set (t_qualification_results s)"
    "lead_uuids s (lead_drawn s) \<notin> fst ` set (t_qualification_result_facts s)"
    by (simp_all add: used_ids_def)
qed

lemma fresh_ids_next:
  assumes "fresh_ids s" and "lead_uuids s' = lead_uuids s" and "lead_drawn s' = Suc (lead_drawn s)"
    and "used_ids s' \<subseteq> insert (lead_uuids s (lead_drawn s)) (used_ids s)"
  shows "fresh_ids s'"
  unfolding fresh_ids_def
proof (intro conjI allI impI)
  show "inj (lead_uuids s')"
    using assms(1,2) by (simp add: fresh_ids_def)
  fix n
  assume n: "lead_drawn s' \<le> n"
  then have "lead_uuids s n \<noteq> lead_uuids s (lead_drawn s)"
    using assms(1,3) by (auto simp: fresh_ids_def dest: injD)
  moreover have "lead_uuids s n \<notin> used_ids s"
    using assms(1,3) n by (simp add: fresh_ids_def)
  ultimately show "lead_uuids s' n \<notin> used_ids s'"
    unfolding assms(2) using assms(4) by blast
qed

text \<open>What a successful change of the status leaves: the lead with its new status, one event, and all
  else as it was.\<close>

definition hop :: "string \<Rightarrow> lead_status \<Rightarrow> lead_status \<Rightarrow> new_pipeline_event" where
  "hop lid src dst = lead_event lid LEAD_STATE_TRANSITION (Some src) dst (hop_message src dst)"

definition same_tables :: "'a qualification_db_scheme \<Rightarrow> 'a qualification_db_scheme \<Rightarrow> bool" where
  "same_tables s s' \<longleftrightarrow> t_lead_facts s' = t_lead_facts s \<and> t_suppressions s' = t_suppressions s
     \<and> t_qualification_results s' = t_qualification_results s
     \<and> t_qualification_result_facts s' = t_qualification_result_facts s"

lemma lead_of_updated:
  assumes "find (\<lambda>l. ld_id l = lid) ls = Some l" and "ld_id (f l) = lid"
  shows "find (\<lambda>l. ld_id l = lid) (update_where (\<lambda>l. ld_id l = lid) f ls) = Some (f l)"
  using assms by (induction ls) (auto split: if_splits)

lemma transition_succeeds:
  fixes s :: "'a qualification_db_scheme"
  assumes l: "lead_of s lid = Some l" and legal: "canTransition (ld_status l) dst" and fresh: "fresh_ids s"
  obtains x s' l' where "lead_transition lid dst s = (Inr x, s')" "lead_of s' lid = Some l'" "ld_status l' = dst"
    "map pv_new (t_pipeline_events s') = map pv_new (t_pipeline_events s) @ [hop lid (ld_status l) dst]"
    "fresh_ids s'" "same_tables s s'"
proof -
  define t where "t = lead_clock s (lead_ticks s)"
  let ?l = "l\<lparr>ld_status := dst, ld_updatedAt := t\<rparr>"
  define s1 where "s1 = s\<lparr>lead_ticks := Suc (lead_ticks s), t_leads := update_where (\<lambda>l. ld_id l = lid)
      (\<lambda>l. l\<lparr>ld_status := dst, ld_updatedAt := t\<rparr>) (t_leads s)\<rparr>"
  define r where "r = \<lparr>pv_id = lead_uuids s (lead_drawn s), pv_new = hop lid (ld_status l) dst\<rparr>"
  define s2 where "s2 = s1\<lparr>lead_drawn := Suc (lead_drawn s), t_pipeline_events := t_pipeline_events s @ [r]\<rparr>"
  have id: "ld_id l = lid"
    using l by (auto simp: lead_of_def dest: find_SomeD)
  then have l1: "lead_of s1 lid = Some ?l"
    using l lead_of_updated [of lid "t_leads s" l "\<lambda>l. l\<lparr>ld_status := dst, ld_updatedAt := t\<rparr>"]
    by (simp add: lead_of_def s1_def)
  then have exists: "lead_exists s1 lid"
    by (auto simp: lead_of_def lead_exists_def list_ex_iff dest: find_SomeD)
  have "\<not> list_ex (\<lambda>q. pv_id q = lead_uuids s (lead_drawn s)) (t_pipeline_events s)"
    using fresh_idsD(1) [OF fresh] by (auto simp: list_ex_iff image_iff)
  then have ev: "record_event (hop lid (ld_status l) dst) s1 = (Inr (), s2)"
    using exists unfolding record_event_def s2_def r_def hop_def lead_event_def
    by (simp add: bind_p_def newUUID_def s1_def lead_exists_def)
  have run: "lead_transition lid dst s = (Inr ?l, s2)"
    using l legal ev unfolding lead_transition_def hop_def
    by (simp add: bind_p_def then_p_def lead_getById_def readClock_def lead_updateStatus_def t_def s1_def Let_def)
  show thesis
  proof (rule that [OF run])
    show "lead_of s2 lid = Some ?l"
      using l1 by (simp add: lead_of_def s2_def)
    show "map pv_new (t_pipeline_events s2) = map pv_new (t_pipeline_events s) @ [hop lid (ld_status l) dst]"
      by (simp add: s2_def r_def)
    show "fresh_ids s2"
      by (rule fresh_ids_next [OF fresh]) (auto simp: s2_def s1_def r_def used_ids_def)
    show "same_tables s s2"
      by (simp add: same_tables_def s2_def s1_def)
  qed simp
qed

text \<open>The statuses a qualification passes through before its decision.\<close>

definition ready_path :: "lead_status \<Rightarrow> lead_status list" where
  "ready_path st = (if st = NEW then [NEW, NORMALIZED, READY_FOR_QUALIFICATION]
     else if st = READY_FOR_QUALIFICATION then [READY_FOR_QUALIFICATION] else [st, READY_FOR_QUALIFICATION])"

definition status_hops :: "string \<Rightarrow> lead_status list \<Rightarrow> new_pipeline_event list" where
  "status_hops lid path = map (\<lambda>(a, b). hop lid a b) (zip path (tl path))"

lemma same_tables_trans: "same_tables s t \<Longrightarrow> same_tables t u \<Longrightarrow> same_tables s u"
  by (simp add: same_tables_def)

lemma advance_succeeds:
  fixes s :: "'a qualification_db_scheme"
  assumes l: "lead_of s lid = Some l" and st: "isQualifiable (ld_status l)" and fresh: "fresh_ids s"
  obtains s' l' where "advanceToReady l s = (Inr (), s')" "lead_of s' lid = Some l'"
    "ld_status l' = READY_FOR_QUALIFICATION"
    "map pv_new (t_pipeline_events s') = map pv_new (t_pipeline_events s) @ status_hops lid (ready_path (ld_status l))"
    "fresh_ids s'" "same_tables s s'"
proof -
  have id: "ld_id l = lid"
    using l by (auto simp: lead_of_def dest: find_SomeD)
  have legal: "canTransition NEW NORMALIZED" "canTransition NORMALIZED READY_FOR_QUALIFICATION"
    "canTransition ENRICHED READY_FOR_QUALIFICATION" "canTransition NEEDS_MANUAL_REVIEW READY_FOR_QUALIFICATION"
    by code_simp+
  consider (new) "ld_status l = NEW" | (ready) "ld_status l = READY_FOR_QUALIFICATION"
    | (other) "ld_status l = NORMALIZED \<or> ld_status l = ENRICHED \<or> ld_status l = NEEDS_MANUAL_REVIEW"
    using st by (auto simp: isQualifiable_def QUALIFIABLE_FROM_def)
  then show thesis
  proof cases
    case new
    then have c1: "canTransition (ld_status l) NORMALIZED"
      using legal by simp
    obtain x s1 l1 where 1: "lead_transition lid NORMALIZED s = (Inr x, s1)" "lead_of s1 lid = Some l1"
      "ld_status l1 = NORMALIZED" "fresh_ids s1" "same_tables s s1"
      "map pv_new (t_pipeline_events s1) = map pv_new (t_pipeline_events s) @ [hop lid NEW NORMALIZED]"
      using transition_succeeds [OF l c1 fresh] new by metis
    have c2: "canTransition (ld_status l1) READY_FOR_QUALIFICATION"
      using legal 1 by simp
    obtain y s2 l2 where 2: "lead_transition lid READY_FOR_QUALIFICATION s1 = (Inr y, s2)" "lead_of s2 lid = Some l2"
      "ld_status l2 = READY_FOR_QUALIFICATION" "fresh_ids s2" "same_tables s1 s2"
      "map pv_new (t_pipeline_events s2) = map pv_new (t_pipeline_events s1) @ [hop lid NORMALIZED READY_FOR_QUALIFICATION]"
      using transition_succeeds [OF 1(2) c2 1(4)] 1(3) by metis
    have "advanceToReady l s = (Inr (), s2)"
      using 1(1) 2(1) new id by (simp add: advanceToReady_def when_p_def then_p_def)
    then show thesis
      using that 1 2 new same_tables_trans [OF 1(5) 2(5)] by (simp add: ready_path_def status_hops_def)
  next
    case ready
    then have "advanceToReady l s = (Inr (), s)"
      by (simp add: advanceToReady_def when_p_def then_p_def)
    then show thesis
      using that l ready fresh by (simp add: ready_path_def status_hops_def same_tables_def)
  next
    case other
    then have c: "canTransition (ld_status l) READY_FOR_QUALIFICATION"
      using legal by auto
    obtain x s1 l1 where 1: "lead_transition lid READY_FOR_QUALIFICATION s = (Inr x, s1)" "lead_of s1 lid = Some l1"
      "ld_status l1 = READY_FOR_QUALIFICATION" "fresh_ids s1" "same_tables s s1"
      "map pv_new (t_pipeline_events s1) = map pv_new (t_pipeline_events s) @ [hop lid (ld_status l) READY_FOR_QUALIFICATION]"
      using transition_succeeds [OF l c fresh] by metis
    have "advanceToReady l s = (Inr (), s1)"
      using 1(1) other id by (auto simp: advanceToReady_def when_p_def then_p_def)
    then show thesis
      using that 1 other by (auto simp: ready_path_def status_hops_def)
  qed
qed

text \<open>Saving a result whose facts exist.\<close>

lemma save_succeeds:
  fixes s :: "'a qualification_db_scheme"
  assumes fresh: "fresh_ids s" and range: "scores_in_range r" and lead: "lead_exists s (ql_leadId r)"
    and ids: "distinct (ql_inputFactIds r)" "set (ql_inputFactIds r) \<subseteq> ff_id ` set (t_lead_facts s)"
  obtains s' where "saveResult r s = (Inr (lead_uuids s (lead_drawn s)), s')" "t_leads s' = t_leads s"
    "t_pipeline_events s' = t_pipeline_events s" "fresh_ids s'"
    "t_qualification_results s' = t_qualification_results s @ [(lead_uuids s (lead_drawn s), r)]"
    "t_qualification_result_facts s' = t_qualification_result_facts s
       @ map (Pair (lead_uuids s (lead_drawn s))) (ql_inputFactIds r)"
proof -
  define u where "u = lead_uuids s (lead_drawn s)"
  define s1 where "s1 = s\<lparr>lead_drawn := Suc (lead_drawn s), t_qualification_results := t_qualification_results s @ [(u, r)]\<rparr>"
  define s2 where "s2 = s1\<lparr>t_qualification_result_facts := t_qualification_result_facts s @ map (Pair u) (ql_inputFactIds r)\<rparr>"
  have ins: "insertResult u r (s\<lparr>lead_drawn := Suc (lead_drawn s)\<rparr>) = (Inr (), s1)"
    using fresh_idsD(2) [OF fresh] range lead by (simp add: insertResult_def s1_def u_def lead_exists_def)
  have links: "insertResultFacts u (ql_inputFactIds r) s1 = (Inr (), s2)"
    using ids fresh_idsD(3) [OF fresh]
    by (auto simp: insertResultFacts_def s2_def s1_def u_def list_ex_iff list_all_iff image_iff)
  have none: "s2 = s1" if "ql_inputFactIds r = []"
    using that by (simp add: s2_def s1_def)
  have run: "saveResult r s = (Inr u, s2)"
    using ins links none
    by (cases "ql_inputFactIds r = []") (auto simp: saveResult_def bind_p_def newUUID_def then_p_def when_p_def u_def)
  show thesis
  proof (rule that [OF run [unfolded u_def]])
    show "fresh_ids s2"
      by (rule fresh_ids_next [OF fresh]) (auto simp: s2_def s1_def u_def used_ids_def)
  qed (simp_all add: s2_def s1_def u_def)
qed

lemma by_type_in: "by_type facts ty = Some f \<Longrightarrow> f \<in> set facts"
  by (auto simp: by_type_def dest: find_SomeD)

lemma input_ids: "distinct (input_fact_ids facts used)" "set (input_fact_ids facts used) \<subseteq> ff_id ` set facts"
proof -
  show "distinct (input_fact_ids facts used)"
    by (simp add: input_fact_ids_def string_sort_def)
  show "set (input_fact_ids facts used) \<subseteq> ff_id ` set facts"
    by (auto simp: input_fact_ids_def List.map_filter_def dest: by_type_in)
qed

lemma result_fields:
  "ql_leadId (evaluateQualification sha num_str facts ctx rules) = qc_leadId ctx"
  "distinct (ql_inputFactIds (evaluateQualification sha num_str facts ctx rules))"
  "set (ql_inputFactIds (evaluateQualification sha num_str facts ctx rules)) \<subseteq> ff_id ` set facts"
  using input_ids by (cases rule: evaluation_cases [of facts ctx sha num_str rules]; simp)+

lemma target_legal: "canTransition READY_FOR_QUALIFICATION (targetState n)"
proof -
  have "canTransition READY_FOR_QUALIFICATION QUALIFIED" "canTransition READY_FOR_QUALIFICATION READY_FOR_ENRICHMENT"
    "canTransition READY_FOR_QUALIFICATION NEEDS_MANUAL_REVIEW" "canTransition READY_FOR_QUALIFICATION REJECTED"
    by code_simp+
  then show ?thesis
    by (cases n) simp_all
qed

definition current_facts :: "string \<Rightarrow> 'a lead_db_scheme \<Rightarrow> lead_fact list" where
  "current_facts lid s = filter (\<lambda>r. ff_leadId r = lid \<and> ff_isCurrent r) (t_lead_facts s)"

lemma is_suppressed_same:
  assumes "same_tables s s'"
  shows "is_suppressed i s' = is_suppressed i s"
proof -
  have "listed s' = listed s" "suppression_checks i s' = suppression_checks i s"
    using assms by (simp_all add: fun_eq_iff same_tables_def listed_def suppression_checks_def split: option.splits)
  then show ?thesis
    by (simp only: is_suppressed_def)
qed

text \<open>C32: qualifying a lead in a qualifiable status under the shipped rules always succeeds: the result
  is that of its current facts and of the suppression list, it is stored with the facts it used, and the
  lead passes through \<open>READY_FOR_QUALIFICATION\<close> to the status of the next step, with one event per hop.\<close>

theorem qualify_succeeds:
  fixes s :: "'a qualification_db_scheme"
  assumes "lead_of s lid = Some l" and "isQualifiable (ld_status l)" and "fresh_ids s"
  shows "\<exists>r rid s' l'. qualify sha num_str lid campaign n QUALIFICATION_RULES now s = (Inr r, s')
    \<and> r = evaluateQualification sha num_str (current_facts lid s)
        \<lparr>qc_leadId = lid, qc_campaign = campaign, qc_niche = n, qc_suppressed = is_suppressed (identity_of l) s,
         qc_now = now\<rparr> QUALIFICATION_RULES
    \<and> lead_of s' lid = Some l' \<and> ld_status l' = targetState (ql_nextStep r)
    \<and> map pv_new (t_pipeline_events s') = map pv_new (t_pipeline_events s)
        @ status_hops lid (ready_path (ld_status l) @ [targetState (ql_nextStep r)])
    \<and> t_qualification_results s' = t_qualification_results s @ [(rid, r)]
    \<and> t_qualification_result_facts s' = t_qualification_result_facts s @ map (Pair rid) (ql_inputFactIds r)"
proof -
  obtain s1 l1 where 1: "advanceToReady l s = (Inr (), s1)" "lead_of s1 lid = Some l1"
    "ld_status l1 = READY_FOR_QUALIFICATION"
    "map pv_new (t_pipeline_events s1) = map pv_new (t_pipeline_events s) @ status_hops lid (ready_path (ld_status l))"
    "fresh_ids s1" "same_tables s s1"
    by (rule advance_succeeds [OF assms])
  let ?ctx = "\<lparr>qc_leadId = lid, qc_campaign = campaign, qc_niche = n, qc_suppressed = is_suppressed (identity_of l) s,
    qc_now = now\<rparr>"
  let ?r = "evaluateQualification sha num_str (current_facts lid s) ?ctx QUALIFICATION_RULES"
  have exists: "lead_exists s1 (ql_leadId ?r)"
    using 1(2) by (auto simp: result_fields lead_of_def lead_exists_def list_ex_iff dest: find_SomeD)
  have facts: "current_facts lid s1 = current_facts lid s" "t_lead_facts s1 = t_lead_facts s"
    using 1(6) by (simp_all add: same_tables_def current_facts_def)
  have "set (ql_inputFactIds ?r) \<subseteq> ff_id ` set (t_lead_facts s1)"
    using result_fields(3) [of sha num_str "current_facts lid s" ?ctx QUALIFICATION_RULES] facts
    by (fastforce simp: current_facts_def)
  from save_succeeds [OF 1(5) scores_in_range_shipped exists result_fields(2) this]
  obtain rid s2 where 2: "saveResult ?r s1 = (Inr rid, s2)" "t_leads s2 = t_leads s1"
    "t_pipeline_events s2 = t_pipeline_events s1" "fresh_ids s2"
    "t_qualification_results s2 = t_qualification_results s1 @ [(rid, ?r)]"
    "t_qualification_result_facts s2 = t_qualification_result_facts s1 @ map (Pair rid) (ql_inputFactIds ?r)"
    by metis
  have l2: "lead_of s2 lid = Some l1"
    using 1(2) 2(2) by (simp add: lead_of_def)
  have "canTransition (ld_status l1) (targetState (ql_nextStep ?r))"
    using 1(3) target_legal by simp
  from transition_succeeds [OF l2 this 2(4)]
  obtain x s3 l3 where 3: "lead_transition lid (targetState (ql_nextStep ?r)) s2 = (Inr x, s3)" "lead_of s3 lid = Some l3"
    "ld_status l3 = targetState (ql_nextStep ?r)" "same_tables s2 s3"
    "map pv_new (t_pipeline_events s3) = map pv_new (t_pipeline_events s2)
       @ [hop lid READY_FOR_QUALIFICATION (targetState (ql_nextStep ?r))]"
    using 1(3) by metis
  have body: "qualify_body sha num_str lid campaign n QUALIFICATION_RULES now s = (Inr ?r, s3)"
    using assms(1,2) 1(1) 2(1) 3(1) facts(1) is_suppressed_same [OF 1(6)]
    by (simp add: qualify_body_def bind_p_def then_p_def lead_getById_def isSuppressed_def listCurrentFacts_def
        current_facts_def Let_def)
  have path: "status_hops lid (ready_path st @ [t]) = status_hops lid (ready_path st) @ [hop lid READY_FOR_QUALIFICATION t]" for st t
    by (simp add: status_hops_def ready_path_def)
  show ?thesis
  proof (rule exI [of _ ?r], rule exI [of _ rid], rule exI [of _ s3], rule exI [of _ l3], intro conjI)
    show "qualify sha num_str lid campaign n QUALIFICATION_RULES now s = (Inr ?r, s3)"
      using body by (simp add: qualify_def transaction_def)
  qed (use 1 2 3 in \<open>simp_all add: path same_tables_def\<close>)
qed

section \<open>Examples\<close>

definition demo_fact :: "string \<Rightarrow> fact_type \<Rightarrow> string \<Rightarrow> lead_fact" where
  "demo_fact fid ty v = \<lparr>ff_id = fid, ff_leadId = ''l'', ff_factType = ty, ff_value = v, ff_normalizedValue = None,
     ff_sourceType = src_manual, ff_sourceUrl = None, ff_capturedAt = 0, ff_confidence = 1, ff_supersededBy = None,
     ff_supersededAt = None, ff_isCurrent = True\<rparr>"

definition demo_facts :: "lead_fact list" where
  "demo_facts = [demo_fact ''a'' FT_business_name ''N'', demo_fact ''b'' FT_business_status ''OPERATIONAL'',
     demo_fact ''c'' FT_category ''dentist'', demo_fact ''d'' FT_official_domain ''b.de'',
     demo_fact ''e'' FT_rating ''4.5'']"

definition demo_niche :: niche where
  "demo_niche = \<lparr>ni_allowedCategories = [''dentist'', ''clinic''], ni_excludeChains = True, ni_chainNames = []\<rparr>"

definition demo_context :: qualification_context where
  "demo_context = \<lparr>qc_leadId = ''l'', qc_campaign = ''k'', qc_niche = demo_niche, qc_suppressed = False, qc_now = 1\<rparr>"

theorem qualification_order_free_witness:
  "evaluateQualification (\<lambda>x. x) (\<lambda>_. ''1'') (rev demo_facts)
      (demo_context\<lparr>qc_niche := demo_niche\<lparr>ni_allowedCategories := [''clinic'', ''dentist'']\<rparr>\<rparr>) QUALIFICATION_RULES
    = evaluateQualification (\<lambda>x. x) (\<lambda>_. ''1'') demo_facts demo_context QUALIFICATION_RULES"
  by (rule qualification_order_free)
     (simp_all add: demo_niche_def demo_context_def demo_facts_def demo_fact_def one_per_type_def)

definition demo_lead :: lead where
  "demo_lead = \<lparr>ld_id = ''l'', ld_businessName = None, ld_normalizedName = None, ld_domain = None,
     ld_normalizedDomain = None, ld_phone = None, ld_normalizedPhone = None, ld_formattedAddress = None,
     ld_normalizedAddress = None, ld_latitude = None, ld_longitude = None, ld_placeId = None, ld_city = None,
     ld_country = None, ld_status = NEW, ld_priority = None, ld_source = None,
     ld_dedupStatus = DS_UNIQUE, ld_duplicateOf = None, ld_createdAt = 0, ld_updatedAt = 0\<rparr>"

definition demo_closed :: lead_fact where
  "demo_closed = demo_fact ''b'' FT_business_status ''CLOSED_PERMANENTLY''"

lemma demo_closed_skipped:
  "ql_nextStep (evaluateQualification sha num_str [demo_closed] ctx QUALIFICATION_RULES) = NX_SKIP"
proof -
  have "rejectable [demo_closed] ctx"
    by (simp add: rejectable_def value_of_def by_type_def demo_closed_def demo_fact_def)
  then show ?thesis
    by (cases rule: evaluation_cases [of "[demo_closed]" ctx sha num_str QUALIFICATION_RULES]) simp_all
qed

definition demo_qualification :: qualification_db where
  "demo_qualification = send_db.extend ((demo_list [])\<lparr>t_leads := [demo_lead], t_lead_facts := [demo_closed]\<rparr>)
     \<lparr>t_qualification_results = [], t_qualification_result_facts = []\<rparr>"

theorem qualify_succeeds_witness:
  "\<exists>(s' :: qualification_db) l'. lead_of s' ''l'' = Some l' \<and> ld_status l' = REJECTED"
proof -
  have l: "lead_of demo_qualification ''l'' = Some demo_lead" "isQualifiable (ld_status demo_lead)"
    and facts: "t_lead_facts demo_qualification = [demo_closed]"
    by (simp_all add: demo_qualification_def demo_list_def send_db.defs lead_of_def demo_lead_def isQualifiable_def
        QUALIFIABLE_FROM_def)
  have "inj (\<lambda>n. replicate n CHR ''u'')"
    by (rule injI) (metis length_replicate)
  then have "fresh_ids demo_qualification"
    by (simp add: fresh_ids_def used_ids_def demo_qualification_def demo_list_def send_db.defs)
  from qualify_succeeds [OF l this, of "\<lambda>x. x" "\<lambda>_. ''1''" "''k''" demo_niche 1]
  show ?thesis
  proof (elim exE conjE)
    fix r rid l' and s' :: qualification_db
    assume r: "r = evaluateQualification (\<lambda>x. x) (\<lambda>_. ''1'') (current_facts ''l'' demo_qualification)
        \<lparr>qc_leadId = ''l'', qc_campaign = ''k'', qc_niche = demo_niche,
         qc_suppressed = is_suppressed (identity_of demo_lead) demo_qualification, qc_now = 1\<rparr> QUALIFICATION_RULES"
      and l': "lead_of s' ''l'' = Some l'" "ld_status l' = targetState (ql_nextStep r)"
    have "current_facts ''l'' demo_qualification = [demo_closed]"
      by (simp add: current_facts_def facts demo_closed_def demo_fact_def)
    then have "ql_nextStep r = NX_SKIP"
      unfolding r using demo_closed_skipped by simp
    then show ?thesis
      using l' by (intro exI [of _ s'] exI [of _ l']) simp
  qed
qed

end
