(* ===== verification/Mime.thy ===== *)
theory Mime
  imports Canonical Leads
begin

text \<open>
  The message handed to the mail provider (\<^verbatim>\<open>src/src/domain/gmail/mime.ts\<close>): UTF-8, base64 and its URL
  form, the encoded words of headers, and the raw message. A byte is a natural number below 256. The
  decoders at the end are specifications: they say what a receiver reads.
\<close>

section \<open>Bytes\<close>

definition utf8_char :: "char \<Rightarrow> nat list" where
  "utf8_char c = (let n = code_unit c in
     if n < 128 then [n]
     else if n < 2048 then [192 + n div 64, 128 + n mod 64]
     else [224 + n div 4096, 128 + n div 64 mod 64, 128 + n mod 64])"

definition utf8 :: "string \<Rightarrow> nat list" where
  "utf8 s = concat (map utf8_char s)"

text \<open>The digits of base64.\<close>

definition sextet :: "nat \<Rightarrow> char" where
  "sextet n = (if n < 26 then char_of (65 + n) else if n < 52 then char_of (71 + n)
     else if n < 62 then char_of (n - 4) else if n = 62 then CHR ''+'' else CHR ''/'')"

fun base64 :: "nat list \<Rightarrow> string" where
  "base64 [] = []"
| "base64 [a] = [sextet (a div 4), sextet (a mod 4 * 16), CHR ''='', CHR ''='']"
| "base64 [a, b] =
     [sextet (a div 4), sextet (a mod 4 * 16 + b div 16), sextet (b mod 16 * 4), CHR ''='']"
| "base64 (a # b # c # r) =
     [sextet (a div 4), sextet (a mod 4 * 16 + b div 16), sextet (b mod 16 * 4 + c div 64), sextet (c mod 64)]
     @ base64 r"

definition url_char :: "char \<Rightarrow> char" where
  "url_char c = (if c = CHR ''+'' then CHR ''-'' else if c = CHR ''/'' then CHR ''_'' else c)"

definition strip_trailing :: "char \<Rightarrow> string \<Rightarrow> string" where
  "strip_trailing c s = rev (dropWhile (\<lambda>x. x = c) (rev s))"

definition base64Url :: "nat list \<Rightarrow> string" where
  "base64Url bs = strip_trailing CHR ''='' (map url_char (base64 bs))"

section \<open>The message\<close>

definition printable :: "char \<Rightarrow> bool" where
  "printable c \<longleftrightarrow> (let n = (of_char c :: nat) in 32 \<le> n \<and> n \<le> 126)"

definition isAscii :: "string \<Rightarrow> bool" where
  "isAscii s \<longleftrightarrow> list_all printable s"

definition encodeHeaderWord :: "string \<Rightarrow> string" where
  "encodeHeaderWord value =
     (if isAscii value then value else ''=?UTF-8?B?'' @ base64 (utf8 value) @ ''?='')"

record mime_input =
  mi_fromName :: string
  mi_fromEmail :: string
  mi_toEmail :: string
  mi_subject :: string
  mi_body :: string

definition CRLF :: string where
  "CRLF = [CHR 0x0D, CHR 0x0A]"

definition mime_headers :: "mime_input \<Rightarrow> string list" where
  "mime_headers m =
     [''From: '' @ encodeHeaderWord (mi_fromName m) @ '' <'' @ mi_fromEmail m @ ''>'',
      ''To: '' @ mi_toEmail m,
      ''Subject: '' @ encodeHeaderWord (mi_subject m),
      ''MIME-Version: 1.0'',
      ''Content-Type: text/plain; charset='' @ [CHR 0x22] @ ''UTF-8'' @ [CHR 0x22],
      ''Content-Transfer-Encoding: 8bit'']"

definition mime_message :: "mime_input \<Rightarrow> string" where
  "mime_message m = js_join CRLF (mime_headers m) @ CRLF @ CRLF @ mi_body m"

definition buildRawMessage :: "mime_input \<Rightarrow> string" where
  "buildRawMessage m = base64Url (utf8 (mime_message m))"

section \<open>Reading base64\<close>

definition sextet_value :: "char \<Rightarrow> nat" where
  "sextet_value c = (let n = of_char c in
     if 65 \<le> n \<and> n \<le> 90 then n - 65 else if 97 \<le> n \<and> n \<le> 122 then n - 71
     else if 48 \<le> n \<and> n \<le> 57 then n + 4 else if c = CHR ''+'' \<or> c = CHR ''-'' then 62 else 63)"

text \<open>Groups of four digits give three bytes; a last group of two or three gives one or two.\<close>

fun read_base64 :: "string \<Rightarrow> nat list" where
  "read_base64 (w # x # y # z # r) =
     (let a = sextet_value w; b = sextet_value x; c = sextet_value y; d = sextet_value z in
      [a * 4 + b div 16, b mod 16 * 16 + c div 4, c mod 4 * 64 + d] @ read_base64 r)"
| "read_base64 [w, x, y] =
     (let a = sextet_value w; b = sextet_value x; c = sextet_value y in [a * 4 + b div 16, b mod 16 * 16 + c div 4])"
| "read_base64 [w, x] = [sextet_value w * 4 + sextet_value x div 16]"
| "read_base64 _ = []"

text \<open>One character at a time, the number of bytes given by the first.\<close>

fun read_utf8 :: "nat list \<Rightarrow> nat list" where
  "read_utf8 [] = []"
| "read_utf8 (a # r) =
     (if a < 128 then a # read_utf8 r
      else if a < 224 then (case r of b # r' \<Rightarrow> ((a - 192) * 64 + (b - 128)) # read_utf8 r' | _ \<Rightarrow> [])
      else (case r of b # c # r' \<Rightarrow> ((a - 224) * 4096 + (b - 128) * 64 + (c - 128)) # read_utf8 r' | _ \<Rightarrow> []))"

section \<open>The round trip\<close>

lemma of_char_sextet:
  "n < 64 \<Longrightarrow> (of_char (sextet n) :: nat) = (if n < 26 then 65 + n else if n < 52 then 71 + n
     else if n < 62 then n - 4 else if n = 62 then 43 else 47)"
  by (auto simp: sextet_def of_char_of)

lemma char_by_code: "c = d \<longleftrightarrow> (of_char c :: nat) = of_char d"
  by simp

lemma sextet_of_value:
  assumes "n < 64"
  shows "sextet_value (sextet n) = n" "sextet_value (url_char (sextet n)) = n" "sextet n \<noteq> CHR ''=''"
    "url_char (sextet n) \<noteq> CHR ''=''"
proof -
  note c = of_char_sextet [OF assms]
  have plus: "sextet n = CHR ''+'' \<longleftrightarrow> n = 62" and slash: "sextet n = CHR ''/'' \<longleftrightarrow> n = 63"
    and dash: "sextet n \<noteq> CHR ''-''" "sextet n \<noteq> CHR ''=''"
    unfolding char_by_code c using assms by auto
  show v: "sextet_value (sextet n) = n"
    unfolding sextet_value_def Let_def c plus using assms dash by auto
  show "sextet n \<noteq> CHR ''=''" "url_char (sextet n) \<noteq> CHR ''=''"
    using dash by (auto simp: url_char_def)
  show "sextet_value (url_char (sextet n)) = n"
  proof (cases "n = 62 \<or> n = 63")
    case True
    then show ?thesis
      using plus slash by (auto simp: url_char_def sextet_value_def)
  next
    case False
    then show ?thesis
      using v by (simp add: url_char_def plus slash)
  qed
qed

text \<open>The URL form without the padding.\<close>

fun plain64 :: "nat list \<Rightarrow> string" where
  "plain64 [] = []"
| "plain64 [a] = map sextet [a div 4, a mod 4 * 16]"
| "plain64 [a, b] = map sextet [a div 4, a mod 4 * 16 + b div 16, b mod 16 * 4]"
| "plain64 (a # b # c # r) =
     map sextet [a div 4, a mod 4 * 16 + b div 16, b mod 16 * 4 + c div 64, c mod 64] @ plain64 r"

definition bytes_ok :: "nat list \<Rightarrow> bool" where
  "bytes_ok bs \<longleftrightarrow> list_all (\<lambda>b. b < 256) bs"

lemma base64_padding:
  "\<exists>k. base64 bs = plain64 bs @ replicate k CHR ''=''"
proof (induction bs rule: base64.induct)
  case (2 a)
  show ?case by (rule exI [of _ 2]) (simp add: numeral_2_eq_2)
next
  case (3 a b)
  show ?case by (rule exI [of _ 1]) simp
qed auto

lemma small:
  "a < 256 \<Longrightarrow> a div 4 < 64" "a mod 4 * 16 < (64 :: nat)" "b mod 16 * 4 < (64 :: nat)" "c mod 64 < (64 :: nat)"
  "b < 256 \<Longrightarrow> a mod 4 * 16 + b div 16 < 64" "c < 256 \<Longrightarrow> b mod 16 * 4 + c div 64 < (64 :: nat)"
  by (simp_all add: less_mult_imp_div_less)

lemma plain64_no_padding: "bytes_ok bs \<Longrightarrow> CHR ''='' \<notin> set (map url_char (plain64 bs))"
  by (induction bs rule: plain64.induct) (auto simp: bytes_ok_def small sextet_of_value(4) eq_commute [of "CHR ''=''"])

lemma strip_replicate: "c \<notin> set s \<Longrightarrow> strip_trailing c (s @ replicate k c) = s"
proof -
  assume c: "c \<notin> set s"
  have "dropWhile (\<lambda>x. x = c) (replicate k c @ rev s) = dropWhile (\<lambda>x. x = c) (rev s)"
    by (induction k) auto
  also have "\<dots> = rev s"
    using c by (cases "rev s") (auto simp: rev_eq_Cons_iff)
  finally show ?thesis
    by (simp add: strip_trailing_def)
qed

lemma base64Url_plain: "bytes_ok bs \<Longrightarrow> base64Url bs = map url_char (plain64 bs)"
proof -
  assume ok: "bytes_ok bs"
  obtain k where k: "base64 bs = plain64 bs @ replicate k CHR ''=''"
    using base64_padding by blast
  have "map url_char (base64 bs) = map url_char (plain64 bs) @ replicate k CHR ''=''"
    unfolding k by (simp add: url_char_def)
  then show ?thesis
    unfolding base64Url_def using strip_replicate [OF plain64_no_padding [OF ok]] by simp
qed

lemma digit_split: "d < n \<Longrightarrow> (k * n + d) div n = k" "d < n \<Longrightarrow> (k * n + d) mod n = (d :: nat)"
  by simp_all

lemma read_plain64:
  assumes "bytes_ok bs" and "\<And>n. n < 64 \<Longrightarrow> sextet_value (f (sextet n)) = n"
  shows "read_base64 (map f (plain64 bs)) = bs"
  using assms(1)
proof (induction bs rule: plain64.induct)
  case (4 a b c r)
  then have lt: "a < 256" "b < 256" "c < 256" "bytes_ok r"
    by (simp_all add: bytes_ok_def)
  have "b div 16 < 16" "c div 64 < 4"
    using lt by (simp_all add: less_mult_imp_div_less)
  then have "a div 4 * 4 + (a mod 4 * 16 + b div 16) div 16 = a"
    "(a mod 4 * 16 + b div 16) mod 16 * 16 + (b mod 16 * 4 + c div 64) div 4 = b"
    "(b mod 16 * 4 + c div 64) mod 4 * 64 + c mod 64 = c"
    by (simp_all add: digit_split)
  then show ?case
    using 4(1) [OF lt(4)] lt small assms(2) by (simp add: Let_def)
next
  case (2 a)
  then show ?case
    using small assms(2) by (simp add: bytes_ok_def)
next
  case (3 a b)
  then have lt: "a < 256" "b < 256"
    by (simp_all add: bytes_ok_def)
  have "b div 16 < 16"
    using lt by (simp add: less_mult_imp_div_less)
  then have "a div 4 * 4 + (a mod 4 * 16 + b div 16) div 16 = a"
    "(a mod 4 * 16 + b div 16) mod 16 * 16 + (b mod 16 * 4) div 4 = b"
    by (simp_all add: digit_split)
  then show ?case
    using lt small assms(2) by (simp add: Let_def)
qed simp

lemma code_unit_bound: "code_unit c < 65536"
proof -
  have "list_all (\<lambda>u. u < 65536) WINDOWS_1252"
    by (simp add: WINDOWS_1252_def)
  then have "i < 32 \<Longrightarrow> WINDOWS_1252 ! i < 65536" for i
    using table_distinct(2) by (simp add: list_all_length)
  moreover have "of_char c < (65536 :: nat)"
    by (rule order.strict_trans [of _ 256]) simp_all
  ultimately show ?thesis
    by (auto simp: code_unit_def Let_def)
qed

lemma utf8_char_ok: "bytes_ok (utf8_char c)"
proof -
  have "code_unit c div 64 < 1024" "code_unit c div 4096 < 16"
    using code_unit_bound [of c] by (simp_all add: less_mult_imp_div_less)
  then show ?thesis
    by (auto simp: bytes_ok_def utf8_char_def Let_def less_mult_imp_div_less)
qed

lemma utf8_ok: "bytes_ok (utf8 s)"
  using utf8_char_ok by (induction s) (auto simp: utf8_def bytes_ok_def)

lemma two_digits: "a * 64 + b = d \<Longrightarrow> d * 64 + c = n \<Longrightarrow> a * 4096 + b * 64 + c = (n :: nat)"
  by linarith

lemma three_digits: "n div 4096 * 4096 + n div 64 mod 64 * 64 + n mod 64 = (n :: nat)"
proof -
  have "n div 4096 = n div 64 div 64"
    using div_mult2_eq [of n 64 64] by simp
  then show ?thesis
    using two_digits [OF div_mult_mod_eq [of "n div 64" 64] div_mult_mod_eq [of n 64]] by metis
qed

lemma read_utf8_char: "read_utf8 (utf8_char c @ r) = code_unit c # read_utf8 r"
proof -
  define n where "n = code_unit c"
  consider "n < 128" | "128 \<le> n" "n < 2048" | "2048 \<le> n" by linarith
  then show ?thesis
  proof cases
    case 2
    define d e where "d = n div 64" and "e = n mod 64"
    have "d < 32" "d * 64 + e = n"
      using 2 by (simp_all add: d_def e_def less_mult_imp_div_less)
    then show ?thesis
      using 2 by (simp add: utf8_char_def Let_def flip: n_def d_def e_def)
  next
    case 3
    have "n div 4096 * 4096 + n div 64 mod 64 * 64 + n mod 64 = n"
      by (rule three_digits)
    then show ?thesis
      using 3 by (simp add: utf8_char_def Let_def flip: n_def)
  qed (simp add: utf8_char_def Let_def flip: n_def)
qed

lemma read_utf8_utf8: "read_utf8 (utf8 s) = code_units s"
  by (induction s) (simp_all add: utf8_def code_units_def read_utf8_char)


section \<open>Reading the headers\<close>

text \<open>A receiver reads lines up to the first empty one; the rest is the body.\<close>

fun read_line :: "string \<Rightarrow> string \<times> string" where
  "read_line [] = ([], [])"
| "read_line (c # s) =
     (if starts_with CRLF (c # s) then ([], drop 2 (c # s))
      else let (l, r) = read_line s in (c # l, r))"

lemma read_line_length: "read_line s = (l, r) \<Longrightarrow> l \<noteq> [] \<Longrightarrow> length r < length s"
proof (induction s arbitrary: l r)
  case (Cons c s)
  have "length (snd (read_line s)) \<le> length s" for s
    by (induction s) (auto split: prod.splits simp: Let_def)
  then show ?case
    using Cons.prems by (auto split: if_splits prod.splits simp: Let_def less_Suc_eq_le) (metis snd_conv)
qed simp

function read_message :: "string \<Rightarrow> string list \<times> string" where
  "read_message s = (case read_line s of (l, r) \<Rightarrow>
     if l = [] then ([], r) else (case read_message r of (hs, b) \<Rightarrow> (l # hs, b)))"
  by pat_completeness auto
termination
  by (relation "measure length") (auto dest: read_line_length [OF sym])

declare read_message.simps [simp del]

definition one_line :: "string \<Rightarrow> bool" where
  "one_line h \<longleftrightarrow> CHR 0x0D \<notin> set h"

lemma read_line_one: "one_line h \<Longrightarrow> read_line (h @ CRLF @ t) = (h, t)"
  by (induction h) (auto simp: one_line_def CRLF_def starts_with_def)

lemma read_message_lines:
  "list_all one_line hs \<Longrightarrow> [] \<notin> set hs \<Longrightarrow> hs \<noteq> [] \<Longrightarrow>
   read_message (js_join CRLF hs @ CRLF @ CRLF @ b) = (hs, b)"
proof (induction hs rule: induct_list012)
  case (2 h)
  have "read_message (CRLF @ b) = ([], b)"
    using read_line_one [of "[]" b] by (subst read_message.simps) (simp add: one_line_def)
  then show ?case
    using 2 read_line_one [of h "CRLF @ b"] by (subst read_message.simps) simp
next
  case (3 h h' hs)
  then show ?case
    using read_line_one [of h "js_join CRLF (h' # hs) @ CRLF @ CRLF @ b"]
    by (subst read_message.simps) auto
qed simp

lemma printable_not_break: "printable c \<Longrightarrow> c \<noteq> CHR 0x0D"
  by (auto simp: printable_def Let_def)

lemma isAscii_one_line: "isAscii s \<Longrightarrow> one_line s"
  by (auto simp: isAscii_def one_line_def list_all_iff printable_def)

lemma sextet_printable: "n < 64 \<Longrightarrow> printable (sextet n)"
  by (auto simp: printable_def sextet_def Let_def)

lemma base64_ascii: "bytes_ok bs \<Longrightarrow> isAscii (base64 bs)"
  by (induction bs rule: base64.induct)
     (auto simp: isAscii_def bytes_ok_def small intro!: sextet_printable, auto simp: printable_def)

lemma encodeHeaderWord_ascii: "isAscii (encodeHeaderWord v)"
  using base64_ascii [OF utf8_ok, of v] by (auto simp: encodeHeaderWord_def isAscii_def printable_def)

lemma valid_email_one_line: "valid_email a \<Longrightarrow> one_line a"
  by (auto simp: valid_email_def one_line_def Let_def list_ex_iff is_ws_def)

text \<open>C15: for valid addresses a receiver finds exactly the six headers that were meant and then the body,
  whatever the sender's name, the subject and the body contain: no text can add a header.\<close>

theorem message_headers_exact:
  assumes "valid_email (mi_fromEmail m)" and "valid_email (mi_toEmail m)"
  shows "read_message (mime_message m) = (mime_headers m, mi_body m)"
  unfolding mime_message_def
proof (rule read_message_lines)
  have "one_line (mi_fromEmail m)" "one_line (mi_toEmail m)" "one_line (encodeHeaderWord v)" for v
    using assms by (simp_all add: valid_email_one_line isAscii_one_line encodeHeaderWord_ascii)
  then show "list_all one_line (mime_headers m)"
    by (simp add: mime_headers_def one_line_def)
  show "[] \<notin> set (mime_headers m)" "mime_headers m \<noteq> []"
    by (simp_all add: mime_headers_def)
qed

definition demo_mail :: mime_input where
  "demo_mail = \<lparr>mi_fromName = ''N'', mi_fromEmail = ''a@b.c'', mi_toEmail = ''r@b.c'',
     mi_subject = ''S'' @ CRLF @ ''Bcc: x@y.z'', mi_body = ''B''\<rparr>"

theorem message_headers_exact_witness:
  "length (fst (read_message (mime_message demo_mail))) = 6 \<and> snd (read_message (mime_message demo_mail)) = ''B''"
proof -
  have "valid_email (mi_fromEmail demo_mail)" "valid_email (mi_toEmail demo_mail)"
    by code_simp+
  from message_headers_exact [OF this] show ?thesis
    by (simp add: mime_headers_def demo_mail_def)
qed

end
