(* ===== verification/Gmail.thy ===== *)
theory Gmail
  imports Mime Scheduled_Run Qualification
begin

text \<open>
  Gmail drafts: the gate (\<^verbatim>\<open>src/src/domain/gmail/eligibility.ts\<close>), the creation of one draft with its
  durable reservation (\<^verbatim>\<open>gmail-service.ts\<close>, \<^verbatim>\<open>persistence/repositories/gmail.repo.ts\<close>), the input of a
  lead (\<^verbatim>\<open>gmail-input.repo.ts\<close>) and the run over the approved leads
  (\<^verbatim>\<open>cli/commands/create-gmail-drafts.ts\<close>). The answers of the provider come from streams, in the order of
  the calls; the requests it was given are kept. Printing and finishing the run row are left out.
\<close>

section \<open>The gate\<close>

record gmail_snapshot =
  gs_leadStatus :: lead_status
  gs_finalization :: "(string option \<times> string) option"
  gs_recipientEmail :: "string option"
  gs_featureEnabled :: bool
  gs_draftActionsEnabled :: bool
  gs_credentialsConfigured :: bool
  gs_existingDraftForFingerprint :: bool

record gmail_eligibility =
  ge_eligible :: bool
  ge_duplicateReusable :: bool
  ge_reasons :: "string list"

definition finalization_reasons :: "(string option \<times> string) option \<Rightarrow> string list" where
  "finalization_reasons f =
     (case f of None \<Rightarrow> [''no_finalized_email'']
      | Some (decision, body) \<Rightarrow>
          (if decision \<noteq> Some ''APPROVED''
           then [''finalized_not_approved:'' @ (case decision of None \<Rightarrow> ''none'' | Some d \<Rightarrow> d)] else [])
        @ (if js_includes ''{{DEMO_URL}}'' body then [''unresolved_demo_url''] else [])
        @ (if hasUnresolvedTokens (js_replace_all SENDER_NAME_TOKEN [] body) then [''unexpected_unresolved_token''] else []))"

definition gmail_reasons :: "gmail_snapshot \<Rightarrow> string list" where
  "gmail_reasons s =
     (if \<not> gs_featureEnabled s then [''feature_disabled''] else [])
   @ (if \<not> gs_draftActionsEnabled s then [''gmail_draft_actions_disabled''] else [])
   @ (if \<not> gs_credentialsConfigured s then [''credentials_missing''] else [])
   @ (if gs_leadStatus s \<noteq> HUMAN_APPROVED
      then [''lead_not_human_approved:'' @ lead_status_str (gs_leadStatus s)] else [])
   @ finalization_reasons (gs_finalization s)
   @ recipient_reasons (gs_recipientEmail s)"

definition checkGmailEligibility :: "gmail_snapshot \<Rightarrow> gmail_eligibility" where
  "checkGmailEligibility s =
     (if gs_existingDraftForFingerprint s
      then \<lparr>ge_eligible = False, ge_duplicateReusable = True, ge_reasons = [''duplicate_draft_exists'']\<rparr>
      else \<lparr>ge_eligible = (gmail_reasons s = []), ge_duplicateReusable = False, ge_reasons = gmail_reasons s\<rparr>)"

section \<open>The provider and the store\<close>

datatype gmail_outcome =
    GO_DRAFT_CREATED | GO_DUPLICATE_REUSED | GO_INVALID_ELIGIBILITY | GO_INVALID_TOKENS | GO_NO_RECIPIENT
  | GO_ACCOUNT_MISMATCH | GO_DRAFT_FAILED | GO_AUTH_ERROR | GO_RATE_LIMITED | GO_TRANSIENT_ERROR
  | GO_BUDGET_BLOCKED | GO_MANUAL_REVIEW_REQUIRED

fun gmail_outcome_str :: "gmail_outcome \<Rightarrow> string" where
  "gmail_outcome_str GO_DRAFT_CREATED = ''DRAFT_CREATED''"
| "gmail_outcome_str GO_DUPLICATE_REUSED = ''DUPLICATE_REUSED''"
| "gmail_outcome_str GO_INVALID_ELIGIBILITY = ''INVALID_ELIGIBILITY''"
| "gmail_outcome_str GO_INVALID_TOKENS = ''INVALID_TOKENS''"
| "gmail_outcome_str GO_NO_RECIPIENT = ''NO_RECIPIENT''"
| "gmail_outcome_str GO_ACCOUNT_MISMATCH = ''ACCOUNT_MISMATCH''"
| "gmail_outcome_str GO_DRAFT_FAILED = ''DRAFT_FAILED''"
| "gmail_outcome_str GO_AUTH_ERROR = ''AUTH_ERROR''"
| "gmail_outcome_str GO_RATE_LIMITED = ''RATE_LIMITED''"
| "gmail_outcome_str GO_TRANSIENT_ERROR = ''TRANSIENT_ERROR''"
| "gmail_outcome_str GO_BUDGET_BLOCKED = ''BUDGET_BLOCKED''"
| "gmail_outcome_str GO_MANUAL_REVIEW_REQUIRED = ''MANUAL_REVIEW_REQUIRED''"

record create_request =
  cr_raw :: string
  cr_fingerprint :: string
  cr_threadId :: "string option"

record draft_ref =
  df_draftId :: string
  df_messageId :: "string option"
  df_threadId :: "string option"

datatype create_class = CC_ok | CC_rate_limited | CC_transient | CC_auth_error | CC_invalid

datatype create_answer = Answer create_class "draft_ref option" "string option" | CreateThrows string

datatype verify_answer = Verified account_answer | VerifyThrows string

record gmail_db = suite_db +
  dr_calls :: nat
  dr_verify :: "nat \<Rightarrow> verify_answer"
  dr_create :: "nat \<Rightarrow> create_answer"
  dr_requests :: "create_request list"

definition gmail_verify :: "('a gmail_db_scheme, account_answer) prog" where
  "gmail_verify s =
     (let s1 = s\<lparr>dr_calls := Suc (dr_calls s)\<rparr> in
      case dr_verify s (dr_calls s) of Verified a \<Rightarrow> (Inr a, s1) | VerifyThrows w \<Rightarrow> (Inl (PlainError w), s1))"

text \<open>The request reaches the provider whatever it answers.\<close>

definition provider_createDraft ::
  "create_request \<Rightarrow> ('a gmail_db_scheme, create_class \<times> draft_ref option \<times> string option) prog" where
  "provider_createDraft r s =
     (let s1 = s\<lparr>dr_calls := Suc (dr_calls s), dr_requests := dr_requests s @ [r]\<rparr> in
      case dr_create s (dr_calls s) of
        Answer c ref why \<Rightarrow> (Inr (c, ref, why), s1)
      | CreateThrows w \<Rightarrow> (Inl (PlainError w), s1))"

definition draftsToday :: "int \<Rightarrow> ('a gmail_db_scheme, int) prog" where
  "draftsToday now = read_p (\<lambda>s. int (length (filter (\<lambda>r. day_start now \<le> gd_createdAt r) (t_gmail_drafts s))))"

definition lastAttemptAt :: "('a gmail_db_scheme, int option) prog" where
  "lastAttemptAt = read_p (\<lambda>s. map_option gd_createdAt (latest_by gd_createdAt (t_gmail_drafts s)))"

definition existingByFingerprint :: "string \<Rightarrow> string \<Rightarrow> ('a gmail_db_scheme, bool) prog" where
  "existingByFingerprint account fp = read_p (\<lambda>s. list_ex (\<lambda>r. gd_gmailAccount r = account
     \<and> gd_idempotencyFingerprint r = fp \<and> gd_outcome r = ''DRAFT_CREATED'') (t_gmail_drafts s))"

definition reserved_by :: "string \<Rightarrow> 'a send_db_scheme \<Rightarrow> gmail_draft option" where
  "reserved_by fp s = latest_by gd_createdAt (filter (\<lambda>r. gd_idempotencyFingerprint r = fp
     \<and> gd_outcome r \<notin> {''DRAFT_CREATED'', ''DUPLICATE_REUSED''}) (t_gmail_drafts s))"

definition findReservedByFingerprint :: "string \<Rightarrow> ('a gmail_db_scheme, gmail_draft option) prog" where
  "findReservedByFingerprint fp = read_p (reserved_by fp)"

text \<open>The first unique index a table of drafts violates.\<close>

definition provider_key :: "gmail_draft \<Rightarrow> (string \<times> string) option" where
  "provider_key r = map_option (Pair (gd_provider r)) (gd_providerDraftId r)"

definition drafts_violation :: "gmail_draft list \<Rightarrow> string option" where
  "drafts_violation rows =
     (if \<not> distinct (map gd_id rows) then Some ''gmail_drafts_pkey''
      else if \<not> distinct (map (\<lambda>r. (gd_gmailAccount r, gd_idempotencyFingerprint r)) rows)
      then Some ''gmail_drafts_fingerprint_uk''
      else if \<not> distinct (List.map_filter provider_key rows) then Some ''gmail_drafts_provider_draft_uk''
      else None)"

definition reserveRun :: "gmail_draft \<Rightarrow> ('a gmail_db_scheme, unit) prog" where
  "reserveRun r s =
     (case drafts_violation (t_gmail_drafts s @ [r]) of
        Some n \<Rightarrow> (Inl (UniqueViolation n), s)
      | None \<Rightarrow>
          if \<not> lead_exists s (gd_leadId r) then (Inl (ForeignKeyViolation ''gmail_drafts.lead_id''), s)
          else if (case gd_finalizedEmailId r of None \<Rightarrow> False | Some f \<Rightarrow> f \<notin> fn_id ` set (t_finalizations s))
          then (Inl (ForeignKeyViolation ''gmail_drafts.finalized_email_id''), s)
          else (Inr (), s\<lparr>t_gmail_drafts := t_gmail_drafts s @ [r]\<rparr>))"

text \<open>An empty identifier is not a run.\<close>

definition completeRun :: "string \<Rightarrow> (gmail_draft \<Rightarrow> gmail_draft) \<Rightarrow> ('a gmail_db_scheme, unit) prog" where
  "completeRun rid f s =
     (if rid = [] then (Inr (), s)
      else let rows = update_where (\<lambda>r. gd_id r = rid) f (t_gmail_drafts s) in
        case drafts_violation rows of
          Some n \<Rightarrow> (Inl (UniqueViolation n), s) | None \<Rightarrow> (Inr (), s\<lparr>t_gmail_drafts := rows\<rparr>))"

section \<open>The service\<close>

record gmail_config =
  gc_gmailAccount :: string
  gc_senderName :: "string option"
  gc_featureEnabled :: bool
  gc_draftActionsEnabled :: bool
  gc_credentialsConfigured :: bool
  gc_maxPerDay :: int
  gc_minIntervalMs :: int
  gc_providerName :: string

record gmail_finalization =
  gf_id :: string
  gf_resolvedBody :: string
  gf_resolvedBodyHash :: string
  gf_finalHumanDecision :: "string option"

record gmail_input =
  gi_leadId :: string
  gi_leadStatus :: lead_status
  gi_finalization :: "gmail_finalization option"
  gi_subject :: string
  gi_recipientEmail :: "string option"
  gi_threadId :: "string option"

record gmail_result =
  go_leadId :: string
  go_outcome :: gmail_outcome
  go_draftId :: "string option"

definition gmail_note :: "string \<Rightarrow> string \<Rightarrow> string \<Rightarrow> json \<Rightarrow> new_pipeline_event" where
  "gmail_note lid runId msg d = \<lparr>pv_leadId = Some lid, pv_runId = Some runId, pv_type = pipeline_event_type.NOTE,
     pv_fromStatus = None, pv_toStatus = None, pv_message = Some msg, pv_data = d\<rparr>"

definition transition_if_approved :: "string \<Rightarrow> lead_status \<Rightarrow> ('a gmail_db_scheme, unit) prog" where
  "transition_if_approved lid dst =
     bind_p (lead_getById lid) (\<lambda>found.
       case found of None \<Rightarrow> return_p ()
       | Some l \<Rightarrow> when_p (ld_status l = HUMAN_APPROVED) (then_p (lead_transition lid dst) (return_p ())))"

definition gmail_terminal ::
  "gmail_input \<Rightarrow> string \<Rightarrow> gmail_outcome \<Rightarrow> lead_status option \<Rightarrow> string option \<Rightarrow> string option
   \<Rightarrow> ('a gmail_db_scheme, gmail_result) prog" where
  "gmail_terminal i runId outcome route errorClass reserved =
     then_p (lead_tx
       (then_p (case fact reserved of None \<Rightarrow> return_p ()
          | Some rid \<Rightarrow> bind_p readClock (\<lambda>now. completeRun rid (\<lambda>r. r\<lparr>gd_outcome := gmail_outcome_str outcome,
              gd_errorClass := errorClass, gd_completedAt := Some now\<rparr>)))
       (then_p (case route of None \<Rightarrow> return_p () | Some dst \<Rightarrow> transition_if_approved (gi_leadId i) dst)
       (record_event (gmail_note (gi_leadId i) runId (''gmail: '' @ gmail_outcome_str outcome)
         (JObj [(''outcome'', JStr (gmail_outcome_str outcome)), (''errorClass'', jopt errorClass)]))))))
     (return_p \<lparr>go_leadId = gi_leadId i, go_outcome = outcome, go_draftId = None\<rparr>)"

definition gmail_finish ::
  "gmail_input \<Rightarrow> string \<Rightarrow> string \<Rightarrow> draft_ref \<Rightarrow> ('a gmail_db_scheme, gmail_result) prog" where
  "gmail_finish i runId reserved ref =
     then_p (lead_tx
       (bind_p readClock (\<lambda>now.
        then_p (completeRun reserved (\<lambda>r. r\<lparr>gd_outcome := ''DRAFT_CREATED'', gd_providerDraftId := Some (df_draftId ref),
            gd_messageId := df_messageId ref, gd_threadId := df_threadId ref, gd_errorClass := None,
            gd_completedAt := Some now\<rparr>))
       (then_p (transition_if_approved (gi_leadId i) DRAFT_CREATED)
       (record_event (gmail_note (gi_leadId i) runId ''gmail: DRAFT_CREATED''
         (JObj [(''draftId'', JStr (df_draftId ref)), (''threadId'', jopt (df_threadId ref))])))))))
     (return_p \<lparr>go_leadId = gi_leadId i, go_outcome = GO_DRAFT_CREATED, go_draftId = Some (df_draftId ref)\<rparr>)"

definition draft_fingerprint :: "digest \<Rightarrow> gmail_config \<Rightarrow> gmail_input \<Rightarrow> string" where
  "draft_fingerprint sha c i =
     (case (gi_finalization i, fact (gi_recipientEmail i)) of
        (Some f, Some r) \<Rightarrow> sha (gc_gmailAccount c @ ''|'' @ gf_id f @ ''|'' @ r)
      | _ \<Rightarrow> sha (gc_gmailAccount c @ ''|'' @ gi_leadId i @ ''|none''))"

definition gmail_snapshot_of :: "gmail_config \<Rightarrow> gmail_input \<Rightarrow> bool \<Rightarrow> gmail_snapshot" where
  "gmail_snapshot_of c i existing =
     \<lparr>gs_leadStatus = gi_leadStatus i,
      gs_finalization = map_option (\<lambda>f. (gf_finalHumanDecision f, gf_resolvedBody f)) (gi_finalization i),
      gs_recipientEmail = gi_recipientEmail i, gs_featureEnabled = gc_featureEnabled c,
      gs_draftActionsEnabled = gc_draftActionsEnabled c, gs_credentialsConfigured = gc_credentialsConfigured c,
      gs_existingDraftForFingerprint = existing\<rparr>"

text \<open>Which refusal the gate's reasons are.\<close>

definition refused_outcome :: "string list \<Rightarrow> gmail_outcome" where
  "refused_outcome reasons =
     (if list_ex (\<lambda>r. starts_with ''no_verified_recipient'' r \<or> starts_with ''recipient_'' r) reasons
      then GO_NO_RECIPIENT else GO_INVALID_ELIGIBILITY)"

text \<open>The reservation is written before the request; the answer of the provider settles it.\<close>

definition conclude_create ::
  "gmail_input \<Rightarrow> string \<Rightarrow> string \<Rightarrow> create_class \<times> draft_ref option \<times> string option
   \<Rightarrow> ('a gmail_db_scheme, gmail_result) prog" where
  "conclude_create i runId rid answer =
     (case answer of
        (CC_rate_limited, _, _) \<Rightarrow> gmail_terminal i runId GO_RATE_LIMITED None (Some ''create_rate_limited'') (Some rid)
      | (CC_transient, _, _) \<Rightarrow> gmail_terminal i runId GO_TRANSIENT_ERROR None (Some ''create_transient'') (Some rid)
      | (CC_auth_error, _, _) \<Rightarrow>
          gmail_terminal i runId GO_AUTH_ERROR (Some NEEDS_MANUAL_REVIEW) (Some ''auth_error'') (Some rid)
      | (CC_ok, Some ref, _) \<Rightarrow> gmail_finish i runId rid ref
      | (_, _, why) \<Rightarrow> gmail_terminal i runId GO_DRAFT_FAILED (Some NEEDS_MANUAL_REVIEW)
          (Some (case why of None \<Rightarrow> ''create_failed'' | Some w \<Rightarrow> w)) (Some rid))"

definition reservation ::
  "gmail_config \<Rightarrow> gmail_input \<Rightarrow> gmail_finalization \<Rightarrow> string \<Rightarrow> string \<Rightarrow> int \<Rightarrow> gmail_draft" where
  "reservation c i f fp rid now =
     \<lparr>gd_id = rid, gd_leadId = gi_leadId i, gd_finalizedEmailId = Some (gf_id f),
      gd_recipientEmail = text_of (gi_recipientEmail i), gd_senderEmail = gc_gmailAccount c,
      gd_gmailAccount = gc_gmailAccount c, gd_providerDraftId = None, gd_threadId = None, gd_messageId = None,
      gd_outcome = ''TRANSIENT_ERROR'', gd_provider = gc_providerName c, gd_idempotencyFingerprint = fp,
      gd_sourceEmailVersion = gf_resolvedBodyHash f, gd_errorClass = None, gd_createdAt = now,
      gd_completedAt = None\<rparr>"

definition draft_mail :: "gmail_config \<Rightarrow> gmail_input \<Rightarrow> string \<Rightarrow> string \<Rightarrow> mime_input" where
  "draft_mail c i sender body =
     \<lparr>mi_fromName = sender, mi_fromEmail = gc_gmailAccount c, mi_toEmail = text_of (gi_recipientEmail i),
      mi_subject = gi_subject i, mi_body = body\<rparr>"

definition reserve_and_create ::
  "gmail_config \<Rightarrow> gmail_input \<Rightarrow> string \<Rightarrow> gmail_finalization \<Rightarrow> string \<Rightarrow> string \<Rightarrow> string \<Rightarrow> int
   \<Rightarrow> ('a gmail_db_scheme, gmail_result) prog" where
  "reserve_and_create c i runId f sender body fp now =
     bind_p newUUID (\<lambda>rid.
     then_p (reserveRun (reservation c i f fp rid now))
     (bind_p (provider_createDraft \<lparr>cr_raw = buildRawMessage (draft_mail c i sender body),
        cr_fingerprint = fp, cr_threadId = gi_threadId i\<rparr>)
       (conclude_create i runId rid)))"

definition create_new ::
  "gmail_config \<Rightarrow> gmail_input \<Rightarrow> string \<Rightarrow> gmail_finalization \<Rightarrow> string \<Rightarrow> string \<Rightarrow> string \<Rightarrow> int
   \<Rightarrow> ('a gmail_db_scheme, gmail_result) prog" where
  "create_new c i runId f sender body fp now =
     bind_p (findReservedByFingerprint fp) (\<lambda>reserved.
     case reserved of
       Some r \<Rightarrow>
         if fact (gd_providerDraftId r) \<noteq> None
         then gmail_terminal i runId GO_DUPLICATE_REUSED None (Some ''reused_reserved'') (Some (gd_id r))
         else gmail_terminal i runId GO_MANUAL_REVIEW_REQUIRED (Some NEEDS_MANUAL_REVIEW)
           (Some ''uncertain_prior_attempt'') (Some (gd_id r))
     | None \<Rightarrow>
         bind_p (draftsToday now) (\<lambda>n.
         if gc_maxPerDay c \<le> n then gmail_terminal i runId GO_BUDGET_BLOCKED None (Some ''max_per_day'') None
         else bind_p lastAttemptAt (\<lambda>prev.
           if (case prev of None \<Rightarrow> False | Some t \<Rightarrow> now - t < gc_minIntervalMs c)
           then gmail_terminal i runId GO_BUDGET_BLOCKED None (Some ''min_interval'') None
           else reserve_and_create c i runId f sender body fp now)))"

text \<open>The checks after the gate, which are on the finalized copy that it found.\<close>

definition create_eligible ::
  "gmail_config \<Rightarrow> gmail_input \<Rightarrow> string \<Rightarrow> gmail_finalization \<Rightarrow> string \<Rightarrow> int
   \<Rightarrow> ('a gmail_db_scheme, gmail_result) prog" where
  "create_eligible c i runId f fp now =
     (case fact (gc_senderName c) of
        None \<Rightarrow> gmail_terminal i runId GO_INVALID_TOKENS (Some NEEDS_MANUAL_REVIEW)
          (Some ''sender_name_not_configured'') None
      | Some sender \<Rightarrow>
          let body = resolveSenderName (gf_resolvedBody f) sender in
          if hasUnresolvedTokens body
          then gmail_terminal i runId GO_INVALID_TOKENS (Some NEEDS_MANUAL_REVIEW)
            (Some ''unresolved_tokens_after_substitution'') None
          else bind_p gmail_verify (\<lambda>v.
            if aa_email v \<noteq> None \<and> aa_email v \<noteq> Some (gc_gmailAccount c)
            then gmail_terminal i runId GO_ACCOUNT_MISMATCH (Some NEEDS_MANUAL_REVIEW) (Some ''account_mismatch'') None
            else if \<not> aa_ok v \<or> aa_email v = None
            then gmail_terminal i runId GO_AUTH_ERROR (Some NEEDS_MANUAL_REVIEW)
              (Some ''account_verification_failed'') None
            else create_new c i runId f sender body fp now))"

definition createDraft ::
  "digest \<Rightarrow> gmail_config \<Rightarrow> gmail_input \<Rightarrow> string \<Rightarrow> ('a gmail_db_scheme, gmail_result) prog" where
  "createDraft sha c i runId =
     bind_p readClock (\<lambda>now.
     let fp = draft_fingerprint sha c i in
     bind_p (existingByFingerprint (gc_gmailAccount c) fp) (\<lambda>existing.
     let e = checkGmailEligibility (gmail_snapshot_of c i existing) in
     if ge_duplicateReusable e then gmail_terminal i runId GO_DUPLICATE_REUSED None (Some ''duplicate'') None
     else if \<not> ge_eligible e
     then gmail_terminal i runId (refused_outcome (ge_reasons e)) None (Some (js_join '','' (ge_reasons e))) None
     else case gi_finalization i of
         None \<Rightarrow> throw_p (PlainError ''TypeError'')
       | Some f \<Rightarrow> create_eligible c i runId f fp now))"

section \<open>The input of a lead\<close>

definition latest_finalization :: "'a send_db_scheme \<Rightarrow> string \<Rightarrow> finalization option" where
  "latest_finalization s lid = latest_by fn_finalizedAt (filter (\<lambda>f. fn_leadId f = lid) (t_finalizations s))"

text \<open>The first sent message of the record that has a thread.\<close>

definition thread_of_record :: "'a suite_db_scheme \<Rightarrow> string \<Rightarrow> string option" where
  "thread_of_record s rid =
     (case sort_key om_sequenceStep (sort_key om_createdAt
        (filter (\<lambda>m. om_recordId m = rid \<and> om_gmailThreadId m \<noteq> None) (t_messages (outreach s)))) of
        [] \<Rightarrow> None | m # _ \<Rightarrow> om_gmailThreadId m)"

definition gmail_input_of :: "lead \<Rightarrow> 'a suite_db_scheme \<Rightarrow> gmail_input" where
  "gmail_input_of l s =
     (let fin = latest_finalization s (ld_id l) in
      \<lparr>gi_leadId = ld_id l, gi_leadStatus = ld_status l,
       gi_finalization = map_option (\<lambda>f. \<lparr>gf_id = fn_id f, gf_resolvedBody = fn_resolvedBody f,
         gf_resolvedBodyHash = fn_resolvedBodyHash f, gf_finalHumanDecision = fn_finalHumanDecision f\<rparr>) fin,
       gi_subject = (case fin of None \<Rightarrow> [] | Some f \<Rightarrow> fn_subject f),
       gi_recipientEmail = current_recipient s (ld_id l),
       gi_threadId = (case fin of None \<Rightarrow> None | Some f \<Rightarrow>
         if 0 < fn_sequenceStep f then Option.bind (fn_outreachRecordId f) (thread_of_record s) else None)\<rparr>)"

section \<open>The run over the approved leads\<close>

definition leads_to_draft :: "int \<Rightarrow> string option \<Rightarrow> lead list \<Rightarrow> lead list" where
  "leads_to_draft maxPerRun limitOpt all =
     (let approved = filter (\<lambda>l. ld_status l = HUMAN_APPROVED) all;
          limited = (case fact limitOpt of None \<Rightarrow> approved | Some n \<Rightarrow> slice_to (parseInt10 n) approved)
      in slice_to (Some maxPerRun) limited)"

fun draft_each ::
  "digest \<Rightarrow> gmail_config \<Rightarrow> string \<Rightarrow> lead list \<Rightarrow> gmail_outcome list
   \<Rightarrow> ('a gmail_db_scheme, gmail_outcome list) prog" where
  "draft_each sha c runId [] acc = return_p acc"
| "draft_each sha c runId (l # ls) acc =
     bind_p (read_p (gmail_input_of l)) (\<lambda>i.
     bind_p (createDraft sha c i runId) (\<lambda>r. draft_each sha c runId ls (acc @ [go_outcome r])))"

definition createGmailDraftsCommand ::
  "digest \<Rightarrow> gmail_config \<Rightarrow> int \<Rightarrow> string option \<Rightarrow> ('a gmail_db_scheme, gmail_outcome list) prog" where
  "createGmailDraftsCommand sha c maxPerRun limitOpt =
     (if \<not> gc_featureEnabled c \<or> \<not> gc_draftActionsEnabled c then return_p []
      else bind_p (list_leads 1000) (\<lambda>all.
           bind_p startRun (\<lambda>runId.
           draft_each sha c runId (leads_to_draft maxPerRun limitOpt all) [])))"

end
