(* ===== verification/Gmail_Claims.thy ===== *)
theory Gmail_Claims
  imports Gmail Lead_History Outreach_Claims
begin

text \<open>
  What the creation of drafts does: one request per fingerprint over any sequence of calls, also of
  calls that throw; what a created draft carries; that an attempt whose end is unknown is parked; and
  the budgets.
\<close>

section \<open>What leaves the drafts and the provider alone\<close>

definition kept :: "'a gmail_db_scheme \<Rightarrow> 'a gmail_db_scheme \<Rightarrow> bool" where
  "kept s s' \<longleftrightarrow> t_gmail_drafts s' = t_gmail_drafts s \<and> dr_requests s' = dr_requests s \<and> dr_calls s' = dr_calls s
     \<and> dr_verify s' = dr_verify s \<and> dr_create s' = dr_create s \<and> lead_uuids s' = lead_uuids s
     \<and> lead_clock s' = lead_clock s"

interpretation kept: prog_frame kept
  by unfold_locales (auto simp: kept_def)

named_theorems kept_parts \<open>statements that leave the drafts alone\<close>

lemma kept_tx [kept_parts]: "keeps kept p \<Longrightarrow> keeps kept (lead_tx p)"
  by (rule kept.keeps_transaction) (auto simp: kept_def rollback_def)

lemma kept_base [kept_parts]: "keeps kept readClock" "keeps kept newUUID" "keeps kept (lead_getById lid)"
  "keeps kept (lead_updateStatus lid st now)"
  unfolding lead_getById_def lead_updateStatus_def
  by (auto simp: keeps_def kept_def readClock_def newUUID_def)

lemma kept_record_event [kept_parts]: "keeps kept (record_event e)"
  unfolding record_event_def by (intro kept.keeps_bind kept_parts) (simp add: keeps_def kept_def)

lemma kept_lead_transition [kept_parts]: "keeps kept (lead_transition lid dst)"
  unfolding lead_transition_def Let_def
  by (intro kept.keeps_bind kept.keeps_option kept.keeps_if kept.keeps_all kept_parts)

lemma kept_transition_if_approved [kept_parts]: "keeps kept (transition_if_approved lid dst)"
  unfolding transition_if_approved_def
  by (intro kept.keeps_bind kept.keeps_option kept.keeps_all kept_parts)

lemma kept_startRun [kept_parts]: "keeps kept startRun"
  unfolding startRun_def
  by (intro kept.keeps_bind kept.keeps_then kept_parts) (simp add: keeps_def kept_def)

section \<open>Requests and reservations\<close>

definition draft_key :: "gmail_draft \<Rightarrow> string \<times> string" where
  "draft_key r = (gd_gmailAccount r, gd_idempotencyFingerprint r)"

definition draft_keys :: "'a gmail_db_scheme \<Rightarrow> (string \<times> string) set" where
  "draft_keys s = draft_key ` set (t_gmail_drafts s)"

text \<open>Rows may be settled, but keep their identity, their key and the time they were made.\<close>

definition settled_only :: "'a gmail_db_scheme \<Rightarrow> 'a gmail_db_scheme \<Rightarrow> bool" where
  "settled_only s s' \<longleftrightarrow> dr_requests s' = dr_requests s \<and> lead_clock s' = lead_clock s
     \<and> map (\<lambda>r. (draft_key r, gd_createdAt r)) (t_gmail_drafts s') = map (\<lambda>r. (draft_key r, gd_createdAt r)) (t_gmail_drafts s)"

interpretation settled: prog_frame settled_only
  by unfold_locales (auto simp: settled_only_def)

lemma kept_settled: "keeps kept p \<Longrightarrow> keeps settled_only p"
  by (erule keeps_weaken) (simp add: kept_def settled_only_def)

lemma settled_tx: "keeps settled_only p \<Longrightarrow> keeps settled_only (lead_tx p)"
  by (rule settled.keeps_transaction) (auto simp: settled_only_def rollback_def)

lemma settled_completeRun:
  assumes "\<And>r. draft_key (f r) = draft_key r" "\<And>r. gd_createdAt (f r) = gd_createdAt r"
  shows "keeps settled_only (completeRun rid f)"
  using assms by (auto simp: keeps_def completeRun_def settled_only_def Let_def map_update_where_same split: option.splits)

lemma settled_terminal: "keeps settled_only (gmail_terminal i runId oc route ec reserved)"
  unfolding gmail_terminal_def
  by (intro settled.keeps_then settled_tx settled.keeps_option settled.keeps_bind settled.keeps_return
      settled_completeRun kept_settled [OF kept_record_event] kept_settled [OF kept_base(1)]
      kept_settled [OF kept_transition_if_approved])
     (simp_all add: draft_key_def)

lemma settled_finish: "keeps settled_only (gmail_finish i runId rid ref)"
  unfolding gmail_finish_def
  by (intro settled.keeps_then settled_tx settled.keeps_bind settled.keeps_return
      settled_completeRun kept_settled [OF kept_record_event] kept_settled [OF kept_base(1)]
      kept_settled [OF kept_transition_if_approved])
     (simp_all add: draft_key_def)

lemma settled_conclude: "keeps settled_only (conclude_create i runId rid answer)"
  unfolding conclude_create_def
  by (auto split: prod.splits create_class.splits option.splits intro: settled_terminal settled_finish)

lemma settled_verify: "keeps settled_only gmail_verify"
  by (auto simp: keeps_def gmail_verify_def settled_only_def Let_def split: verify_answer.splits)

lemma settled_reads: "keeps settled_only (existingByFingerprint account fp)" "keeps settled_only (draftsToday now)"
  "keeps settled_only lastAttemptAt" "keeps settled_only (findReservedByFingerprint fp)"
  unfolding existingByFingerprint_def draftsToday_def lastAttemptAt_def findReservedByFingerprint_def
  by (rule settled.keeps_read)+

lemma draft_keys_settled: "settled_only s s' \<Longrightarrow> draft_keys s' = draft_keys s"
proof -
  assume "settled_only s s'"
  then have "map fst (map (\<lambda>r. (draft_key r, gd_createdAt r)) (t_gmail_drafts s'))
      = map fst (map (\<lambda>r. (draft_key r, gd_createdAt r)) (t_gmail_drafts s))"
    by (simp only: settled_only_def)
  then have "map draft_key (t_gmail_drafts s') = map draft_key (t_gmail_drafts s)"
    by (simp add: comp_def)
  then show ?thesis
    unfolding draft_keys_def by (metis set_map)
qed

lemma reserveRun_Inr:
  assumes "reserveRun r s = (Inr u, s')"
  shows "draft_key r \<notin> draft_keys s" "s' = s\<lparr>t_gmail_drafts := t_gmail_drafts s @ [r]\<rparr>"
    "gd_id r \<notin> gd_id ` set (t_gmail_drafts s)"
  using assms
  by (auto simp: reserveRun_def drafts_violation_def draft_keys_def draft_key_def image_iff split: option.splits if_splits)

lemma reserveRun_Inl: "reserveRun r s = (Inl e, s') \<Longrightarrow> s' = s"
  by (auto simp: reserveRun_def split: option.splits if_splits)

text \<open>The one place where a request leaves: it fails before it, or reserves and asks once.\<close>

lemma reserve_and_create_cases:
  assumes run: "reserve_and_create c i runId f sender body fp now s = (x, s')"
  obtains (refused) e where "x = Inl e" "settled_only s s'"
  | (asked) rid s1 where
      "rid = lead_uuids s (lead_drawn s)"
      "reserveRun (reservation c i f fp rid now) (s\<lparr>lead_drawn := Suc (lead_drawn s)\<rparr>) = (Inr (), s1)"
      "(case dr_create s (dr_calls s) of
          Answer a ref why \<Rightarrow> conclude_create i runId rid (a, ref, why)
        | CreateThrows w \<Rightarrow> throw_p (PlainError w))
         (s1\<lparr>dr_calls := Suc (dr_calls s), dr_requests := dr_requests s
            @ [\<lparr>cr_raw = buildRawMessage (draft_mail c i sender body), cr_fingerprint = fp,
                 cr_threadId = gi_threadId i\<rparr>]\<rparr>) = (x, s')"
proof -
  let ?rid = "lead_uuids s (lead_drawn s)"
  let ?s0 = "s\<lparr>lead_drawn := Suc (lead_drawn s)\<rparr>"
  obtain u s1 where res: "reserveRun (reservation c i f fp ?rid now) ?s0 = (u, s1)" by fastforce
  show thesis
  proof (cases u)
    case (Inl e)
    then have "s1 = ?s0" "x = Inl e" "s' = s1"
      using res run reserveRun_Inl by (auto simp: reserve_and_create_def bind_p_def then_p_def newUUID_def)
    then show thesis
      by (intro refused) (simp_all add: settled_only_def)
  next
    case (Inr v)
    then have s1: "s1 = ?s0\<lparr>t_gmail_drafts := t_gmail_drafts s @ [reservation c i f fp ?rid now]\<rparr>"
      using res reserveRun_Inr(2) by fastforce
    show thesis
      using run res Inr
      by (intro asked [of ?rid s1])
         (auto simp: reserve_and_create_def bind_p_def then_p_def newUUID_def provider_createDraft_def s1 Let_def
            split: create_answer.splits)
  qed
qed

text \<open>A relation that holds of settling and of a reservation with its request holds of a call.\<close>

locale draft_frame = prog_frame R for R :: "'a gmail_db_scheme \<Rightarrow> 'a gmail_db_scheme \<Rightarrow> bool" +
  fixes c :: gmail_config
  assumes settled: "settled_only s s' \<Longrightarrow> R s s'"
    and asks: "gc_gmailAccount c = gd_gmailAccount row \<Longrightarrow> draft_key row \<notin> draft_keys s \<Longrightarrow>
      cr_fingerprint q = gd_idempotencyFingerprint row \<Longrightarrow> s1 = s\<lparr>lead_drawn := n, dr_calls := m,
        t_gmail_drafts := t_gmail_drafts s @ [row], dr_requests := dr_requests s @ [q]\<rparr> \<Longrightarrow>
      int (length (filter (\<lambda>r. day_start (gd_createdAt row) \<le> gd_createdAt r) (t_gmail_drafts s))) < gc_maxPerDay c \<Longrightarrow>
      R s s1"
begin

lemma settledK: "keeps settled_only p \<Longrightarrow> keeps R p"
  by (erule keeps_weaken) (rule settled)

lemma reserve_keeps:
  assumes budget: "int (length (filter (\<lambda>r. day_start now \<le> gd_createdAt r) (t_gmail_drafts s))) < gc_maxPerDay c"
    and run: "reserve_and_create c i runId f sender body fp now s = (x, s')"
  shows "R s s'"
  using run
proof (cases rule: reserve_and_create_cases)
  case (refused e)
  then show ?thesis by (rule_tac settled)
next
  case (asked rid s1)
  let ?row = "reservation c i f fp rid now"
  let ?q = "\<lparr>cr_raw = buildRawMessage (draft_mail c i sender body), cr_fingerprint = fp, cr_threadId = gi_threadId i\<rparr>"
  let ?s2 = "s1\<lparr>dr_calls := Suc (dr_calls s), dr_requests := dr_requests s @ [?q]\<rparr>"
  note r = reserveRun_Inr [OF asked(2)]
  have eq: "?s2 = s\<lparr>lead_drawn := Suc (lead_drawn s), dr_calls := Suc (dr_calls s),
      t_gmail_drafts := t_gmail_drafts s @ [?row], dr_requests := dr_requests s @ [?q]\<rparr>"
    unfolding r(2) by simp
  have "R s ?s2"
    by (rule asks [OF _ _ _ eq]) (use r(1) budget in \<open>simp_all add: reservation_def draft_keys_def\<close>)
  moreover have "R ?s2 s'"
  proof (cases "dr_create s (dr_calls s)")
    case (Answer a ref why)
    then have "conclude_create i runId rid (a, ref, why) ?s2 = (x, s')"
      using asked(3) by simp
    then show ?thesis
      using settled keepsD [OF settled_conclude] by blast
  next
    case (CreateThrows w)
    then show ?thesis
      using asked(3) refl by simp
  qed
  ultimately show ?thesis by (rule trans)
qed

lemma create_new_keeps: "keeps R (create_new c i runId f sender body fp now)"
proof (rule keepsI)
  fix s s' :: "'a gmail_db_scheme" and x
  assume run: "create_new c i runId f sender body fp now s = (x, s')"
  have ends: "R s s'" if "gmail_terminal i runId oc route ec reserved s = (x, s')" for oc route ec reserved
    using settled keepsD [OF settled_terminal that] by blast
  show "R s s'"
  proof (cases "reserved_by fp s")
    case (Some r)
    then show ?thesis
      using run ends by (auto simp: create_new_def findReservedByFingerprint_def bind_p_def split: if_splits)
  next
    case None
    then show ?thesis
      using run ends reserve_keeps [of now s]
      by (auto simp: create_new_def findReservedByFingerprint_def draftsToday_def lastAttemptAt_def bind_p_def
          not_le split: if_splits option.splits)
  qed
qed

lemma createDraft_keeps: "keeps R (createDraft sha c i runId)"
proof -
  have "keeps R (create_eligible c i runId f fp now)" for f fp now
    unfolding create_eligible_def Let_def
    by (intro keeps_option keeps_if keeps_bind settledK [OF settled_terminal] settledK [OF settled_verify] create_new_keeps)
  then show ?thesis
    unfolding createDraft_def Let_def
    by (intro keeps_option keeps_if keeps_bind keeps_throw settledK [OF settled_terminal]
        settledK [OF kept_settled [OF kept_base(1)]] settledK [OF settled_reads(1)])
qed

end

section \<open>One request per fingerprint\<close>

definition drafts_once :: "gmail_config \<Rightarrow> 'a gmail_db_scheme \<Rightarrow> 'a gmail_db_scheme \<Rightarrow> bool" where
  "drafts_once c s s' \<longleftrightarrow> (\<exists>new. dr_requests s' = dr_requests s @ new \<and> distinct (map cr_fingerprint new)
     \<and> draft_keys s \<subseteq> draft_keys s'
     \<and> Pair (gc_gmailAccount c) ` cr_fingerprint ` set new \<subseteq> draft_keys s' - draft_keys s)"

interpretation once: draft_frame "drafts_once c" c for c
proof
  show "drafts_once c s s" for s :: "'a gmail_db_scheme"
    by (simp add: drafts_once_def)
next
  fix s t u :: "'a gmail_db_scheme"
  assume "drafts_once c s t" "drafts_once c t u"
  then obtain xs ys where xs: "dr_requests t = dr_requests s @ xs" "distinct (map cr_fingerprint xs)"
      "draft_keys s \<subseteq> draft_keys t"
      "Pair (gc_gmailAccount c) ` cr_fingerprint ` set xs \<subseteq> draft_keys t - draft_keys s"
    and ys: "dr_requests u = dr_requests t @ ys" "distinct (map cr_fingerprint ys)"
      "draft_keys t \<subseteq> draft_keys u"
      "Pair (gc_gmailAccount c) ` cr_fingerprint ` set ys \<subseteq> draft_keys u - draft_keys t"
    unfolding drafts_once_def by (elim exE conjE)
  have "cr_fingerprint ` set xs \<inter> cr_fingerprint ` set ys = {}"
    using xs(4) ys(4) by blast
  then have "distinct (map cr_fingerprint (xs @ ys))"
    using xs(2) ys(2) by simp
  moreover have "Pair (gc_gmailAccount c) ` cr_fingerprint ` set (xs @ ys) \<subseteq> draft_keys u - draft_keys s"
    unfolding set_append image_Un using xs(3,4) ys(3,4) by blast
  ultimately show "drafts_once c s u"
    unfolding drafts_once_def using xs(1,3) ys(1,3) by (intro exI [of _ "xs @ ys"]) simp
next
  fix s s' :: "'a gmail_db_scheme"
  assume "settled_only s s'"
  then show "drafts_once c s s'"
    unfolding drafts_once_def using draft_keys_settled [of s s']
    by (intro exI [of _ "[]"]) (simp add: settled_only_def)
next
  fix row n m q and s s1 :: "'a gmail_db_scheme"
  assume row: "gc_gmailAccount c = gd_gmailAccount row" "draft_key row \<notin> draft_keys s"
    and q: "cr_fingerprint q = gd_idempotencyFingerprint row"
    and s1: "s1 = s\<lparr>lead_drawn := n, dr_calls := m, t_gmail_drafts := t_gmail_drafts s @ [row],
        dr_requests := dr_requests s @ [q]\<rparr>"
  have "draft_keys s1 = insert (draft_key row) (draft_keys s)"
    by (auto simp: draft_keys_def s1)
  then show "drafts_once c s s1"
    unfolding drafts_once_def using row q
    by (intro exI [of _ "[q]"]) (auto simp: s1 draft_key_def)
qed

interpretation once_system: prog_system "drafts_once c" "\<lambda>(i, runId). createDraft sha c i runId" for sha c
  by unfold_locales (auto intro: once.createDraft_keeps)

text \<open>C11: over any sequence of calls, whatever each returns or throws and whatever the provider and the
  clock answer, the requests the provider is given have different fingerprints, and each has its row in
  the store: no finalized copy is drafted twice for a recipient, also after an attempt whose answer was
  lost.\<close>

theorem one_draft_per_fingerprint:
  "\<exists>new. dr_requests (run_progs (\<lambda>(i, runId). createDraft sha c i runId) calls s) = dr_requests s @ new
     \<and> distinct (map cr_fingerprint new)
     \<and> Pair (gc_gmailAccount c) ` cr_fingerprint ` set new
         \<subseteq> draft_keys (run_progs (\<lambda>(i, runId). createDraft sha c i runId) calls s) - draft_keys s"
  using once_system.run_keeps [of c s sha calls] unfolding drafts_once_def by blast

section \<open>The budget of a day\<close>

text \<open>The rows of the day that starts at \<open>d\<close>.\<close>

definition drafted_on :: "int \<Rightarrow> 'a gmail_db_scheme \<Rightarrow> nat" where
  "drafted_on d s = length (filter (\<lambda>t. day_start t = d \<and> d \<le> t) (map gd_createdAt (t_gmail_drafts s)))"

definition in_budget :: "gmail_config \<Rightarrow> int \<Rightarrow> 'a gmail_db_scheme \<Rightarrow> 'a gmail_db_scheme \<Rightarrow> bool" where
  "in_budget c d s s' \<longleftrightarrow> drafted_on d s' \<le> max (drafted_on d s) (nat (gc_maxPerDay c))"

lemma createdAt_settled: "settled_only s s' \<Longrightarrow> map gd_createdAt (t_gmail_drafts s') = map gd_createdAt (t_gmail_drafts s)"
proof -
  assume "settled_only s s'"
  then have "map snd (map (\<lambda>r. (draft_key r, gd_createdAt r)) (t_gmail_drafts s'))
      = map snd (map (\<lambda>r. (draft_key r, gd_createdAt r)) (t_gmail_drafts s))"
    by (simp only: settled_only_def)
  then show ?thesis
    by (simp add: comp_def)
qed

lemma filter_both: "length (filter (\<lambda>x. P x \<and> Q x) xs) \<le> length (filter Q xs)"
  by (induction xs) auto

lemma drafted_on_bound: "drafted_on d s \<le> length (filter (\<lambda>r. d \<le> gd_createdAt r) (t_gmail_drafts s))"
  using filter_both [of "\<lambda>r. day_start (gd_createdAt r) = d" "\<lambda>r. d \<le> gd_createdAt r" "t_gmail_drafts s"]
  by (simp add: drafted_on_def filter_map comp_def)

interpretation budget: draft_frame "in_budget c d" c for c d
proof
  show "in_budget c d s s" for s :: "'a gmail_db_scheme"
    by (simp add: in_budget_def)
  show "in_budget c d s t \<Longrightarrow> in_budget c d t u \<Longrightarrow> in_budget c d s u" for s t u :: "'a gmail_db_scheme"
    by (auto simp: in_budget_def)
  show "settled_only s s' \<Longrightarrow> in_budget c d s s'" for s s' :: "'a gmail_db_scheme"
    using createdAt_settled [of s s'] by (simp add: in_budget_def drafted_on_def)
next
  fix row n m q and s s1 :: "'a gmail_db_scheme"
  assume s1: "s1 = s\<lparr>lead_drawn := n, dr_calls := m, t_gmail_drafts := t_gmail_drafts s @ [row],
        dr_requests := dr_requests s @ [q]\<rparr>"
    and room: "int (length (filter (\<lambda>r. day_start (gd_createdAt row) \<le> gd_createdAt r) (t_gmail_drafts s))) < gc_maxPerDay c"
  have new: "drafted_on d s1 = drafted_on d s
      + (if day_start (gd_createdAt row) = d \<and> d \<le> gd_createdAt row then 1 else 0)"
    by (simp add: drafted_on_def s1)
  show "in_budget c d s s1"
  proof (cases "day_start (gd_createdAt row) = d")
    case True
    then show ?thesis
      unfolding in_budget_def new using room drafted_on_bound [of d s] by auto
  qed (simp add: in_budget_def new)
qed

interpretation budget_system: prog_system "in_budget c d" "\<lambda>(i, runId). createDraft sha c i runId" for sha c d
  by unfold_locales (auto intro: budget.createDraft_keeps)

text \<open>C14: over any sequence of calls no day gets more attempts than its budget: the rows of a day stay
  within the larger of what there was and the configured maximum.\<close>

theorem daily_draft_budget:
  "drafted_on d (run_progs (\<lambda>(i, runId). createDraft sha c i runId) calls s)
     \<le> max (drafted_on d s) (nat (gc_maxPerDay c))"
  using budget_system.run_keeps [of c d s sha calls] unfolding in_budget_def .

section \<open>A created draft\<close>

lemma find_status:
  assumes "find (\<lambda>l. ld_id l = lid) ls = Some l"
  shows "map_option ld_status (find (\<lambda>l. ld_id l = lid)
    (update_where (\<lambda>l. ld_id l = lid) (\<lambda>l. l\<lparr>ld_status := dst, ld_updatedAt := now\<rparr>) ls)) = Some dst"
  using assms by (induction ls) (auto split: if_splits)

definition status_of :: "'a gmail_db_scheme \<Rightarrow> string \<Rightarrow> lead_status option" where
  "status_of s lid = map_option ld_status (lead_of s lid)"

definition moved :: "lead_status option \<Rightarrow> lead_status option \<Rightarrow> lead_status option" where
  "moved route st = (if st = Some HUMAN_APPROVED \<and> route \<noteq> None then route else st)"

lemma transition_if_approved_Inr:
  assumes "transition_if_approved lid dst s = (Inr u, s')"
  shows "status_of s' lid = moved (Some dst) (status_of s lid)"
proof (cases "status_of s lid = Some HUMAN_APPROVED")
  case True
  then obtain l where l: "lead_of s lid = Some l" "ld_status l = HUMAN_APPROVED"
    by (auto simp: status_of_def)
  then obtain x s1 where "lead_transition lid dst s = (Inr x, s1)" "s' = s1"
    using assms by (auto simp: transition_if_approved_def lead_getById_def prog_simps)
  then have "transitioned s lid l dst s'"
    using l(1) by (auto elim: lead_transition_ok)
  then show ?thesis
    using True find_status [OF l(1) [unfolded lead_of_def]]
    by (auto simp: transitioned_def status_of_def lead_of_def moved_def)
next
  case False
  then have "s' = s"
    using assms by (auto simp: transition_if_approved_def lead_getById_def prog_simps status_of_def split: option.splits)
  then show ?thesis
    using False by (simp add: moved_def)
qed

lemma record_event_leads: "record_event e s = (Inr u, s') \<Longrightarrow> status_of s' lid = status_of s lid"
  by (auto simp: record_event_def newUUID_def bind_p_def status_of_def lead_of_def split: if_splits)

lemma completeRun_Inr:
  assumes "completeRun rid f s = (Inr u, s')"
  shows "s' = s\<lparr>t_gmail_drafts := (if rid = [] then t_gmail_drafts s
    else update_where (\<lambda>r. gd_id r = rid) f (t_gmail_drafts s))\<rparr>"
  using assms by (auto simp: completeRun_def Let_def split: if_splits option.splits)

lemma keptD:
  assumes "keeps kept p" and "p s = (x, s')"
  shows "t_gmail_drafts s' = t_gmail_drafts s" "dr_requests s' = dr_requests s" "dr_calls s' = dr_calls s"
    "dr_verify s' = dr_verify s" "dr_create s' = dr_create s" "lead_uuids s' = lead_uuids s"
  using keepsD [OF assms] by (simp_all add: kept_def)

definition settled_row :: "gmail_outcome \<Rightarrow> string option \<Rightarrow> int \<Rightarrow> gmail_draft \<Rightarrow> gmail_draft" where
  "settled_row oc ec now r = r\<lparr>gd_outcome := gmail_outcome_str oc, gd_errorClass := ec, gd_completedAt := Some now\<rparr>"

text \<open>What the end of a call leaves: its outcome, the row it settles, and the lead, moved while approved.\<close>

lemma gmail_terminal_Inr:
  assumes "gmail_terminal i runId oc route ec reserved s = (Inr r, s')"
  shows "go_outcome r = oc" "status_of s' (gi_leadId i) = moved route (status_of s (gi_leadId i))"
    "dr_requests s' = dr_requests s" "dr_calls s' = dr_calls s" "dr_verify s' = dr_verify s"
    "\<exists>now. t_gmail_drafts s' = (case fact reserved of None \<Rightarrow> t_gmail_drafts s
      | Some rid \<Rightarrow> if rid = [] then t_gmail_drafts s
          else update_where (\<lambda>r. gd_id r = rid) (settled_row oc ec now) (t_gmail_drafts s))"
proof -
  let ?settle = "case fact reserved of None \<Rightarrow> return_p ()
    | Some rid \<Rightarrow> bind_p readClock (\<lambda>now. completeRun rid (settled_row oc ec now))"
  let ?move = "case route of None \<Rightarrow> return_p () | Some dst \<Rightarrow> transition_if_approved (gi_leadId i) dst"
  obtain u1 u2 u3 s1 s2 where r: "r = \<lparr>go_leadId = gi_leadId i, go_outcome = oc, go_draftId = None\<rparr>"
    and s1: "?settle s = (Inr u1, s1)" and s2: "?move s1 = (Inr u2, s2)"
    and s3: "record_event (gmail_note (gi_leadId i) runId (''gmail: '' @ gmail_outcome_str oc)
         (JObj [(''outcome'', JStr (gmail_outcome_str oc)), (''errorClass'', jopt ec)])) s2 = (Inr u3, s')"
    using assms unfolding gmail_terminal_def settled_row_def [abs_def] by (auto simp: prog_simps)
  have kept: "keeps kept ?move"
    by (intro kept.keeps_option kept.keeps_return kept_parts)
  note k2 = keptD [OF kept s2] and k3 = keptD [OF kept_record_event s3]
  have one: "\<exists>now. s1 = (case fact reserved of None \<Rightarrow> s
      | Some rid \<Rightarrow> s\<lparr>lead_ticks := Suc (lead_ticks s), t_gmail_drafts := (if rid = [] then t_gmail_drafts s
          else update_where (\<lambda>r. gd_id r = rid) (settled_row oc ec now) (t_gmail_drafts s))\<rparr>)"
    using s1 by (cases "fact reserved")
      (auto simp: prog_simps readClock_def dest!: completeRun_Inr intro!: exI [of _ "lead_clock s (lead_ticks s)"])
  show "go_outcome r = oc"
    by (simp add: r)
  have "status_of s1 (gi_leadId i) = status_of s (gi_leadId i)"
    using one by (auto simp: status_of_def lead_of_def split: option.splits)
  moreover have "status_of s2 (gi_leadId i) = moved route (status_of s1 (gi_leadId i))"
    using s2 by (cases route) (auto simp: moved_def dest: transition_if_approved_Inr)
  ultimately show "status_of s' (gi_leadId i) = moved route (status_of s (gi_leadId i))"
    using record_event_leads [OF s3] by simp
  show "dr_requests s' = dr_requests s" "dr_calls s' = dr_calls s" "dr_verify s' = dr_verify s"
    using one k2 k3 by (auto split: option.splits)
  show "\<exists>now. t_gmail_drafts s' = (case fact reserved of None \<Rightarrow> t_gmail_drafts s
      | Some rid \<Rightarrow> if rid = [] then t_gmail_drafts s
          else update_where (\<lambda>r. gd_id r = rid) (settled_row oc ec now) (t_gmail_drafts s))"
    using one k2 k3 by (auto split: option.splits)
qed

definition created_row :: "draft_ref \<Rightarrow> int \<Rightarrow> gmail_draft \<Rightarrow> gmail_draft" where
  "created_row ref now r = r\<lparr>gd_outcome := ''DRAFT_CREATED'', gd_providerDraftId := Some (df_draftId ref),
     gd_messageId := df_messageId ref, gd_threadId := df_threadId ref, gd_errorClass := None,
     gd_completedAt := Some now\<rparr>"

lemma gmail_finish_Inr:
  assumes "gmail_finish i runId rid ref s = (Inr r, s')"
  shows "r = \<lparr>go_leadId = gi_leadId i, go_outcome = GO_DRAFT_CREATED, go_draftId = Some (df_draftId ref)\<rparr>"
    "status_of s' (gi_leadId i) = moved (Some DRAFT_CREATED) (status_of s (gi_leadId i))"
    "dr_requests s' = dr_requests s"
    "\<exists>now. t_gmail_drafts s' = (if rid = [] then t_gmail_drafts s
          else update_where (\<lambda>r. gd_id r = rid) (created_row ref now) (t_gmail_drafts s))"
proof -
  obtain u1 u2 u3 now s0 s1 s2 where r: "r = \<lparr>go_leadId = gi_leadId i, go_outcome = GO_DRAFT_CREATED,
      go_draftId = Some (df_draftId ref)\<rparr>"
    and s0: "readClock s = (Inr now, s0)" and s1: "completeRun rid (created_row ref now) s0 = (Inr u1, s1)"
    and s2: "transition_if_approved (gi_leadId i) DRAFT_CREATED s1 = (Inr u2, s2)"
    and s3: "record_event (gmail_note (gi_leadId i) runId ''gmail: DRAFT_CREATED''
         (JObj [(''draftId'', JStr (df_draftId ref)), (''threadId'', jopt (df_threadId ref))])) s2 = (Inr u3, s')"
    using assms unfolding gmail_finish_def created_row_def [abs_def] by (auto simp: prog_simps)
  note k2 = keptD [OF kept_transition_if_approved s2] and k3 = keptD [OF kept_record_event s3]
  have one: "s1 = s0\<lparr>t_gmail_drafts := (if rid = [] then t_gmail_drafts s
      else update_where (\<lambda>r. gd_id r = rid) (created_row ref now) (t_gmail_drafts s))\<rparr>"
    using completeRun_Inr [OF s1] s0 by (auto simp: readClock_def)
  then have "status_of s1 (gi_leadId i) = status_of s (gi_leadId i)"
    using s0 by (auto simp: status_of_def lead_of_def readClock_def)
  then show "status_of s' (gi_leadId i) = moved (Some DRAFT_CREATED) (status_of s (gi_leadId i))"
    using record_event_leads [OF s3] transition_if_approved_Inr [OF s2] by simp
  show "r = \<lparr>go_leadId = gi_leadId i, go_outcome = GO_DRAFT_CREATED, go_draftId = Some (df_draftId ref)\<rparr>"
    by (rule r)
  show "dr_requests s' = dr_requests s"
    using one k2 k3 s0 by (auto simp: readClock_def)
  show "\<exists>now. t_gmail_drafts s' = (if rid = [] then t_gmail_drafts s
          else update_where (\<lambda>r. gd_id r = rid) (created_row ref now) (t_gmail_drafts s))"
    using one k2 k3 by (intro exI [of _ now]) simp
qed

text \<open>The outcomes of a call that asked the provider and may be asked about again.\<close>

definition asked_outcome :: "gmail_outcome \<Rightarrow> bool" where
  "asked_outcome oc \<longleftrightarrow> oc \<in> {GO_DRAFT_CREATED, GO_RATE_LIMITED, GO_TRANSIENT_ERROR}"

lemma terminal_not_asked:
  "gmail_terminal i runId oc route ec reserved s = (Inr r, s') \<Longrightarrow> \<not> asked_outcome oc \<Longrightarrow> \<not> asked_outcome (go_outcome r)"
  using gmail_terminal_Inr(1) by fastforce

lemma create_new_asked:
  assumes "create_new c i runId f sender body fp now s = (Inr r, s')" and "asked_outcome (go_outcome r)"
  shows "reserved_by fp s = None" "reserve_and_create c i runId f sender body fp now s = (Inr r, s')"
proof -
  have no: "\<not> gmail_terminal i runId oc route ec reserved s = (Inr r, s')" if "\<not> asked_outcome oc" for oc route ec reserved
    using assms(2) terminal_not_asked that by blast
  show "reserved_by fp s = None"
    using assms(1) no
    by (cases "reserved_by fp s")
       (auto simp: create_new_def findReservedByFingerprint_def bind_p_def asked_outcome_def split: if_splits)
  then show "reserve_and_create c i runId f sender body fp now s = (Inr r, s')"
    using assms(1) no
    by (auto simp: create_new_def findReservedByFingerprint_def draftsToday_def lastAttemptAt_def bind_p_def
        asked_outcome_def split: if_splits)
qed

lemma gmail_verify_Inr:
  "gmail_verify s = (Inr v, s') \<longleftrightarrow> dr_verify s (dr_calls s) = Verified v \<and> s' = s\<lparr>dr_calls := Suc (dr_calls s)\<rparr>"
  by (auto simp: gmail_verify_def Let_def split: verify_answer.splits)

lemma create_eligible_asked:
  assumes run: "create_eligible c i runId f fp now s = (Inr r, s')" and asked: "asked_outcome (go_outcome r)"
  obtains sender where "fact (gc_senderName c) = Some sender"
    "\<not> hasUnresolvedTokens (resolveSenderName (gf_resolvedBody f) sender)"
    "create_new c i runId f sender (resolveSenderName (gf_resolvedBody f) sender) fp now
       (s\<lparr>dr_calls := Suc (dr_calls s)\<rparr>) = (Inr r, s')"
proof -
  have no: "\<not> gmail_terminal i runId oc route ec reserved t = (Inr r, s')" if "\<not> asked_outcome oc" for oc route ec reserved t
    using asked terminal_not_asked that by blast
  obtain sender where sender: "fact (gc_senderName c) = Some sender"
    using run no by (cases "fact (gc_senderName c)") (auto simp: create_eligible_def asked_outcome_def)
  have body: "\<not> hasUnresolvedTokens (resolveSenderName (gf_resolvedBody f) sender)"
    using run no sender by (auto simp: create_eligible_def asked_outcome_def Let_def split: if_splits)
  then obtain v s1 where "gmail_verify s = (Inr v, s1)"
    and "(if aa_email v \<noteq> None \<and> aa_email v \<noteq> Some (gc_gmailAccount c)
          then gmail_terminal i runId GO_ACCOUNT_MISMATCH (Some NEEDS_MANUAL_REVIEW) (Some ''account_mismatch'') None
          else if \<not> aa_ok v \<or> aa_email v = None
          then gmail_terminal i runId GO_AUTH_ERROR (Some NEEDS_MANUAL_REVIEW) (Some ''account_verification_failed'') None
          else create_new c i runId f sender (resolveSenderName (gf_resolvedBody f) sender) fp now) s1 = (Inr r, s')"
    using run sender by (auto simp: create_eligible_def Let_def elim: bind_p_InrE)
  then have "create_new c i runId f sender (resolveSenderName (gf_resolvedBody f) sender) fp now
       (s\<lparr>dr_calls := Suc (dr_calls s)\<rparr>) = (Inr r, s')"
    using no by (auto simp: gmail_verify_Inr asked_outcome_def split: if_splits)
  then show thesis
    using sender body that by blast
qed

lemma createDraft_asked:
  assumes run: "createDraft sha c i runId s = (Inr r, s')" and asked: "asked_outcome (go_outcome r)"
  obtains f sender s1 now where "gi_finalization i = Some f" "gmail_reasons (gmail_snapshot_of c i False) = []"
    "fact (gc_senderName c) = Some sender" "\<not> hasUnresolvedTokens (resolveSenderName (gf_resolvedBody f) sender)"
    "s1 = s\<lparr>lead_ticks := Suc (lead_ticks s), dr_calls := Suc (dr_calls s)\<rparr>"
    "reserved_by (draft_fingerprint sha c i) s1 = None"
    "reserve_and_create c i runId f sender (resolveSenderName (gf_resolvedBody f) sender)
       (draft_fingerprint sha c i) now s1 = (Inr r, s')"
proof -
  let ?s0 = "s\<lparr>lead_ticks := Suc (lead_ticks s)\<rparr>"
  let ?now = "lead_clock s (lead_ticks s)"
  let ?fp = "draft_fingerprint sha c i"
  let ?ex = "list_ex (\<lambda>r. gd_gmailAccount r = gc_gmailAccount c
     \<and> gd_idempotencyFingerprint r = ?fp \<and> gd_outcome r = ''DRAFT_CREATED'') (t_gmail_drafts s)"
  have no: "\<not> gmail_terminal i runId oc route ec reserved t = (Inr r, s')" if "\<not> asked_outcome oc" for oc route ec reserved t
    using asked terminal_not_asked that by blast
  have ref: "\<not> asked_outcome (refused_outcome rs)" for rs
    by (simp add: refused_outcome_def asked_outcome_def)
  note run' = run [unfolded createDraft_def existingByFingerprint_def readClock_def bind_p_def Let_def, simplified]
  have ex: "\<not> ?ex"
    using run' no by (auto simp: checkGmailEligibility_def gmail_snapshot_of_def asked_outcome_def)
  then have reasons: "gmail_reasons (gmail_snapshot_of c i False) = []"
    using run' no ref
    by (auto simp: checkGmailEligibility_def gmail_snapshot_of_def split: if_splits)
  then obtain f where f: "gi_finalization i = Some f"
    by (cases "gi_finalization i") (auto simp: gmail_reasons_def gmail_snapshot_of_def finalization_reasons_def)
  then have "create_eligible c i runId f ?fp ?now ?s0 = (Inr r, s')"
    using run' ex reasons by (simp add: checkGmailEligibility_def gmail_snapshot_of_def)
  then obtain sender where "fact (gc_senderName c) = Some sender"
    "\<not> hasUnresolvedTokens (resolveSenderName (gf_resolvedBody f) sender)"
    and new: "create_new c i runId f sender (resolveSenderName (gf_resolvedBody f) sender) ?fp ?now
       (?s0\<lparr>dr_calls := Suc (dr_calls ?s0)\<rparr>) = (Inr r, s')"
    using asked by (rule create_eligible_asked)
  then show thesis
    using create_new_asked [OF new asked] f reasons by (intro that [of f sender]) auto
qed

lemma conclude_create_Inr:
  assumes "conclude_create i runId rid answer s = (Inr r, s')"
  obtains (created) ref where "gmail_finish i runId rid ref s = (Inr r, s')"
  | (failed) oc route ec where "oc \<noteq> GO_DRAFT_CREATED"
      "route \<noteq> None \<longrightarrow> oc \<noteq> GO_RATE_LIMITED \<and> oc \<noteq> GO_TRANSIENT_ERROR"
      "gmail_terminal i runId oc route ec (Some rid) s = (Inr r, s')"
proof -
  obtain a ref why where answer: "answer = (a, ref, why)" by (cases answer) auto
  show thesis
    using assms
    by (cases a; cases ref) (auto simp: conclude_create_def answer intro: created failed)
qed

lemma fact_Some: "fact (Some x) = (if x = [] then None else Some x)"
  by (cases x) (simp_all add: fact_def)

text \<open>What is left of the reservation: a created row with the draft of the provider, or a settled one.\<close>

definition left_row :: "gmail_result \<Rightarrow> string \<Rightarrow> gmail_draft \<Rightarrow> gmail_draft \<Rightarrow> bool" where
  "left_row r rid row row' \<longleftrightarrow>
     (if go_outcome r = GO_DRAFT_CREATED
      then \<exists>ref now. go_draftId r = Some (df_draftId ref) \<and> row' = (if rid = [] then row else created_row ref now row)
      else \<exists>ec now. row' = (if rid = [] then row else settled_row (go_outcome r) ec now row))"

lemma update_last:
  assumes "gd_id row \<notin> gd_id ` set rows"
  shows "update_where (\<lambda>r. gd_id r = gd_id row) g (rows @ [row]) = rows @ [g row]"
proof -
  have "update_where (\<lambda>r. gd_id r = gd_id row) g rows = rows"
    by (rule update_where_none) (metis assms image_eqI)
  then show ?thesis by simp
qed

lemma reserve_asked:
  fixes s :: "'a gmail_db_scheme"
  defines "rid \<equiv> lead_uuids s (lead_drawn s)"
  assumes run: "reserve_and_create c i runId f sender body fp now s = (Inr r, s')"
  obtains row' where "draft_key (reservation c i f fp rid now) \<notin> draft_keys s"
    "dr_requests s' = dr_requests s @ [\<lparr>cr_raw = buildRawMessage (draft_mail c i sender body),
       cr_fingerprint = fp, cr_threadId = gi_threadId i\<rparr>]"
    "t_gmail_drafts s' = t_gmail_drafts s @ [row']" "left_row r rid (reservation c i f fp rid now) row'"
    "status_of s' (gi_leadId i) = status_of s (gi_leadId i)
      \<or> go_outcome r \<noteq> GO_RATE_LIMITED \<and> go_outcome r \<noteq> GO_TRANSIENT_ERROR"
    "go_outcome r = GO_DRAFT_CREATED \<longrightarrow>
      status_of s' (gi_leadId i) = moved (Some DRAFT_CREATED) (status_of s (gi_leadId i))"
  using run
proof (cases rule: reserve_and_create_cases)
  case (refused e)
  then show thesis by simp
next
  case (asked rid' s1)
  let ?row = "reservation c i f fp rid now"
  let ?q = "\<lparr>cr_raw = buildRawMessage (draft_mail c i sender body), cr_fingerprint = fp, cr_threadId = gi_threadId i\<rparr>"
  let ?s2 = "s1\<lparr>dr_calls := Suc (dr_calls s), dr_requests := dr_requests s @ [?q]\<rparr>"
  have rid': "rid' = rid"
    using asked(1) by (simp add: rid_def)
  note res = reserveRun_Inr [OF asked(2) [unfolded rid']]
  have key: "draft_key ?row \<notin> draft_keys s" and id: "gd_id ?row \<notin> gd_id ` set (t_gmail_drafts s)"
    and s1: "t_gmail_drafts s1 = t_gmail_drafts s @ [?row]" "status_of s1 lid = status_of s lid" for lid
    using res by (simp_all add: draft_keys_def status_of_def lead_of_def)
  have gid: "gd_id ?row = rid"
    by (simp add: reservation_def)
  obtain a ref why where "dr_create s (dr_calls s) = Answer a ref why"
    using asked(3) by (cases "dr_create s (dr_calls s)") auto
  then have "conclude_create i runId rid (a, ref, why) ?s2 = (Inr r, s')"
    using asked(3) rid' by simp
  then show thesis
  proof (cases rule: conclude_create_Inr)
    case (created ref)
    note fin = gmail_finish_Inr [OF created]
    obtain t where t: "t_gmail_drafts s' = (if rid = [] then t_gmail_drafts ?s2
          else update_where (\<lambda>r. gd_id r = rid) (created_row ref t) (t_gmail_drafts ?s2))"
      using fin(4) by blast
    show thesis
    proof (rule that [OF key])
      show "t_gmail_drafts s' = t_gmail_drafts s @ [if rid = [] then ?row else created_row ref t ?row]"
        using update_last [OF id, of "created_row ref t"] t s1(1) by (simp add: gid)
      show "left_row r rid ?row (if rid = [] then ?row else created_row ref t ?row)"
        unfolding left_row_def using fin(1) by auto
    qed (use fin s1 in \<open>auto simp: status_of_def lead_of_def\<close>)
  next
    case (failed oc route ec)
    note ter = gmail_terminal_Inr [OF failed(3)]
    obtain t where t: "t_gmail_drafts s' = (case fact (Some rid) of None \<Rightarrow> t_gmail_drafts ?s2
      | Some rid \<Rightarrow> if rid = [] then t_gmail_drafts ?s2
          else update_where (\<lambda>r. gd_id r = rid) (settled_row oc ec t) (t_gmail_drafts ?s2))"
      using ter(6) by blast
    have oc: "go_outcome r \<noteq> GO_DRAFT_CREATED"
      using ter(1) failed(1) by simp
    show thesis
    proof (rule that [OF key])
      show "t_gmail_drafts s' = t_gmail_drafts s @ [if rid = [] then ?row else settled_row oc ec t ?row]"
        using update_last [OF id, of "settled_row oc ec t"] t s1(1) by (simp add: gid fact_Some)
      show "left_row r rid ?row (if rid = [] then ?row else settled_row oc ec t ?row)"
        unfolding left_row_def using oc ter(1) by auto
      show "status_of s' (gi_leadId i) = status_of s (gi_leadId i)
        \<or> go_outcome r \<noteq> GO_RATE_LIMITED \<and> go_outcome r \<noteq> GO_TRANSIENT_ERROR"
        using ter(1,2) failed(2) s1(2) by (cases route) (auto simp: moved_def status_of_def lead_of_def)
    qed (use ter oc in auto)
  qed
qed

text \<open>C12: a call that reports a created draft asked the provider once, for the message that carries the
  approved copy with the sender's name filled in, from the configured account to the recipient and in the
  thread of the input; the gate was open: the lead approved, the copy approved by a human, no token left,
  the recipient an address, the switches on. The draft's identifier is recorded with the copy it came from,
  and the lead is no longer waiting to be drafted.\<close>

theorem created_draft_exact:
  assumes "createDraft sha c i runId s = (Inr r, s')" and "go_outcome r = GO_DRAFT_CREATED"
    and "\<forall>n. lead_uuids s n \<noteq> []"
  shows "\<exists>f sender a did row.
    gi_finalization i = Some f \<and> gf_finalHumanDecision f = Some ''APPROVED'' \<and> gi_leadStatus i = HUMAN_APPROVED
    \<and> gc_featureEnabled c \<and> gc_draftActionsEnabled c \<and> gc_credentialsConfigured c
    \<and> gi_recipientEmail i = Some a \<and> valid_email a \<and> gc_senderName c = Some sender
    \<and> \<not> hasUnresolvedTokens (resolveSenderName (gf_resolvedBody f) sender)
    \<and> dr_requests s' = dr_requests s @ [\<lparr>cr_raw = buildRawMessage \<lparr>mi_fromName = sender,
         mi_fromEmail = gc_gmailAccount c, mi_toEmail = a, mi_subject = gi_subject i,
         mi_body = resolveSenderName (gf_resolvedBody f) sender\<rparr>,
         cr_fingerprint = sha (gc_gmailAccount c @ ''|'' @ gf_id f @ ''|'' @ a), cr_threadId = gi_threadId i\<rparr>]
    \<and> go_draftId r = Some did \<and> t_gmail_drafts s' = t_gmail_drafts s @ [row]
    \<and> gd_outcome row = ''DRAFT_CREATED'' \<and> gd_providerDraftId row = Some did \<and> gd_recipientEmail row = a
    \<and> gd_finalizedEmailId row = Some (gf_id f) \<and> gd_sourceEmailVersion row = gf_resolvedBodyHash f
    \<and> status_of s' (gi_leadId i) \<noteq> Some HUMAN_APPROVED"
proof -
  have asked: "asked_outcome (go_outcome r)"
    using assms(2) by (simp add: asked_outcome_def)
  obtain f sender s1 now where f: "gi_finalization i = Some f"
    and gate: "gmail_reasons (gmail_snapshot_of c i False) = []"
    and sender: "fact (gc_senderName c) = Some sender"
    and body: "\<not> hasUnresolvedTokens (resolveSenderName (gf_resolvedBody f) sender)"
    and s1: "s1 = s\<lparr>lead_ticks := Suc (lead_ticks s), dr_calls := Suc (dr_calls s)\<rparr>"
    and run: "reserve_and_create c i runId f sender (resolveSenderName (gf_resolvedBody f) sender)
       (draft_fingerprint sha c i) now s1 = (Inr r, s')"
    by (rule createDraft_asked [OF assms(1) asked])
  obtain a where a: "gi_recipientEmail i = Some a" "a \<noteq> []" "valid_email a"
    using gate by (auto simp: gmail_reasons_def gmail_snapshot_of_def recipient_reasons_Nil)
  have g: "gf_finalHumanDecision f = Some ''APPROVED''" "gi_leadStatus i = HUMAN_APPROVED" "gc_featureEnabled c"
    "gc_draftActionsEnabled c" "gc_credentialsConfigured c"
    using gate f by (auto simp: gmail_reasons_def gmail_snapshot_of_def finalization_reasons_def split: if_splits)
  have name: "gc_senderName c = Some sender"
    using sender by (cases "gc_senderName c") (auto simp: fact_Some fact_def split: if_splits)
  obtain row where row: "dr_requests s' = dr_requests s1 @ [\<lparr>cr_raw = buildRawMessage (draft_mail c i sender
        (resolveSenderName (gf_resolvedBody f) sender)), cr_fingerprint = draft_fingerprint sha c i,
        cr_threadId = gi_threadId i\<rparr>]" "t_gmail_drafts s' = t_gmail_drafts s1 @ [row]"
      "left_row r (lead_uuids s1 (lead_drawn s1)) (reservation c i f (draft_fingerprint sha c i)
        (lead_uuids s1 (lead_drawn s1)) now) row"
      "status_of s' (gi_leadId i) = moved (Some DRAFT_CREATED) (status_of s1 (gi_leadId i))"
    by (rule reserve_asked [OF run]) (use assms(2) in blast)
  have "lead_uuids s1 (lead_drawn s1) \<noteq> []"
    using assms(3) by (simp add: s1)
  then obtain ref t where did: "go_draftId r = Some (df_draftId ref)"
    and r: "row = created_row ref t (reservation c i f (draft_fingerprint sha c i) (lead_uuids s1 (lead_drawn s1)) now)"
    using row(3) assms(2) by (auto simp: left_row_def)
  have mail: "draft_mail c i sender (resolveSenderName (gf_resolvedBody f) sender) = \<lparr>mi_fromName = sender,
         mi_fromEmail = gc_gmailAccount c, mi_toEmail = a, mi_subject = gi_subject i,
         mi_body = resolveSenderName (gf_resolvedBody f) sender\<rparr>"
    by (simp add: draft_mail_def a text_of_def)
  have fp: "draft_fingerprint sha c i = sha (gc_gmailAccount c @ ''|'' @ gf_id f @ ''|'' @ a)"
    using a by (simp add: draft_fingerprint_def f fact_Some)
  show ?thesis
    by (rule exI [of _ f], rule exI [of _ sender], rule exI [of _ a], rule exI [of _ "df_draftId ref"], rule exI [of _ row])
       (use f g a body name did row(1,2,4) mail fp in \<open>simp add: r created_row_def reservation_def text_of_def s1 moved_def\<close>)
qed

section \<open>An attempt whose end is unknown\<close>


section \<open>The run\<close>

text \<open>A call asks at most once.\<close>

definition asks_once :: "'a gmail_db_scheme \<Rightarrow> 'a gmail_db_scheme \<Rightarrow> bool" where
  "asks_once s s' \<longleftrightarrow> length (dr_requests s') \<le> Suc (length (dr_requests s))"

lemma createDraft_asks_once:
  fixes s :: "'a gmail_db_scheme"
  shows "asks_once s (snd (createDraft sha c i runId s))"
proof -
  have settled: "asks_once s s'" if "settled_only s s'" for s s' :: "'a gmail_db_scheme"
    using that by (simp add: asks_once_def settled_only_def)
  have before: "asks_once s u" if "settled_only s t" "asks_once t u" for s t u :: "'a gmail_db_scheme"
    using that by (simp add: asks_once_def settled_only_def)
  have seq: "asks_once s (snd (bind_p p g s))" if "keeps settled_only p" "\<And>x t. asks_once t (snd (g x t))"
    for p :: "('a gmail_db_scheme, 'b) prog" and g :: "'b \<Rightarrow> ('a gmail_db_scheme, 'c) prog" and s
    using that keepsD [OF that(1)] before settled
    by (auto simp: bind_p_def split: prod.splits sum.splits) (metis snd_conv)+
  have fin: "asks_once t (snd (gmail_terminal i runId oc route ec reserved t))"
    for oc route ec reserved and t :: "'a gmail_db_scheme"
    using settled_terminal settled unfolding keeps_def by blast
  have res: "asks_once t (snd (reserve_and_create c i runId f sender body fp now t))"
    for f sender body fp now and t :: "'a gmail_db_scheme"
  proof -
    obtain x t' where run: "reserve_and_create c i runId f sender body fp now t = (x, t')" by fastforce
    then have "asks_once t t'"
    proof (cases rule: reserve_and_create_cases)
      case (refused e)
      then show ?thesis by (rule_tac settled)
    next
      case (asked rid s1)
      then have "settled_only (s1\<lparr>dr_calls := Suc (dr_calls t), dr_requests := dr_requests t
            @ [\<lparr>cr_raw = buildRawMessage (draft_mail c i sender body), cr_fingerprint = fp,
                 cr_threadId = gi_threadId i\<rparr>]\<rparr>) t'"
        using keepsD [OF settled_conclude] settled.refl by (auto split: create_answer.splits)
      then show ?thesis
        by (simp add: asks_once_def settled_only_def)
    qed
    then show ?thesis
      by (simp add: run)
  qed
  have new: "asks_once t (snd (create_new c i runId f sender body fp now t))"
    for f sender body fp now and t :: "'a gmail_db_scheme"
    unfolding create_new_def by (intro seq settled_reads) (auto intro!: seq settled_reads fin res split: option.splits)
  have el: "asks_once t (snd (create_eligible c i runId f fp now t))"
    for f fp now and t :: "'a gmail_db_scheme"
    unfolding create_eligible_def Let_def
    by (auto intro!: seq settled_verify fin new split: option.splits)
  have none: "asks_once t (snd (throw_p e t))" for e and t :: "'a gmail_db_scheme"
    by (simp add: asks_once_def)
  show ?thesis
    unfolding createDraft_def Let_def
    by (intro seq settled_reads kept_settled [OF kept_base(1)])
       (auto simp del: throw_p_eq intro!: seq settled_reads fin el none split: option.splits)
qed

lemma draft_each_asks: "length (dr_requests (snd (draft_each sha c runId ls acc s))) \<le> length (dr_requests s) + length ls"
proof (induction ls arbitrary: acc s)
  case (Cons l ls)
  obtain x s1 where run: "createDraft sha c (gmail_input_of l s) runId s = (x, s1)" by fastforce
  then have "length (dr_requests s1) \<le> Suc (length (dr_requests s))"
    using createDraft_asks_once [of s sha c "gmail_input_of l s" runId] by (simp add: asks_once_def)
  moreover have "length (dr_requests (snd (draft_each sha c runId ls acc' s1)))
      \<le> length (dr_requests s1) + length ls" for acc'
    by (rule Cons.IH)
  then have "length (dr_requests (snd (draft_each sha c runId (l # ls) acc s))) \<le> length (dr_requests s1) + length ls"
    using run by (cases x) (simp_all add: bind_p_def)
  ultimately show ?case
    by simp
qed simp

lemma slice_to_length: "length (slice_to (Some k) xs) \<le> nat k" if "0 \<le> k"
  using that by (simp add: slice_to_def)

text \<open>A run asks the provider for at most its configured number of drafts, and with either switch off
  it changes nothing.\<close>

theorem draft_run_bounded:
  assumes "0 \<le> maxPerRun" and "createGmailDraftsCommand sha c maxPerRun limitOpt s = (x, s')"
  shows "length (dr_requests s') \<le> length (dr_requests s) + nat maxPerRun
    \<and> (gc_featureEnabled c \<and> gc_draftActionsEnabled c \<or> s' = s)"
proof (cases "gc_featureEnabled c \<and> gc_draftActionsEnabled c")
  case True
  let ?ls = "\<lambda>all. leads_to_draft maxPerRun limitOpt all"
  obtain y s1 where start: "startRun s = (y, s1)" by fastforce
  note same = keptD(2) [OF kept_startRun start]
  have bound: "length (?ls all) \<le> nat maxPerRun" for all
    unfolding leads_to_draft_def Let_def by (rule slice_to_length [OF assms(1)])
  have "length (dr_requests s') \<le> length (dr_requests s) + nat maxPerRun"
  proof (cases y)
    case (Inl e)
    then have "s' = s1"
      using assms(2) True start by (simp add: createGmailDraftsCommand_def list_leads_def bind_p_def)
    then show ?thesis
      using same by simp
  next
    case (Inr rid)
    then obtain all where "draft_each sha c rid (?ls all) [] s1 = (x, s')"
      using assms(2) True start by (auto simp: createGmailDraftsCommand_def list_leads_def bind_p_def)
    then have "length (dr_requests s') \<le> length (dr_requests s1) + length (?ls all)"
      using draft_each_asks [of sha c rid "?ls all" "[]" s1] by simp
    then show ?thesis
      using same bound [of all] by simp
  qed
  then show ?thesis
    using True by blast
next
  case False
  then show ?thesis
    using assms(2) by (auto simp: createGmailDraftsCommand_def)
qed

section \<open>Examples\<close>

definition demo_approved :: finalization where
  "demo_approved = \<lparr>fn_id = ''f'', fn_leadId = ''l'', fn_resolvedBody = ''B'', fn_resolvedBodyHash = ''h'',
     fn_finalHumanDecision = Some ''APPROVED'', fn_finalReviewedAt = Some 10, fn_subject = ''S'',
     fn_originalDraftId = ''e'', fn_sequenceStep = 0, fn_outreachRecordId = None,
     fn_deploymentRunId = None, fn_verifiedDeploymentUrl = None, fn_originalBodyHash = ''h'', fn_kind = ''REPLY_DIRECT'',
     fn_finalizedAt = 9, fn_finalHumanNotes = None, fn_finalReviewedBy = None, fn_finalReviewedSource = None\<rparr>"

definition demo_gmail :: "create_answer \<Rightarrow> gmail_db" where
  "demo_gmail answer = send_db.extend
     ((demo_send_db (Response SR_ok None None))\<lparr>t_leads := [demo_scheduled_lead\<lparr>ld_status := HUMAN_APPROVED\<rparr>],
        t_gmail_drafts := [], t_finalizations := [demo_approved], lead_uuids := (\<lambda>n. CHR ''u'' # show_nat n)\<rparr>)
     \<lparr>outreach = demo_db, t_campaigns = [], dr_calls = 0,
      dr_verify = (\<lambda>_. Verified \<lparr>aa_ok = True, aa_email = Some ''a@b.c''\<rparr>), dr_create = (\<lambda>_. answer),
      dr_requests = []\<rparr>"

definition demo_gmail_config :: gmail_config where
  "demo_gmail_config = \<lparr>gc_gmailAccount = ''a@b.c'', gc_senderName = Some ''N'', gc_featureEnabled = True,
     gc_draftActionsEnabled = True, gc_credentialsConfigured = True, gc_maxPerDay = 2, gc_minIntervalMs = 0,
     gc_providerName = ''mock''\<rparr>"

definition demo_gmail_input :: gmail_input where
  "demo_gmail_input = \<lparr>gi_leadId = ''l'', gi_leadStatus = HUMAN_APPROVED,
     gi_finalization = Some \<lparr>gf_id = ''f'', gf_resolvedBody = ''B'', gf_resolvedBodyHash = ''h'',
       gf_finalHumanDecision = Some ''APPROVED''\<rparr>,
     gi_subject = ''S'', gi_recipientEmail = Some ''r@b.c'', gi_threadId = None\<rparr>"

definition demo_draft_call :: "gmail_db \<Rightarrow> gmail_outcome option \<times> gmail_db" where
  "demo_draft_call s = (case createDraft demo_digest demo_gmail_config demo_gmail_input ''run'' s of
     (Inr r, s') \<Rightarrow> (Some (go_outcome r), s') | (Inl _, s') \<Rightarrow> (None, s'))"

text \<open>The provider has been asked \<open>q\<close>, whatever the message was.\<close>

definition demo_asked :: "create_answer \<Rightarrow> create_request \<Rightarrow> gmail_db" where
  "demo_asked answer q = (demo_gmail answer)\<lparr>lead_ticks := Suc 0, lead_drawn := Suc 0, dr_calls := Suc (Suc 0),
     t_gmail_drafts := [reservation demo_gmail_config demo_gmail_input \<lparr>gf_id = ''f'', gf_resolvedBody = ''B'',
       gf_resolvedBodyHash = ''h'', gf_finalHumanDecision = Some ''APPROVED''\<rparr> ''h'' ''u0'' 1000], dr_requests := [q]\<rparr>"

lemma demo_gate: "gmail_reasons (gmail_snapshot_of demo_gmail_config demo_gmail_input False) = []"
  "\<not> hasUnresolvedTokens (resolveSenderName ''B'' ''N'')"
  by code_simp+

definition demo_request :: create_request where
  "demo_request = \<lparr>cr_raw = buildRawMessage (draft_mail demo_gmail_config demo_gmail_input ''N''
     (resolveSenderName ''B'' ''N'')), cr_fingerprint = ''h'', cr_threadId = None\<rparr>"

lemma demo_show: "show_nat 0 = ''0''"
  by code_simp

lemma demo_draft_run:
  "createDraft demo_digest demo_gmail_config demo_gmail_input ''run'' (demo_gmail (Answer a ref why))
   = conclude_create demo_gmail_input ''run'' ''u0'' (a, ref, why) (demo_asked (Answer a ref why) demo_request)"
  using demo_gate
  by (simp add: createDraft_def Let_def bind_p_def then_p_def readClock_def existingByFingerprint_def checkGmailEligibility_def
      create_eligible_def create_new_def gmail_verify_def findReservedByFingerprint_def reserved_by_def
      draftsToday_def lastAttemptAt_def reserve_and_create_def newUUID_def reserveRun_def drafts_violation_def
      provider_createDraft_def demo_asked_def demo_gmail_def demo_send_db_def demo_gmail_config_def
      demo_gmail_input_def gmail_snapshot_of_def draft_fingerprint_def demo_digest_def fact_Some
      send_db.defs reservation_def demo_approved_def lead_exists_def demo_scheduled_lead_def provider_key_def
      demo_show text_of_def draft_mail_def demo_request_def)

definition demo_ref :: draft_ref where
  "demo_ref = \<lparr>df_draftId = ''pd'', df_messageId = None, df_threadId = None\<rparr>"

lemma demo_created:
  "(case conclude_create demo_gmail_input ''run'' ''u0'' (CC_ok, Some demo_ref, None)
      (demo_asked (Answer CC_ok (Some demo_ref) None) q) of
     (Inr r, s') \<Rightarrow> Some (go_outcome r, length (dr_requests s')) | (Inl e, s') \<Rightarrow> None) = Some (GO_DRAFT_CREATED, 1)"
  by code_simp

theorem created_draft_exact_witness:
  "\<exists>s' :: gmail_db. length (dr_requests s') = 1 \<and> status_of s' ''l'' \<noteq> Some HUMAN_APPROVED"
proof -
  let ?s = "demo_gmail (Answer CC_ok (Some demo_ref) None)"
  obtain r s' where run: "createDraft demo_digest demo_gmail_config demo_gmail_input ''run'' ?s = (Inr r, s')"
    and r: "go_outcome r = GO_DRAFT_CREATED" "length (dr_requests s') = 1"
    using demo_created [of demo_request] by (auto simp: demo_draft_run split: prod.splits sum.splits)
  have "\<forall>n. lead_uuids ?s n \<noteq> []"
    by (simp add: demo_gmail_def demo_send_db_def send_db.defs)
  from created_draft_exact [OF run r(1) this] have "status_of s' (gi_leadId demo_gmail_input) \<noteq> Some HUMAN_APPROVED"
    by (elim exE conjE)
  then show ?thesis
    using r(2) by (auto simp: demo_gmail_input_def)
qed

lemma demo_limited:
  "(case conclude_create demo_gmail_input ''run'' ''u0'' (CC_rate_limited, None, None)
      (demo_asked (Answer CC_rate_limited None None) q) of
     (Inr r, s1) \<Rightarrow> (case createDraft demo_digest demo_gmail_config demo_gmail_input ''run'' s1 of
        (Inr r', s2) \<Rightarrow> Some (go_outcome r, dr_verify s1 (dr_calls s1), status_of s2 ''l'') | (Inl e, s2) \<Rightarrow> None)
   | (Inl e, s1) \<Rightarrow> None)
   = Some (GO_RATE_LIMITED, Verified \<lparr>aa_ok = True, aa_email = Some ''a@b.c''\<rparr>, Some NEEDS_MANUAL_REVIEW)"
  by code_simp


theorem draft_run_bounded_witness:
  "\<exists>s' :: gmail_db. length (dr_requests s') \<le> 2 \<and> s' = snd (createGmailDraftsCommand demo_digest demo_gmail_config 2 None
     (demo_gmail (Answer CC_invalid None None)))"
proof -
  obtain x s' where run: "createGmailDraftsCommand demo_digest demo_gmail_config 2 None
     (demo_gmail (Answer CC_invalid None None)) = (x, s')" by fastforce
  from draft_run_bounded [OF _ this] show ?thesis
    using run by (auto simp: demo_gmail_def send_db.defs)
qed

end
