(* ===== verification/Review.thy ===== *)
theory Review
  imports Gmail
begin

text \<open>
  The human review of demos, emails and finalized copies (\<^verbatim>\<open>src/src/domain/review/review-service.ts\<close>,
  \<^verbatim>\<open>persistence/repositories/review.repo.ts\<close>) and the finalization of a reply email
  (\<^verbatim>\<open>domain/email/reply-finalization.ts\<close>, \<^verbatim>\<open>persistence/repositories/reply-finalization.repo.ts\<close>,
  \<^verbatim>\<open>cli/commands/reply-email-finalize.ts\<close>). Printing is left out.
\<close>

section \<open>The tables\<close>

record email_draft =
  ed_id :: string
  ed_leadId :: string
  ed_demoId :: "string option"
  ed_runId :: "string option"
  ed_subject :: string
  ed_body :: string
  ed_ctaKind :: string
  ed_hasDemoUrlPlaceholder :: bool
  ed_status :: string
  ed_writerPromptVersion :: string
  ed_reviewerPromptVersion :: string
  ed_schemaVersion :: string
  ed_rulesVersion :: string
  ed_provider :: string
  ed_requestedWriterModel :: string
  ed_requestedReviewerModel :: string
  ed_writerResponseId :: "string option"
  ed_reviewerResponseId :: "string option"
  ed_reviewerDecision :: "string option"
  ed_fabricationRisk :: "bool option"
  ed_personalizationSupported :: "bool option"
  ed_claimHonest :: "bool option"
  ed_reviewerProblems :: "json option"
  ed_totalCostUsd :: rat
  ed_authorship :: string
  ed_sequenceStep :: int
  ed_outreachRecordId :: "string option"
  ed_humanDecision :: "string option"
  ed_humanNotes :: "string option"
  ed_humanReviewedAt :: "int option"
  ed_humanReviewedBy :: "string option"
  ed_createdAt :: int

record demo_row =
  dm_id :: string
  dm_leadId :: string
  dm_demoDecisionId :: string
  dm_templateId :: string
  dm_templateVersion :: string
  dm_path :: string
  dm_status :: string
  dm_noindexVerified :: bool
  dm_disclosurePresent :: bool
  dm_contentHash :: "string option"
  dm_ctaKind :: "string option"
  dm_factsUsed :: "json option"
  dm_findingRefs :: "json option"
  dm_approvedAt :: "int option"
  dm_approvedBy :: "string option"
  dm_approvalSource :: "string option"
  dm_approvalNotes :: "string option"
  dm_createdAt :: int

record review_db = gmail_db +
  t_email_drafts :: "email_draft list"
  t_demos :: "demo_row list"

datatype human_decision = HD_APPROVED | HD_REJECTED

fun human_decision_str :: "human_decision \<Rightarrow> string" where
  "human_decision_str HD_APPROVED = ''APPROVED''"
| "human_decision_str HD_REJECTED = ''REJECTED''"

datatype review_result = RV_DONE | RV_NOOP_ALREADY | RV_NOT_FOUND | RV_INVALID_STATE

definition latestDemo :: "'a review_db_scheme \<Rightarrow> string \<Rightarrow> demo_row option" where
  "latestDemo s lid = latest_by dm_createdAt (filter (\<lambda>d. dm_leadId d = lid) (t_demos s))"

definition latestEmail :: "'a review_db_scheme \<Rightarrow> string \<Rightarrow> email_draft option" where
  "latestEmail s lid = latest_by ed_createdAt (filter (\<lambda>e. ed_leadId e = lid) (t_email_drafts s))"

definition setDemoDecision ::
  "string \<Rightarrow> human_decision \<Rightarrow> string option \<Rightarrow> string \<Rightarrow> int \<Rightarrow> ('a review_db_scheme, unit) prog" where
  "setDemoDecision did d notes actor now = write_p (\<lambda>s. s\<lparr>t_demos := update_where (\<lambda>r. dm_id r = did)
     (\<lambda>r. r\<lparr>dm_status := human_decision_str d, dm_approvedAt := Some now, dm_approvedBy := Some actor,
        dm_approvalSource := Some ''dashboard'', dm_approvalNotes := notes\<rparr>) (t_demos s)\<rparr>)"

text \<open>A draft that is no longer rejected counts again for the unique index on its place in a sequence.\<close>

definition live_place :: "email_draft \<Rightarrow> (string \<times> int) option" where
  "live_place e = (if ed_humanDecision e = Some ''REJECTED'' then None
     else map_option (\<lambda>r. (r, ed_sequenceStep e)) (ed_outreachRecordId e))"

definition setEmailHumanDecision ::
  "string \<Rightarrow> human_decision \<Rightarrow> string option \<Rightarrow> string \<Rightarrow> int \<Rightarrow> ('a review_db_scheme, unit) prog" where
  "setEmailHumanDecision eid d notes actor now s =
     (let rows = update_where (\<lambda>r. ed_id r = eid)
        (\<lambda>r. r\<lparr>ed_humanDecision := Some (human_decision_str d), ed_humanNotes := notes,
           ed_humanReviewedAt := Some now, ed_humanReviewedBy := Some actor\<rparr>) (t_email_drafts s)
      in if distinct (List.map_filter live_place rows) then (Inr (), s\<lparr>t_email_drafts := rows\<rparr>)
         else (Inl (UniqueViolation ''email_drafts_outreach_sequence_uk''), s))"

definition setFinalizationDecision ::
  "string \<Rightarrow> human_decision \<Rightarrow> string option \<Rightarrow> string \<Rightarrow> int \<Rightarrow> ('a review_db_scheme, unit) prog" where
  "setFinalizationDecision fid d notes actor now = write_p (\<lambda>s. s\<lparr>t_finalizations :=
     update_where (\<lambda>r. fn_id r = fid)
       (\<lambda>r. r\<lparr>fn_finalHumanDecision := Some (human_decision_str d), fn_finalHumanNotes := notes,
          fn_finalReviewedAt := Some now, fn_finalReviewedBy := Some actor,
          fn_finalReviewedSource := Some ''dashboard''\<rparr>) (t_finalizations s)\<rparr>)"

section \<open>The service\<close>

definition review_note :: "string \<Rightarrow> string \<Rightarrow> json \<Rightarrow> new_pipeline_event" where
  "review_note lid msg d = \<lparr>pv_leadId = Some lid, pv_runId = None, pv_type = pipeline_event_type.NOTE, pv_fromStatus = None,
     pv_toStatus = None, pv_message = Some msg, pv_data = d\<rparr>"

definition DEMO_DECIDABLE :: "string list" where
  "DEMO_DECIDABLE = [''GENERATED_PENDING_REVIEW'', ''APPROVED'', ''REJECTED'']"

definition EMAIL_ACTIONABLE_LEAD_STATES :: "lead_status list" where
  "EMAIL_ACTIONABLE_LEAD_STATES = [READY_FOR_HUMAN_APPROVAL, WAITING_FOR_DEMO_URL]"

definition decideDemo ::
  "string \<Rightarrow> string \<Rightarrow> human_decision \<Rightarrow> string option \<Rightarrow> ('a review_db_scheme, review_result) prog" where
  "decideDemo actor lid d notes = lead_tx
     (bind_p (read_p (\<lambda>s. latestDemo s lid)) (\<lambda>found.
      case found of
        None \<Rightarrow> return_p RV_NOT_FOUND
      | Some demo \<Rightarrow>
          if dm_status demo = human_decision_str d then return_p RV_NOOP_ALREADY
          else if dm_status demo \<notin> set DEMO_DECIDABLE then return_p RV_INVALID_STATE
          else bind_p readClock (\<lambda>now.
            then_p (setDemoDecision (dm_id demo) d notes actor now)
            (then_p (record_event (review_note lid (''demo '' @ js_lower (human_decision_str d) @ '' (human review)'')
               (JObj [(''demoId'', JStr (dm_id demo)), (''decision'', JStr (human_decision_str d))])))
            (return_p RV_DONE)))))"

text \<open>What a decision on an email does to the lead.\<close>

definition email_move :: "human_decision \<Rightarrow> lead_status \<Rightarrow> int \<Rightarrow> lead_status option" where
  "email_move d st step =
     (if d = HD_REJECTED \<and> 0 < step then (if st = READY_FOR_HUMAN_APPROVAL then Some SENT else None)
      else if d = HD_REJECTED then Some REJECTED
      else if st = READY_FOR_HUMAN_APPROVAL then Some HUMAN_APPROVED else None)"

definition email_message :: "human_decision \<Rightarrow> lead_status \<Rightarrow> int \<Rightarrow> string" where
  "email_message d st step = ''email '' @ js_lower (human_decision_str d) @ '' (human review''
     @ (if st = WAITING_FOR_DEMO_URL \<and> d = HD_APPROVED
        then '', wording only '' @ [CHR 0x97] @ '' awaiting demo URL'' else [])
     @ '')'' @ (if 0 < step
        then '' '' @ [CHR 0x97] @ '' outreach follow-up step '' @ show_int step
          @ (if d = HD_REJECTED then ''; lead returned to SENT, NOT rejected'' else []) else [])"

definition decideEmail ::
  "string \<Rightarrow> string \<Rightarrow> human_decision \<Rightarrow> string option \<Rightarrow> ('a review_db_scheme, review_result) prog" where
  "decideEmail actor lid d notes = lead_tx
     (bind_p (lead_getById lid) (\<lambda>found.
      case found of
        None \<Rightarrow> return_p RV_NOT_FOUND
      | Some l \<Rightarrow>
          if ld_status l \<notin> set EMAIL_ACTIONABLE_LEAD_STATES then return_p RV_INVALID_STATE
          else bind_p (read_p (\<lambda>s. latestEmail s lid)) (\<lambda>mail.
            case mail of
              None \<Rightarrow> return_p RV_NOT_FOUND
            | Some e \<Rightarrow>
                if ed_humanDecision e = Some (human_decision_str d) then return_p RV_NOOP_ALREADY
                else bind_p readClock (\<lambda>now.
                  then_p (setEmailHumanDecision (ed_id e) d notes actor now)
                  (then_p (case email_move d (ld_status l) (ed_sequenceStep e) of
                       None \<Rightarrow> return_p () | Some dst \<Rightarrow> then_p (lead_transition lid dst) (return_p ()))
                  (then_p (record_event (review_note lid (email_message d (ld_status l) (ed_sequenceStep e))
                     (JObj [(''emailId'', JStr (ed_id e)), (''decision'', JStr (human_decision_str d)),
                            (''sequenceStep'', JNum (ed_sequenceStep e))])))
                  (return_p RV_DONE)))))))"

definition decideFinalizedEmail ::
  "string \<Rightarrow> string \<Rightarrow> human_decision \<Rightarrow> string option \<Rightarrow> ('a review_db_scheme, review_result) prog" where
  "decideFinalizedEmail actor lid d notes = lead_tx
     (bind_p (lead_getById lid) (\<lambda>found.
      case found of
        None \<Rightarrow> return_p RV_NOT_FOUND
      | Some l \<Rightarrow>
          if ld_status l \<noteq> FINALIZED_EMAIL_PENDING then return_p RV_INVALID_STATE
          else bind_p (read_p (\<lambda>s. latest_finalization s lid)) (\<lambda>copy.
            case copy of
              None \<Rightarrow> return_p RV_NOT_FOUND
            | Some f \<Rightarrow>
                if fn_finalHumanDecision f = Some (human_decision_str d) then return_p RV_NOOP_ALREADY
                else bind_p readClock (\<lambda>now.
                  then_p (setFinalizationDecision (fn_id f) d notes actor now)
                  (then_p (lead_transition lid (if d = HD_APPROVED then HUMAN_APPROVED else REJECTED))
                  (then_p (record_event (review_note lid
                     (''finalized email '' @ js_lower (human_decision_str d) @ '' (2nd human review)'')
                     (JObj [(''finalizationId'', JStr (fn_id f)), (''decision'', JStr (human_decision_str d))])))
                  (return_p RV_DONE)))))))"

section \<open>The finalization of a reply email\<close>

definition DEMO_URL_TOKEN :: string where
  "DEMO_URL_TOKEN = ''{{DEMO_URL}}''"

text \<open>The violations, of which no two are equal.\<close>

definition draft_violations :: "string \<Rightarrow> email_draft \<Rightarrow> string list" where
  "draft_violations lid d =
     (if ed_leadId d \<noteq> lid then [''draft_wrong_lead''] else [])
   @ (if ed_status d \<noteq> ''APPROVED'' then [''draft_status_not_approved:'' @ ed_status d] else [])
   @ (if ed_humanDecision d \<noteq> Some ''APPROVED''
      then [''draft_human_decision_not_approved:'' @ (case ed_humanDecision d of None \<Rightarrow> ''none'' | Some x \<Rightarrow> x)]
      else [])
   @ (if ed_ctaKind d \<noteq> ''reply'' then [''draft_cta_not_reply:'' @ ed_ctaKind d] else [])
   @ (if js_includes DEMO_URL_TOKEN (ed_body d) then [''body_contains_demo_url''] else [])
   @ (if hasUnresolvedTokens (js_replace_all SENDER_NAME_TOKEN [] (ed_body d))
      then [''body_has_unresolved_token''] else [])"

definition validateReplyFinalization :: "string \<Rightarrow> lead_status \<Rightarrow> email_draft option \<Rightarrow> string list" where
  "validateReplyFinalization lid st draft =
     (if st \<noteq> HUMAN_APPROVED then [''lead_not_human_approved:'' @ lead_status_str st] else [])
   @ (case draft of None \<Rightarrow> [''draft_not_found''] | Some d \<Rightarrow> draft_violations lid d)"

record finalization_hashes =
  fh_resolvedBody :: string
  fh_originalBodyHash :: string
  fh_resolvedBodyHash :: string

definition computeReplyFinalization :: "digest \<Rightarrow> string \<Rightarrow> finalization_hashes" where
  "computeReplyFinalization sha body =
     (let h = sha body in \<lparr>fh_resolvedBody = body, fh_originalBodyHash = h, fh_resolvedBodyHash = h\<rparr>)"

definition getDraft :: "'a review_db_scheme \<Rightarrow> string \<Rightarrow> email_draft option" where
  "getDraft s did = find (\<lambda>e. ed_id e = did) (t_email_drafts s)"

definition is_reply_of :: "string \<Rightarrow> finalization \<Rightarrow> bool" where
  "is_reply_of did f \<longleftrightarrow> fn_originalDraftId f = did \<and> fn_kind f = ''REPLY_DIRECT''"

definition hasReplyFinalization :: "'a review_db_scheme \<Rightarrow> string \<Rightarrow> bool" where
  "hasReplyFinalization s did \<longleftrightarrow> list_ex (is_reply_of did) (t_finalizations s)"

text \<open>The row, with the columns that are joined from its draft.\<close>

definition reply_row ::
  "string \<Rightarrow> email_draft \<Rightarrow> finalization_hashes \<Rightarrow> string \<Rightarrow> int \<Rightarrow> int \<Rightarrow> finalization" where
  "reply_row fid e h by_whom now dbNow =
     \<lparr>fn_id = fid, fn_leadId = ed_leadId e, fn_resolvedBody = fh_resolvedBody h,
      fn_resolvedBodyHash = fh_resolvedBodyHash h, fn_finalHumanDecision = Some ''APPROVED'',
      fn_finalReviewedAt = Some now, fn_subject = ed_subject e, fn_originalDraftId = ed_id e,
      fn_sequenceStep = ed_sequenceStep e, fn_outreachRecordId = ed_outreachRecordId e,
      fn_deploymentRunId = None, fn_verifiedDeploymentUrl = None, fn_originalBodyHash = fh_originalBodyHash h,
      fn_kind = ''REPLY_DIRECT'', fn_finalizedAt = dbNow, fn_finalHumanNotes = None,
      fn_finalReviewedBy = Some by_whom, fn_finalReviewedSource = Some ''cli''\<rparr>"

definition insertReplyFinalization ::
  "string \<Rightarrow> string \<Rightarrow> finalization_hashes \<Rightarrow> string \<Rightarrow> int \<Rightarrow> ('a review_db_scheme, unit) prog" where
  "insertReplyFinalization fid did h by_whom now = bind_p readClock (\<lambda>dbNow. \<lambda>s.
     if list_ex (\<lambda>f. fn_id f = fid) (t_finalizations s)
     then (Inl (UniqueViolation ''email_draft_finalizations_pkey''), s)
     else if hasReplyFinalization s did
     then (Inl (UniqueViolation ''email_draft_finalizations_reply_uk''), s)
     else case getDraft s did of
         None \<Rightarrow> (Inl (ForeignKeyViolation ''email_draft_finalizations.original_draft_id''), s)
       | Some e \<Rightarrow> (Inr (), s\<lparr>t_finalizations := t_finalizations s @ [reply_row fid e h by_whom now dbNow]\<rparr>))"

datatype finalize_result = FZ_REFUSED "string list" | FZ_EXISTS | FZ_PREVIEW | FZ_PERSISTED string

definition required_option :: "string \<Rightarrow> string \<Rightarrow> string option \<Rightarrow> ('s, string) prog" where
  "required_option code msg x = (case fact (map_option js_trim x) of
     None \<Rightarrow> throw_p (AppError code msg) | Some v \<Rightarrow> return_p v)"

definition persist_finalization ::
  "string \<Rightarrow> string \<Rightarrow> string \<Rightarrow> finalization_hashes \<Rightarrow> string \<Rightarrow> ('a review_db_scheme, finalize_result) prog" where
  "persist_finalization lid did fid h by_whom = lead_tx
     (bind_p readClock (\<lambda>now.
      then_p (insertReplyFinalization fid did h by_whom now)
      (then_p (record_event (review_note lid (''reply email finalized (by '' @ by_whom @ '')'')
         (JObj [(''kind'', JStr ''REPLY_DIRECT''), (''finalizationId'', JStr fid), (''emailDraftId'', JStr did),
            (''resolvedBodyHash'', JStr (fh_resolvedBodyHash h)), (''finalHumanDecision'', JStr ''APPROVED''),
            (''operator'', JStr by_whom)])))
      (return_p (FZ_PERSISTED fid)))))"

definition finalize_checked ::
  "digest \<Rightarrow> string \<Rightarrow> string \<Rightarrow> string \<Rightarrow> bool \<Rightarrow> ('a review_db_scheme, finalize_result) prog" where
  "finalize_checked sha lid did by_whom confirm =
     bind_p (lead_getById lid) (\<lambda>found.
     case found of
       None \<Rightarrow> throw_p (AppError ''LEAD_NOT_FOUND'' (''Lead '' @ lid @ '' not found.''))
     | Some l \<Rightarrow>
         bind_p (read_p (\<lambda>s. getDraft s did)) (\<lambda>draft.
         if validateReplyFinalization lid (ld_status l) draft \<noteq> []
         then return_p (FZ_REFUSED (validateReplyFinalization lid (ld_status l) draft))
         else bind_p (read_p (\<lambda>s. hasReplyFinalization s did)) (\<lambda>already.
         if already then return_p FZ_EXISTS
         else bind_p newUUID (\<lambda>fid.
         let h = computeReplyFinalization sha (case draft of None \<Rightarrow> [] | Some d \<Rightarrow> ed_body d) in
         if \<not> confirm then return_p FZ_PREVIEW
         else persist_finalization lid did fid h by_whom))))"

definition replyEmailFinalizeCommand ::
  "digest \<Rightarrow> string option \<Rightarrow> string option \<Rightarrow> string option \<Rightarrow> bool
   \<Rightarrow> ('a review_db_scheme, finalize_result) prog" where
  "replyEmailFinalizeCommand sha leadOpt draftOpt byOpt confirm =
     bind_p (required_option ''LEAD_REQUIRED'' ''--lead <id> is required.'' leadOpt) (\<lambda>lid.
     bind_p (required_option ''DRAFT_REQUIRED'' ''--draft <email_draft_id> is required.'' draftOpt) (\<lambda>did.
     bind_p (required_option ''OPERATOR_REQUIRED'' ''--by <operator> is required.'' byOpt) (\<lambda>by_whom.
     finalize_checked sha lid did by_whom confirm)))"

section \<open>The queue\<close>

record lead_review_summary =
  lr_leadId :: string
  lr_businessName :: "string option"
  lr_leadStatus :: lead_status
  lr_demoStatus :: "string option"
  lr_emailHumanDecision :: "string option"
  lr_hasEmail :: bool

definition AWAITING :: "lead_status list" where
  "AWAITING = [READY_FOR_HUMAN_APPROVAL, WAITING_FOR_DEMO_URL, FINALIZED_EMAIL_PENDING]"

definition review_summary :: "'a review_db_scheme \<Rightarrow> lead \<Rightarrow> lead_review_summary" where
  "review_summary s l =
     \<lparr>lr_leadId = ld_id l, lr_businessName = ld_businessName l, lr_leadStatus = ld_status l,
      lr_demoStatus = map_option dm_status (latestDemo s (ld_id l)),
      lr_emailHumanDecision = Option.bind (latestEmail s (ld_id l)) ed_humanDecision,
      lr_hasEmail = (latestEmail s (ld_id l) \<noteq> None)\<rparr>"

definition listAwaiting :: "('a review_db_scheme, lead_review_summary list) prog" where
  "listAwaiting = read_p (\<lambda>s. map (review_summary s)
     (sort_key (\<lambda>l. - ld_updatedAt l) (filter (\<lambda>l. ld_status l \<in> set AWAITING) (t_leads s))))"

end
