(* ===== verification/Review_Claims.thy ===== *)
theory Review_Claims
  imports Review Gmail_Claims
begin

text \<open>
  What the review and the finalization of replies guarantee: what a decision on an email does, and no
  more; and, over any sequence of decisions, finalizations and draft runs, that a finalized reply is the
  copy that was reviewed, once per draft, and that every row satisfies the checks of its table.
\<close>

section \<open>What leaves the copies alone\<close>

definition same_copies :: "'a review_db_scheme \<Rightarrow> 'a review_db_scheme \<Rightarrow> bool" where
  "same_copies s s' \<longleftrightarrow> t_finalizations s' = t_finalizations s \<and> t_email_drafts s' = t_email_drafts s
     \<and> t_demos s' = t_demos s"

interpretation copies: prog_frame same_copies
  by unfold_locales (auto simp: same_copies_def)

named_theorems copies_parts \<open>statements that leave the copies alone\<close>

lemma copies_tx [copies_parts]: "keeps same_copies p \<Longrightarrow> keeps same_copies (lead_tx p)"
  by (rule copies.keeps_transaction) (auto simp: same_copies_def rollback_def)

lemma copies_base [copies_parts]: "keeps same_copies readClock" "keeps same_copies newUUID"
  "keeps same_copies (lead_getById lid)" "keeps same_copies (lead_updateStatus lid st now)"
  unfolding lead_getById_def lead_updateStatus_def
  by (auto simp: keeps_def same_copies_def readClock_def newUUID_def)

lemma copies_record_event [copies_parts]: "keeps same_copies (record_event e)"
  unfolding record_event_def by (intro copies.keeps_bind copies_parts) (simp add: keeps_def same_copies_def)

lemma copies_lead_transition [copies_parts]: "keeps same_copies (lead_transition lid dst)"
  unfolding lead_transition_def Let_def
  by (intro copies.keeps_bind copies.keeps_option copies.keeps_if copies.keeps_all copies_parts)

lemma copies_approved [copies_parts]: "keeps same_copies (transition_if_approved lid dst)"
  unfolding transition_if_approved_def
  by (intro copies.keeps_bind copies.keeps_option copies.keeps_all copies_parts)

lemma copies_startRun [copies_parts]: "keeps same_copies startRun"
  unfolding startRun_def
  by (intro copies.keeps_bind copies.keeps_then copies_parts) (simp add: keeps_def same_copies_def)

lemma copies_completeRun [copies_parts]: "keeps same_copies (completeRun rid f)"
  by (auto simp: keeps_def completeRun_def same_copies_def Let_def split: option.splits)

lemma copies_ends [copies_parts]: "keeps same_copies (gmail_terminal i runId oc route ec reserved)"
  "keeps same_copies (gmail_finish i runId rid ref)"
  unfolding gmail_terminal_def gmail_finish_def
  by (intro copies.keeps_then copies.keeps_bind copies.keeps_option copies.keeps_return copies_parts)+

lemma copies_calls [copies_parts]: "keeps same_copies gmail_verify" "keeps same_copies (provider_createDraft q)"
  "keeps same_copies (reserveRun row)"
  by (auto simp: keeps_def gmail_verify_def provider_createDraft_def reserveRun_def same_copies_def Let_def
      split: verify_answer.splits create_answer.splits option.splits)

lemma copies_conclude [copies_parts]: "keeps same_copies (conclude_create i runId rid answer)"
  unfolding conclude_create_def
  by (auto split: prod.splits create_class.splits option.splits intro: copies_parts)

lemma copies_createDraft [copies_parts]: "keeps same_copies (createDraft sha c i runId)"
  unfolding createDraft_def create_eligible_def create_new_def reserve_and_create_def Let_def
    existingByFingerprint_def findReservedByFingerprint_def draftsToday_def lastAttemptAt_def
  by (intro copies.keeps_bind copies.keeps_then copies.keeps_option copies.keeps_if copies.keeps_all copies_parts)

lemma copies_draft_each [copies_parts]: "keeps same_copies (draft_each sha c runId ls acc)"
proof (induction ls arbitrary: acc)
  case Nil
  then show ?case by (simp add: keeps_def same_copies_def)
next
  case (Cons l ls)
  show ?case
    unfolding draft_each.simps by (intro copies.keeps_bind copies.keeps_read copies_parts Cons.IH)
qed

lemma copies_command [copies_parts]: "keeps same_copies (createGmailDraftsCommand sha c maxPerRun limitOpt)"
  unfolding createGmailDraftsCommand_def list_leads_def
  by (intro copies.keeps_bind copies.keeps_if copies.keeps_all copies_parts)

section \<open>A decision on an email\<close>

lemma latest_by_update:
  assumes "\<And>r. k (g r) = k r"
  shows "latest_by k (update_where P g rs) = map_option (\<lambda>r. if P r then g r else r) (latest_by k rs)"
  by (induction rs) (auto simp: assms split: option.splits)

definition decided :: "human_decision \<Rightarrow> string option \<Rightarrow> string \<Rightarrow> int \<Rightarrow> email_draft \<Rightarrow> email_draft" where
  "decided d notes actor now r = r\<lparr>ed_humanDecision := Some (human_decision_str d), ed_humanNotes := notes,
     ed_humanReviewedAt := Some now, ed_humanReviewedBy := Some actor\<rparr>"

lemma setEmail_Inr:
  assumes "setEmailHumanDecision eid d notes actor now s = (Inr u, s')"
  shows "s' = s\<lparr>t_email_drafts := update_where (\<lambda>r. ed_id r = eid) (decided d notes actor now) (t_email_drafts s)\<rparr>"
  using assms by (auto simp: setEmailHumanDecision_def Let_def decided_def [abs_def] split: if_splits)

definition all_same :: "'a review_db_scheme \<Rightarrow> 'a review_db_scheme \<Rightarrow> bool" where
  "all_same s s' \<longleftrightarrow> t_demos s' = t_demos s \<and> t_finalizations s' = t_finalizations s \<and> outreach s' = outreach s
     \<and> t_gmail_drafts s' = t_gmail_drafts s \<and> t_schedules s' = t_schedules s"

interpretation rest: prog_frame all_same
  by unfold_locales (auto simp: all_same_def)

lemma rest_base: "keeps all_same readClock" "keeps all_same newUUID"
  "keeps all_same (lead_getById lid)" "keeps all_same (lead_updateStatus lid st now)"
  unfolding lead_getById_def lead_updateStatus_def
  by (auto simp: keeps_def all_same_def readClock_def newUUID_def)

lemma rest_record_event: "keeps all_same (record_event e)"
  unfolding record_event_def by (intro rest.keeps_bind rest_base) (simp add: keeps_def all_same_def)

lemma rest_lead_transition: "keeps all_same (lead_transition lid dst)"
  unfolding lead_transition_def Let_def
  by (intro rest.keeps_bind rest.keeps_option rest.keeps_if rest.keeps_all rest_base rest_record_event)

lemma transition_status:
  assumes "lead_transition lid dst s = (Inr x, s')"
  shows "status_of s' lid = Some dst"
proof -
  obtain l where l: "lead_of s lid = Some l" and t: "transitioned s lid l dst s'"
    using assms by (rule lead_transition_ok)
  then show ?thesis
    using find_status [OF l [unfolded lead_of_def]] by (auto simp: transitioned_def status_of_def lead_of_def)
qed


section \<open>The finalized replies\<close>

text \<open>A reply is finalized as it was reviewed: the row carries the draft's body, subject, lead and place in
  the sequence, the hash of the body, and no deployment; the draft is an approved reply in which only the
  sender's name is left to fill in.\<close>

definition reply_of :: "digest \<Rightarrow> email_draft \<Rightarrow> finalization \<Rightarrow> bool" where
  "reply_of sha e f \<longleftrightarrow> ed_id e = fn_originalDraftId f \<and> ed_leadId e = fn_leadId f \<and> ed_subject e = fn_subject f
     \<and> ed_body e = fn_resolvedBody f \<and> ed_sequenceStep e = fn_sequenceStep f
     \<and> ed_outreachRecordId e = fn_outreachRecordId f \<and> fn_resolvedBodyHash f = sha (ed_body e)
     \<and> fn_originalBodyHash f = sha (ed_body e) \<and> fn_deploymentRunId f = None
     \<and> ed_ctaKind e = ''reply'' \<and> ed_status e = ''APPROVED''
     \<and> \<not> js_includes DEMO_URL_TOKEN (ed_body e)
     \<and> \<not> hasUnresolvedTokens (js_replace_all SENDER_NAME_TOKEN [] (ed_body e))"

definition replies :: "'a review_db_scheme \<Rightarrow> finalization list" where
  "replies s = filter (\<lambda>f. fn_kind f = ''REPLY_DIRECT'') (t_finalizations s)"

definition faithful :: "digest \<Rightarrow> 'a review_db_scheme \<Rightarrow> bool" where
  "faithful sha s \<longleftrightarrow> distinct (map fn_originalDraftId (replies s))
     \<and> (\<forall>f \<in> set (replies s). \<exists>e \<in> set (t_email_drafts s). reply_of sha e f)"

lemma faithful_cong:
  "t_finalizations s' = t_finalizations s \<Longrightarrow> t_email_drafts s' = t_email_drafts s \<Longrightarrow> faithful sha s \<Longrightarrow> faithful sha s'"
  by (simp add: faithful_def replies_def)

lemma faithful_decided:
  assumes "faithful sha s"
  shows "faithful sha (s\<lparr>t_email_drafts := update_where P (decided d notes actor now) (t_email_drafts s)\<rparr>)"
proof -
  have same: "reply_of sha (decided d notes actor now e) f \<longleftrightarrow> reply_of sha e f" for e f
    by (simp add: reply_of_def decided_def)
  then have "\<exists>e \<in> set (update_where P (decided d notes actor now) (t_email_drafts s)). reply_of sha e f"
    if ex: "\<exists>e \<in> set (t_email_drafts s). reply_of sha e f" for f
  proof -
    obtain e where "e \<in> set (t_email_drafts s)" "reply_of sha e f"
      using ex by blast
    then show ?thesis
      using same by (intro bexI [of _ "if P e then decided d notes actor now e else e"]) (auto simp: set_update_where)
  qed
  then show ?thesis
    using assms by (simp add: faithful_def replies_def)
qed

lemma faithful_final_decision:
  assumes "faithful sha s" and "\<And>r. fn_kind (g r) = fn_kind r" "\<And>r. fn_originalDraftId (g r) = fn_originalDraftId r"
    and "\<And>e r. reply_of sha e (g r) = reply_of sha e r"
  shows "faithful sha (s\<lparr>t_finalizations := update_where P g (t_finalizations s)\<rparr>)"
proof -
  have "replies (s\<lparr>t_finalizations := update_where P g (t_finalizations s)\<rparr>) = update_where P g (replies s)"
    by (simp add: replies_def filter_update_where assms(2))
  then show ?thesis
    using assms(1,3,4) by (auto simp: faithful_def map_update_where_same set_update_where)
qed

lemma keeps_faithful_copies: "keeps same_copies p \<Longrightarrow> keeps (\<lambda>s s'. faithful sha s \<longrightarrow> faithful sha s') p"
  by (erule keeps_weaken) (auto simp: same_copies_def intro: faithful_cong)

interpretation faith: prog_frame "\<lambda>s s'. faithful sha s \<longrightarrow> faithful sha s'" for sha
  by (rule prog_frame_invariant)

lemma faith_tx:
  "keeps (\<lambda>s s'. faithful sha s \<longrightarrow> faithful sha s') p \<Longrightarrow> keeps (\<lambda>s s'. faithful sha s \<longrightarrow> faithful sha s') (lead_tx p)"
  by (rule faith.keeps_transaction) (auto simp: rollback_def intro: faithful_cong)

lemma faith_setters:
  "keeps (\<lambda>s s'. faithful sha s \<longrightarrow> faithful sha s') (setDemoDecision did d notes actor now)"
  "keeps (\<lambda>s s'. faithful sha s \<longrightarrow> faithful sha s') (setEmailHumanDecision eid d notes actor now)"
  "keeps (\<lambda>s s'. faithful sha s \<longrightarrow> faithful sha s') (setFinalizationDecision fid d notes actor now)"
proof -
  show "keeps (\<lambda>s s'. faithful sha s \<longrightarrow> faithful sha s') (setDemoDecision did d notes actor now)"
    unfolding setDemoDecision_def by (rule faith.keeps_write) (auto intro: faithful_cong)
  show "keeps (\<lambda>s s'. faithful sha s \<longrightarrow> faithful sha s') (setEmailHumanDecision eid d notes actor now)"
    by (auto simp: keeps_def setEmailHumanDecision_def Let_def
        intro!: faithful_decided [unfolded decided_def])
  show "keeps (\<lambda>s s'. faithful sha s \<longrightarrow> faithful sha s') (setFinalizationDecision fid d notes actor now)"
    unfolding setFinalizationDecision_def
    by (rule faith.keeps_write) (auto simp: reply_of_def intro!: faithful_final_decision)
qed

lemmas copies_faithful = copies_parts [THEN keeps_faithful_copies]

lemma faith_decisions:
  "keeps (\<lambda>s s'. faithful sha s \<longrightarrow> faithful sha s') (decideDemo actor lid d notes)"
  "keeps (\<lambda>s s'. faithful sha s \<longrightarrow> faithful sha s') (decideEmail actor lid d notes)"
  "keeps (\<lambda>s s'. faithful sha s \<longrightarrow> faithful sha s') (decideFinalizedEmail actor lid d notes)"
  unfolding decideDemo_def decideEmail_def decideFinalizedEmail_def
  by (intro faith_tx faith.keeps_bind faith.keeps_then faith.keeps_option faith.keeps_if faith.keeps_return
      faith.keeps_read faith_setters copies_faithful)+

text \<open>The one place where a finalized reply appears.\<close>

lemma insertReply_Inr:
  assumes "insertReplyFinalization fid did h by_whom now s = (Inr u, s')"
  obtains e t where "getDraft s did = Some e" "\<not> hasReplyFinalization s did"
    "t_finalizations s' = t_finalizations s @ [reply_row fid e h by_whom now t]"
    "t_email_drafts s' = t_email_drafts s" "t_demos s' = t_demos s"
  using assms
  by (auto simp: insertReplyFinalization_def bind_p_def readClock_def getDraft_def hasReplyFinalization_def
      split: if_splits option.splits)

lemma persist_Inr:
  assumes "persist_finalization lid did fid h by_whom s = (Inr r, s')"
  obtains e now t where "getDraft s did = Some e" "\<not> hasReplyFinalization s did"
    "t_finalizations s' = t_finalizations s @ [reply_row fid e h by_whom now t]"
    "t_email_drafts s' = t_email_drafts s" "t_demos s' = t_demos s"
proof -
  obtain now s1 u2 s2 ev u3 where s1: "readClock s = (Inr now, s1)"
    and s2: "insertReplyFinalization fid did h by_whom now s1 = (Inr u2, s2)"
    and s3: "record_event ev s2 = (Inr u3, s')"
    using assms by (auto simp: persist_finalization_def prog_simps)
  have t1: "s1 = s\<lparr>lead_ticks := Suc (lead_ticks s)\<rparr>"
    using s1 by (simp add: readClock_def)
  note k = keepsD [OF copies_record_event s3]
  from s2 show thesis
    by (rule insertReply_Inr)
       (rule that [of _ now], use k t1 in \<open>auto simp: same_copies_def getDraft_def hasReplyFinalization_def\<close>)
qed

lemma persist_Inl:
  "persist_finalization lid did fid h by_whom s = (Inl e, s') \<Longrightarrow> same_copies s s'"
  by (auto simp: persist_finalization_def transaction_Inl rollback_def same_copies_def)

text \<open>A run of the command leaves the copies, or adds the reply it validated.\<close>

definition adds_reply :: "digest \<Rightarrow> 'a review_db_scheme \<Rightarrow> 'a review_db_scheme \<Rightarrow> bool" where
  "adds_reply sha s s' \<longleftrightarrow> (\<exists>lid did by_whom e fid now t. getDraft s did = Some e \<and> draft_violations lid e = []
     \<and> status_of s lid = Some HUMAN_APPROVED \<and> \<not> hasReplyFinalization s did
     \<and> t_finalizations s' = t_finalizations s
         @ [reply_row fid e (computeReplyFinalization sha (ed_body e)) by_whom now t]
     \<and> t_email_drafts s' = t_email_drafts s \<and> t_demos s' = t_demos s)"

lemma finalize_checked_effect:
  assumes "finalize_checked sha lid did by_whom confirm s = (x, s')"
  shows "same_copies s s' \<or> adds_reply sha s s'"
proof (cases "lead_of s lid")
  case None
  then show ?thesis
    using assms by (auto simp: finalize_checked_def bind_p_def lead_getById_def None copies.refl)
next
  case (Some l)
  note run = assms [unfolded finalize_checked_def lead_getById_def bind_p_def newUUID_def Let_def read_p_eq, simplified, unfolded Some, simplified]
  show ?thesis
  proof (cases "validateReplyFinalization lid (ld_status l) (getDraft s did) = [] \<and> \<not> hasReplyFinalization s did \<and> confirm")
    case False
    then have "same_copies s s'"
      using run by (auto simp: same_copies_def split: if_splits)
    then show ?thesis ..
  next
    case True
    let ?s0 = "s\<lparr>lead_drawn := Suc (lead_drawn s)\<rparr>"
    obtain e where e: "getDraft s did = Some e" "draft_violations lid e = []" "ld_status l = HUMAN_APPROVED"
      using True by (auto simp: validateReplyFinalization_def split: if_splits option.splits)
    have p: "persist_finalization lid did (lead_uuids s (lead_drawn s)) (computeReplyFinalization sha (ed_body e)) by_whom ?s0 = (x, s')"
      using run True e(1) by auto
    show ?thesis
    proof (cases x)
      case (Inl err)
      have "same_copies ?s0 s'"
        using p [unfolded Inl] by (rule persist_Inl)
      then show ?thesis
        by (simp add: same_copies_def)
    next
      case (Inr r)
      obtain now t where "t_finalizations s' = t_finalizations s @ [reply_row (lead_uuids s (lead_drawn s)) e
          (computeReplyFinalization sha (ed_body e)) by_whom now t]"
        "t_email_drafts s' = t_email_drafts s" "t_demos s' = t_demos s"
        using e(1) by (rule_tac persist_Inr [OF p [unfolded Inr]]) (auto simp: getDraft_def)
      then have "adds_reply sha s s'"
        unfolding adds_reply_def using e True Some by (intro exI conjI) (auto simp: status_of_def)
      then show ?thesis ..
    qed
  qed
qed

lemma required_run:
  "bind_p (required_option code msg opt) f s = (x, s') \<Longrightarrow> s' = s \<or> (\<exists>v. f v s = (x, s'))"
  by (auto simp: required_option_def bind_p_def split: option.splits)

lemma finalize_effect:
  assumes "replyEmailFinalizeCommand sha leadOpt draftOpt byOpt confirm s = (x, s')"
  shows "same_copies s s' \<or> adds_reply sha s s'"
proof -
  have "s' = s \<or> (\<exists>lid did by_whom. finalize_checked sha lid did by_whom confirm s = (x, s'))"
    using assms unfolding replyEmailFinalizeCommand_def by (blast dest: required_run)
  then show ?thesis
    using finalize_checked_effect copies.refl by blast
qed

lemma adds_reply_faithful:
  assumes "adds_reply sha s s'" and "faithful sha s"
  shows "faithful sha s'"
proof -
  obtain lid did by_whom e fid now t where e: "getDraft s did = Some e" "draft_violations lid e = []"
    and once: "\<not> hasReplyFinalization s did"
    and fin: "t_finalizations s' = t_finalizations s
      @ [reply_row fid e (computeReplyFinalization sha (ed_body e)) by_whom now t]"
    and drafts: "t_email_drafts s' = t_email_drafts s"
    using assms(1) unfolding adds_reply_def by (elim exE conjE)
  let ?f = "reply_row fid e (computeReplyFinalization sha (ed_body e)) by_whom now t"
  have id: "ed_id e = did" "e \<in> set (t_email_drafts s)"
    using e(1) by (auto simp: getDraft_def dest: find_SomeD)
  have of_e: "reply_of sha e ?f"
    using e(2) by (auto simp: reply_of_def reply_row_def computeReplyFinalization_def Let_def draft_violations_def
        split: if_splits)
  have new: "replies s' = replies s @ [?f]"
    by (simp add: replies_def fin reply_row_def)
  have "fn_originalDraftId ?f \<notin> fn_originalDraftId ` set (replies s)"
    using once id(1) by (auto simp: hasReplyFinalization_def is_reply_of_def list_ex_iff replies_def reply_row_def)
  then show ?thesis
    using assms(2) of_e id(2) by (auto simp: faithful_def new drafts)
qed

section \<open>Sequences of commands\<close>

datatype review_cmd =
    DecideDemo string human_decision "string option"
  | DecideEmail string human_decision "string option"
  | DecideFinalized string human_decision "string option"
  | FinalizeReply "string option" "string option" "string option" bool
  | RunDrafts "string option"

fun review_exec :: "digest \<Rightarrow> gmail_config \<Rightarrow> int \<Rightarrow> string \<Rightarrow> review_cmd \<Rightarrow> ('a review_db_scheme, unit) prog" where
  "review_exec sha c maxPerRun actor (DecideDemo lid d notes) = then_unit (decideDemo actor lid d notes)"
| "review_exec sha c maxPerRun actor (DecideEmail lid d notes) = then_unit (decideEmail actor lid d notes)"
| "review_exec sha c maxPerRun actor (DecideFinalized lid d notes) = then_unit (decideFinalizedEmail actor lid d notes)"
| "review_exec sha c maxPerRun actor (FinalizeReply l d b confirm) = then_unit (replyEmailFinalizeCommand sha l d b confirm)"
| "review_exec sha c maxPerRun actor (RunDrafts limitOpt) = then_unit (createGmailDraftsCommand sha c maxPerRun limitOpt)"

lemma faith_finalize: "keeps (\<lambda>s s'. faithful sha s \<longrightarrow> faithful sha s') (replyEmailFinalizeCommand sha l d b confirm)"
proof (rule keepsI)
  fix s x s'
  assume "replyEmailFinalizeCommand sha l d b confirm s = (x, s')"
  then have "same_copies s s' \<or> adds_reply sha s s'"
    by (rule finalize_effect)
  then show "faithful sha s \<longrightarrow> faithful sha s'"
    using adds_reply_faithful faithful_cong unfolding same_copies_def by blast
qed

interpretation faith_system: prog_system "\<lambda>s s'. faithful sha s \<longrightarrow> faithful sha s'"
  "review_exec sha c maxPerRun actor" for sha c maxPerRun actor
proof unfold_locales
  fix cmd
  show "keeps (\<lambda>s s'. faithful sha s \<longrightarrow> faithful sha s') (review_exec sha c maxPerRun actor cmd)"
    by (cases cmd) (auto simp: then_unit_def intro!: faith.keeps_then faith.keeps_return faith_decisions faith_finalize
        keeps_faithful_copies [OF copies_command])
qed

text \<open>C18: over any sequence of decisions, finalizations and draft runs, also ones that fail, every finalized
  reply is the text of its draft, which is an approved reply with no token left but the sender's name, hashed
  as it stands, and no draft is finalized twice.\<close>

theorem finalized_replies_faithful:
  assumes "faithful sha s"
  shows "faithful sha (run_progs (review_exec sha c maxPerRun actor) cmds s)"
  using faith_system.run_keeps assms by blast

section \<open>The checks of the tables\<close>

definition demo_status_ck :: "demo_row \<Rightarrow> bool" where
  "demo_status_ck d \<longleftrightarrow> dm_status d \<in> {''GENERATED_PENDING_REVIEW'', ''APPROVED'', ''REJECTED'', ''SUPERSEDED'', ''BUILD_FAILED''}"

definition decision_ck :: "string option \<Rightarrow> bool" where
  "decision_ck x \<longleftrightarrow> x \<in> {None, Some ''APPROVED'', Some ''REJECTED''}"

definition finalization_ck :: "finalization \<Rightarrow> bool" where
  "finalization_ck f \<longleftrightarrow> decision_ck (fn_finalHumanDecision f) \<and> fn_kind f \<in> {''DEMO_URL_RESOLVED'', ''REPLY_DIRECT''}"

definition outcome_ck :: "gmail_draft \<Rightarrow> bool" where
  "outcome_ck r \<longleftrightarrow> (\<exists>oc. gd_outcome r = gmail_outcome_str oc)"

definition well_typed :: "'a review_db_scheme \<Rightarrow> bool" where
  "well_typed s \<longleftrightarrow> list_all demo_status_ck (t_demos s) \<and> list_all (\<lambda>e. decision_ck (ed_humanDecision e)) (t_email_drafts s)
     \<and> list_all finalization_ck (t_finalizations s) \<and> list_all outcome_ck (t_gmail_drafts s)"

abbreviation types_kept :: "'a review_db_scheme \<Rightarrow> 'a review_db_scheme \<Rightarrow> bool" where
  "types_kept s s' \<equiv> well_typed s \<longrightarrow> well_typed s'"

interpretation types: prog_frame types_kept
  by (rule prog_frame_invariant)

named_theorems types_parts \<open>statements that keep the rows well typed\<close>

definition same_rows :: "'a review_db_scheme \<Rightarrow> 'a review_db_scheme \<Rightarrow> bool" where
  "same_rows s s' \<longleftrightarrow> same_copies s s' \<and> t_gmail_drafts s' = t_gmail_drafts s"

lemma types_same: "keeps same_rows p \<Longrightarrow> keeps types_kept p"
  by (erule keeps_weaken) (simp add: same_rows_def same_copies_def well_typed_def)

lemma same_rows_split: "keeps same_copies p \<Longrightarrow> keeps kept p \<Longrightarrow> keeps same_rows p"
  by (auto simp: keeps_def same_rows_def kept_def)

lemma types_base [types_parts]: "keeps types_kept readClock" "keeps types_kept newUUID" "keeps types_kept (lead_getById lid)"
  "keeps types_kept (record_event e)" "keeps types_kept (lead_transition lid dst)"
  "keeps types_kept (transition_if_approved lid dst)" "keeps types_kept startRun"
  by (intro types_same same_rows_split copies_parts kept_parts)+

lemma types_tx [types_parts]: "keeps types_kept p \<Longrightarrow> keeps types_kept (lead_tx p)"
  by (rule types.keeps_transaction) (auto simp: rollback_def well_typed_def)

lemma list_all_update: "list_all Q xs \<Longrightarrow> (\<And>x. Q x \<Longrightarrow> Q (g x)) \<Longrightarrow> list_all Q (update_where P g xs)"
  by (induction xs) auto

lemma decision_ck_str [simp]: "decision_ck (Some (human_decision_str d))" "demo_status_ck (r\<lparr>dm_status := human_decision_str d,
    dm_approvedAt := a, dm_approvedBy := b, dm_approvalSource := x, dm_approvalNotes := n\<rparr>)"
  by (cases d; simp add: decision_ck_def demo_status_ck_def)+

lemma types_setters [types_parts]: "keeps types_kept (setDemoDecision did d notes actor now)"
  "keeps types_kept (setEmailHumanDecision eid d notes actor now)"
  "keeps types_kept (setFinalizationDecision fid d notes actor now)"
  unfolding setDemoDecision_def setFinalizationDecision_def
  by (auto simp: keeps_def well_typed_def setEmailHumanDecision_def Let_def finalization_ck_def intro!: list_all_update)

lemma types_completeRun [types_parts]:
  "(\<And>r. outcome_ck r \<Longrightarrow> outcome_ck (f r)) \<Longrightarrow> keeps types_kept (completeRun rid f)"
  by (auto simp: keeps_def completeRun_def well_typed_def Let_def intro!: list_all_update split: option.splits)

lemma types_ends [types_parts]: "keeps types_kept (gmail_terminal i runId oc route ec reserved)"
  "keeps types_kept (gmail_finish i runId rid ref)"
proof -
  have "outcome_ck (r\<lparr>gd_outcome := gmail_outcome_str oc, gd_errorClass := a, gd_completedAt := b\<rparr>)" for r a b
    by (auto simp: outcome_ck_def)
  then show "keeps types_kept (gmail_terminal i runId oc route ec reserved)"
    unfolding gmail_terminal_def
    by (intro types.keeps_then types.keeps_bind types.keeps_option types.keeps_return types_parts) auto
  have "outcome_ck (r\<lparr>gd_outcome := ''DRAFT_CREATED'', gd_providerDraftId := a, gd_messageId := b, gd_threadId := t,
      gd_errorClass := e, gd_completedAt := u\<rparr>)" for r a b t e u
    by (auto simp: outcome_ck_def intro!: exI [of _ GO_DRAFT_CREATED])
  then show "keeps types_kept (gmail_finish i runId rid ref)"
    unfolding gmail_finish_def
    by (intro types.keeps_then types.keeps_bind types.keeps_return types_parts) auto
qed

lemma types_calls [types_parts]: "keeps types_kept gmail_verify" "keeps types_kept (provider_createDraft q)"
  "keeps types_kept (reserveRun (reservation c i f fp rid now))"
proof -
  have "outcome_ck (reservation c i f fp rid now)"
    by (auto simp: outcome_ck_def reservation_def intro!: exI [of _ GO_TRANSIENT_ERROR])
  then show "keeps types_kept gmail_verify" "keeps types_kept (provider_createDraft q)"
    "keeps types_kept (reserveRun (reservation c i f fp rid now))"
    by (auto simp: keeps_def gmail_verify_def provider_createDraft_def reserveRun_def well_typed_def Let_def
        split: verify_answer.splits create_answer.splits option.splits)
qed

lemma types_conclude [types_parts]: "keeps types_kept (conclude_create i runId rid answer)"
  unfolding conclude_create_def
  by (auto split: prod.splits create_class.splits option.splits intro: types_parts)

lemma types_createDraft [types_parts]: "keeps types_kept (createDraft sha c i runId)"
  unfolding createDraft_def create_eligible_def create_new_def reserve_and_create_def Let_def
    existingByFingerprint_def findReservedByFingerprint_def draftsToday_def lastAttemptAt_def
  by (intro types.keeps_bind types.keeps_then types.keeps_option types.keeps_if types.keeps_all types_parts)

lemma types_draft_each [types_parts]: "keeps types_kept (draft_each sha c runId ls acc)"
proof (induction ls arbitrary: acc)
  case Nil
  then show ?case by (simp add: keeps_def)
next
  case (Cons l ls)
  show ?case
    unfolding draft_each.simps by (intro types.keeps_bind types.keeps_read types_parts Cons.IH)
qed

lemma types_command [types_parts]: "keeps types_kept (createGmailDraftsCommand sha c maxPerRun limitOpt)"
  unfolding createGmailDraftsCommand_def list_leads_def
  by (intro types.keeps_bind types.keeps_if types.keeps_all types_parts)

lemma types_decisions [types_parts]: "keeps types_kept (decideDemo actor lid d notes)"
  "keeps types_kept (decideEmail actor lid d notes)" "keeps types_kept (decideFinalizedEmail actor lid d notes)"
  unfolding decideDemo_def decideEmail_def decideFinalizedEmail_def
  by (intro types.keeps_bind types.keeps_then types.keeps_option types.keeps_if types.keeps_return
      types.keeps_read types_parts)+

lemma types_finalize [types_parts]: "keeps types_kept (replyEmailFinalizeCommand sha l d b confirm)"
proof -
  have "keeps types_kept (insertReplyFinalization fid did h by_whom now)" for fid did h by_whom now
    unfolding insertReplyFinalization_def
    by (intro types.keeps_bind types_parts)
       (auto simp: keeps_def well_typed_def finalization_ck_def decision_ck_def reply_row_def split: option.splits)
  then show ?thesis
    unfolding replyEmailFinalizeCommand_def required_option_def finalize_checked_def persist_finalization_def Let_def
    by (intro types.keeps_bind types.keeps_then types.keeps_option types.keeps_if types.keeps_throw types.keeps_return
        types.keeps_read types_parts)
qed

interpretation types_system: prog_system types_kept "review_exec sha c maxPerRun actor" for sha c maxPerRun actor
proof unfold_locales
  fix cmd
  show "keeps types_kept (review_exec sha c maxPerRun actor cmd)"
    by (cases cmd) (auto simp: then_unit_def intro!: types.keeps_then types.keeps_return types_parts)
qed


section \<open>Examples\<close>

definition demo_reply :: email_draft where
  "demo_reply = \<lparr>ed_id = ''e'', ed_leadId = ''l'', ed_demoId = None, ed_runId = None, ed_subject = ''S'', ed_body = ''B'',
     ed_ctaKind = ''reply'', ed_hasDemoUrlPlaceholder = False, ed_status = ''APPROVED'', ed_writerPromptVersion = ''1'',
     ed_reviewerPromptVersion = ''1'', ed_schemaVersion = ''1'', ed_rulesVersion = ''1'', ed_provider = ''p'',
     ed_requestedWriterModel = ''w'', ed_requestedReviewerModel = ''r'', ed_writerResponseId = None,
     ed_reviewerResponseId = None, ed_reviewerDecision = None, ed_fabricationRisk = None,
     ed_personalizationSupported = None, ed_claimHonest = None, ed_reviewerProblems = None, ed_totalCostUsd = 0,
     ed_authorship = ''AI'', ed_sequenceStep = 0, ed_outreachRecordId = None, ed_humanDecision = None,
     ed_humanNotes = None, ed_humanReviewedAt = None, ed_humanReviewedBy = None, ed_createdAt = 1\<rparr>"

definition demo_review :: review_db where
  "demo_review = gmail_db.extend ((demo_gmail (Answer CC_invalid None None))\<lparr>t_finalizations := [],
       t_leads := [demo_scheduled_lead\<lparr>ld_status := READY_FOR_HUMAN_APPROVAL\<rparr>]\<rparr>)
     \<lparr>t_email_drafts = [demo_reply], t_demos = []\<rparr>"


theorem finalized_replies_faithful_witness:
  "faithful demo_digest (run_progs (review_exec demo_digest demo_gmail_config 2 ''me'')
     [DecideEmail ''l'' HD_APPROVED None, FinalizeReply (Some ''l'') (Some ''e'') (Some ''me'') True] demo_review)"
  by (rule finalized_replies_faithful) code_simp


end
