(* ===== verification/Regexp.thy ===== *)
theory Regexp
  imports Canonical
begin

text \<open>
  The part of JavaScript's \<^verbatim>\<open>RegExp\<close> that the program's text rules use: classes, groups,
  alternatives, greedy and lazy quantifiers, \<^verbatim>\<open>^\<close>, \<^verbatim>\<open>$\<close>, \<^verbatim>\<open>\b\<close>, lookahead and one-character
  lookbehind, with the flags \<^verbatim>\<open>i\<close> and \<^verbatim>\<open>m\<close>. A pattern is written as in the source, with \<^verbatim>\<open>~\<close> for
  the backslash; the tilde occurs in no pattern of the modelled code. \<^verbatim>\<open>~xHH\<close> names the character at
  that position of Windows-1252, which is how the theories write the characters outside ASCII. The
  code points outside Windows-1252 are not represented. Capture groups only group: the modelled code
  reads none of them.

  The matcher lists the ends of a match in the order in which backtracking tries them; it terminates
  because an iteration of a starred pattern that consumes nothing is abandoned, as in the standard. It
  reaches exactly the positions that the relation of the pattern relates to the start.
\<close>

section \<open>Characters\<close>

datatype class_item = One char | Span char char | Digits | Words | Spaces | Non_spaces | Letters | Numbers | Pictographs

definition upper_char :: "char \<Rightarrow> char" where
  "upper_char c =
     (let n = (of_char c :: int) in
      if (97 \<le> n \<and> n \<le> 122) \<or> (224 \<le> n \<and> n \<le> 254 \<and> n \<noteq> 247) then char_of (n - 32)
      else if n = 154 \<or> n = 156 \<or> n = 158 then char_of (n - 16)
      else if n = 255 then char_of (159 :: int)
      else c)"

definition is_digit :: "char \<Rightarrow> bool" where
  "is_digit c \<longleftrightarrow> (let n = (of_char c :: int) in 48 \<le> n \<and> n \<le> 57)"

definition is_word :: "char \<Rightarrow> bool" where
  "is_word c \<longleftrightarrow>
     (let n = (of_char c :: int) in
      (48 \<le> n \<and> n \<le> 57) \<or> (65 \<le> n \<and> n \<le> 90) \<or> n = 95 \<or> (97 \<le> n \<and> n \<le> 122))"

text \<open>\<^verbatim>\<open>\p{L}\<close>, \<^verbatim>\<open>\p{N}\<close> and \<^verbatim>\<open>\p{Extended_Pictographic}\<close> on the characters of Windows-1252.\<close>

definition is_letter :: "char \<Rightarrow> bool" where
  "is_letter c \<longleftrightarrow>
     (let n = (of_char c :: int) in
      (65 \<le> n \<and> n \<le> 90) \<or> (97 \<le> n \<and> n \<le> 122)
      \<or> n \<in> {131, 136, 138, 140, 142, 154, 156, 158, 159, 170, 181, 186}
      \<or> (192 \<le> n \<and> n \<noteq> 215 \<and> n \<noteq> 247))"

definition is_number :: "char \<Rightarrow> bool" where
  "is_number c \<longleftrightarrow>
     (let n = (of_char c :: int) in (48 \<le> n \<and> n \<le> 57) \<or> n \<in> {178, 179, 185, 188, 189, 190})"

definition is_pictograph :: "char \<Rightarrow> bool" where
  "is_pictograph c \<longleftrightarrow> (of_char c :: int) \<in> {153, 169, 174}"

definition is_line_break :: "char \<Rightarrow> bool" where
  "is_line_break c \<longleftrightarrow> (let n = (of_char c :: int) in n = 10 \<or> n = 13)"

fun in_item :: "class_item \<Rightarrow> char \<Rightarrow> bool" where
  "in_item (One d) c \<longleftrightarrow> c = d"
| "in_item (Span d e) c \<longleftrightarrow> code_unit d \<le> code_unit c \<and> code_unit c \<le> code_unit e"
| "in_item Digits c \<longleftrightarrow> is_digit c"
| "in_item Words c \<longleftrightarrow> is_word c"
| "in_item Spaces c \<longleftrightarrow> is_ws c"
| "in_item Non_spaces c \<longleftrightarrow> \<not> is_ws c"
| "in_item Letters c \<longleftrightarrow> is_letter c"
| "in_item Numbers c \<longleftrightarrow> is_number c"
| "in_item Pictographs c \<longleftrightarrow> is_pictograph c"

text \<open>With the flag \<^verbatim>\<open>i\<close> a class holds a character of which it holds either case.\<close>

definition in_items :: "bool \<Rightarrow> class_item list \<Rightarrow> char \<Rightarrow> bool" where
  "in_items i its c \<longleftrightarrow>
     list_ex (\<lambda>it. in_item it c \<or> i \<and> (in_item it (lower_char c) \<or> in_item it (upper_char c))) its"

definition in_class :: "bool \<Rightarrow> bool \<Rightarrow> class_item list \<Rightarrow> char \<Rightarrow> bool" where
  "in_class i neg its c \<longleftrightarrow> in_items i its c \<noteq> neg"

section \<open>Patterns and their matches\<close>

datatype rx =
    Eps
  | Cls bool "class_item list"
  | Seq rx rx
  | Alt rx rx
  | Star bool rx
  | Bol
  | Eol
  | Word_edge
  | Ahead bool rx
  | Behind bool bool "class_item list"

text \<open>A position of the subject: the character before it and the characters after it.\<close>

type_synonym pos = "char option \<times> string"

definition at_bol :: "bool \<Rightarrow> pos \<Rightarrow> bool" where
  "at_bol m p \<longleftrightarrow> (case fst p of None \<Rightarrow> True | Some c \<Rightarrow> m \<and> is_line_break c)"

definition at_eol :: "bool \<Rightarrow> pos \<Rightarrow> bool" where
  "at_eol m p \<longleftrightarrow> (case snd p of [] \<Rightarrow> True | c # _ \<Rightarrow> m \<and> is_line_break c)"

definition at_word_edge :: "pos \<Rightarrow> bool" where
  "at_word_edge p \<longleftrightarrow>
     (case fst p of None \<Rightarrow> False | Some c \<Rightarrow> is_word c) \<noteq> (case snd p of [] \<Rightarrow> False | c # _ \<Rightarrow> is_word c)"

definition behind :: "bool \<Rightarrow> bool \<Rightarrow> class_item list \<Rightarrow> pos \<Rightarrow> bool" where
  "behind i neg its p \<longleftrightarrow> (case fst p of None \<Rightarrow> False | Some c \<Rightarrow> in_class i neg its c)"

text \<open>The repetitions of a pattern in backtracking order; \<^verbatim>\<open>g\<close> is the greedy choice.\<close>

function star_ends :: "bool \<Rightarrow> (pos \<Rightarrow> pos list) \<Rightarrow> pos \<Rightarrow> pos list" where
  "star_ends g f p =
     (let more = concat (map (\<lambda>q. if length (snd q) < length (snd p) then star_ends g f q else []) (f p))
      in if g then more @ [p] else p # more)"
  by pat_completeness auto
termination
  by (relation "measure (\<lambda>(g, f, p). length (snd p))") auto

declare star_ends.simps [simp del]

primrec ends :: "bool \<Rightarrow> bool \<Rightarrow> rx \<Rightarrow> pos \<Rightarrow> pos list" where
  "ends i m Eps p = [p]"
| "ends i m (Cls neg its) p =
     (case snd p of [] \<Rightarrow> [] | c # s \<Rightarrow> if in_class i neg its c then [(Some c, s)] else [])"
| "ends i m (Seq r s) p = concat (map (ends i m s) (ends i m r p))"
| "ends i m (Alt r s) p = ends i m r p @ ends i m s p"
| "ends i m (Star g r) p = star_ends g (ends i m r) p"
| "ends i m Bol p = (if at_bol m p then [p] else [])"
| "ends i m Eol p = (if at_eol m p then [p] else [])"
| "ends i m Word_edge p = (if at_word_edge p then [p] else [])"
| "ends i m (Ahead b r) p = (if (ends i m r p \<noteq> []) = b then [p] else [])"
| "ends i m (Behind b neg its) p = (if behind i neg its p = b then [p] else [])"

text \<open>The relation of a pattern between the start and the end of a match.\<close>

primrec sem :: "bool \<Rightarrow> bool \<Rightarrow> rx \<Rightarrow> (pos \<times> pos) set" where
  "sem i m Eps = Id"
| "sem i m (Cls neg its) = {((b, c # s), (Some c, s)) | b c s. in_class i neg its c}"
| "sem i m (Seq r s) = sem i m r O sem i m s"
| "sem i m (Alt r s) = sem i m r \<union> sem i m s"
| "sem i m (Star g r) = (sem i m r)\<^sup>*"
| "sem i m Bol = Id_on {p. at_bol m p}"
| "sem i m Eol = Id_on {p. at_eol m p}"
| "sem i m Word_edge = Id_on {p. at_word_edge p}"
| "sem i m (Ahead b r) = Id_on {p. (p \<in> Domain (sem i m r)) = b}"
| "sem i m (Behind b neg its) = Id_on {p. behind i neg its p = b}"

section \<open>The matcher reaches exactly the related positions\<close>

text \<open>A match only moves forward, and it stays where it is when it consumes nothing.\<close>

definition onward :: "(pos \<times> pos) set" where
  "onward = {(p, q). q = p \<or> length (snd q) < length (snd p)}"

lemma onward_refl [simp]: "(p, p) \<in> onward"
  by (simp add: onward_def)

lemma onward_trans: "trans onward"
  by (auto simp: onward_def trans_def)

lemma onward_Seq: "A \<subseteq> onward \<Longrightarrow> B \<subseteq> onward \<Longrightarrow> A O B \<subseteq> onward"
  using onward_trans by (blast dest: transD)

lemma onward_star: "A \<subseteq> onward \<Longrightarrow> A\<^sup>* \<subseteq> onward"
proof
  fix x :: "pos \<times> pos"
  assume A: "A \<subseteq> onward" and "x \<in> A\<^sup>*"
  then obtain p q where x: "x = (p, q)" and "(p, q) \<in> A\<^sup>*" by (cases x) auto
  from this(2) have "(p, q) \<in> onward"
  proof induction
    case (step y z)
    then show ?case using A onward_trans by (blast dest: transD)
  qed simp
  then show "x \<in> onward" using x by simp
qed

lemma sem_onward: "sem i m r \<subseteq> onward"
proof (induction r)
  case (Cls neg its)
  then show ?case by (auto simp: onward_def)
qed (auto simp: onward_Seq onward_star Id_on_def)

lemma star_ends_set:
  assumes f: "\<And>p. set (f p) = {q. (p, q) \<in> A}" and A: "A \<subseteq> onward"
  shows "set (star_ends g f p) = {q. (p, q) \<in> A\<^sup>*}"
proof (induction "length (snd p)" arbitrary: p rule: less_induct)
  case less
  have ih: "set (star_ends g f q) = {z. (q, z) \<in> A\<^sup>*}" if "length (snd q) < length (snd p)" for q
    using less that by blast
  have "set (star_ends g f p)
      = insert p (\<Union>q \<in> {q. (p, q) \<in> A \<and> length (snd q) < length (snd p)}. {z. (q, z) \<in> A\<^sup>*})"
    using f ih by (subst star_ends.simps) (auto simp: Let_def split: if_splits)
  also have "\<dots> = {z. (p, z) \<in> A\<^sup>*}"
  proof (intro set_eqI iffI)
    fix z
    assume "z \<in> insert p (\<Union>q \<in> {q. (p, q) \<in> A \<and> length (snd q) < length (snd p)}. {z. (q, z) \<in> A\<^sup>*})"
    then show "z \<in> {z. (p, z) \<in> A\<^sup>*}"
      by (auto intro: converse_rtrancl_into_rtrancl)
  next
    fix z
    assume "z \<in> {z. (p, z) \<in> A\<^sup>*}"
    then have "(p, z) \<in> A\<^sup>*" by simp
    then show "z \<in> insert p (\<Union>q \<in> {q. (p, q) \<in> A \<and> length (snd q) < length (snd p)}. {z. (q, z) \<in> A\<^sup>*})"
    proof (induction rule: converse_rtrancl_induct)
      case (step y w)
      then have "w = y \<or> length (snd w) < length (snd y)"
        using A by (auto simp: onward_def)
      then show ?case using step by blast
    qed simp
  qed
  finally show ?case .
qed

lemma reaches_iff: "set xs = {q. (p, q) \<in> A} \<Longrightarrow> xs \<noteq> [] \<longleftrightarrow> p \<in> Domain A"
  by (cases xs) auto

theorem ends_sem: "set (ends i m r p) = {q. (p, q) \<in> sem i m r}"
proof (induction r arbitrary: p)
  case (Cls neg its)
  show ?case
  proof (cases p)
    case (Pair b t)
    then show ?thesis by (cases t) auto
  qed
next
  case (Seq r s)
  then have "set (ends i m (Seq r s) p) = (\<Union>q \<in> {q. (p, q) \<in> sem i m r}. {z. (q, z) \<in> sem i m s})"
    by simp
  also have "\<dots> = {z. (p, z) \<in> sem i m r O sem i m s}" by blast
  finally show ?case by simp
next
  case (Alt r s)
  then show ?case by (simp add: Collect_disj_eq)
next
  case (Star g r)
  then show ?case using star_ends_set [of "ends i m r" "sem i m r" g p] sem_onward by simp
next
  case (Ahead b r)
  have "(ends i m r p \<noteq> []) = (p \<in> Domain (sem i m r))"
    using Ahead by (rule reaches_iff)
  then show ?case by auto
qed auto

section \<open>Reading a pattern\<close>

text \<open>A character of the pattern source: escaped, plain, or a class escape; \<^verbatim>\<open>~b\<close> is \<^verbatim>\<open>Edge_mark\<close>.\<close>

datatype unit_of = Lit char | Syn char | Set_of class_item | Edge_mark

definition hex_digit :: "char \<Rightarrow> int" where
  "hex_digit c =
     (let n = (of_char c :: int) in if n < 58 then n - 48 else if n < 71 then n - 55 else n - 87)"

definition escape_unit :: "char \<Rightarrow> unit_of" where
  "escape_unit c =
     (if c = CHR ''s'' then Set_of Spaces
      else if c = CHR ''S'' then Set_of Non_spaces
      else if c = CHR ''w'' then Set_of Words
      else if c = CHR ''d'' then Set_of Digits
      else if c = CHR ''b'' then Edge_mark
      else if c = CHR ''n'' then Lit (CHR 0x0A)
      else if c = CHR ''r'' then Lit (CHR 0x0D)
      else if c = CHR ''t'' then Lit (CHR 0x09)
      else Lit c)"

definition property_unit :: "string \<Rightarrow> unit_of" where
  "property_unit name =
     Set_of (if name = ''L'' then Letters else if name = ''N'' then Numbers else Pictographs)"

lemma after_brace: "length (dropWhile P (tl t)) - Suc 0 < Suc (Suc (length t))"
  using length_dropWhile_le [of P "tl t"] by simp

function units :: "string \<Rightarrow> unit_of list" where
  "units [] = []"
| "units (c # s) =
     (if c \<noteq> CHR ''~'' then Syn c # units s
      else case s of
          [] \<Rightarrow> []
        | d # t \<Rightarrow>
            if d = CHR ''x'' then Lit (char_of (16 * hex_digit (hd t) + hex_digit (hd (tl t)))) # units (drop 2 t)
            else if d = CHR ''p'' then
              property_unit (takeWhile (\<lambda>e. e \<noteq> CHR ''}'') (tl t))
                # units (tl (dropWhile (\<lambda>e. e \<noteq> CHR ''}'') (tl t)))
            else escape_unit d # units t)"
  by pat_completeness auto
termination
  by (relation "measure length") (auto simp: after_brace)

definition item_of_unit :: "unit_of \<Rightarrow> class_item" where
  "item_of_unit u = (case u of Lit c \<Rightarrow> One c | Syn c \<Rightarrow> One c | Set_of it \<Rightarrow> it | Edge_mark \<Rightarrow> One (CHR 0x08))"

definition span_unit :: "unit_of \<Rightarrow> unit_of \<Rightarrow> class_item" where
  "span_unit u v = (case (item_of_unit u, item_of_unit v) of (One c, One d) \<Rightarrow> Span c d | (it, _) \<Rightarrow> it)"

text \<open>The items of a class up to its closing bracket, and the units after it.\<close>

function class_items :: "unit_of list \<Rightarrow> class_item list \<times> unit_of list" where
  "class_items [] = ([], [])"
| "class_items (u # us) =
     (if u = Syn (CHR '']'') then ([], us)
      else if take 1 us = [Syn (CHR ''-'')] \<and> length us \<ge> 2 \<and> us ! 1 \<noteq> Syn (CHR '']'')
      then (let (its, rest) = class_items (drop 2 us) in (span_unit u (us ! 1) # its, rest))
      else (let (its, rest) = class_items us in (item_of_unit u # its, rest)))"
  by pat_completeness auto
termination
  by (relation "measure length") auto

lemma class_items_length: "length (snd (class_items us)) \<le> length us"
proof (induction us rule: class_items.induct)
  case (2 u us)
  then show ?case by (auto simp: Let_def split: prod.splits)
qed simp

definition read_class :: "unit_of list \<Rightarrow> bool \<times> class_item list \<times> unit_of list" where
  "read_class us =
     (if take 1 us = [Syn (CHR ''^'')] then (True, class_items (tl us)) else (False, class_items us))"

datatype group = Plain | Look_ahead bool | Look_behind bool

datatype rx_token =
    Tok_class bool "class_item list"
  | Tok_open group
  | Tok_close
  | Tok_bar
  | Tok_repeat nat "nat option" bool
  | Tok_bol
  | Tok_eol
  | Tok_edge

definition read_open :: "unit_of list \<Rightarrow> group \<times> unit_of list" where
  "read_open us =
     (if take 2 us = map Syn ''?:'' then (Plain, drop 2 us)
      else if take 2 us = map Syn ''?='' then (Look_ahead True, drop 2 us)
      else if take 2 us = map Syn ''?!'' then (Look_ahead False, drop 2 us)
      else if take 3 us = map Syn ''?<='' then (Look_behind True, drop 3 us)
      else if take 3 us = map Syn ''?<!'' then (Look_behind False, drop 3 us)
      else (Plain, us))"

definition digit_unit :: "unit_of \<Rightarrow> bool" where
  "digit_unit u = (case u of Syn c \<Rightarrow> is_digit c | _ \<Rightarrow> False)"

definition number_of_units :: "unit_of list \<Rightarrow> nat" where
  "number_of_units us = nat (foldl (\<lambda>n u. 10 * n + (case u of Syn c \<Rightarrow> hex_digit c | _ \<Rightarrow> 0)) 0 us)"

text \<open>The bounds of \<^verbatim>\<open>{m}\<close>, \<^verbatim>\<open>{m,}\<close> and \<^verbatim>\<open>{m,n}\<close>.\<close>

definition read_braces :: "unit_of list \<Rightarrow> nat \<times> nat option \<times> unit_of list" where
  "read_braces us =
     (let low = number_of_units (takeWhile digit_unit us); rest = dropWhile digit_unit us in
      if take 1 rest = [Syn (CHR '','')]
      then (let high = takeWhile digit_unit (tl rest) in
            (low, if high = [] then None else Some (number_of_units high),
             tl (dropWhile digit_unit (tl rest))))
      else (low, Some low, tl rest))"

definition read_repeat :: "char \<Rightarrow> unit_of list \<Rightarrow> nat \<times> nat option \<times> unit_of list" where
  "read_repeat c us =
     (if c = CHR ''*'' then (0, None, us)
      else if c = CHR ''+'' then (1, None, us)
      else if c = CHR ''?'' then (0, Some 1, us)
      else read_braces us)"

lemma read_repeat_length:
  "read_repeat c us = (m, n, rest) \<Longrightarrow> length rest \<le> length us"
proof -
  have d: "length (dropWhile P u) \<le> length u" for P :: "unit_of \<Rightarrow> bool" and u
    by (rule length_dropWhile_le)
  have "length (tl (dropWhile digit_unit us)) \<le> length us"
    using d [of digit_unit us] by simp
  moreover have "length (tl (dropWhile digit_unit (tl (dropWhile digit_unit us)))) \<le> length us"
    using d [of digit_unit us] d [of digit_unit "tl (dropWhile digit_unit us)"] by simp
  ultimately show "read_repeat c us = (m, n, rest) \<Longrightarrow> length rest \<le> length us"
    by (auto simp: read_repeat_def read_braces_def Let_def split: if_splits)
qed

lemma read_open_length: "read_open us = (k, rest) \<Longrightarrow> length rest \<le> length us"
  by (auto simp: read_open_def split: if_splits)

lemma read_class_length: "read_class us = (b, its, rest) \<Longrightarrow> length rest \<le> length us"
  using class_items_length [of us] class_items_length [of "tl us"]
  by (auto simp: read_class_def split: if_splits)

definition syntax_token :: "char \<Rightarrow> rx_token" where
  "syntax_token c =
     (if c = CHR '')'' then Tok_close
      else if c = CHR ''|'' then Tok_bar
      else if c = CHR ''^'' then Tok_bol
      else if c = CHR ''$'' then Tok_eol
      else if c = CHR ''.'' then Tok_class True [One (CHR 0x0A), One (CHR 0x0D)]
      else Tok_class False [One c])"

function tokens :: "unit_of list \<Rightarrow> rx_token list" where
  "tokens [] = []"
| "tokens (u # us) =
     (case u of
        Lit c \<Rightarrow> Tok_class False [One c] # tokens us
      | Set_of it \<Rightarrow> Tok_class False [it] # tokens us
      | Edge_mark \<Rightarrow> Tok_edge # tokens us
      | Syn c \<Rightarrow>
          if c = CHR ''['' then (case read_class us of (b, its, rest) \<Rightarrow> Tok_class b its # tokens rest)
          else if c = CHR ''('' then (case read_open us of (k, rest) \<Rightarrow> Tok_open k # tokens rest)
          else if c \<in> {CHR ''*'', CHR ''+'', CHR ''?'', CHR ''{''}
          then (case read_repeat c us of (low, high, rest) \<Rightarrow>
                  if take 1 rest = [Syn (CHR ''?'')] then Tok_repeat low high False # tokens (tl rest)
                  else Tok_repeat low high True # tokens rest)
          else syntax_token c # tokens us)"
  by pat_completeness auto
termination
  by (relation "measure length")
    (auto dest!: sym [THEN read_class_length] sym [THEN read_open_length] sym [THEN read_repeat_length]
      read_class_length read_open_length read_repeat_length)

section \<open>From tokens to a pattern\<close>

primrec repeated :: "nat \<Rightarrow> rx \<Rightarrow> rx \<Rightarrow> rx" where
  "repeated 0 r t = t"
| "repeated (Suc n) r t = Seq r (repeated n r t)"

primrec optional :: "nat \<Rightarrow> bool \<Rightarrow> rx \<Rightarrow> rx" where
  "optional 0 g r = Eps"
| "optional (Suc n) g r = (if g then Alt (Seq r (optional n g r)) Eps else Alt Eps (Seq r (optional n g r)))"

definition quantified :: "nat \<Rightarrow> nat option \<Rightarrow> bool \<Rightarrow> rx \<Rightarrow> rx" where
  "quantified low high g r =
     repeated low r (case high of None \<Rightarrow> Star g r | Some n \<Rightarrow> optional (n - low) g r)"

text \<open>An open group: its kind, its finished alternatives and its current sequence, both reversed.\<close>

type_synonym frame = "group \<times> rx list \<times> rx list"

definition sequence_of :: "rx list \<Rightarrow> rx" where
  "sequence_of rs = (case rs of [] \<Rightarrow> Eps | r # rest \<Rightarrow> fold Seq rest r)"

definition body_of :: "rx list \<Rightarrow> rx list \<Rightarrow> rx" where
  "body_of alts cur = fold Alt alts (sequence_of cur)"

definition group_rx :: "frame \<Rightarrow> rx" where
  "group_rx f =
     (case f of (k, alts, cur) \<Rightarrow>
        let r = body_of alts cur in
        case k of
          Plain \<Rightarrow> r
        | Look_ahead b \<Rightarrow> Ahead b r
        | Look_behind b \<Rightarrow> (case r of Cls neg its \<Rightarrow> Behind b neg its | _ \<Rightarrow> Cls False []))"

fun add_atom :: "rx \<Rightarrow> frame list \<Rightarrow> frame list" where
  "add_atom r ((k, alts, cur) # st) = (k, alts, r # cur) # st"
| "add_atom r [] = []"

fun add_token :: "rx_token \<Rightarrow> frame list \<Rightarrow> frame list" where
  "add_token (Tok_class b its) st = add_atom (Cls b its) st"
| "add_token (Tok_open k) st = (k, [], []) # st"
| "add_token Tok_close (f # st) = add_atom (group_rx f) st"
| "add_token Tok_bar ((k, alts, cur) # st) = (k, sequence_of cur # alts, []) # st"
| "add_token (Tok_repeat low high g) ((k, alts, r # cur) # st) = (k, alts, quantified low high g r # cur) # st"
| "add_token Tok_bol st = add_atom Bol st"
| "add_token Tok_eol st = add_atom Eol st"
| "add_token Tok_edge st = add_atom Word_edge st"
| "add_token _ st = st"

definition js_rx :: "string \<Rightarrow> rx" where
  "js_rx s = (case fold add_token (tokens (units s)) [(Plain, [], [])] of f # _ \<Rightarrow> group_rx f | [] \<Rightarrow> Eps)"

section \<open>Regular expressions and their methods\<close>

datatype regexp = RegExp (ignore_case: bool) (multiline: bool) (pattern: rx)

definition re_of :: "string \<Rightarrow> regexp" where
  "re_of s = RegExp False False (js_rx s)"

definition re_i :: "string \<Rightarrow> regexp" where
  "re_i s = RegExp True False (js_rx s)"

definition re_im :: "string \<Rightarrow> regexp" where
  "re_im s = RegExp True True (js_rx s)"

definition re_m :: "string \<Rightarrow> regexp" where
  "re_m s = RegExp False True (js_rx s)"

definition match_ends :: "regexp \<Rightarrow> pos \<Rightarrow> pos list" where
  "match_ends e = ends (ignore_case e) (multiline e) (pattern e)"

text \<open>The first match at or after a position: the text before it, its text, and the position after it.\<close>

fun rx_find :: "regexp \<Rightarrow> char option \<Rightarrow> string \<Rightarrow> (string \<times> string \<times> pos) option" where
  "rx_find e b [] = (case match_ends e (b, []) of [] \<Rightarrow> None | q # _ \<Rightarrow> Some ([], [], q))"
| "rx_find e b (c # s) =
     (case match_ends e (b, c # s) of
        q # _ \<Rightarrow> Some ([], take (length (c # s) - length (snd q)) (c # s), q)
      | [] \<Rightarrow> (case rx_find e (Some c) s of
                None \<Rightarrow> None
              | Some (pre, found, q) \<Rightarrow> Some (c # pre, found, q)))"

definition rx_test :: "regexp \<Rightarrow> string \<Rightarrow> bool" where
  "rx_test e s \<longleftrightarrow> rx_find e None s \<noteq> None"

text \<open>The positions of a subject, from its start to its end.\<close>

fun positions :: "char option \<Rightarrow> string \<Rightarrow> pos list" where
  "positions b [] = [(b, [])]"
| "positions b (c # s) = (b, c # s) # positions (Some c) s"

lemma rx_find_iff:
  "rx_find e b s \<noteq> None \<longleftrightarrow> (\<exists>p \<in> set (positions b s). match_ends e p \<noteq> [])"
proof (induction e b s rule: rx_find.induct)
  case (1 e b)
  show ?case by (cases "match_ends e (b, [])") simp_all
next
  case (2 e b c s)
  show ?case
    by (cases "match_ends e (b, c # s)"; cases "rx_find e (Some c) s") (use 2 in auto)
qed

lemma rx_test_sem:
  "rx_test e s \<longleftrightarrow>
     (\<exists>p \<in> set (positions None s). p \<in> Domain (sem (ignore_case e) (multiline e) (pattern e)))"
proof -
  have "match_ends e p \<noteq> [] \<longleftrightarrow> p \<in> Domain (sem (ignore_case e) (multiline e) (pattern e))" for p
    unfolding match_ends_def by (rule reaches_iff) (rule ends_sem)
  then show ?thesis
    unfolding rx_test_def rx_find_iff by simp
qed

lemma rx_find_length:
  "rx_find e b s = Some (pre, found, q) \<Longrightarrow> length pre + length (snd q) \<le> length s"
proof (induction e b s arbitrary: pre rule: rx_find.induct)
  case (1 e b)
  then have "q \<in> set (match_ends e (b, []))" by (auto split: list.splits)
  then have "((b, []), q) \<in> onward"
    using ends_sem sem_onward unfolding match_ends_def by blast
  with 1 show ?case by (auto simp: onward_def split: list.splits)
next
  case (2 e b c s)
  show ?case
  proof (cases "match_ends e (b, c # s)")
    case Nil
    with 2 show ?thesis by (fastforce split: option.splits)
  next
    case (Cons p ps)
    with 2(2) have "q \<in> set (match_ends e (b, c # s))" and "pre = []" by auto
    moreover from this(1) have "((b, c # s), q) \<in> onward"
      using ends_sem sem_onward unfolding match_ends_def by blast
    ultimately show ?thesis by (auto simp: onward_def)
  qed
qed

text \<open>All matches from left to right, each with the text before it, and the text after the last one.
  After an empty match the search goes on one character further.\<close>

function rx_pieces :: "regexp \<Rightarrow> char option \<Rightarrow> string \<Rightarrow> (string \<times> string) list \<times> string" where
  "rx_pieces e b s =
     (case rx_find e b s of
        None \<Rightarrow> ([], s)
      | Some (pre, found, (b', rest)) \<Rightarrow>
          if length pre + length rest < length s
          then (case rx_pieces e b' rest of (ms, t) \<Rightarrow> ((pre, found) # ms, t))
          else (case rest of
                  [] \<Rightarrow> ([(pre, found)], [])
                | c # rest' \<Rightarrow>
                    (case rx_pieces e (Some c) rest' of
                       ([], t) \<Rightarrow> ([(pre, found)], c # t)
                     | ((u, f) # ms, t) \<Rightarrow> ((pre, found) # (c # u, f) # ms, t))))"
  by pat_completeness auto
termination
  by (relation "measure (\<lambda>(e, b, s). length s)") (auto dest!: rx_find_length)

declare rx_pieces.simps [simp del]

definition rx_matches :: "regexp \<Rightarrow> string \<Rightarrow> string list" where
  "rx_matches e s = map snd (fst (rx_pieces e None s))"

text \<open>\<^verbatim>\<open>replace\<close> with the flag \<^verbatim>\<open>g\<close> and a replacement without \<^verbatim>\<open>$\<close>; \<^verbatim>\<open>split\<close> by a pattern that matches no
  empty text.\<close>

definition rx_replace :: "regexp \<Rightarrow> string \<Rightarrow> string \<Rightarrow> string" where
  "rx_replace e w s = (case rx_pieces e None s of (ms, t) \<Rightarrow> concat (map (\<lambda>(u, _). u @ w) ms) @ t)"

definition rx_split :: "regexp \<Rightarrow> string \<Rightarrow> string list" where
  "rx_split e s = (case rx_pieces e None s of (ms, t) \<Rightarrow> map fst ms @ [t])"

text \<open>Text with the characters outside ASCII written as in a pattern.\<close>

definition js_text :: "string \<Rightarrow> string" where
  "js_text s = map (\<lambda>u. case u of Lit c \<Rightarrow> c | Syn c \<Rightarrow> c | _ \<Rightarrow> CHR ''?'') (units s)"

end
