(* ===== verification/Email_Copy.thy ===== *)
theory Email_Copy
  imports Regexp Qualification Review
begin

text \<open>
  The copy of an email: its language, its place in the sequence, and the deterministic text around the
  words of the model (\<^verbatim>\<open>email-language.ts\<close>, \<^verbatim>\<open>email-types.ts\<close> and \<^verbatim>\<open>email-render.ts\<close> of
  \<^verbatim>\<open>src/src/domain/email/\<close>). The provenance maps of the renderer are lists in their order.
\<close>

section \<open>Language\<close>

datatype email_language = EN | DE

definition current_fact :: "lead_fact list \<Rightarrow> string \<Rightarrow> lead_fact option" where
  "current_fact facts t =
     find (\<lambda>f. fact_type_str (ff_factType f) = t \<and> ff_isCurrent f \<and> js_trim (ff_value f) \<noteq> []) facts"

definition current_value :: "lead_fact list \<Rightarrow> string \<Rightarrow> string option" where
  "current_value facts t = map_option (\<lambda>f. js_trim (ff_value f)) (current_fact facts t)"

definition DE_COUNTRY :: regexp where
  "DE_COUNTRY = re_i ''^(de|at|ch|germany|deutschland|austria|~xF6sterreich|switzerland|schweiz)$''"

definition DE_TLD :: regexp where
  "DE_TLD = re_i ''~.(de|at|ch)(~/|$|~?)''"

definition resolveEmailLanguage :: "lead_fact list \<Rightarrow> email_language" where
  "resolveEmailLanguage facts =
     (if (case current_value facts ''country'' of Some c \<Rightarrow> rx_test DE_COUNTRY c | None \<Rightarrow> False) then DE
      else if list_ex (\<lambda>t. case current_value facts t of Some v \<Rightarrow> rx_test DE_TLD (js_lower v) | None \<Rightarrow> False)
                [''official_website_url'', ''official_domain'', ''domain'']
      then DE
      else EN)"

definition EN_MARKERS :: regexp where
  "EN_MARKERS = re_i ''~b(?:the|and|your|you|our|with|this|that|would|could|please|appointment)~b''"

definition DE_MARKERS :: regexp where
  "DE_MARKERS =
     re_i ''~b(?:und|der|die|das|Sie|Ihre|k~xF6nnte|w~xFCrde|f~xFCr|auf|eine|einen|nicht|sich)~b''"

definition hasForeignLanguage :: "email_language \<Rightarrow> string list \<Rightarrow> bool" where
  "hasForeignLanguage target segments \<longleftrightarrow>
     list_ex (rx_test (if target = DE then EN_MARKERS else DE_MARKERS)) segments"

section \<open>The place in the sequence\<close>

text \<open>\<^verbatim>\<open>None\<close> is the first email, step 0.\<close>

type_synonym sequence_step = "followup_step option"

definition sequence_step_num :: "sequence_step \<Rightarrow> int" where
  "sequence_step_num s = (case s of None \<Rightarrow> 0 | Some st \<Rightarrow> step_num st)"

record email_sequence_position =
  sq_step :: sequence_step
  sq_threadSubject :: "string option"
  sq_priorMessageBodies :: "string list"

fun PARAGRAPH_SHAPE :: "sequence_step \<Rightarrow> nat \<times> nat" where
  "PARAGRAPH_SHAPE None = (2, 4)"
| "PARAGRAPH_SHAPE (Some Step1) = (1, 3)"
| "PARAGRAPH_SHAPE (Some Step2) = (1, 2)"
| "PARAGRAPH_SHAPE (Some Step3) = (1, 2)"

definition paragraphRangeText :: "sequence_step \<Rightarrow> string" where
  "paragraphRangeText stp =
     (case PARAGRAPH_SHAPE stp of (low, high) \<Rightarrow>
        if low = high
        then ''exactly '' @ show_nat low @ '' short natural paragraph'' @ (if low = 1 then [] else ''s'')
        else show_nat low @ '' to '' @ show_nat high @ '' short natural paragraph'' @ (if high = 1 then [] else ''s''))"

definition INITIAL_EMAIL_SEQUENCE :: email_sequence_position where
  "INITIAL_EMAIL_SEQUENCE = \<lparr>sq_step = None, sq_threadSubject = None, sq_priorMessageBodies = []\<rparr>"

definition RE_PREFIX :: regexp where
  "RE_PREFIX = re_i ''^re:~s''"

definition replySubject :: "string \<Rightarrow> string" where
  "replySubject original =
     (let trimmed = js_trim original in if rx_test RE_PREFIX trimmed then trimmed else ''Re: '' @ trimmed)"

datatype primary_cta = VIEW_CONCEPT | REPLY_FOR_DETAILS

datatype scan_result = PASS | FAIL

datatype alignment_result = Align_PASS | Align_NOT_APPLICABLE | Align_FAIL

datatype evidence_mode = EM_NONE | EM_APPROVED_COMPETITOR_PATTERN_PACKAGE

definition MAX_EMAIL_WORDS :: nat where
  "MAX_EMAIL_WORDS = 120"

definition MAX_SUBJECT_LENGTH :: nat where
  "MAX_SUBJECT_LENGTH = 80"

record email_writer_output =
  subject_options :: "string list"
  selected_subject :: string
  selected_subject_reason :: string
  email_body :: string
  evidence_ids :: "string list"
  strategic_angle :: string
  business_relevance :: string
  urgency_basis :: string
  competitor_evidence_used :: evidence_mode
  primary_cta :: primary_cta
  prohibited_phrase_scan :: scan_result
  punctuation_scan :: scan_result
  genericity_score :: int
  human_style_result :: scan_result
  demo_alignment_result :: alignment_result

section \<open>The inputs of an email\<close>

record email_finding =
  ef_id :: string
  ef_findingRef :: string
  ef_category :: string
  ef_safeForOutreach :: bool

record email_demo_meta =
  mt_id :: string
  mt_status :: string
  mt_ctaKind :: "string option"
  mt_approvedFindingRefs :: "string list"

datatype contact_type = PERSONAL_VERIFIED | GENERIC_OFFICIAL

record email_inputs =
  in_facts :: "lead_fact list"
  in_findings :: "email_finding list"
  in_demo :: "email_demo_meta option"
  in_recipient :: "contact_type option"
  in_threadSubject :: "string option"

definition personalNameAllowed :: "contact_type option \<Rightarrow> bool" where
  "personalNameAllowed recipient \<longleftrightarrow> recipient = Some PERSONAL_VERIFIED"

section \<open>The text around the words of the model\<close>

fun NEUTRAL_GREETING :: "email_language \<Rightarrow> string" where
  "NEUTRAL_GREETING EN = ''Hello,''"
| "NEUTRAL_GREETING DE = ''Hallo,''"

fun NAMED_GREETING :: "email_language \<Rightarrow> string \<Rightarrow> string" where
  "NAMED_GREETING EN name = ''Hello '' @ name @ '',''"
| "NAMED_GREETING DE name = ''Hallo '' @ name @ '',''"

fun CTA_SENTENCE :: "email_language \<Rightarrow> primary_cta \<Rightarrow> string" where
  "CTA_SENTENCE EN VIEW_CONCEPT = ''You can view the concept here: '' @ DEMO_URL_TOKEN"
| "CTA_SENTENCE EN REPLY_FOR_DETAILS = ''If this is relevant, reply and I will share the details.''"
| "CTA_SENTENCE DE VIEW_CONCEPT =
     js_text ''Das Konzept k~xF6nnen Sie hier ansehen: '' @ DEMO_URL_TOKEN"
| "CTA_SENTENCE DE REPLY_FOR_DETAILS =
     js_text ''Wenn das f~xFCr Sie relevant ist, antworten Sie und ich sende Ihnen die Details.''"

fun FINAL_CLOSE_CTA :: "email_language \<Rightarrow> string" where
  "FINAL_CLOSE_CTA EN =
     ''If you would like me to send it, reply yes. If not, no is a complete answer.''"
| "FINAL_CLOSE_CTA DE =
     js_text (''Wenn ich es Ihnen schicken soll, antworten Sie mit Ja. ''
       @ ''Wenn nicht, ist Nein eine vollst~xE4ndige Antwort.'')"

fun SIGNOFF_TEXT :: "email_language \<Rightarrow> string" where
  "SIGNOFF_TEXT EN = ''Best regards,''"
| "SIGNOFF_TEXT DE = js_text ''Beste Gr~xFC~xDFe''"

definition RENDER_BOILERPLATE_PHRASES :: "string list" where
  "RENDER_BOILERPLATE_PHRASES =
     map NEUTRAL_GREETING [EN, DE] @ map SIGNOFF_TEXT [EN, DE]
     @ [CTA_SENTENCE EN VIEW_CONCEPT, CTA_SENTENCE EN REPLY_FOR_DETAILS,
        CTA_SENTENCE DE VIEW_CONCEPT, CTA_SENTENCE DE REPLY_FOR_DETAILS]
     @ [SENDER_NAME_TOKEN]"

text \<open>\<^verbatim>\<open>[...new Set(xs)]\<close>: the first occurrences in their order.\<close>

definition unique :: "'a list \<Rightarrow> 'a list" where
  "unique xs = rev (remdups (rev xs))"

definition GREETING_BREAK :: regexp where
  "GREETING_BREAK = re_of ''[~s,]+''"

definition RENDER_GREETING_WORDS :: "string list" where
  "RENDER_GREETING_WORDS =
     unique (map (\<lambda>g. js_lower (hd (rx_split GREETING_BREAK (js_trim g))))
       (map NEUTRAL_GREETING [EN, DE] @ map (\<lambda>l. NAMED_GREETING l ''x'') [EN, DE]))"

definition ctaSentenceFor :: "email_language \<Rightarrow> primary_cta \<Rightarrow> sequence_step \<Rightarrow> string" where
  "ctaSentenceFor l cta stp =
     (if stp = Some Step3 \<and> cta = REPLY_FOR_DETAILS then FINAL_CLOSE_CTA l else CTA_SENTENCE l cta)"

definition demoLinkAllowed :: "email_demo_meta option \<Rightarrow> bool" where
  "demoLinkAllowed demo \<longleftrightarrow> (case demo of None \<Rightarrow> False | Some d \<Rightarrow> mt_status d = ''APPROVED'')"

record email_validation_context =
  vc_availableEvidenceIds :: "string list"
  vc_factEvidenceIds :: "string list"
  vc_acceptedFindingIds :: "string list"
  vc_approvedDemoFindingIds :: "string list"
  vc_demoLinkAllowed :: bool
  vc_language :: email_language
  vc_sequence :: email_sequence_position

text \<open>The finding of a reference: the last one in a map built from the list.\<close>

definition accepted_by_ref :: "email_finding list \<Rightarrow> string \<Rightarrow> email_finding option" where
  "accepted_by_ref findings ref = find (\<lambda>f. ef_findingRef f = ref) (rev findings)"

definition buildEmailContext :: "email_inputs \<Rightarrow> email_sequence_position \<Rightarrow> email_validation_context" where
  "buildEmailContext inputs pos =
     (let currentFacts = filter (\<lambda>f. ff_isCurrent f \<and> js_trim (ff_value f) \<noteq> []) (in_facts inputs);
          safeFindings = filter ef_safeForOutreach (in_findings inputs);
          refs = (case in_demo inputs of None \<Rightarrow> [] | Some d \<Rightarrow> mt_approvedFindingRefs d)
      in \<lparr>vc_availableEvidenceIds = map ff_id currentFacts @ map ef_id safeFindings,
          vc_factEvidenceIds = map ff_id currentFacts,
          vc_acceptedFindingIds = map ef_id safeFindings,
          vc_approvedDemoFindingIds =
            List.map_filter (\<lambda>ref. map_option ef_id (accepted_by_ref safeFindings ref)) refs,
          vc_demoLinkAllowed = demoLinkAllowed (in_demo inputs),
          vc_language = resolveEmailLanguage (in_facts inputs),
          vc_sequence = pos\<rparr>)"

section \<open>The rendered message\<close>

datatype cta_kind = CTA_reply | CTA_demo_link

record rendered_email =
  rn_subject :: string
  rn_body :: string
  rn_ctaKind :: cta_kind
  rn_hasDemoUrlPlaceholder :: bool
  rn_factInputs :: "(string \<times> fact_type \<times> string) list"
  rn_findingInputs :: "(string \<times> string \<times> string) list"

definition greeting_of :: "email_inputs \<Rightarrow> string" where
  "greeting_of inputs =
     (let l = resolveEmailLanguage (in_facts inputs) in
      case (if personalNameAllowed (in_recipient inputs) then current_fact (in_facts inputs) ''contact_name'' else None) of
        Some f \<Rightarrow> NAMED_GREETING l (js_trim (ff_value f))
      | None \<Rightarrow> NEUTRAL_GREETING l)"

definition rendered_body :: "email_writer_output \<Rightarrow> email_inputs \<Rightarrow> sequence_step \<Rightarrow> string" where
  "rendered_body out inputs stp =
     (let l = resolveEmailLanguage (in_facts inputs) in
      js_join [CHR 0x0A]
        [greeting_of inputs, [], js_trim (email_body out), [], ctaSentenceFor l (primary_cta out) stp, [],
         SIGNOFF_TEXT l, SENDER_NAME_TOKEN])"

definition evidence_facts :: "email_inputs \<Rightarrow> string list \<Rightarrow> (string \<times> fact_type \<times> string) list" where
  "evidence_facts inputs ids =
     List.map_filter (\<lambda>i. map_option (\<lambda>f. (ff_id f, ff_factType f, ''copy.evidence''))
       (find (\<lambda>f. ff_id f = i) (rev (filter ff_isCurrent (in_facts inputs))))) ids"

definition evidence_findings :: "email_inputs \<Rightarrow> string list \<Rightarrow> (string \<times> string \<times> string) list" where
  "evidence_findings inputs ids =
     List.map_filter (\<lambda>i. map_option (\<lambda>f. (ef_id f, ef_findingRef f, ''email:'' @ ef_category f))
       (find (\<lambda>f. ef_id f = i) (rev (filter ef_safeForOutreach (in_findings inputs))))) ids"

definition threaded :: "email_inputs \<Rightarrow> string option" where
  "threaded inputs = (case in_threadSubject inputs of Some t \<Rightarrow> if t = [] then None else Some t | None \<Rightarrow> None)"

definition renderEmail ::
  "email_writer_output \<Rightarrow> email_inputs \<Rightarrow> email_sequence_position \<Rightarrow> app_error + rendered_email" where
  "renderEmail out inputs pos =
     (if threaded inputs \<noteq> None \<and> sq_step pos = None
      then Inl (PlainError ''renderEmail: a threaded email cannot be rendered with the step-0 sequence position'')
      else
        (let body = rendered_body out inputs (sq_step pos);
             named = (if personalNameAllowed (in_recipient inputs)
                      then current_fact (in_facts inputs) ''contact_name'' else None)
         in Inr \<lparr>rn_subject = (case threaded inputs of Some t \<Rightarrow> replySubject t | None \<Rightarrow> selected_subject out),
                 rn_body = body,
                 rn_ctaKind = (if primary_cta out = VIEW_CONCEPT then CTA_demo_link else CTA_reply),
                 rn_hasDemoUrlPlaceholder = js_includes DEMO_URL_TOKEN body,
                 rn_factInputs =
                   (case named of Some f \<Rightarrow> [(ff_id f, ff_factType f, ''greeting.name'')] | None \<Rightarrow> [])
                   @ evidence_facts inputs (evidence_ids out),
                 rn_findingInputs = evidence_findings inputs (evidence_ids out)\<rparr>))"

end
