(* ===== verification/Repetition.thy ===== *)
theory Repetition
  imports Email_Copy "HOL-Library.Sublist"
begin

text \<open>
  The deterministic anti-replay gate of follow-ups (\<^verbatim>\<open>src/src/domain/email/followup-repetition.ts\<close>):
  the content words of a message, the longest run of them that returns, the share of returning pairs of
  words, and the verdict. A quotient is the double nearest to it, as in JavaScript. The longest run is
  computed by the table of the source; it is the length of the longest list of consecutive words that
  the candidate shares with a message already sent.
\<close>

section \<open>Quotients\<close>

function bit_count :: "int \<Rightarrow> nat" where
  "bit_count n = (if n \<le> 0 then 0 else Suc (bit_count (n div 2)))"
  by pat_completeness auto
termination
  by (relation "measure nat") auto

declare bit_count.simps [simp del]

text \<open>Round half to even, and the double nearest to a quotient at most 1.\<close>

definition round_quotient :: "int \<Rightarrow> int \<Rightarrow> int" where
  "round_quotient a b =
     (let q = a div b; r = a mod b in if 2 * r < b \<or> (2 * r = b \<and> even q) then q else q + 1)"

definition double_quotient :: "int \<Rightarrow> int \<Rightarrow> rat" where
  "double_quotient a b =
     (if a = 0 then 0
      else (let k = 53 + bit_count b - bit_count a;
                e = (if a * 2 ^ k div b < 2 ^ 53 then k else k - 1)
            in of_int (round_quotient (a * 2 ^ e) b) / 2 ^ e))"

text \<open>\<^verbatim>\<open>toFixed(2)\<close> of a number that is not negative: of two equally near values the larger.\<close>

definition to_fixed2 :: "rat \<Rightarrow> string" where
  "to_fixed2 x =
     (let n = \<lfloor>100 * x + 1 / 2\<rfloor> in show_int (n div 100) @ ''.'' @ pad_num 2 (n mod 100))"

section \<open>Limits and policy\<close>

definition maxSharedContentRun :: nat where
  "maxSharedContentRun = 4"

definition maxSharedBigramRatio :: rat where
  "maxSharedBigramRatio = double_quotient 15 100"

definition minNovelContentTokens :: nat where
  "minNovelContentTokens = 4"

definition minContentTokensForPhraseAnalysis :: nat where
  "minContentTokensForPhraseAnalysis = 10"

record repetition_policy =
  detectClauseReplay :: bool
  detectPervasiveReuse :: bool
  requireNovelty :: bool

definition repetitionPolicyFor :: "int \<Rightarrow> repetition_policy" where
  "repetitionPolicyFor stp =
     \<lparr>detectClauseReplay = True, detectPervasiveReuse = True, requireNovelty = (stp = 1)\<rparr>"

datatype repetition_reason = VERBATIM_CLAUSE_REPLAY | PERVASIVE_PHRASE_REUSE | NO_NEW_CONTENT

record repetition_analysis =
  ra_repeats :: bool
  ra_reason :: "repetition_reason option"
  ra_longestSharedRun :: nat
  ra_sharedBigramRatio :: rat
  ra_novelContentTokens :: nat
  ra_candidateContentTokens :: nat
  ra_tooShortForPhraseAnalysis :: bool
  ra_policy :: repetition_policy

record repetition_input =
  ri_step :: int
  ri_candidateBody :: string
  ri_priorBodies :: "string list"
  ri_threadSubject :: "string option"

section \<open>Content words\<close>

definition GREETING_LINE_RE :: regexp where
  "GREETING_LINE_RE =
     re_im (''^~s*(?:'' @ js_join ''|'' RENDER_GREETING_WORDS @ '')~b[^~n]*$'')"

definition STOPWORDS :: "string list" where
  "STOPWORDS =
     [''a'', ''about'', ''above'', ''after'', ''again'', ''all'', ''also'', ''am'', ''an'', ''and'',
      ''any'', ''are'', ''as'', ''at'', ''be'', ''been'', ''before'', ''being'', ''below'', ''between'',
      ''both'', ''but'', ''by'', ''can'', ''could'', ''did'', ''do'', ''does'', ''doing'', ''down'',
      ''during'', ''each'', ''few'', ''for'', ''from'', ''further'', ''had'', ''has'', ''have'',
      ''having'', ''he'', ''her'', ''here'', ''hers'', ''him'', ''his'', ''how'', ''i'', ''if'', ''in'',
      ''into'', ''is'', ''it'', ''its'', ''just'', ''me'', ''more'', ''most'', ''my'', ''no'', ''nor'',
      ''not'', ''now'', ''of'', ''off'', ''on'', ''once'', ''only'', ''or'', ''other'', ''ought'',
      ''our'', ''ours'', ''out'', ''over'', ''own'', ''rather'', ''same'', ''she'', ''should'',
      ''simply'', ''so'', ''some'', ''such'', ''than'', ''that'', ''the'', ''their'', ''theirs'',
      ''them'', ''then'', ''there'', ''these'', ''they'', ''this'', ''those'', ''through'', ''to'',
      ''too'', ''under'', ''until'', ''up'', ''very'', ''was'', ''we'', ''were'', ''what'', ''when'',
      ''where'', ''which'', ''while'', ''who'', ''whom'', ''why'', ''will'', ''with'', ''would'',
      ''you'', ''your'', ''yours'',
      ''aber'', ''als'', ''am'', ''an'', ''auch'', ''auf'', ''aus'', ''bei'', ''bin'', ''bis'', ''da'',
      ''dass'', ''dem'', ''den'', ''der'', ''des'', ''die'', ''das'', ''doch'', ''durch'', ''ein'',
      ''eine'', ''einem'', ''einen'', ''einer'', ''eines'', ''er'', ''es'', js_text ''f~xFCr'', ''hat'',
      ''haben'', ''ich'', ''ihr'', ''ihre'', ''im'', ''in'', ''ist'', ''kann'', ''man'', ''mit'',
      ''nach'', ''nicht'', ''noch'', ''nur'', ''oder'', ''sich'', ''sie'', ''sind'', js_text ''~xFCber'',
      ''um'', ''und'', ''von'', ''vor'', ''war'', ''wenn'', ''werden'', ''wie'', ''wir'', ''wird'',
      ''zu'', ''zum'', ''zur'']"

definition ends_with :: "string \<Rightarrow> string \<Rightarrow> bool" where
  "ends_with ending s \<longleftrightarrow> starts_with (rev ending) (rev s)"

definition fold_suffix :: "string \<Rightarrow> string" where
  "fold_suffix token =
     (case find (\<lambda>ending. length token > length ending + 3 \<and> ends_with ending token)
             [''ungen'', ''ing'', ''ed'', ''es'', ''en'', ''s''] of
        Some ending \<Rightarrow> take (length token - length ending) token
      | None \<Rightarrow> token)"

definition normalize_text :: "string \<Rightarrow> string" where
  "normalize_text t =
     js_trim (rx_replace (re_of ''[^~p{L}~p{N}]+'') '' ''
       (rx_replace (re_of ''~{~{[^}]*~}~}'') '' ''
         (rx_replace (re_of ''[~x96~x97]'') ''-''
           (rx_replace (re_of ''[~x93~x94~x84]'') [CHR 0x22]
             (rx_replace (re_of ''[~x91~x92~x82]'') [CHR 0x27] (js_lower t))))))"

text \<open>\<^verbatim>\<open>split(' ').filter(Boolean)\<close>\<close>

definition words_of :: "string \<Rightarrow> string list" where
  "words_of s = filter (\<lambda>w. w \<noteq> []) (rx_split (re_of '' '') s)"

definition strip_boilerplate :: "string \<Rightarrow> string" where
  "strip_boilerplate t =
     fold (\<lambda>phrase s. js_replace_all phrase '' '' s) RENDER_BOILERPLATE_PHRASES
       (rx_replace GREETING_LINE_RE '' '' t)"

definition contentTokens :: "string \<Rightarrow> string option \<Rightarrow> string list" where
  "contentTokens t threadSubject =
     (let subjectTokens = (case threadSubject of
            None \<Rightarrow> [] | Some s \<Rightarrow> if s = [] then [] else map fold_suffix (words_of (normalize_text s)))
      in filter (\<lambda>w. length w > 1 \<and> w \<notin> set subjectTokens \<and> w \<notin> set STOPWORDS)
           (map fold_suffix
             (filter (\<lambda>w. w \<notin> set STOPWORDS) (words_of (normalize_text (strip_boilerplate t))))))"

section \<open>Runs and pairs of words\<close>

fun bigrams :: "string list \<Rightarrow> string list" where
  "bigrams (a # b # ts) = (a @ '' '' @ b) # bigrams (b # ts)"
| "bigrams _ = []"

text \<open>One row of the table from the row above it: \<^verbatim>\<open>table[i][j]\<close> from \<^verbatim>\<open>table[i - 1][j - 1]\<close>. A row
  starts with the cell of column 0.\<close>

definition run_row :: "'a \<Rightarrow> 'a list \<Rightarrow> nat list \<Rightarrow> nat list" where
  "run_row c previous upper =
     0 # map (\<lambda>(p, diagonal). if c = p then diagonal + 1 else 0) (zip previous upper)"

text \<open>The rows of the table and the longest run seen, row by row.\<close>

fun run_table :: "'a list \<Rightarrow> 'a list \<Rightarrow> nat list \<Rightarrow> nat \<Rightarrow> nat" where
  "run_table [] previous upper longest = longest"
| "run_table (c # cs) previous upper longest =
     (let row = run_row c previous upper in run_table cs previous row (fold max row longest))"

definition longestSharedRun :: "'a list \<Rightarrow> 'a list list \<Rightarrow> nat" where
  "longestSharedRun candidate prior =
     fold (\<lambda>previous longest. run_table candidate previous (replicate (length previous + 1) 0) longest) prior 0"

section \<open>The verdict\<close>

definition analyzeFollowupRepetition :: "repetition_input \<Rightarrow> repetition_analysis" where
  "analyzeFollowupRepetition input =
     (let candidate = contentTokens (ri_candidateBody input) (ri_threadSubject input);
          prior = map (\<lambda>body. contentTokens body (ri_threadSubject input)) (ri_priorBodies input);
          priorTokens = concat prior;
          novel = length (remdups (filter (\<lambda>t. t \<notin> set priorTokens) candidate));
          candidateBigrams = bigrams candidate;
          priorBigrams = concat (map bigrams prior);
          shared = length (filter (\<lambda>b. b \<in> set priorBigrams) candidateBigrams);
          ratio = (if candidateBigrams = [] then 0 else double_quotient (int shared) (int (length candidateBigrams)));
          run = longestSharedRun candidate prior;
          tooShort = length candidate < minContentTokensForPhraseAnalysis;
          policy = repetitionPolicyFor (ri_step input);
          analysis = \<lparr>ra_repeats = False, ra_reason = None, ra_longestSharedRun = run,
            ra_sharedBigramRatio = ratio, ra_novelContentTokens = novel,
            ra_candidateContentTokens = length candidate, ra_tooShortForPhraseAnalysis = tooShort,
            ra_policy = policy\<rparr>
      in if prior = [] \<or> priorTokens = [] then analysis
         else if requireNovelty policy \<and> novel < minNovelContentTokens
         then analysis\<lparr>ra_repeats := True, ra_reason := Some NO_NEW_CONTENT\<rparr>
         else if tooShort then analysis
         else if detectClauseReplay policy \<and> maxSharedContentRun \<le> run
         then analysis\<lparr>ra_repeats := True, ra_reason := Some VERBATIM_CLAUSE_REPLAY\<rparr>
         else if detectPervasiveReuse policy \<and> maxSharedBigramRatio \<le> ratio
         then analysis\<lparr>ra_repeats := True, ra_reason := Some PERVASIVE_PHRASE_REUSE\<rparr>
         else analysis)"

section \<open>The table finds the longest common run\<close>

text \<open>The length of the longest common suffix of two lists, by their reverses.\<close>

fun agree :: "'a list \<Rightarrow> 'a list \<Rightarrow> nat" where
  "agree (a # as) (b # bs) = (if a = b then Suc (agree as bs) else 0)"
| "agree _ _ = 0"

definition common_end :: "'a list \<Rightarrow> 'a list \<Rightarrow> nat" where
  "common_end us vs = agree (rev us) (rev vs)"

lemma common_end_snoc: "common_end (us @ [a]) (vs @ [b]) = (if a = b then Suc (common_end us vs) else 0)"
  by (simp add: common_end_def)

lemma common_end_Nil: "common_end us [] = 0" "common_end [] vs = 0"
  by (cases "rev us"; simp add: common_end_def) (simp add: common_end_def)

text \<open>The row below a list of words holds the longest common end with every prefix of the message.\<close>

definition row_of :: "'a list \<Rightarrow> 'a list \<Rightarrow> nat list" where
  "row_of us previous = map (\<lambda>j. common_end us (take j previous)) [0..<Suc (length previous)]"

lemma row_start: "row_of [] previous = replicate (length previous + 1) 0"
  by (auto simp: row_of_def common_end_Nil map_replicate_const simp del: upt_Suc)

lemma run_row_next: "run_row c previous (row_of us previous) = row_of (us @ [c]) previous"
proof (rule nth_equalityI)
  show "length (run_row c previous (row_of us previous)) = length (row_of (us @ [c]) previous)"
    by (simp add: run_row_def row_of_def)
  fix j
  assume "j < length (run_row c previous (row_of us previous))"
  then have j: "j < Suc (length previous)" by (simp add: run_row_def row_of_def)
  show "run_row c previous (row_of us previous) ! j = row_of (us @ [c]) previous ! j"
  proof (cases j)
    case 0
    then show ?thesis by (simp add: run_row_def row_of_def common_end_Nil del: upt_Suc)
  next
    case (Suc k)
    then have k: "k < length previous" using j by simp
    then have "take j previous = take k previous @ [previous ! k]"
      using Suc by (simp add: take_Suc_conv_app_nth)
    moreover have "row_of us previous ! k = common_end us (take k previous)"
      using k unfolding row_of_def by (subst nth_map) (auto simp del: upt_Suc)
    moreover have "row_of (us @ [c]) previous ! j = common_end (us @ [c]) (take j previous)"
      using j unfolding row_of_def by (subst nth_map) (auto simp del: upt_Suc)
    moreover have "k < length (row_of us previous)"
      using k by (simp add: row_of_def)
    ultimately show ?thesis
      using Suc k by (simp add: run_row_def common_end_snoc)
  qed
qed

lemma run_table_value:
  "run_table cs previous (row_of us previous) longest
    = fold max (concat (map (\<lambda>i. row_of (us @ take (Suc i) cs) previous) [0..<length cs])) longest"
proof (induction cs arbitrary: us longest)
  case (Cons c cs)
  have "map (\<lambda>i. row_of (us @ take (Suc i) (c # cs)) previous) [0..<length (c # cs)]
      = row_of (us @ [c]) previous
        # map (\<lambda>i. row_of ((us @ [c]) @ take (Suc i) cs) previous) [0..<length cs]"
    by (simp add: upt_conv_Cons map_Suc_upt [symmetric] comp_def del: upt_Suc)
  then show ?case
    using Cons [of "us @ [c]"] by (simp add: run_row_next Let_def)
qed simp

text \<open>The longest common end is a common end, and no common end is longer.\<close>

lemma agree_prefix: "take (agree as bs) as = take (agree as bs) bs"
  by (induction as bs rule: agree.induct) auto

lemma agree_length: "agree as bs \<le> length as" "agree as bs \<le> length bs"
  by (induction as bs rule: agree.induct) auto

lemma agree_largest: "prefix w as \<Longrightarrow> prefix w bs \<Longrightarrow> length w \<le> agree as bs"
proof (induction as bs arbitrary: w rule: agree.induct)
  case (1 a as b bs)
  show ?case
  proof (cases w)
    case (Cons c w')
    then have "c = a" "c = b" "prefix w' as" "prefix w' bs" using 1(2,3) by auto
    then show ?thesis using 1(1) Cons by simp
  qed simp
qed auto

definition common_run :: "'a list \<Rightarrow> 'a list \<Rightarrow> 'a list \<Rightarrow> bool" where
  "common_run w us vs \<longleftrightarrow> sublist w us \<and> sublist w vs"

lemma common_end_run: "\<exists>w. length w = common_end us vs \<and> suffix w us \<and> suffix w vs"
proof -
  let ?n = "agree (rev us) (rev vs)"
  let ?w = "rev (take ?n (rev us))"
  have "suffix ?w us"
    unfolding suffix_to_prefix by (simp add: take_is_prefix)
  moreover have "suffix ?w vs"
    unfolding suffix_to_prefix rev_rev_ident by (subst agree_prefix) (rule take_is_prefix)
  moreover have "length ?w = common_end us vs"
    using agree_length(1) [of "rev us" "rev vs"] by (simp add: common_end_def)
  ultimately show ?thesis by blast
qed

lemma common_end_largest: "suffix w us \<Longrightarrow> suffix w vs \<Longrightarrow> length w \<le> common_end us vs"
  using agree_largest [of "rev w" "rev us" "rev vs"] by (simp add: common_end_def suffix_to_prefix)

text \<open>The cells of the table are the longest common ends of the prefixes of the two lists.\<close>

definition cells :: "'a list \<Rightarrow> 'a list \<Rightarrow> nat set" where
  "cells cs previous =
     {common_end (take (Suc i) cs) (take j previous) | i j. i < length cs \<and> j \<le> length previous}"

lemma fold_max_le: "fold max xs (k :: nat) \<le> n \<longleftrightarrow> k \<le> n \<and> (\<forall>x \<in> set xs. x \<le> n)"
  by (induction xs arbitrary: k) auto

lemma run_table_le:
  "run_table cs previous (replicate (length previous + 1) 0) k \<le> n
    \<longleftrightarrow> k \<le> n \<and> (\<forall>w. common_run w cs previous \<longrightarrow> length w \<le> n)"
proof -
  have set_rows: "set (concat (map (\<lambda>i. row_of (take (Suc i) cs) previous) [0..<length cs])) = cells cs previous"
    by (force simp: row_of_def cells_def less_Suc_eq_le simp del: upt_Suc)
  have "run_table cs previous (replicate (length previous + 1) 0) k \<le> n
      \<longleftrightarrow> k \<le> n \<and> (\<forall>x \<in> cells cs previous. x \<le> n)"
    using run_table_value [of cs previous "[]" k] set_rows
    unfolding row_start by (simp add: fold_max_le)
  moreover have "(\<forall>x \<in> cells cs previous. x \<le> n) \<longleftrightarrow> (\<forall>w. common_run w cs previous \<longrightarrow> length w \<le> n)"
  proof
    assume le: "\<forall>x \<in> cells cs previous. x \<le> n"
    show "\<forall>w. common_run w cs previous \<longrightarrow> length w \<le> n"
    proof (intro allI impI)
      fix w
      assume "common_run w cs previous"
      then obtain p q p' q' where cs: "cs = p @ w @ q" and prev: "previous = p' @ w @ q'"
        by (auto simp: common_run_def sublist_def)
      show "length w \<le> n"
      proof (cases w)
        case (Cons a w')
        let ?i = "length p + length w'" and ?j = "length p' + length w"
        have "take (Suc ?i) cs = p @ w" "take ?j previous = p' @ w"
          using cs prev Cons by simp_all
        moreover have "length w \<le> common_end (p @ w) (p' @ w)"
          by (rule common_end_largest) (auto simp: suffix_def)
        moreover have "?i < length cs" "?j \<le> length previous"
          using cs prev Cons by simp_all
        ultimately have "\<exists>x \<in> cells cs previous. length w \<le> x"
          unfolding cells_def by (metis (mono_tags, lifting) mem_Collect_eq)
        then show ?thesis using le by fastforce
      qed simp
    qed
  next
    assume runs: "\<forall>w. common_run w cs previous \<longrightarrow> length w \<le> n"
    show "\<forall>x \<in> cells cs previous. x \<le> n"
    proof
      fix x
      assume "x \<in> cells cs previous"
      then obtain i j where x: "x = common_end (take (Suc i) cs) (take j previous)"
        by (auto simp: cells_def)
      obtain w where w: "length w = x" "suffix w (take (Suc i) cs)" "suffix w (take j previous)"
        using common_end_run x by metis
      then have "sublist w cs" "sublist w previous"
        by (meson suffix_imp_sublist sublist_order.order_trans sublist_take)+
      then show "x \<le> n"
        using runs w(1) by (auto simp: common_run_def)
    qed
  qed
  ultimately show ?thesis by simp
qed

lemma longestSharedRun_le:
  "longestSharedRun candidate prior \<le> n
    \<longleftrightarrow> (\<forall>previous \<in> set prior. \<forall>w. common_run w candidate previous \<longrightarrow> length w \<le> n)"
proof -
  have "fold (\<lambda>previous longest. run_table candidate previous (replicate (length previous + 1) 0) longest) prior k \<le> n
      \<longleftrightarrow> k \<le> n \<and> (\<forall>previous \<in> set prior. \<forall>w. common_run w candidate previous \<longrightarrow> length w \<le> n)" for k
  proof (induction prior arbitrary: k)
    case (Cons previous prior)
    show ?case
      unfolding fold_simps comp_apply Cons.IH run_table_le by auto
  qed simp
  from this [of 0] show ?thesis
    by (simp add: longestSharedRun_def)
qed

end
