(* ===== verification/Email_Gate.thy ===== *)
theory Email_Gate
  imports Repetition
begin

text \<open>
  The deterministic gates of an email: the rules for the words of the model
  (\<^verbatim>\<open>email-validation.ts\<close>), the approval gate over the answer of the reviewer
  (\<^verbatim>\<open>email-review-gate.ts\<close>), the denylist of a deterministic finding
  (\<^verbatim>\<open>src/src/domain/deterministic-finding/prohibited.ts\<close>) and the gate of an email that the operator
  wrote (\<^verbatim>\<open>operator-email.ts\<close>). Sets of ids are lists.
\<close>

section \<open>The patterns\<close>

definition URL_RE :: regexp where
  "URL_RE = re_i ''~bhttps?:~/~/|~bwww~.|~b[a-z0-9-]+~.(?:com|de|net|org|io|co|uk|eu|example)~b''"

definition METRIC_RE :: regexp where
  "METRIC_RE = re_i
     (''~b~d+~s?%|~b~d[~d,.]*~s+(?:visitors?|clicks?|leads?|customers?|patients?|sales|conversions?|''
      @ ''rankings?|positions?)~b'')"

definition PERFORMANCE_RE :: regexp where
  "PERFORMANCE_RE = re_i
     (''~b(?:revenue|traffic|rankings?|conversion rate|roi|return on investment|double (?:your|the)|triple|''
      @ ''boost (?:your )?sales|more (?:patients|customers|leads)|lose (?:customers|patients)|guaranteed?)~b'')"

definition FAKE_URGENCY_RE :: regexp where
  "FAKE_URGENCY_RE = re_i
     (''~b(?:act now|urgent(?:ly)?|immediately|last chance|don~x27?t miss|limited time|''
      @ ''only available this week|hurry|expires soon|nur diese woche|letzte chance|sofort handeln)~b'')"

definition UNSUPPORTED_BEHAVIOR_RE :: regexp where
  "UNSUPPORTED_BEHAVIOR_RE = re_i
     (''~b(?:visitors?|patients?|customers?)~s+(?:are|will be|werden|w~xFCrden)~s+''
      @ ''(?:leaving|leave|abandon|lost|abspringen|verlassen)~b'')"

definition COMPETITOR_RE :: regexp where
  "COMPETITOR_RE = re_i
     (''~b(?:competitors?|competition|other (?:clinics?|practices?|businesses)|market leaders?|mitbewerber|''
      @ ''konkurrenz|andere (?:kliniken|praxen|unternehmen))~b'')"

definition DEMO_MENTION_RE :: regexp where
  "DEMO_MENTION_RE = re_i
     ''~b(?:demo|mock-?up|redesign|concept|preview|prototype|mockup|konzept|entwurf|vorschau)~b''"

definition CTA_IN_BODY_RE :: regexp where
  "CTA_IN_BODY_RE = re_i
     (''~b(?:reply|respond|book a call|schedule a call|call me|take a look|view (?:the|this)|open (?:the|this)|''
      @ ''(?<!-)click(?!-)|visit (?:the|this|our|your|us|me)|antworten sie|schreiben sie mir|''
      @ ''termin vereinbaren|ansehen|~xF6ffnen sie|klicken sie)~b'')"

definition GENERIC_OPENING_RE :: regexp where
  "GENERIC_OPENING_RE = re_i
     (''^(?:i (?:just )?(?:wanted to|thought i(?:~x27d| would)|came across)|ich wollte mich kurz|''
      @ ''ich dachte,? ich|in today~x27?s|in der heutigen|i hope|ich hoffe)'')"

definition IMPLEMENTATION_JARGON_RE :: regexp where
  "IMPLEMENTATION_JARGON_RE = re_i
     ''%20|~bhref~b|~btel:|~bencoded spaces?~b|~bleading space~b|~bphone target~b''"

definition MARKDOWN_RE :: regexp where
  "MARKDOWN_RE = re_m
     (''(?:^|~n)~s{0,3}(?:#{1,6}~s|[-*+]~s|~d+~.~s|>~s)|~[[^~]]+~]~([^)]+~)|`{1,3}|~*~*|__'')"

definition EMOJI_RE :: regexp where
  "EMOJI_RE = re_of ''~p{Extended_Pictographic}''"

definition REPEATED_COMMA_RE :: regexp where
  "REPEATED_COMMA_RE = re_of '',~s*,''"

definition CAUTIOUS_RE :: regexp where
  "CAUTIOUS_RE = re_i
     (''~b(?:perhaps|maybe|possibly|might|could potentially|should perhaps be reviewed|vielleicht|''
      @ ''m~xF6glicherweise|eventuell|k~xF6nnte m~xF6glicherweise|sollte vielleicht gepr~xFCft werden)~b'')"

definition FORBIDDEN_PHRASES :: "string list" where
  "FORBIDDEN_PHRASES = map js_text
     [''in der heutigen digitalen welt'', ''in der heutigen schnelllebigen zeit'',
      ''es ist wichtig zu beachten'', ''wir freuen uns, ihnen mitzuteilen'',
      ''ma~xDFgeschneiderte l~xF6sung'', ''auf das n~xE4chste level bringen'', ''revolutionieren'',
      ''optimieren sie ihre online-pr~xE4senz'', ''potenzial voll aussch~xF6pfen'',
      ''nahtlose benutzererfahrung'', ''ich wollte mich kurz melden'',
      ''ich hoffe, diese nachricht erreicht sie gut'', ''k~xF6nnte m~xF6glicherweise'',
      ''in today~x27s digital world'', ''in today~x92s digital world'',
      ''in today~x27s fast-paced environment'', ''in today~x92s fast-paced environment'',
      ''i hope this email finds you well'', ''take your business to the next level'',
      ''unlock your full potential'', ''cutting-edge solution'', ''seamless user experience'',
      ''revolutionize your online presence'', ''just wanted to reach out'', ''game-changing'',
      ''tailored solution'']"

definition GENERIC_SUBJECTS :: "regexp list" where
  "GENERIC_SUBJECTS = map re_i
     [''^(?:website idea|quick question|improve your website|new website concept|''
        @ ''a suggestion for your website)(?:~s+for~s+.+)?$'',
      ''^(?:website-idee|kurze frage|website verbessern|neues website-konzept|''
        @ ''vorschlag f~xFCr ihre website)(?:~s+f~xFCr~s+.+)?$'',
      ''^(?:a )?quick note (?:on|about) (?:your|the) (?:practice )?website$'',
      ''^(?:website|webseite|homepage)~s*(?:idea|note|suggestion|idee|hinweis|vorschlag)?$'']"

definition REVEALING_SUBJECTS :: "regexp list" where
  "REVEALING_SUBJECTS = map re_i
     [''~b(?:improve|improving|boost|boosting|optimi[sz]e|optimising|optimizing|fix|fixing|increase|''
        @ ''increasing|upgrade|upgrading|enhance|enhancing|streamline|streamlining)~b[^.!?]*~b(?:booking|''
        @ ''bookings|website|web~s?site|site|appointment|appointments|conversion|conversions|''
        @ ''enquir(?:y|ies)|contact form|seo|checkout|funnel)~b'',
      ''~b(?:booking|bookings|website|web~s?site|homepage|appointment|appointments|conversion|''
        @ ''conversions|enquir(?:y|ies)|checkout|seo)~b[^.!?]*~b(?:suggestion|suggestions|idea|ideas|''
        @ ''opportunity|opportunities|improvement|improvements|tip|tips|fix|fixes|path)~b'',
      ''~b(?:verbessern|verbessere|optimieren|optimiere|steigern|steigere|erh~xF6hen|erh~xF6he|beheben)~b''
        @ ''[^.!?]*~b(?:buchung|buchungen|website|webseite|homepage|termin(?:e|buchung)?|conversion|''
        @ ''kontaktformular|anfrage)~b'',
      ''~b(?:buchung|buchungen|website|webseite|homepage|termin(?:e)?|conversion|kontaktformular)~b''
        @ ''[^.!?]*~b(?:vorschlag|idee|chance|m~xF6glichkeit|verbesserung|tipp|hinweis)~b'']"

section \<open>The rules for the words of the model\<close>

definition wordCount :: "string \<Rightarrow> nat" where
  "wordCount v = length (filter (\<lambda>w. w \<noteq> []) (rx_split (re_of ''~s+'') (js_trim v)))"

definition occurrences :: "string \<Rightarrow> regexp \<Rightarrow> nat" where
  "occurrences v e = length (rx_matches e v)"

definition isGenericSubject :: "string \<Rightarrow> bool" where
  "isGenericSubject subject \<longleftrightarrow>
     (let s = js_trim subject in length s < 8 \<or> list_ex (\<lambda>p. rx_test p s) GENERIC_SUBJECTS)"

definition isRevealingSubject :: "string \<Rightarrow> bool" where
  "isRevealingSubject subject \<longleftrightarrow> list_ex (\<lambda>p. rx_test p (js_trim subject)) REVEALING_SUBJECTS"

definition flag :: "bool \<Rightarrow> string \<Rightarrow> string list" where
  "flag b v = (if b then [v] else [])"

definition numbered_subjects :: "string list \<Rightarrow> (string \<times> string) list" where
  "numbered_subjects subjects = zip subjects (map (\<lambda>i. show_nat (Suc i)) [0..<length subjects])"

definition validateSubjects ::
  "email_writer_output \<Rightarrow> string list \<Rightarrow> email_sequence_position \<Rightarrow> string list" where
  "validateSubjects out subjects pos =
     (let selected = js_trim (selected_subject out) in
      if sq_step pos = None
      then flag (length (remdups (map js_lower subjects)) \<noteq> 3) ''subject_options_not_unique''
        @ flag (selected \<notin> set subjects) ''selected_subject_not_in_options''
        @ concat (map (\<lambda>(s, n). flag (isGenericSubject s) (''generic_subject:'' @ n)
            @ flag (isRevealingSubject s) (''subject_reveals_finding:'' @ n)) (numbered_subjects subjects))
      else
        (let thread = (case sq_threadSubject pos of None \<Rightarrow> [] | Some t \<Rightarrow> js_trim t) in
         if thread = [] then [''followup_thread_subject_missing'']
         else concat (map (\<lambda>(s, n). flag (replySubject s \<noteq> replySubject thread)
                (''followup_subject_not_thread_subject:'' @ n)) (numbered_subjects subjects))
              @ flag (replySubject selected \<noteq> replySubject thread)
                  ''followup_selected_subject_not_thread_subject''))"

fun cta_str :: "primary_cta \<Rightarrow> string" where
  "cta_str VIEW_CONCEPT = ''VIEW_CONCEPT''"
| "cta_str REPLY_FOR_DETAILS = ''REPLY_FOR_DETAILS''"

definition validateSequenceCta :: "email_writer_output \<Rightarrow> email_sequence_position \<Rightarrow> string list" where
  "validateSequenceCta out pos =
     flag (sq_step pos = Some Step3 \<and> primary_cta out \<noteq> REPLY_FOR_DETAILS)
       (''final_step_requires_binary_reply_cta:'' @ cta_str (primary_cta out))"

fun GENERICITY_CEILING :: "sequence_step \<Rightarrow> int option" where
  "GENERICITY_CEILING None = Some 40"
| "GENERICITY_CEILING (Some Step1) = Some 40"
| "GENERICITY_CEILING (Some Step2) = None"
| "GENERICITY_CEILING (Some Step3) = None"

fun reason_str :: "repetition_reason option \<Rightarrow> string" where
  "reason_str (Some VERBATIM_CLAUSE_REPLAY) = ''VERBATIM_CLAUSE_REPLAY''"
| "reason_str (Some PERVASIVE_PHRASE_REUSE) = ''PERVASIVE_PHRASE_REUSE''"
| "reason_str (Some NO_NEW_CONTENT) = ''NO_NEW_CONTENT''"
| "reason_str None = ''UNKNOWN''"

definition validateFollowupDoesNotReplay :: "string \<Rightarrow> email_sequence_position \<Rightarrow> string list" where
  "validateFollowupDoesNotReplay body pos =
     (if sq_step pos = None then []
      else if sq_priorMessageBodies pos = [] then [''followup_prior_messages_missing'']
      else
        (let a = analyzeFollowupRepetition
                   \<lparr>ri_step = sequence_step_num (sq_step pos), ri_candidateBody = body,
                    ri_priorBodies = sq_priorMessageBodies pos, ri_threadSubject = sq_threadSubject pos\<rparr>
         in if \<not> ra_repeats a then []
            else [''followup_repeats_prior_message'',
                  ''followup_repetition:'' @ reason_str (ra_reason a)
                    @ '':run='' @ show_nat (ra_longestSharedRun a)
                    @ '':reuse='' @ to_fixed2 (ra_sharedBigramRatio a)
                    @ '':novel='' @ show_nat (ra_novelContentTokens a)]))"

fun language_str :: "email_language \<Rightarrow> string" where
  "language_str EN = ''en''"
| "language_str DE = ''de''"

definition copy_subjects :: "email_writer_output \<Rightarrow> string list" where
  "copy_subjects out = map js_trim (subject_options out)"

definition copy_segments :: "email_writer_output \<Rightarrow> string list" where
  "copy_segments out = copy_subjects out @ [js_trim (email_body out)]"

definition model_text :: "email_writer_output \<Rightarrow> string" where
  "model_text out = js_join [CHR 0x0A]
     (copy_segments out
      @ [selected_subject_reason out, strategic_angle out, business_relevance out, urgency_basis out])"

definition paragraphs_of :: "string \<Rightarrow> string list" where
  "paragraphs_of body = filter (\<lambda>p. p \<noteq> []) (map js_trim (rx_split (re_of ''~n~s*~n'') body))"

text \<open>The rules on the shape of the body and on the evidence.\<close>

definition shape_violations :: "email_writer_output \<Rightarrow> email_validation_context \<Rightarrow> string list" where
  "shape_violations out ctx =
     (let body = js_trim (email_body out); paragraphs = paragraphs_of body;
          ids = evidence_ids out in
      (case GENERICITY_CEILING (sq_step (vc_sequence ctx)) of
         None \<Rightarrow> []
       | Some most \<Rightarrow> flag (genericity_score out > most)
           (''genericity_score_too_high:'' @ show_int (genericity_score out)))
      @ (case PARAGRAPH_SHAPE (sq_step (vc_sequence ctx)) of (low, high) \<Rightarrow>
           flag (length paragraphs < low \<or> length paragraphs > high)
             (''unnatural_paragraph_count:'' @ show_nat (length paragraphs)))
      @ flag (wordCount body > MAX_EMAIL_WORDS) (''body_too_long:'' @ show_nat (wordCount body))
      @ flag (rx_test GENERIC_OPENING_RE (case paragraphs of p # _ \<Rightarrow> p | [] \<Rightarrow> [])) ''generic_opening''
      @ flag (ids = []) ''missing_evidence_ids''
      @ flag (length (remdups ids) \<noteq> length ids) ''duplicate_evidence_ids''
      @ concat (map (\<lambda>i. flag (i \<notin> set (vc_availableEvidenceIds ctx)) (''evidence_id_not_available:'' @ i)) ids)
      @ flag (\<not> list_ex (\<lambda>i. i \<in> set (vc_acceptedFindingIds ctx)) ids) ''missing_finding_evidence'')"

text \<open>The rules on the wording.\<close>

definition wording_violations :: "email_writer_output \<Rightarrow> string list" where
  "wording_violations out =
     (let body = js_trim (email_body out); t = model_text out; segments = copy_segments out in
      flag (rx_test URL_RE t) ''contains_url''
      @ flag (rx_test METRIC_RE t) ''contains_metric_claim''
      @ flag (rx_test PERFORMANCE_RE t) ''contains_performance_claim''
      @ flag (rx_test FAKE_URGENCY_RE t) ''contains_fake_urgency''
      @ flag (rx_test UNSUPPORTED_BEHAVIOR_RE t) ''contains_unsupported_customer_behavior''
      @ (if competitor_evidence_used out = EM_APPROVED_COMPETITOR_PATTERN_PACKAGE
         then flag (list_ex (rx_test COMPETITOR_RE) (copy_subjects out)) ''competitor_language_in_subject''
         else flag (rx_test COMPETITOR_RE t \<or> competitor_evidence_used out \<noteq> EM_NONE)
           ''unsupported_competitor_language'')
      @ flag (rx_test CTA_IN_BODY_RE body) ''cta_in_model_body''
      @ flag (rx_test IMPLEMENTATION_JARGON_RE t) ''contains_implementation_jargon''
      @ concat (map (\<lambda>p. flag (js_includes p (js_lower t)) (''forbidden_phrase:'' @ p)) FORBIDDEN_PHRASES)
      @ flag (occurrences t CAUTIOUS_RE > 2) ''excessive_cautious_wording''
      @ flag (list_ex (js_includes [CHR 0x97]) segments) ''contains_em_dash''
      @ flag (list_ex (js_includes [CHR 0x96]) segments) ''contains_en_dash_separator''
      @ flag (list_ex (js_includes ''--'') segments) ''contains_double_hyphen''
      @ flag (list_ex (rx_test REPEATED_COMMA_RE) segments) ''contains_repeated_commas''
      @ flag (rx_test MARKDOWN_RE body) ''contains_markdown''
      @ flag (rx_test EMOJI_RE t) ''contains_emoji''
      @ flag (length (rx_matches (re_of '':'') (rx_replace (re_of ''~b~d{1,2}:~d{2}~b'') [] body)) > 2)
          ''excessive_colons''
      @ flag (length (rx_matches (re_of '';'') body) > 1) ''semicolon_heavy''
      @ flag (prohibited_phrase_scan out \<noteq> PASS) ''writer_prohibited_phrase_scan_failed''
      @ flag (punctuation_scan out \<noteq> PASS) ''writer_punctuation_scan_failed''
      @ flag (human_style_result out \<noteq> PASS) ''writer_human_style_failed'')"

text \<open>The rules that bind a demo to an approved one, and the language.\<close>

definition demo_violations :: "email_writer_output \<Rightarrow> email_validation_context \<Rightarrow> string list" where
  "demo_violations out ctx =
     (let body = js_trim (email_body out); t = model_text out; mentionsDemo = rx_test DEMO_MENTION_RE body in
      (if primary_cta out = VIEW_CONCEPT
       then flag (\<not> vc_demoLinkAllowed ctx) ''demo_cta_without_approved_demo''
         @ flag (\<not> mentionsDemo) ''demo_value_not_explained''
         @ flag (demo_alignment_result out \<noteq> Align_PASS) ''demo_alignment_not_passed''
         @ flag (vc_approvedDemoFindingIds ctx = []) ''approved_demo_has_no_finding_bindings''
         @ flag (\<not> list_ex (\<lambda>i. i \<in> set (vc_approvedDemoFindingIds ctx)) (evidence_ids out))
             ''demo_claim_not_bound_to_demo_finding''
       else flag (demo_alignment_result out \<noteq> Align_NOT_APPLICABLE) ''unexpected_demo_alignment_result''
         @ flag mentionsDemo ''mentions_demo_without_demo_cta'')
      @ flag (\<not> vc_demoLinkAllowed ctx \<and> mentionsDemo) ''mentions_demo_without_approved_demo''
      @ flag (js_includes DEMO_URL_TOKEN t) ''model_emitted_demo_url_token''
      @ flag (rx_test (re_i ''~bconversion hub~b'') t
          \<and> \<not> rx_test (re_i ''~b(?:booking|enquir|contact|appointment|action|patient|customer|conversion path)~b'')
                (business_relevance out @ '' '' @ body)) ''forced_conversion_hub_language''
      @ flag (hasForeignLanguage (vc_language ctx) (copy_segments out))
          (''mixed_language:expected_'' @ language_str (vc_language ctx)))"

definition email_violations :: "email_writer_output \<Rightarrow> email_validation_context \<Rightarrow> string list" where
  "email_violations out ctx =
     validateSubjects out (copy_subjects out) (vc_sequence ctx)
     @ validateFollowupDoesNotReplay (js_trim (email_body out)) (vc_sequence ctx)
     @ validateSequenceCta out (vc_sequence ctx)
     @ shape_violations out ctx
     @ wording_violations out
     @ demo_violations out ctx"

definition validateEmail :: "email_writer_output \<Rightarrow> email_validation_context \<Rightarrow> bool \<times> string list" where
  "validateEmail out ctx = (email_violations out ctx = [], unique (email_violations out ctx))"

section \<open>The approval gate over the review\<close>

datatype review_decision = APPROVE | APPROVE_WITH_REVISIONS | REJECT

record email_review =
  rw_decision :: review_decision
  rw_fabricationRisk :: bool
  rw_subjectSpecific :: bool
  rw_subjectCuriosityGap :: bool
  rw_openingSpecific :: bool
  rw_businessRelevanceClear :: bool
  rw_urgencySupported :: bool
  rw_competitorClaimsSupported :: bool
  rw_humanStylePass :: bool
  rw_punctuationPass :: bool
  rw_singlePrimaryCta :: bool
  rw_sufficientlyPersonalized :: bool
  rw_evidenceSupported :: bool
  rw_demoAligned :: bool
  rw_persuasive :: bool
  rw_singleObservation :: bool
  rw_buyerLanguageOnly :: bool
  rw_conversationNotAudit :: bool
  rw_confidentObservation :: bool
  rw_addsClarityNotRestart :: bool
  rw_compressedNotExpanded :: bool
  rw_pressureReduced :: bool
  rw_binaryReplyClose :: bool

definition STEP_DEPENDENT_DIMENSIONS :: "(string \<times> (email_review \<Rightarrow> bool) \<times> sequence_step list) list" where
  "STEP_DEPENDENT_DIMENSIONS =
     [(''openingSpecific'', rw_openingSpecific, [None, Some Step1]),
      (''businessRelevanceClear'', rw_businessRelevanceClear, [None]),
      (''persuasive'', rw_persuasive, [None]),
      (''sufficientlyPersonalized'', rw_sufficientlyPersonalized, [None, Some Step1]),
      (''singleObservation'', rw_singleObservation, [None, Some Step1, Some Step2]),
      (''confidentObservation'', rw_confidentObservation, [None, Some Step1, Some Step2])]"

definition reviewDimensionApplies :: "string \<Rightarrow> sequence_step \<Rightarrow> bool" where
  "reviewDimensionApplies name stp =
     (case find (\<lambda>d. fst d = name) STEP_DEPENDENT_DIMENSIONS of
        Some (_, _, requiredAt) \<Rightarrow> stp \<in> set requiredAt
      | None \<Rightarrow> True)"

fun sequenceJobSatisfied :: "email_review \<Rightarrow> sequence_step \<Rightarrow> bool" where
  "sequenceJobSatisfied r None \<longleftrightarrow> True"
| "sequenceJobSatisfied r (Some Step1) \<longleftrightarrow>
     rw_addsClarityNotRestart r \<and> rw_compressedNotExpanded r \<and> rw_pressureReduced r"
| "sequenceJobSatisfied r (Some Step2) \<longleftrightarrow>
     rw_compressedNotExpanded r \<and> rw_pressureReduced r \<and> rw_addsClarityNotRestart r"
| "sequenceJobSatisfied r (Some Step3) \<longleftrightarrow>
     rw_binaryReplyClose r \<and> rw_pressureReduced r \<and> rw_compressedNotExpanded r \<and> rw_addsClarityNotRestart r"

definition isEmailReviewApprovable :: "email_review \<Rightarrow> sequence_step \<Rightarrow> bool \<Rightarrow> bool" where
  "isEmailReviewApprovable r stp subjectIsThreadContinuity \<longleftrightarrow>
     (let universal = rw_decision r = APPROVE \<and> \<not> rw_fabricationRisk r \<and> rw_urgencySupported r
            \<and> rw_competitorClaimsSupported r \<and> rw_humanStylePass r \<and> rw_punctuationPass r
            \<and> rw_singlePrimaryCta r \<and> rw_evidenceSupported r \<and> rw_demoAligned r
            \<and> rw_buyerLanguageOnly r \<and> rw_conversationNotAudit r;
          subject = subjectIsThreadContinuity \<or> rw_subjectSpecific r \<and> rw_subjectCuriosityGap r;
          copyJob = list_all (\<lambda>(_, dim, requiredAt). stp \<notin> set requiredAt \<or> dim r) STEP_DEPENDENT_DIMENSIONS
      in universal \<and> subject \<and> copyJob \<and> sequenceJobSatisfied r stp)"

section \<open>Deterministic findings and operator emails\<close>

definition DETERMINISTIC_PROHIBITED_PATTERNS :: "(regexp \<times> string) list" where
  "DETERMINISTIC_PROHIBITED_PATTERNS =
     [(re_i ''~b(can(?:no|~x27)t|cannot|unable to)~s+book~b'', ''cannot_book''),
      (re_i ''~bbooking~b[^.]*~bbroken~b'', ''booking_broken''),
      (re_i ''~b(broken|not working|doesn~x27?t work)~b'', ''broken_claim''),
      (re_i ''~blos(?:e|ing|t)~s+(patients?|customers?|clients?|leads?|business|revenue|sales)~b'', ''loss_claim''),
      (re_i ''~bmissed?~s+(appointments?|bookings?|revenue|business)~b'', ''missed_business_claim''),
      (re_i ''~bconversion(s| rate)?~b'', ''conversion_claim''),
      (re_i ''~b(revenue|sales|profit|turnover)~b'', ''revenue_claim''),
      (re_of ''~b~d+(~.~d+)?~s?%'', ''numeric_percentage''),
      (re_i ''~b(competitor|competing|rival|other (?:practices|clinics|businesses))~b'', ''competitor_claim''),
      (re_i ''~b(no|missing|lacks?|without (?:a|an)?)~s+contact form~b'', ''contact_form_absence''),
      (re_i ''~b(load[- ]?time|page speed|slow(?:ly)?|performance|latency)~b'', ''performance_claim''),
      (re_i ''~b(banner|video|carousel|slider|pop-?up)~b'', ''media_artifact_claim''),
      (re_i ''~b(guarantee[sd]?|will (?:definitely|surely)|boost|double|increase)~b'', ''performance_promise'')]"

definition findProhibitedClaims :: "string \<Rightarrow> string list" where
  "findProhibitedClaims t = map snd (filter (\<lambda>(e, _). rx_test e t) DETERMINISTIC_PROHIBITED_PATTERNS)"

definition OPERATOR_MAX_EMAIL_WORDS :: nat where
  "OPERATOR_MAX_EMAIL_WORDS = 200"

definition operator_violations :: "string \<Rightarrow> string \<Rightarrow> email_language \<Rightarrow> string list" where
  "operator_violations rawSubject rawBody language =
     (let subject = js_trim rawSubject; body = js_trim rawBody; t = js_join [CHR 0x0A] [subject, body] in
      flag (subject = []) ''empty_subject''
      @ flag (length subject > MAX_SUBJECT_LENGTH) (''subject_too_long:'' @ show_nat (length subject))
      @ flag (body = []) ''empty_body''
      @ flag (wordCount body > OPERATOR_MAX_EMAIL_WORDS) (''body_too_long:'' @ show_nat (wordCount body))
      @ flag (rx_test URL_RE t) ''contains_url''
      @ flag (rx_test METRIC_RE t) ''contains_metric_claim''
      @ flag (rx_test PERFORMANCE_RE t) ''contains_performance_claim''
      @ flag (rx_test FAKE_URGENCY_RE t) ''contains_fake_urgency''
      @ flag (rx_test UNSUPPORTED_BEHAVIOR_RE t) ''contains_unsupported_customer_behavior''
      @ flag (rx_test COMPETITOR_RE t) ''unsupported_competitor_language''
      @ flag (rx_test DEMO_MENTION_RE body) ''mentions_demo_without_approved_demo''
      @ concat (map (\<lambda>p. flag (js_includes p (js_lower t)) (''forbidden_phrase:'' @ p)) FORBIDDEN_PHRASES)
      @ flag (occurrences t CAUTIOUS_RE > 2) ''excessive_cautious_wording''
      @ flag (js_includes [CHR 0x97] t) ''contains_em_dash''
      @ flag (js_includes [CHR 0x96] t) ''contains_en_dash_separator''
      @ flag (js_includes ''--'' t) ''contains_double_hyphen''
      @ flag (rx_test REPEATED_COMMA_RE t) ''contains_repeated_commas''
      @ flag (rx_test MARKDOWN_RE body) ''contains_markdown''
      @ flag (rx_test EMOJI_RE t) ''contains_emoji''
      @ flag (length (rx_matches (re_of '':'') body) > 2) ''excessive_colons''
      @ flag (length (rx_matches (re_of '';'') body) > 1) ''semicolon_heavy''
      @ map (\<lambda>l. ''prohibited_claim:'' @ l) (findProhibitedClaims t)
      @ flag (hasForeignLanguage language [subject, body])
          (''mixed_language:expected_'' @ language_str language))"

definition validateOperatorEmail :: "string \<Rightarrow> string \<Rightarrow> email_language \<Rightarrow> bool \<times> string list" where
  "validateOperatorEmail subject body language =
     (operator_violations subject body language = [], unique (operator_violations subject body language))"

definition computeOperatorEmailHash ::
  "(string \<Rightarrow> string) \<Rightarrow> string \<Rightarrow> string \<Rightarrow> string \<Rightarrow> string \<Rightarrow> string list \<Rightarrow> string \<Rightarrow> string" where
  "computeOperatorEmailHash sha leadId findingId subject body evidenceIds rulesVersion =
     hashCanonical sha
       (JObj [(''leadId'', JStr leadId), (''deterministicFindingId'', JStr findingId), (''subject'', JStr subject),
              (''body'', JStr body), (''evidenceIds'', JArr (map JStr (string_sort evidenceIds))),
              (''rulesVersion'', JStr rulesVersion)])"

end
