(* ===== verification/Deterministic_Findings.thy ===== *)
theory Deterministic_Findings
  imports Email_Gate
begin

text \<open>
  Deterministic findings, the ones an operator approves from captured evidence without an audit
  (\<^verbatim>\<open>src/src/domain/deterministic-finding/\<close>, \<^verbatim>\<open>persistence/repositories/deterministic-finding.repo.ts\<close>,
  \<^verbatim>\<open>cli/commands/deterministic-finding-approve.ts\<close>), and the email an operator writes on such a finding
  (\<^verbatim>\<open>cli/commands/operator-email-approve.ts\<close>). A query without an order returns its rows in the order of
  insertion. Printing is left out; the file of the body is an argument, \<^verbatim>\<open>None\<close> when it cannot be read.
\<close>

section \<open>The tables\<close>

record capture_run_row =
  cr_id :: string
  cr_leadId :: string
  cr_pageSelectionPolicyVersion :: "string option"
  cr_startedAt :: int
  cr_completedAt :: "int option"

record captured_page_row =
  cp_id :: string
  cp_captureRunId :: string

record capture_evidence_row =
  ce_id :: string
  ce_capturedPageId :: string
  ce_evidenceType :: string
  ce_sourceUrl :: "string option"
  ce_extractedValue :: "string option"
  ce_normalizedValue :: "string option"

record deterministic_finding =
  df_id :: string
  df_leadId :: string
  df_captureRunId :: string
  df_category :: string
  df_findingRef :: string
  df_observation :: string
  df_recommendation :: string
  df_safeForOutreach :: bool
  df_status :: string
  df_provenance :: string
  df_approvedBy :: string
  df_approvedAt :: int
  df_templateVersion :: string
  df_rulesVersion :: string
  df_evidenceHash :: string

record finding_db = review_db +
  t_capture_runs :: "capture_run_row list"
  t_captured_pages :: "captured_page_row list"
  t_capture_evidence :: "capture_evidence_row list"
  t_deterministic_findings :: "deterministic_finding list"
  t_finding_evidence :: "(string \<times> string) list"

section \<open>Booking discovery\<close>

record evidence_row =
  ev_id :: string
  ev_leadId :: string
  ev_captureRunId :: string
  ev_evidenceType :: string
  ev_sourceUrl :: "string option"
  ev_extractedValue :: "string option"
  ev_normalizedValue :: "string option"

definition BOOKING_AWARE_PAGE_SELECTION_VERSIONS :: "string list" where
  "BOOKING_AWARE_PAGE_SELECTION_VERSIONS = [''cap-pages-2'']"

definition BOOKING_SCANNED_EVIDENCE_TYPES :: "string list" where
  "BOOKING_SCANNED_EVIDENCE_TYPES = [''cta'', ''link'', ''nav_label'', ''form'']"

definition BOOKING_KEYWORD_RE :: regexp where
  "BOOKING_KEYWORD_RE = re_i
     (''~b(book(?:ing)?|appointment|consultation|reserv(?:e|ation)|termin|buchen|rendez-?vous|''
      @ ''online[- ]?scheduling|schedule (?:an? )?(?:appointment|visit)|jetzt buchen|book online)~b'')"

definition BOOKING_PROVIDER_HOST_RE :: regexp where
  "BOOKING_PROVIDER_HOST_RE = re_i ''~b(hsone|carestack|dentalhub|dentally|zesty)~b''"

datatype discovery_status = ONLINE_BOOKING_FOUND | NO_ONLINE_BOOKING | DS_UNKNOWN

datatype signal_reason = keyword | provider_host | booking_route | booking_intent

record booking_signal =
  bs_evidenceId :: string
  bs_evidenceType :: string
  bs_reason :: signal_reason
  bs_matched :: string

datatype incomplete_reason = capture_not_booking_aware | no_captured_pages

record booking_discovery =
  bd_status :: discovery_status
  bd_signals :: "booking_signal list"
  bd_intentSignals :: "booking_signal list"
  bd_bookingAware :: bool
  bd_pageUrls :: "string list"
  bd_rowsScanned :: nat
  bd_incompleteReason :: "incomplete_reason option"

text \<open>The text between two positions of a subject.\<close>

definition between :: "pos \<Rightarrow> pos \<Rightarrow> string" where
  "between p q = take (length (snd p) - length (snd q)) (snd p)"

text \<open>The two groups of \<^verbatim>\<open>/^text=([\s\S]*?) href=([\s\S]*?)(?: tag=[a-z-]+)?$/i\<close>: the first path that
  backtracking completes through the parts of the pattern.\<close>

definition cta_groups :: "string \<Rightarrow> (string \<times> string) option" where
  "cta_groups s =
     (case concat (map (\<lambda>p1. concat (map (\<lambda>p2. concat (map (\<lambda>p3. concat (map (\<lambda>p4.
        map (\<lambda>_. (between p1 p2, between p3 p4))
          (match_ends (re_i ''(?: tag=[a-z-]+)?$'') p4))
        (match_ends (re_i ''[~s~S]*?'') p3)))
        (match_ends (re_i '' href='') p2)))
        (match_ends (re_i ''[~s~S]*?'') p1)))
        (match_ends (re_i ''^text='') (None, s))) of
        [] \<Rightarrow> None
      | g # _ \<Rightarrow> Some g)"

text \<open>The group of \<^verbatim>\<open>/action=(\S*)/i\<close>.\<close>

definition action_group :: "string \<Rightarrow> string option" where
  "action_group s =
     (case rx_find (re_i ''action='') None s of
        None \<Rightarrow> None
      | Some (_, _, p) \<Rightarrow> (case match_ends (re_i ''~S*'') p of q # _ \<Rightarrow> Some (between p q) | [] \<Rightarrow> None))"

definition text_or_empty :: "string option \<Rightarrow> string" where
  "text_or_empty x = (case x of None \<Rightarrow> [] | Some s \<Rightarrow> s)"

definition booking_parts :: "evidence_row \<Rightarrow> string \<times> string" where
  "booking_parts row =
     (let ev = text_or_empty (ev_extractedValue row); nv = text_or_empty (ev_normalizedValue row) in
      if ev_evidenceType row = ''cta''
      then (case cta_groups ev of Some (t, d) \<Rightarrow> (t, d) | None \<Rightarrow> (ev, []))
      else if ev_evidenceType row = ''link'' then ([], ev @ '' '' @ nv)
      else if ev_evidenceType row = ''form''
      then (ev, case action_group ev of Some d \<Rightarrow> d | None \<Rightarrow> [])
      else (ev, []))"

definition exec_match :: "regexp \<Rightarrow> string \<Rightarrow> string option" where
  "exec_match e s = (if s = [] then None else map_option (\<lambda>(_, found, _). js_lower found) (rx_find e None s))"

text \<open>The direct signal and the intent signal of a row; at most one of them.\<close>

definition classify_booking :: "evidence_row \<Rightarrow> booking_signal option \<times> booking_signal option" where
  "classify_booking row =
     (let (t, dest) = booking_parts row; d = js_trim dest;
          signal = (\<lambda>reason found. \<lparr>bs_evidenceId = ev_id row, bs_evidenceType = ev_evidenceType row,
                       bs_reason = reason, bs_matched = found\<rparr>)
      in case exec_match BOOKING_PROVIDER_HOST_RE d of
           Some found \<Rightarrow> (Some (signal provider_host found), None)
         | None \<Rightarrow>
             (case exec_match BOOKING_KEYWORD_RE d of
                Some found \<Rightarrow> (Some (signal booking_route found), None)
              | None \<Rightarrow>
                  (case exec_match BOOKING_KEYWORD_RE t of
                     Some found \<Rightarrow>
                       if d \<noteq> [] then (None, Some (signal booking_intent found))
                       else (Some (signal keyword found), None)
                   | None \<Rightarrow> (None, None))))"

definition discoverBooking :: "evidence_row list \<Rightarrow> string option \<Rightarrow> booking_discovery" where
  "discoverBooking runEvidence policyVersion =
     (let bookingAware = (case policyVersion of None \<Rightarrow> False | Some v \<Rightarrow> v \<in> set BOOKING_AWARE_PAGE_SELECTION_VERSIONS);
          scannable = filter (\<lambda>r. ev_evidenceType r \<in> set BOOKING_SCANNED_EVIDENCE_TYPES) runEvidence;
          signals = List.map_filter (\<lambda>r. fst (classify_booking r)) scannable;
          intents = List.map_filter (\<lambda>r. snd (classify_booking r)) scannable;
          pageUrls = unique (List.map_filter ev_sourceUrl runEvidence);
          outcome = (\<lambda>st why. \<lparr>bd_status = st, bd_signals = signals, bd_intentSignals = intents,
            bd_bookingAware = bookingAware, bd_pageUrls = pageUrls, bd_rowsScanned = length scannable,
            bd_incompleteReason = why\<rparr>)
      in if signals \<noteq> [] then outcome ONLINE_BOOKING_FOUND None
         else if \<not> bookingAware then outcome DS_UNKNOWN (Some capture_not_booking_aware)
         else if pageUrls = [] then outcome DS_UNKNOWN (Some no_captured_pages)
         else outcome NO_ONLINE_BOOKING None)"

section \<open>Templates and support\<close>

record finding_template =
  tp_category :: string
  tp_observation :: string
  tp_recommendation :: string

definition BOOKING_FRICTION :: finding_template where
  "BOOKING_FRICTION =
     \<lparr>tp_category = ''BOOKING_FRICTION'',
      tp_observation = js_text (''On the pages reviewed, the site~x27s booking controls lead to a contact page ''
        @ ''rather than a direct online scheduling flow.''),
      tp_recommendation = ''Add a direct online appointment-booking path so visitors can start scheduling ''
        @ ''on the website instead of switching to a contact form.''\<rparr>"

definition isSupportedDeterministicCategory :: "string \<Rightarrow> bool" where
  "isSupportedDeterministicCategory category \<longleftrightarrow> category = ''BOOKING_FRICTION''"

definition getDeterministicTemplate :: "string \<Rightarrow> finding_template option" where
  "getDeterministicTemplate category =
     (if isSupportedDeterministicCategory category then Some BOOKING_FRICTION else None)"

definition DETERMINISTIC_EVIDENCE_MAX_AGE_DAYS :: int where
  "DETERMINISTIC_EVIDENCE_MAX_AGE_DAYS = 30"

definition captureAgeInDays :: "int \<Rightarrow> int \<Rightarrow> int" where
  "captureAgeInDays capturedAt now = (now - capturedAt) div (24 * 60 * 60 * 1000)"

definition isCaptureFresh :: "int \<Rightarrow> int \<Rightarrow> bool" where
  "isCaptureFresh capturedAt now \<longleftrightarrow> captureAgeInDays capturedAt now < DETERMINISTIC_EVIDENCE_MAX_AGE_DAYS"

definition supportBookingFriction :: "evidence_row list \<Rightarrow> evidence_row list \<Rightarrow> string option \<Rightarrow> string list" where
  "supportBookingFriction citedEvidence runEvidence policyVersion =
     (let discovery = discoverBooking runEvidence policyVersion;
          intentIds = map bs_evidenceId (bd_intentSignals discovery);
          citedIntent = filter (\<lambda>r. ev_id r \<in> set intentIds) citedEvidence
      in flag (bd_status discovery = ONLINE_BOOKING_FOUND) ''direct_booking_signal_present''
         @ flag (bd_status discovery = DS_UNKNOWN) ''booking_discovery_incomplete''
         @ (if bd_intentSignals discovery = [] then [''booking_intent_absent'']
            else flag (citedIntent = []) ''cited_evidence_not_booking_intent''))"

definition evaluateCategorySupport ::
  "string \<Rightarrow> evidence_row list \<Rightarrow> evidence_row list \<Rightarrow> string option \<Rightarrow> string list" where
  "evaluateCategorySupport category citedEvidence runEvidence policyVersion =
     (if category = ''BOOKING_FRICTION'' then supportBookingFriction citedEvidence runEvidence policyVersion
      else [''category_unsupported''])"

section \<open>Validation\<close>

record capture_run_ref =
  rf_id :: string
  rf_completedAt :: int
  rf_pageSelectionPolicyVersion :: "string option"

record approval_input =
  ai_leadId :: string
  ai_category :: string
  ai_operator :: string
  ai_now :: int
  ai_findingId :: string
  ai_requestedEvidenceIds :: "string list"
  ai_captureRun :: "capture_run_ref option"
  ai_citedEvidence :: "evidence_row list"
  ai_runEvidence :: "evidence_row list"
  ai_activeCategories :: "string list"

definition DETERMINISTIC_FINDING_RULES_VERSION :: string where
  "DETERMINISTIC_FINDING_RULES_VERSION = ''det-find-2''"

definition DETERMINISTIC_FINDING_TEMPLATE_VERSION :: string where
  "DETERMINISTIC_FINDING_TEMPLATE_VERSION = ''det-tmpl-2''"

definition DETERMINISTIC_FINDING_PROVENANCE :: string where
  "DETERMINISTIC_FINDING_PROVENANCE = ''DETERMINISTIC_OPERATOR_APPROVED''"

definition computeDeterministicFindingHash ::
  "digest \<Rightarrow> string \<Rightarrow> string \<Rightarrow> string \<Rightarrow> string list \<Rightarrow> string" where
  "computeDeterministicFindingHash sha leadId category captureRunId evidenceIds =
     hashCanonical sha
       (JObj [(''leadId'', JStr leadId), (''category'', JStr category), (''captureRunId'', JStr captureRunId),
              (''evidenceIds'', JArr (map JStr (string_sort evidenceIds))),
              (''templateVersion'', JStr DETERMINISTIC_FINDING_TEMPLATE_VERSION),
              (''rulesVersion'', JStr DETERMINISTIC_FINDING_RULES_VERSION)])"

text \<open>The row of an id in a map built from the cited rows: the last one.\<close>

definition cited_row :: "approval_input \<Rightarrow> string \<Rightarrow> evidence_row option" where
  "cited_row input i = find (\<lambda>r. ev_id r = i) (rev (ai_citedEvidence input))"

definition in_run :: "approval_input \<Rightarrow> evidence_row \<Rightarrow> bool" where
  "in_run input r \<longleftrightarrow> (case ai_captureRun input of None \<Rightarrow> False | Some run \<Rightarrow> ev_captureRunId r = rf_id run)"

definition requested_ids :: "approval_input \<Rightarrow> string list" where
  "requested_ids input = unique (ai_requestedEvidenceIds input)"

definition evidence_violation :: "approval_input \<Rightarrow> string \<Rightarrow> string list" where
  "evidence_violation input i =
     (case cited_row input i of
        None \<Rightarrow> [''evidence_missing:'' @ i]
      | Some r \<Rightarrow>
          if ev_leadId r \<noteq> ai_leadId input then [''evidence_foreign:'' @ i]
          else flag (ai_captureRun input \<noteq> None \<and> \<not> in_run input r) (''evidence_wrong_run:'' @ i))"

definition valid_cited :: "approval_input \<Rightarrow> evidence_row list" where
  "valid_cited input =
     filter (\<lambda>r. ev_leadId r = ai_leadId input \<and> in_run input r)
       (List.map_filter (cited_row input) (requested_ids input))"

definition finding_violations :: "approval_input \<Rightarrow> string list" where
  "finding_violations input =
     (let supported = isSupportedDeterministicCategory (ai_category input) in
      flag (\<not> supported) ''category_unsupported''
      @ flag (requested_ids input = []) ''no_evidence''
      @ flag (ai_captureRun input = None) ''no_capture_run''
      @ concat (map (evidence_violation input) (requested_ids input))
      @ (case ai_captureRun input of
           None \<Rightarrow> [] | Some run \<Rightarrow> flag (\<not> isCaptureFresh (rf_completedAt run) (ai_now input)) ''capture_stale'')
      @ (if supported
         then evaluateCategorySupport (ai_category input) (valid_cited input) (ai_runEvidence input)
                (Option.bind (ai_captureRun input) rf_pageSelectionPolicyVersion)
         else [])
      @ (case getDeterministicTemplate (ai_category input) of
           None \<Rightarrow> []
         | Some t \<Rightarrow> map (\<lambda>l. ''prohibited_claim:'' @ l)
             (findProhibitedClaims (tp_observation t @ '' '' @ tp_recommendation t)))
      @ flag (ai_category input \<in> set (ai_activeCategories input)) ''duplicate_active_finding'')"

definition approved_finding :: "approval_input \<Rightarrow> capture_run_ref \<Rightarrow> finding_template \<Rightarrow> string \<Rightarrow> deterministic_finding" where
  "approved_finding input run t h =
     \<lparr>df_id = ai_findingId input, df_leadId = ai_leadId input, df_captureRunId = rf_id run,
      df_category = tp_category t, df_findingRef = ''D1'', df_observation = tp_observation t,
      df_recommendation = tp_recommendation t, df_safeForOutreach = True, df_status = ''ACTIVE'',
      df_provenance = DETERMINISTIC_FINDING_PROVENANCE, df_approvedBy = ai_operator input,
      df_approvedAt = ai_now input, df_templateVersion = DETERMINISTIC_FINDING_TEMPLATE_VERSION,
      df_rulesVersion = DETERMINISTIC_FINDING_RULES_VERSION, df_evidenceHash = h\<rparr>"

text \<open>The violations, or the finding with the ids of its evidence.\<close>

definition validateDeterministicFinding ::
  "digest \<Rightarrow> approval_input \<Rightarrow> string list + deterministic_finding \<times> string list" where
  "validateDeterministicFinding sha input =
     (case (finding_violations input, getDeterministicTemplate (ai_category input), ai_captureRun input) of
        ([], Some t, Some run) \<Rightarrow>
          (let ids = requested_ids input;
               h = computeDeterministicFindingHash sha (ai_leadId input) (ai_category input) (rf_id run) ids
           in if computeDeterministicFindingHash sha (ai_leadId input) (ai_category input) (rf_id run) (rev ids) \<noteq> h
              then Inl [''hash_not_reproducible'']
              else Inr (approved_finding input run t h, ids))
      | (vs, _, _) \<Rightarrow> Inl (unique vs))"

section \<open>The repository\<close>

text \<open>The rows of the captured evidence with the run and the lead they belong to.\<close>

definition evidence_rows :: "'a finding_db_scheme \<Rightarrow> evidence_row list" where
  "evidence_rows s = concat (map (\<lambda>e. concat (map (\<lambda>p.
     map (\<lambda>r. \<lparr>ev_id = ce_id e, ev_leadId = cr_leadId r, ev_captureRunId = cp_captureRunId p,
              ev_evidenceType = ce_evidenceType e, ev_sourceUrl = ce_sourceUrl e,
              ev_extractedValue = ce_extractedValue e, ev_normalizedValue = ce_normalizedValue e\<rparr>)
       (filter (\<lambda>r. cr_id r = cp_captureRunId p) (t_capture_runs s)))
     (filter (\<lambda>p. cp_id p = ce_capturedPageId e) (t_captured_pages s)))) (t_capture_evidence s))"

definition latestCaptureRun :: "'a finding_db_scheme \<Rightarrow> string \<Rightarrow> capture_run_ref option" where
  "latestCaptureRun s lid =
     (case latest_by cr_startedAt
             (filter (\<lambda>r. cr_leadId r = lid \<and> cr_completedAt r \<noteq> None) (t_capture_runs s)) of
        None \<Rightarrow> None
      | Some r \<Rightarrow> map_option (\<lambda>t. \<lparr>rf_id = cr_id r, rf_completedAt = t,
          rf_pageSelectionPolicyVersion = cr_pageSelectionPolicyVersion r\<rparr>) (cr_completedAt r))"

definition loadCitedEvidence :: "'a finding_db_scheme \<Rightarrow> string list \<Rightarrow> evidence_row list" where
  "loadCitedEvidence s ids = filter (\<lambda>r. ev_id r \<in> set ids) (evidence_rows s)"

definition loadRunEvidence :: "'a finding_db_scheme \<Rightarrow> string \<Rightarrow> evidence_row list" where
  "loadRunEvidence s runId = filter (\<lambda>r. ev_captureRunId r = runId) (evidence_rows s)"

definition active_finding :: "string \<Rightarrow> deterministic_finding \<Rightarrow> bool" where
  "active_finding lid f \<longleftrightarrow> df_leadId f = lid \<and> df_status f = ''ACTIVE''"

definition listActiveCategories :: "'a finding_db_scheme \<Rightarrow> string \<Rightarrow> string list" where
  "listActiveCategories s lid = map df_category (filter (active_finding lid) (t_deterministic_findings s))"

definition listActiveComposerFindings :: "'a finding_db_scheme \<Rightarrow> string \<Rightarrow> deterministic_finding list" where
  "listActiveComposerFindings s lid =
     sort_key (\<lambda>f. - df_approvedAt f) (filter (active_finding lid) (t_deterministic_findings s))"

definition listFindingEvidenceIds :: "'a finding_db_scheme \<Rightarrow> string \<Rightarrow> string list" where
  "listFindingEvidenceIds s fid = map snd (filter (\<lambda>l. fst l = fid) (t_finding_evidence s))"

text \<open>The rows of a finding and of its evidence; the statements fail on a taken key or a missing row.\<close>

definition insert_finding_row :: "deterministic_finding \<Rightarrow> ('a finding_db_scheme, unit) prog" where
  "insert_finding_row f s =
     (if list_ex (\<lambda>r. df_id r = df_id f) (t_deterministic_findings s)
      then (Inl (UniqueViolation ''deterministic_findings_pkey''), s)
      else if df_status f = ''ACTIVE''
        \<and> list_ex (\<lambda>r. active_finding (df_leadId f) r \<and> df_category r = df_category f) (t_deterministic_findings s)
      then (Inl (UniqueViolation ''deterministic_findings_active_uk''), s)
      else if \<not> lead_exists s (df_leadId f)
      then (Inl (ForeignKeyViolation ''deterministic_findings.lead_id''), s)
      else if \<not> list_ex (\<lambda>r. cr_id r = df_captureRunId f) (t_capture_runs s)
      then (Inl (ForeignKeyViolation ''deterministic_findings.capture_run_id''), s)
      else (Inr (), s\<lparr>t_deterministic_findings := t_deterministic_findings s @ [f]\<rparr>))"

definition insert_evidence_links :: "string \<Rightarrow> string list \<Rightarrow> ('a finding_db_scheme, unit) prog" where
  "insert_evidence_links fid ids s =
     (let links = map (Pair fid) (unique ids) in
      if links = [] then (Inr (), s)
      else if list_ex (\<lambda>l. l \<in> set (t_finding_evidence s)) links
      then (Inl (UniqueViolation ''deterministic_finding_evidence_pkey''), s)
      else if \<not> list_all (\<lambda>i. list_ex (\<lambda>e. ce_id e = i) (t_capture_evidence s)) ids
      then (Inl (ForeignKeyViolation ''deterministic_finding_evidence.capture_evidence_id''), s)
      else (Inr (), s\<lparr>t_finding_evidence := t_finding_evidence s @ links\<rparr>))"

definition insertApproved :: "deterministic_finding \<Rightarrow> string list \<Rightarrow> ('a finding_db_scheme, unit) prog" where
  "insertApproved f ids = then_p (insert_finding_row f) (insert_evidence_links (df_id f) ids)"

section \<open>Approving a finding\<close>

datatype finding_result =
    FD_REFUSED "string list"
  | FD_PREVIEW deterministic_finding
  | FD_PERSISTED deterministic_finding

definition approval_note :: "string \<Rightarrow> lead_status \<Rightarrow> lead_status \<Rightarrow> string \<Rightarrow> json \<Rightarrow> new_pipeline_event" where
  "approval_note lid src dst msg d =
     \<lparr>pv_leadId = Some lid, pv_runId = None, pv_type = pipeline_event_type.NOTE, pv_fromStatus = Some src,
      pv_toStatus = Some dst, pv_message = Some msg, pv_data = d\<rparr>"

definition finding_note :: "string \<Rightarrow> string \<Rightarrow> deterministic_finding \<Rightarrow> string list \<Rightarrow> new_pipeline_event" where
  "finding_note lid operator f ids =
     approval_note lid NEEDS_MANUAL_REVIEW OUTREACH_READY_DETERMINISTIC
       (''deterministic finding approved: '' @ df_category f @ '' (by '' @ operator @ '')'')
       (JObj [(''provenance'', JStr DETERMINISTIC_FINDING_PROVENANCE), (''deterministicFindingId'', JStr (df_id f)),
              (''category'', JStr (df_category f)), (''evidenceIds'', JArr (map JStr ids)),
              (''evidenceHash'', JStr (df_evidenceHash f)), (''captureRunId'', JStr (df_captureRunId f)),
              (''rulesVersion'', JStr (df_rulesVersion f)), (''templateVersion'', JStr (df_templateVersion f)),
              (''operator'', JStr operator)])"

definition persist_finding ::
  "string \<Rightarrow> string \<Rightarrow> deterministic_finding \<Rightarrow> string list \<Rightarrow> ('a finding_db_scheme, finding_result) prog" where
  "persist_finding lid operator f ids = lead_tx
     (then_p (insertApproved f ids)
     (then_p (then_p (lead_transition lid OUTREACH_READY_DETERMINISTIC) (return_p ()))
     (then_p (record_event (finding_note lid operator f ids))
     (return_p (FD_PERSISTED f)))))"

definition parseEvidenceIds :: "string \<Rightarrow> string list" where
  "parseEvidenceIds raw = unique (filter (\<lambda>i. i \<noteq> []) (map js_trim (rx_split (re_of '','') raw)))"

definition finding_input ::
  "'a finding_db_scheme \<Rightarrow> string \<Rightarrow> string \<Rightarrow> string \<Rightarrow> string list \<Rightarrow> int \<Rightarrow> string \<Rightarrow> approval_input" where
  "finding_input s lid category operator ids now fid =
     (let run = latestCaptureRun s lid in
      \<lparr>ai_leadId = lid, ai_category = category, ai_operator = operator, ai_now = now, ai_findingId = fid,
       ai_requestedEvidenceIds = ids, ai_captureRun = run, ai_citedEvidence = loadCitedEvidence s ids,
       ai_runEvidence = (case run of None \<Rightarrow> [] | Some r \<Rightarrow> loadRunEvidence s (rf_id r)),
       ai_activeCategories = listActiveCategories s lid\<rparr>)"

definition approve_checked ::
  "digest \<Rightarrow> string \<Rightarrow> string \<Rightarrow> string \<Rightarrow> string list \<Rightarrow> bool \<Rightarrow> ('a finding_db_scheme, finding_result) prog" where
  "approve_checked sha lid category operator ids confirm =
     bind_p (lead_getById lid) (\<lambda>found.
     case found of
       None \<Rightarrow> throw_p (AppError ''LEAD_NOT_FOUND'' (''Lead '' @ lid @ '' not found; refusing to approve.''))
     | Some l \<Rightarrow>
         if ld_status l \<noteq> NEEDS_MANUAL_REVIEW
         then throw_p (AppError ''LEAD_NOT_APPROVABLE''
           (''Lead is '' @ lead_status_str (ld_status l)
             @ ''; a deterministic finding can only be approved from NEEDS_MANUAL_REVIEW.''))
         else bind_p (read_p (\<lambda>s. s)) (\<lambda>s.
           bind_p readClock (\<lambda>now. bind_p newUUID (\<lambda>fid.
           case validateDeterministicFinding sha (finding_input s lid category operator ids now fid) of
             Inl vs \<Rightarrow> return_p (FD_REFUSED vs)
           | Inr (f, cited) \<Rightarrow>
               if \<not> confirm then return_p (FD_PREVIEW f) else persist_finding lid operator f cited))))"

definition deterministicFindingApproveCommand ::
  "digest \<Rightarrow> string option \<Rightarrow> string option \<Rightarrow> string option \<Rightarrow> string option \<Rightarrow> bool
   \<Rightarrow> ('a finding_db_scheme, finding_result) prog" where
  "deterministicFindingApproveCommand sha leadOpt categoryOpt evidenceOpt byOpt confirm =
     bind_p (required_option ''LEAD_REQUIRED'' ''--lead <id> is required (exactly one lead; no bulk fallback).'' leadOpt) (\<lambda>lid.
     bind_p (required_option ''CATEGORY_REQUIRED'' ''--category <CATEGORY> is required.'' categoryOpt) (\<lambda>category.
     bind_p (required_option ''EVIDENCE_REQUIRED'' ''--evidence <id,id,...> is required.'' evidenceOpt) (\<lambda>raw.
     bind_p (required_option ''OPERATOR_REQUIRED'' ''--by <operator> is required.'' byOpt) (\<lambda>operator.
     approve_checked sha lid category operator (parseEvidenceIds raw) confirm))))"

section \<open>The email of an operator\<close>

datatype operator_email_result = OE_REFUSED "string list" | OE_PREVIEW string | OE_PERSISTED string

definition OPERATOR_EMAIL_RULES_VERSION :: string where
  "OPERATOR_EMAIL_RULES_VERSION = ''operator-email-1''"

definition EMAIL_SCHEMA_VERSION :: string where
  "EMAIL_SCHEMA_VERSION = ''email-copy-schema-5''"

definition operator_row :: "string \<Rightarrow> string \<Rightarrow> string \<Rightarrow> string \<Rightarrow> int \<Rightarrow> email_draft" where
  "operator_row eid lid subject body now =
     \<lparr>ed_id = eid, ed_leadId = lid, ed_demoId = None, ed_runId = None, ed_subject = subject, ed_body = body,
      ed_ctaKind = ''reply'', ed_hasDemoUrlPlaceholder = False, ed_status = ''APPROVED'',
      ed_writerPromptVersion = ''OPERATOR'', ed_reviewerPromptVersion = ''OPERATOR'',
      ed_schemaVersion = EMAIL_SCHEMA_VERSION, ed_rulesVersion = OPERATOR_EMAIL_RULES_VERSION,
      ed_provider = ''operator'', ed_requestedWriterModel = ''OPERATOR'', ed_requestedReviewerModel = ''OPERATOR'',
      ed_writerResponseId = None, ed_reviewerResponseId = None, ed_reviewerDecision = None,
      ed_fabricationRisk = None, ed_personalizationSupported = None, ed_claimHonest = None,
      ed_reviewerProblems = None, ed_totalCostUsd = 0, ed_authorship = ''OPERATOR'', ed_sequenceStep = 0,
      ed_outreachRecordId = None, ed_humanDecision = None, ed_humanNotes = None, ed_humanReviewedAt = None,
      ed_humanReviewedBy = None, ed_createdAt = now\<rparr>"

definition insertOperatorEmail ::
  "string \<Rightarrow> string \<Rightarrow> string \<Rightarrow> string \<Rightarrow> ('a finding_db_scheme, unit) prog" where
  "insertOperatorEmail eid lid subject body = bind_p readClock (\<lambda>now s.
     if list_ex (\<lambda>e. ed_id e = eid) (t_email_drafts s) then (Inl (UniqueViolation ''email_drafts_pkey''), s)
     else if \<not> lead_exists s lid then (Inl (ForeignKeyViolation ''email_drafts.lead_id''), s)
     else (Inr (), s\<lparr>t_email_drafts := t_email_drafts s @ [operator_row eid lid subject body now]\<rparr>))"

definition operator_email_note ::
  "string \<Rightarrow> string \<Rightarrow> string \<Rightarrow> deterministic_finding \<Rightarrow> string list \<Rightarrow> string \<Rightarrow> new_pipeline_event" where
  "operator_email_note lid operator eid f evidenceIds h =
     approval_note lid OUTREACH_READY_DETERMINISTIC READY_FOR_HUMAN_APPROVAL
       (''operator-authored email persisted: '' @ df_category f @ '' (by '' @ operator @ '')'')
       (JObj [(''authorship'', JStr ''OPERATOR''), (''emailId'', JStr eid), (''deterministicFindingId'', JStr (df_id f)),
              (''evidenceIds'', JArr (map JStr evidenceIds)), (''messageHash'', JStr h),
              (''rulesVersion'', JStr OPERATOR_EMAIL_RULES_VERSION), (''operator'', JStr operator)])"

definition persist_operator_email ::
  "string \<Rightarrow> string \<Rightarrow> string \<Rightarrow> string \<Rightarrow> string \<Rightarrow> deterministic_finding \<Rightarrow> string list \<Rightarrow> string
   \<Rightarrow> ('a finding_db_scheme, operator_email_result) prog" where
  "persist_operator_email lid operator eid subject body f evidenceIds h = lead_tx
     (then_p (insertOperatorEmail eid lid subject body)
     (then_p (then_p (lead_transition lid READY_FOR_HUMAN_APPROVAL) (return_p ()))
     (then_p (record_event (operator_email_note lid operator eid f evidenceIds h))
     (return_p (OE_PERSISTED eid)))))"

definition operator_email_checked ::
  "digest \<Rightarrow> string \<Rightarrow> string \<Rightarrow> string \<Rightarrow> string \<Rightarrow> string \<Rightarrow> bool
   \<Rightarrow> ('a finding_db_scheme, operator_email_result) prog" where
  "operator_email_checked sha lid fid subject body operator confirm =
     bind_p (lead_getById lid) (\<lambda>found.
     case found of
       None \<Rightarrow> throw_p (AppError ''LEAD_NOT_FOUND'' (''Lead '' @ lid @ '' not found; refusing to approve.''))
     | Some l \<Rightarrow>
         if ld_status l \<noteq> OUTREACH_READY_DETERMINISTIC
         then throw_p (AppError ''LEAD_NOT_APPROVABLE''
           (''Lead is '' @ lead_status_str (ld_status l)
             @ ''; an operator email can only be approved from OUTREACH_READY_DETERMINISTIC.''))
         else bind_p (read_p (\<lambda>s. s)) (\<lambda>s.
           case find (\<lambda>f. df_id f = fid) (listActiveComposerFindings s lid) of
             None \<Rightarrow> throw_p (AppError ''FINDING_NOT_ACTIVE''
               (''Finding '' @ fid @ '' is not an ACTIVE deterministic finding for lead '' @ lid @ ''.''))
           | Some f \<Rightarrow>
               let evidenceIds = listFindingEvidenceIds s fid;
                   facts = filter (\<lambda>r. ff_leadId r = lid \<and> ff_isCurrent r) (t_lead_facts s);
                   verdict = validateOperatorEmail subject body (resolveEmailLanguage facts) in
               if \<not> fst verdict then return_p (OE_REFUSED (snd verdict))
               else bind_p newUUID (\<lambda>eid.
                 if \<not> confirm then return_p (OE_PREVIEW eid)
                 else persist_operator_email lid operator eid subject body f evidenceIds
                   (computeOperatorEmailHash sha lid fid subject body evidenceIds OPERATOR_EMAIL_RULES_VERSION))))"

text \<open>The subject and the body are kept as given; only their emptiness is judged on the trimmed text.\<close>

definition operatorEmailApproveCommand ::
  "digest \<Rightarrow> (string \<Rightarrow> string option) \<Rightarrow> string option \<Rightarrow> string option \<Rightarrow> string option \<Rightarrow> string option \<Rightarrow> string option
   \<Rightarrow> bool \<Rightarrow> ('a finding_db_scheme, operator_email_result) prog" where
  "operatorEmailApproveCommand sha readFile leadOpt findingOpt subjectOpt bodyFileOpt byOpt confirm =
     bind_p (required_option ''LEAD_REQUIRED'' ''--lead <id> is required (exactly one lead; no bulk fallback).'' leadOpt) (\<lambda>lid.
     bind_p (required_option ''FINDING_REQUIRED'' ''--finding <deterministic-finding-id> is required.'' findingOpt) (\<lambda>fid.
     bind_p (required_option ''SUBJECT_REQUIRED'' ''--subject <text> is required.'' subjectOpt) (\<lambda>_.
     bind_p (required_option ''BODY_FILE_REQUIRED'' ''--body-file <path> is required (exact body text).'' bodyFileOpt) (\<lambda>path.
     bind_p (required_option ''OPERATOR_REQUIRED'' ''--by <operator> is required.'' byOpt) (\<lambda>operator.
     case readFile path of
       None \<Rightarrow> throw_p (AppError ''BODY_FILE_UNREADABLE'' (''Could not read --body-file '' @ path @ ''.''))
     | Some body \<Rightarrow> operator_email_checked sha lid fid (text_or_empty subjectOpt) body operator confirm)))))"

end
