(* ===== verification/Spec2Isabelle.thy ===== *)
theory Spec2Isabelle
  imports Followup_Runners Outreach_Effects Core_Claims Scheduler Lead_Claims Send_Steps Scheduled_Claims Qualification_Claims Gmail_Claims Review_Claims Deterministic_Findings
begin

text \<open>
  Automation Suite finds business leads, collects facts about them, prepares one human-approved email per
  lead, schedules and sends it under strict controls, and then tracks the outreach: replies, bounces,
  do-not-contact requests and up to three follow-ups. The source is TypeScript over a PostgreSQL
  database; this development models the part of it in which the program decides what may happen to a
  lead, an email and a contact, and leaves the language models, crawlers and web pages alone.

  \<^bold>\<open>Parts and how they interact.\<close> A collection run turns provider pages into leads and facts
  (\<^verbatim>\<open>src/src/pipeline/collect-leads.ts\<close>). A lead moves through the statuses of
  \<^verbatim>\<open>src/src/domain/leads/state-machine.ts\<close> by the lead service, which writes the audit events. A human
  reviews demos, emails and finalized copies (\<^verbatim>\<open>src/src/domain/review\<close>), and approved copies become drafts at
  the mail provider (\<^verbatim>\<open>src/src/domain/gmail\<close>). A created draft gets a slot from the scheduler (\<^verbatim>\<open>src/src/domain/schedule\<close>), in the recipient's time zone. The
  send service (\<^verbatim>\<open>src/src/domain/send\<close>) checks everything again, reserves an attempt, dispatches the draft
  and records the outcome; the operator recovers and reconciles uncertain attempts. A confirmed send is
  enrolled in outreach (\<^verbatim>\<open>src/src/domain/outreach\<close>), whose service keeps the record, its timeline and the
  follow-ups; the unattended runs promote, prepare and progress follow-ups, and reply detection ends a
  sequence.

  \<^bold>\<open>Theories.\<close>
  \<^item> \<^verbatim>\<open>Prelude\<close>: the JavaScript strings, errors as values, transactions as functions from a state to an
    error or a result with a new state, tables as lists of rows. \<^verbatim>\<open>Programs\<close>: programs whose statements
    commit one by one, with transactions that roll back, and the frames they keep (locales
    \<^verbatim>\<open>prog_frame\<close>, \<^verbatim>\<open>prog_system\<close>). \<^verbatim>\<open>Unit_of_Work\<close>: the same for transactional services (\<^verbatim>\<open>frame\<close>,
    \<^verbatim>\<open>event_log\<close>, \<^verbatim>\<open>command_system\<close>).
  \<^item> \<^verbatim>\<open>Calendar\<close>, \<^verbatim>\<open>Timezone\<close>, \<^verbatim>\<open>Scheduler\<close>: civil dates, the conversions of \<^verbatim>\<open>schedule/timezone.ts\<close>, and the
    slot search of \<^verbatim>\<open>schedule/scheduler.ts\<close>.
  \<^item> \<^verbatim>\<open>Lifecycle\<close> (a locale for status machines), \<^verbatim>\<open>Lead_Machine\<close>, \<^verbatim>\<open>Outreach_Machine\<close>: the two status tables.
  \<^item> \<^verbatim>\<open>Leads\<close>, \<^verbatim>\<open>Lead_Facts\<close>, \<^verbatim>\<open>Collection\<close>: normal forms, deduplication, the lead service, facts with their
    supersession, the collection run. \<^verbatim>\<open>Lead_History\<close>, \<^verbatim>\<open>Lead_Claims\<close>: what every sequence of these
    operations keeps, and their properties.
  \<^item> \<^verbatim>\<open>Outreach_Store\<close>, \<^verbatim>\<open>Outreach_Service\<close>: the outreach tables with their constraints, and every operation of
    \<^verbatim>\<open>OutreachService\<close>. \<^verbatim>\<open>Outreach_Refinement\<close>, \<^verbatim>\<open>Outreach_Simulation\<close>: an abstract machine per record and the
    proof that every operation is a sequence of its steps. \<^verbatim>\<open>Outreach_Properties\<close>, \<^verbatim>\<open>Outreach_Claims\<close>,
    \<^verbatim>\<open>Outreach_Operations\<close>, \<^verbatim>\<open>Outreach_Effects\<close>: what follows along every sequence of operations and for the
    single ones.
  \<^item> \<^verbatim>\<open>Followups\<close>, \<^verbatim>\<open>Followup_Runners\<close>, \<^verbatim>\<open>Replies\<close>: the decisions about follow-ups, the three runs, and the
    classification and selection of replies. \<^verbatim>\<open>Core_Claims\<close>: the properties of the parts without state.
  \<^item> \<^verbatim>\<open>Send_Gate\<close>, \<^verbatim>\<open>Send_Store\<close>, \<^verbatim>\<open>Schedule_Service\<close>, \<^verbatim>\<open>Send_Service\<close>, \<^verbatim>\<open>Send_Admin\<close>: the gates and envelopes, the
    tables with their unique indexes, and the operations of scheduling, sending and reconciliation.
    \<^verbatim>\<open>Send_Eligibility\<close>, \<^verbatim>\<open>Send_Effects\<close>: what the gate lets through and what a send leaves behind.
    \<^verbatim>\<open>Send_Steps\<close>: any number of senders whose phases interleave, with crashes, recovery and reconciliation.
  \<^item> \<^verbatim>\<open>Authorizations\<close>, \<^verbatim>\<open>Enrollment\<close>, \<^verbatim>\<open>Scheduled_Run\<close>: the authorization of automated sending, the bridge from a
    confirmed send to outreach, and the automated run with its wiring, over the joined database.
    \<^verbatim>\<open>Scheduled_Claims\<close>: the contract of its effects (locale \<^verbatim>\<open>scheduled_effects\<close>) and its properties.
  \<^item> \<^verbatim>\<open>Suppressions\<close>: the normal forms of suppressed identities, the suppression list with its audited
    administration, and what the checks recognise along every sequence of additions and revocations
    (locale \<^verbatim>\<open>suppression_commands\<close>).
  \<^item> \<^verbatim>\<open>Canonical\<close>: canonical JSON, which does not depend on the order of keys. \<^verbatim>\<open>Qualification\<close>,
    \<^verbatim>\<open>Qualification_Claims\<close>: the rules and the evaluation of a lead's facts, its unit of work and the run; the
    exact decision, the thresholds of the shipped rules, and that the unit of work succeeds.
  \<^item> \<^verbatim>\<open>Mime\<close>: UTF-8, base64 and the message, with decoders that say what a receiver reads. \<^verbatim>\<open>Gmail\<close>,
    \<^verbatim>\<open>Gmail_Claims\<close>: the gate, the reservation and the creation of drafts, and what any sequence of calls
    keeps (locale \<^verbatim>\<open>draft_frame\<close>). \<^verbatim>\<open>Review\<close>, \<^verbatim>\<open>Review_Claims\<close>: the human decisions and the finalization of
    replies, and the invariants of the copies over any sequence of commands.

  \<^bold>\<open>How the state is represented.\<close> A table is the list of its rows in insertion order; a query that does not
  fix an order returns rows in that order. Primary keys, unique indexes, foreign keys and checks the code
  relies on are guards of the insert or update. Instants are integers (milliseconds), identifiers and
  texts are strings, coordinates and confidences rational numbers. Random identifiers come from a
  function from numbers to strings, and the clock from a function from readings to instants, both of
  which the theorems leave arbitrary. A transaction that throws restores the tables. The column
  \<^verbatim>\<open>updated_at\<close> is kept where the code reads it.

  \<^bold>\<open>Parameters.\<close> The digest of the platform; the zone database (\<^verbatim>\<open>intl\<close>), with its documented laws as
  named hypotheses where a theorem needs them; the distance between two coordinates; the decimal text of
  a number; \<^verbatim>\<open>Date.parse\<close>; the answers of the mail provider; whether the database driver exposes the
  SQLSTATE of a failed statement where the code looks for it; the stages and the writer of the follow-up
  runs.

  \<^bold>\<open>Bounds.\<close> Every loop over a list is a recursion on it. The slot search steps through the minutes of a day
  by the configured spacing and may not end when the spacing is not positive; it is a partial function,
  and its theorems are about a positive spacing, for which it is shown to end. No fuel is used elsewhere.

  \<^bold>\<open>Not modelled.\<close> Crawling, capture, audits, enrichment, competitor search, demo generation, the email
  writer and its review, the calls to language models, the dashboards, the command line, configuration
  and logging: they are input and output, prompts, HTML and third-party services around the decisions
  modelled here.
\<close>

end
